(* ===== verification/Bladerf_Prelude.thy ===== *)
theory Bladerf_Prelude
  imports Main "HOL-Library.Word"
begin

unbundle bit_operations_syntax

text \<open>
  Shared vocabulary of the development: the machine integer types, the library's
  return codes, the effect type of code that talks to a device, and the lemmas on
  words, bytes and lists that every component uses.

  The host library returns an \<open>int\<close> status from every fallible function: zero for
  success and one of the negative \<open>BLADERF_ERR_*\<close> codes of
  \<^verbatim>\<open>libbladeRF.h\<close> otherwise. Results are therefore values of
  \<open>'a outcome\<close>: the success value, an error code, or \<open>Undef\<close> where the C code has
  no defined behaviour or aborts in a (release) \<open>assert\<close>. \<open>Undef\<close> is never caught:
  error handling code (\<open>goto error\<close>, restore paths) only runs after an \<open>Err\<close>.
\<close>

section \<open>Machine integers\<close>

type_synonym u8 = "8 word"
type_synonym u16 = "16 word"
type_synonym u32 = "32 word"
type_synonym u64 = "64 word"

named_theorems wordfacts \<open>equations on bytes and masks used by component proofs\<close>
named_theorems iosimps \<open>symbolic execution of device effects\<close>

definition byte_of :: "nat \<Rightarrow> 'a::len word \<Rightarrow> u8" where
  \<comment> \<open>\<^verbatim>\<open>(w >> 8*i) & 0xff\<close>, narrowed to \<^verbatim>\<open>uint8_t\<close>\<close>
  "byte_of i w = ucast (drop_bit (8 * i) w)"

lemma bit_byte_of [wordfacts]:
  fixes w :: "'a::len word"
  shows "bit (byte_of i w) n \<longleftrightarrow> n < 8 \<and> bit w (8 * i + n)"
  by (auto simp: byte_of_def bit_simps dest: bit_imp_le_length)

lemma bit_push_byte:
  fixes w :: "'a::len word"
  shows "bit (push_bit (8 * i) (ucast (byte_of i w) :: 'a word)) n \<longleftrightarrow>
         8 * i \<le> n \<and> n < 8 * i + 8 \<and> bit w n"
proof (cases "8 * i \<le> n")
  case True
  then have "8 * i + (n - 8 * i) = n" by simp
  with True show ?thesis
    by (auto simp: bit_simps bit_byte_of dest: bit_imp_le_length)
qed (simp add: bit_simps)

lemmas bit_push_bytes =
  bit_push_byte [of 0, simplified] bit_push_byte [of 1, simplified]
  bit_push_byte [of 2, simplified] bit_push_byte [of 3, simplified]
  bit_push_byte [of 4, simplified] bit_push_byte [of 5, simplified]
  bit_push_byte [of 6, simplified] bit_push_byte [of 7, simplified]

text \<open>Little-endian byte runs reassemble to the word they were taken from.\<close>

lemma le16_bytes:
  fixes w :: u16
  shows "ucast (byte_of 0 w) OR push_bit 8 (ucast (byte_of 1 w)) = w"
  by (rule bit_word_eqI) (simp add: bit_or_iff bit_push_bytes, linarith?)

lemma le32_bytes:
  fixes w :: u32
  shows "ucast (byte_of 0 w) OR push_bit 8 (ucast (byte_of 1 w)) OR
         push_bit 16 (ucast (byte_of 2 w)) OR push_bit 24 (ucast (byte_of 3 w)) = w"
  by (rule bit_word_eqI) (simp add: bit_or_iff bit_push_bytes, linarith?)

lemma le64_bytes:
  fixes w :: u64
  shows "ucast (byte_of 0 w) OR push_bit 8 (ucast (byte_of 1 w)) OR
         push_bit 16 (ucast (byte_of 2 w)) OR push_bit 24 (ucast (byte_of 3 w)) OR
         push_bit 32 (ucast (byte_of 4 w)) OR push_bit 40 (ucast (byte_of 5 w)) OR
         push_bit 48 (ucast (byte_of 6 w)) OR push_bit 56 (ucast (byte_of 7 w)) = w"
  by (rule bit_word_eqI) (simp add: bit_or_iff bit_push_bytes, linarith?)

lemmas le_bytes [wordfacts] =
  le16_bytes le16_bytes [simplified One_nat_def]
  le32_bytes le32_bytes [simplified One_nat_def]
  le64_bytes le64_bytes [simplified One_nat_def]

lemma byte_of_0_u8 [wordfacts]: "byte_of 0 (w :: u8) = w"
  by (simp add: byte_of_def)

lemma u8_low_flags:
  fixes f :: u8
  assumes "f AND 0xfc = 0"
  shows "f = (if f AND 1 \<noteq> 0 then 1 else 0) OR (if f AND 2 \<noteq> 0 then 2 else 0)"
proof -
  have "\<not> bit f n" if "2 \<le> n" "n < 8" for n
  proof -
    have "bit (f AND 0xfc) n = (bit f n \<and> bit (0xfc :: u8) n)"
      by (simp add: bit_and_iff)
    moreover have "bit (0xfc :: u8) n"
    proof -
      have "n = 2 \<or> n = 3 \<or> n = 4 \<or> n = 5 \<or> n = 6 \<or> n = 7" using that by arith
      then show ?thesis by (elim disjE) simp_all
    qed
    ultimately show ?thesis using assms by simp
  qed
  moreover have "f AND 1 \<noteq> 0 \<longleftrightarrow> bit f 0"
    by (simp add: and_one_eq odd_iff_mod_2_eq_one bit_0)
  moreover have "f AND 2 \<noteq> 0 \<longleftrightarrow> bit f 1"
    by (metis and_exp_eq_0_iff_not_bit power_one_right)
  ultimately show ?thesis
    apply (intro bit_word_eqI)
    subgoal for n
      by (cases "n = 0"; cases "n = 1") (auto simp: bit_or_iff bit_1_iff bit_simps)
    done
qed

text \<open>Fields of a word: masks of low bits as truncations, and the bits of bytes moved into a
  wider word.\<close>

lemma less_pow2_bits:
  fixes w :: "'l::len word"
  assumes "w < 2 ^ k" "k < LENGTH('l)" "k \<le> n"
  shows "\<not> bit w n"
proof -
  have "unat (2 ^ k :: 'l word) = unat (word_of_nat (2 ^ k) :: 'l word)" by simp
  also have "\<dots> = 2 ^ k" unfolding unat_of_nat using assms(2) by simp
  finally have "unat w < 2 ^ k" using assms(1) by (simp add: word_less_nat_alt)
  then have "take_bit k w = w"
    by (metis take_bit_nat_eq_self unsigned_take_bit_eq word_unat_eq_iff)
  then show ?thesis using assms(3) by (metis bit_take_bit_iff leD)
qed

lemma low_masks:
  fixes w :: "'l::len word"
  shows "w AND 0x3f = take_bit 6 w" "w AND 0x7f = take_bit 7 w" "w AND 0xff = take_bit 8 w"
    "w AND 1 = take_bit 1 w"
  by (simp_all add: take_bit_eq_mask mask_eq_exp_minus_1)

lemma bit_fields:
  "bit (push_bit k (ucast (v :: u8)) :: 'l::len word) n \<longleftrightarrow> k \<le> n \<and> n < LENGTH('l) \<and> bit v (n - k)"
  "bit (ucast (w :: 'm::len word) :: u8) n \<longleftrightarrow> n < 8 \<and> bit w n"
  "bit (ucast (v :: u8) :: 'l::len word) n \<longleftrightarrow> n < LENGTH('l) \<and> bit v n"
  by (auto simp: bit_push_bit_iff bit_unsigned_iff dest: bit_imp_le_length)

text \<open>Two bytes are equal when their eight bits are; the literals of the register code then
  evaluate bit by bit.\<close>

lemma u8_eqI:
  fixes a b :: u8
  assumes "bit a 0 = bit b 0" "bit a 1 = bit b 1" "bit a 2 = bit b 2" "bit a 3 = bit b 3"
    "bit a 4 = bit b 4" "bit a 5 = bit b 5" "bit a 6 = bit b 6" "bit a 7 = bit b 7"
  shows "a = b"
proof (rule bit_word_eqI)
  fix n assume "n < LENGTH(8)"
  then have "n = 0 \<or> n = 1 \<or> n = 2 \<or> n = 3 \<or> n = 4 \<or> n = 5 \<or> n = 6 \<or> n = 7" by auto
  then show "bit a n = bit b n" using assms by (elim disjE) simp_all
qed

section \<open>Return codes and outcomes\<close>

datatype bladerf_error =
    BLADERF_ERR_UNEXPECTED | BLADERF_ERR_RANGE | BLADERF_ERR_INVAL | BLADERF_ERR_MEM
  | BLADERF_ERR_IO | BLADERF_ERR_TIMEOUT | BLADERF_ERR_NODEV | BLADERF_ERR_UNSUPPORTED
  | BLADERF_ERR_MISALIGNED | BLADERF_ERR_CHECKSUM | BLADERF_ERR_NO_FILE
  | BLADERF_ERR_UPDATE_FPGA | BLADERF_ERR_UPDATE_FW | BLADERF_ERR_TIME_PAST
  | BLADERF_ERR_QUEUE_FULL | BLADERF_ERR_FPGA_OP | BLADERF_ERR_PERMISSION
  | BLADERF_ERR_WOULD_BLOCK | BLADERF_ERR_NOT_INIT | BLADERF_ERR_CALLBACK
  | BLADERF_ERR_ABORTED | BLADERF_ERR_RX_HOST_STARVED

datatype 'a outcome = Ok 'a | Err bladerf_error | Undef

fun is_ok :: "'a outcome \<Rightarrow> bool" where
  "is_ok (Ok _) = True"
| "is_ok _ = False"

section \<open>Device effects\<close>

text \<open>
  A function that talks to a device maps the state \<open>'s\<close> of everything behind the
  device handle to an outcome and the state it leaves behind; the state is kept on
  every path, since the code goes on to talk to the device after an error.
\<close>

type_synonym ('s, 'a) io = "'s \<Rightarrow> 'a outcome \<times> 's"

definition ret :: "'a \<Rightarrow> ('s, 'a) io" where
  "ret x = (\<lambda>s. (Ok x, s))"

definition fail :: "bladerf_error \<Rightarrow> ('s, 'a) io" where
  "fail e = (\<lambda>s. (Err e, s))"

definition undef_io :: "('s, 'a) io" where
  "undef_io = (\<lambda>s. (Undef, s))"

definition seq :: "('s, 'a) io \<Rightarrow> ('a \<Rightarrow> ('s, 'b) io) \<Rightarrow> ('s, 'b) io" where
  \<comment> \<open>\<^verbatim>\<open>status = m; if (status != 0) return status;\<close> and then the rest\<close>
  "seq m k = (\<lambda>s. case m s of
       (Ok x, s') \<Rightarrow> k x s'
     | (Err e, s') \<Rightarrow> (Err e, s')
     | (Undef, s') \<Rightarrow> (Undef, s'))"

definition attempt :: "('s, 'a) io \<Rightarrow> ('a outcome \<Rightarrow> ('s, 'b) io) \<Rightarrow> ('s, 'b) io" where
  \<comment> \<open>run \<open>m\<close> and hand its status to code that also runs on an error\<close>
  "attempt m k = (\<lambda>s. case m s of (Undef, s') \<Rightarrow> (Undef, s') | (r, s') \<Rightarrow> k r s')"

abbreviation when_io :: "bool \<Rightarrow> ('s, unit) io \<Rightarrow> ('s, unit) io" where
  "when_io b m \<equiv> (if b then m else ret ())"

abbreviation assert_io :: "bool \<Rightarrow> ('s, unit) io" where
  \<comment> \<open>\<^verbatim>\<open>assert(b)\<close>: \<^verbatim>\<open>rel_assert.h\<close> keeps it in release builds\<close>
  "assert_io b \<equiv> (if b then ret () else undef_io)"

lemma ret_apply [iosimps]: "ret x s = (Ok x, s)"
  by (simp add: ret_def)

lemma fail_apply [iosimps]: "fail e s = (Err e, s)"
  by (simp add: fail_def)

lemma undef_io_apply [iosimps]: "undef_io s = (Undef, s)"
  by (simp add: undef_io_def)

lemma seq_Ok [iosimps]: "m s = (Ok x, s') \<Longrightarrow> seq m k s = k x s'"
  by (simp add: seq_def)

lemma seq_Err [iosimps]: "m s = (Err e, s') \<Longrightarrow> seq m k s = (Err e, s')"
  by (simp add: seq_def)

lemma seq_Undef [iosimps]: "m s = (Undef, s') \<Longrightarrow> seq m k s = (Undef, s')"
  by (simp add: seq_def)

lemma attempt_Ok [iosimps]: "m s = (Ok x, s') \<Longrightarrow> attempt m k s = k (Ok x) s'"
  by (simp add: attempt_def)

lemma attempt_Err [iosimps]: "m s = (Err e, s') \<Longrightarrow> attempt m k s = k (Err e) s'"
  by (simp add: attempt_def)

lemma attempt_Undef [iosimps]: "m s = (Undef, s') \<Longrightarrow> attempt m k s = (Undef, s')"
  by (simp add: attempt_def)

lemma seq_assoc: "seq (seq m k) h = seq m (\<lambda>x. seq (k x) h)"
  by (rule ext) (simp add: seq_def split: prod.split outcome.split)

lemma seq_ret [simp]: "seq (ret x) k = k x"
  by (rule ext) (simp add: seq_def ret_def)

lemma seq_cong_run:
  assumes "\<And>x s'. m s = (Ok x, s') \<Longrightarrow> k x s' = h x s'"
  shows "seq m k s = seq m h s"
  using assms by (cases "m s"; cases "fst (m s)") (auto simp: seq_def)

lemma seq_eq_Ok_iff:
  "seq m k s = (Ok y, t) \<longleftrightarrow> (\<exists>x s'. m s = (Ok x, s') \<and> k x s' = (Ok y, t))"
  by (auto simp: seq_def split: prod.splits outcome.splits)

end
