(* ===== verification/Nios_Devices.thy ===== *)
theory Nios_Devices
  imports Bladerf_Prelude
begin

unbundle bit_operations_syntax

text \<open>
  Device access of the FPGA firmware (\<^verbatim>\<open>bladeRF_nios/src/devices.c\<close>,
  \<^verbatim>\<open>devices_inline.h\<close>, \<^verbatim>\<open>spi_arbiter_policy.h\<close>, \<^verbatim>\<open>i2c_status_policy.h\<close>) in the build
  for the bladeRF with the LMS6002D (\<^verbatim>\<open>BOARD_BLADERF_MICRO\<close> not defined, the SPI
  arbiter, the IQ correction and the AGC registers present).

  The hardware behind the bus is a parameter: \<open>'m bus_fns\<close> gives the effect of the
  \<^verbatim>\<open>IORD_*\<close>/\<^verbatim>\<open>IOWR_*\<close> accesses on a hardware state \<open>'m\<close>, and the bit masks of the SPI
  controller, which the vendor's support package defines. The firmware's static
  variables are the other fields of \<open>'m nios\<close>.
\<close>

section \<open>Bus and firmware state\<close>

datatype nios_base =
    RFFE_SPI_BASE | ARBITER_0_BASE | I2C | VCTCXO_TAMER_0_BASE | RX_TAMER_BASE | TX_TAMER_BASE
  | XB_GPIO_BASE | XB_GPIO_DIR_BASE | IQ_CORR_RX_PHASE_GAIN_BASE | IQ_CORR_TX_PHASE_GAIN_BASE
  | TX_TRIGGER_CTL_BASE | RX_TRIGGER_CTL_BASE | CONTROL_BASE
  | AGC_DC_Q_MAX_BASE | AGC_DC_I_MAX_BASE | AGC_DC_Q_MID_BASE | AGC_DC_I_MID_BASE
  | AGC_DC_Q_MIN_BASE | AGC_DC_I_MIN_BASE

datatype spi_reg = SPI_RXDATA | SPI_TXDATA | SPI_STATUS | SPI_CONTROL | SPI_SLAVE_SEL

record 'm bus_fns =
  iord8 :: "nios_base \<Rightarrow> u8 \<Rightarrow> 'm \<Rightarrow> u8 \<times> 'm"
  iowr8 :: "nios_base \<Rightarrow> u8 \<Rightarrow> u8 \<Rightarrow> 'm \<Rightarrow> 'm"
  iord_pio :: "nios_base \<Rightarrow> 'm \<Rightarrow> u32 \<times> 'm"
  iowr_pio :: "nios_base \<Rightarrow> u32 \<Rightarrow> 'm \<Rightarrow> 'm"
  iowr32 :: "nios_base \<Rightarrow> u8 \<Rightarrow> u32 \<Rightarrow> 'm \<Rightarrow> 'm"
  spi_rd :: "spi_reg \<Rightarrow> 'm \<Rightarrow> u32 \<times> 'm"
  spi_wr :: "spi_reg \<Rightarrow> u32 \<Rightarrow> 'm \<Rightarrow> 'm"
  ROE_MSK :: u32
  TOE_MSK :: u32
  TMT_MSK :: u32
  TRDY_MSK :: u32
  RRDY_MSK :: u32
  SSO_MSK :: u32

record 'm nios =
  hw :: 'm
  vctcxo_tamer_ctrl_reg :: u8
  vctcxo_trim_dac_value :: u16
  i2c_transfer_failure :: u8
  i2c_transfer_status :: u8
  i2c_diag_failure :: u32
  i2c_diag_failures :: u32
  boot_nonce :: u32

definition rd8 :: "'m bus_fns \<Rightarrow> nios_base \<Rightarrow> u8 \<Rightarrow> 'm nios \<Rightarrow> u8 \<times> 'm nios" where
  "rd8 b base off s = (case iord8 b base off (hw s) of (v, m) \<Rightarrow> (v, s\<lparr>hw := m\<rparr>))"

definition wr8 :: "'m bus_fns \<Rightarrow> nios_base \<Rightarrow> u8 \<Rightarrow> u8 \<Rightarrow> 'm nios \<Rightarrow> 'm nios" where
  "wr8 b base off v s = s\<lparr>hw := iowr8 b base off v (hw s)\<rparr>"

definition rd_pio :: "'m bus_fns \<Rightarrow> nios_base \<Rightarrow> 'm nios \<Rightarrow> u32 \<times> 'm nios" where
  "rd_pio b base s = (case iord_pio b base (hw s) of (v, m) \<Rightarrow> (v, s\<lparr>hw := m\<rparr>))"

definition wr_pio :: "'m bus_fns \<Rightarrow> nios_base \<Rightarrow> u32 \<Rightarrow> 'm nios \<Rightarrow> 'm nios" where
  "wr_pio b base v s = s\<lparr>hw := iowr_pio b base v (hw s)\<rparr>"

section \<open>The SPI arbiter\<close>

definition spi_arbiter_set_request :: "'m bus_fns \<Rightarrow> bool \<Rightarrow> 'm nios \<Rightarrow> 'm nios" where
  "spi_arbiter_set_request b active s =
     s\<lparr>hw := iowr32 b ARBITER_0_BASE 0 (if active then 1 else 2) (hw s)\<rparr>"

definition spi_arbiter_read_grant :: "'m bus_fns \<Rightarrow> 'm nios \<Rightarrow> u8 \<times> 'm nios" where
  "spi_arbiter_read_grant b s = rd8 b ARBITER_0_BASE 1 s"

fun arbiter_poll :: "'m bus_fns \<Rightarrow> bool \<Rightarrow> nat \<Rightarrow> 'm nios \<Rightarrow> bool \<times> 'm nios" where
  \<comment> \<open>poll until the grant bit is \<open>want\<close>, at most \<open>tries\<close> times\<close>
  "arbiter_poll b want 0 s = (False, s)"
| "arbiter_poll b want (Suc tries) s =
     (case spi_arbiter_read_grant b s of (grant, s1) \<Rightarrow>
        if (grant AND 1 \<noteq> 0) = want then (True, s1) else arbiter_poll b want tries s1)"

definition bladerf_spi_arbiter_release :: "'m bus_fns \<Rightarrow> nat \<Rightarrow> 'm nios \<Rightarrow> bool \<times> 'm nios" where
  "bladerf_spi_arbiter_release b tries s =
     arbiter_poll b False tries (spi_arbiter_set_request b False s)"

definition bladerf_spi_arbiter_acquire :: "'m bus_fns \<Rightarrow> nat \<Rightarrow> 'm nios \<Rightarrow> bool \<times> 'm nios" where
  "bladerf_spi_arbiter_acquire b tries s =
     (case spi_arbiter_read_grant b s of (grant, s1) \<Rightarrow>
      case (if grant AND 1 \<noteq> 0 then bladerf_spi_arbiter_release b tries s1 else (True, s1)) of
        (False, s2) \<Rightarrow> (False, s2)
      | (True, s2) \<Rightarrow>
          (case arbiter_poll b True tries (spi_arbiter_set_request b True s2) of
             (True, s3) \<Rightarrow> (True, s3)
           | (False, s3) \<Rightarrow> (False, snd (bladerf_spi_arbiter_release b tries s3))))"

definition BLADERF_SPI_ARBITER_WAIT_ATTEMPTS :: nat where
  "BLADERF_SPI_ARBITER_WAIT_ATTEMPTS = 100000"

definition spi_arbiter_lock :: "'m bus_fns \<Rightarrow> 'm nios \<Rightarrow> bool \<times> 'm nios" where
  "spi_arbiter_lock b s = bladerf_spi_arbiter_acquire b BLADERF_SPI_ARBITER_WAIT_ATTEMPTS s"

definition spi_arbiter_unlock :: "'m bus_fns \<Rightarrow> 'm nios \<Rightarrow> bool \<times> 'm nios" where
  "spi_arbiter_unlock b s = bladerf_spi_arbiter_release b BLADERF_SPI_ARBITER_WAIT_ATTEMPTS s"

section \<open>LMS6002D\<close>

definition lms6_read :: "'m bus_fns \<Rightarrow> u8 \<Rightarrow> u8 \<Rightarrow> 'm nios \<Rightarrow> (bool \<times> u8) \<times> 'm nios" where
  \<comment> \<open>the third argument is what \<^verbatim>\<open>*data\<close> holds before the call\<close>
  "lms6_read b addr data s =
     (case spi_arbiter_lock b s of
        (False, s1) \<Rightarrow> ((False, data), s1)
      | (True, s1) \<Rightarrow>
          (case rd8 b RFFE_SPI_BASE addr s1 of (v, s2) \<Rightarrow>
           case spi_arbiter_unlock b s2 of (ok, s3) \<Rightarrow> ((ok, v), s3)))"

definition lms6_write :: "'m bus_fns \<Rightarrow> u8 \<Rightarrow> u8 \<Rightarrow> 'm nios \<Rightarrow> bool \<times> 'm nios" where
  "lms6_write b addr data s =
     (case spi_arbiter_lock b s of
        (False, s1) \<Rightarrow> (False, s1)
      | (True, s1) \<Rightarrow> spi_arbiter_unlock b (wr8 b RFFE_SPI_BASE addr data s1))"

section \<open>I2C: the Si5338\<close>

abbreviation (input) OC_I2C_DATA :: u8 where "OC_I2C_DATA \<equiv> 3"
abbreviation (input) OC_I2C_CMD_STATUS :: u8 where "OC_I2C_CMD_STATUS \<equiv> 4"
abbreviation (input) OC_I2C_STA :: u8 where "OC_I2C_STA \<equiv> 0x80"
abbreviation (input) OC_I2C_STO :: u8 where "OC_I2C_STO \<equiv> 0x40"
abbreviation (input) OC_I2C_RD :: u8 where "OC_I2C_RD \<equiv> 0x20"
abbreviation (input) OC_I2C_WR :: u8 where "OC_I2C_WR \<equiv> 0x10"
abbreviation (input) OC_I2C_NACK :: u8 where "OC_I2C_NACK \<equiv> 0x08"
abbreviation (input) OC_I2C_TIP :: u8 where "OC_I2C_TIP \<equiv> 0x02"
abbreviation (input) OC_I2C_IACK :: u8 where "OC_I2C_IACK \<equiv> 0x01"
abbreviation (input) OC_I2C_IF :: u8 where "OC_I2C_IF \<equiv> 0x01"
abbreviation (input) OC_I2C_RXACK :: u8 where "OC_I2C_RXACK \<equiv> 0x80"
abbreviation (input) OC_I2C_AL :: u8 where "OC_I2C_AL \<equiv> 0x20"
abbreviation (input) SI5338_I2C :: u8 where "SI5338_I2C \<equiv> 0xE0"

definition bladerf_i2c_status_failure :: "u8 \<Rightarrow> u8 \<Rightarrow> u8 \<Rightarrow> u8 \<Rightarrow> bool \<Rightarrow> u8" where
  "bladerf_i2c_status_failure status tip_mask rxack_mask al_mask check_rxack =
     (if status AND tip_mask \<noteq> 0 then 2
      else if status AND al_mask \<noteq> 0 then 4
      else if check_rxack \<and> status AND rxack_mask \<noteq> 0 then 3
      else 0)"

fun i2c_wait :: "'m bus_fns \<Rightarrow> (u8 \<Rightarrow> bool) \<Rightarrow> nat \<Rightarrow> u8 \<Rightarrow> 'm nios \<Rightarrow> u8 option \<times> 'm nios" where
  \<comment> \<open>\<^verbatim>\<open>while (busy(status)) { if (++count >= TRIES) fail; status = read }\<close> with
      \<open>tries\<close> further increments of \<^verbatim>\<open>count\<close> allowed\<close>
  "i2c_wait b busy 0 status s = (if busy status then (None, s) else (Some status, s))"
| "i2c_wait b busy (Suc tries) status s =
     (if busy status then
        (case rd8 b I2C OC_I2C_CMD_STATUS s of (status', s1) \<Rightarrow> i2c_wait b busy tries status' s1)
      else (Some status, s))"

definition i2c_transfer_timed_out :: "'m bus_fns \<Rightarrow> u8 \<Rightarrow> 'm nios \<Rightarrow> bool \<times> 'm nios" where
  "i2c_transfer_timed_out b reason s =
     (case rd8 b I2C OC_I2C_CMD_STATUS (s\<lparr>i2c_transfer_failure := reason\<rparr>) of (v, s1) \<Rightarrow>
        (False, s1\<lparr>i2c_transfer_status := v\<rparr>))"

definition i2c_complete_transfer :: "'m bus_fns \<Rightarrow> bool \<Rightarrow> 'm nios \<Rightarrow> bool \<times> 'm nios" where
  "i2c_complete_transfer b check_rxack s =
     (let s0 = snd (rd8 b I2C OC_I2C_CMD_STATUS s);
          (status, s1) = rd8 b I2C OC_I2C_CMD_STATUS s0
      in case i2c_wait b (\<lambda>st. st AND (OC_I2C_TIP OR OC_I2C_IF) = 0) 99999 status s1 of
           (None, s2) \<Rightarrow> i2c_transfer_timed_out b 1 s2
         | (Some status', s2) \<Rightarrow>
             (case i2c_wait b (\<lambda>st. st AND OC_I2C_TIP \<noteq> 0) 99999 status' s2 of
                (None, s3) \<Rightarrow> i2c_transfer_timed_out b 2 s3
              | (Some status'', s3) \<Rightarrow>
                  let failure = bladerf_i2c_status_failure status'' OC_I2C_TIP OC_I2C_RXACK
                                  OC_I2C_AL check_rxack
                  in (failure = 0,
                      s3\<lparr>i2c_transfer_failure := failure, i2c_transfer_status := status''\<rparr>)))"

definition i2c_note_failure :: "u8 \<Rightarrow> u8 \<Rightarrow> 'm nios \<Rightarrow> 'm nios" where
  "i2c_note_failure op step s =
     s\<lparr>i2c_diag_failure := ucast op OR push_bit 8 (ucast step) OR
          push_bit 16 (ucast (i2c_transfer_failure s)) OR
          push_bit 24 (ucast (i2c_transfer_status s)),
        i2c_diag_failures := i2c_diag_failures s + 1\<rparr>"

fun i2c_abort_poll :: "'m bus_fns \<Rightarrow> nat \<Rightarrow> 'm nios \<Rightarrow> 'm nios" where
  "i2c_abort_poll b 0 s = s"
| "i2c_abort_poll b (Suc tries) s =
     (case rd8 b I2C OC_I2C_CMD_STATUS s of (v, s1) \<Rightarrow>
        if v AND (OC_I2C_TIP OR OC_I2C_IF) = OC_I2C_IF then s1 else i2c_abort_poll b tries s1)"

definition i2c_abort_transfer :: "'m bus_fns \<Rightarrow> 'm nios \<Rightarrow> 'm nios" where
  "i2c_abort_transfer b s =
     (let s1 = wr8 b I2C OC_I2C_CMD_STATUS (OC_I2C_STO OR OC_I2C_IACK) s;
          s2 = snd (rd8 b I2C OC_I2C_CMD_STATUS s1)
      in i2c_abort_poll b 100000 s2)"

definition i2c_byte :: "'m bus_fns \<Rightarrow> u8 option \<Rightarrow> u8 \<Rightarrow> bool \<Rightarrow> 'm nios \<Rightarrow> bool \<times> 'm nios" where
  \<comment> \<open>load the data register when a byte is sent, issue the command and complete it\<close>
  "i2c_byte b byte command check_rxack s =
     i2c_complete_transfer b check_rxack
       (wr8 b I2C OC_I2C_CMD_STATUS command
          (case byte of None \<Rightarrow> s | Some v \<Rightarrow> wr8 b I2C OC_I2C_DATA v s))"

definition i2c_fail :: "'m bus_fns \<Rightarrow> u8 \<Rightarrow> u8 \<Rightarrow> 'm nios \<Rightarrow> 'm nios" where
  "i2c_fail b op step s = i2c_abort_transfer b (i2c_note_failure op step s)"

fun i2c_bytes :: "'m bus_fns \<Rightarrow> u8 \<Rightarrow> u8 \<Rightarrow> (u8 option \<times> u8 \<times> bool) list \<Rightarrow> 'm nios \<Rightarrow>
                  bool \<times> 'm nios" where
  \<comment> \<open>the bytes of one operation, numbered from \<open>step + 1\<close>\<close>
  "i2c_bytes b op step [] s = (True, s)"
| "i2c_bytes b op step ((byte, command, check_rxack) # rest) s =
     (case i2c_byte b byte command check_rxack s of
        (False, s1) \<Rightarrow> (False, i2c_fail b op (step + 1) s1)
      | (True, s1) \<Rightarrow> i2c_bytes b op (step + 1) rest s1)"

definition si5338_read :: "'m bus_fns \<Rightarrow> u8 \<Rightarrow> 'm nios \<Rightarrow> (bool \<times> u8) \<times> 'm nios" where
  "si5338_read b addr s =
     (case i2c_bytes b 1 0
             [(Some SI5338_I2C, OC_I2C_STA OR OC_I2C_WR OR OC_I2C_IACK, True),
              (Some addr, OC_I2C_WR OR OC_I2C_STO OR OC_I2C_IACK, True),
              (Some (SI5338_I2C OR 1), OC_I2C_STA OR OC_I2C_WR OR OC_I2C_IACK, True),
              (None, OC_I2C_RD OR OC_I2C_NACK OR OC_I2C_STO OR OC_I2C_IACK, False)] s of
        (False, s1) \<Rightarrow> ((False, 0), s1)
      | (True, s1) \<Rightarrow> (case rd8 b I2C OC_I2C_DATA s1 of (v, s2) \<Rightarrow> ((True, v), s2)))"

definition si5338_write :: "'m bus_fns \<Rightarrow> u8 \<Rightarrow> u8 \<Rightarrow> 'm nios \<Rightarrow> bool \<times> 'm nios" where
  "si5338_write b addr data s =
     i2c_bytes b 2 0
       [(Some SI5338_I2C, OC_I2C_STA OR OC_I2C_WR OR OC_I2C_IACK, True),
        (Some addr, OC_I2C_WR OR OC_I2C_IACK, True),
        (Some data, OC_I2C_WR OR OC_I2C_STO OR OC_I2C_IACK, False)] s"

section \<open>SPI: the VCTCXO trim DAC\<close>

definition spi_read :: "'m bus_fns \<Rightarrow> spi_reg \<Rightarrow> 'm nios \<Rightarrow> u32 \<times> 'm nios" where
  "spi_read b r s = (case spi_rd b r (hw s) of (v, m) \<Rightarrow> (v, s\<lparr>hw := m\<rparr>))"

definition spi_write :: "'m bus_fns \<Rightarrow> spi_reg \<Rightarrow> u32 \<Rightarrow> 'm nios \<Rightarrow> 'm nios" where
  "spi_write b r v s = s\<lparr>hw := spi_wr b r v (hw s)\<rparr>"

record spi_xfer =
  to_write :: "u8 list"    \<comment> \<open>\<^verbatim>\<open>write_data\<close> from \<^verbatim>\<open>write_index\<close> on\<close>
  write_zeros :: nat
  read_ignore :: nat
  read_data :: "u8 list"   \<comment> \<open>the first \<^verbatim>\<open>read_index\<close> bytes\<close>
  credits :: int

definition spi_transmit :: "'m bus_fns \<Rightarrow> u32 \<Rightarrow> spi_xfer \<Rightarrow> 'm nios \<Rightarrow> spi_xfer \<times> 'm nios" where
  "spi_transmit b status x s =
     (if status AND TRDY_MSK b \<noteq> 0 \<and> credits x > 0 then
        let x1 = x\<lparr>credits := credits x - 1\<rparr> in
        case to_write x of
          v # rest \<Rightarrow> (x1\<lparr>to_write := rest\<rparr>, spi_write b SPI_TXDATA (ucast v) s)
        | [] \<Rightarrow>
            if write_zeros x > 0
            then (x1\<lparr>write_zeros := write_zeros x - 1\<rparr>, spi_write b SPI_TXDATA 0 s)
            else (x1\<lparr>credits := - 1024\<rparr>, s)
      else (x, s))"

fun spi_exchange :: "'m bus_fns \<Rightarrow> nat \<Rightarrow> nat \<Rightarrow> spi_xfer \<Rightarrow> 'm nios \<Rightarrow>
                     (u8 list \<times> nat) option \<times> 'm nios" where
  \<comment> \<open>the exchange loop; the second argument is \<^verbatim>\<open>poll_limit - polls\<close>; \<open>None\<close> is
      \<^verbatim>\<open>goto timeout\<close>\<close>
  "spi_exchange b 0 read_length x s = (None, s)"
| "spi_exchange b (Suc left) read_length x s =
     (case spi_read b SPI_STATUS s of (status, s1) \<Rightarrow>
        if status AND (ROE_MSK b OR TOE_MSK b) \<noteq> 0 then (None, s1)
        else case spi_transmit b status x s1 of (x1, s2) \<Rightarrow>
          if status AND RRDY_MSK b \<noteq> 0 then
            (case spi_read b SPI_RXDATA s2 of (rxdata, s3) \<Rightarrow>
             let x2 = (if read_ignore x1 > 0
                       then x1\<lparr>read_ignore := read_ignore x1 - 1, credits := credits x1 + 1\<rparr>
                       else if length (read_data x1) < read_length
                       then x1\<lparr>read_data := read_data x1 @ [ucast rxdata],
                               credits := credits x1 + 1\<rparr>
                       else x1\<lparr>credits := credits x1 + 1\<rparr>)
             in if read_ignore x2 = 0 \<and> length (read_data x2) = read_length
                then (Some (read_data x2, left), s3)
                else spi_exchange b left read_length x2 s3)
          else spi_exchange b left read_length x1 s2)"

fun spi_drain :: "'m bus_fns \<Rightarrow> nat \<Rightarrow> 'm nios \<Rightarrow> bool \<times> 'm nios" where
  \<comment> \<open>\<^verbatim>\<open>while (!TMT) if (++polls > poll_limit) goto timeout\<close>\<close>
  "spi_drain b left s =
     (case spi_read b SPI_STATUS s of (status, s1) \<Rightarrow>
        if status AND TMT_MSK b \<noteq> 0 then (True, s1)
        else case left of 0 \<Rightarrow> (False, s1) | Suc left' \<Rightarrow> spi_drain b left' s1)"

definition spi_timeout :: "'m bus_fns \<Rightarrow> 'm nios \<Rightarrow> 'm nios" where
  "spi_timeout b s = spi_write b SPI_STATUS (ROE_MSK b OR TOE_MSK b) (spi_write b SPI_CONTROL 0 s)"

definition bladerf_spi_command_bounded ::
  "'m bus_fns \<Rightarrow> nat \<Rightarrow> u8 list \<Rightarrow> nat \<Rightarrow> bool \<Rightarrow> 'm nios \<Rightarrow> u8 list option \<times> 'm nios" where
  \<comment> \<open>\<open>None\<close> is the negative return value; the chip-select toggle flag is never passed by the
      callers modelled here, \<open>merge\<close> is \<^verbatim>\<open>ALT_AVALON_SPI_COMMAND_MERGE\<close>\<close>
  "bladerf_spi_command_bounded b slave write_data read_length merge s =
     (let s1 = spi_write b SPI_SLAVE_SEL (push_bit slave 1) s;
          s2 = spi_write b SPI_CONTROL (SSO_MSK b) s1;
          s3 = snd (spi_read b SPI_RXDATA s2)
      in case spi_exchange b 1000000 read_length
                \<lparr>to_write = write_data, write_zeros = read_length,
                 read_ignore = length write_data, read_data = [], credits = 1\<rparr> s3 of
           (None, s4) \<Rightarrow> (None, spi_timeout b s4)
         | (Some (bytes, left), s4) \<Rightarrow>
             (case spi_drain b left s4 of
                (False, s5) \<Rightarrow> (None, spi_timeout b s5)
              | (True, s5) \<Rightarrow>
                  (Some bytes, if merge then s5 else spi_write b SPI_CONTROL 0 s5)))"

definition rfic_scheduler_reference_write_allowed :: "bool \<Rightarrow> bool" where
  "rfic_scheduler_reference_write_allowed rfic_device_owned = (\<not> rfic_device_owned)"

definition rfic_device_owned_for_external_write :: bool where
  "rfic_device_owned_for_external_write = False"

definition vctcxo_trim_dac_write :: "'m bus_fns \<Rightarrow> u8 \<Rightarrow> u16 \<Rightarrow> 'm nios \<Rightarrow> bool \<times> 'm nios" where
  "vctcxo_trim_dac_write b cmd val s =
     (if \<not> rfic_scheduler_reference_write_allowed rfic_device_owned_for_external_write
      then (False, s)
      else case bladerf_spi_command_bounded b 0 [cmd, byte_of 1 val, byte_of 0 val] 0 False s of
        (None, s1) \<Rightarrow> (False, s1)
      | (Some _, s1) \<Rightarrow> (True, s1\<lparr>vctcxo_trim_dac_value := val\<rparr>))"

definition vctcxo_trim_dac_read :: "'m bus_fns \<Rightarrow> u8 \<Rightarrow> u16 \<Rightarrow> 'm nios \<Rightarrow>
                                    (bool \<times> u16) \<times> 'm nios" where
  "vctcxo_trim_dac_read b cmd val s =
     (case bladerf_spi_command_bounded b 0 [cmd] 0 True s of
        (None, s1) \<Rightarrow> ((False, val), s1)
      | (Some _, s1) \<Rightarrow>
          (case bladerf_spi_command_bounded b 0 [] 2 False s1 of
             (None, s2) \<Rightarrow> ((False, val), s2)
           | (Some data, s2) \<Rightarrow>
               ((True, push_bit 8 (ucast (data ! 0)) OR ucast (data ! 1)), s2)))"

section \<open>The VCTCXO tamer\<close>

abbreviation (input) VT_CTRL_ADDR :: u8 where "VT_CTRL_ADDR \<equiv> 0"
abbreviation (input) VT_CTRL_RESET :: u8 where "VT_CTRL_RESET \<equiv> 0x01"
abbreviation (input) VT_CTRL_IRQ_EN :: u8 where "VT_CTRL_IRQ_EN \<equiv> 0x10"
abbreviation (input) VT_CTRL_TUNE_MODE :: u8 where "VT_CTRL_TUNE_MODE \<equiv> 0xC0"

definition vctcxo_tamer_update :: "'m bus_fns \<Rightarrow> u8 \<Rightarrow> bool \<Rightarrow> 'm nios \<Rightarrow> 'm nios" where
  \<comment> \<open>set or clear a bit of the shadow register and write it out: the common body of
      \<^verbatim>\<open>vctcxo_tamer_enable_isr\<close> and \<^verbatim>\<open>vctcxo_tamer_reset_counters\<close>\<close>
  "vctcxo_tamer_update b bits set_them s =
     (let r = (if set_them then vctcxo_tamer_ctrl_reg s OR bits
               else vctcxo_tamer_ctrl_reg s AND NOT bits)
      in wr8 b VCTCXO_TAMER_0_BASE VT_CTRL_ADDR r (s\<lparr>vctcxo_tamer_ctrl_reg := r\<rparr>))"

definition vctcxo_tamer_enable_isr :: "'m bus_fns \<Rightarrow> bool \<Rightarrow> 'm nios \<Rightarrow> 'm nios" where
  "vctcxo_tamer_enable_isr b enable = vctcxo_tamer_update b VT_CTRL_IRQ_EN enable"

definition vctcxo_tamer_reset_counters :: "'m bus_fns \<Rightarrow> bool \<Rightarrow> 'm nios \<Rightarrow> 'm nios" where
  "vctcxo_tamer_reset_counters b reset = vctcxo_tamer_update b VT_CTRL_RESET reset"

definition vctcxo_tamer_get_tune_mode :: "'m bus_fns \<Rightarrow> 'm nios \<Rightarrow> u8 option \<times> 'm nios" where
  \<comment> \<open>\<open>None\<close> is \<^verbatim>\<open>BLADERF_VCTCXO_TAMER_INVALID\<close>\<close>
  "vctcxo_tamer_get_tune_mode b s =
     (case rd8 b VCTCXO_TAMER_0_BASE VT_CTRL_ADDR s of (v, s1) \<Rightarrow>
        let tmp = drop_bit 6 (v AND VT_CTRL_TUNE_MODE) in
        (if tmp = 0 \<or> tmp = 1 \<or> tmp = 2 then Some tmp else None, s1))"

definition vctcxo_tamer_set_tune_mode :: "'m bus_fns \<Rightarrow> u8 \<Rightarrow> 'm nios \<Rightarrow> bool \<times> 'm nios" where
  "vctcxo_tamer_set_tune_mode b mode s =
     (if \<not> (mode = 0 \<or> mode = 1 \<or> mode = 2) then (False, s)
      else let
        s1 = vctcxo_tamer_enable_isr b False s;
        r = (vctcxo_tamer_ctrl_reg s1 AND NOT VT_CTRL_TUNE_MODE) OR push_bit 6 mode;
        s2 = wr8 b VCTCXO_TAMER_0_BASE VT_CTRL_ADDR r (s1\<lparr>vctcxo_tamer_ctrl_reg := r\<rparr>);
        s3 = vctcxo_tamer_reset_counters b True s2;
        s4 = (if mode \<noteq> 0 then vctcxo_tamer_reset_counters b False s3 else s3);
        s5 = (if mode = 1 \<or> mode = 2 then vctcxo_tamer_enable_isr b True s4 else s4)
      in case vctcxo_tamer_get_tune_mode b s5 of (m, s6) \<Rightarrow> (m = Some mode, s6))"

section \<open>Parallel I/O registers\<close>

definition pio_write_checked :: "'m bus_fns \<Rightarrow> nios_base \<Rightarrow> u32 \<Rightarrow> u32 \<Rightarrow> 'm nios \<Rightarrow> bool \<times> 'm nios"
where
  \<comment> \<open>write a PIO register and compare the given bits on read back\<close>
  "pio_write_checked b base bits v s =
     (case rd_pio b base (wr_pio b base v s) of (r, s1) \<Rightarrow> (r AND bits = v AND bits, s1))"

definition trigger_ctl_write :: "'m bus_fns \<Rightarrow> nios_base \<Rightarrow> u8 \<Rightarrow> 'm nios \<Rightarrow> bool \<times> 'm nios" where
  "trigger_ctl_write b base data s = pio_write_checked b base 0xf0 (ucast data) s"

definition trigger_ctl_read :: "'m bus_fns \<Rightarrow> nios_base \<Rightarrow> 'm nios \<Rightarrow> u8 \<times> 'm nios" where
  "trigger_ctl_read b base s = (case rd_pio b base s of (v, s1) \<Rightarrow> (ucast v, s1))"

definition expansion_port_read :: "'m bus_fns \<Rightarrow> 'm nios \<Rightarrow> u32 \<times> 'm nios" where
  "expansion_port_read b s = rd_pio b XB_GPIO_BASE s"

definition expansion_port_get_direction :: "'m bus_fns \<Rightarrow> 'm nios \<Rightarrow> u32 \<times> 'm nios" where
  "expansion_port_get_direction b s = rd_pio b XB_GPIO_DIR_BASE s"

definition expansion_port_write :: "'m bus_fns \<Rightarrow> u32 \<Rightarrow> 'm nios \<Rightarrow> bool \<times> 'm nios" where
  "expansion_port_write b v s =
     (case expansion_port_get_direction b s of (output_mask, s1) \<Rightarrow>
        pio_write_checked b XB_GPIO_BASE output_mask v s1)"

definition expansion_port_set_direction :: "'m bus_fns \<Rightarrow> u32 \<Rightarrow> 'm nios \<Rightarrow> bool \<times> 'm nios" where
  "expansion_port_set_direction b dir s = pio_write_checked b XB_GPIO_DIR_BASE (- 1) dir s"

definition adf4351_write :: "'m bus_fns \<Rightarrow> u32 \<Rightarrow> 'm nios \<Rightarrow> bool \<times> 'm nios" where
  \<comment> \<open>the union swaps the bytes of the little-endian word\<close>
  "adf4351_write b v s =
     (case bladerf_spi_command_bounded b 1
             [byte_of 3 v, byte_of 2 v, byte_of 1 v, byte_of 0 v] 0 False s of
        (None, s1) \<Rightarrow> (False, s1)
      | (Some _, s1) \<Rightarrow> (True, s1))"

definition control_reg_read :: "'m bus_fns \<Rightarrow> 'm nios \<Rightarrow> u32 \<times> 'm nios" where
  "control_reg_read b s = rd_pio b CONTROL_BASE s"

definition control_reg_write :: "'m bus_fns \<Rightarrow> u32 \<Rightarrow> 'm nios \<Rightarrow> bool \<times> 'm nios" where
  \<comment> \<open>reads the register first (for the clock-select delay), verifies
      \<^verbatim>\<open>NIOS_GPIO_OUTPUT_MASK\<close> afterwards\<close>
  "control_reg_write b v s =
     pio_write_checked b CONTROL_BASE 0xc03fff80 v (snd (control_reg_read b s))"

definition FPGA_VERSION :: u32 where
  "FPGA_VERSION = 0 OR push_bit 8 17 OR push_bit 16 0"

datatype bladerf_module = BLADERF_MODULE_RX | BLADERF_MODULE_TX

fun module_to_iqcorr_base :: "bladerf_module \<Rightarrow> nios_base" where
  "module_to_iqcorr_base BLADERF_MODULE_RX = IQ_CORR_RX_PHASE_GAIN_BASE"
| "module_to_iqcorr_base BLADERF_MODULE_TX = IQ_CORR_TX_PHASE_GAIN_BASE"

definition iqbal_get_gain :: "'m bus_fns \<Rightarrow> bladerf_module \<Rightarrow> 'm nios \<Rightarrow> (bool \<times> u16) \<times> 'm nios" where
  "iqbal_get_gain b m s =
     (case rd_pio b (module_to_iqcorr_base m) s of (v, s1) \<Rightarrow> ((True, ucast v), s1))"

definition iqbal_set_gain :: "'m bus_fns \<Rightarrow> bladerf_module \<Rightarrow> u16 \<Rightarrow> 'm nios \<Rightarrow> bool \<times> 'm nios" where
  "iqbal_set_gain b m v s =
     (let base = module_to_iqcorr_base m in
      case rd_pio b base s of (regval, s1) \<Rightarrow>
      case rd_pio b base (wr_pio b base ((regval AND 0xffff0000) OR ucast v) s1) of (r, s2) \<Rightarrow>
        (ucast r = v, s2))"

definition iqbal_get_phase :: "'m bus_fns \<Rightarrow> bladerf_module \<Rightarrow> 'm nios \<Rightarrow> (bool \<times> u16) \<times> 'm nios" where
  "iqbal_get_phase b m s =
     (case rd_pio b (module_to_iqcorr_base m) s of (v, s1) \<Rightarrow>
        ((True, ucast (drop_bit 16 v)), s1))"

definition iqbal_set_phase :: "'m bus_fns \<Rightarrow> bladerf_module \<Rightarrow> u16 \<Rightarrow> 'm nios \<Rightarrow> bool \<times> 'm nios" where
  "iqbal_set_phase b m v s =
     (let base = module_to_iqcorr_base m in
      case rd_pio b base s of (regval, s1) \<Rightarrow>
      case rd_pio b base
             (wr_pio b base ((regval AND 0x0000ffff) OR push_bit 16 (ucast v)) s1) of
        (r, s2) \<Rightarrow> (ucast (drop_bit 16 r) = v, s2))"

definition agc_dc_corr_base :: "u16 \<Rightarrow> nios_base option" where
  "agc_dc_corr_base addr =
     (if addr = 0 then Some AGC_DC_Q_MAX_BASE else if addr = 1 then Some AGC_DC_I_MAX_BASE
      else if addr = 2 then Some AGC_DC_Q_MID_BASE else if addr = 3 then Some AGC_DC_I_MID_BASE
      else if addr = 4 then Some AGC_DC_Q_MIN_BASE else if addr = 5 then Some AGC_DC_I_MIN_BASE
      else None)"

definition agc_dc_corr_write :: "'m bus_fns \<Rightarrow> u16 \<Rightarrow> u16 \<Rightarrow> 'm nios \<Rightarrow> bool \<times> 'm nios" where
  "agc_dc_corr_write b addr v s =
     (case agc_dc_corr_base addr of
        None \<Rightarrow> (False, s)
      | Some base \<Rightarrow>
          (case rd_pio b base (wr_pio b base (ucast v) s) of (r, s1) \<Rightarrow> (ucast r = v, s1)))"

fun tamer_base :: "bladerf_module \<Rightarrow> nios_base" where
  "tamer_base BLADERF_MODULE_RX = RX_TAMER_BASE"
| "tamer_base BLADERF_MODULE_TX = TX_TAMER_BASE"

fun rd_bytes :: "'m bus_fns \<Rightarrow> nios_base \<Rightarrow> u8 list \<Rightarrow> 'm nios \<Rightarrow> u8 list \<times> 'm nios" where
  "rd_bytes b base [] s = ([], s)"
| "rd_bytes b base (off # offs) s =
     (case rd8 b base off s of (v, s1) \<Rightarrow>
      case rd_bytes b base offs s1 of (vs, s2) \<Rightarrow> (v # vs, s2))"

definition time_tamer_read :: "'m bus_fns \<Rightarrow> bladerf_module \<Rightarrow> u64 \<Rightarrow> 'm nios \<Rightarrow>
                               (bool \<times> u64) \<times> 'm nios" where
  \<comment> \<open>the third argument is what \<^verbatim>\<open>*time\<close> holds before the call\<close>
  "time_tamer_read b m time s =
     (case rd_bytes b (tamer_base m) [0, 1, 2, 3, 4, 5, 6, 7] s of (bytes, s1) \<Rightarrow>
      let v = fold (\<lambda>i acc. acc OR push_bit (8 * i) (ucast (bytes ! i))) [0..<8] 0 in
      case rd8 b (tamer_base m) 9 s1 of (status, s2) \<Rightarrow>
        if status AND 4 \<noteq> 0 then ((False, time), s2) else ((True, v), s2))"

end
