(* ===== verification/Nios_Pkt.thy ===== *)
theory Nios_Pkt
  imports Bladerf_Prelude
begin

unbundle bit_operations_syntax

text \<open>
  The host/FPGA register packets of \<^verbatim>\<open>fpga_common/include/nios_pkt_*.h\<close>:
  16-byte requests and responses for 8x8, 8x16, 8x32, 8x64, 16x64 and 32x32 (address
  width x data width) accesses, the 16x64 side formats (transaction ids, batch
  payloads, RETUNE2 record and fastlock profile addresses), and the round trips.

  A packet buffer is a list of \<open>NIOS_PKT_LEN\<close> = 16 bytes. The C packers write every
  byte of the buffer, so \<open>pack\<close> returns the whole list. The C unpackers store through
  pointers that may be \<open>NULL\<close> (field not wanted); here they return every field. The
  locale \<open>reg_pkt_format\<close> states what the transport relies on, once for all formats.
\<close>

definition NIOS_PKT_LEN :: nat where
  "NIOS_PKT_LEN = 16"

abbreviation (input) FLAG_WRITE :: u8 where "FLAG_WRITE \<equiv> 1"
abbreviation (input) FLAG_SUCCESS :: u8 where "FLAG_SUCCESS \<equiv> 2"
abbreviation (input) FLAG_BUSY :: u8 where "FLAG_BUSY \<equiv> 4"
abbreviation (input) FLAG_QUEUE_FULL :: u8 where "FLAG_QUEUE_FULL \<equiv> 8"

abbreviation (input) IDX_FLAGS :: nat where "IDX_FLAGS \<equiv> 2"

section \<open>The six register packet formats\<close>

definition nios_pkt_8x8_MAGIC :: u8 where
  "nios_pkt_8x8_MAGIC = 0x41" \<comment> \<open>\<^verbatim>\<open>'A'\<close>\<close>

definition nios_pkt_8x8_pack :: "u8 \<Rightarrow> bool \<Rightarrow> u8 \<Rightarrow> u8 \<Rightarrow> u8 list" where
  "nios_pkt_8x8_pack target write addr data =
     [nios_pkt_8x8_MAGIC, target, (if write then FLAG_WRITE else 0), 0,
      addr,
      data,
      0, 0, 0, 0, 0, 0, 0, 0, 0, 0]"

definition nios_pkt_8x8_unpack :: "u8 list \<Rightarrow> u8 \<times> bool \<times> u8 \<times> u8" where
  "nios_pkt_8x8_unpack buf =
     (buf ! 1, buf ! IDX_FLAGS AND FLAG_WRITE \<noteq> 0,
      buf ! 4,
      buf ! 5)"

definition nios_pkt_8x8_resp_pack :: "u8 \<Rightarrow> bool \<Rightarrow> u8 \<Rightarrow> u8 \<Rightarrow> bool \<Rightarrow> u8 list" where
  "nios_pkt_8x8_resp_pack target write addr data success =
     (let buf = nios_pkt_8x8_pack target write addr data
      in if success then buf[IDX_FLAGS := buf ! IDX_FLAGS OR FLAG_SUCCESS] else buf)"

definition nios_pkt_8x8_resp_unpack :: "u8 list \<Rightarrow> (u8 \<times> bool \<times> u8 \<times> u8) \<times> bool" where
  "nios_pkt_8x8_resp_unpack buf =
     (nios_pkt_8x8_unpack buf, buf ! IDX_FLAGS AND FLAG_SUCCESS \<noteq> 0)"

definition nios_pkt_8x16_MAGIC :: u8 where
  "nios_pkt_8x16_MAGIC = 0x42" \<comment> \<open>\<^verbatim>\<open>'B'\<close>\<close>

definition nios_pkt_8x16_pack :: "u8 \<Rightarrow> bool \<Rightarrow> u8 \<Rightarrow> u16 \<Rightarrow> u8 list" where
  "nios_pkt_8x16_pack target write addr data =
     [nios_pkt_8x16_MAGIC, target, (if write then FLAG_WRITE else 0), 0,
      addr,
      byte_of 0 data, byte_of 1 data,
      0, 0, 0, 0, 0, 0, 0, 0, 0]"

definition nios_pkt_8x16_unpack :: "u8 list \<Rightarrow> u8 \<times> bool \<times> u8 \<times> u16" where
  "nios_pkt_8x16_unpack buf =
     (buf ! 1, buf ! IDX_FLAGS AND FLAG_WRITE \<noteq> 0,
      buf ! 4,
      (ucast (buf ! 5) OR
        push_bit 8 (ucast (buf ! 6)) :: u16))"

definition nios_pkt_8x16_resp_pack :: "u8 \<Rightarrow> bool \<Rightarrow> u8 \<Rightarrow> u16 \<Rightarrow> bool \<Rightarrow> u8 list" where
  "nios_pkt_8x16_resp_pack target write addr data success =
     (let buf = nios_pkt_8x16_pack target write addr data
      in if success then buf[IDX_FLAGS := buf ! IDX_FLAGS OR FLAG_SUCCESS] else buf)"

definition nios_pkt_8x16_resp_unpack :: "u8 list \<Rightarrow> (u8 \<times> bool \<times> u8 \<times> u16) \<times> bool" where
  "nios_pkt_8x16_resp_unpack buf =
     (nios_pkt_8x16_unpack buf, buf ! IDX_FLAGS AND FLAG_SUCCESS \<noteq> 0)"

definition nios_pkt_8x32_MAGIC :: u8 where
  "nios_pkt_8x32_MAGIC = 0x43" \<comment> \<open>\<^verbatim>\<open>'C'\<close>\<close>

definition nios_pkt_8x32_pack :: "u8 \<Rightarrow> bool \<Rightarrow> u8 \<Rightarrow> u32 \<Rightarrow> u8 list" where
  "nios_pkt_8x32_pack target write addr data =
     [nios_pkt_8x32_MAGIC, target, (if write then FLAG_WRITE else 0), 0,
      addr,
      byte_of 0 data, byte_of 1 data, byte_of 2 data, byte_of 3 data,
      0, 0, 0, 0, 0, 0, 0]"

definition nios_pkt_8x32_unpack :: "u8 list \<Rightarrow> u8 \<times> bool \<times> u8 \<times> u32" where
  "nios_pkt_8x32_unpack buf =
     (buf ! 1, buf ! IDX_FLAGS AND FLAG_WRITE \<noteq> 0,
      buf ! 4,
      (ucast (buf ! 5) OR
        push_bit 8 (ucast (buf ! 6)) OR
        push_bit 16 (ucast (buf ! 7)) OR
        push_bit 24 (ucast (buf ! 8)) :: u32))"

definition nios_pkt_8x32_resp_pack :: "u8 \<Rightarrow> bool \<Rightarrow> u8 \<Rightarrow> u32 \<Rightarrow> bool \<Rightarrow> u8 list" where
  "nios_pkt_8x32_resp_pack target write addr data success =
     (let buf = nios_pkt_8x32_pack target write addr data
      in if success then buf[IDX_FLAGS := buf ! IDX_FLAGS OR FLAG_SUCCESS] else buf)"

definition nios_pkt_8x32_resp_unpack :: "u8 list \<Rightarrow> (u8 \<times> bool \<times> u8 \<times> u32) \<times> bool" where
  "nios_pkt_8x32_resp_unpack buf =
     (nios_pkt_8x32_unpack buf, buf ! IDX_FLAGS AND FLAG_SUCCESS \<noteq> 0)"

definition nios_pkt_8x64_MAGIC :: u8 where
  "nios_pkt_8x64_MAGIC = 0x44" \<comment> \<open>\<^verbatim>\<open>'D'\<close>\<close>

definition nios_pkt_8x64_pack :: "u8 \<Rightarrow> bool \<Rightarrow> u8 \<Rightarrow> u64 \<Rightarrow> u8 list" where
  "nios_pkt_8x64_pack target write addr data =
     [nios_pkt_8x64_MAGIC, target, (if write then FLAG_WRITE else 0), 0,
      addr,
      byte_of 0 data, byte_of 1 data, byte_of 2 data, byte_of 3 data, byte_of 4 data, byte_of 5 data, byte_of 6 data, byte_of 7 data,
      0, 0, 0]"

definition nios_pkt_8x64_unpack :: "u8 list \<Rightarrow> u8 \<times> bool \<times> u8 \<times> u64" where
  "nios_pkt_8x64_unpack buf =
     (buf ! 1, buf ! IDX_FLAGS AND FLAG_WRITE \<noteq> 0,
      buf ! 4,
      (ucast (buf ! 5) OR
        push_bit 8 (ucast (buf ! 6)) OR
        push_bit 16 (ucast (buf ! 7)) OR
        push_bit 24 (ucast (buf ! 8)) OR
        push_bit 32 (ucast (buf ! 9)) OR
        push_bit 40 (ucast (buf ! 10)) OR
        push_bit 48 (ucast (buf ! 11)) OR
        push_bit 56 (ucast (buf ! 12)) :: u64))"

definition nios_pkt_8x64_resp_pack :: "u8 \<Rightarrow> bool \<Rightarrow> u8 \<Rightarrow> u64 \<Rightarrow> bool \<Rightarrow> u8 list" where
  "nios_pkt_8x64_resp_pack target write addr data success =
     (let buf = nios_pkt_8x64_pack target write addr data
      in if success then buf[IDX_FLAGS := buf ! IDX_FLAGS OR FLAG_SUCCESS] else buf)"

definition nios_pkt_8x64_resp_unpack :: "u8 list \<Rightarrow> (u8 \<times> bool \<times> u8 \<times> u64) \<times> bool" where
  "nios_pkt_8x64_resp_unpack buf =
     (nios_pkt_8x64_unpack buf, buf ! IDX_FLAGS AND FLAG_SUCCESS \<noteq> 0)"

definition nios_pkt_16x64_MAGIC :: u8 where
  "nios_pkt_16x64_MAGIC = 0x45" \<comment> \<open>\<^verbatim>\<open>'E'\<close>\<close>

definition nios_pkt_16x64_pack :: "u8 \<Rightarrow> bool \<Rightarrow> u16 \<Rightarrow> u64 \<Rightarrow> u8 list" where
  "nios_pkt_16x64_pack target write addr data =
     [nios_pkt_16x64_MAGIC, target, (if write then FLAG_WRITE else 0), 0,
      byte_of 0 addr, byte_of 1 addr,
      byte_of 0 data, byte_of 1 data, byte_of 2 data, byte_of 3 data, byte_of 4 data, byte_of 5 data, byte_of 6 data, byte_of 7 data,
      0, 0]"

definition nios_pkt_16x64_unpack :: "u8 list \<Rightarrow> u8 \<times> bool \<times> u16 \<times> u64" where
  "nios_pkt_16x64_unpack buf =
     (buf ! 1, buf ! IDX_FLAGS AND FLAG_WRITE \<noteq> 0,
      (ucast (buf ! 4) OR
        push_bit 8 (ucast (buf ! 5)) :: u16),
      (ucast (buf ! 6) OR
        push_bit 8 (ucast (buf ! 7)) OR
        push_bit 16 (ucast (buf ! 8)) OR
        push_bit 24 (ucast (buf ! 9)) OR
        push_bit 32 (ucast (buf ! 10)) OR
        push_bit 40 (ucast (buf ! 11)) OR
        push_bit 48 (ucast (buf ! 12)) OR
        push_bit 56 (ucast (buf ! 13)) :: u64))"

definition nios_pkt_16x64_resp_pack :: "u8 \<Rightarrow> bool \<Rightarrow> u16 \<Rightarrow> u64 \<Rightarrow> bool \<Rightarrow> u8 list" where
  "nios_pkt_16x64_resp_pack target write addr data success =
     (let buf = nios_pkt_16x64_pack target write addr data
      in if success then buf[IDX_FLAGS := buf ! IDX_FLAGS OR FLAG_SUCCESS] else buf)"

definition nios_pkt_16x64_resp_unpack :: "u8 list \<Rightarrow> (u8 \<times> bool \<times> u16 \<times> u64) \<times> bool" where
  "nios_pkt_16x64_resp_unpack buf =
     (nios_pkt_16x64_unpack buf, buf ! IDX_FLAGS AND FLAG_SUCCESS \<noteq> 0)"

definition nios_pkt_32x32_MAGIC :: u8 where
  "nios_pkt_32x32_MAGIC = 0x4b" \<comment> \<open>\<^verbatim>\<open>'K'\<close>\<close>

definition nios_pkt_32x32_pack :: "u8 \<Rightarrow> bool \<Rightarrow> u32 \<Rightarrow> u32 \<Rightarrow> u8 list" where
  "nios_pkt_32x32_pack target write addr data =
     [nios_pkt_32x32_MAGIC, target, (if write then FLAG_WRITE else 0), 0,
      byte_of 0 addr, byte_of 1 addr, byte_of 2 addr, byte_of 3 addr,
      byte_of 0 data, byte_of 1 data, byte_of 2 data, byte_of 3 data,
      0, 0, 0, 0]"

definition nios_pkt_32x32_unpack :: "u8 list \<Rightarrow> u8 \<times> bool \<times> u32 \<times> u32" where
  "nios_pkt_32x32_unpack buf =
     (buf ! 1, buf ! IDX_FLAGS AND FLAG_WRITE \<noteq> 0,
      (ucast (buf ! 4) OR
        push_bit 8 (ucast (buf ! 5)) OR
        push_bit 16 (ucast (buf ! 6)) OR
        push_bit 24 (ucast (buf ! 7)) :: u32),
      (ucast (buf ! 8) OR
        push_bit 8 (ucast (buf ! 9)) OR
        push_bit 16 (ucast (buf ! 10)) OR
        push_bit 24 (ucast (buf ! 11)) :: u32))"

definition nios_pkt_32x32_resp_pack :: "u8 \<Rightarrow> bool \<Rightarrow> u32 \<Rightarrow> u32 \<Rightarrow> bool \<Rightarrow> u8 list" where
  "nios_pkt_32x32_resp_pack target write addr data success =
     (let buf = nios_pkt_32x32_pack target write addr data
      in if success then buf[IDX_FLAGS := buf ! IDX_FLAGS OR FLAG_SUCCESS] else buf)"

definition nios_pkt_32x32_resp_unpack :: "u8 list \<Rightarrow> (u8 \<times> bool \<times> u32 \<times> u32) \<times> bool" where
  "nios_pkt_32x32_resp_unpack buf =
     (nios_pkt_32x32_unpack buf, buf ! IDX_FLAGS AND FLAG_SUCCESS \<noteq> 0)"

section \<open>The contract of a register packet format\<close>

text \<open>
  What the transport and the firmware rely on, whatever the widths: requests and
  responses are full frames with the format's magic byte, unpacking inverts packing,
  and a response carries the request's fields with the status bit beside them.
\<close>

locale reg_pkt_format =
  fixes magic :: u8
    and pack :: "u8 \<Rightarrow> bool \<Rightarrow> 'a \<Rightarrow> 'd \<Rightarrow> u8 list"
    and unpack :: "u8 list \<Rightarrow> u8 \<times> bool \<times> 'a \<times> 'd"
    and resp_pack :: "u8 \<Rightarrow> bool \<Rightarrow> 'a \<Rightarrow> 'd \<Rightarrow> bool \<Rightarrow> u8 list"
    and resp_unpack :: "u8 list \<Rightarrow> (u8 \<times> bool \<times> 'a \<times> 'd) \<times> bool"
  assumes length_pack: "length (pack t w a d) = NIOS_PKT_LEN"
    and magic_pack: "pack t w a d ! 0 = magic"
    and unpack_pack: "unpack (pack t w a d) = (t, w, a, d)"
    and resp_pack_eq: "resp_pack t w a d ok =
          (if ok then (pack t w a d)[IDX_FLAGS := pack t w a d ! IDX_FLAGS OR FLAG_SUCCESS]
           else pack t w a d)"
    and unpack_resp_pack: "unpack (resp_pack t w a d ok) = (t, w, a, d)"
    and resp_unpack_eq: "resp_unpack buf = (unpack buf, buf ! IDX_FLAGS AND FLAG_SUCCESS \<noteq> 0)"
    and flags_pack: "pack t w a d ! IDX_FLAGS = (if w then FLAG_WRITE else 0)"
begin

lemma resp_unpack_resp_pack: "resp_unpack (resp_pack t w a d ok) = ((t, w, a, d), ok)"
proof -
  have "length (pack t w a d) > IDX_FLAGS"
    by (simp add: length_pack NIOS_PKT_LEN_def)
  then show ?thesis
    unfolding resp_unpack_eq unpack_resp_pack
    by (simp add: resp_pack_eq flags_pack bit_or_iff)
qed

lemma length_resp_pack: "length (resp_pack t w a d ok) = NIOS_PKT_LEN"
  by (simp add: resp_pack_eq length_pack)

lemma magic_resp_pack: "resp_pack t w a d ok ! 0 = magic"
  by (simp add: resp_pack_eq magic_pack)

lemma pack_inject: "pack t w a d = pack t' w' a' d' \<longleftrightarrow> (t, w, a, d) = (t', w', a', d')"
  by (auto dest: arg_cong [where f = unpack] simp: unpack_pack)

lemma resp_pack_inject:
  "resp_pack t w a d ok = resp_pack t' w' a' d' ok' \<longleftrightarrow>
   (t, w, a, d, ok) = (t', w', a', d', ok')"
  by (auto dest: arg_cong [where f = resp_unpack] simp: resp_unpack_resp_pack)

end

lemmas nios_pkt_8x8_defs =
  nios_pkt_8x8_MAGIC_def nios_pkt_8x8_pack_def nios_pkt_8x8_unpack_def
  nios_pkt_8x8_resp_pack_def nios_pkt_8x8_resp_unpack_def

interpretation p8x8: reg_pkt_format nios_pkt_8x8_MAGIC nios_pkt_8x8_pack
    nios_pkt_8x8_unpack nios_pkt_8x8_resp_pack nios_pkt_8x8_resp_unpack
  by unfold_locales (simp_all add: nios_pkt_8x8_defs NIOS_PKT_LEN_def Let_def wordfacts)

lemmas nios_pkt_8x16_defs =
  nios_pkt_8x16_MAGIC_def nios_pkt_8x16_pack_def nios_pkt_8x16_unpack_def
  nios_pkt_8x16_resp_pack_def nios_pkt_8x16_resp_unpack_def

interpretation p8x16: reg_pkt_format nios_pkt_8x16_MAGIC nios_pkt_8x16_pack
    nios_pkt_8x16_unpack nios_pkt_8x16_resp_pack nios_pkt_8x16_resp_unpack
  by unfold_locales (simp_all add: nios_pkt_8x16_defs NIOS_PKT_LEN_def Let_def wordfacts)

lemmas nios_pkt_8x32_defs =
  nios_pkt_8x32_MAGIC_def nios_pkt_8x32_pack_def nios_pkt_8x32_unpack_def
  nios_pkt_8x32_resp_pack_def nios_pkt_8x32_resp_unpack_def

interpretation p8x32: reg_pkt_format nios_pkt_8x32_MAGIC nios_pkt_8x32_pack
    nios_pkt_8x32_unpack nios_pkt_8x32_resp_pack nios_pkt_8x32_resp_unpack
  by unfold_locales (simp_all add: nios_pkt_8x32_defs NIOS_PKT_LEN_def Let_def wordfacts)

lemmas nios_pkt_8x64_defs =
  nios_pkt_8x64_MAGIC_def nios_pkt_8x64_pack_def nios_pkt_8x64_unpack_def
  nios_pkt_8x64_resp_pack_def nios_pkt_8x64_resp_unpack_def

interpretation p8x64: reg_pkt_format nios_pkt_8x64_MAGIC nios_pkt_8x64_pack
    nios_pkt_8x64_unpack nios_pkt_8x64_resp_pack nios_pkt_8x64_resp_unpack
  by unfold_locales (simp_all add: nios_pkt_8x64_defs NIOS_PKT_LEN_def Let_def wordfacts)

lemmas nios_pkt_16x64_defs =
  nios_pkt_16x64_MAGIC_def nios_pkt_16x64_pack_def nios_pkt_16x64_unpack_def
  nios_pkt_16x64_resp_pack_def nios_pkt_16x64_resp_unpack_def

interpretation p16x64: reg_pkt_format nios_pkt_16x64_MAGIC nios_pkt_16x64_pack
    nios_pkt_16x64_unpack nios_pkt_16x64_resp_pack nios_pkt_16x64_resp_unpack
  by unfold_locales (simp_all add: nios_pkt_16x64_defs NIOS_PKT_LEN_def Let_def wordfacts)

lemmas nios_pkt_32x32_defs =
  nios_pkt_32x32_MAGIC_def nios_pkt_32x32_pack_def nios_pkt_32x32_unpack_def
  nios_pkt_32x32_resp_pack_def nios_pkt_32x32_resp_unpack_def

interpretation p32x32: reg_pkt_format nios_pkt_32x32_MAGIC nios_pkt_32x32_pack
    nios_pkt_32x32_unpack nios_pkt_32x32_resp_pack nios_pkt_32x32_resp_unpack
  by unfold_locales (simp_all add: nios_pkt_32x32_defs NIOS_PKT_LEN_def Let_def wordfacts)

end
