(* ===== verification/Nios_Pkt_Ext.thy ===== *)
theory Nios_Pkt_Ext
  imports Nios_Pkt
begin

unbundle bit_operations_syntax

text \<open>
  The side formats of \<^verbatim>\<open>nios_pkt_16x64.h\<close>: the transaction id that RFIC writes
  carry in the two trailing bytes, the BUSY and QUEUE_FULL responses, the batch payload
  check, and the address and data encodings of the RETUNE2 record, fastlock profile and
  gain table region targets.
\<close>

section \<open>Tagged RFIC writes\<close>

definition nios_pkt_16x64_pack_with_transaction_id ::
  "u8 \<Rightarrow> bool \<Rightarrow> u16 \<Rightarrow> u64 \<Rightarrow> u16 \<Rightarrow> u8 list" where
  "nios_pkt_16x64_pack_with_transaction_id target write addr data transaction_id =
     (nios_pkt_16x64_pack target write addr data)
       [14 := byte_of 0 transaction_id, 15 := byte_of 1 transaction_id]"

definition nios_pkt_16x64_transaction_id :: "u8 list \<Rightarrow> u16" where
  "nios_pkt_16x64_transaction_id buf = ucast (buf ! 14) OR push_bit 8 (ucast (buf ! 15))"

definition nios_pkt_16x64_resp_pack_with_transaction_id ::
  "u8 \<Rightarrow> bool \<Rightarrow> u16 \<Rightarrow> u64 \<Rightarrow> bool \<Rightarrow> u16 \<Rightarrow> u8 list" where
  "nios_pkt_16x64_resp_pack_with_transaction_id target write addr data success transaction_id =
     (nios_pkt_16x64_resp_pack target write addr data success)
       [14 := byte_of 0 transaction_id, 15 := byte_of 1 transaction_id]"

definition nios_pkt_16x64_resp_pack_busy :: "u8 \<Rightarrow> u16 \<Rightarrow> u64 \<Rightarrow> u16 \<Rightarrow> u8 list" where
  "nios_pkt_16x64_resp_pack_busy target addr data transaction_id =
     (let buf = nios_pkt_16x64_resp_pack_with_transaction_id target True addr data False
                  transaction_id
      in buf[IDX_FLAGS := buf ! IDX_FLAGS OR FLAG_BUSY])"

definition nios_pkt_16x64_resp_is_busy :: "u8 list \<Rightarrow> bool" where
  "nios_pkt_16x64_resp_is_busy buf \<longleftrightarrow> buf ! IDX_FLAGS AND FLAG_BUSY \<noteq> 0"

definition nios_pkt_16x64_resp_pack_queue_full :: "u8 \<Rightarrow> u16 \<Rightarrow> u64 \<Rightarrow> u16 \<Rightarrow> u8 list" where
  "nios_pkt_16x64_resp_pack_queue_full target addr data transaction_id =
     (let buf = nios_pkt_16x64_resp_pack_with_transaction_id target True addr data False
                  transaction_id
      in buf[IDX_FLAGS := buf ! IDX_FLAGS OR FLAG_QUEUE_FULL])"

definition nios_pkt_16x64_resp_is_queue_full :: "u8 list \<Rightarrow> bool" where
  "nios_pkt_16x64_resp_is_queue_full buf \<longleftrightarrow> buf ! IDX_FLAGS AND FLAG_QUEUE_FULL \<noteq> 0"

lemmas nios_pkt_16x64_tag_defs =
  nios_pkt_16x64_pack_with_transaction_id_def nios_pkt_16x64_transaction_id_def
  nios_pkt_16x64_resp_pack_with_transaction_id_def nios_pkt_16x64_resp_pack_busy_def
  nios_pkt_16x64_resp_is_busy_def nios_pkt_16x64_resp_pack_queue_full_def
  nios_pkt_16x64_resp_is_queue_full_def

section \<open>Batch payloads and encoded addresses\<close>

definition nios_pkt_16x64_batch_payload_valid :: "u16 \<Rightarrow> u64 \<Rightarrow> bool" where
  "nios_pkt_16x64_batch_payload_valid count data =
     (let marker = byte_of 7 data in
      if count = 0 \<or> count > 3 \<or> (marker \<noteq> 0 \<and> marker \<noteq> 0xa5) then False
      else let entry_mask = push_bit (18 * unat count) 1 - 1 :: u64
           in data AND NOT (entry_mask OR push_bit 56 0xff) = 0)"

definition nios_pkt_16x64_retune2_record_addr :: "bool \<Rightarrow> bool \<Rightarrow> u8 \<Rightarrow> u16" where
  "nios_pkt_16x64_retune2_record_addr failure tx word =
     (if failure then 8 else 0) OR (if tx then 4 else 0) OR
     (ucast word AND 3) OR push_bit 2 (ucast word AND 4)"

definition nios_pkt_16x64_retune2_record_addr_unpack :: "u16 \<Rightarrow> (bool \<times> bool \<times> u8) option" where
  "nios_pkt_16x64_retune2_record_addr_unpack addr =
     (let decoded_word = ucast ((addr AND 3) OR drop_bit 2 (addr AND 0x10)) :: u8 in
      if addr AND 0xffe0 \<noteq> 0 \<or> decoded_word > 5 then None
      else Some (addr AND 8 \<noteq> 0, addr AND 4 \<noteq> 0, decoded_word))"

definition nios_pkt_16x64_retune2_record_identity :: "u16 \<Rightarrow> u8 \<Rightarrow> u8 \<Rightarrow> u8 \<Rightarrow> u8 \<Rightarrow> u64" where
  "nios_pkt_16x64_retune2_record_identity token nios_profile flags session_low failure_stage =
     ucast token OR push_bit 16 (ucast nios_profile) OR push_bit 24 (ucast flags) OR
     push_bit 32 (ucast session_low) OR push_bit 40 (ucast failure_stage)"

definition nios_pkt_16x64_retune2_record_error :: "u8 \<Rightarrow> u64" where
  "nios_pkt_16x64_retune2_record_error code = push_bit 56 0x5c OR ucast code"

definition nios_pkt_16x64_fastlock_profile_addr :: "bool \<Rightarrow> u8 \<Rightarrow> u8 \<Rightarrow> u16" where
  "nios_pkt_16x64_fastlock_profile_addr tx slot op =
     push_bit 10 (ucast (op AND 3)) OR (if tx then 0x100 else 0) OR ucast slot"

definition nios_pkt_16x64_fastlock_profile_addr_unpack :: "u16 \<Rightarrow> (bool \<times> u8 \<times> u8) option" where
  "nios_pkt_16x64_fastlock_profile_addr_unpack addr =
     (let decoded_op = ucast (drop_bit 10 addr AND 3) :: u8 in
      if addr AND 0xf200 \<noteq> 0 \<or> decoded_op > 2 then None
      else Some (addr AND 0x100 \<noteq> 0, ucast (addr AND 0xff), decoded_op))"

fun nios_pkt_16x64_fastlock_profile_half_pack :: "u8 list \<Rightarrow> u64" where
  \<comment> \<open>the loop ors \<^verbatim>\<open>words[i] << (8u * i)\<close> for \<^verbatim>\<open>i < 8\<close>\<close>
  "nios_pkt_16x64_fastlock_profile_half_pack words =
     fold (\<lambda>i data. data OR push_bit (8 * i) (ucast (words ! i))) [0..<8] 0"

definition nios_pkt_16x64_fastlock_profile_half_unpack :: "u64 \<Rightarrow> u8 list" where
  "nios_pkt_16x64_fastlock_profile_half_unpack data = map (\<lambda>i. byte_of i data) [0..<8]"

definition nios_pkt_16x64_fastlock_profile_error :: "u8 \<Rightarrow> u64" where
  "nios_pkt_16x64_fastlock_profile_error code = push_bit 56 0x5b OR ucast code"

definition nios_pkt_16x64_fastlock_profile_error_code :: "u64 \<Rightarrow> int" where
  "nios_pkt_16x64_fastlock_profile_error_code data =
     (if drop_bit 56 data \<noteq> 0x5b \<or> data AND 0x00ffffffffffff00 \<noteq> 0 then -1
      else uint (data AND 0xff))"

definition nios_pkt_16x64_gain_table_region_addr :: "u8 \<Rightarrow> bool \<Rightarrow> u8 \<Rightarrow> u16" where
  "nios_pkt_16x64_gain_table_region_addr region split rows =
     (ucast region AND 3) OR (if split then 4 else 0) OR push_bit 8 (ucast rows)"

definition nios_pkt_16x64_gain_table_region_unpack :: "u16 \<Rightarrow> (u8 \<times> bool \<times> u8) option" where
  "nios_pkt_16x64_gain_table_region_unpack addr =
     (if addr AND 0x00f8 \<noteq> 0 \<or> addr AND 3 > 2 then None
      else let rows = ucast (drop_bit 8 addr) :: u8
           in if rows \<noteq> 0 then Some (ucast (addr AND 3), addr AND 4 \<noteq> 0, rows) else None)"

definition nios_pkt_16x64_gain_table_digest :: "u8 list list \<Rightarrow> nat \<Rightarrow> u64" where
  \<comment> \<open>FNV-1a over the first \<open>rows\<close> rows, each \<^verbatim>\<open>uint8_t[3]\<close>\<close>
  "nios_pkt_16x64_gain_table_digest tab rows =
     fold (\<lambda>b digest. (digest XOR ucast b) * 1099511628211) (concat (take rows tab))
       1469598103934665603"

end
