(* ===== verification/Nios_Match.thy ===== *)
theory Nios_Match
  imports Nios_Pkt_Ext
begin

unbundle bit_operations_syntax

text \<open>
  Response identity checking of \<^verbatim>\<open>backend/usb/nios_transaction.c\<close>: whether a
  16-byte response frame can be the answer to a given request, for every packet family,
  and the classification of requests that the recovery paths use.
\<close>

section \<open>Frame helpers\<close>

definition nios_read_le64 :: "u8 list \<Rightarrow> nat \<Rightarrow> u64" where
  "nios_read_le64 buf offset =
     fold (\<lambda>i value. value OR push_bit (8 * i) (ucast (buf ! (offset + i)))) [0..<8] 0"

definition nios_response_has_zero_tail :: "u8 list \<Rightarrow> nat \<Rightarrow> bool" where
  "nios_response_has_zero_tail response first_reserved =
     list_all (\<lambda>i. response ! i = 0) [first_reserved..<NIOS_PKT_LEN]"

definition nios_response_flags_and_reserved_valid :: "u8 list \<Rightarrow> nat \<Rightarrow> nat \<Rightarrow> bool" where
  "nios_response_flags_and_reserved_valid response flags_offset reserved_offset \<longleftrightarrow>
     response ! flags_offset AND 0xfc = 0 \<and> response ! reserved_offset = 0"

section \<open>Legacy packets\<close>

abbreviation (input) NIOS_PKT_LEGACY_MAGIC :: u8 where "NIOS_PKT_LEGACY_MAGIC \<equiv> 0x4e"
abbreviation (input) NIOS_PKT_LEGACY_ERROR_MAGIC :: u8 where
  "NIOS_PKT_LEGACY_ERROR_MAGIC \<equiv> 0xb1"

definition nios_legacy_config_ranges :: "(u8 \<times> u8) list" where
  "nios_legacy_config_ranges =
     [(0, 4), (4, 2), (6, 2), (8, 2), (10, 2), (12, 4), (16, 8), (24, 8), (34, 2),
      (36, 4), (40, 4), (44, 4)]"

fun nios_legacy_find_range :: "u8 \<Rightarrow> (u8 \<times> u8) list \<Rightarrow> u8 \<times> u8" where
  "nios_legacy_find_range first_addr [] = (0, 0)"
| "nios_legacy_find_range first_addr ((start, len) # ranges) =
     (if first_addr \<ge> start \<and> first_addr < start + len then (start, len)
      else nios_legacy_find_range first_addr ranges)"

definition nios_legacy_config_response_matches :: "u8 list \<Rightarrow> u8 list \<Rightarrow> bool" where
  "nios_legacy_config_response_matches request response =
     (let count = request ! 1 AND 7;
          first_addr = request ! 2;
          (range_start, range_length) =
             nios_legacy_find_range first_addr nios_legacy_config_ranges;
          left = range_length - (first_addr - range_start);
          i = (if count > left then left else count)
      in if count = 0 then False
         else if range_length = 0 then False
         else list_all (\<lambda>k. response ! (2 + 2 * k) = request ! (2 + 2 * k) - range_start)
                [0..<unat i])"

definition nios_legacy_response_matches :: "u8 list \<Rightarrow> u8 list \<Rightarrow> bool" where
  "nios_legacy_response_matches request response =
     (if (response ! 0 \<noteq> NIOS_PKT_LEGACY_MAGIC \<and> response ! 0 \<noteq> NIOS_PKT_LEGACY_ERROR_MAGIC) \<or>
         response ! 1 \<noteq> request ! 1 then False
      else if response ! 0 = NIOS_PKT_LEGACY_ERROR_MAGIC then True
      else let legacy_device = request ! 1 AND 0x30 in
        if legacy_device = 0 then nios_legacy_config_response_matches request response
        else if legacy_device = 0x10 \<or> legacy_device = 0x30 then response ! 2 = request ! 2
        else True)"

section \<open>Retune packets\<close>

abbreviation (input) NIOS_PKT_RETUNE_MAGIC :: u8 where "NIOS_PKT_RETUNE_MAGIC \<equiv> 0x54"
abbreviation (input) NIOS_PKT_RETUNE2_MAGIC :: u8 where "NIOS_PKT_RETUNE2_MAGIC \<equiv> 0x55"
abbreviation (input) RETUNE_NOW :: u64 where "RETUNE_NOW \<equiv> 0"
abbreviation (input) RETUNE_CLEAR_QUEUE :: u64 where "RETUNE_CLEAR_QUEUE \<equiv> - 1"

definition nios_retune_response_matches :: "u8 list \<Rightarrow> u8 list \<Rightarrow> bool" where
  "nios_retune_response_matches request response =
     (let flags = response ! 10; timestamp = nios_read_le64 request 1 in
      \<not> (flags AND 0xe0 \<noteq> 0 \<or>
         \<not> nios_response_has_zero_tail response 11 \<or>
         (flags AND 0x10 \<noteq> 0 \<and> flags AND (0x02 OR 0x04 OR 0x08) \<noteq> 0) \<or>
         (flags AND 0x01 \<noteq> 0 \<and> timestamp \<noteq> RETUNE_NOW) \<or>
         (flags AND 0x04 \<noteq> 0 \<and>
            (timestamp \<noteq> RETUNE_CLEAR_QUEUE \<or> flags AND 0x02 \<noteq> 0)) \<or>
         (flags AND 0x08 \<noteq> 0 \<and>
            (timestamp \<noteq> RETUNE_CLEAR_QUEUE \<or> flags AND (0x02 OR 0x04) \<noteq> 0))))"

definition nios_pkt_retune2_unpack_request_token :: "u8 list \<Rightarrow> u16" where
  "nios_pkt_retune2_unpack_request_token buf = ucast (buf ! 14) OR push_bit 8 (ucast (buf ! 15))"

definition retune2_resp_token :: "u8 list \<Rightarrow> u16" where
  "retune2_resp_token buf = ucast (buf ! 10) OR push_bit 8 (ucast (buf ! 11))"

definition retune2_resp_session_generation :: "u8 list \<Rightarrow> u32" where
  "retune2_resp_session_generation buf =
     ucast (buf ! 12) OR push_bit 8 (ucast (buf ! 13)) OR
     push_bit 16 (ucast (buf ! 14)) OR push_bit 24 (ucast (buf ! 15))"

definition nios_retune2_response_matches ::
  "u8 list \<Rightarrow> u8 list \<Rightarrow> bool \<Rightarrow> u32 \<Rightarrow> bool" where
  \<comment> \<open>flag bits: 1 TSVTUNE_VALID, 2 SUCCESS, 4 INVALID_TIMESTAMP, 8 CANCEL_FAILED,
      16 CANCEL_PENDING, 32 BUSY, 64 ASYNC_PENDING\<close>
  "nios_retune2_response_matches request response session_generation_valid session_generation =
     (let flags = response ! 9; timestamp = nios_read_le64 request 1;
          request_token = nios_pkt_retune2_unpack_request_token request in
      \<not> (flags AND 0x80 \<noteq> 0 \<or>
         (flags AND 64 \<noteq> 0 \<and>
            (timestamp \<noteq> RETUNE_NOW \<or> request_token = 0 \<or> flags AND 2 = 0 \<or>
             flags AND (1 OR 4 OR 8 OR 16 OR 32) \<noteq> 0)) \<or>
         (request_token = 0 \<and> \<not> nios_response_has_zero_tail response 10) \<or>
         (request_token \<noteq> 0 \<and> retune2_resp_token response \<noteq> request_token) \<or>
         (request_token \<noteq> 0 \<and>
            (\<not> session_generation_valid \<or>
             retune2_resp_session_generation response \<noteq> session_generation)) \<or>
         (flags AND 32 \<noteq> 0 \<and> flags AND (2 OR 4 OR 8 OR 16 OR 64) \<noteq> 0) \<or>
         (flags AND 1 \<noteq> 0 \<and> timestamp \<noteq> RETUNE_NOW) \<or>
         (flags AND 8 \<noteq> 0 \<and>
            (timestamp \<noteq> RETUNE_CLEAR_QUEUE \<or> flags AND 2 \<noteq> 0)) \<or>
         (flags AND 16 \<noteq> 0 \<and>
            (timestamp \<noteq> RETUNE_CLEAR_QUEUE \<or> flags AND (2 OR 8 OR 64) \<noteq> 0)) \<or>
         (flags AND 4 \<noteq> 0 \<and>
            (timestamp = RETUNE_NOW \<or> timestamp = RETUNE_CLEAR_QUEUE \<or>
             flags AND (2 OR 8 OR 16 OR 64) \<noteq> 0))))"

section \<open>Register packets\<close>

definition echo_matches ::
  "(u8 list \<Rightarrow> u8 \<times> bool \<times> 'a \<times> 'd) \<Rightarrow> u8 list \<Rightarrow> u8 list \<Rightarrow> bool" where
  \<comment> \<open>the comparison every register format repeats on its own unpacked fields\<close>
  "echo_matches unpack request response =
     (case (unpack request, unpack response) of
        ((req_target, req_write, req_addr, req_data),
         (resp_target, resp_write, resp_addr, resp_data)) \<Rightarrow>
        req_target = resp_target \<and> req_write = resp_write \<and> req_addr = resp_addr \<and>
        (\<not> req_write \<or> req_data = resp_data))"

abbreviation (input) TARGET_AD9361 :: u8 where "TARGET_AD9361 \<equiv> 0"
abbreviation (input) TARGET_RFIC :: u8 where "TARGET_RFIC \<equiv> 1"
abbreviation (input) TARGET_GAIN_TABLE_ROW :: u8 where "TARGET_GAIN_TABLE_ROW \<equiv> 2"

definition nios_16x64_response_matches :: "u8 list \<Rightarrow> u8 list \<Rightarrow> bool" where
  "nios_16x64_response_matches request response =
     (let (req_target, req_write, req_addr, req_data) = nios_pkt_16x64_unpack request;
          (resp_target, resp_write, resp_addr, resp_data) = nios_pkt_16x64_unpack response;
          flags = response ! IDX_FLAGS in
      if flags AND 0xf0 \<noteq> 0 \<or> response ! 3 \<noteq> 0 then False
      else if nios_pkt_16x64_resp_is_queue_full response \<and>
              (req_target \<noteq> TARGET_RFIC \<or> \<not> req_write \<or>
               nios_pkt_16x64_resp_is_busy response \<or> flags AND FLAG_SUCCESS \<noteq> 0) then False
      else if (if req_target = TARGET_RFIC \<and> req_write
               then nios_pkt_16x64_transaction_id request \<noteq>
                    nios_pkt_16x64_transaction_id response
               else nios_pkt_16x64_transaction_id request \<noteq> 0 \<or>
                    \<not> nios_response_has_zero_tail response 14) then False
      else if req_target \<noteq> resp_target \<or> req_write \<noteq> resp_write \<or> req_addr \<noteq> resp_addr then False
      else if nios_pkt_16x64_resp_is_busy response \<and>
              (req_target \<noteq> TARGET_RFIC \<or> \<not> req_write \<or>
               nios_pkt_16x64_transaction_id request = 0 \<or> flags AND FLAG_SUCCESS \<noteq> 0) then False
      else if req_write \<and> (req_target = TARGET_AD9361 \<or> req_target = TARGET_RFIC \<or>
                           req_target = TARGET_GAIN_TABLE_ROW) then req_data = resp_data
      else True)"

definition nios_response_matches_request :: "u8 list \<Rightarrow> u8 list \<Rightarrow> bool \<Rightarrow> u32 \<Rightarrow> bool" where
  "nios_response_matches_request request response session_generation_valid session_generation =
     (let magic = request ! 0; flags = response ! IDX_FLAGS in
      if magic = NIOS_PKT_LEGACY_MAGIC then nios_legacy_response_matches request response
      else if request ! 0 \<noteq> response ! 0 then False
      else if magic = nios_pkt_8x8_MAGIC then
        nios_response_flags_and_reserved_valid response 2 3 \<and>
        nios_response_has_zero_tail response 6 \<and>
        echo_matches nios_pkt_8x8_unpack request response
      else if magic = nios_pkt_8x16_MAGIC then
        \<not> (flags AND 0xf8 \<noteq> 0 \<or> response ! 3 \<noteq> 0 \<or>
           (flags AND FLAG_BUSY \<noteq> 0 \<and> flags AND FLAG_SUCCESS \<noteq> 0) \<or>
           \<not> nios_response_has_zero_tail response 7) \<and>
        echo_matches nios_pkt_8x16_unpack request response
      else if magic = nios_pkt_8x32_MAGIC then
        nios_response_flags_and_reserved_valid response 2 3 \<and>
        nios_response_has_zero_tail response 9 \<and>
        echo_matches nios_pkt_8x32_unpack request response
      else if magic = nios_pkt_8x64_MAGIC then
        nios_response_flags_and_reserved_valid response 2 3 \<and>
        nios_response_has_zero_tail response 13 \<and>
        echo_matches nios_pkt_8x64_unpack request response
      else if magic = nios_pkt_16x64_MAGIC then nios_16x64_response_matches request response
      else if magic = nios_pkt_32x32_MAGIC then
        nios_response_flags_and_reserved_valid response 2 3 \<and>
        nios_response_has_zero_tail response 12 \<and>
        echo_matches nios_pkt_32x32_unpack request response
      else if magic = NIOS_PKT_RETUNE_MAGIC then nios_retune_response_matches request response
      else if magic = NIOS_PKT_RETUNE2_MAGIC then
        nios_retune2_response_matches request response session_generation_valid
          session_generation
      else True)"

lemma length_16E:
  assumes "length xs = NIOS_PKT_LEN"
  obtains x0 x1 x2 x3 x4 x5 x6 x7 x8 x9 x10 x11 x12 x13 x14 x15 where
    "xs = [x0, x1, x2, x3, x4, x5, x6, x7, x8, x9, x10, x11, x12, x13, x14, x15]"
  using assms by (auto simp: NIOS_PKT_LEN_def numeral_eq_Suc length_Suc_conv)

end
