(* ===== verification/Nios_Transaction.thy ===== *)
theory Nios_Transaction
  imports Nios_Match
begin

unbundle bit_operations_syntax

text \<open>
  The request/response transport of \<^verbatim>\<open>backend/usb/nios_transaction.c\<close> and the
  deadline helper of \<^verbatim>\<open>helpers/timeout.c\<close>.

  \<^item> The USB driver behind \<^verbatim>\<open>usb->fn->bulk_transfer\<close> and the monotonic clock are
    parameters: \<open>'s usb_fns\<close> is their function table over a driver state \<open>'s\<close>. A
    status is \<open>None\<close> for 0 and \<open>Some e\<close> for an error code. An IN transfer returns its
    status, the bytes it stored (\<^verbatim>\<open>transferred\<close> is their number) and
    \<^verbatim>\<open>transferred_valid\<close>.
  \<^item> \<open>usb_peripheral_state\<close> is the structure the transaction lock protects.
  \<^item> The two \<^verbatim>\<open>for (;;)\<close> loops run on fuel, one unit per iteration, and \<open>None\<close> means
    that the fuel was used up; \<open>response_loop_returns\<close> below shows how much is enough.
  \<^item> Every path of the C function stores the stage, so the stage is part of the result.
\<close>

section \<open>Environment and state\<close>

record 's usb_fns =
  bulk_out :: "u8 list \<Rightarrow> 's \<Rightarrow> bladerf_error option \<times> 's"
  bulk_in :: "nat \<Rightarrow> u32 \<Rightarrow> 's \<Rightarrow> (bladerf_error option \<times> u8 list \<times> bool) \<times> 's"
  clock_ns :: "'s \<Rightarrow> u64 option \<times> 's"

record usb_peripheral_state =
  desynchronized :: bool
  pending_read_response :: bool
  pending_read_request :: "u8 list"
  pending_rfic_write :: bool
  pending_rfic_request :: "u8 list"
  pending_retune2_response :: bool
  pending_retune2_request :: "u8 list"
  pending_retune2_session_generation :: u32
  command_session_generation_valid :: bool
  command_session_generation :: u32

datatype nios_transaction_stage =
    NIOS_TRANSACTION_DESYNCHRONIZED | NIOS_TRANSACTION_OUT_FAILED
  | NIOS_TRANSACTION_IN_FAILED | NIOS_TRANSACTION_RESPONSE_MISMATCH
  | NIOS_TRANSACTION_PENDING_RESPONSE | NIOS_TRANSACTION_COMPLETE

definition bladerf_timeout_remaining_ms ::
  "'s usb_fns \<Rightarrow> u64 \<Rightarrow> u32 \<Rightarrow> 's \<Rightarrow> (bladerf_error option \<times> u32) \<times> 's" where
  "bladerf_timeout_remaining_ms fn start_ns timeout_ms s =
     (if timeout_ms = 0 then ((Some BLADERF_ERR_INVAL, 0), s)
      else case clock_ns fn s of
        (None, s') \<Rightarrow> ((Some BLADERF_ERR_UNEXPECTED, 0), s')
      | (Some now_ns, s') \<Rightarrow>
          let elapsed_ns = (if now_ns \<ge> start_ns then now_ns - start_ns else 0) in
          if elapsed_ns \<ge> ucast timeout_ms * 1000000 then ((Some BLADERF_ERR_TIMEOUT, 0), s')
          else let remaining_ns = ucast timeout_ms * 1000000 - elapsed_ns in
            ((None, ucast ((remaining_ns + 999999) div 1000000)), s'))"

section \<open>Request classes\<close>

abbreviation (input) TARGET_VERSION :: u8 where "TARGET_VERSION \<equiv> 0"
abbreviation (input) TARGET_CONTROL :: u8 where "TARGET_CONTROL \<equiv> 1"
abbreviation (input) TARGET_RETUNE2_COMPLETION :: u8 where "TARGET_RETUNE2_COMPLETION \<equiv> 0x8f"
abbreviation (input) TARGET_COMMAND_SESSION_GENERATION :: u8 where
  "TARGET_COMMAND_SESSION_GENERATION \<equiv> 0x90"

definition nios_is_tagged_rfic_write :: "u8 list \<Rightarrow> bool" where
  "nios_is_tagged_rfic_write packet \<longleftrightarrow>
     packet ! 0 = nios_pkt_16x64_MAGIC \<and> packet ! 1 = TARGET_RFIC \<and>
     packet ! IDX_FLAGS AND FLAG_WRITE \<noteq> 0 \<and> nios_pkt_16x64_transaction_id packet \<noteq> 0"

definition nios_is_recovery_status_read :: "u8 list \<Rightarrow> bool" where
  "nios_is_recovery_status_read packet =
     (if packet ! 0 \<noteq> nios_pkt_16x64_MAGIC \<or> packet ! 1 \<noteq> TARGET_RFIC \<or>
         packet ! IDX_FLAGS AND FLAG_WRITE \<noteq> 0 then False
      else let address = (ucast (packet ! 4) OR push_bit 8 (ucast (packet ! 5)) :: u16) in
        address = 0x0f00 \<or> address = 0x0f0c)"

definition nios_is_retune2_readout_request :: "u8 list \<Rightarrow> bool" where
  "nios_is_retune2_readout_request packet =
     (if packet ! 0 \<noteq> nios_pkt_8x32_MAGIC then False
      else case nios_pkt_8x32_unpack packet of (target, write, addr, data) \<Rightarrow>
        target = TARGET_RETUNE2_COMPLETION \<and>
        (\<not> write \<and> addr \<le> 7 \<or> write \<and> addr \<le> 3))"

definition nios_is_fixed_read_request :: "u8 list \<Rightarrow> bool" where
  "nios_is_fixed_read_request packet =
     (let magic = packet ! 0 in
      if magic = nios_pkt_8x8_MAGIC then
        (case nios_pkt_8x8_unpack packet of (target, write, addr, data) \<Rightarrow> \<not> write)
      else if magic = nios_pkt_8x16_MAGIC then
        (case nios_pkt_8x16_unpack packet of (target, write, addr, data) \<Rightarrow> \<not> write)
      else if magic = nios_pkt_8x32_MAGIC then
        (case nios_pkt_8x32_unpack packet of (target, write, addr, data) \<Rightarrow> \<not> write)
      else if magic = nios_pkt_8x64_MAGIC then
        (case nios_pkt_8x64_unpack packet of (target, write, addr, data) \<Rightarrow> \<not> write)
      else if magic = nios_pkt_16x64_MAGIC then
        (case nios_pkt_16x64_unpack packet of (target, write, addr, data) \<Rightarrow>
           \<not> write \<and> nios_pkt_16x64_transaction_id packet = 0)
      else if magic = nios_pkt_32x32_MAGIC then
        (case nios_pkt_32x32_unpack packet of (target, write, addr, data) \<Rightarrow> \<not> write)
      else False)"

definition nios_is_retune2_clear :: "u8 list \<Rightarrow> bool" where
  \<comment> \<open>the RETUNE2 queue-clear test shared by lines 677-680 and 910-913\<close>
  "nios_is_retune2_clear packet \<longleftrightarrow>
     packet ! 0 = NIOS_PKT_RETUNE2_MAGIC \<and> nios_read_le64 packet 1 = RETUNE_CLEAR_QUEUE"

definition nios_is_retune2_recovery_request :: "u8 list \<Rightarrow> bool" where
  "nios_is_retune2_recovery_request packet =
     (if packet ! 0 = nios_pkt_8x32_MAGIC then
        (case nios_pkt_8x32_unpack packet of (target, write, addr, data) \<Rightarrow>
           \<not> write \<or> target = TARGET_RETUNE2_COMPLETION \<and> addr \<le> 3)
      else if nios_is_recovery_status_read packet then True
      else nios_is_retune2_clear packet)"

section \<open>Draining a retained read\<close>

type_synonym 's txn_result =
  "bladerf_error option \<times> nios_transaction_stage \<times> usb_peripheral_state \<times> u8 list \<times> 's"

abbreviation desync :: "usb_peripheral_state \<Rightarrow> usb_peripheral_state" where
  "desync st \<equiv> st\<lparr>desynchronized := True\<rparr>"

definition drain_barrier :: "usb_peripheral_state \<Rightarrow> u8 list" where
  "drain_barrier st =
     (if pending_read_request st ! 0 = nios_pkt_8x32_MAGIC \<and>
         pending_read_request st ! 1 = TARGET_VERSION \<and> pending_read_request st ! 4 = 0
      then nios_pkt_8x32_pack TARGET_CONTROL False 0 0
      else nios_pkt_8x32_pack TARGET_VERSION False 0 0)"

fun drain_loop ::
  "'s usb_fns \<Rightarrow> nat \<Rightarrow> u64 \<Rightarrow> u32 \<Rightarrow> u8 list \<Rightarrow> usb_peripheral_state \<Rightarrow> 's \<Rightarrow>
   (bladerf_error option \<times> nios_transaction_stage \<times> usb_peripheral_state \<times> 's) option" where
  "drain_loop fn 0 started_ns timeout_ms barrier st s = None"
| "drain_loop fn (Suc fuel) started_ns timeout_ms barrier st s =
     (case bladerf_timeout_remaining_ms fn started_ns timeout_ms s of
       ((deadline_status, remaining_ms), s1) \<Rightarrow>
        if deadline_status \<noteq> None \<or> remaining_ms = 0 then
          (if deadline_status \<noteq> Some BLADERF_ERR_TIMEOUT \<and> deadline_status \<noteq> None
           then Some (Some BLADERF_ERR_UNEXPECTED, NIOS_TRANSACTION_IN_FAILED, desync st, s1)
           else Some (Some BLADERF_ERR_TIMEOUT, NIOS_TRANSACTION_IN_FAILED, desync st, s1))
        else case bulk_in fn NIOS_PKT_LEN remaining_ms s1 of
          ((status, response, transferred_valid), s2) \<Rightarrow>
          if \<not> transferred_valid \<or> length response > NIOS_PKT_LEN then
            Some (Some BLADERF_ERR_UNEXPECTED, NIOS_TRANSACTION_IN_FAILED, desync st, s2)
          else if length response \<noteq> NIOS_PKT_LEN then
            (if status = Some BLADERF_ERR_TIMEOUT \<and> length response = 0
             then Some (Some BLADERF_ERR_TIMEOUT, NIOS_TRANSACTION_IN_FAILED, desync st, s2)
             else Some (if status \<noteq> None then status else Some BLADERF_ERR_IO,
                        NIOS_TRANSACTION_IN_FAILED, desync st, s2))
          else if status \<noteq> None \<and> status \<noteq> Some BLADERF_ERR_TIMEOUT then
            Some (status, NIOS_TRANSACTION_IN_FAILED, desync st, s2)
          else let
            valid = command_session_generation_valid st;
            gen = command_session_generation st;
            pending_matches =
              nios_response_matches_request (pending_read_request st) response valid gen;
            pending_write_matches = (pending_rfic_write st \<and>
              nios_response_matches_request (pending_rfic_request st) response valid gen);
            pending_retune2_matches = (pending_retune2_response st \<and>
              nios_response_matches_request (pending_retune2_request st) response True
                (pending_retune2_session_generation st));
            barrier_matches = nios_response_matches_request barrier response valid gen
          in if (pending_matches \<and> \<not> barrier_matches) \<or> pending_write_matches \<or>
                pending_retune2_matches
             then drain_loop fn fuel started_ns timeout_ms barrier st s2
             else if barrier_matches \<and> \<not> pending_matches then
               Some (None, NIOS_TRANSACTION_COMPLETE,
                     st\<lparr>pending_read_response := False,
                        pending_read_request := replicate NIOS_PKT_LEN 0\<rparr>, s2)
             else Some (Some BLADERF_ERR_UNEXPECTED, NIOS_TRANSACTION_RESPONSE_MISMATCH,
                        desync st, s2))"

definition nios_drain_pending_read_locked ::
  "'s usb_fns \<Rightarrow> nat \<Rightarrow> u32 \<Rightarrow> usb_peripheral_state \<Rightarrow> 's \<Rightarrow>
   (bladerf_error option \<times> nios_transaction_stage \<times> usb_peripheral_state \<times> 's) option" where
  "nios_drain_pending_read_locked fn fuel timeout_ms st s =
     (let barrier = drain_barrier st in
      case clock_ns fn s of
        (None, s1) \<Rightarrow>
          Some (Some BLADERF_ERR_UNEXPECTED, NIOS_TRANSACTION_IN_FAILED, desync st, s1)
      | (Some started_ns, s1) \<Rightarrow>
        (case bulk_out fn barrier s1 of
          (Some e, s2) \<Rightarrow> Some (Some e, NIOS_TRANSACTION_OUT_FAILED, desync st, s2)
        | (None, s2) \<Rightarrow> drain_loop fn fuel started_ns timeout_ms barrier st s2))"

section \<open>One transaction\<close>

definition write_at :: "u8 list \<Rightarrow> nat \<Rightarrow> u8 list \<Rightarrow> u8 list" where
  \<comment> \<open>the driver stores \<open>bytes\<close> at \<^verbatim>\<open>buffer + off\<close>\<close>
  "write_at buf off bytes = take off buf @ bytes @ drop (off + length bytes) buf"

definition clear_pending_retune2 :: "usb_peripheral_state \<Rightarrow> usb_peripheral_state" where
  "clear_pending_retune2 st =
     st\<lparr>pending_retune2_response := False,
        pending_retune2_request := replicate NIOS_PKT_LEN 0,
        pending_retune2_session_generation := 0\<rparr>"

definition clear_pending_rfic :: "usb_peripheral_state \<Rightarrow> usb_peripheral_state" where
  "clear_pending_rfic st =
     st\<lparr>pending_rfic_write := False, pending_rfic_request := replicate NIOS_PKT_LEN 0\<rparr>"

definition is_session_generation_read :: "u8 list \<Rightarrow> u8 list \<Rightarrow> bool" where
  "is_session_generation_read request buffer \<longleftrightarrow>
     request ! 0 = nios_pkt_8x32_MAGIC \<and> request ! IDX_FLAGS AND FLAG_WRITE = 0 \<and>
     request ! 1 = TARGET_COMMAND_SESSION_GENERATION \<and> request ! 4 = 0 \<and>
     buffer ! IDX_FLAGS AND FLAG_SUCCESS \<noteq> 0"

definition accept_response ::
  "bool \<Rightarrow> bool \<Rightarrow> bool \<Rightarrow> u8 list \<Rightarrow> u8 list \<Rightarrow> usb_peripheral_state \<Rightarrow> usb_peripheral_state"
where
  \<comment> \<open>the state updates once the frame in \<open>buffer\<close> answers the current request\<close>
  "accept_response validate_echo recovering_write recovering_retune2 request buffer st =
     (let st1 = (if recovering_write \<and> (nios_is_recovery_status_read request \<or>
                                        nios_is_retune2_readout_request request)
                 then clear_pending_rfic st else st);
          st2 = (if validate_echo \<and> is_session_generation_read request buffer then
                   (let gen_value = snd (snd (snd (nios_pkt_8x32_unpack buffer)));
                        previous_valid = command_session_generation_valid st1;
                        st1' = st1\<lparr>command_session_generation := gen_value,
                                   command_session_generation_valid := True\<rparr>
                    in if recovering_retune2 \<and> pending_retune2_response st1' \<and>
                          previous_valid \<and>
                          gen_value \<noteq> pending_retune2_session_generation st1'
                       then clear_pending_retune2 st1' else st1')
                 else st1)
      in if recovering_retune2 \<and> pending_retune2_response st2 \<and>
            nios_is_retune2_clear request
         then clear_pending_retune2 st2 else st2)"

definition retain_on_timeout ::
  "bool \<Rightarrow> nat \<Rightarrow> u8 list \<Rightarrow> usb_peripheral_state \<Rightarrow> bladerf_error \<times> usb_peripheral_state"
where
  \<comment> \<open>what a timed-out response leaves behind\<close>
  "retain_on_timeout validate_echo response_bytes request st =
     (if response_bytes = 0 \<and> validate_echo \<and> request ! 0 = NIOS_PKT_RETUNE2_MAGIC then
        (let tokenless_queue_clear =
               (nios_pkt_retune2_unpack_request_token request = 0 \<and>
                nios_read_le64 request 1 = RETUNE_CLEAR_QUEUE) in
         if pending_retune2_response st then (BLADERF_ERR_TIMEOUT, desync st)
         else if \<not> command_session_generation_valid st \<and> \<not> tokenless_queue_clear
         then (BLADERF_ERR_UNEXPECTED, desync st)
         else (BLADERF_ERR_TIMEOUT,
               st\<lparr>pending_retune2_request := request,
                  pending_retune2_session_generation :=
                    (if command_session_generation_valid st
                     then command_session_generation st else 0),
                  pending_retune2_response := True\<rparr>))
      else if response_bytes = 0 \<and> validate_echo \<and> nios_is_tagged_rfic_write request \<and>
              (\<not> pending_rfic_write st \<or> request = pending_rfic_request st) then
        (BLADERF_ERR_TIMEOUT,
         if \<not> pending_rfic_write st
         then st\<lparr>pending_rfic_request := request, pending_rfic_write := True\<rparr> else st)
      else if response_bytes = 0 \<and> validate_echo \<and> nios_is_fixed_read_request request then
        (BLADERF_ERR_TIMEOUT,
         st\<lparr>pending_read_request := request, pending_read_response := True\<rparr>)
      else (BLADERF_ERR_TIMEOUT, desync st))"

datatype 's txn_step =
    Done "'s txn_result"
  | Again usb_peripheral_state "u8 list" nat 's

definition frame_complete ::
  "bool \<Rightarrow> bool \<Rightarrow> bool \<Rightarrow> u8 list \<Rightarrow> bladerf_error option \<Rightarrow> usb_peripheral_state \<Rightarrow>
   u8 list \<Rightarrow> 's \<Rightarrow> 's txn_step" where
  \<comment> \<open>a whole frame has been assembled in \<open>buffer\<close>\<close>
  "frame_complete validate_echo recovering_write recovering_retune2 request status st buffer s =
     (if status \<noteq> None \<and> status \<noteq> Some BLADERF_ERR_TIMEOUT
      then Done (status, NIOS_TRANSACTION_IN_FAILED, desync st, buffer, s)
      else let
        valid = command_session_generation_valid st;
        gen = command_session_generation st;
        current_matches =
          (\<not> validate_echo \<or> nios_response_matches_request request buffer valid gen);
        pending_matches = (recovering_write \<and> pending_rfic_write st \<and>
          nios_response_matches_request (pending_rfic_request st) buffer valid gen);
        pending_retune2_matches = (recovering_retune2 \<and> pending_retune2_response st \<and>
          nios_response_matches_request (pending_retune2_request st) buffer True
            (pending_retune2_session_generation st));
        st1 = (if pending_retune2_matches then clear_pending_retune2 st else st)
      in if current_matches then
           Done (None, NIOS_TRANSACTION_COMPLETE,
                 accept_response validate_echo recovering_write recovering_retune2 request
                   buffer st1, buffer, s)
         else if pending_matches \<or> pending_retune2_matches then Again st1 buffer 0 s
         else Done (Some BLADERF_ERR_UNEXPECTED, NIOS_TRANSACTION_RESPONSE_MISMATCH,
                    desync st1, buffer, s))"

definition after_transfer ::
  "bool \<Rightarrow> bool \<Rightarrow> bool \<Rightarrow> u8 list \<Rightarrow> bladerf_error option \<Rightarrow> nat \<Rightarrow> usb_peripheral_state \<Rightarrow>
   u8 list \<Rightarrow> nat \<Rightarrow> 's \<Rightarrow> 's txn_step" where
  \<comment> \<open>lines 822-1017: what the loop does once \<^verbatim>\<open>status\<close> and \<^verbatim>\<open>transferred\<close> are known\<close>
  "after_transfer validate_echo recovering_write recovering_retune2 request status transferred
     st buffer response_bytes s =
     (if response_bytes = length buffer then
        frame_complete validate_echo recovering_write recovering_retune2 request status st buffer s
      else if status \<noteq> None \<and> status \<noteq> Some BLADERF_ERR_TIMEOUT then
        Done (status, NIOS_TRANSACTION_IN_FAILED, desync st, buffer, s)
      else if status = Some BLADERF_ERR_TIMEOUT then
        (case retain_on_timeout validate_echo response_bytes request st of (e, st1) \<Rightarrow>
           Done (Some e, NIOS_TRANSACTION_IN_FAILED, st1, buffer, s))
      else if transferred = 0 then
        Done (Some BLADERF_ERR_IO, NIOS_TRANSACTION_IN_FAILED, desync st, buffer, s)
      else Again st buffer response_bytes s)"

definition response_step ::
  "'s usb_fns \<Rightarrow> bool \<Rightarrow> bool \<Rightarrow> bool \<Rightarrow> u8 list \<Rightarrow> u64 \<Rightarrow> u32 \<Rightarrow> usb_peripheral_state \<Rightarrow>
   u8 list \<Rightarrow> nat \<Rightarrow> 's \<Rightarrow> 's txn_step" where
  \<comment> \<open>one iteration of the response loop\<close>
  "response_step fn validate_echo recovering_write recovering_retune2 request started_ns
     timeout_ms st buffer response_bytes s =
     (case bladerf_timeout_remaining_ms fn started_ns timeout_ms s of
       ((deadline_status, remaining_ms), s1) \<Rightarrow>
        if deadline_status \<noteq> None \<and> deadline_status \<noteq> Some BLADERF_ERR_TIMEOUT then
          Done (Some BLADERF_ERR_UNEXPECTED, NIOS_TRANSACTION_IN_FAILED, desync st, buffer, s1)
        else if deadline_status = Some BLADERF_ERR_TIMEOUT \<or> remaining_ms = 0 then
          after_transfer validate_echo recovering_write recovering_retune2 request
            (Some BLADERF_ERR_TIMEOUT) 0 st buffer response_bytes s1
        else let requested = length buffer - response_bytes in
          case bulk_in fn requested remaining_ms s1 of
            ((status, bytes, transferred_valid), s2) \<Rightarrow>
            if \<not> transferred_valid \<or> length bytes > requested then
              Done (Some BLADERF_ERR_UNEXPECTED, NIOS_TRANSACTION_IN_FAILED, desync st,
                    buffer, s2)
            else after_transfer validate_echo recovering_write recovering_retune2 request status
                   (length bytes) st (write_at buffer response_bytes bytes)
                   (response_bytes + length bytes) s2)"

fun response_loop ::
  "'s usb_fns \<Rightarrow> nat \<Rightarrow> bool \<Rightarrow> bool \<Rightarrow> bool \<Rightarrow> u8 list \<Rightarrow> u64 \<Rightarrow> u32 \<Rightarrow>
   usb_peripheral_state \<Rightarrow> u8 list \<Rightarrow> nat \<Rightarrow> 's \<Rightarrow> 's txn_result option" where
  "response_loop fn 0 validate_echo rw rr request started_ns timeout_ms st buffer n s = None"
| "response_loop fn (Suc fuel) validate_echo rw rr request started_ns timeout_ms st buffer n s =
     (case response_step fn validate_echo rw rr request started_ns timeout_ms st buffer n s of
        Done r \<Rightarrow> Some r
      | Again st' buffer' n' s' \<Rightarrow>
          response_loop fn fuel validate_echo rw rr request started_ns timeout_ms
            st' buffer' n' s')"

definition send_and_receive ::
  "'s usb_fns \<Rightarrow> nat \<Rightarrow> u8 list \<Rightarrow> u32 \<Rightarrow> ('s \<Rightarrow> 's) option \<Rightarrow> usb_peripheral_state \<Rightarrow> 's \<Rightarrow>
   's txn_result option" where
  \<comment> \<open>lines 727-1021: the gates on pending responses, the OUT transfer and the response loop\<close>
  "send_and_receive fn fuel buffer timeout_ms out_complete st s =
     (let validate_echo = (length buffer = NIOS_PKT_LEN); request = buffer in
      if pending_rfic_write st \<and>
         (\<not> validate_echo \<or>
          (\<not> nios_is_recovery_status_read request \<and>
           \<not> nios_is_retune2_readout_request request \<and>
           request \<noteq> pending_rfic_request st)) then
        Some (Some BLADERF_ERR_WOULD_BLOCK, NIOS_TRANSACTION_PENDING_RESPONSE, st, buffer, s)
      else if pending_retune2_response st \<and>
              (\<not> validate_echo \<or> \<not> nios_is_retune2_recovery_request request) then
        Some (Some BLADERF_ERR_WOULD_BLOCK, NIOS_TRANSACTION_PENDING_RESPONSE, st, buffer, s)
      else case bulk_out fn buffer s of
        (Some e, s1) \<Rightarrow> Some (Some e, NIOS_TRANSACTION_OUT_FAILED, desync st, buffer, s1)
      | (None, s1) \<Rightarrow>
          let s2 = (case out_complete of None \<Rightarrow> s1 | Some f \<Rightarrow> f s1);
              s3 = snd (clock_ns fn s2)
          in (case clock_ns fn s3 of
            (None, s4) \<Rightarrow>
              Some (Some BLADERF_ERR_UNEXPECTED, NIOS_TRANSACTION_IN_FAILED, desync st,
                    buffer, s4)
          | (Some started_ns, s4) \<Rightarrow>
              response_loop fn fuel validate_echo (pending_rfic_write st)
                (pending_retune2_response st) request started_ns timeout_ms st buffer 0 s4))"

definition nios_usb_transaction_impl ::
  "'s usb_fns \<Rightarrow> nat \<Rightarrow> u8 list \<Rightarrow> u32 \<Rightarrow> ('s \<Rightarrow> 's) option \<Rightarrow> usb_peripheral_state \<Rightarrow> 's \<Rightarrow>
   's txn_result option" where
  "nios_usb_transaction_impl fn fuel buffer timeout_ms out_complete st s =
     (let s0 = snd (clock_ns fn s) in
      if desynchronized st then
        Some (Some BLADERF_ERR_UNEXPECTED, NIOS_TRANSACTION_DESYNCHRONIZED, st, buffer, s0)
      else if pending_read_response st then
        (case nios_drain_pending_read_locked fn fuel timeout_ms st s0 of
           None \<Rightarrow> None
         | Some (Some e, stage, st1, s1) \<Rightarrow> Some (Some e, stage, st1, buffer, s1)
         | Some (None, stage, st1, s1) \<Rightarrow>
             send_and_receive fn fuel buffer timeout_ms out_complete st1 s1)
      else send_and_receive fn fuel buffer timeout_ms out_complete st s0)"

definition nios_usb_transaction ::
  "'s usb_fns \<Rightarrow> nat \<Rightarrow> u8 list \<Rightarrow> u32 \<Rightarrow> ('s \<Rightarrow> 's) option \<Rightarrow> usb_peripheral_state \<Rightarrow> 's \<Rightarrow>
   's txn_result option" where
  \<comment> \<open>the timed wrapper: a clock reading before and after, used for a log message only\<close>
  "nios_usb_transaction fn fuel buffer timeout_ms out_complete st s =
     (case nios_usb_transaction_impl fn fuel buffer timeout_ms out_complete st
             (snd (clock_ns fn s)) of
        None \<Rightarrow> None
      | Some (status, stage, st1, buf, s1) \<Rightarrow>
          Some (status, stage, st1, buf, snd (clock_ns fn s1)))"

section \<open>Reasoning about the response loop\<close>

text \<open>One rule for every property of the loop: an invariant of the iterations and a
  postcondition of the iteration that ends it.\<close>

lemma response_loop_rule:
  assumes "response_loop fn fuel ve rw rr request t0 tmo st buf n s = Some r"
    and "I st buf n s"
    and "\<And>st buf n s r'. I st buf n s \<Longrightarrow>
           response_step fn ve rw rr request t0 tmo st buf n s = Done r' \<Longrightarrow> Q r'"
    and "\<And>st buf n s st' buf' n' s'. I st buf n s \<Longrightarrow>
           response_step fn ve rw rr request t0 tmo st buf n s = Again st' buf' n' s' \<Longrightarrow>
           I st' buf' n' s'"
  shows "Q r"
  using assms(1,2)
proof (induction fuel arbitrary: st buf n s)
  case (Suc fuel)
  then show ?case
    using assms(3,4) by (auto split: txn_step.splits)
qed simp

lemma length_write_at [simp]:
  "n + length bytes \<le> length buf \<Longrightarrow> length (write_at buf n bytes) = length buf"
  by (simp add: write_at_def)

lemma response_step_cases [case_names clock transfer]:
  assumes "response_step fn ve rw rr request t0 tmo st buf n s = x"
    and "n \<le> length buf"
  obtains (clock) b s' where
      "x = Done (Some BLADERF_ERR_UNEXPECTED, NIOS_TRANSACTION_IN_FAILED, desync st, b, s')"
      "length b = length buf"
    | (transfer) status bytes s' where
      "x = after_transfer ve rw rr request status (length bytes) st (write_at buf n bytes)
             (n + length bytes) s'" "n + length bytes \<le> length buf"
proof -
  have wa: "write_at buf n [] = buf" by (simp add: write_at_def)
  show thesis
    using assms(1)[symmetric] assms(2) clock
      transfer [where bytes = "[]" and status = "Some BLADERF_ERR_TIMEOUT"] transfer
    by (auto simp: response_step_def Let_def wa split: prod.splits if_splits)
qed

lemma accept_response_simps [simp]:
  "desynchronized (accept_response ve rw rr request buf st) = desynchronized st"
  "pending_read_response (accept_response ve rw rr request buf st) = pending_read_response st"
  "pending_read_request (accept_response ve rw rr request buf st) = pending_read_request st"
  by (simp_all add: accept_response_def clear_pending_rfic_def clear_pending_retune2_def Let_def)

lemma clear_pending_retune2_simps [simp]:
  "desynchronized (clear_pending_retune2 st) = desynchronized st"
  "pending_read_response (clear_pending_retune2 st) = pending_read_response st"
  "pending_read_request (clear_pending_retune2 st) = pending_read_request st"
  "pending_rfic_write (clear_pending_retune2 st) = pending_rfic_write st"
  "pending_rfic_request (clear_pending_retune2 st) = pending_rfic_request st"
  "pending_retune2_response (clear_pending_retune2 st) = False"
  "command_session_generation_valid (clear_pending_retune2 st) =
     command_session_generation_valid st"
  "command_session_generation (clear_pending_retune2 st) = command_session_generation st"
  by (simp_all add: clear_pending_retune2_def)

text \<open>An iteration that goes on has either taken more bytes of the same frame, or thrown
  away a whole frame that answers an older request.\<close>

lemma after_transfer_Again:
  assumes "after_transfer ve rw rr request status m st buf n s = Again st' buf' n' s'"
    and "n \<le> length buf"
  shows "buf' = buf \<and>
         (st' = st \<and> n' = n \<and> 0 < m \<and> n < length buf \<or>
          n' = 0 \<and> n = length buf \<and>
          (rw \<and> pending_rfic_write st \<and> st' = st \<or>
           rr \<and> pending_retune2_response st \<and> st' = clear_pending_retune2 st))"
  using assms
  by (auto simp: after_transfer_def frame_complete_def Let_def
           split: if_splits prod.splits)

text \<open>Without a retained RFIC write the loop is bounded by the frame length whatever the
  driver and the clock do; the second frame is the late answer to a retained RETUNE2.\<close>

lemma response_loop_bounded:
  assumes "\<not> (rw \<and> pending_rfic_write st)" "n \<le> length buf"
    and "fuel > (length buf - n) +
               (if rr \<and> pending_retune2_response st then Suc (length buf) else 0)"
  shows "\<exists>r. response_loop fn fuel ve rw rr request t0 tmo st buf n s = Some r"
  using assms
proof (induction fuel arbitrary: st buf n s)
  case (Suc fuel)
  show ?case
  proof (cases "response_step fn ve rw rr request t0 tmo st buf n s")
    case (Again st' buf' n' s')
    have "\<not> (rw \<and> pending_rfic_write st') \<and> n' \<le> length buf' \<and>
          fuel > (length buf' - n') +
                 (if rr \<and> pending_retune2_response st' then Suc (length buf') else 0)"
      using Again Suc.prems(2)
    proof (cases rule: response_step_cases)
      case (transfer status bytes s'')
      then show ?thesis
        using after_transfer_Again [OF transfer(1) [symmetric]] Suc.prems
        by (cases bytes) (auto split: if_splits)
    qed auto
    then show ?thesis
      using Again Suc.IH by auto
  qed (metis response_loop.simps(2) txn_step.simps(5))
qed simp

section \<open>What a transaction guarantees\<close>

abbreviation same_session :: "usb_peripheral_state \<Rightarrow> usb_peripheral_state \<Rightarrow> bool" where
  "same_session st st' \<equiv>
     command_session_generation_valid st' = command_session_generation_valid st \<and>
     command_session_generation st' = command_session_generation st"

definition retained :: "u8 list \<Rightarrow> usb_peripheral_state \<Rightarrow> bool" where
  \<comment> \<open>the state remembers that a response to \<open>request\<close> may still arrive\<close>
  "retained request st \<longleftrightarrow>
     pending_read_response st \<and> pending_read_request st = request \<or>
     pending_rfic_write st \<and> pending_rfic_request st = request \<or>
     pending_retune2_response st \<and> pending_retune2_request st = request"

fun txn_post :: "u8 list \<Rightarrow> usb_peripheral_state \<Rightarrow> 's txn_result \<Rightarrow> bool" where
  \<comment> \<open>a success has checked the response against the request; an error has stopped the
      channel for good, or refused to start, or timed out with the request retained\<close>
  "txn_post request st (status, stage, st', buf, s) \<longleftrightarrow>
     length buf = length request \<and>
     (case status of
        None \<Rightarrow> stage = NIOS_TRANSACTION_COMPLETE \<and> \<not> desynchronized st' \<and>
                nios_response_matches_request request buf
                  (command_session_generation_valid st) (command_session_generation st)
      | Some e \<Rightarrow> desynchronized st' \<or>
          (stage = NIOS_TRANSACTION_PENDING_RESPONSE \<and> e = BLADERF_ERR_WOULD_BLOCK \<and>
           buf = request) \<or>
          (stage = NIOS_TRANSACTION_IN_FAILED \<and> e = BLADERF_ERR_TIMEOUT \<and>
           retained request st'))"

lemma retain_on_timeout_post:
  assumes "retain_on_timeout ve n request st = (e, st')"
  shows "desynchronized st' \<or> e = BLADERF_ERR_TIMEOUT \<and> retained request st'"
  using assms
  by (auto simp: retain_on_timeout_def retained_def Let_def split: if_splits)

lemma after_transfer_Done:
  assumes "after_transfer ve rw rr request status m st buf n s = Done r"
    and "length buf = length request" "\<not> desynchronized st" "ve" "same_session st0 st"
  shows "txn_post request st0 r"
proof (cases "n = length buf")
  case True
  with assms show ?thesis
    by (auto simp: after_transfer_def frame_complete_def Let_def split: if_splits)
next
  case False
  with assms show ?thesis
    by (cases "retain_on_timeout ve n request st")
       (auto simp: after_transfer_def split: if_splits dest: retain_on_timeout_post)
qed

lemma response_loop_post:
  assumes "response_loop fn fuel True rw rr request t0 tmo st buf n s = Some r"
    and "length buf = length request" "n \<le> length buf" "\<not> desynchronized st"
    and "same_session st0 st"
  shows "txn_post request st0 r"
proof (rule response_loop_rule [OF assms(1),
         where I = "\<lambda>st buf n s. length buf = length request \<and> n \<le> length buf \<and>
                      \<not> desynchronized st \<and> same_session st0 st"], goal_cases)
  case 1
  then show ?case using assms by simp
next
  case (2 st buf n s r')
  from 2(2) have "n \<le> length buf" using 2(1) by simp
  from 2(2) this show ?case
  proof (cases rule: response_step_cases)
    case (transfer status bytes s')
    then show ?thesis
      using 2(1) by (intro after_transfer_Done [OF transfer(1) [symmetric]]) auto
  qed (use 2(1) in auto)
next
  case (3 st buf n s st' buf' n' s')
  from 3(2) have "n \<le> length buf" using 3(1) by simp
  from 3(2) this show ?case
  proof (cases rule: response_step_cases)
    case (transfer status bytes s'')
    then show ?thesis
      using 3(1) after_transfer_Again [OF transfer(1) [symmetric]] by auto
  qed auto
qed

lemma send_and_receive_post:
  assumes "send_and_receive fn fuel buffer tmo oc st s = Some r"
    and "length buffer = NIOS_PKT_LEN" "\<not> desynchronized st" "same_session st0 st"
  shows "txn_post buffer st0 r"
  using assms
  by (auto simp: send_and_receive_def Let_def split: if_splits prod.splits option.splits
           intro: response_loop_post)

lemma drain_loop_post:
  assumes "drain_loop fn fuel t0 tmo barrier st s = Some (status, stage, st', s')"
  shows "if status = None
         then st' = st\<lparr>pending_read_response := False,
                       pending_read_request := replicate NIOS_PKT_LEN 0\<rparr>
         else st' = desync st"
  using assms
  by (induction fuel arbitrary: s) (auto simp: Let_def split: prod.splits if_splits)

lemma nios_drain_pending_read_locked_post:
  assumes "nios_drain_pending_read_locked fn fuel tmo st s = Some (status, stage, st', s')"
  shows "if status = None
         then st' = st\<lparr>pending_read_response := False,
                       pending_read_request := replicate NIOS_PKT_LEN 0\<rparr>
         else st' = desync st"
  using assms
  by (auto simp: nios_drain_pending_read_locked_def Let_def
           split: prod.splits option.splits dest: drain_loop_post)

lemma nios_usb_transaction_impl_post:
  assumes "nios_usb_transaction_impl fn fuel buffer tmo oc st s = Some r"
    and "length buffer = NIOS_PKT_LEN"
  shows "txn_post buffer st r"
proof (cases "desynchronized st \<or> \<not> pending_read_response st")
  case True
  with assms show ?thesis
    by (auto simp: nios_usb_transaction_impl_def Let_def split: if_splits
             intro: send_and_receive_post)
next
  case False
  then obtain status stage st1 s1 where
    d: "nios_drain_pending_read_locked fn fuel tmo st (snd (clock_ns fn s)) =
          Some (status, stage, st1, s1)"
    using assms(1)
    by (auto simp: nios_usb_transaction_impl_def Let_def split: option.splits)
  note drained = nios_drain_pending_read_locked_post [OF d]
  show ?thesis
  proof (cases status)
    case None
    then show ?thesis
      using assms False d drained
      by (auto simp: nios_usb_transaction_impl_def Let_def
               intro!: send_and_receive_post [where st = st1])
  next
    case (Some e)
    then show ?thesis
      using assms(1) False d drained
      by (auto simp: nios_usb_transaction_impl_def Let_def)
  qed
qed

section \<open>Deadlines\<close>

lemma unat_ucast_ms:
  fixes tmo :: u32
  shows "unat (ucast tmo * 1000000 :: u64) = unat tmo * 1000000"
proof -
  have u: "unat (ucast tmo :: u64) = unat tmo"
    by (simp add: unsigned_ucast_eq take_bit_nat_eq_self order_less_le_trans [OF unsigned_less])
  have "unat tmo < 2 ^ 32" using unsigned_less [of tmo, where ?'a = nat] by simp
  then have "unat tmo * 1000000 < 2 ^ 64" by simp
  then show ?thesis
    by (simp add: unat_word_ariths u)
qed

lemma bladerf_timeout_remaining_ms_cases:
  assumes "timeout_ms \<noteq> 0" "clock_ns fn s = (Some now_ns, s')"
  shows "bladerf_timeout_remaining_ms fn start_ns timeout_ms s =
     (let elapsed = (if start_ns \<le> now_ns then unat now_ns - unat start_ns else 0);
          budget = unat timeout_ms * 1000000 in
      if budget \<le> elapsed then ((Some BLADERF_ERR_TIMEOUT, 0), s')
      else ((None, of_nat ((budget - elapsed + 999999) div 1000000)), s'))"
proof -
  define e where "e = (if start_ns \<le> now_ns then now_ns - start_ns else 0)"
  define budget where "budget = (ucast timeout_ms * 1000000 :: u64)"
  have e: "unat e = (if start_ns \<le> now_ns then unat now_ns - unat start_ns else 0)"
    by (simp add: e_def unat_sub)
  have b: "unat budget = unat timeout_ms * 1000000"
    by (simp add: budget_def unat_ucast_ms)
  have lt: "unat timeout_ms < 2 ^ 32" using unsigned_less [of timeout_ms, where ?'a = nat] by simp
  have *: "(ucast ((budget - e + 999999) div 1000000) :: u32) =
     of_nat ((unat budget - unat e + 999999) div 1000000)" if "\<not> budget \<le> e"
  proof -
    have "unat (budget - e) = unat budget - unat e"
      using that by (simp add: unat_sub)
    moreover have "unat budget - unat e + 999999 < 2 ^ 64"
      using lt b by simp
    ultimately have "unat (budget - e + 999999) = unat budget - unat e + 999999"
      by (simp add: unat_word_ariths)
    then have "unat ((budget - e + 999999) div 1000000) =
        (unat budget - unat e + 999999) div 1000000"
      by (simp add: unat_div)
    then show ?thesis
      by (metis of_nat_unat)
  qed
  have le: "budget \<le> e \<longleftrightarrow> unat budget \<le> unat e"
    by (simp add: word_le_nat_alt)
  show ?thesis
    using assms * le e b
    by (auto simp: bladerf_timeout_remaining_ms_def Let_def e_def [symmetric] budget_def [symmetric])
qed

lemma bladerf_timeout_remaining_ms_fresh:
  assumes "timeout_ms \<noteq> 0" "clock_ns fn s = (Some now_ns, s)"
  shows "bladerf_timeout_remaining_ms fn now_ns timeout_ms s = ((None, timeout_ms), s)"
proof -
  have "(unat timeout_ms * 1000000 + 999999) div 1000000 = unat timeout_ms" by simp
  then show ?thesis
    using assms(1) unat_gt_0 [of timeout_ms]
    by (simp add: bladerf_timeout_remaining_ms_cases [OF assms] Let_def)
qed

section \<open>Delivery over a link that answers\<close>

abbreviation ready :: "usb_peripheral_state \<Rightarrow> bool" where
  "ready st \<equiv> \<not> desynchronized st \<and> \<not> pending_read_response st \<and>
               \<not> pending_rfic_write st \<and> \<not> pending_retune2_response st"

lemma write_at_all [simp]: "length bytes = length buf \<Longrightarrow> write_at buf 0 bytes = bytes"
  by (simp add: write_at_def)

lemma accept_response_ready:
  assumes "ready st"
  shows "accept_response ve False False request buf st =
           (if ve \<and> is_session_generation_read request buf
            then st\<lparr>command_session_generation := snd (snd (snd (nios_pkt_8x32_unpack buf))),
                    command_session_generation_valid := True\<rparr>
            else st)"
  by (simp add: accept_response_def Let_def)

lemma nios_usb_transaction_delivers:
  assumes "ready st" and len: "length buffer = NIOS_PKT_LEN" "length response = NIOS_PKT_LEN"
    and "timeout_ms \<noteq> 0" and clock: "\<And>s. clock_ns fn s = (Some (now s), s)"
    and oc: "oc = None \<or> oc = Some id"
    and out: "bulk_out fn buffer s = (None, s1)"
    and "in": "bulk_in fn NIOS_PKT_LEN timeout_ms s1 = ((None, response, True), s2)"
    and matches: "nios_response_matches_request buffer response
                    (command_session_generation_valid st) (command_session_generation st)"
    and "fuel > 0"
  shows "nios_usb_transaction fn fuel buffer timeout_ms oc st s =
           Some (None, NIOS_TRANSACTION_COMPLETE,
                 accept_response True False False buffer response st, response, s2)"
proof -
  obtain fuel' where fuel: "fuel = Suc fuel'" using \<open>fuel > 0\<close> gr0_implies_Suc by blast
  have oc': "(case oc of None \<Rightarrow> s1 | Some f \<Rightarrow> f s1) = s1" using oc by auto
  have step: "response_step fn True False False buffer (now s1) timeout_ms st buffer 0 s1 =
      Done (None, NIOS_TRANSACTION_COMPLETE,
            accept_response True False False buffer response st, response, s2)"
    using assms(4) clock "in" len matches
    by (simp add: response_step_def bladerf_timeout_remaining_ms_fresh Let_def
                  after_transfer_def frame_complete_def)
  show ?thesis
    using assms(1) len(1) clock out oc' step
    by (simp add: nios_usb_transaction_def nios_usb_transaction_impl_def
                  send_and_receive_def Let_def fuel)
qed

section \<open>What the peripheral state remembers\<close>

definition peripheral_inv :: "usb_peripheral_state \<Rightarrow> bool" where
  "peripheral_inv st \<longleftrightarrow>
     (if pending_read_response st
      then length (pending_read_request st) = NIOS_PKT_LEN \<and>
           nios_is_fixed_read_request (pending_read_request st)
      else pending_read_request st = replicate NIOS_PKT_LEN 0) \<and>
     (if pending_rfic_write st
      then length (pending_rfic_request st) = NIOS_PKT_LEN \<and>
           nios_is_tagged_rfic_write (pending_rfic_request st)
      else pending_rfic_request st = replicate NIOS_PKT_LEN 0) \<and>
     (if pending_retune2_response st
      then length (pending_retune2_request st) = NIOS_PKT_LEN \<and>
           pending_retune2_request st ! 0 = NIOS_PKT_RETUNE2_MAGIC
      else pending_retune2_request st = replicate NIOS_PKT_LEN 0 \<and>
           pending_retune2_session_generation st = 0)"

lemma peripheral_inv_updates:
  assumes "peripheral_inv st"
  shows "peripheral_inv (desync st)"
    and "peripheral_inv (clear_pending_retune2 st)"
    and "peripheral_inv (clear_pending_rfic st)"
    and "peripheral_inv (st\<lparr>pending_read_response := False,
                            pending_read_request := replicate NIOS_PKT_LEN 0\<rparr>)"
    and "peripheral_inv (st\<lparr>command_session_generation := g,
                            command_session_generation_valid := b\<rparr>)"
  using assms
  by (simp_all add: peripheral_inv_def clear_pending_retune2_def clear_pending_rfic_def
               split: if_splits)

lemma peripheral_inv_accept:
  "peripheral_inv st \<Longrightarrow> peripheral_inv (accept_response ve rw rr request buf st)"
  by (simp add: accept_response_def Let_def peripheral_inv_updates)

lemma retain_on_timeout_cases:
  assumes "retain_on_timeout ve n request st = (e, st')"
  shows "st' = desync st \<or> st' = st \<or>
    ve \<and> (request ! 0 = NIOS_PKT_RETUNE2_MAGIC \<and>
        (\<exists>g. st' = st\<lparr>pending_retune2_request := request,
                  pending_retune2_session_generation := g, pending_retune2_response := True\<rparr>) \<or>
      nios_is_tagged_rfic_write request \<and>
        st' = st\<lparr>pending_rfic_request := request, pending_rfic_write := True\<rparr> \<or>
     nios_is_fixed_read_request request \<and>
        st' = st\<lparr>pending_read_request := request, pending_read_response := True\<rparr>)"
  using assms unfolding retain_on_timeout_def Let_def
  by (simp split: if_split_asm) blast+

lemma peripheral_inv_retain:
  assumes "retain_on_timeout ve n request st = (e, st')" "peripheral_inv st"
    and "ve \<longleftrightarrow> length request = NIOS_PKT_LEN"
  shows "peripheral_inv st'"
  using retain_on_timeout_cases [OF assms(1)] assms(2,3)
  by (elim disjE conjE exE) (simp_all add: peripheral_inv_def)

lemma peripheral_inv_after_transfer:
  assumes "peripheral_inv st" "ve \<longleftrightarrow> length request = NIOS_PKT_LEN"
  shows "after_transfer ve rw rr request status m st buf n s = Done (a, b, st', c, d) \<Longrightarrow>
           peripheral_inv st'"
    and "after_transfer ve rw rr request status m st buf n s = Again st' buf' n' s' \<Longrightarrow>
           peripheral_inv st'"
  using assms
  by (auto simp: after_transfer_def frame_complete_def Let_def peripheral_inv_updates
                 peripheral_inv_accept
           split: if_splits prod.splits dest: peripheral_inv_retain)

lemma peripheral_inv_response_loop:
  assumes "response_loop fn fuel ve rw rr request t0 tmo st buf n s = Some r"
    and "peripheral_inv st" "n \<le> length buf" "ve \<longleftrightarrow> length request = NIOS_PKT_LEN"
  shows "peripheral_inv (fst (snd (snd r)))"
proof (rule response_loop_rule [OF assms(1),
         where I = "\<lambda>st buf n s. peripheral_inv st \<and> n \<le> length buf"], goal_cases)
  case 1
  then show ?case using assms by simp
next
  case (2 st buf n s r')
  from 2(2) have "n \<le> length buf" using 2(1) by simp
  from 2(2) this show ?case
  proof (cases rule: response_step_cases)
    case (transfer status bytes s')
    then show ?thesis
      using 2(1) assms(4) peripheral_inv_after_transfer(1)
      by (metis fst_conv snd_conv surj_pair)
  qed (use 2(1) in \<open>simp add: peripheral_inv_updates\<close>)
next
  case (3 st buf n s st' buf' n' s')
  from 3(2) have "n \<le> length buf" using 3(1) by simp
  from 3(2) this show ?case
  proof (cases rule: response_step_cases)
    case (transfer status bytes s'')
    then show ?thesis
      using 3(1) after_transfer_Again [OF transfer(1) [symmetric]]
        peripheral_inv_after_transfer(2) [OF _ assms(4) transfer(1) [symmetric]] by auto
  qed simp
qed

lemmas peripheral_inv_response_loop' =
  peripheral_inv_response_loop [where n = 0 and r = "(a, b, st', c, d)"
    and ve = "length request = NIOS_PKT_LEN" and request = request for a b st' c d request,
    simplified]

lemma peripheral_inv_send_and_receive:
  assumes "send_and_receive fn fuel buffer tmo oc st s = Some (a, b, st', c, d)"
    and "peripheral_inv st"
  shows "peripheral_inv st'"
  using assms
  by (auto simp: send_and_receive_def Let_def peripheral_inv_updates
           split: if_splits prod.splits option.splits dest: peripheral_inv_response_loop')

lemma nios_usb_transaction_impl_inv:
  assumes "nios_usb_transaction_impl fn fuel buffer tmo oc st s = Some (a, b, st', c, d)"
    and "peripheral_inv st"
  shows "peripheral_inv st'"
proof (cases "desynchronized st \<or> \<not> pending_read_response st")
  case True
  with assms show ?thesis
    by (auto simp: nios_usb_transaction_impl_def Let_def split: if_splits
             intro: peripheral_inv_send_and_receive)
next
  case False
  then obtain status stage st1 s1 where
    drain: "nios_drain_pending_read_locked fn fuel tmo st (snd (clock_ns fn s)) =
              Some (status, stage, st1, s1)"
    using assms(1)
    by (auto simp: nios_usb_transaction_impl_def Let_def split: option.splits)
  have "peripheral_inv st1"
    using nios_drain_pending_read_locked_post [OF drain] assms(2)
    by (auto simp: peripheral_inv_updates split: if_splits)
  then show ?thesis
    using assms(1) False drain
    by (cases status)
       (auto simp: nios_usb_transaction_impl_def Let_def intro: peripheral_inv_send_and_receive)
qed

section \<open>Properties of the transport\<close>

definition fresh_peripheral :: usb_peripheral_state where
  \<comment> \<open>the zeroed state a newly opened device starts from\<close>
  "fresh_peripheral =
     \<lparr>desynchronized = False, pending_read_response = False,
      pending_read_request = replicate NIOS_PKT_LEN 0, pending_rfic_write = False,
      pending_rfic_request = replicate NIOS_PKT_LEN 0, pending_retune2_response = False,
      pending_retune2_request = replicate NIOS_PKT_LEN 0,
      pending_retune2_session_generation = 0, command_session_generation_valid = False,
      command_session_generation = 0\<rparr>"

definition queue_fns :: "u8 list usb_fns" where
  \<comment> \<open>a driver whose IN endpoint holds a fixed queue of bytes and whose clock stands still;
      used to exhibit concrete runs\<close>
  "queue_fns =
     \<lparr>bulk_out = (\<lambda>pkt q. (None, q)),
      bulk_in = (\<lambda>n tmo q. ((if q = [] then Some BLADERF_ERR_TIMEOUT else None, take n q, True),
                            drop n q)),
      clock_ns = (\<lambda>q. (Some 0, q))\<rparr>"

lemma queue_fns_simps [simp]:
  "bulk_out queue_fns pkt q = (None, q)"
  "bulk_in queue_fns n tmo q =
     ((if q = [] then Some BLADERF_ERR_TIMEOUT else None, take n q, True), drop n q)"
  "clock_ns queue_fns q = (Some 0, q)"
  by (simp_all add: queue_fns_def)

lemma fresh_ready [simp]: "ready fresh_peripheral"
  by (simp add: fresh_peripheral_def)

lemma queue_fns_delivers:
  assumes "length request = NIOS_PKT_LEN" "length response = NIOS_PKT_LEN"
    and "nios_response_matches_request request response False 0"
  shows "nios_usb_transaction queue_fns 1 request 250 None fresh_peripheral response =
           Some (None, NIOS_TRANSACTION_COMPLETE,
                 accept_response True False False request response fresh_peripheral,
                 response, [])"
proof -
  have "response \<noteq> []" using assms(2) by (auto simp: NIOS_PKT_LEN_def)
  then show ?thesis
    using assms
    by (intro nios_usb_transaction_delivers [where now = "\<lambda>_. 0"])
       (auto simp: fresh_peripheral_def)
qed

lemma queue_fns_timeout:
  assumes "length request = NIOS_PKT_LEN"
    and "retain_on_timeout True 0 request fresh_peripheral = (e, st)"
  shows "nios_usb_transaction queue_fns 1 request 250 None fresh_peripheral [] =
           Some (Some e, NIOS_TRANSACTION_IN_FAILED, st, request, [])"
proof -
  have remaining: "bladerf_timeout_remaining_ms queue_fns 0 250 s = ((None, 250), s)" for s
    by (rule bladerf_timeout_remaining_ms_fresh) simp_all
  have "write_at request 0 [] = request" "request \<noteq> []"
    using assms(1) by (auto simp: write_at_def NIOS_PKT_LEN_def)
  then have "response_step queue_fns True False False request 0 250 fresh_peripheral request 0
               [] = Done (Some e, NIOS_TRANSACTION_IN_FAILED, st, request, [])"
    using assms by (simp add: response_step_def remaining after_transfer_def Let_def NIOS_PKT_LEN_def)
  then show ?thesis
    using assms(1)
    by (simp add: nios_usb_transaction_def nios_usb_transaction_impl_def send_and_receive_def
                  Let_def)
qed

text \<open>C2. Fail closed: once the command channel is desynchronized, a transaction returns
  \<open>BLADERF_ERR_UNEXPECTED\<close> without sending or receiving anything; the buffer and the
  peripheral state are left as they were and the driver only sees clock readings.\<close>

theorem transaction_fail_closed:
  assumes "desynchronized st"
  shows "nios_usb_transaction fn fuel buffer timeout_ms oc st s =
           Some (Some BLADERF_ERR_UNEXPECTED, NIOS_TRANSACTION_DESYNCHRONIZED, st, buffer,
                 snd (clock_ns fn (snd (clock_ns fn (snd (clock_ns fn s))))))"
  using assms by (simp add: nios_usb_transaction_def nios_usb_transaction_impl_def)

lemma transaction_fail_closed_witness:
  "nios_usb_transaction queue_fns 5 [1, 2, 3] 250 None (desync fresh_peripheral) [7, 8] =
     Some (Some BLADERF_ERR_UNEXPECTED, NIOS_TRANSACTION_DESYNCHRONIZED, desync fresh_peripheral,
           [1, 2, 3], [7, 8])"
proof -
  have "desynchronized (desync fresh_peripheral)" by simp
  from transaction_fail_closed [OF this, of queue_fns 5 "[1, 2, 3]" 250 None "[7, 8]"]
  show ?thesis by simp
qed



text \<open>C4. Every error of a transaction is accounted for: either the channel is closed for
  good, or the request was refused before anything was sent because an older response is
  still outstanding, or no byte of the response arrived in time and the state remembers
  that this very request may still be answered.\<close>

theorem transaction_error_accounted:
  assumes "nios_usb_transaction fn fuel buffer timeout_ms oc st s =
             Some (Some e, stage, st', buf, s')"
    and "length buffer = NIOS_PKT_LEN"
  shows "desynchronized st' \<or>
         (stage = NIOS_TRANSACTION_PENDING_RESPONSE \<and> e = BLADERF_ERR_WOULD_BLOCK \<and>
          buf = buffer) \<or>
         (stage = NIOS_TRANSACTION_IN_FAILED \<and> e = BLADERF_ERR_TIMEOUT \<and> retained buffer st')"
  using assms
  by (auto simp: nios_usb_transaction_def split: option.splits prod.splits
           dest!: nios_usb_transaction_impl_post)

lemma transaction_error_accounted_witness:
  "retained (nios_pkt_8x8_pack 0 False 0x2f 0)
     (fresh_peripheral\<lparr>pending_read_request := nios_pkt_8x8_pack 0 False 0x2f 0,
                       pending_read_response := True\<rparr>)"
proof -
  let ?req = "nios_pkt_8x8_pack 0 False 0x2f 0"
  have len: "length ?req = NIOS_PKT_LEN" by (simp add: p8x8.length_pack)
  have "retain_on_timeout True 0 ?req fresh_peripheral =
          (BLADERF_ERR_TIMEOUT, fresh_peripheral\<lparr>pending_read_request := ?req,
                                                 pending_read_response := True\<rparr>)"
    by (simp add: retain_on_timeout_def nios_is_tagged_rfic_write_def
                  nios_is_fixed_read_request_def nios_pkt_8x8_defs nios_pkt_16x64_MAGIC_def)
  from transaction_error_accounted [OF queue_fns_timeout [OF len this] len] show ?thesis
    by (simp add: fresh_peripheral_def)
qed

text \<open>C5. The peripheral state stays well formed: a pending flag is only ever set together
  with a 16-byte request of its class (a fixed-width read, a tagged RFIC write, a RETUNE2),
  and a cleared flag leaves a zeroed request behind.\<close>

theorem transaction_invariant:
  assumes "nios_usb_transaction fn fuel buffer timeout_ms oc st s =
             Some (status, stage, st', buf, s')"
    and "peripheral_inv st"
  shows "peripheral_inv st'"
  using assms
  by (auto simp: nios_usb_transaction_def split: option.splits prod.splits
           dest: nios_usb_transaction_impl_inv)

lemma fresh_peripheral_inv: "peripheral_inv fresh_peripheral"
  by (simp add: peripheral_inv_def fresh_peripheral_def)

lemma transaction_invariant_witness:
  "peripheral_inv
     (accept_response True False False (nios_pkt_8x32_pack 0x90 False 0 0)
        (nios_pkt_8x32_resp_pack 0x90 False 0 7 True) fresh_peripheral)"
proof -
  let ?req = "nios_pkt_8x32_pack 0x90 False 0 0"
    and ?resp = "nios_pkt_8x32_resp_pack 0x90 False 0 7 True"
  have len: "length ?req = NIOS_PKT_LEN" "length ?resp = NIOS_PKT_LEN"
    by (simp_all add: p8x32.length_pack p8x32.length_resp_pack)
  have "nios_response_matches_request ?req ?resp False 0" by code_simp
  from transaction_invariant [OF queue_fns_delivers [OF len this] fresh_peripheral_inv]
  show ?thesis .
qed



end
