(* ===== verification/Nios_Firmware.thy ===== *)
theory Nios_Firmware
  imports Nios_Devices Nios_Transaction
begin

unbundle bit_operations_syntax

text \<open>
  The packet handlers of the FPGA firmware (\<^verbatim>\<open>bladeRF_nios/src/pkt_8x8.c\<close>,
  \<^verbatim>\<open>pkt_8x16.c\<close>, \<^verbatim>\<open>pkt_8x32.c\<close>, \<^verbatim>\<open>pkt_8x64.c\<close>, \<^verbatim>\<open>pkt_32x32.c\<close>) and the dispatch of
  the main loop of \<^verbatim>\<open>platforms/bladerf/.../bladeRF_nios.c\<close>, in the build for the bladeRF
  with the LMS6002D. The retune and legacy handlers are arguments of the dispatch.

  The locale \<open>reg_pkt_channel\<close> adds to the packet formats the fact that the host's
  identity check accepts what a handler answers.
\<close>

section \<open>Handlers\<close>

definition pkt_exec ::
  "(u8 list \<Rightarrow> u8 \<times> bool \<times> 'a \<times> 'd) \<Rightarrow> (u8 \<Rightarrow> bool \<Rightarrow> 'a \<Rightarrow> 'd \<Rightarrow> bool \<Rightarrow> u8 list) \<Rightarrow>
   (u8 \<Rightarrow> 'a \<Rightarrow> 'd \<Rightarrow> 's \<Rightarrow> (bool \<times> 'd) \<times> 's) \<Rightarrow> (u8 \<Rightarrow> 'a \<Rightarrow> 'd \<Rightarrow> 's \<Rightarrow> bool \<times> 's) \<Rightarrow>
   u8 list \<Rightarrow> 's \<Rightarrow> u8 list \<times> 's" where
  \<comment> \<open>the body the register handlers share: unpack, perform, pack the response\<close>
  "pkt_exec unpack resp_pack perform_read perform_write req s =
     (case unpack req of (target, is_write, addr, data) \<Rightarrow>
        if is_write then
          (case perform_write target addr data s of (success, s1) \<Rightarrow>
             (resp_pack target is_write addr data success, s1))
        else
          (case perform_read target addr data s of ((success, data'), s1) \<Rightarrow>
             (resp_pack target is_write addr data' success, s1)))"

abbreviation (input) TARGET_LMS6 :: u8 where "TARGET_LMS6 \<equiv> 0"
abbreviation (input) TARGET_SI5338 :: u8 where "TARGET_SI5338 \<equiv> 1"
abbreviation (input) TARGET_VCTCXO_TAMER :: u8 where "TARGET_VCTCXO_TAMER \<equiv> 2"
abbreviation (input) TX_TRIGGER_CTL :: u8 where "TX_TRIGGER_CTL \<equiv> 3"
abbreviation (input) RX_TRIGGER_CTL :: u8 where "RX_TRIGGER_CTL \<equiv> 4"

definition pkt_8x8_perform_read ::
  "'m bus_fns \<Rightarrow> u8 \<Rightarrow> u8 \<Rightarrow> u8 \<Rightarrow> 'm nios \<Rightarrow> (bool \<times> u8) \<times> 'm nios" where
  "pkt_8x8_perform_read b target addr data s =
     (if target = TARGET_LMS6 then lms6_read b addr data s
      else if target = TARGET_SI5338 then si5338_read b addr s
      else if target = TARGET_VCTCXO_TAMER then
        (if addr \<noteq> 0xff then ((False, 0), s)
         else case vctcxo_tamer_get_tune_mode b s of
           (None, s1) \<Rightarrow> ((False, 0), s1)
         | (Some mode, s1) \<Rightarrow> ((True, mode), s1))
      else if target = TX_TRIGGER_CTL then
        (if addr \<noteq> 0 then ((False, 0), s)
         else case trigger_ctl_read b TX_TRIGGER_CTL_BASE s of (v, s1) \<Rightarrow> ((True, v), s1))
      else if target = RX_TRIGGER_CTL then
        (if addr \<noteq> 0 then ((False, 0), s)
         else case trigger_ctl_read b RX_TRIGGER_CTL_BASE s of (v, s1) \<Rightarrow> ((True, v), s1))
      else ((False, 0xff), s))"

definition pkt_8x8_perform_write :: "'m bus_fns \<Rightarrow> u8 \<Rightarrow> u8 \<Rightarrow> u8 \<Rightarrow> 'm nios \<Rightarrow> bool \<times> 'm nios" where
  "pkt_8x8_perform_write b target addr data s =
     (if target = TARGET_LMS6 then lms6_write b addr data s
      else if target = TARGET_SI5338 then si5338_write b addr data s
      else if target = TARGET_VCTCXO_TAMER then
        (if addr \<noteq> 0xff then (False, s) else vctcxo_tamer_set_tune_mode b data s)
      else if target = TX_TRIGGER_CTL then
        (if addr \<noteq> 0 then (False, s) else trigger_ctl_write b TX_TRIGGER_CTL_BASE data s)
      else if target = RX_TRIGGER_CTL then
        (if addr \<noteq> 0 then (False, s) else trigger_ctl_write b RX_TRIGGER_CTL_BASE data s)
      else (False, s))"

definition pkt_8x8 :: "'m bus_fns \<Rightarrow> u8 list \<Rightarrow> 'm nios \<Rightarrow> u8 list \<times> 'm nios" where
  "pkt_8x8 b = pkt_exec nios_pkt_8x8_unpack nios_pkt_8x8_resp_pack
                 (pkt_8x8_perform_read b) (pkt_8x8_perform_write b)"

definition iq_corr_read :: "'m bus_fns \<Rightarrow> u8 \<Rightarrow> u16 \<Rightarrow> 'm nios \<Rightarrow> (bool \<times> u16) \<times> 'm nios" where
  "iq_corr_read b addr data s =
     (if addr = 0 then iqbal_get_gain b BLADERF_MODULE_RX s
      else if addr = 1 then iqbal_get_phase b BLADERF_MODULE_RX s
      else if addr = 2 then iqbal_get_gain b BLADERF_MODULE_TX s
      else if addr = 3 then iqbal_get_phase b BLADERF_MODULE_TX s
      else ((False, data), s))"

definition iq_corr_write :: "'m bus_fns \<Rightarrow> u8 \<Rightarrow> u16 \<Rightarrow> 'm nios \<Rightarrow> bool \<times> 'm nios" where
  "iq_corr_write b addr data s =
     (if addr = 0 then iqbal_set_gain b BLADERF_MODULE_RX data s
      else if addr = 1 then iqbal_set_phase b BLADERF_MODULE_RX data s
      else if addr = 2 then iqbal_set_gain b BLADERF_MODULE_TX data s
      else if addr = 3 then iqbal_set_phase b BLADERF_MODULE_TX data s
      else (False, s))"

definition pkt_8x16_perform_read ::
  "'m bus_fns \<Rightarrow> u8 \<Rightarrow> u8 \<Rightarrow> u16 \<Rightarrow> 'm nios \<Rightarrow> (bool \<times> u16) \<times> 'm nios" where
  "pkt_8x16_perform_read b target addr data s =
     (if target = 0 then vctcxo_trim_dac_read b addr data s
      else if target = 1 then iq_corr_read b addr data s
      else ((False, data), s))"

definition pkt_8x16_perform_write :: "'m bus_fns \<Rightarrow> u8 \<Rightarrow> u8 \<Rightarrow> u16 \<Rightarrow> 'm nios \<Rightarrow> bool \<times> 'm nios" where
  "pkt_8x16_perform_write b target addr data s =
     (if target = 0 then vctcxo_trim_dac_write b addr data s
      else if target = 1 then iq_corr_write b addr data s
      else if target = 2 then agc_dc_corr_write b (ucast addr) data s
      else (False, s))"

definition pkt_8x16 :: "'m bus_fns \<Rightarrow> u8 list \<Rightarrow> 'm nios \<Rightarrow> u8 list \<times> 'm nios" where
  "pkt_8x16 b = pkt_exec nios_pkt_8x16_unpack nios_pkt_8x16_resp_pack
                  (pkt_8x16_perform_read b) (pkt_8x16_perform_write b)"

abbreviation (input) TARGET_ADF4351 :: u8 where "TARGET_ADF4351 \<equiv> 2"
abbreviation (input) TARGET_RFFE_CSR :: u8 where "TARGET_RFFE_CSR \<equiv> 3"
abbreviation (input) TARGET_BOOT_NONCE :: u8 where "TARGET_BOOT_NONCE \<equiv> 0x94"

definition nios_pkt_8x32_boot_nonce_store :: "u32 \<Rightarrow> u32 \<Rightarrow> bool \<times> u32" where
  "nios_pkt_8x32_boot_nonce_store current requested =
     (if requested = 0 then (False, current)
      else let current' = (if current = 0 then requested else current)
           in (current' = requested, current'))"

definition pkt_8x32_perform_read ::
  "'m bus_fns \<Rightarrow> u8 \<Rightarrow> u8 \<Rightarrow> u32 \<Rightarrow> 'm nios \<Rightarrow> (bool \<times> u32) \<times> 'm nios" where
  \<comment> \<open>the RFFE control register does not exist on this board, its checked read fails\<close>
  "pkt_8x32_perform_read b target addr data s =
     (if target = TARGET_VERSION then ((True, FPGA_VERSION), s)
      else if target = TARGET_CONTROL then
        (case control_reg_read b s of (v, s1) \<Rightarrow> ((True, v), s1))
      else if target = TARGET_BOOT_NONCE then
        (if addr \<noteq> 0 then ((False, 0), s) else ((True, boot_nonce s), s))
      else if target = TARGET_ADF4351 then ((False, 0), s)
      else if target = TARGET_RFFE_CSR then ((False, data), s)
      else ((False, 0), s))"

definition pkt_8x32_perform_write :: "'m bus_fns \<Rightarrow> u8 \<Rightarrow> u8 \<Rightarrow> u32 \<Rightarrow> 'm nios \<Rightarrow> bool \<times> 'm nios" where
  "pkt_8x32_perform_write b target addr data s =
     (if target = TARGET_VERSION then (False, s)
      else if target = TARGET_CONTROL then
        (if addr \<noteq> 0 then (False, s) else control_reg_write b data s)
      else if target = TARGET_BOOT_NONCE then
        (if addr = 0 then
           (case nios_pkt_8x32_boot_nonce_store (boot_nonce s) data of (ok, nonce) \<Rightarrow>
              (ok, s\<lparr>boot_nonce := nonce\<rparr>))
         else (False, s))
      else if target = TARGET_ADF4351 then
        (if addr \<noteq> 0 then (False, s) else adf4351_write b data s)
      else (False, s))"

definition pkt_8x32 :: "'m bus_fns \<Rightarrow> u8 list \<Rightarrow> 'm nios \<Rightarrow> u8 list \<times> 'm nios" where
  "pkt_8x32 b = pkt_exec nios_pkt_8x32_unpack nios_pkt_8x32_resp_pack
                  (pkt_8x32_perform_read b) (pkt_8x32_perform_write b)"

definition read_timestamp :: "'m bus_fns \<Rightarrow> u8 \<Rightarrow> u64 \<Rightarrow> 'm nios \<Rightarrow> (bool \<times> u64) \<times> 'm nios" where
  "read_timestamp b addr data s =
     (if addr = 0 then time_tamer_read b BLADERF_MODULE_RX data s
      else if addr = 1 then time_tamer_read b BLADERF_MODULE_TX data s
      else ((False, data), s))"

definition pkt_8x64_perform_read ::
  "'m bus_fns \<Rightarrow> u8 \<Rightarrow> u8 \<Rightarrow> u64 \<Rightarrow> 'm nios \<Rightarrow> (bool \<times> u64) \<times> 'm nios" where
  "pkt_8x64_perform_read b target addr data s =
     (if target = 0 then read_timestamp b addr data s else ((False, data), s))"

definition pkt_8x64_perform_write :: "u8 \<Rightarrow> u8 \<Rightarrow> u64 \<Rightarrow> 'm nios \<Rightarrow> bool \<times> 'm nios" where
  \<comment> \<open>timestamps are read-only and there is no other target on this board\<close>
  "pkt_8x64_perform_write target addr data s = (False, s)"

definition pkt_8x64 :: "'m bus_fns \<Rightarrow> u8 list \<Rightarrow> 'm nios \<Rightarrow> u8 list \<times> 'm nios" where
  "pkt_8x64 b = pkt_exec nios_pkt_8x64_unpack nios_pkt_8x64_resp_pack
                  (pkt_8x64_perform_read b) pkt_8x64_perform_write"

definition masked_update :: "u32 \<Rightarrow> u32 \<Rightarrow> u32 \<Rightarrow> u32" where
  \<comment> \<open>\<^verbatim>\<open>tmp &= ~addr; tmp |= data & addr\<close>\<close>
  "masked_update tmp addr data = (tmp AND NOT addr) OR (data AND addr)"

definition pkt_32x32_perform_write ::
  "'m bus_fns \<Rightarrow> u8 \<Rightarrow> u32 \<Rightarrow> u32 \<Rightarrow> 'm nios \<Rightarrow> bool \<times> 'm nios" where
  "pkt_32x32_perform_write b target addr data s =
     (if target = 0 then
        (if addr \<noteq> 0xffffffff then
           (case expansion_port_read b s of (tmp, s1) \<Rightarrow>
              expansion_port_write b (masked_update tmp addr data) s1)
         else expansion_port_write b data s)
      else if target = 1 then
        (if addr \<noteq> 0xffffffff then
           (case expansion_port_get_direction b s of (tmp, s1) \<Rightarrow>
              expansion_port_set_direction b (masked_update tmp addr data) s1)
         else expansion_port_set_direction b data s)
      else (False, s))"

definition pkt_32x32_perform_read ::
  "'m bus_fns \<Rightarrow> u8 \<Rightarrow> u32 \<Rightarrow> u32 \<Rightarrow> 'm nios \<Rightarrow> (bool \<times> u32) \<times> 'm nios" where
  "pkt_32x32_perform_read b target addr data s =
     (if target = 0 then (case expansion_port_read b s of (v, s1) \<Rightarrow> ((True, v AND addr), s1))
      else if target = 1 then
        (case expansion_port_get_direction b s of (v, s1) \<Rightarrow> ((True, v AND addr), s1))
      else ((False, data), s))"

definition pkt_32x32 :: "'m bus_fns \<Rightarrow> u8 list \<Rightarrow> 'm nios \<Rightarrow> u8 list \<times> 'm nios" where
  "pkt_32x32 b = pkt_exec nios_pkt_32x32_unpack nios_pkt_32x32_resp_pack
                   (pkt_32x32_perform_read b) (pkt_32x32_perform_write b)"

section \<open>Dispatch\<close>

type_synonym 'm handler = "u8 list \<Rightarrow> 'm nios \<Rightarrow> u8 list \<times> 'm nios"

definition pkt_handlers :: "'m bus_fns \<Rightarrow> 'm handler \<Rightarrow> 'm handler \<Rightarrow> (u8 \<times> 'm handler) list" where
  "pkt_handlers b pkt_retune pkt_legacy =
     [(NIOS_PKT_RETUNE_MAGIC, pkt_retune),
      (nios_pkt_8x8_MAGIC, pkt_8x8 b),
      (nios_pkt_8x16_MAGIC, pkt_8x16 b),
      (nios_pkt_8x32_MAGIC, pkt_8x32 b),
      (nios_pkt_8x64_MAGIC, pkt_8x64 b),
      (nios_pkt_32x32_MAGIC, pkt_32x32 b),
      (NIOS_PKT_LEGACY_MAGIC, pkt_legacy)]"

definition find_handler :: "(u8 \<times> 'm handler) list \<Rightarrow> u8 \<Rightarrow> 'm handler option" where
  \<comment> \<open>the loop does not stop at the first hit, so the last entry wins\<close>
  "find_handler handlers magic =
     fold (\<lambda>(m, h) found. if m = magic then Some h else found) handlers None"

definition nios_main_request ::
  "'m bus_fns \<Rightarrow> 'm handler \<Rightarrow> 'm handler \<Rightarrow> u8 list \<Rightarrow> 'm nios \<Rightarrow> u8 list option \<times> 'm nios" where
  \<comment> \<open>one request of the main loop; \<open>None\<close> when it is thrown away\<close>
  "nios_main_request b pkt_retune pkt_legacy req s =
     (case find_handler (pkt_handlers b pkt_retune pkt_legacy) (req ! 0) of
        None \<Rightarrow> (None, s)
      | Some exec \<Rightarrow> (case exec req s of (resp, s1) \<Rightarrow> (Some resp, s1)))"

section \<open>Handlers answer the request they were given\<close>

lemmas response_match_defs =
  nios_response_matches_request_def echo_matches_def nios_response_flags_and_reserved_valid_def
  nios_response_has_zero_tail_def NIOS_PKT_LEN_def Let_def

locale reg_pkt_channel = reg_pkt_format +
  assumes resp_matches: "(w \<longrightarrow> d' = d) \<Longrightarrow>
    nios_response_matches_request (pack t w a d) (resp_pack t w a d' ok) valid gen"
begin

lemma exec_write:
  "W t a d s = (ok, s') \<Longrightarrow>
   pkt_exec unpack resp_pack R W (pack t True a d) s = (resp_pack t True a d ok, s')"
  by (simp add: pkt_exec_def unpack_pack)

lemma exec_read:
  "R t a d s = ((ok, d'), s') \<Longrightarrow>
   pkt_exec unpack resp_pack R W (pack t False a d) s = (resp_pack t False a d' ok, s')"
  by (simp add: pkt_exec_def unpack_pack)

lemma exec_length: "length (fst (pkt_exec unpack resp_pack R W req s)) = NIOS_PKT_LEN"
  by (simp add: pkt_exec_def length_resp_pack split: prod.split)

lemma exec_matches:
  "nios_response_matches_request (pack t w a d)
     (fst (pkt_exec unpack resp_pack R W (pack t w a d) s)) valid gen"
  by (cases w) (auto simp: pkt_exec_def unpack_pack resp_matches split: prod.split)

end

lemma response_matches_8x8:
  "(w \<longrightarrow> d' = d) \<Longrightarrow>
   nios_response_matches_request (nios_pkt_8x8_pack t w a d)
     (nios_pkt_8x8_resp_pack t w a d' ok) valid gen"
  by (auto simp: response_match_defs nios_pkt_8x16_MAGIC_def nios_pkt_8x32_MAGIC_def nios_pkt_8x64_MAGIC_def nios_pkt_16x64_MAGIC_def nios_pkt_32x32_MAGIC_def
                 nios_pkt_8x8_defs upt_rec wordfacts)

interpretation c8x8: reg_pkt_channel nios_pkt_8x8_MAGIC nios_pkt_8x8_pack
    nios_pkt_8x8_unpack nios_pkt_8x8_resp_pack nios_pkt_8x8_resp_unpack
  by unfold_locales (rule response_matches_8x8)

lemma response_matches_8x16:
  "(w \<longrightarrow> d' = d) \<Longrightarrow>
   nios_response_matches_request (nios_pkt_8x16_pack t w a d)
     (nios_pkt_8x16_resp_pack t w a d' ok) valid gen"
  by (auto simp: response_match_defs nios_pkt_8x8_MAGIC_def  nios_pkt_8x32_MAGIC_def nios_pkt_8x64_MAGIC_def nios_pkt_16x64_MAGIC_def nios_pkt_32x32_MAGIC_def
                 nios_pkt_8x16_defs upt_rec wordfacts)

interpretation c8x16: reg_pkt_channel nios_pkt_8x16_MAGIC nios_pkt_8x16_pack
    nios_pkt_8x16_unpack nios_pkt_8x16_resp_pack nios_pkt_8x16_resp_unpack
  by unfold_locales (rule response_matches_8x16)

lemma response_matches_8x32:
  "(w \<longrightarrow> d' = d) \<Longrightarrow>
   nios_response_matches_request (nios_pkt_8x32_pack t w a d)
     (nios_pkt_8x32_resp_pack t w a d' ok) valid gen"
  by (auto simp: response_match_defs nios_pkt_8x8_MAGIC_def nios_pkt_8x16_MAGIC_def  nios_pkt_8x64_MAGIC_def nios_pkt_16x64_MAGIC_def nios_pkt_32x32_MAGIC_def
                 nios_pkt_8x32_defs upt_rec wordfacts)

interpretation c8x32: reg_pkt_channel nios_pkt_8x32_MAGIC nios_pkt_8x32_pack
    nios_pkt_8x32_unpack nios_pkt_8x32_resp_pack nios_pkt_8x32_resp_unpack
  by unfold_locales (rule response_matches_8x32)

lemma response_matches_8x64:
  "(w \<longrightarrow> d' = d) \<Longrightarrow>
   nios_response_matches_request (nios_pkt_8x64_pack t w a d)
     (nios_pkt_8x64_resp_pack t w a d' ok) valid gen"
  by (auto simp: response_match_defs nios_pkt_8x8_MAGIC_def nios_pkt_8x16_MAGIC_def nios_pkt_8x32_MAGIC_def  nios_pkt_16x64_MAGIC_def nios_pkt_32x32_MAGIC_def
                 nios_pkt_8x64_defs upt_rec wordfacts)

interpretation c8x64: reg_pkt_channel nios_pkt_8x64_MAGIC nios_pkt_8x64_pack
    nios_pkt_8x64_unpack nios_pkt_8x64_resp_pack nios_pkt_8x64_resp_unpack
  by unfold_locales (rule response_matches_8x64)

lemma response_matches_32x32:
  "(w \<longrightarrow> d' = d) \<Longrightarrow>
   nios_response_matches_request (nios_pkt_32x32_pack t w a d)
     (nios_pkt_32x32_resp_pack t w a d' ok) valid gen"
  by (auto simp: response_match_defs nios_pkt_8x8_MAGIC_def nios_pkt_8x16_MAGIC_def nios_pkt_8x32_MAGIC_def nios_pkt_8x64_MAGIC_def nios_pkt_16x64_MAGIC_def 
                 nios_pkt_32x32_defs upt_rec wordfacts)

interpretation c32x32: reg_pkt_channel nios_pkt_32x32_MAGIC nios_pkt_32x32_pack
    nios_pkt_32x32_unpack nios_pkt_32x32_resp_pack nios_pkt_32x32_resp_unpack
  by unfold_locales (rule response_matches_32x32)

lemma response_matches_16x64:
  "(w \<longrightarrow> d' = d) \<Longrightarrow>
   nios_response_matches_request (nios_pkt_16x64_pack t w a d)
     (nios_pkt_16x64_resp_pack t w a d' ok) valid gen"
  by (auto simp: response_match_defs nios_16x64_response_matches_def nios_pkt_8x8_MAGIC_def
                 nios_pkt_8x16_MAGIC_def nios_pkt_8x32_MAGIC_def nios_pkt_8x64_MAGIC_def
                 nios_pkt_16x64_defs nios_pkt_16x64_tag_defs upt_rec wordfacts)

interpretation c16x64: reg_pkt_channel nios_pkt_16x64_MAGIC nios_pkt_16x64_pack
    nios_pkt_16x64_unpack nios_pkt_16x64_resp_pack nios_pkt_16x64_resp_unpack
  by unfold_locales (rule response_matches_16x64)

lemmas nios_magics =
  nios_pkt_8x8_MAGIC_def nios_pkt_8x16_MAGIC_def nios_pkt_8x32_MAGIC_def
  nios_pkt_8x64_MAGIC_def nios_pkt_16x64_MAGIC_def nios_pkt_32x32_MAGIC_def

lemma nios_main_request_exec:
  assumes "req ! 0 = magic"
  shows "magic = nios_pkt_8x8_MAGIC \<Longrightarrow> nios_main_request b rt lg req s =
           (case pkt_8x8 b req s of (resp, s1) \<Rightarrow> (Some resp, s1))"
    and "magic = nios_pkt_8x16_MAGIC \<Longrightarrow> nios_main_request b rt lg req s =
           (case pkt_8x16 b req s of (resp, s1) \<Rightarrow> (Some resp, s1))"
    and "magic = nios_pkt_8x32_MAGIC \<Longrightarrow> nios_main_request b rt lg req s =
           (case pkt_8x32 b req s of (resp, s1) \<Rightarrow> (Some resp, s1))"
    and "magic = nios_pkt_8x64_MAGIC \<Longrightarrow> nios_main_request b rt lg req s =
           (case pkt_8x64 b req s of (resp, s1) \<Rightarrow> (Some resp, s1))"
    and "magic = nios_pkt_32x32_MAGIC \<Longrightarrow> nios_main_request b rt lg req s =
           (case pkt_32x32 b req s of (resp, s1) \<Rightarrow> (Some resp, s1))"
  using assms
  by (simp_all add: nios_main_request_def find_handler_def pkt_handlers_def nios_magics)

section \<open>The LMS6002D behind the arbiter\<close>

text \<open>
  What the firmware needs of the hardware: the arbiter grants a request and withdraws the
  grant on release, and an SPI access made while the grant is held reaches the chip. The
  chip itself is arbitrary: \<open>chip_read\<close> and \<open>chip_write\<close> on its state.
\<close>

locale lms_hw =
  fixes b :: "'m bus_fns"
    and chip :: "'m \<Rightarrow> 'c"
    and granted :: "'m \<Rightarrow> bool"
    and chip_read :: "u8 \<Rightarrow> 'c \<Rightarrow> u8 \<times> 'c"
    and chip_write :: "u8 \<Rightarrow> u8 \<Rightarrow> 'c \<Rightarrow> 'c"
  assumes grant_read: "iord8 b ARBITER_0_BASE 1 m = (if granted m then 1 else 0, m)"
    and grant_request: "granted (iowr32 b ARBITER_0_BASE 0 1 m)"
    and grant_release: "\<not> granted (iowr32 b ARBITER_0_BASE 0 2 m)"
    and arbiter_chip: "chip (iowr32 b ARBITER_0_BASE 0 request m) = chip m"
    and spi_chip_read: "granted m \<Longrightarrow> iord8 b RFFE_SPI_BASE a m = (v, m') \<Longrightarrow>
          chip_read a (chip m) = (v, chip m')"
    and spi_chip_write: "granted m \<Longrightarrow>
          chip (iowr8 b RFFE_SPI_BASE a v m) = chip_write a v (chip m)"
begin

lemma poll_at_once:
  assumes "granted (hw s) = want" "0 < tries"
  shows "arbiter_poll b want tries s = (True, s)"
proof -
  obtain n where "tries = Suc n" using assms(2) gr0_implies_Suc by blast
  with assms(1) show ?thesis
    by (auto simp: spi_arbiter_read_grant_def rd8_def grant_read)
qed

lemma release_ok:
  "0 < tries \<Longrightarrow>
   bladerf_spi_arbiter_release b tries s = (True, spi_arbiter_set_request b False s)"
  by (simp add: bladerf_spi_arbiter_release_def poll_at_once spi_arbiter_set_request_def
                grant_release)

lemma acquire_ok:
  assumes "0 < tries"
  obtains s' where "bladerf_spi_arbiter_acquire b tries s = (True, s')"
    and "granted (hw s')" "chip (hw s') = chip (hw s)"
proof -
  let ?s2 = "if granted (hw s) then spi_arbiter_set_request b False s else s"
  let ?s3 = "spi_arbiter_set_request b True ?s2"
  have "granted (hw ?s3)" "chip (hw ?s3) = chip (hw s)"
    by (auto simp: spi_arbiter_set_request_def grant_request arbiter_chip)
  moreover have "bladerf_spi_arbiter_acquire b tries s = (True, ?s3)"
    using assms calculation(1)
    by (auto simp: bladerf_spi_arbiter_acquire_def spi_arbiter_read_grant_def rd8_def grant_read
                   release_ok poll_at_once)
  ultimately show thesis using that by blast
qed

lemma tries_pos: "0 < BLADERF_SPI_ARBITER_WAIT_ATTEMPTS"
  by (simp add: BLADERF_SPI_ARBITER_WAIT_ATTEMPTS_def)

lemma lms6_read_ok:
  assumes "chip_read addr (chip (hw s)) = (v, c)"
  shows "\<exists>s'. lms6_read b addr d s = ((True, v), s') \<and> chip (hw s') = c"
proof -
  obtain s1 where s1: "spi_arbiter_lock b s = (True, s1)" "granted (hw s1)"
      "chip (hw s1) = chip (hw s)"
    unfolding spi_arbiter_lock_def by (rule acquire_ok [OF tries_pos])
  obtain v' m where m: "iord8 b RFFE_SPI_BASE addr (hw s1) = (v', m)" by fastforce
  then have "v' = v" "chip m = c"
    using spi_chip_read [OF s1(2) m] s1(3) assms by auto
  then show ?thesis
    using s1 m
    by (simp add: lms6_read_def rd8_def spi_arbiter_unlock_def release_ok [OF tries_pos]
                  spi_arbiter_set_request_def arbiter_chip)
qed

lemma lms6_write_ok:
  "\<exists>s'. lms6_write b addr v s = (True, s') \<and> chip (hw s') = chip_write addr v (chip (hw s))"
proof -
  obtain s1 where s1: "spi_arbiter_lock b s = (True, s1)" "granted (hw s1)"
      "chip (hw s1) = chip (hw s)"
    unfolding spi_arbiter_lock_def by (rule acquire_ok [OF tries_pos])
  then show ?thesis
    by (simp add: lms6_write_def wr8_def spi_arbiter_unlock_def release_ok [OF tries_pos]
                  spi_arbiter_set_request_def arbiter_chip spi_chip_write)
qed

end

section \<open>What the host accepts\<close>

text \<open>C8. The host accepts as the answer to an 8x8 request exactly the frames a handler can
  build for it: same target, direction and address, a status bit, and, for a write, the
  data that was written. No other 16-byte frame passes the identity check.\<close>

theorem response_8x8_exact:
  assumes "length resp = NIOS_PKT_LEN"
  shows "nios_response_matches_request (nios_pkt_8x8_pack t w a d) resp valid gen \<longleftrightarrow>
         (\<exists>d' ok. (w \<longrightarrow> d' = d) \<and> resp = nios_pkt_8x8_resp_pack t w a d' ok)"
proof
  assume m: "nios_response_matches_request (nios_pkt_8x8_pack t w a d) resp valid gen"
  obtain x0 x1 x2 x3 x4 x5 x6 x7 x8 x9 x10 x11 x12 x13 x14 x15 where
    xs: "resp = [x0, x1, x2, x3, x4, x5, x6, x7, x8, x9, x10, x11, x12, x13, x14, x15]"
    using assms by (rule length_16E)
  have eqs: "x0 = nios_pkt_8x8_MAGIC" "x1 = t" "x2 AND 0xfc = 0" "x3 = 0" "x4 = a"
      "x6 = 0" "x7 = 0" "x8 = 0" "x9 = 0" "x10 = 0" "x11 = 0" "x12 = 0" "x13 = 0" "x14 = 0"
      "x15 = 0" "(x2 AND 1 \<noteq> 0) = w" "w \<longrightarrow> x5 = d"
    using m by (auto simp: xs response_match_defs nios_pkt_8x8_defs upt_rec split: if_splits)
  have "x2 = (if w then 1 else 0) OR (if x2 AND 2 \<noteq> 0 then 2 else 0)"
    using u8_low_flags [OF eqs(3)] eqs(16) by simp
  then have "resp = nios_pkt_8x8_resp_pack t w a x5 (x2 AND 2 \<noteq> 0)"
    using eqs by (auto simp: xs nios_pkt_8x8_defs Let_def)
  then show "\<exists>d' ok. (w \<longrightarrow> d' = d) \<and> resp = nios_pkt_8x8_resp_pack t w a d' ok"
    using eqs(17) by blast
qed (auto intro: response_matches_8x8)

lemma response_8x8_exact_witness:
  "\<exists>d' ok. (False \<longrightarrow> d' = (0 :: u8)) \<and>
     [0x41, 0, 2, 0, 0x2f, 0x22, 0, 0, 0, 0, 0, 0, 0, 0, 0, 0] =
     nios_pkt_8x8_resp_pack 0 False 0x2f d' ok"
proof -
  let ?resp = "[0x41, 0, 2, 0, 0x2f, 0x22, 0, 0, 0, 0, 0, 0, 0, 0, 0, 0] :: u8 list"
  have "length ?resp = NIOS_PKT_LEN" by (simp add: NIOS_PKT_LEN_def)
  from response_8x8_exact [OF this, where t = 0 and w = False and a = "0x2f" and d = 0] show ?thesis
    by (simp add: nios_pkt_8x8_defs response_match_defs upt_rec)
qed

end
