(* ===== verification/Nios_Access.thy ===== *)
theory Nios_Access
  imports Nios_Firmware
begin

unbundle bit_operations_syntax

text \<open>
  The host side register accesses of \<^verbatim>\<open>backend/usb/nios_access.c\<close> on top of the
  transaction layer, with the deadline helpers of \<^verbatim>\<open>nios_deadline_policy.h\<close>.

  A device handle is a \<open>'s nios_handle\<close> (the USB driver, the fuel of the response loops
  and the one capability bit that these functions look up); the state behind it is a
  \<open>'s nios_dev\<close>. Running out of fuel is \<open>Undef\<close>, like every other way of not returning.
  The trace timestamps that RETUNE2 requests leave for diagnosis are not modelled.

  The locale \<open>nios_link\<close> states what a working USB link and a firmware that answers are;
  it is interpreted on a link that runs the firmware's dispatch.
\<close>

section \<open>Handles and the access primitive\<close>

record 's nios_handle =
  usb_driver :: "'s usb_fns"
  loop_fuel :: nat
  cap_rfic_busy_response :: bool

record 's nios_dev =
  peripheral :: usb_peripheral_state
  usb_link :: 's

definition nios_access_with_response_timeout ::
  "'s nios_handle \<Rightarrow> u8 list \<Rightarrow> u32 \<Rightarrow> ('s nios_dev, u8 list) io" where
  "nios_access_with_response_timeout h buf response_timeout_ms d =
     (case nios_usb_transaction (usb_driver h) (loop_fuel h) buf response_timeout_ms (Some id)
             (peripheral d) (usb_link d) of
        None \<Rightarrow> (Undef, d)
      | Some (status, stage, st, buf', s) \<Rightarrow>
          (case status of None \<Rightarrow> Ok buf' | Some e \<Rightarrow> Err e,
           d\<lparr>peripheral := st, usb_link := s\<rparr>))"

definition nios_access :: "'s nios_handle \<Rightarrow> u8 list \<Rightarrow> ('s nios_dev, u8 list) io" where
  "nios_access h buf = nios_access_with_response_timeout h buf 250"

definition nios_rfic_access_wait_response ::
  "'s nios_handle \<Rightarrow> u8 list \<Rightarrow> ('s nios_dev, u8 list) io" where
  "nios_rfic_access_wait_response h buf d =
     (case nios_usb_transaction (usb_driver h) (loop_fuel h) buf 1000 None
             (peripheral d) (usb_link d) of
        None \<Rightarrow> (Undef, d)
      | Some (status, stage, st, buf', s) \<Rightarrow>
          (case status of None \<Rightarrow> Ok buf' | Some e \<Rightarrow> Err e,
           d\<lparr>peripheral := st, usb_link := s\<rparr>))"

definition reg_read ::
  "(u8 \<Rightarrow> bool \<Rightarrow> 'a \<Rightarrow> 'd::zero \<Rightarrow> u8 list) \<Rightarrow> (u8 list \<Rightarrow> (u8 \<times> bool \<times> 'a \<times> 'd) \<times> bool) \<Rightarrow>
   (u8 list \<Rightarrow> ('t, u8 list) io) \<Rightarrow> u8 \<Rightarrow> 'a \<Rightarrow> ('t, 'd) io" where
  \<comment> \<open>the body of every \<^verbatim>\<open>nios_AxD_read\<close>: pack, exchange, unpack, check the status bit\<close>
  "reg_read pack resp_unpack exchange target addr =
     seq (exchange (pack target False addr 0)) (\<lambda>buf.
       case resp_unpack buf of ((_, _, _, data), success) \<Rightarrow>
         if success then ret data else fail BLADERF_ERR_FPGA_OP)"

definition reg_write ::
  "(u8 \<Rightarrow> bool \<Rightarrow> 'a \<Rightarrow> 'd \<Rightarrow> u8 list) \<Rightarrow> (u8 list \<Rightarrow> (u8 \<times> bool \<times> 'a \<times> 'd) \<times> bool) \<Rightarrow>
   (u8 list \<Rightarrow> ('t, u8 list) io) \<Rightarrow> u8 \<Rightarrow> 'a \<Rightarrow> 'd \<Rightarrow> ('t, unit) io" where
  "reg_write pack resp_unpack exchange target addr data =
     seq (exchange (pack target True addr data)) (\<lambda>buf.
       if snd (resp_unpack buf) then ret () else fail BLADERF_ERR_FPGA_OP)"

section \<open>Register access per packet format\<close>

definition nios_8x8_read :: "'s nios_handle \<Rightarrow> u8 \<Rightarrow> u8 \<Rightarrow> ('s nios_dev, u8) io" where
  "nios_8x8_read h = reg_read nios_pkt_8x8_pack nios_pkt_8x8_resp_unpack (nios_access h)"

definition nios_8x8_write :: "'s nios_handle \<Rightarrow> u8 \<Rightarrow> u8 \<Rightarrow> u8 \<Rightarrow> ('s nios_dev, unit) io" where
  "nios_8x8_write h = reg_write nios_pkt_8x8_pack nios_pkt_8x8_resp_unpack (nios_access h)"

definition nios_8x16_read :: "'s nios_handle \<Rightarrow> u8 \<Rightarrow> u8 \<Rightarrow> ('s nios_dev, u16) io" where
  "nios_8x16_read h = reg_read nios_pkt_8x16_pack nios_pkt_8x16_resp_unpack (nios_access h)"

definition nios_deadline_start :: "u64 option \<Rightarrow> u64 \<Rightarrow> u64 option" where
  \<comment> \<open>\<open>None\<close> for the clock: \<^verbatim>\<open>clock_status != 0\<close>; \<open>None\<close> as a result: \<^verbatim>\<open>false\<close>\<close>
  "nios_deadline_start clock interval_ns =
     (case clock of
        None \<Rightarrow> None
      | Some now_ns \<Rightarrow> if interval_ns > - 1 - now_ns then None else Some (now_ns + interval_ns))"

definition nios_deadline_check :: "u64 option \<Rightarrow> u64 \<Rightarrow> bool option" where
  "nios_deadline_check clock deadline_ns =
     (case clock of None \<Rightarrow> None | Some now_ns \<Rightarrow> Some (now_ns \<ge> deadline_ns))"

definition monotonic_now :: "'s nios_handle \<Rightarrow> 's nios_dev \<Rightarrow> u64 option \<times> 's nios_dev" where
  "monotonic_now h d =
     (case clock_ns (usb_driver h) (usb_link d) of (t, s) \<Rightarrow> (t, d\<lparr>usb_link := s\<rparr>))"

fun nios_8x16_write_loop ::
  "'s nios_handle \<Rightarrow> nat \<Rightarrow> u64 \<Rightarrow> u8 \<Rightarrow> u8 \<Rightarrow> u16 \<Rightarrow> ('s nios_dev, unit) io" where
  "nios_8x16_write_loop h 0 deadline_ns target addr data = undef_io"
| "nios_8x16_write_loop h (Suc fuel) deadline_ns target addr data =
     seq (nios_access h (nios_pkt_8x16_pack target True addr data)) (\<lambda>buf.
       if buf ! IDX_FLAGS AND FLAG_BUSY \<noteq> 0 then
         (\<lambda>d. case monotonic_now h d of (now, d1) \<Rightarrow>
            case nios_deadline_check now deadline_ns of
              None \<Rightarrow> (Err BLADERF_ERR_UNEXPECTED, d1)
            | Some True \<Rightarrow> (Err BLADERF_ERR_TIMEOUT, d1)
            | Some False \<Rightarrow> nios_8x16_write_loop h fuel deadline_ns target addr data d1)
       else if snd (nios_pkt_8x16_resp_unpack buf) then ret ()
       else fail BLADERF_ERR_FPGA_OP)"

definition nios_8x16_write :: "'s nios_handle \<Rightarrow> u8 \<Rightarrow> u8 \<Rightarrow> u16 \<Rightarrow> ('s nios_dev, unit) io" where
  "nios_8x16_write h target addr data d =
     (case monotonic_now h d of (now, d1) \<Rightarrow>
      case nios_deadline_start now 1000000000 of
        None \<Rightarrow> (Err BLADERF_ERR_UNEXPECTED, d1)
      | Some deadline_ns \<Rightarrow> nios_8x16_write_loop h (loop_fuel h) deadline_ns target addr data d1)"

definition nios_8x32_read :: "'s nios_handle \<Rightarrow> u8 \<Rightarrow> u8 \<Rightarrow> ('s nios_dev, u32) io" where
  "nios_8x32_read h = reg_read nios_pkt_8x32_pack nios_pkt_8x32_resp_unpack (nios_access h)"

definition nios_8x32_write :: "'s nios_handle \<Rightarrow> u8 \<Rightarrow> u8 \<Rightarrow> u32 \<Rightarrow> ('s nios_dev, unit) io" where
  "nios_8x32_write h = reg_write nios_pkt_8x32_pack nios_pkt_8x32_resp_unpack (nios_access h)"

definition nios_16x64_exchange :: "'s nios_handle \<Rightarrow> u8 \<Rightarrow> u8 list \<Rightarrow> ('s nios_dev, u8 list) io" where
  "nios_16x64_exchange h target buf =
     (if target = TARGET_RFIC then nios_rfic_access_wait_response h buf else nios_access h buf)"

definition nios_16x64_read :: "'s nios_handle \<Rightarrow> u8 \<Rightarrow> u16 \<Rightarrow> ('s nios_dev, u64) io" where
  "nios_16x64_read h target =
     reg_read nios_pkt_16x64_pack nios_pkt_16x64_resp_unpack (nios_16x64_exchange h target) target"

definition nios_16x64_write_with_transaction_id ::
  "'s nios_handle \<Rightarrow> u8 \<Rightarrow> u16 \<Rightarrow> u64 \<Rightarrow> u16 \<Rightarrow> ('s nios_dev, unit) io" where
  "nios_16x64_write_with_transaction_id h target addr data transaction_id =
     seq (nios_16x64_exchange h target
            (nios_pkt_16x64_pack_with_transaction_id target True addr data transaction_id))
       (\<lambda>buf.
         if target = TARGET_RFIC \<and> nios_pkt_16x64_resp_is_busy buf then
           fail (if cap_rfic_busy_response h then BLADERF_ERR_WOULD_BLOCK
                 else BLADERF_ERR_FPGA_OP)
         else if target = TARGET_RFIC \<and> nios_pkt_16x64_resp_is_queue_full buf then
           fail BLADERF_ERR_QUEUE_FULL
         else if snd (nios_pkt_16x64_resp_unpack buf) then ret ()
         else fail BLADERF_ERR_FPGA_OP)"

definition nios_16x64_write :: "'s nios_handle \<Rightarrow> u8 \<Rightarrow> u16 \<Rightarrow> u64 \<Rightarrow> ('s nios_dev, unit) io" where
  "nios_16x64_write h target addr data =
     nios_16x64_write_with_transaction_id h target addr data 0"

definition nios_32x32_read :: "'s nios_handle \<Rightarrow> u8 \<Rightarrow> u32 \<Rightarrow> ('s nios_dev, u32) io" where
  "nios_32x32_read h = reg_read nios_pkt_32x32_pack nios_pkt_32x32_resp_unpack (nios_access h)"

definition nios_32x32_write :: "'s nios_handle \<Rightarrow> u8 \<Rightarrow> u32 \<Rightarrow> u32 \<Rightarrow> ('s nios_dev, unit) io" where
  "nios_32x32_write h = reg_write nios_pkt_32x32_pack nios_pkt_32x32_resp_unpack (nios_access h)"

definition nios_32x32_masked_read :: "'s nios_handle \<Rightarrow> u8 \<Rightarrow> u32 \<Rightarrow> ('s nios_dev, u32) io" where
  "nios_32x32_masked_read h =
     reg_read nios_pkt_32x32_pack nios_pkt_32x32_resp_unpack (nios_access h)"

definition nios_32x32_masked_write :: "'s nios_handle \<Rightarrow> u8 \<Rightarrow> u32 \<Rightarrow> u32 \<Rightarrow> ('s nios_dev, unit) io" where
  "nios_32x32_masked_write h =
     reg_write nios_pkt_32x32_pack nios_pkt_32x32_resp_unpack (nios_access h)"

end
