(* ===== verification/Nios_Access_Ops.thy ===== *)
theory Nios_Access_Ops
  imports Nios_Access
begin

unbundle bit_operations_syntax

text \<open>
  The peripheral accesses of \<^verbatim>\<open>backend/usb/nios_access.c\<close> that are built from the register
  accesses of \<open>Nios_Access\<close>: FPGA configuration and version, timestamps, the clock and RF
  chips, IQ and AGC correction, expansion GPIO, triggers, the fastlock profile cache and
  the RETUNE2 records. Functions that only store through a non-null pointer return the
  value; a null pointer argument is refused before any access and is not represented.
\<close>

section \<open>FPGA configuration, version and time\<close>

definition nios_config_read :: "'s nios_handle \<Rightarrow> ('s nios_dev, u32) io" where
  "nios_config_read h = nios_8x32_read h TARGET_CONTROL 0"

definition nios_config_write :: "'s nios_handle \<Rightarrow> u32 \<Rightarrow> ('s nios_dev, unit) io" where
  "nios_config_write h v = nios_8x32_write h TARGET_CONTROL 0 v"

record bladerf_version =
  ver_major :: u16
  ver_minor :: u16
  ver_patch :: u16

definition nios_get_fpga_version :: "'s nios_handle \<Rightarrow> ('s nios_dev, bladerf_version) io" where
  \<comment> \<open>on a little-endian host \<^verbatim>\<open>LE16_TO_HOST\<close> is the identity; the description string is
      printed from these three numbers\<close>
  "nios_get_fpga_version h =
     seq (nios_8x32_read h TARGET_VERSION 0) (\<lambda>regval.
       ret \<lparr>ver_major = ucast (drop_bit 24 regval AND 0xff),
            ver_minor = ucast (drop_bit 16 regval AND 0xff),
            ver_patch = ucast (regval AND 0xffff)\<rparr>)"

datatype bladerf_direction = BLADERF_RX | BLADERF_TX

definition nios_get_timestamp :: "'s nios_handle \<Rightarrow> bladerf_direction \<Rightarrow> ('s nios_dev, u64) io" where
  "nios_get_timestamp h dir =
     reg_read nios_pkt_8x64_pack nios_pkt_8x64_resp_unpack (nios_access h) 0
       (case dir of BLADERF_RX \<Rightarrow> 0 | BLADERF_TX \<Rightarrow> 1)"

section \<open>Clock and RF chips\<close>

definition nios_si5338_read :: "'s nios_handle \<Rightarrow> u8 \<Rightarrow> ('s nios_dev, u8) io" where
  "nios_si5338_read h addr = nios_8x8_read h TARGET_SI5338 addr"

definition nios_si5338_write :: "'s nios_handle \<Rightarrow> u8 \<Rightarrow> u8 \<Rightarrow> ('s nios_dev, unit) io" where
  "nios_si5338_write h addr data = nios_8x8_write h TARGET_SI5338 addr data"

definition nios_lms6_read :: "'s nios_handle \<Rightarrow> u8 \<Rightarrow> ('s nios_dev, u8) io" where
  "nios_lms6_read h addr = nios_8x8_read h TARGET_LMS6 addr"

definition nios_lms6_write :: "'s nios_handle \<Rightarrow> u8 \<Rightarrow> u8 \<Rightarrow> ('s nios_dev, unit) io" where
  "nios_lms6_write h addr data = nios_8x8_write h TARGET_LMS6 addr data"

definition nios_ina219_read :: "'s nios_handle \<Rightarrow> u8 \<Rightarrow> ('s nios_dev, u16) io" where
  "nios_ina219_read h addr = nios_8x16_read h 4 addr"

definition nios_ina219_write :: "'s nios_handle \<Rightarrow> u8 \<Rightarrow> u16 \<Rightarrow> ('s nios_dev, unit) io" where
  "nios_ina219_write h addr data = nios_8x16_write h 4 addr data"

definition nios_ad9361_spi_read :: "'s nios_handle \<Rightarrow> u16 \<Rightarrow> ('s nios_dev, u64) io" where
  "nios_ad9361_spi_read h cmd = nios_16x64_read h TARGET_AD9361 cmd"

definition nios_ad9361_spi_write :: "'s nios_handle \<Rightarrow> u16 \<Rightarrow> u64 \<Rightarrow> ('s nios_dev, unit) io" where
  "nios_ad9361_spi_write h cmd data = nios_16x64_write h TARGET_AD9361 cmd data"

fun spi_batch_data :: "nat \<Rightarrow> (u16 \<times> u8) list \<Rightarrow> u64 \<Rightarrow> u64 option" where
  \<comment> \<open>the packing loop from index \<open>i\<close>; \<open>None\<close> is the early \<^verbatim>\<open>BLADERF_ERR_INVAL\<close>; the shift by 10
      is done in \<^verbatim>\<open>int\<close> and keeps all 18 bits\<close>
  "spi_batch_data i [] data = Some data"
| "spi_batch_data i ((reg, v) # rest) data =
     (if reg > 0x3ff then None
      else spi_batch_data (Suc i) rest
             (data OR push_bit (18 * i) (ucast reg OR push_bit 10 (ucast v))))"

definition nios_ad9361_spi_write_batch ::
  "'s nios_handle \<Rightarrow> (u16 \<times> u8) list \<Rightarrow> ('s nios_dev, unit) io" where
  \<comment> \<open>the arrays \<^verbatim>\<open>regs\<close> and \<^verbatim>\<open>values\<close> as a list of \<^verbatim>\<open>count\<close> pairs\<close>
  "nios_ad9361_spi_write_batch h entries =
     (if length entries = 0 \<or> length entries > 3 then fail BLADERF_ERR_INVAL
      else case spi_batch_data 0 entries (push_bit 56 0xa5) of
        None \<Rightarrow> fail BLADERF_ERR_INVAL
      | Some data \<Rightarrow>
          seq (nios_access h (nios_pkt_16x64_pack 3 True (of_nat (length entries)) data))
            (\<lambda>buf. case nios_pkt_16x64_resp_unpack buf of ((_, _, _, response_data), success) \<Rightarrow>
               if \<not> success \<and> drop_bit 56 response_data = 0xa5 then fail BLADERF_ERR_UNSUPPORTED
               else if \<not> success \<or> response_data \<noteq> of_nat (length entries)
               then fail BLADERF_ERR_FPGA_OP
               else ret ()))"

definition nios_ad9361_spi_update_bits ::
  "'s nios_handle \<Rightarrow> u16 \<Rightarrow> u8 \<Rightarrow> u8 \<Rightarrow> ('s nios_dev, unit) io" where
  "nios_ad9361_spi_update_bits h reg bits v =
     (let request_data =
            push_bit 56 0xa6 OR push_bit 48 (ucast bits) OR push_bit 40 (ucast v) in
      if reg > 0x03ff \<or> bits = 0 \<or> v AND NOT bits \<noteq> 0 then fail BLADERF_ERR_INVAL
      else seq (nios_access h (nios_pkt_16x64_pack 4 True reg request_data)) (\<lambda>buf.
        case nios_pkt_16x64_resp_unpack buf of ((_, _, _, response_data), success) \<Rightarrow>
          if \<not> success \<and> response_data = request_data then fail BLADERF_ERR_UNSUPPORTED
          else if \<not> success \<or> response_data > 0xff then fail BLADERF_ERR_FPGA_OP
          else ret ()))"

definition nios_ad9361_gain_table_row ::
  "'s nios_handle \<Rightarrow> u16 \<Rightarrow> u8 \<Rightarrow> u8 \<Rightarrow> u8 \<Rightarrow> u8 \<Rightarrow> u32 \<Rightarrow> ('s nios_dev, unit) io" where
  "nios_ad9361_gain_table_row h row data1 data2 data3 config delay_us =
     (if delay_us \<noteq> 2 then fail BLADERF_ERR_INVAL
      else nios_16x64_write h TARGET_GAIN_TABLE_ROW row
             (ucast data1 OR push_bit 8 (ucast data2) OR push_bit 16 (ucast data3) OR
              push_bit 24 (ucast config)))"

definition nios_ad9361_gain_table_region_matches ::
  "'s nios_handle \<Rightarrow> u8 \<Rightarrow> bool \<Rightarrow> u8 \<Rightarrow> u8 list list \<Rightarrow> ('s nios_dev, bool) io" where
  "nios_ad9361_gain_table_region_matches h region split rows tab =
     (if region > 2 \<or> rows = 0 then fail BLADERF_ERR_INVAL
      else seq (nios_16x64_read h 8 (nios_pkt_16x64_gain_table_region_addr region split rows))
             (\<lambda>digest. ret (digest = nios_pkt_16x64_gain_table_digest tab (unat rows))))"

definition nios_ad9361_gain_table_region_write ::
  "'s nios_handle \<Rightarrow> u8 \<Rightarrow> bool \<Rightarrow> u8 \<Rightarrow> u8 \<Rightarrow> u8 \<Rightarrow> ('s nios_dev, unit) io" where
  "nios_ad9361_gain_table_region_write h region split rows lna config =
     (if region > 2 \<or> rows = 0 then fail BLADERF_ERR_INVAL
      else nios_16x64_write h 8 (nios_pkt_16x64_gain_table_region_addr region split rows)
             (ucast lna OR push_bit 8 (ucast config)))"

definition nios_adi_axi_read :: "'s nios_handle \<Rightarrow> u32 \<Rightarrow> ('s nios_dev, u32) io" where
  "nios_adi_axi_read h addr = nios_32x32_read h 2 addr"

definition nios_adi_axi_write :: "'s nios_handle \<Rightarrow> u32 \<Rightarrow> u32 \<Rightarrow> ('s nios_dev, unit) io" where
  "nios_adi_axi_write h addr data = nios_32x32_write h 2 addr data"

definition nios_wishbone_master_read :: "'s nios_handle \<Rightarrow> u32 \<Rightarrow> ('s nios_dev, u32) io" where
  "nios_wishbone_master_read h addr = nios_32x32_read h 3 addr"

definition nios_wishbone_master_write :: "'s nios_handle \<Rightarrow> u32 \<Rightarrow> u32 \<Rightarrow> ('s nios_dev, unit) io" where
  "nios_wishbone_master_write h addr data = nios_32x32_write h 3 addr data"

definition nios_rfic_command_read :: "'s nios_handle \<Rightarrow> u16 \<Rightarrow> ('s nios_dev, u64) io" where
  "nios_rfic_command_read h cmd = nios_16x64_read h TARGET_RFIC cmd"

definition nios_rfic_command_write ::
  "'s nios_handle \<Rightarrow> u16 \<Rightarrow> u64 \<Rightarrow> u16 \<Rightarrow> ('s nios_dev, unit) io" where
  "nios_rfic_command_write h cmd data transaction_id =
     nios_16x64_write_with_transaction_id h TARGET_RFIC cmd data transaction_id"

section \<open>FPGA status words and counters\<close>

definition nios_rffe_control_read :: "'s nios_handle \<Rightarrow> ('s nios_dev, u32) io" where
  "nios_rffe_control_read h = nios_8x32_read h TARGET_RFFE_CSR 0"

definition nios_rffe_control_write :: "'s nios_handle \<Rightarrow> u32 \<Rightarrow> ('s nios_dev, unit) io" where
  "nios_rffe_control_write h v = nios_8x32_write h TARGET_RFFE_CSR 0 v"

definition nios_rf_link_status_read :: "'s nios_handle \<Rightarrow> ('s nios_dev, u32) io" where
  "nios_rf_link_status_read h = nios_8x32_read h 0x81 0"

definition nios_rx_fault_causes_read :: "'s nios_handle \<Rightarrow> ('s nios_dev, u32) io" where
  "nios_rx_fault_causes_read h = nios_8x32_read h 0x8c 0"

definition nios_loss_counter_read :: "'s nios_handle \<Rightarrow> u8 \<Rightarrow> ('s nios_dev, u32) io" where
  "nios_loss_counter_read h half = nios_8x32_read h 0x86 half"

definition nios_boot_nonce_read :: "'s nios_handle \<Rightarrow> ('s nios_dev, u32) io" where
  "nios_boot_nonce_read h = nios_8x32_read h TARGET_BOOT_NONCE 0"

definition nios_boot_nonce_write :: "'s nios_handle \<Rightarrow> u32 \<Rightarrow> ('s nios_dev, unit) io" where
  "nios_boot_nonce_write h nonce = nios_8x32_write h TARGET_BOOT_NONCE 0 nonce"

definition nios_pkt_8x32_rx_gt_index_valid :: "u8 \<Rightarrow> u32 \<Rightarrow> bool" where
  "nios_pkt_8x32_rx_gt_index_valid addr data \<longleftrightarrow> addr \<le> 2 \<and> data AND NOT 0x7f7f = 0"

definition nios_rx_gain_table_index_write ::
  "'s nios_handle \<Rightarrow> u8 \<Rightarrow> u32 \<Rightarrow> ('s nios_dev, unit) io" where
  "nios_rx_gain_table_index_write h region indices =
     (if \<not> nios_pkt_8x32_rx_gt_index_valid region indices then fail BLADERF_ERR_INVAL
      else nios_8x32_write h 0x95 region indices)"

definition nios_ram_usage_read :: "'s nios_handle \<Rightarrow> u8 \<Rightarrow> ('s nios_dev, u32) io" where
  "nios_ram_usage_read h field = nios_8x32_read h 0x92 field"

definition nios_i2c_diag_read :: "'s nios_handle \<Rightarrow> u8 \<Rightarrow> ('s nios_dev, u32) io" where
  "nios_i2c_diag_read h field = nios_8x32_read h 0x96 field"

definition nios_retune2_failure_count_read ::
  "'s nios_handle \<Rightarrow> bladerf_module \<Rightarrow> ('s nios_dev, u32) io" where
  "nios_retune2_failure_count_read h m =
     nios_8x32_read h 0x8d (case m of BLADERF_MODULE_RX \<Rightarrow> 0 | BLADERF_MODULE_TX \<Rightarrow> 1)"

definition nios_command_session_generation_read :: "'s nios_handle \<Rightarrow> ('s nios_dev, u32) io" where
  "nios_command_session_generation_read h =
     nios_8x32_read h TARGET_COMMAND_SESSION_GENERATION 0"

definition nios_retune2_success_count_read ::
  "'s nios_handle \<Rightarrow> bladerf_module \<Rightarrow> ('s nios_dev, u32) io" where
  "nios_retune2_success_count_read h m =
     nios_8x32_read h 0x8e (case m of BLADERF_MODULE_RX \<Rightarrow> 0 | BLADERF_MODULE_TX \<Rightarrow> 1)"

section \<open>Fastlock profiles and RETUNE2 records\<close>

definition nios_rffe_fastlock_save ::
  "'s nios_handle \<Rightarrow> bool \<Rightarrow> u8 \<Rightarrow> u16 \<Rightarrow> ('s nios_dev, unit) io" where
  "nios_rffe_fastlock_save h is_tx rffe_profile nios_profile =
     nios_8x32_write h 5 (if is_tx then 1 else 0)
       (push_bit 16 (ucast rffe_profile) OR ucast nios_profile)"

definition nios_fastlock_profile_status :: "u64 \<Rightarrow> bool \<Rightarrow> bladerf_error option" where
  "nios_fastlock_profile_status response_data success =
     (let code = nios_pkt_16x64_fastlock_profile_error_code response_data in
      if success then None
      else if code = 1 \<or> code = 6 then Some BLADERF_ERR_INVAL
      else if code = 2 \<or> code = 3 \<or> code = 4 then Some BLADERF_ERR_WOULD_BLOCK
      else if code = 5 then Some BLADERF_ERR_UNEXPECTED
      else Some BLADERF_ERR_UNSUPPORTED)"

definition nios_fastlock_profile_access ::
  "'s nios_handle \<Rightarrow> bool \<Rightarrow> u16 \<Rightarrow> u64 \<Rightarrow> ('s nios_dev, u64) io" where
  \<comment> \<open>returns what \<^verbatim>\<open>*data\<close> holds after a successful call\<close>
  "nios_fastlock_profile_access h write addr data =
     seq (nios_access h (nios_pkt_16x64_pack 6 write addr (if write then data else 0))) (\<lambda>buf.
       case nios_pkt_16x64_resp_unpack buf of ((_, _, _, response_data), success) \<Rightarrow>
         (case nios_fastlock_profile_status response_data success of
            Some e \<Rightarrow> fail e
          | None \<Rightarrow> ret (if write then data else response_data)))"

definition nios_fastlock_profile_write ::
  "'s nios_handle \<Rightarrow> bool \<Rightarrow> u8 \<Rightarrow> u8 list \<Rightarrow> ('s nios_dev, unit) io" where
  \<comment> \<open>\<open>words\<close> are the 16 bytes of the profile; both halves, then the commit\<close>
  "nios_fastlock_profile_write h is_tx nios_profile words =
     (let addr = nios_pkt_16x64_fastlock_profile_addr is_tx nios_profile in
      seq (nios_fastlock_profile_access h True (addr 0)
             (nios_pkt_16x64_fastlock_profile_half_pack words)) (\<lambda>_.
      seq (nios_fastlock_profile_access h True (addr 1)
             (nios_pkt_16x64_fastlock_profile_half_pack (drop 8 words))) (\<lambda>_.
      seq (nios_fastlock_profile_access h True (addr 2) 0) (\<lambda>_. ret ()))))"

definition nios_fastlock_profile_read ::
  "'s nios_handle \<Rightarrow> bool \<Rightarrow> u8 \<Rightarrow> ('s nios_dev, u8 list) io" where
  "nios_fastlock_profile_read h is_tx nios_profile =
     (let addr = nios_pkt_16x64_fastlock_profile_addr is_tx nios_profile in
      seq (nios_fastlock_profile_access h False (addr 0) 0) (\<lambda>lo.
      seq (nios_fastlock_profile_access h False (addr 1) 0) (\<lambda>hi.
        ret (nios_pkt_16x64_fastlock_profile_half_unpack lo @
             nios_pkt_16x64_fastlock_profile_half_unpack hi))))"

definition nios_fastlock_profile_state ::
  "'s nios_handle \<Rightarrow> bool \<Rightarrow> u8 \<Rightarrow> ('s nios_dev, u8 \<times> u8) io" where
  "nios_fastlock_profile_state h is_tx nios_profile =
     seq (nios_fastlock_profile_access h False
            (nios_pkt_16x64_fastlock_profile_addr is_tx nios_profile 2) 0) (\<lambda>data.
       ret (byte_of 0 data, byte_of 1 data))"

definition nios_retune2_record_access ::
  "'s nios_handle \<Rightarrow> u16 \<Rightarrow> u64 \<Rightarrow> ('s nios_dev, u64) io" where
  "nios_retune2_record_access h addr request =
     seq (nios_access h (nios_pkt_16x64_pack 7 False addr request)) (\<lambda>buf.
       case nios_pkt_16x64_resp_unpack buf of ((_, _, _, response_data), success) \<Rightarrow>
         if success then ret response_data
         else if drop_bit 56 response_data \<noteq> 0x5c then fail BLADERF_ERR_UNSUPPORTED
         else fail (if response_data AND 0xff = 2 then BLADERF_ERR_WOULD_BLOCK
                    else BLADERF_ERR_INVAL))"

definition nios_retune2_record_counts ::
  "'s nios_handle \<Rightarrow> bladerf_module \<Rightarrow> ('s nios_dev, u32 \<times> u32) io" where
  "nios_retune2_record_counts h m =
     seq (nios_retune2_record_access h
            (nios_pkt_16x64_retune2_record_addr False (m = BLADERF_MODULE_TX) 2) 0) (\<lambda>data.
       ret (ucast data, ucast (drop_bit 32 data)))"

record nios_retune2_record =
  request_token :: u16
  nios_profile :: u8
  execution_flags :: u8
  session_generation_low :: u8
  failure_stage :: u8
  executed_delta :: u32
  readback_frequency_hz :: u64
  synth :: "u8 list"
  synth_read :: bool

definition retune2_record_of :: "u64 \<Rightarrow> u64 \<Rightarrow> u64 option \<Rightarrow> nios_retune2_record" where
  "retune2_record_of identity execution synth_word =
     \<lparr>request_token = ucast identity,
      nios_profile = byte_of 2 identity,
      execution_flags = byte_of 3 identity,
      session_generation_low = byte_of 4 identity,
      failure_stage = byte_of 5 identity,
      executed_delta = ucast execution,
      readback_frequency_hz = push_bit 1 (drop_bit 32 execution),
      synth = (case synth_word of None \<Rightarrow> replicate 7 0
               | Some w \<Rightarrow> map (\<lambda>i. byte_of (i + 1) w) [0..<7]),
      synth_read = (synth_word \<noteq> None)\<rparr>"

definition nios_retune2_record_read ::
  "'s nios_handle \<Rightarrow> bladerf_module \<Rightarrow> bool \<Rightarrow> u32 \<Rightarrow> bool \<Rightarrow>
   ('s nios_dev, nios_retune2_record) io" where
  "nios_retune2_record_read h m failure sequence read_synth =
     (let tx = (m = BLADERF_MODULE_TX); known_flags = 0x3f :: u64 in
      if sequence = 0 then fail BLADERF_ERR_INVAL
      else
        seq (nios_retune2_record_access h (nios_pkt_16x64_retune2_record_addr failure tx 0)
               (ucast sequence)) (\<lambda>identity.
        seq (if \<not> failure
             then nios_retune2_record_access h (nios_pkt_16x64_retune2_record_addr False tx 1)
                    (ucast sequence)
             else ret 0) (\<lambda>execution.
        seq (if \<not> failure \<and> read_synth
             then nios_retune2_record_access h (nios_pkt_16x64_retune2_record_addr False tx 3)
                    (ucast sequence)
             else ret 0) (\<lambda>synth_word.
          if drop_bit 48 identity \<noteq> 0 \<or>
             (drop_bit 24 identity AND 0xff) AND NOT known_flags \<noteq> 0 \<or>
             synth_word AND 0xff AND NOT known_flags \<noteq> 0
          then fail BLADERF_ERR_UNEXPECTED
          else ret (retune2_record_of identity execution
                      (if \<not> failure \<and> read_synth then Some synth_word else None))))))"

section \<open>Board peripherals\<close>

definition nios_ad56x1_vctcxo_trim_dac_read :: "'s nios_handle \<Rightarrow> ('s nios_dev, u16) io" where
  "nios_ad56x1_vctcxo_trim_dac_read h = nios_8x16_read h 3 0"

definition nios_ad56x1_vctcxo_trim_dac_write :: "'s nios_handle \<Rightarrow> u16 \<Rightarrow> ('s nios_dev, unit) io" where
  "nios_ad56x1_vctcxo_trim_dac_write h v = nios_8x16_write h 3 0 v"

definition nios_adf400x_read :: "'s nios_handle \<Rightarrow> u8 \<Rightarrow> ('s nios_dev, u32) io" where
  "nios_adf400x_read h addr = nios_8x32_read h 4 addr"

definition nios_adf400x_write :: "'s nios_handle \<Rightarrow> u8 \<Rightarrow> u32 \<Rightarrow> ('s nios_dev, unit) io" where
  "nios_adf400x_write h addr data =
     nios_8x32_write h 4 0 ((data AND NOT 3) OR ucast (addr AND 3))"

definition nios_vctcxo_trim_dac_write :: "'s nios_handle \<Rightarrow> u8 \<Rightarrow> u16 \<Rightarrow> ('s nios_dev, unit) io" where
  "nios_vctcxo_trim_dac_write h addr v = nios_8x16_write h 0 addr v"

definition nios_vctcxo_trim_dac_read :: "'s nios_handle \<Rightarrow> u8 \<Rightarrow> ('s nios_dev, u16) io" where
  "nios_vctcxo_trim_dac_read h addr = nios_8x16_read h 0 addr"

definition nios_set_vctcxo_tamer_mode :: "'s nios_handle \<Rightarrow> u8 \<Rightarrow> ('s nios_dev, unit) io" where
  "nios_set_vctcxo_tamer_mode h mode = nios_8x8_write h TARGET_VCTCXO_TAMER 0xff mode"

definition nios_get_vctcxo_tamer_mode :: "'s nios_handle \<Rightarrow> ('s nios_dev, u8) io" where
  "nios_get_vctcxo_tamer_mode h =
     seq (nios_8x8_read h TARGET_VCTCXO_TAMER 0xff) (\<lambda>tmp.
       if tmp = 0 \<or> tmp = 1 \<or> tmp = 2 then ret tmp else fail BLADERF_ERR_UNEXPECTED)"

abbreviation (input) CHANNEL_RX0 :: int where "CHANNEL_RX0 \<equiv> 0"
abbreviation (input) CHANNEL_TX0 :: int where "CHANNEL_TX0 \<equiv> 1"

definition per_channel :: "int \<Rightarrow> ('s, 'a) io \<Rightarrow> ('s, 'a) io \<Rightarrow> ('s, 'a) io" where
  \<comment> \<open>the \<^verbatim>\<open>switch (ch)\<close> of the correction and trigger functions\<close>
  "per_channel ch rx tx =
     (if ch = CHANNEL_RX0 then rx else if ch = CHANNEL_TX0 then tx else fail BLADERF_ERR_INVAL)"

definition nios_get_iq_gain_correction :: "'s nios_handle \<Rightarrow> int \<Rightarrow> ('s nios_dev, u16) io" where
  \<comment> \<open>\<^verbatim>\<open>int16_t\<close> values are kept as the 16-bit words that hold them\<close>
  "nios_get_iq_gain_correction h ch =
     per_channel ch (nios_8x16_read h 1 0) (nios_8x16_read h 1 2)"

definition nios_get_iq_phase_correction :: "'s nios_handle \<Rightarrow> int \<Rightarrow> ('s nios_dev, u16) io" where
  "nios_get_iq_phase_correction h ch =
     per_channel ch (nios_8x16_read h 1 1) (nios_8x16_read h 1 3)"

definition nios_set_iq_gain_correction :: "'s nios_handle \<Rightarrow> int \<Rightarrow> u16 \<Rightarrow> ('s nios_dev, unit) io" where
  "nios_set_iq_gain_correction h ch v =
     per_channel ch (nios_8x16_write h 1 0 v) (nios_8x16_write h 1 2 v)"

definition nios_set_iq_phase_correction :: "'s nios_handle \<Rightarrow> int \<Rightarrow> u16 \<Rightarrow> ('s nios_dev, unit) io" where
  "nios_set_iq_phase_correction h ch v =
     per_channel ch (nios_8x16_write h 1 1 v) (nios_8x16_write h 1 3 v)"

definition nios_set_agc_dc_correction ::
  "'s nios_handle \<Rightarrow> u16 \<Rightarrow> u16 \<Rightarrow> u16 \<Rightarrow> u16 \<Rightarrow> u16 \<Rightarrow> u16 \<Rightarrow> ('s nios_dev, unit) io" where
  "nios_set_agc_dc_correction h q_max i_max q_mid i_mid q_low i_low =
     seq (nios_8x16_write h 2 0 q_max) (\<lambda>_.
     seq (nios_8x16_write h 2 1 i_max) (\<lambda>_.
     seq (nios_8x16_write h 2 2 q_mid) (\<lambda>_.
     seq (nios_8x16_write h 2 3 i_mid) (\<lambda>_.
     seq (nios_8x16_write h 2 4 q_low) (\<lambda>_.
       nios_8x16_write h 2 5 i_low)))))"

definition nios_xb200_synth_write :: "'s nios_handle \<Rightarrow> u32 \<Rightarrow> ('s nios_dev, unit) io" where
  "nios_xb200_synth_write h v = nios_8x32_write h TARGET_ADF4351 0 v"

definition nios_expansion_gpio_read :: "'s nios_handle \<Rightarrow> ('s nios_dev, u32) io" where
  "nios_expansion_gpio_read h = nios_32x32_masked_read h 0 0xffffffff"

definition nios_expansion_gpio_write :: "'s nios_handle \<Rightarrow> u32 \<Rightarrow> u32 \<Rightarrow> ('s nios_dev, unit) io" where
  "nios_expansion_gpio_write h bits v = nios_32x32_masked_write h 0 bits v"

definition nios_expansion_gpio_dir_read :: "'s nios_handle \<Rightarrow> ('s nios_dev, u32) io" where
  "nios_expansion_gpio_dir_read h = nios_32x32_masked_read h 1 0xffffffff"

definition nios_expansion_gpio_dir_write :: "'s nios_handle \<Rightarrow> u32 \<Rightarrow> u32 \<Rightarrow> ('s nios_dev, unit) io" where
  "nios_expansion_gpio_dir_write h bits v = nios_32x32_masked_write h 1 bits v"

abbreviation (input) trigger_supported :: "int \<Rightarrow> bool" where
  "trigger_supported trigger \<equiv> trigger = 0 \<or> trigger = 1 \<or> trigger = 2"

definition nios_read_trigger :: "'s nios_handle \<Rightarrow> int \<Rightarrow> int \<Rightarrow> ('s nios_dev, u8) io" where
  "nios_read_trigger h ch trigger =
     (let checked = (\<lambda>target. if \<not> trigger_supported trigger then fail BLADERF_ERR_INVAL
                              else nios_8x8_read h target 0)
      in per_channel ch (checked RX_TRIGGER_CTL) (checked TX_TRIGGER_CTL))"

definition nios_write_trigger :: "'s nios_handle \<Rightarrow> int \<Rightarrow> int \<Rightarrow> u8 \<Rightarrow> ('s nios_dev, unit) io" where
  "nios_write_trigger h ch trigger v =
     (let checked = (\<lambda>target. if \<not> trigger_supported trigger then fail BLADERF_ERR_INVAL
                              else nios_8x8_write h target 0 v)
      in per_channel ch (checked RX_TRIGGER_CTL) (checked TX_TRIGGER_CTL))"

end
