(* ===== verification/Nios_Link.thy ===== *)
theory Nios_Link
  imports Nios_Access_Ops
begin

unbundle bit_operations_syntax

text \<open>
  Host and firmware together. The locale \<open>nios_link\<close> states what a USB link and a peer that
  answers promise to the access functions; \<open>reg_link\<close> adds a packet format. They are
  interpreted on a link that runs the firmware's dispatch \<open>nios_main_request\<close>, which gives
  the end-to-end behaviour of the host's register accesses, and, through the arbiter
  contract \<open>lms_hw\<close>, the refinement of LMS6002D register access to the chip itself.
\<close>

section \<open>A link that answers\<close>

locale nios_link =
  fixes h :: "'s nios_handle"
    and now :: "'s \<Rightarrow> u64"
    and handler :: "u8 list \<Rightarrow> 's \<Rightarrow> u8 list \<times> 's"
    and idle :: "'s \<Rightarrow> bool"
  assumes clock: "clock_ns (usb_driver h) s = (Some (now s), s)"
    and exchange: "idle s \<Longrightarrow> length req = NIOS_PKT_LEN \<Longrightarrow> handler req s = (resp, s') \<Longrightarrow>
          length resp = NIOS_PKT_LEN \<Longrightarrow> tmo \<noteq> 0 \<Longrightarrow>
          idle s' \<and> (\<exists>s1. bulk_out (usb_driver h) req s = (None, s1) \<and>
                     bulk_in (usb_driver h) NIOS_PKT_LEN tmo s1 = ((None, resp, True), s'))"
    and fuel: "0 < loop_fuel h"
begin

abbreviation working :: "'s nios_dev \<Rightarrow> bool" where
  "working d \<equiv> ready (peripheral d) \<and> idle (usb_link d)"

lemma access_ok:
  assumes "working d" "length req = NIOS_PKT_LEN" "length resp = NIOS_PKT_LEN"
    and "handler req (usb_link d) = (resp, s')"
    and "nios_response_matches_request req resp
           (command_session_generation_valid (peripheral d))
           (command_session_generation (peripheral d))"
  shows "\<exists>d'. nios_access h req d = (Ok resp, d') \<and> working d' \<and> usb_link d' = s'"
proof -
  obtain s1 where s1: "bulk_out (usb_driver h) req (usb_link d) = (None, s1)"
      "bulk_in (usb_driver h) NIOS_PKT_LEN 250 s1 = ((None, resp, True), s')"
    and "idle s'"
    using exchange [of "usb_link d" req resp s' 250] assms by auto
  have "nios_usb_transaction (usb_driver h) (loop_fuel h) req 250 (Some id) (peripheral d)
          (usb_link d) =
        Some (None, NIOS_TRANSACTION_COMPLETE,
              accept_response True False False req resp (peripheral d), resp, s')"
    using assms s1 fuel clock
    by (intro nios_usb_transaction_delivers [OF _ _ _ _ clock _ s1(1) s1(2)]) auto
  moreover have "ready (accept_response True False False req resp (peripheral d))"
    using assms(1) by (auto simp: accept_response_ready)
  ultimately show ?thesis
    using \<open>idle s'\<close> by (simp add: nios_access_def nios_access_with_response_timeout_def)
qed

end

locale reg_link = nios_link h now handler idle +
    reg_pkt_channel magic pack unpack resp_pack resp_unpack
  for h :: "'s nios_handle" and now handler idle
    and magic and pack :: "u8 \<Rightarrow> bool \<Rightarrow> 'a \<Rightarrow> 'd::zero \<Rightarrow> u8 list"
    and unpack resp_pack resp_unpack
begin

lemma read_ok:
  assumes "working d" "handler (pack t False a 0) (usb_link d) = (resp_pack t False a v ok, s')"
  shows "\<exists>d'. reg_read pack resp_unpack (nios_access h) t a d =
                (if ok then Ok v else Err BLADERF_ERR_FPGA_OP, d') \<and>
              working d' \<and> usb_link d' = s'"
proof -
  obtain d' where "nios_access h (pack t False a 0) d = (Ok (resp_pack t False a v ok), d')"
    and "working d'" "usb_link d' = s'"
    using access_ok [OF assms(1) length_pack length_resp_pack assms(2) resp_matches] by auto
  then show ?thesis
    by (auto simp: reg_read_def seq_def resp_unpack_resp_pack ret_def fail_def)
qed

lemma write_ok:
  assumes "working d" "handler (pack t True a v) (usb_link d) = (resp_pack t True a v ok, s')"
  shows "\<exists>d'. reg_write pack resp_unpack (nios_access h) t a v d =
                (if ok then Ok () else Err BLADERF_ERR_FPGA_OP, d') \<and>
              working d' \<and> usb_link d' = s'"
proof -
  obtain d' where "nios_access h (pack t True a v) d = (Ok (resp_pack t True a v ok), d')"
    and "working d'" "usb_link d' = s'"
    using access_ok [OF assms(1) length_pack length_resp_pack assms(2) resp_matches] by auto
  then show ?thesis
    by (auto simp: reg_write_def seq_def resp_unpack_resp_pack ret_def fail_def)
qed

end

section \<open>The firmware at the other end of the USB link\<close>

text \<open>
  The reference link: a request that the host sends is handed to the firmware at once, and
  its response waits in a FIFO until the host reads it. The hardware behind the firmware is
  an SPI chip with arbitrary behaviour, and an arbiter that follows the request register.
\<close>

record 'm uart =
  fw :: "'m nios"
  in_fifo :: "u8 list"
  host_time :: u64

type_synonym 'm exec = "u8 list \<Rightarrow> 'm nios \<Rightarrow> u8 list option \<times> 'm nios"

definition uart_fns :: "'m exec \<Rightarrow> 'm uart usb_fns" where
  "uart_fns exec =
     \<lparr>bulk_out = (\<lambda>pkt s. case exec pkt (fw s) of (resp, f) \<Rightarrow>
        (None, s\<lparr>fw := f,
                 in_fifo := in_fifo s @ (case resp of None \<Rightarrow> [] | Some r \<Rightarrow> r)\<rparr>)),
      bulk_in = (\<lambda>n tmo s.
        if in_fifo s = [] then ((Some BLADERF_ERR_TIMEOUT, [], True), s)
        else ((None, take n (in_fifo s), True), s\<lparr>in_fifo := drop n (in_fifo s)\<rparr>)),
      clock_ns = (\<lambda>s. (Some (host_time s), s))\<rparr>"

definition uart_handle :: "'m exec \<Rightarrow> nat \<Rightarrow> 'm uart nios_handle" where
  "uart_handle exec n =
     \<lparr>usb_driver = uart_fns exec, loop_fuel = Suc n, cap_rfic_busy_response = False\<rparr>"

definition uart_answer :: "'m exec \<Rightarrow> u8 list \<Rightarrow> 'm uart \<Rightarrow> u8 list \<times> 'm uart" where
  "uart_answer exec req s =
     (case exec req (fw s) of
        (None, f) \<Rightarrow> ([], s\<lparr>fw := f\<rparr>)
      | (Some r, f) \<Rightarrow> (r, s\<lparr>fw := f\<rparr>))"

lemma uart_exchange:
  assumes "in_fifo s = []" "uart_answer exec req s = (resp, s')" "length resp = NIOS_PKT_LEN"
  shows "in_fifo s' = [] \<and>
         (\<exists>s1. bulk_out (uart_fns exec) req s = (None, s1) \<and>
               bulk_in (uart_fns exec) NIOS_PKT_LEN tmo s1 = ((None, resp, True), s'))"
proof -
  obtain f where f: "exec req (fw s) = (Some resp, f)" "s' = s\<lparr>fw := f\<rparr>"
    using assms by (auto simp: uart_answer_def NIOS_PKT_LEN_def split: prod.splits option.splits)
  let ?s1 = "s\<lparr>fw := f, in_fifo := resp\<rparr>"
  have "resp \<noteq> []" using assms(3) by (auto simp: NIOS_PKT_LEN_def)
  then have "bulk_in (uart_fns exec) NIOS_PKT_LEN tmo ?s1 = ((None, resp, True), s')"
    using assms(1,3) f(2) by (cases s) (simp add: uart_fns_def)
  moreover have "bulk_out (uart_fns exec) req s = (None, ?s1)"
    using f(1) assms(1) by (simp add: uart_fns_def)
  ultimately show ?thesis using f(2) assms(1) by auto
qed

interpretation uart: nios_link "uart_handle exec n" host_time "uart_answer exec"
    "\<lambda>s. in_fifo s = []" for exec n
  by unfold_locales
     (simp_all add: uart_handle_def uart_exchange, simp add: uart_fns_def)

interpretation u8x8: reg_link "uart_handle exec n" host_time "uart_answer exec"
    "\<lambda>s. in_fifo s = []" nios_pkt_8x8_MAGIC nios_pkt_8x8_pack nios_pkt_8x8_unpack
    nios_pkt_8x8_resp_pack nios_pkt_8x8_resp_unpack for exec n
  by unfold_locales

interpretation u8x32: reg_link "uart_handle exec n" host_time "uart_answer exec"
    "\<lambda>s. in_fifo s = []" nios_pkt_8x32_MAGIC nios_pkt_8x32_pack nios_pkt_8x32_unpack
    nios_pkt_8x32_resp_pack nios_pkt_8x32_resp_unpack for exec n
  by unfold_locales

interpretation u32x32: reg_link "uart_handle exec n" host_time "uart_answer exec"
    "\<lambda>s. in_fifo s = []" nios_pkt_32x32_MAGIC nios_pkt_32x32_pack nios_pkt_32x32_unpack
    nios_pkt_32x32_resp_pack nios_pkt_32x32_resp_unpack for exec n
  by unfold_locales

section \<open>Register access, end to end\<close>

definition fw_handle :: "'m bus_fns \<Rightarrow> 'm handler \<Rightarrow> 'm handler \<Rightarrow> nat \<Rightarrow> 'm uart nios_handle" where
  "fw_handle b pkt_retune pkt_legacy n =
     uart_handle (nios_main_request b pkt_retune pkt_legacy) n"

definition world_ok :: "'m uart nios_dev \<Rightarrow> bool" where
  "world_ok d \<longleftrightarrow> ready (peripheral d) \<and> in_fifo (usb_link d) = []"

text \<open>A host register access has the effect and the result of the firmware's
  \<open>perform_read\<close> or \<open>perform_write\<close> on the target, whatever the hardware.\<close>

lemma world_8x8_read:
  assumes "world_ok d" "pkt_8x8_perform_read b t a 0 (fw (usb_link d)) = ((ok, v), f)"
  shows "\<exists>d'. nios_8x8_read (fw_handle b rt lg n) t a d =
                (if ok then Ok v else Err BLADERF_ERR_FPGA_OP, d') \<and>
              world_ok d' \<and> usb_link d' = (usb_link d)\<lparr>fw := f\<rparr>"
proof -
  have "pkt_8x8 b (nios_pkt_8x8_pack t False a 0) (fw (usb_link d)) =
          (nios_pkt_8x8_resp_pack t False a v ok, f)"
    unfolding pkt_8x8_def by (rule c8x8.exec_read) (rule assms(2))
  then have "uart_answer (nios_main_request b rt lg) (nios_pkt_8x8_pack t False a 0)
               (usb_link d) =
             (nios_pkt_8x8_resp_pack t False a v ok, (usb_link d)\<lparr>fw := f\<rparr>)"
    by (simp add: uart_answer_def nios_main_request_exec(1) [OF p8x8.magic_pack])
  from u8x8.read_ok [where n = n, OF _ this] show ?thesis
    using assms(1) by (auto simp: world_ok_def fw_handle_def nios_8x8_read_def)
qed

lemma world_8x8_write:
  assumes "world_ok d" "pkt_8x8_perform_write b t a v (fw (usb_link d)) = (ok, f)"
  shows "\<exists>d'. nios_8x8_write (fw_handle b rt lg n) t a v d =
                (if ok then Ok () else Err BLADERF_ERR_FPGA_OP, d') \<and>
              world_ok d' \<and> usb_link d' = (usb_link d)\<lparr>fw := f\<rparr>"
proof -
  have "pkt_8x8 b (nios_pkt_8x8_pack t True a v) (fw (usb_link d)) =
          (nios_pkt_8x8_resp_pack t True a v ok, f)"
    unfolding pkt_8x8_def by (rule c8x8.exec_write) (rule assms(2))
  then have "uart_answer (nios_main_request b rt lg) (nios_pkt_8x8_pack t True a v)
               (usb_link d) =
             (nios_pkt_8x8_resp_pack t True a v ok, (usb_link d)\<lparr>fw := f\<rparr>)"
    by (simp add: uart_answer_def nios_main_request_exec(1) [OF p8x8.magic_pack])
  from u8x8.write_ok [where n = n, OF _ this] show ?thesis
    using assms(1) by (auto simp: world_ok_def fw_handle_def nios_8x8_write_def)
qed

lemma world_8x32_read:
  assumes "world_ok d" "pkt_8x32_perform_read b t a 0 (fw (usb_link d)) = ((ok, v), f)"
  shows "\<exists>d'. nios_8x32_read (fw_handle b rt lg n) t a d =
                (if ok then Ok v else Err BLADERF_ERR_FPGA_OP, d') \<and>
              world_ok d' \<and> usb_link d' = (usb_link d)\<lparr>fw := f\<rparr>"
proof -
  have "pkt_8x32 b (nios_pkt_8x32_pack t False a 0) (fw (usb_link d)) =
          (nios_pkt_8x32_resp_pack t False a v ok, f)"
    unfolding pkt_8x32_def by (rule c8x32.exec_read) (rule assms(2))
  then have "uart_answer (nios_main_request b rt lg) (nios_pkt_8x32_pack t False a 0)
               (usb_link d) =
             (nios_pkt_8x32_resp_pack t False a v ok, (usb_link d)\<lparr>fw := f\<rparr>)"
    by (simp add: uart_answer_def nios_main_request_exec(3) [OF p8x32.magic_pack])
  from u8x32.read_ok [where n = n, OF _ this] show ?thesis
    using assms(1) by (auto simp: world_ok_def fw_handle_def nios_8x32_read_def)
qed

lemma world_8x32_write:
  assumes "world_ok d" "pkt_8x32_perform_write b t a v (fw (usb_link d)) = (ok, f)"
  shows "\<exists>d'. nios_8x32_write (fw_handle b rt lg n) t a v d =
                (if ok then Ok () else Err BLADERF_ERR_FPGA_OP, d') \<and>
              world_ok d' \<and> usb_link d' = (usb_link d)\<lparr>fw := f\<rparr>"
proof -
  have "pkt_8x32 b (nios_pkt_8x32_pack t True a v) (fw (usb_link d)) =
          (nios_pkt_8x32_resp_pack t True a v ok, f)"
    unfolding pkt_8x32_def by (rule c8x32.exec_write) (rule assms(2))
  then have "uart_answer (nios_main_request b rt lg) (nios_pkt_8x32_pack t True a v)
               (usb_link d) =
             (nios_pkt_8x32_resp_pack t True a v ok, (usb_link d)\<lparr>fw := f\<rparr>)"
    by (simp add: uart_answer_def nios_main_request_exec(3) [OF p8x32.magic_pack])
  from u8x32.write_ok [where n = n, OF _ this] show ?thesis
    using assms(1) by (auto simp: world_ok_def fw_handle_def nios_8x32_write_def)
qed

lemma world_32x32_read:
  assumes "world_ok d" "pkt_32x32_perform_read b t a 0 (fw (usb_link d)) = ((ok, v), f)"
  shows "\<exists>d'. nios_32x32_read (fw_handle b rt lg n) t a d =
                (if ok then Ok v else Err BLADERF_ERR_FPGA_OP, d') \<and>
              world_ok d' \<and> usb_link d' = (usb_link d)\<lparr>fw := f\<rparr>"
proof -
  have "pkt_32x32 b (nios_pkt_32x32_pack t False a 0) (fw (usb_link d)) =
          (nios_pkt_32x32_resp_pack t False a v ok, f)"
    unfolding pkt_32x32_def by (rule c32x32.exec_read) (rule assms(2))
  then have "uart_answer (nios_main_request b rt lg) (nios_pkt_32x32_pack t False a 0)
               (usb_link d) =
             (nios_pkt_32x32_resp_pack t False a v ok, (usb_link d)\<lparr>fw := f\<rparr>)"
    by (simp add: uart_answer_def nios_main_request_exec(5) [OF p32x32.magic_pack])
  from u32x32.read_ok [where n = n, OF _ this] show ?thesis
    using assms(1) by (auto simp: world_ok_def fw_handle_def nios_32x32_read_def)
qed

lemma world_32x32_write:
  assumes "world_ok d" "pkt_32x32_perform_write b t a v (fw (usb_link d)) = (ok, f)"
  shows "\<exists>d'. nios_32x32_write (fw_handle b rt lg n) t a v d =
                (if ok then Ok () else Err BLADERF_ERR_FPGA_OP, d') \<and>
              world_ok d' \<and> usb_link d' = (usb_link d)\<lparr>fw := f\<rparr>"
proof -
  have "pkt_32x32 b (nios_pkt_32x32_pack t True a v) (fw (usb_link d)) =
          (nios_pkt_32x32_resp_pack t True a v ok, f)"
    unfolding pkt_32x32_def by (rule c32x32.exec_write) (rule assms(2))
  then have "uart_answer (nios_main_request b rt lg) (nios_pkt_32x32_pack t True a v)
               (usb_link d) =
             (nios_pkt_32x32_resp_pack t True a v ok, (usb_link d)\<lparr>fw := f\<rparr>)"
    by (simp add: uart_answer_def nios_main_request_exec(5) [OF p32x32.magic_pack])
  from u32x32.write_ok [where n = n, OF _ this] show ?thesis
    using assms(1) by (auto simp: world_ok_def fw_handle_def nios_32x32_write_def)
qed

section \<open>The LMS6002D at the end of the chain\<close>

definition chip_bus :: "(u8 \<Rightarrow> 'c \<Rightarrow> u8 \<times> 'c) \<Rightarrow> (u8 \<Rightarrow> u8 \<Rightarrow> 'c \<Rightarrow> 'c) \<Rightarrow> ('c \<times> bool) bus_fns" where
  "chip_bus rd wr =
     \<lparr>iord8 = (\<lambda>base off (c, g).
        if base = RFFE_SPI_BASE then (case rd off c of (v, c') \<Rightarrow> (v, (c', g)))
        else if base = ARBITER_0_BASE \<and> off = 1 then (if g then 1 else 0, (c, g))
        else (0, (c, g))),
      iowr8 = (\<lambda>base off v (c, g). if base = RFFE_SPI_BASE then (wr off v c, g) else (c, g)),
      iord_pio = (\<lambda>base m. (0, m)),
      iowr_pio = (\<lambda>base v m. m),
      iowr32 = (\<lambda>base off v (c, g).
        if base = ARBITER_0_BASE \<and> off = 0 then (c, v = 1) else (c, g)),
      spi_rd = (\<lambda>r m. (0, m)),
      spi_wr = (\<lambda>r v m. m),
      ROE_MSK = 0x08, TOE_MSK = 0x10, TMT_MSK = 0x20, TRDY_MSK = 0x40, RRDY_MSK = 0x80,
      SSO_MSK = 0x400\<rparr>"

interpretation chip_hw: lms_hw "chip_bus rd wr" fst snd rd wr for rd wr
  by unfold_locales (auto simp: chip_bus_def split: prod.splits)

type_synonym 'c lms_world = "('c \<times> bool) uart nios_dev"

definition lms_chip :: "'c lms_world \<Rightarrow> 'c" where
  "lms_chip d = fst (hw (fw (usb_link d)))"

lemma lms6_read_refines:
  assumes "world_ok d" "rd addr (lms_chip d) = (v, c)"
  shows "\<exists>d'. nios_lms6_read (fw_handle (chip_bus rd wr) rt lg n) addr d = (Ok v, d') \<and>
              world_ok d' \<and> lms_chip d' = c"
proof -
  obtain f where "lms6_read (chip_bus rd wr) addr 0 (fw (usb_link d)) = ((True, v), f)"
      and "fst (hw f) = c"
    using chip_hw.lms6_read_ok assms(2) unfolding lms_chip_def by metis
  then show ?thesis
    using world_8x8_read [OF assms(1), of "chip_bus rd wr" 0 addr True v f rt lg n]
    by (auto simp: pkt_8x8_perform_read_def lms_chip_def nios_lms6_read_def)
qed

lemma lms6_write_refines:
  assumes "world_ok d"
  shows "\<exists>d'. nios_lms6_write (fw_handle (chip_bus rd wr) rt lg n) addr v d = (Ok (), d') \<and>
              world_ok d' \<and> lms_chip d' = wr addr v (lms_chip d)"
proof -
  obtain f where "lms6_write (chip_bus rd wr) addr v (fw (usb_link d)) = (True, f)"
      and "fst (hw f) = wr addr v (lms_chip d)"
    using chip_hw.lms6_write_ok unfolding lms_chip_def by metis
  then show ?thesis
    using world_8x8_write [OF assms, of "chip_bus rd wr" 0 addr v True f rt lg n]
    by (auto simp: pkt_8x8_perform_write_def lms_chip_def nios_lms6_write_def)
qed

section \<open>The expansion port\<close>

locale xb_gpio_hw =
  fixes b :: "'m bus_fns" and pins :: "'m \<Rightarrow> u32" and dir :: "'m \<Rightarrow> u32"
  assumes rd_pins: "iord_pio b XB_GPIO_BASE m = (pins m, m)"
    and rd_dir: "iord_pio b XB_GPIO_DIR_BASE m = (dir m, m)"
    and wr_pins: "pins (iowr_pio b XB_GPIO_BASE v m) AND dir m = v AND dir m"
    and wr_keeps_dir: "dir (iowr_pio b XB_GPIO_BASE v m) = dir m"
begin

lemma expansion_port_write_ok:
  "\<exists>f. expansion_port_write b v s = (True, f) \<and> dir (hw f) = dir (hw s) \<and>
       pins (hw f) AND dir (hw s) = v AND dir (hw s)"
  by (simp add: expansion_port_write_def expansion_port_get_direction_def rd_pio_def rd_dir
                pio_write_checked_def wr_pio_def rd_pins wr_pins wr_keeps_dir)

lemma perform_write_ok:
  "\<exists>f. pkt_32x32_perform_write b 0 m v s = (True, f) \<and> dir (hw f) = dir (hw s) \<and>
       pins (hw f) AND dir (hw s) = masked_update (pins (hw s)) m v AND dir (hw s)"
proof (cases "m = 0xffffffff")
  case True
  then have "m = - 1" by simp
  then have "masked_update (pins (hw s)) m v = v"
    by (simp only: masked_update_def) simp
  with True expansion_port_write_ok [of v s] show ?thesis
    by (simp add: pkt_32x32_perform_write_def)
next
  case False
  with expansion_port_write_ok [of "masked_update (pins (hw s)) m v" s] show ?thesis
    by (simp add: pkt_32x32_perform_write_def expansion_port_read_def rd_pio_def rd_pins)
qed

end

record xb_pins =
  xb_out :: u32
  xb_dir :: u32
  xb_ext :: u32

definition xb_bus :: "xb_pins bus_fns" where
  \<comment> \<open>output bits drive the pins, the other pins follow the outside world\<close>
  "xb_bus =
     \<lparr>iord8 = (\<lambda>base off m. (0, m)),
      iowr8 = (\<lambda>base off v m. m),
      iord_pio = (\<lambda>base m.
        if base = XB_GPIO_BASE
        then ((xb_out m AND xb_dir m) OR (xb_ext m AND NOT (xb_dir m)), m)
        else if base = XB_GPIO_DIR_BASE then (xb_dir m, m) else (0, m)),
      iowr_pio = (\<lambda>base v m.
        if base = XB_GPIO_BASE then m\<lparr>xb_out := v\<rparr>
        else if base = XB_GPIO_DIR_BASE then m\<lparr>xb_dir := v\<rparr> else m),
      iowr32 = (\<lambda>base off v m. m),
      spi_rd = (\<lambda>r m. (0, m)),
      spi_wr = (\<lambda>r v m. m),
      ROE_MSK = 0x08, TOE_MSK = 0x10, TMT_MSK = 0x20, TRDY_MSK = 0x40, RRDY_MSK = 0x80,
      SSO_MSK = 0x400\<rparr>"

definition xb_pin_levels :: "xb_pins \<Rightarrow> u32" where
  "xb_pin_levels m = (xb_out m AND xb_dir m) OR (xb_ext m AND NOT (xb_dir m))"

interpretation xb: xb_gpio_hw xb_bus xb_pin_levels xb_dir
proof
  fix v :: u32 and m :: xb_pins
  show "xb_pin_levels (iowr_pio xb_bus XB_GPIO_BASE v m) AND xb_dir m = v AND xb_dir m"
    by (rule bit_word_eqI) (auto simp: xb_bus_def xb_pin_levels_def bit_simps)
qed (simp_all add: xb_bus_def xb_pin_levels_def)

section \<open>Concrete worlds\<close>

definition fresh_world :: "'m \<Rightarrow> 'm uart nios_dev" where
  \<comment> \<open>a newly opened device in front of firmware that has just started\<close>
  "fresh_world m =
     \<lparr>peripheral = fresh_peripheral,
      usb_link = \<lparr>fw = \<lparr>hw = m, vctcxo_tamer_ctrl_reg = 0, vctcxo_trim_dac_value = 0x7FFF,
                       i2c_transfer_failure = 0, i2c_transfer_status = 0,
                       i2c_diag_failure = 0, i2c_diag_failures = 0, boot_nonce = 0\<rparr>,
                  in_fifo = [], host_time = 0\<rparr>\<rparr>"

lemma fresh_world_ok [simp]: "world_ok (fresh_world m)"
  by (simp add: world_ok_def fresh_world_def)

lemma fresh_world_chip [simp]: "lms_chip (fresh_world (c, g)) = c"
  by (simp add: fresh_world_def lms_chip_def)

lemma fresh_world_fw [simp]:
  "hw (fw (usb_link (fresh_world m))) = m" "boot_nonce (fw (usb_link (fresh_world m))) = 0"
  by (simp_all add: fresh_world_def)

definition regs_read :: "u8 \<Rightarrow> (u8 \<Rightarrow> u8) \<Rightarrow> u8 \<times> (u8 \<Rightarrow> u8)" where
  "regs_read a r = (r a, r)"

definition regs_write :: "u8 \<Rightarrow> u8 \<Rightarrow> (u8 \<Rightarrow> u8) \<Rightarrow> u8 \<Rightarrow> u8" where
  "regs_write a v r = r(a := v)"

section \<open>End-to-end properties\<close>

text \<open>C1. Register reads reach the chip: for any behaviour of the SPI chip and whatever the
  other packet handlers do, \<open>nios_lms6_read\<close> on the host, through the packet, the USB
  transaction, the firmware dispatch and the arbitrated SPI access, returns what the chip
  answers, leaves the chip in the state that read puts it in and the channel ready.\<close>

theorem lms_read_end_to_end:
  assumes "world_ok d" "rd addr (lms_chip d) = (v, c)"
  shows "\<exists>d'. nios_lms6_read (fw_handle (chip_bus rd wr) rt lg n) addr d = (Ok v, d') \<and>
              world_ok d' \<and> lms_chip d' = c"
  using assms by (rule lms6_read_refines)

lemma lms_read_end_to_end_witness:
  "\<exists>d'. nios_lms6_read (fw_handle (chip_bus regs_read regs_write) (\<lambda>p s. (p, s))
            (\<lambda>p s. (p, s)) 40) 0x04 (fresh_world (\<lambda>a. a + 1, False)) = (Ok 5, d') \<and>
        world_ok d' \<and> lms_chip d' = (\<lambda>a. a + 1)"
  by (rule lms_read_end_to_end) (simp_all add: regs_read_def)

text \<open>C7. Register writes reach the chip: \<open>nios_lms6_write\<close> on the host performs exactly the
  chip's write, once, and leaves the channel ready.\<close>

theorem lms_write_end_to_end:
  assumes "world_ok d"
  shows "\<exists>d'. nios_lms6_write (fw_handle (chip_bus rd wr) rt lg n) addr v d = (Ok (), d') \<and>
              world_ok d' \<and> lms_chip d' = wr addr v (lms_chip d)"
  using assms by (rule lms6_write_refines)

lemma lms_write_end_to_end_witness:
  "\<exists>d'. nios_lms6_write (fw_handle (chip_bus regs_read regs_write) (\<lambda>p s. (p, s))
            (\<lambda>p s. (p, s)) 40) 0x04 9 (fresh_world (\<lambda>a. 0, False)) = (Ok (), d') \<and>
        world_ok d' \<and> lms_chip d' = (\<lambda>a. 0)(0x04 := 9)"
  using lms_write_end_to_end [OF fresh_world_ok, of regs_read regs_write "\<lambda>p s. (p, s)"
    "\<lambda>p s. (p, s)" 40 "0x04" 9 "(\<lambda>a. 0, False)"]
  by (simp add: regs_write_def)

text \<open>C9. A masked expansion GPIO write from the host changes, on the pins configured as
  outputs, the bits of the mask to the given value and no other bit, and is reported as
  successful.\<close>

theorem expansion_gpio_masked_write:
  assumes "world_ok d"
  shows "\<exists>d'. nios_expansion_gpio_write (fw_handle xb_bus rt lg n) bits v d = (Ok (), d') \<and>
              world_ok d' \<and>
              (let before = hw (fw (usb_link d)); after = hw (fw (usb_link d')) in
               xb_dir after = xb_dir before \<and>
               xb_pin_levels after AND xb_dir before =
                 ((xb_pin_levels before AND NOT bits) OR (v AND bits)) AND xb_dir before)"
proof -
  obtain f where "pkt_32x32_perform_write xb_bus 0 bits v (fw (usb_link d)) = (True, f)"
    and "xb_dir (hw f) = xb_dir (hw (fw (usb_link d)))"
      "xb_pin_levels (hw f) AND xb_dir (hw (fw (usb_link d))) =
       masked_update (xb_pin_levels (hw (fw (usb_link d)))) bits v AND
       xb_dir (hw (fw (usb_link d)))"
    using xb.perform_write_ok by blast
  then show ?thesis
    using world_32x32_write [OF assms, of xb_bus 0 bits v True f rt lg n]
    by (auto simp: nios_expansion_gpio_write_def nios_32x32_masked_write_def
                   nios_32x32_write_def masked_update_def)
qed

lemma expansion_gpio_masked_write_witness:
  "\<exists>d'. nios_expansion_gpio_write (fw_handle xb_bus (\<lambda>p s. (p, s)) (\<lambda>p s. (p, s)) 40)
          0x0f 0x05 (fresh_world \<lparr>xb_out = 0xff, xb_dir = 0xff, xb_ext = 0\<rparr>) = (Ok (), d') \<and>
        xb_pin_levels (hw (fw (usb_link d'))) AND 0xff = 0xf5"
  using expansion_gpio_masked_write [OF fresh_world_ok, of "\<lambda>p s. (p, s)" "\<lambda>p s. (p, s)" 40
    "0x0f" "0x05" "\<lparr>xb_out = 0xff, xb_dir = 0xff, xb_ext = 0\<rparr>"]
  by (auto simp: xb_pin_levels_def Let_def)

text \<open>C10. The boot nonce is write-once: after a host's write of a nonce was accepted, a write
  of any other value is refused, and the stored nonce still reads back.\<close>

theorem boot_nonce_write_once:
  assumes "world_ok d" and "nios_boot_nonce_write (fw_handle b rt lg n) nonce d = (Ok (), d1)"
    and "other \<noteq> nonce"
  shows "\<exists>d2 d3. nios_boot_nonce_write (fw_handle b rt lg n) other d1 =
                   (Err BLADERF_ERR_FPGA_OP, d2) \<and>
                 nios_boot_nonce_read (fw_handle b rt lg n) d2 = (Ok nonce, d3)"
proof -
  obtain ok f where w: "pkt_8x32_perform_write b 0x94 0 nonce (fw (usb_link d)) = (ok, f)"
    by fastforce
  with world_8x32_write [OF assms(1) w, of rt lg n] assms(2)
  have d1: "ok" "world_ok d1" "fw (usb_link d1) = f"
    by (auto simp: nios_boot_nonce_write_def split: if_splits)
  have f: "boot_nonce f = nonce" "nonce \<noteq> 0"
    using w d1(1)
    by (auto simp: pkt_8x32_perform_write_def nios_pkt_8x32_boot_nonce_store_def Let_def
             split: if_splits)
  have w2: "pkt_8x32_perform_write b 0x94 0 other f = (False, f)"
    using f assms(3)
    by (simp add: pkt_8x32_perform_write_def nios_pkt_8x32_boot_nonce_store_def Let_def)
  from world_8x32_write [OF d1(2), of b "0x94" 0 other False f rt lg n]
  obtain d2 where d2: "nios_boot_nonce_write (fw_handle b rt lg n) other d1 =
      (Err BLADERF_ERR_FPGA_OP, d2)" "world_ok d2" "fw (usb_link d2) = f"
    using w2 d1(3) by (auto simp: nios_boot_nonce_write_def)
  have "pkt_8x32_perform_read b 0x94 0 0 f = ((True, nonce), f)"
    using f(1) by (simp add: pkt_8x32_perform_read_def)
  with world_8x32_read [OF d2(2), of b "0x94" 0 True nonce f rt lg n] d2
  show ?thesis by (auto simp: nios_boot_nonce_read_def)
qed

lemma boot_nonce_write_once_witness:
  "\<exists>d1 d2 d3.
     nios_boot_nonce_write (fw_handle xb_bus (\<lambda>p s. (p, s)) (\<lambda>p s. (p, s)) 40) 7
       (fresh_world \<lparr>xb_out = 0, xb_dir = 0, xb_ext = 0\<rparr>) = (Ok (), d1) \<and>
     nios_boot_nonce_write (fw_handle xb_bus (\<lambda>p s. (p, s)) (\<lambda>p s. (p, s)) 40) 8 d1 =
       (Err BLADERF_ERR_FPGA_OP, d2) \<and>
     nios_boot_nonce_read (fw_handle xb_bus (\<lambda>p s. (p, s)) (\<lambda>p s. (p, s)) 40) d2 = (Ok 7, d3)"
proof -
  let ?w = "fresh_world \<lparr>xb_out = 0, xb_dir = 0, xb_ext = 0\<rparr>"
    and ?h = "fw_handle xb_bus (\<lambda>p s. (p, s)) (\<lambda>p s. (p, s)) 40"
  have "pkt_8x32_perform_write xb_bus 0x94 0 7 (fw (usb_link ?w)) =
          (True, (fw (usb_link ?w))\<lparr>boot_nonce := 7\<rparr>)"
    by (simp add: pkt_8x32_perform_write_def nios_pkt_8x32_boot_nonce_store_def)
  then obtain d1 where d1: "nios_boot_nonce_write ?h 7 ?w = (Ok (), d1)"
    using world_8x32_write [OF fresh_world_ok] by (fastforce simp: nios_boot_nonce_write_def)
  have "(8 :: u32) \<noteq> 7" by simp
  from boot_nonce_write_once [OF fresh_world_ok d1 this] d1 show ?thesis by blast
qed

text \<open>C11. The version word does not survive the host's decoding: the firmware of FPGA 0.17.0
  puts the major number in the low byte, \<open>nios_get_fpga_version\<close> expects it in the high
  byte, and reports version 0.0.4352.\<close>

theorem fpga_version_misread:
  assumes "world_ok d"
  shows "\<exists>d'. nios_get_fpga_version (fw_handle b rt lg n) d =
                (Ok \<lparr>ver_major = 0, ver_minor = 0, ver_patch = 4352\<rparr>, d')"
proof -
  have "pkt_8x32_perform_read b 0 0 0 (fw (usb_link d)) = ((True, 0x1100), fw (usb_link d))"
    by (simp add: pkt_8x32_perform_read_def FPGA_VERSION_def)
  from world_8x32_read [OF assms this, of rt lg n] show ?thesis
    by (auto simp: nios_get_fpga_version_def seq_def ret_def)
qed

lemma fpga_version_misread_witness:
  "\<exists>d'. nios_get_fpga_version (fw_handle xb_bus (\<lambda>p s. (p, s)) (\<lambda>p s. (p, s)) 40)
          (fresh_world \<lparr>xb_out = 0, xb_dir = 0, xb_ext = 0\<rparr>) =
        (Ok \<lparr>ver_major = 0, ver_minor = 0, ver_patch = 4352\<rparr>, d')"
  by (rule fpga_version_misread) simp

end
