(* ===== verification/Lms_Base.thy ===== *)
theory Lms_Base
  imports Nios_Link
begin

unbundle bit_operations_syntax

text \<open>
  Ground of the LMS6002D driver model: the register access of
  \<^verbatim>\<open>LMS_READ\<close>/\<^verbatim>\<open>LMS_WRITE\<close> as a backend record, the enumerations of
  \<^verbatim>\<open>lms.h\<close> and \<^verbatim>\<open>libbladeRF.h\<close>, the register-file device on which the
  driver's functional behaviour is computed, and the contract \<open>lms_transport\<close> under which
  every driver operation over one backend implements the same operation over another. It is
  interpreted on the full stack, host packets, USB transaction and firmware, in front of the
  chip. Enumerations with a \<open>default\<close> branch in the code carry an extra constructor for a
  value outside the enumerators.
\<close>

section \<open>The backend\<close>

record 's lms_backend =
  lms_read :: "u8 \<Rightarrow> ('s, u8) io"
  lms_write :: "u8 \<Rightarrow> u8 \<Rightarrow> ('s, unit) io"

definition lms_set :: "'s lms_backend \<Rightarrow> u8 \<Rightarrow> u8 \<Rightarrow> ('s, unit) io" where
  "lms_set dev addr m =
     seq (lms_read dev addr) (\<lambda>regval. lms_write dev addr (regval OR m))"

definition lms_clear :: "'s lms_backend \<Rightarrow> u8 \<Rightarrow> u8 \<Rightarrow> ('s, unit) io" where
  "lms_clear dev addr m =
     seq (lms_read dev addr) (\<lambda>regval. lms_write dev addr (regval AND NOT m))"

definition status_io :: "'a outcome \<Rightarrow> ('s, 'a) io" where
  \<comment> \<open>resume with a status that was held back\<close>
  "status_io r = (\<lambda>s. (r, s))"

lemma status_io_simps [simp]:
  "status_io (Ok x) = ret x" "status_io (Err e) = fail e" "status_io Undef = undef_io"
  by (simp_all add: status_io_def ret_def fail_def undef_io_def)

section \<open>Enumerations\<close>

datatype bladerf_lna_gain =
  BLADERF_LNA_GAIN_UNKNOWN | BLADERF_LNA_GAIN_BYPASS | BLADERF_LNA_GAIN_MID | BLADERF_LNA_GAIN_MAX

fun lna_gain_code :: "bladerf_lna_gain \<Rightarrow> u8" where
  "lna_gain_code BLADERF_LNA_GAIN_UNKNOWN = 0"
| "lna_gain_code BLADERF_LNA_GAIN_BYPASS = 1"
| "lna_gain_code BLADERF_LNA_GAIN_MID = 2"
| "lna_gain_code BLADERF_LNA_GAIN_MAX = 3"

datatype bladerf_lpf_mode =
  BLADERF_LPF_NORMAL | BLADERF_LPF_BYPASSED | BLADERF_LPF_DISABLED | lpf_mode_invalid

datatype bladerf_loopback =
    BLADERF_LB_NONE | BLADERF_LB_FIRMWARE | BLADERF_LB_BB_TXLPF_RXVGA2
  | BLADERF_LB_BB_TXVGA1_RXVGA2 | BLADERF_LB_BB_TXLPF_RXLPF | BLADERF_LB_BB_TXVGA1_RXLPF
  | BLADERF_LB_RF_LNA1 | BLADERF_LB_RF_LNA2 | BLADERF_LB_RF_LNA3
  | BLADERF_LB_RFIC_BIST | loopback_invalid

datatype lms_lna = LNA_NONE | LNA_1 | LNA_2 | LNA_3

fun lna_code :: "lms_lna \<Rightarrow> u8" where
  "lna_code LNA_NONE = 0"
| "lna_code LNA_1 = 1"
| "lna_code LNA_2 = 2"
| "lna_code LNA_3 = 3"

datatype lms_pa = PA_AUX | PA_1 | PA_2 | PA_NONE | pa_invalid

datatype bladerf_sampling =
  BLADERF_SAMPLING_UNKNOWN | BLADERF_SAMPLING_INTERNAL | BLADERF_SAMPLING_EXTERNAL

datatype lms_bw =
    BW_28MHz | BW_20MHz | BW_14MHz | BW_12MHz | BW_10MHz | BW_8p75MHz | BW_7MHz | BW_6MHz
  | BW_5p5MHz | BW_5MHz | BW_3p84MHz | BW_3MHz | BW_2p75MHz | BW_2p5MHz | BW_1p75MHz | BW_1p5MHz

definition lms_bw_enum :: "lms_bw list" where
  "lms_bw_enum =
     [BW_28MHz, BW_20MHz, BW_14MHz, BW_12MHz, BW_10MHz, BW_8p75MHz, BW_7MHz, BW_6MHz,
      BW_5p5MHz, BW_5MHz, BW_3p84MHz, BW_3MHz, BW_2p75MHz, BW_2p5MHz, BW_1p75MHz, BW_1p5MHz]"

fun lms_bw_code :: "lms_bw \<Rightarrow> u8" where
  "lms_bw_code BW_28MHz = 0" | "lms_bw_code BW_20MHz = 1"
| "lms_bw_code BW_14MHz = 2" | "lms_bw_code BW_12MHz = 3"
| "lms_bw_code BW_10MHz = 4" | "lms_bw_code BW_8p75MHz = 5"
| "lms_bw_code BW_7MHz = 6" | "lms_bw_code BW_6MHz = 7"
| "lms_bw_code BW_5p5MHz = 8" | "lms_bw_code BW_5MHz = 9"
| "lms_bw_code BW_3p84MHz = 10" | "lms_bw_code BW_3MHz = 11"
| "lms_bw_code BW_2p75MHz = 12" | "lms_bw_code BW_2p5MHz = 13"
| "lms_bw_code BW_1p75MHz = 14" | "lms_bw_code BW_1p5MHz = 15"

lemma lms_bw_enum_code: "lms_bw_enum ! unat (lms_bw_code bw) = bw"
  by (cases bw) (simp_all add: lms_bw_enum_def)

section \<open>Devices without a transport\<close>

definition chip_dev :: "(u8 \<Rightarrow> 'c \<Rightarrow> u8 \<times> 'c) \<Rightarrow> (u8 \<Rightarrow> u8 \<Rightarrow> 'c \<Rightarrow> 'c) \<Rightarrow> 'c lms_backend" where
  \<comment> \<open>direct access to a chip that answers every access\<close>
  "chip_dev rd wr =
     \<lparr>lms_read = (\<lambda>a c. case rd a c of (v, c') \<Rightarrow> (Ok v, c')),
      lms_write = (\<lambda>a v c. (Ok (), wr a v c))\<rparr>"

type_synonym regs = "u8 \<Rightarrow> u8"

definition regs_dev :: "regs lms_backend" where
  "regs_dev = chip_dev regs_read regs_write"

lemma regs_dev_read [iosimps]: "lms_read regs_dev a r = (Ok (r a), r)"
  by (simp add: regs_dev_def chip_dev_def regs_read_def)

lemma regs_dev_write [iosimps]: "lms_write regs_dev a v r = (Ok (), r(a := v))"
  by (simp add: regs_dev_def chip_dev_def regs_write_def)

lemma seq_regs_read [iosimps]: "seq (lms_read regs_dev a) k r = k (r a) r"
  by (simp add: seq_def regs_dev_read)

lemma seq_regs_write [iosimps]: "seq (lms_write regs_dev a v) k r = k () (r(a := v))"
  by (simp add: seq_def regs_dev_write)

lemma lms_set_regs [iosimps]: "lms_set regs_dev a m r = (Ok (), r(a := r a OR m))"
  by (simp add: lms_set_def iosimps)

lemma lms_clear_regs [iosimps]: "lms_clear regs_dev a m r = (Ok (), r(a := r a AND NOT m))"
  by (simp add: lms_clear_def iosimps)

section \<open>Implementing one device by another\<close>

definition implements ::
    "('s \<Rightarrow> bool) \<Rightarrow> ('s \<Rightarrow> 'c) \<Rightarrow> ('s, 'a) io \<Rightarrow> ('c, 'a) io \<Rightarrow> bool" where
  \<comment> \<open>from a good state, \<open>m\<close> has the outcome of \<open>n\<close> on the state it represents\<close>
  "implements good chip m n \<longleftrightarrow>
     (\<forall>s. good s \<longrightarrow> (case m s of (r, s') \<Rightarrow> good s' \<and> n (chip s) = (r, chip s')))"

lemma implementsI:
  assumes "\<And>s. good s \<Longrightarrow> \<exists>r s'. m s = (r, s') \<and> good s' \<and> n (chip s) = (r, chip s')"
  shows "implements good chip m n"
  using assms by (fastforce simp: implements_def)

lemma implementsD:
  assumes "implements good chip m n" "good s" "n (chip s) = (r, c)"
  shows "\<exists>s'. m s = (r, s') \<and> good s' \<and> chip s' = c"
  using assms by (cases "m s") (auto simp: implements_def)

lemma implements_run:
  assumes "implements good chip m n" "good s" "m s = (r, s')"
  shows "good s' \<and> n (chip s) = (r, chip s')"
  using assms by (auto simp: implements_def)

named_theorems lms_impl \<open>rules that build implementations from implementations\<close>

lemma implements_ret [lms_impl]: "implements good chip (ret x) (ret x)"
  by (simp add: implements_def ret_def)

lemma implements_fail [lms_impl]: "implements good chip (fail e) (fail e)"
  by (simp add: implements_def fail_def)

lemma implements_undef [lms_impl]: "implements good chip undef_io undef_io"
  by (simp add: implements_def undef_io_def)

lemma implements_status [lms_impl]: "implements good chip (status_io r) (status_io r)"
  by (simp add: implements_def status_io_def)

lemma implements_seq [lms_impl]:
  assumes "implements good chip m n" "\<And>x. implements good chip (k x) (h x)"
  shows "implements good chip (seq m k) (seq n h)"
proof (rule implementsI)
  fix s assume "good s"
  obtain r s' where m: "m s = (r, s')" "good s'" "n (chip s) = (r, chip s')"
    using assms(1) \<open>good s\<close> by (cases "m s") (auto simp: implements_def)
  show "\<exists>r s'. seq m k s = (r, s') \<and> good s' \<and> seq n h (chip s) = (r, chip s')"
  proof (cases r)
    case (Ok x)
    obtain q t where "k x s' = (q, t)" "good t" "h x (chip s') = (q, chip t)"
      using assms(2) [of x] m(2) by (cases "k x s'") (auto simp: implements_def)
    with m Ok show ?thesis by (auto simp: seq_def)
  qed (use m in \<open>auto simp: seq_def\<close>)
qed

lemma implements_attempt [lms_impl]:
  assumes "implements good chip m n" "\<And>x. implements good chip (k x) (h x)"
  shows "implements good chip (attempt m k) (attempt n h)"
proof (rule implementsI)
  fix s assume "good s"
  obtain r s' where m: "m s = (r, s')" "good s'" "n (chip s) = (r, chip s')"
    using assms(1) \<open>good s\<close> by (cases "m s") (auto simp: implements_def)
  obtain q t where "k r s' = (q, t)" "good t" "h r (chip s') = (q, chip t)"
    using assms(2) [of r] m(2) by (cases "k r s'") (auto simp: implements_def)
  with m show "\<exists>r s'. attempt m k s = (r, s') \<and> good s' \<and> attempt n h (chip s) = (r, chip s')"
    by (cases r) (auto simp: attempt_def)
qed

lemma implements_if [lms_impl]:
  assumes "b \<Longrightarrow> implements good chip m n" "\<not> b \<Longrightarrow> implements good chip m' n'"
  shows "implements good chip (if b then m else m') (if b then n else n')"
  using assms by simp

locale lms_transport =
  fixes dev :: "'s lms_backend" and ideal :: "'c lms_backend"
    and good :: "'s \<Rightarrow> bool" and chip :: "'s \<Rightarrow> 'c"
  assumes impl_read [lms_impl]: "implements good chip (lms_read dev a) (lms_read ideal a)"
    and impl_write [lms_impl]: "implements good chip (lms_write dev a v) (lms_write ideal a v)"
begin

lemma impl_lms_set [lms_impl]: "implements good chip (lms_set dev a m) (lms_set ideal a m)"
  unfolding lms_set_def by (intro lms_impl)

lemma impl_lms_clear [lms_impl]:
  "implements good chip (lms_clear dev a m) (lms_clear ideal a m)"
  unfolding lms_clear_def by (intro lms_impl)

end

section \<open>The driver's backend on the USB device\<close>

definition nios_lms_backend :: "'s nios_handle \<Rightarrow> 's nios_dev lms_backend" where
  \<comment> \<open>\<^verbatim>\<open>lms_read\<close>/\<^verbatim>\<open>lms_write\<close> of the USB backend's function table\<close>
  "nios_lms_backend h = \<lparr>lms_read = nios_lms6_read h, lms_write = nios_lms6_write h\<rparr>"

definition stack_dev ::
    "(u8 \<Rightarrow> 'c \<Rightarrow> u8 \<times> 'c) \<Rightarrow> (u8 \<Rightarrow> u8 \<Rightarrow> 'c \<Rightarrow> 'c) \<Rightarrow> ('c \<times> bool) handler \<Rightarrow> ('c \<times> bool) handler \<Rightarrow>
     nat \<Rightarrow> 'c lms_world lms_backend" where
  \<comment> \<open>the driver in front of the whole stack and a chip\<close>
  "stack_dev rd wr rt lg n = nios_lms_backend (fw_handle (chip_bus rd wr) rt lg n)"

interpretation stack: lms_transport "stack_dev rd wr rt lg n" "chip_dev rd wr" world_ok lms_chip
  for rd wr rt lg n
proof
  fix a v
  show "implements world_ok lms_chip (lms_read (stack_dev rd wr rt lg n) a)
          (lms_read (chip_dev rd wr) a)"
  proof (rule implementsI)
    fix d :: "'a lms_world" assume "world_ok d"
    moreover obtain v c where "rd a (lms_chip d) = (v, c)" by fastforce
    ultimately show "\<exists>r d'. lms_read (stack_dev rd wr rt lg n) a d = (r, d') \<and> world_ok d' \<and>
            lms_read (chip_dev rd wr) a (lms_chip d) = (r, lms_chip d')"
      using lms6_read_refines [of d rd a v c wr rt lg n]
      by (auto simp: stack_dev_def nios_lms_backend_def chip_dev_def)
  qed
  show "implements world_ok lms_chip (lms_write (stack_dev rd wr rt lg n) a v)
          (lms_write (chip_dev rd wr) a v)"
  proof (rule implementsI)
    fix d :: "'a lms_world" assume "world_ok d"
    then show "\<exists>r d'. lms_write (stack_dev rd wr rt lg n) a v d = (r, d') \<and> world_ok d' \<and>
            lms_write (chip_dev rd wr) a v (lms_chip d) = (r, lms_chip d')"
      using lms6_write_refines [of d rd wr rt lg n a v]
      by (auto simp: stack_dev_def nios_lms_backend_def chip_dev_def)
  qed
qed

definition regs_stack :: "(regs \<times> bool) handler \<Rightarrow> (regs \<times> bool) handler \<Rightarrow> nat \<Rightarrow>
    regs lms_world lms_backend" where
  \<comment> \<open>the whole stack in front of a chip whose registers hold what was written\<close>
  "regs_stack rt lg n = stack_dev regs_read regs_write rt lg n"

interpretation regs: lms_transport "regs_stack rt lg n" regs_dev world_ok lms_chip for rt lg n
  unfolding regs_stack_def regs_dev_def by unfold_locales

lemma stack_single_register:
  assumes "implements world_ok lms_chip m n" "world_ok d"
    and "n (lms_chip d) = (Ok v, (lms_chip d)(a := x))"
  shows "\<exists>d'. m d = (Ok v, d') \<and> world_ok d' \<and> (\<forall>b. b \<noteq> a \<longrightarrow> lms_chip d' b = lms_chip d b)"
  using implementsD [OF assms] by auto

end
