(* ===== verification/Lms_Analog.thy ===== *)
theory Lms_Analog
  imports Lms_Base
begin

unbundle bit_operations_syntax

text \<open>
  Filters, gains, amplifier selection and enables of the LMS6002D driver
  (\<^verbatim>\<open>fpga_common/src/lms.c\<close>, host build): each operation as a sequence of
  register accesses, its effect on a register file, round trips of the set/get pairs, and the
  implementation of each operation over any transport.
\<close>

section \<open>Low-pass filters\<close>

definition lms_config_charge_pumps :: "'s lms_backend \<Rightarrow> bladerf_module \<Rightarrow> ('s, unit) io" where
  "lms_config_charge_pumps dev module =
     (let base = (if module = BLADERF_MODULE_RX then 0x20 else 0x10) in
      seq (lms_read dev (base + 6)) (\<lambda>data.
      seq (lms_write dev (base + 6) ((data AND NOT 0x1f) OR 0x0c)) (\<lambda>_.
      seq (lms_read dev (base + 7)) (\<lambda>data.
      seq (lms_write dev (base + 7) ((data AND NOT 0x1f) OR 3)) (\<lambda>_.
      seq (lms_read dev (base + 8)) (\<lambda>data.
      lms_write dev (base + 8) ((data AND NOT 0x1f) OR 3)))))))"

definition lpf_reg :: "bladerf_module \<Rightarrow> u8" where
  "lpf_reg module = (if module = BLADERF_MODULE_RX then 0x54 else 0x34)"

definition lms_lpf_enable :: "'s lms_backend \<Rightarrow> bladerf_module \<Rightarrow> bool \<Rightarrow> ('s, unit) io" where
  "lms_lpf_enable dev module enable =
     seq (lms_read dev (lpf_reg module)) (\<lambda>data.
     seq (lms_write dev (lpf_reg module) (if enable then data OR 2 else data AND NOT 2)) (\<lambda>_.
     seq (lms_read dev (lpf_reg module + 1)) (\<lambda>data.
     when_io (data AND 0x40 \<noteq> 0) (lms_write dev (lpf_reg module + 1) (data AND NOT 0x40)))))"

definition lms_lpf_get_mode :: "'s lms_backend \<Rightarrow> bladerf_module \<Rightarrow> ('s, bladerf_lpf_mode) io" where
  "lms_lpf_get_mode dev module =
     seq (lms_read dev (lpf_reg module)) (\<lambda>data_l.
     seq (lms_read dev (lpf_reg module + 1)) (\<lambda>data_h.
       let lpf_enabled = (data_l AND 2 \<noteq> 0); lpf_bypassed = (data_h AND 0x40 \<noteq> 0) in
       if lpf_enabled \<and> \<not> lpf_bypassed then ret BLADERF_LPF_NORMAL
       else if \<not> lpf_enabled \<and> lpf_bypassed then ret BLADERF_LPF_BYPASSED
       else if \<not> lpf_enabled \<and> \<not> lpf_bypassed then ret BLADERF_LPF_DISABLED
       else fail BLADERF_ERR_INVAL))"

definition lms_lpf_set_mode ::
    "'s lms_backend \<Rightarrow> bladerf_module \<Rightarrow> bladerf_lpf_mode \<Rightarrow> ('s, unit) io" where
  "lms_lpf_set_mode dev module mode =
     seq (lms_read dev (lpf_reg module)) (\<lambda>data_l.
     seq (lms_read dev (lpf_reg module + 1)) (\<lambda>data_h.
     seq (case mode of
            BLADERF_LPF_NORMAL \<Rightarrow> ret (data_l OR 2, data_h AND NOT 0x40)
          | BLADERF_LPF_BYPASSED \<Rightarrow> ret (data_l AND NOT 2, data_h OR 0x40)
          | BLADERF_LPF_DISABLED \<Rightarrow> ret (data_l AND NOT 2, data_h AND NOT 0x40)
          | lpf_mode_invalid \<Rightarrow> fail BLADERF_ERR_INVAL) (\<lambda>(data_l, data_h).
     seq (lms_write dev (lpf_reg module) data_l) (\<lambda>_.
     lms_write dev (lpf_reg module + 1) data_h))))"

definition lms_set_bandwidth :: "'s lms_backend \<Rightarrow> bladerf_module \<Rightarrow> lms_bw \<Rightarrow> ('s, unit) io" where
  "lms_set_bandwidth dev module bw =
     seq (lms_read dev (lpf_reg module)) (\<lambda>data.
     lms_write dev (lpf_reg module) ((data AND NOT 0x3c) OR push_bit 2 (lms_bw_code bw)))"

definition uint_bandwidths :: "u32 list" where
  "uint_bandwidths =
     [28000000, 20000000, 14000000, 12000000, 10000000, 8750000, 7000000, 6000000,
      5500000, 5000000, 3840000, 3000000, 2750000, 2500000, 1750000, 1500000]"

definition lms_get_bandwidth :: "'s lms_backend \<Rightarrow> bladerf_module \<Rightarrow> ('s, lms_bw) io" where
  "lms_get_bandwidth dev module =
     seq (lms_read dev (lpf_reg module)) (\<lambda>data.
       let data = drop_bit 2 data AND 0xf in
       seq (assert_io (unat data < length uint_bandwidths)) (\<lambda>_.
       ret (lms_bw_enum ! unat data)))"

definition lms_uint2bw :: "u32 \<Rightarrow> lms_bw" where
  "lms_uint2bw req =
     (if req \<le> 1500000 then BW_1p5MHz
      else if req \<le> 1750000 then BW_1p75MHz
      else if req \<le> 2500000 then BW_2p5MHz
      else if req \<le> 2750000 then BW_2p75MHz
      else if req \<le> 3000000 then BW_3MHz
      else if req \<le> 3840000 then BW_3p84MHz
      else if req \<le> 5000000 then BW_5MHz
      else if req \<le> 5500000 then BW_5p5MHz
      else if req \<le> 6000000 then BW_6MHz
      else if req \<le> 7000000 then BW_7MHz
      else if req \<le> 8750000 then BW_8p75MHz
      else if req \<le> 10000000 then BW_10MHz
      else if req \<le> 12000000 then BW_12MHz
      else if req \<le> 14000000 then BW_14MHz
      else if req \<le> 20000000 then BW_20MHz
      else BW_28MHz)"

definition lms_bw2uint :: "lms_bw \<Rightarrow> u32 outcome" where
  "lms_bw2uint bw =
     (let idx = unat (lms_bw_code bw AND 0xf) in
      if idx < length uint_bandwidths then Ok (uint_bandwidths ! idx) else Undef)"

section \<open>PLL dithering and reset\<close>

definition lms_dither_enable ::
    "'s lms_backend \<Rightarrow> bladerf_module \<Rightarrow> u8 \<Rightarrow> bool \<Rightarrow> ('s, unit) io" where
  "lms_dither_enable dev module nbits enable =
     (let reg = (if module = BLADERF_MODULE_RX then 0x24 else 0x14) in
      if nbits < 1 \<or> nbits > 8 then fail BLADERF_ERR_INVAL
      else seq (lms_read dev reg) (\<lambda>data.
        lms_write dev reg
          (if enable
           then ((data OR 0x80) AND NOT 0x70) OR push_bit 4 ((nbits - 1) AND 7)
           else data AND NOT 0x80)))"

definition lms_soft_reset :: "'s lms_backend \<Rightarrow> ('s, unit) io" where
  "lms_soft_reset dev = seq (lms_write dev 0x05 0x12) (\<lambda>_. lms_write dev 0x05 0x32)"

section \<open>Receive gain\<close>

definition lms_lna_set_gain :: "'s lms_backend \<Rightarrow> bladerf_lna_gain \<Rightarrow> ('s, unit) io" where
  "lms_lna_set_gain dev gain =
     (if gain = BLADERF_LNA_GAIN_BYPASS \<or> gain = BLADERF_LNA_GAIN_MID \<or>
         gain = BLADERF_LNA_GAIN_MAX
      then seq (lms_read dev 0x75) (\<lambda>data.
        lms_write dev 0x75 ((data AND NOT 0xc0) OR push_bit 6 (lna_gain_code gain AND 3)))
      else fail BLADERF_ERR_INVAL)"

definition lms_lna_get_gain :: "'s lms_backend \<Rightarrow> ('s, bladerf_lna_gain) io" where
  "lms_lna_get_gain dev =
     seq (lms_read dev 0x75) (\<lambda>data.
       let data = drop_bit 6 data AND 3;
           gain = (if data = 1 then BLADERF_LNA_GAIN_BYPASS
                   else if data = 2 then BLADERF_LNA_GAIN_MID
                   else if data = 3 then BLADERF_LNA_GAIN_MAX
                   else BLADERF_LNA_GAIN_UNKNOWN) in
       if gain = BLADERF_LNA_GAIN_UNKNOWN then fail BLADERF_ERR_INVAL else ret gain)"

definition lms_select_lna :: "'s lms_backend \<Rightarrow> lms_lna \<Rightarrow> ('s, unit) io" where
  "lms_select_lna dev lna =
     seq (lms_read dev 0x75) (\<lambda>data.
     lms_write dev 0x75 ((data AND NOT 0x30) OR push_bit 4 (lna_code lna AND 3)))"

definition lms_get_lna :: "'s lms_backend \<Rightarrow> ('s, lms_lna) io" where
  "lms_get_lna dev =
     seq (lms_read dev 0x75) (\<lambda>data.
       let data = drop_bit 4 data AND 3 in
       ret (if data = 1 then LNA_1 else if data = 2 then LNA_2
            else if data = 3 then LNA_3 else LNA_NONE))"

definition lms_rxvga1_enable :: "'s lms_backend \<Rightarrow> bool \<Rightarrow> ('s, unit) io" where
  "lms_rxvga1_enable dev enable =
     seq (lms_read dev 0x7d) (\<lambda>data.
     lms_write dev 0x7d (if enable then data AND NOT 0x08 else data OR 0x08))"

definition rxvga1_lut_code2val :: "u8 list" where
  "rxvga1_lut_code2val =
     [5, 5, 5, 5, 5, 5, 5, 5, 6, 6, 6, 6, 6, 6, 6, 6, 6, 6, 6,
      6, 6, 7, 7, 7, 7, 7, 7, 7, 7, 7, 7, 7, 8, 8, 8, 8, 8, 8,
      8, 8, 8, 8, 8, 9, 9, 9, 9, 9, 9, 9, 9, 9, 10, 10, 10, 10, 10,
      10, 10, 10, 11, 11, 11, 11, 11, 11, 11, 12, 12, 12, 12, 12, 12, 12, 13, 13,
      13, 13, 13, 13, 14, 14, 14, 14, 14, 15, 15, 15, 15, 15, 16, 16, 16, 16, 17,
      17, 17, 18, 18, 18, 18, 19, 19, 19, 20, 20, 21, 21, 22, 22, 22, 23, 24, 24,
      25, 25, 26, 27, 28, 29, 30]"

definition rxvga1_lut_val2code :: "u8 list" where
  "rxvga1_lut_val2code =
     [2, 2, 2, 2, 2, 2, 14, 26, 37, 47, 56, 63, 70, 76, 82, 87,
      91, 95, 99, 102, 104, 107, 109, 111, 113, 114, 116, 117, 118, 119, 120]"

definition clamp :: "int \<Rightarrow> int \<Rightarrow> int \<Rightarrow> int" where
  "clamp lo hi g = (if g > hi then hi else if g < lo then lo else g)"

definition lms_rxvga1_set_gain :: "'s lms_backend \<Rightarrow> int \<Rightarrow> ('s, unit) io" where
  "lms_rxvga1_set_gain dev gain =
     lms_write dev 0x76 (rxvga1_lut_val2code ! nat (clamp 5 30 gain))"

definition lms_rxvga1_get_gain :: "'s lms_backend \<Rightarrow> ('s, int) io" where
  "lms_rxvga1_get_gain dev =
     seq (lms_read dev 0x76) (\<lambda>data.
       let data = data AND 0x7f; data = (if data > 120 then 120 else data) in
       ret (uint (rxvga1_lut_code2val ! unat data)))"

definition lms_rxvga2_enable :: "'s lms_backend \<Rightarrow> bool \<Rightarrow> ('s, unit) io" where
  "lms_rxvga2_enable dev enable =
     seq (lms_read dev 0x64) (\<lambda>data.
     lms_write dev 0x64 (if enable then data OR 2 else data AND NOT 2))"

definition lms_rxvga2_set_gain :: "'s lms_backend \<Rightarrow> int \<Rightarrow> ('s, unit) io" where
  "lms_rxvga2_set_gain dev gain = lms_write dev 0x65 (word_of_int (clamp 0 30 gain div 3))"

definition lms_rxvga2_get_gain :: "'s lms_backend \<Rightarrow> ('s, int) io" where
  \<comment> \<open>\<^verbatim>\<open>data *= 3\<close> wraps at eight bits\<close>
  "lms_rxvga2_get_gain dev = seq (lms_read dev 0x65) (\<lambda>data. ret (uint (data * 3)))"

section \<open>Transmit path\<close>

definition lms_select_pa :: "'s lms_backend \<Rightarrow> lms_pa \<Rightarrow> ('s, unit) io" where
  \<comment> \<open>the selection is examined before the status of the read\<close>
  "lms_select_pa dev pa =
     attempt (lms_read dev 0x44) (\<lambda>status.
     seq (assert_io (pa \<noteq> pa_invalid)) (\<lambda>_.
     seq (status_io status) (\<lambda>data.
       let data = (data AND NOT 0x1c) OR 2 in
       lms_write dev 0x44
         (case pa of
            PA_AUX \<Rightarrow> data AND NOT 2
          | PA_1 \<Rightarrow> data OR 0x08
          | PA_2 \<Rightarrow> data OR 0x10
          | _ \<Rightarrow> data))))"

definition lms_peakdetect_enable :: "'s lms_backend \<Rightarrow> bool \<Rightarrow> ('s, unit) io" where
  "lms_peakdetect_enable dev enable =
     seq (lms_read dev 0x44) (\<lambda>data.
     lms_write dev 0x44 (if enable then data AND NOT 1 else data OR 1))"

definition lms_enable_rffe :: "'s lms_backend \<Rightarrow> bladerf_module \<Rightarrow> bool \<Rightarrow> ('s, unit) io" where
  "lms_enable_rffe dev module enable =
     (let addr = (if module = BLADERF_MODULE_TX then 0x40 else 0x70) in
      seq (lms_read dev addr) (\<lambda>data.
        lms_write dev addr
          (if module = BLADERF_MODULE_TX
           then (if enable then data OR 2 else data AND NOT 2)
           else (if enable then data OR 1 else data AND NOT 1))))"

definition lms_txvga2_set_gain :: "'s lms_backend \<Rightarrow> int \<Rightarrow> ('s, unit) io" where
  "lms_txvga2_set_gain dev gain_int =
     seq (lms_read dev 0x45) (\<lambda>data.
     lms_write dev 0x45
       ((data AND NOT 0xf8) OR push_bit 3 (word_of_int (clamp 0 25 gain_int) AND 0x1f)))"

definition lms_txvga2_get_gain :: "'s lms_backend \<Rightarrow> ('s, int) io" where
  "lms_txvga2_get_gain dev =
     seq (lms_read dev 0x45) (\<lambda>data.
       let gain = uint (drop_bit 3 data AND 0x1f) in
       ret (if gain > 25 then 25 else gain))"

definition lms_txvga1_set_gain :: "'s lms_backend \<Rightarrow> int \<Rightarrow> ('s, unit) io" where
  "lms_txvga1_set_gain dev gain_int =
     lms_write dev 0x41 (word_of_int (clamp (-35) (-4) gain_int + 35))"

definition lms_txvga1_get_gain :: "'s lms_backend \<Rightarrow> ('s, int) io" where
  "lms_txvga1_get_gain dev = seq (lms_read dev 0x41) (\<lambda>data. ret (uint (data AND 0x1f) - 35))"

section \<open>Power and enables\<close>

definition enable_lna_power :: "'s lms_backend \<Rightarrow> bool \<Rightarrow> ('s, unit) io" where
  "enable_lna_power dev enable =
     seq (lms_read dev 0x7d) (\<lambda>regval.
     seq (lms_write dev 0x7d (if enable then regval AND NOT 1 else regval OR 1)) (\<lambda>_.
     seq (lms_read dev 0x70) (\<lambda>regval.
     lms_write dev 0x70 (if enable then regval AND NOT 2 else regval OR 2))))"

definition enable_rf_loopback_switch :: "'s lms_backend \<Rightarrow> bool \<Rightarrow> ('s, unit) io" where
  "enable_rf_loopback_switch dev enable =
     seq (lms_read dev 0x0b) (\<lambda>regval.
     lms_write dev 0x0b (if enable then regval OR 1 else regval AND NOT 1))"

definition lms_power_down :: "'s lms_backend \<Rightarrow> ('s, unit) io" where
  "lms_power_down dev =
     seq (lms_read dev 0x05) (\<lambda>data. lms_write dev 0x05 (data AND NOT 0x10))"

definition lms_pll_enable :: "'s lms_backend \<Rightarrow> bladerf_module \<Rightarrow> bool \<Rightarrow> ('s, unit) io" where
  "lms_pll_enable dev module enable =
     (let reg = (if module = BLADERF_MODULE_RX then 0x24 else 0x14) in
      seq (lms_read dev reg) (\<lambda>data.
      lms_write dev reg (if enable then data OR 0x08 else data AND NOT 0x08)))"

definition lms_rx_enable :: "'s lms_backend \<Rightarrow> bool \<Rightarrow> ('s, unit) io" where
  "lms_rx_enable dev enable =
     seq (lms_read dev 0x05) (\<lambda>data.
     lms_write dev 0x05 (if enable then data OR 0x04 else data AND NOT 0x04))"

definition lms_tx_enable :: "'s lms_backend \<Rightarrow> bool \<Rightarrow> ('s, unit) io" where
  "lms_tx_enable dev enable =
     seq (lms_read dev 0x05) (\<lambda>data.
     lms_write dev 0x05 (if enable then data OR 0x08 else data AND NOT 0x08))"

section \<open>Sampling\<close>

definition lms_select_sampling :: "'s lms_backend \<Rightarrow> bladerf_sampling \<Rightarrow> ('s, unit) io" where
  "lms_select_sampling dev sampling =
     (if sampling = BLADERF_SAMPLING_INTERNAL then
        seq (lms_read dev 0x09) (\<lambda>val.
        seq (lms_write dev 0x09 (val AND NOT 0x80)) (\<lambda>_.
        seq (lms_read dev 0x64) (\<lambda>val.
        lms_write dev 0x64 (val OR 2))))
      else if sampling = BLADERF_SAMPLING_EXTERNAL then
        seq (lms_read dev 0x64) (\<lambda>val.
        seq (lms_write dev 0x64 (val AND NOT 2)) (\<lambda>_.
        seq (lms_read dev 0x09) (\<lambda>val.
        lms_write dev 0x09 (val OR 0x80))))
      else fail BLADERF_ERR_INVAL)"

definition lms_get_sampling :: "'s lms_backend \<Rightarrow> ('s, bladerf_sampling) io" where
  "lms_get_sampling dev =
     seq (lms_read dev 0x09) (\<lambda>val.
     seq (lms_read dev 0x64) (\<lambda>val2.
       let external = (if val AND 0x80 \<noteq> 0 then 1 else 0 :: nat) +
                      (if val2 AND 2 \<noteq> 0 then 0 else 2) in
       ret (if external = 0 then BLADERF_SAMPLING_INTERNAL
            else if external = 3 then BLADERF_SAMPLING_EXTERNAL
            else BLADERF_SAMPLING_UNKNOWN)))"

section \<open>Register dump\<close>

definition lms_reg_dumpset :: "u8 list" where
  "lms_reg_dumpset =
     [0x00, 0x01, 0x02, 0x03, 0x04, 0x05, 0x06, 0x07, 0x08, 0x09, 0x0A, 0x0B, 0x0E, 0x0F,
      0x10, 0x11, 0x12, 0x13, 0x14, 0x15, 0x16, 0x17, 0x18, 0x19, 0x1A, 0x1B,
      0x1C, 0x1D, 0x1E, 0x1F,
      0x20, 0x21, 0x22, 0x23, 0x24, 0x25, 0x26, 0x27, 0x28, 0x29, 0x2A, 0x2B,
      0x2C, 0x2D, 0x2E, 0x2F,
      0x30, 0x31, 0x32, 0x33, 0x34, 0x35, 0x36,
      0x40, 0x41, 0x42, 0x43, 0x44, 0x45, 0x46, 0x47, 0x48, 0x49, 0x4A, 0x4B,
      0x4C, 0x4D, 0x4E, 0x4F,
      0x50, 0x51, 0x52, 0x53, 0x54, 0x55, 0x56, 0x57, 0x58, 0x59, 0x5A, 0x5B,
      0x5C, 0x5D, 0x5E, 0x5F,
      0x60, 0x61, 0x62, 0x63, 0x64, 0x65, 0x66, 0x67, 0x68,
      0x70, 0x71, 0x72, 0x73, 0x74, 0x75, 0x76, 0x77, 0x78, 0x79, 0x7A, 0x7B, 0x7C]"

fun dump_each :: "'s lms_backend \<Rightarrow> u8 list \<Rightarrow> ('s, (u8 \<times> u8) list) io" where
  \<comment> \<open>the values \<^verbatim>\<open>lms_dump_registers\<close> logs, in order\<close>
  "dump_each dev [] = ret []"
| "dump_each dev (a # as) =
     seq (lms_read dev a) (\<lambda>data.
     seq (dump_each dev as) (\<lambda>rest. ret ((a, data) # rest)))"

definition lms_dump_registers :: "'s lms_backend \<Rightarrow> ('s, (u8 \<times> u8) list) io" where
  "lms_dump_registers dev = dump_each dev lms_reg_dumpset"

section \<open>Implementation over a transport\<close>

lemma implements_Let [lms_impl]:
  "implements good chip (f x) (g x) \<Longrightarrow> implements good chip (Let x f) (Let x g)"
  by simp

lemma implements_case_prod [lms_impl]:
  "(\<And>a b. p = (a, b) \<Longrightarrow> implements good chip (f a b) (g a b)) \<Longrightarrow>
   implements good chip (case p of (a, b) \<Rightarrow> f a b) (case p of (a, b) \<Rightarrow> g a b)"
  by (cases p) simp

context lms_transport
begin

lemma impl_lpf [lms_impl]:
  "implements good chip (lms_lpf_get_mode dev md) (lms_lpf_get_mode ideal md)"
  "implements good chip (lms_lpf_enable dev md en) (lms_lpf_enable ideal md en)"
  "implements good chip (lms_set_bandwidth dev md bw) (lms_set_bandwidth ideal md bw)"
  "implements good chip (lms_get_bandwidth dev md) (lms_get_bandwidth ideal md)"
  unfolding lms_lpf_get_mode_def lms_lpf_enable_def lms_set_bandwidth_def lms_get_bandwidth_def
  by (intro lms_impl)+

lemma impl_lpf_set_mode [lms_impl]:
  "implements good chip (lms_lpf_set_mode dev md mode) (lms_lpf_set_mode ideal md mode)"
  unfolding lms_lpf_set_mode_def by (cases mode; simp; intro lms_impl)

lemma impl_rx_gain [lms_impl]:
  "implements good chip (lms_lna_set_gain dev lg) (lms_lna_set_gain ideal lg)"
  "implements good chip (lms_lna_get_gain dev) (lms_lna_get_gain ideal)"
  "implements good chip (lms_select_lna dev lna) (lms_select_lna ideal lna)"
  "implements good chip (lms_get_lna dev) (lms_get_lna ideal)"
  "implements good chip (lms_rxvga1_enable dev en) (lms_rxvga1_enable ideal en)"
  "implements good chip (lms_rxvga1_set_gain dev g) (lms_rxvga1_set_gain ideal g)"
  "implements good chip (lms_rxvga1_get_gain dev) (lms_rxvga1_get_gain ideal)"
  "implements good chip (lms_rxvga2_enable dev en) (lms_rxvga2_enable ideal en)"
  "implements good chip (lms_rxvga2_set_gain dev g) (lms_rxvga2_set_gain ideal g)"
  "implements good chip (lms_rxvga2_get_gain dev) (lms_rxvga2_get_gain ideal)"
  unfolding lms_lna_set_gain_def lms_lna_get_gain_def lms_select_lna_def lms_get_lna_def
    lms_rxvga1_enable_def lms_rxvga1_set_gain_def lms_rxvga1_get_gain_def
    lms_rxvga2_enable_def lms_rxvga2_set_gain_def lms_rxvga2_get_gain_def
  by (intro lms_impl)+

lemma impl_tx_gain [lms_impl]:
  "implements good chip (lms_select_pa dev pa) (lms_select_pa ideal pa)"
  "implements good chip (lms_txvga2_set_gain dev g) (lms_txvga2_set_gain ideal g)"
  "implements good chip (lms_txvga2_get_gain dev) (lms_txvga2_get_gain ideal)"
  "implements good chip (lms_txvga1_set_gain dev g) (lms_txvga1_set_gain ideal g)"
  "implements good chip (lms_txvga1_get_gain dev) (lms_txvga1_get_gain ideal)"
  unfolding lms_select_pa_def lms_txvga2_set_gain_def lms_txvga2_get_gain_def
    lms_txvga1_set_gain_def lms_txvga1_get_gain_def
  by (intro lms_impl)+

lemma impl_enables [lms_impl]:
  "implements good chip (enable_lna_power dev en) (enable_lna_power ideal en)"
  "implements good chip (enable_rf_loopback_switch dev en) (enable_rf_loopback_switch ideal en)"
  "implements good chip (lms_select_sampling dev sm) (lms_select_sampling ideal sm)"
  "implements good chip (lms_get_sampling dev) (lms_get_sampling ideal)"
  "implements good chip (lms_rx_enable dev en) (lms_rx_enable ideal en)"
  "implements good chip (lms_tx_enable dev en) (lms_tx_enable ideal en)"
  unfolding enable_lna_power_def enable_rf_loopback_switch_def lms_select_sampling_def
    lms_get_sampling_def lms_rx_enable_def lms_tx_enable_def
  by (intro lms_impl)+

end

section \<open>Functional behaviour on the register file\<close>

lemma clamp_bounds:
  "lo \<le> hi \<Longrightarrow> lo \<le> clamp lo hi g" "lo \<le> hi \<Longrightarrow> clamp lo hi g \<le> hi"
  by (simp_all add: clamp_def)

definition rxvga1_inverse :: "int \<Rightarrow> bool" where
  "rxvga1_inverse g \<longleftrightarrow>
     (let c = rxvga1_lut_val2code ! nat g in
      c \<le> 120 \<and> uint (rxvga1_lut_code2val ! unat c) = g)"

lemma rxvga1_roundtrip: "5 \<le> g \<Longrightarrow> g \<le> 30 \<Longrightarrow> rxvga1_inverse g"
proof -
  have "list_all rxvga1_inverse [5..30]" by code_simp
  then show "5 \<le> g \<Longrightarrow> g \<le> 30 \<Longrightarrow> rxvga1_inverse g"
    by (simp only: list_all_iff set_upto Ball_def atLeastAtMost_iff)
qed

lemma lms_gain_regs [iosimps]:
  "lms_rxvga1_set_gain regs_dev g r =
     (Ok (), r(0x76 := rxvga1_lut_val2code ! nat (clamp 5 30 g)))"
  "lms_rxvga2_set_gain regs_dev g r = (Ok (), r(0x65 := word_of_int (clamp 0 30 g div 3)))"
  "lms_txvga1_set_gain regs_dev g r = (Ok (), r(0x41 := word_of_int (clamp (-35) (-4) g + 35)))"
  "lms_txvga2_set_gain regs_dev g r =
     (Ok (), r(0x45 := (r 0x45 AND NOT 0xf8) OR
                       push_bit 3 (word_of_int (clamp 0 25 g) AND 0x1f)))"
  "lms_rxvga2_get_gain regs_dev r = (Ok (uint (r 0x65 * 3)), r)"
  "lms_txvga1_get_gain regs_dev r = (Ok (uint (r 0x41 AND 0x1f) - 35), r)"
  "lms_txvga2_get_gain regs_dev r =
     (Ok (min 25 (uint (drop_bit 3 (r 0x45) AND 0x1f))), r)"
  by (simp_all add: lms_rxvga1_set_gain_def lms_rxvga2_set_gain_def lms_txvga1_set_gain_def
       lms_txvga2_set_gain_def lms_rxvga2_get_gain_def lms_txvga1_get_gain_def
       lms_txvga2_get_gain_def iosimps Let_def)

lemma lms_rxvga1_get_gain_regs:
  assumes "r 0x76 = rxvga1_lut_val2code ! nat g" "5 \<le> g" "g \<le> 30"
  shows "lms_rxvga1_get_gain regs_dev r = (Ok g, r)"
proof -
  have c: "r 0x76 \<le> 120" "uint (rxvga1_lut_code2val ! unat (r 0x76)) = g"
    using rxvga1_roundtrip [OF assms(2,3)] assms(1) by (auto simp: rxvga1_inverse_def Let_def)
  have "r 0x76 AND 0x7f = take_bit 7 (r 0x76)"
    by (simp add: take_bit_eq_mask mask_eq_exp_minus_1)
  also have "\<dots> = r 0x76"
    proof (rule unsigned_word_eqI)
    show "unat (take_bit 7 (r 0x76)) = unat (r 0x76)"
      using c(1) by (simp add: unsigned_take_bit_eq take_bit_nat_eq_self word_le_nat_alt)
  qed
  finally show ?thesis using c by (auto simp: lms_rxvga1_get_gain_def iosimps Let_def dest: leD)
qed

lemma u8_field_3_5:
  fixes v :: u8
  shows "drop_bit 3 (push_bit 3 v) AND 0x1f = v AND 0x1f"
  by (rule u8_eqI) (simp_all add: bit_simps)

lemma low5_word_of_int:
  assumes "0 \<le> k" "k < 32" shows "uint (word_of_int k AND 0x1f :: u8) = k"
proof -
  have "(word_of_int k :: u8) AND 0x1f = take_bit 5 (word_of_int k)"
    by (simp add: take_bit_eq_mask mask_eq_exp_minus_1)
  then show ?thesis using assms
    by (simp add: unsigned_take_bit_eq uint_word_of_int take_bit_int_eq_self)
qed

lemma gain_roundtrips_regs:
  "seq (lms_rxvga1_set_gain regs_dev g) (\<lambda>_. lms_rxvga1_get_gain regs_dev) r =
     (Ok (clamp 5 30 g), r(0x76 := rxvga1_lut_val2code ! nat (clamp 5 30 g)))"
  "seq (lms_rxvga2_set_gain regs_dev g) (\<lambda>_. lms_rxvga2_get_gain regs_dev) r =
     (Ok (3 * (clamp 0 30 g div 3)), r(0x65 := word_of_int (clamp 0 30 g div 3)))"
  "seq (lms_txvga1_set_gain regs_dev g) (\<lambda>_. lms_txvga1_get_gain regs_dev) r =
     (Ok (clamp (-35) (-4) g), r(0x41 := word_of_int (clamp (-35) (-4) g + 35)))"
  "seq (lms_txvga2_set_gain regs_dev g) (\<lambda>_. lms_txvga2_get_gain regs_dev) r =
     (Ok (clamp 0 25 g),
      r(0x45 := (r 0x45 AND NOT 0xf8) OR push_bit 3 (word_of_int (clamp 0 25 g) AND 0x1f)))"
proof -
  have rx1: "5 \<le> clamp 5 30 g" "clamp 5 30 g \<le> 30"
    and rx2: "0 \<le> clamp 0 30 g" "clamp 0 30 g \<le> 30"
    and tx1: "-35 \<le> clamp (-35) (-4) g" "clamp (-35) (-4) g \<le> -4"
    and tx2: "0 \<le> clamp 0 25 g" "clamp 0 25 g \<le> 25"
    by (simp_all add: clamp_bounds)
  show "seq (lms_rxvga1_set_gain regs_dev g) (\<lambda>_. lms_rxvga1_get_gain regs_dev) r =
     (Ok (clamp 5 30 g), r(0x76 := rxvga1_lut_val2code ! nat (clamp 5 30 g)))"
    using rx1 by (simp add: iosimps lms_rxvga1_get_gain_regs)
  have "uint (word_of_int (clamp 0 30 g div 3) * 3 :: u8) = 3 * (clamp 0 30 g div 3)"
    using rx2 by (simp add: uint_word_ariths uint_word_of_int take_bit_eq_mod)
  then show "seq (lms_rxvga2_set_gain regs_dev g) (\<lambda>_. lms_rxvga2_get_gain regs_dev) r =
     (Ok (3 * (clamp 0 30 g div 3)), r(0x65 := word_of_int (clamp 0 30 g div 3)))"
    by (simp add: iosimps)
  show "seq (lms_txvga1_set_gain regs_dev g) (\<lambda>_. lms_txvga1_get_gain regs_dev) r =
     (Ok (clamp (-35) (-4) g), r(0x41 := word_of_int (clamp (-35) (-4) g + 35)))"
    using tx1 low5_word_of_int [of "clamp (-35) (-4) g + 35"] by (simp add: iosimps)
  show "seq (lms_txvga2_set_gain regs_dev g) (\<lambda>_. lms_txvga2_get_gain regs_dev) r =
     (Ok (clamp 0 25 g),
      r(0x45 := (r 0x45 AND NOT 0xf8) OR push_bit 3 (word_of_int (clamp 0 25 g) AND 0x1f)))"
    using tx2 low5_word_of_int [of "clamp 0 25 g"] by (simp add: iosimps u8_field_3_5)
qed

lemma u8_bw_field:
  "drop_bit 2 ((d :: u8) AND NOT 0x3c OR push_bit 2 (lms_bw_code bw)) AND 0xf = lms_bw_code bw"
  by (cases bw; rule u8_eqI; simp add: bit_simps)

lemma u8_lna_gain_field:
  "drop_bit 6 ((d :: u8) AND NOT 0xc0 OR push_bit 6 (lna_gain_code lg AND 3)) AND 3 = lna_gain_code lg"
  by (cases lg; rule u8_eqI; simp add: bit_simps)

lemma u8_lna_field:
  "drop_bit 4 ((d :: u8) AND NOT 0x30 OR push_bit 4 (lna_code lna AND 3)) AND 3 = lna_code lna"
  by (cases lna; rule u8_eqI; simp add: bit_simps)

lemma unat_low4: "unat ((w :: u8) AND 0xf) < 16"
proof -
  have "w AND 0xf = take_bit 4 w" by (simp add: take_bit_eq_mask mask_eq_exp_minus_1)
  then show ?thesis
    using take_bit_nat_less_exp [of 4 "unat w"] by (simp add: unsigned_take_bit_eq)
qed

lemma lms_get_bandwidth_regs:
  "lms_get_bandwidth regs_dev m r =
     (Ok (lms_bw_enum ! unat (drop_bit 2 (r (lpf_reg m)) AND 0xf)), r)"
  using unat_low4 [of "drop_bit 2 (r (lpf_reg m))"]
  by (simp add: lms_get_bandwidth_def iosimps Let_def uint_bandwidths_def del: drop_bit_and)

lemma lms_set_bandwidth_regs [iosimps]:
  "lms_set_bandwidth regs_dev m bw r =
     (Ok (), r(lpf_reg m := (r (lpf_reg m) AND NOT 0x3c) OR push_bit 2 (lms_bw_code bw)))"
  by (simp add: lms_set_bandwidth_def iosimps)

lemma lpf_mode_bit_and_bandwidth:
  fixes d :: u8
  shows "(d AND NOT 0x3c OR push_bit 2 (lms_bw_code bw)) AND 2 = d AND 2"
  by (cases bw; rule u8_eqI; simp add: bit_simps)

lemma bandwidth_after_set:
  fixes r :: regs
  assumes "lms_set_bandwidth regs_dev m bw r = (Ok (), r')"
  shows "lms_get_bandwidth regs_dev m r' = (Ok bw, r')"
    and "fst (lms_lpf_get_mode regs_dev m' r') = fst (lms_lpf_get_mode regs_dev m' r)"
proof -
  have r': "r' = r(lpf_reg m := (r (lpf_reg m) AND NOT 0x3c) OR push_bit 2 (lms_bw_code bw))"
    using assms by (simp add: iosimps)
  have "drop_bit 2 (r' (lpf_reg m)) AND 0xf = lms_bw_code bw"
    unfolding r' fun_upd_same by (rule u8_bw_field)
  then show "lms_get_bandwidth regs_dev m r' = (Ok bw, r')"
    by (simp only: lms_get_bandwidth_regs lms_bw_enum_code)
  have "r' (lpf_reg m') AND 2 = r (lpf_reg m') AND 2"
    unfolding r' fun_upd_apply by (simp only: lpf_mode_bit_and_bandwidth split: if_split) simp
  moreover have "r' (lpf_reg m' + 1) = r (lpf_reg m' + 1)"
    by (simp add: r' lpf_reg_def)
  ultimately show "fst (lms_lpf_get_mode regs_dev m' r') = fst (lms_lpf_get_mode regs_dev m' r)"
    by (simp add: lms_lpf_get_mode_def iosimps Let_def)
qed

lemma lpf_mode_bits:
  fixes d :: u8
  shows "(d OR 2) AND 2 \<noteq> 0" "(d AND NOT 2) AND 2 = 0" "(d OR 0x40) AND 0x40 \<noteq> 0"
    "(d AND NOT 0x40) AND 0x40 = 0"
  by (simp_all add: and.assoc bit.conj_disj_distrib2)

lemma lpf_regs_distinct [simp]:
  "lpf_reg m + 1 \<noteq> lpf_reg m'" "lpf_reg m' \<noteq> lpf_reg m + 1"
  by (simp_all add: lpf_reg_def)

lemma bw_field_and_mode:
  fixes d :: u8
  shows "drop_bit 2 (d OR 2) AND 0xf = drop_bit 2 d AND 0xf"
    "drop_bit 2 (d AND NOT 2) AND 0xf = drop_bit 2 d AND 0xf"
  by (rule u8_eqI; simp add: bit_simps)+

lemma lms_lpf_set_mode_regs:
  assumes "mode \<noteq> lpf_mode_invalid"
  shows "lms_lpf_set_mode regs_dev m mode r =
     (Ok (), r(lpf_reg m := (if mode = BLADERF_LPF_NORMAL then r (lpf_reg m) OR 2
                             else r (lpf_reg m) AND NOT 2),
               lpf_reg m + 1 := (if mode = BLADERF_LPF_BYPASSED then r (lpf_reg m + 1) OR 0x40
                                 else r (lpf_reg m + 1) AND NOT 0x40)))"
  using assms by (cases mode) (simp_all add: lms_lpf_set_mode_def iosimps)

lemma lpf_mode_after_set:
  assumes "lms_lpf_set_mode regs_dev m mode r = (Ok (), r')"
  shows "lms_lpf_get_mode regs_dev m r' = (Ok mode, r')"
    and "fst (lms_get_bandwidth regs_dev m' r') = fst (lms_get_bandwidth regs_dev m' r)"
proof -
  have ok: "mode \<noteq> lpf_mode_invalid"
    using assms by (auto simp: lms_lpf_set_mode_def iosimps)
  have r': "r' = r(lpf_reg m := (if mode = BLADERF_LPF_NORMAL then r (lpf_reg m) OR 2
                             else r (lpf_reg m) AND NOT 2),
               lpf_reg m + 1 := (if mode = BLADERF_LPF_BYPASSED then r (lpf_reg m + 1) OR 0x40
                                 else r (lpf_reg m + 1) AND NOT 0x40))"
    using assms by (simp add: lms_lpf_set_mode_regs [OF ok])
  show "lms_lpf_get_mode regs_dev m r' = (Ok mode, r')"
    using ok by (cases mode)
      (simp_all add: r' lms_lpf_get_mode_def iosimps Let_def lpf_mode_bits and.assoc)
  have "drop_bit 2 (r' (lpf_reg m')) AND 0xf = drop_bit 2 (r (lpf_reg m')) AND 0xf"
    unfolding r' using lpf_regs_distinct(2) [of m' m]
    by (simp only: fun_upd_apply if_False bw_field_and_mode split: if_split) simp
  then show "fst (lms_get_bandwidth regs_dev m' r') = fst (lms_get_bandwidth regs_dev m' r)"
    by (simp only: lms_get_bandwidth_regs fst_conv)
qed

lemma lna_gain_after_set:
  assumes "lms_lna_set_gain regs_dev g r = (Ok (), r')"
  shows "lms_lna_get_gain regs_dev r' = (Ok g, r')" "lms_get_lna regs_dev r' = (fst (lms_get_lna regs_dev r), r')"
proof -
  have ok: "g \<noteq> BLADERF_LNA_GAIN_UNKNOWN"
    and r': "r' = r(0x75 := (r 0x75 AND NOT 0xc0) OR push_bit 6 (lna_gain_code g AND 3))"
    using assms by (cases g; simp add: lms_lna_set_gain_def iosimps)+
  have "drop_bit 6 (r' 0x75) AND 3 = lna_gain_code g"
    unfolding r' fun_upd_same by (rule u8_lna_gain_field)
  then show "lms_lna_get_gain regs_dev r' = (Ok g, r')"
    using ok by (cases g) (simp_all add: lms_lna_get_gain_def iosimps Let_def)
  have "drop_bit 4 (r' 0x75) AND 3 = drop_bit 4 (r 0x75) AND 3"
    unfolding r' fun_upd_same by (cases g; rule u8_eqI; simp add: bit_simps)
  then show "lms_get_lna regs_dev r' = (fst (lms_get_lna regs_dev r), r')"
    by (simp add: lms_get_lna_def iosimps Let_def)
qed

lemma lms_select_lna_regs [iosimps]:
  "lms_select_lna regs_dev lna r =
     (Ok (), r(0x75 := (r 0x75 AND NOT 0x30) OR push_bit 4 (lna_code lna AND 3)))"
  by (simp add: lms_select_lna_def iosimps)

lemma lna_after_select:
  assumes "lms_select_lna regs_dev lna r = (Ok (), r')"
  shows "lms_get_lna regs_dev r' = (Ok lna, r')"
    and "fst (lms_lna_get_gain regs_dev r') = fst (lms_lna_get_gain regs_dev r)"
proof -
  have r': "r' = r(0x75 := (r 0x75 AND NOT 0x30) OR push_bit 4 (lna_code lna AND 3))"
    using assms by (simp add: iosimps)
  have "drop_bit 4 (r' 0x75) AND 3 = lna_code lna"
    unfolding r' fun_upd_same by (rule u8_lna_field)
  then show "lms_get_lna regs_dev r' = (Ok lna, r')"
    by (cases lna) (simp_all add: lms_get_lna_def iosimps Let_def)
  have "drop_bit 6 (r' 0x75) AND 3 = drop_bit 6 (r 0x75) AND 3"
    unfolding r' fun_upd_same by (cases lna; rule u8_eqI; simp add: bit_simps)
  then show "fst (lms_lna_get_gain regs_dev r') = fst (lms_lna_get_gain regs_dev r)"
    by (simp add: lms_lna_get_gain_def iosimps Let_def)
qed

lemma sampling_after_select:
  assumes "lms_select_sampling regs_dev sm r = (Ok (), r')"
  shows "lms_get_sampling regs_dev r' = (Ok sm, r')"
  using assms lpf_mode_bits
  by (cases sm)
     (auto simp: lms_select_sampling_def lms_get_sampling_def iosimps Let_def and.assoc
                 bit.conj_disj_distrib2)

context lms_transport
begin

lemma impl_gain_roundtrips:
  "implements good chip (seq (lms_rxvga1_set_gain dev g) (\<lambda>_. lms_rxvga1_get_gain dev))
     (seq (lms_rxvga1_set_gain ideal g) (\<lambda>_. lms_rxvga1_get_gain ideal))"
  "implements good chip (seq (lms_rxvga2_set_gain dev g) (\<lambda>_. lms_rxvga2_get_gain dev))
     (seq (lms_rxvga2_set_gain ideal g) (\<lambda>_. lms_rxvga2_get_gain ideal))"
  "implements good chip (seq (lms_txvga1_set_gain dev g) (\<lambda>_. lms_txvga1_get_gain dev))
     (seq (lms_txvga1_set_gain ideal g) (\<lambda>_. lms_txvga1_get_gain ideal))"
  "implements good chip (seq (lms_txvga2_set_gain dev g) (\<lambda>_. lms_txvga2_get_gain dev))
     (seq (lms_txvga2_set_gain ideal g) (\<lambda>_. lms_txvga2_get_gain ideal))"
  by (intro lms_impl)+

end

lemma bw2uint_Ok: "lms_bw2uint bw = Ok (uint_bandwidths ! unat (lms_bw_code bw))"
  by (cases bw) (simp_all add: lms_bw2uint_def uint_bandwidths_def)

definition bw_hz :: "lms_bw \<Rightarrow> u32" where
  "bw_hz bw = uint_bandwidths ! unat (lms_bw_code bw)"

lemma bw_hz_simps:
  "bw_hz BW_28MHz = 28000000" "bw_hz BW_20MHz = 20000000" "bw_hz BW_14MHz = 14000000"
  "bw_hz BW_12MHz = 12000000" "bw_hz BW_10MHz = 10000000" "bw_hz BW_8p75MHz = 8750000"
  "bw_hz BW_7MHz = 7000000" "bw_hz BW_6MHz = 6000000" "bw_hz BW_5p5MHz = 5500000"
  "bw_hz BW_5MHz = 5000000" "bw_hz BW_3p84MHz = 3840000" "bw_hz BW_3MHz = 3000000"
  "bw_hz BW_2p75MHz = 2750000" "bw_hz BW_2p5MHz = 2500000" "bw_hz BW_1p75MHz = 1750000"
  "bw_hz BW_1p5MHz = 1500000"
  by (simp_all add: bw_hz_def uint_bandwidths_def)

lemma uint2bw_le:
  "req \<le> bw_hz bw \<Longrightarrow> bw_hz (lms_uint2bw req) \<le> bw_hz bw \<and> req \<le> bw_hz (lms_uint2bw req)"
  unfolding lms_uint2bw_def word_le_nat_alt
  by (cases bw; simp only: bw_hz_simps; simp add: bw_hz_simps split: if_split; linarith)

section \<open>Properties\<close>

text \<open>C18. Gain round trips through the whole stack: setting RXVGA1, RXVGA2, TXVGA1 or TXVGA2
  and reading the gain back, over the packets, the USB transaction and the firmware, returns
  the requested gain clamped to the stage's range (to a multiple of 3 dB on RXVGA2), and
  touches no register but the stage's own.\<close>

theorem gain_roundtrip:
  assumes "world_ok d"
  shows "(\<exists>d'. seq (lms_rxvga1_set_gain (regs_stack rt lg n) g)
                 (\<lambda>_. lms_rxvga1_get_gain (regs_stack rt lg n)) d = (Ok (clamp 5 30 g), d') \<and>
              world_ok d' \<and> (\<forall>a. a \<noteq> 0x76 \<longrightarrow> lms_chip d' a = lms_chip d a)) \<and>
         (\<exists>d'. seq (lms_rxvga2_set_gain (regs_stack rt lg n) g)
                 (\<lambda>_. lms_rxvga2_get_gain (regs_stack rt lg n)) d =
                 (Ok (3 * (clamp 0 30 g div 3)), d') \<and>
              world_ok d' \<and> (\<forall>a. a \<noteq> 0x65 \<longrightarrow> lms_chip d' a = lms_chip d a)) \<and>
         (\<exists>d'. seq (lms_txvga1_set_gain (regs_stack rt lg n) g)
                 (\<lambda>_. lms_txvga1_get_gain (regs_stack rt lg n)) d = (Ok (clamp (-35) (-4) g), d') \<and>
              world_ok d' \<and> (\<forall>a. a \<noteq> 0x41 \<longrightarrow> lms_chip d' a = lms_chip d a)) \<and>
         (\<exists>d'. seq (lms_txvga2_set_gain (regs_stack rt lg n) g)
                 (\<lambda>_. lms_txvga2_get_gain (regs_stack rt lg n)) d = (Ok (clamp 0 25 g), d') \<and>
              world_ok d' \<and> (\<forall>a. a \<noteq> 0x45 \<longrightarrow> lms_chip d' a = lms_chip d a))"
  by (intro conjI)
     (rule stack_single_register [OF regs.impl_gain_roundtrips(1) assms gain_roundtrips_regs(1)]
           stack_single_register [OF regs.impl_gain_roundtrips(2) assms gain_roundtrips_regs(2)]
           stack_single_register [OF regs.impl_gain_roundtrips(3) assms gain_roundtrips_regs(3)]
           stack_single_register [OF regs.impl_gain_roundtrips(4) assms gain_roundtrips_regs(4)])+

lemma gain_roundtrip_witness:
  "\<exists>d'. seq (lms_txvga1_set_gain (regs_stack (\<lambda>p s. (p, s)) (\<lambda>p s. (p, s)) 40) (-80))
          (\<lambda>_. lms_txvga1_get_gain (regs_stack (\<lambda>p s. (p, s)) (\<lambda>p s. (p, s)) 40))
          (fresh_world (\<lambda>a. 0, False)) = (Ok (-35), d')"
  using gain_roundtrip [OF fresh_world_ok, of "\<lambda>p s. (p, s)" "\<lambda>p s. (p, s)" 40 "-80"
      "(\<lambda>a. 0, False)"]
  by (auto simp: clamp_def)

text \<open>Filter bandwidth and filter mode of a channel are independent settings: setting the
  bandwidth reads back and leaves the mode of both channels as it was, and setting the mode
  reads back and leaves both bandwidths as they were.\<close>

lemma lpf_settings_independent:
  assumes "lms_set_bandwidth regs_dev m bw r = (Ok (), r1)"
    and "lms_lpf_set_mode regs_dev m mode r = (Ok (), r2)"
  shows "lms_get_bandwidth regs_dev m r1 = (Ok bw, r1) \<and>
         fst (lms_lpf_get_mode regs_dev m' r1) = fst (lms_lpf_get_mode regs_dev m' r) \<and>
         lms_lpf_get_mode regs_dev m r2 = (Ok mode, r2) \<and>
         fst (lms_get_bandwidth regs_dev m' r2) = fst (lms_get_bandwidth regs_dev m' r)"
  using bandwidth_after_set [OF assms(1)] lpf_mode_after_set [OF assms(2)] by simp

lemma lpf_settings_independent_witness:
  "\<exists>r1 r2. lms_set_bandwidth regs_dev BLADERF_MODULE_TX BW_7MHz (\<lambda>a. 0x02) = (Ok (), r1) \<and>
     lms_get_bandwidth regs_dev BLADERF_MODULE_TX r1 = (Ok BW_7MHz, r1) \<and>
     lms_lpf_set_mode regs_dev BLADERF_MODULE_TX BLADERF_LPF_BYPASSED (\<lambda>a. 0x02) = (Ok (), r2) \<and>
     lms_lpf_get_mode regs_dev BLADERF_MODULE_TX r2 = (Ok BLADERF_LPF_BYPASSED, r2)"
proof -
  obtain r1 r2 where
    "lms_set_bandwidth regs_dev BLADERF_MODULE_TX BW_7MHz (\<lambda>a. 0x02) = (Ok (), r1)"
    "lms_lpf_set_mode regs_dev BLADERF_MODULE_TX BLADERF_LPF_BYPASSED (\<lambda>a. 0x02) = (Ok (), r2)"
    by (simp add: iosimps lms_lpf_set_mode_regs)
  with lpf_settings_independent [OF this] show ?thesis by blast
qed

text \<open>\<open>lms_uint2bw\<close> selects the smallest filter bandwidth that covers the request, and the
  largest one when none does; the table lookup \<open>lms_bw2uint\<close> never fails.\<close>

lemma uint2bw_smallest:
  "\<exists>v. lms_bw2uint (lms_uint2bw req) = Ok v \<and> (req \<le> 28000000 \<longrightarrow> req \<le> v) \<and>
       (\<forall>bw w. lms_bw2uint bw = Ok w \<longrightarrow> req \<le> w \<longrightarrow> v \<le> w) \<and>
       (28000000 < req \<longrightarrow> lms_uint2bw req = BW_28MHz)"
proof -
  have "28000000 < req \<longrightarrow> lms_uint2bw req = BW_28MHz"
    unfolding lms_uint2bw_def word_less_nat_alt word_le_nat_alt by simp
  then show ?thesis
    using uint2bw_le [of req] uint2bw_le [of req BW_28MHz]
    by (auto simp: bw2uint_Ok bw_hz_def [symmetric] bw_hz_simps(1))
qed

lemma uint2bw_smallest_witness:
  "lms_uint2bw 30000000 = BW_28MHz \<and>
   (\<exists>v. lms_bw2uint (lms_uint2bw 3000001) = Ok v \<and> 3000001 \<le> v \<and> v \<le> 3840000)"
  using uint2bw_smallest [of 30000000] uint2bw_smallest [of 3000001]
  by (auto simp: lms_bw2uint_def uint_bandwidths_def lms_uint2bw_def)

end
