(* ===== verification/Lms_Tune.thy ===== *)
theory Lms_Tune
  imports Complex_Main Lms_Analog
begin

unbundle bit_operations_syntax

text \<open>
  Frequency synthesis of the LMS6002D driver (\<^verbatim>\<open>fpga_common/src/lms.c\<close>): tuning
  parameters from a frequency in Hz, the PLL registers, the VCO capacitance search against
  the VTUNE comparator, band selection and the read-back of the current frequency. Loops
  with a retry limit recurse on the retries left. The estimate of the VCO capacitance is
  computed in single precision in C; \<open>float32\<close> rounds a rational to 24 significant bits,
  ties to even, as IEEE arithmetic with \<^verbatim>\<open>FLT_EVAL_METHOD 0\<close> does.
\<close>

section \<open>Tuning parameters\<close>

record lms_freq =
  freqsel :: u8
  vcocap :: u8
  nint :: u16
  nfrac :: u32
  flags :: u8
  xb_gpio :: u8
  vco_x :: u8
  vcocap_result :: u8

definition zero_freq :: lms_freq where
  \<comment> \<open>an all-zero instance\<close>
  "zero_freq = \<lparr>freqsel = 0, vcocap = 0, nint = 0, nfrac = 0, flags = 0, xb_gpio = 0, vco_x = 0,
                vcocap_result = 0\<rparr>"

definition LMS_FREQ_FLAGS_LOW_BAND :: u8 where "LMS_FREQ_FLAGS_LOW_BAND = 1"
definition LMS_FREQ_FLAGS_FORCE_VCOCAP :: u8 where "LMS_FREQ_FLAGS_FORCE_VCOCAP = 2"
definition LMS_REFERENCE_HZ :: u32 where "LMS_REFERENCE_HZ = 38400000"
definition BLADERF_FREQUENCY_MIN :: u32 where "BLADERF_FREQUENCY_MIN = 237500000"
definition BLADERF_FREQUENCY_MAX :: u32 where "BLADERF_FREQUENCY_MAX = 3800000000"
definition BLADERF1_BAND_HIGH :: u32 where "BLADERF1_BAND_HIGH = 1500000000"
definition VCOCAP_MAX_VALUE :: u8 where "VCOCAP_MAX_VALUE = 0x3f"

lemmas lms_freq_consts = LMS_FREQ_FLAGS_LOW_BAND_def LMS_FREQ_FLAGS_FORCE_VCOCAP_def
  LMS_REFERENCE_HZ_def BLADERF_FREQUENCY_MIN_def BLADERF_FREQUENCY_MAX_def
  BLADERF1_BAND_HIGH_def VCOCAP_MAX_VALUE_def

definition bands :: "(u32 \<times> u32 \<times> u8) list" where
  \<comment> \<open>low, high and FREQSEL value, VCO in bits [5:3] and divider in bits [2:0]\<close>
  "bands =
     [( 237500000,  283437500, 0x27), ( 283437500,  338000000, 0x2f),
      ( 338000000,  405000000, 0x37), ( 405000000,  475000000, 0x3f),
      ( 475000000,  566875000, 0x26), ( 566875000,  676000000, 0x2e),
      ( 676000000,  810000000, 0x36), ( 810000000,  950000000, 0x3e),
      ( 950000000, 1133750000, 0x25), (1133750000, 1352000000, 0x2d),
      (1352000000, 1620000000, 0x35), (1620000000, 1900000000, 0x3d),
      (1900000000, 2267500000, 0x24), (2267500000, 2704000000, 0x2c),
      (2704000000, 3240000000, 0x34), (3240000000, 3800000000, 0x3c)]"

fun f32_ulp :: "nat \<Rightarrow> rat \<Rightarrow> rat \<Rightarrow> rat" where
  \<comment> \<open>the power of two \<open>u\<close> with \<open>2^23 u \<le> x < 2^24 u\<close>; the fuel bounds the exponent search\<close>
  "f32_ulp 0 x u = u"
| "f32_ulp (Suc n) x u =
     (if x < 8388608 * u then f32_ulp n x (u / 2)
      else if 16777216 * u \<le> x then f32_ulp n x (2 * u) else u)"

definition round_half_even :: "rat \<Rightarrow> int" where
  "round_half_even y =
     (let f = \<lfloor>y\<rfloor>; r = y - of_int f in
      if r < 1 / 2 then f else if r > 1 / 2 then f + 1 else if even f then f else f + 1)"

definition float32 :: "rat \<Rightarrow> rat" where
  \<comment> \<open>rounding of a non-negative value in the normal range\<close>
  "float32 x =
     (if x = 0 then 0 else let u = f32_ulp 128 x 1 in of_int (round_half_even (x / u)) * u)"

definition estimate_vcocap :: "u32 \<Rightarrow> u32 \<Rightarrow> u32 \<Rightarrow> u8" where
  "estimate_vcocap f_target f_low f_high =
     (let denom = float32 (of_nat (unat (f_high - f_low)));
          f_diff = float32 (of_nat (unat (f_target - f_low)));
          cap = \<lfloor>float32 (float32 (40 / denom) * f_diff) + 1 / 2 + 15\<rfloor> in
      if cap > 0x3f then 0x3f else word_of_int cap)"

fun find_band :: "u32 \<Rightarrow> (u32 \<times> u32 \<times> u8) list \<Rightarrow> (u32 \<times> u32 \<times> u8) option" where
  "find_band freq [] = None"
| "find_band freq ((low, high, val) # bs) =
     (if freq \<ge> low \<and> freq \<le> high then Some (low, high, val) else find_band freq bs)"

definition lms_calculate_tuning_params :: "u32 \<Rightarrow> lms_freq \<Rightarrow> lms_freq outcome" where
  "lms_calculate_tuning_params freq f =
     (let freq = (if freq < BLADERF_FREQUENCY_MIN then BLADERF_FREQUENCY_MIN
                  else if freq > BLADERF_FREQUENCY_MAX then BLADERF_FREQUENCY_MAX
                  else freq);
          ref_clock = ucast LMS_REFERENCE_HZ :: u64 in
      case find_band freq bands of
        None \<Rightarrow> Err BLADERF_ERR_UNEXPECTED
      | Some (low, high, fsel) \<Rightarrow>
          (let x = push_bit (unat (fsel AND 7) - 3) 1 :: u64;
               temp = (x * ucast freq) div ref_clock in
           if temp > 0xffff then Undef
           else
             (let ni = ucast temp :: u16;
                  temp = push_bit 23 1 * (x * ucast freq - ucast ni * ref_clock);
                  temp = (temp + ref_clock div 2) div ref_clock in
              if temp > 0xffffffff \<or> x > 0xff then Undef
              else Ok (f\<lparr>vcocap := estimate_vcocap freq low high,
                         vco_x := ucast x, nint := ni, nfrac := ucast temp,
                         freqsel := fsel, xb_gpio := 0,
                         flags := (if freq < BLADERF1_BAND_HIGH
                                   then LMS_FREQ_FLAGS_LOW_BAND else 0)\<rparr>))))"

definition lms_frequency_to_hz :: "lms_freq \<Rightarrow> u32 outcome" where
  \<comment> \<open>a zero divider is a division by zero\<close>
  "lms_frequency_to_hz f =
     (let pll_coeff = push_bit 23 (ucast (nint f) :: u64) + ucast (nfrac f);
          dv = push_bit 23 (ucast (vco_x f) :: u32) in
      if dv = 0 then Undef
      else Ok (ucast ((ucast LMS_REFERENCE_HZ * pll_coeff + ucast (drop_bit 1 dv)) div ucast dv)))"

section \<open>Loopback state and PLL configuration\<close>

definition lms_get_loopback_mode :: "'s lms_backend \<Rightarrow> ('s, bladerf_loopback) io" where
  "lms_get_loopback_mode dev =
     seq (lms_read dev 0x08) (\<lambda>lben_lbrfen.
     seq (lms_read dev 0x46) (\<lambda>loopbben.
     ret (if lben_lbrfen AND 7 = 1 then BLADERF_LB_RF_LNA1
          else if lben_lbrfen AND 7 = 2 then BLADERF_LB_RF_LNA2
          else if lben_lbrfen AND 7 = 3 then BLADERF_LB_RF_LNA3
          else if lben_lbrfen AND 0x70 = 0x20 \<and> loopbben AND 4 \<noteq> 0
          then BLADERF_LB_BB_TXLPF_RXVGA2
          else if lben_lbrfen AND 0x70 = 0x20 \<and> loopbben AND 8 \<noteq> 0
          then BLADERF_LB_BB_TXVGA1_RXVGA2
          else if lben_lbrfen AND 0x70 = 0x40 \<and> loopbben AND 4 \<noteq> 0
          then BLADERF_LB_BB_TXLPF_RXLPF
          else if lben_lbrfen AND 0x70 = 0x40 \<and> loopbben AND 8 \<noteq> 0
          then BLADERF_LB_BB_TXVGA1_RXLPF
          else BLADERF_LB_NONE)))"

definition is_loopback_enabled :: "'s lms_backend \<Rightarrow> ('s, bool) io" where
  "is_loopback_enabled dev =
     seq (lms_get_loopback_mode dev) (\<lambda>loopback. ret (loopback \<noteq> BLADERF_LB_NONE))"

definition write_pll_config ::
    "'s lms_backend \<Rightarrow> bladerf_module \<Rightarrow> u8 \<Rightarrow> bool \<Rightarrow> ('s, unit) io" where
  "write_pll_config dev md fsel low_band =
     (let addr = (if md = BLADERF_MODULE_TX then 0x15 else 0x25) in
      seq (lms_read dev addr) (\<lambda>regval.
      seq (is_loopback_enabled dev) (\<lambda>loopback.
      lms_write dev addr
        (if \<not> loopback then push_bit 2 fsel OR (if low_band then 1 else 2)
         else (regval AND NOT 0xfc) OR push_bit 2 fsel))))"

definition pll_base :: "bladerf_module \<Rightarrow> u8" where
  "pll_base md = (if md = BLADERF_MODULE_RX then 0x20 else 0x10)"

definition lms_get_frequency ::
    "'s lms_backend \<Rightarrow> bladerf_module \<Rightarrow> lms_freq \<Rightarrow> ('s, lms_freq) io" where
  \<comment> \<open>a FREQSEL divider code below 3 shifts by a negative amount\<close>
  "lms_get_frequency dev md f =
     (let base = pll_base md in
      seq (lms_read dev (base + 0)) (\<lambda>d0.
      seq (lms_read dev (base + 1)) (\<lambda>d1.
      seq (lms_read dev (base + 2)) (\<lambda>d2.
      seq (lms_read dev (base + 3)) (\<lambda>d3.
      seq (lms_read dev (base + 5)) (\<lambda>d5.
        let fsel = drop_bit 2 d5 in
        seq (assert_io (3 \<le> fsel AND 7)) (\<lambda>_.
        seq (lms_read dev (base + 9)) (\<lambda>d9.
        ret (f\<lparr>nint := push_bit 1 (ucast d0) OR ucast (drop_bit 7 (d1 AND 0x80)),
               nfrac := push_bit 16 (ucast d1 AND 0x7f) OR push_bit 8 (ucast d2) OR ucast d3,
               freqsel := fsel,
               vco_x := push_bit (unat (fsel AND 7) - 3) 1,
               vcocap := d9 AND 0x3f\<rparr>)))))))))"

section \<open>VCO capacitance search\<close>

definition VCO_HIGH :: u8 where "VCO_HIGH = 2"
definition VCO_NORM :: u8 where "VCO_NORM = 0"
definition VCO_LOW :: u8 where "VCO_LOW = 1"

lemmas vco_consts = VCO_HIGH_def VCO_NORM_def VCO_LOW_def

definition get_vtune :: "'s lms_backend \<Rightarrow> u8 \<Rightarrow> ('s, u8) io" where
  "get_vtune dev base = seq (lms_read dev (base + 10)) (\<lambda>vtune. ret (drop_bit 6 vtune))"

definition write_vcocap :: "'s lms_backend \<Rightarrow> u8 \<Rightarrow> u8 \<Rightarrow> u8 \<Rightarrow> ('s, unit) io" where
  "write_vcocap dev base cap st =
     seq (assert_io (cap \<le> VCOCAP_MAX_VALUE)) (\<lambda>_. lms_write dev (base + 9) (cap OR st))"

fun vtune_high_to_norm :: "nat \<Rightarrow> 's lms_backend \<Rightarrow> u8 \<Rightarrow> u8 \<Rightarrow> u8 \<Rightarrow> ('s, u8) io" where
  "vtune_high_to_norm 0 dev base cap st = fail BLADERF_ERR_UNEXPECTED"
| "vtune_high_to_norm (Suc i) dev base cap st =
     (if cap \<ge> VCOCAP_MAX_VALUE then ret VCOCAP_MAX_VALUE
      else seq (write_vcocap dev base (cap + 1) st) (\<lambda>_.
           seq (get_vtune dev base) (\<lambda>vtune.
           if vtune = VCO_NORM then ret cap
           else vtune_high_to_norm i dev base (cap + 1) st)))"

fun vtune_norm_to_high :: "nat \<Rightarrow> 's lms_backend \<Rightarrow> u8 \<Rightarrow> u8 \<Rightarrow> u8 \<Rightarrow> ('s, u8) io" where
  "vtune_norm_to_high 0 dev base cap st = fail BLADERF_ERR_UNEXPECTED"
| "vtune_norm_to_high (Suc i) dev base cap st =
     (if cap = 0 then ret 0
      else seq (write_vcocap dev base (cap - 1) st) (\<lambda>_.
           seq (get_vtune dev base) (\<lambda>vtune.
           if vtune = VCO_HIGH then ret (cap - 1)
           else vtune_norm_to_high i dev base (cap - 1) st)))"

fun vtune_low_to_norm :: "nat \<Rightarrow> 's lms_backend \<Rightarrow> u8 \<Rightarrow> u8 \<Rightarrow> u8 \<Rightarrow> ('s, u8) io" where
  "vtune_low_to_norm 0 dev base cap st = fail BLADERF_ERR_UNEXPECTED"
| "vtune_low_to_norm (Suc i) dev base cap st =
     (if cap = 0 then ret 0
      else seq (write_vcocap dev base (cap - 1) st) (\<lambda>_.
           seq (get_vtune dev base) (\<lambda>vtune.
           if vtune = VCO_NORM then ret cap
           else vtune_low_to_norm i dev base (cap - 1) st)))"

definition VTUNE_MAX_ITERATIONS :: nat where "VTUNE_MAX_ITERATIONS = 20"

fun poll_vtune :: "nat \<Rightarrow> 's lms_backend \<Rightarrow> u8 \<Rightarrow> u8 \<Rightarrow> ('s, bool) io" where
  \<comment> \<open>the retries of \<^verbatim>\<open>wait_for_vtune_value\<close> before it walks\<close>
  "poll_vtune 0 dev base target = ret False"
| "poll_vtune (Suc i) dev base target =
     seq (get_vtune dev base) (\<lambda>vtune.
     if vtune = target then ret True else poll_vtune i dev base target)"

fun walk_vcocap :: "nat \<Rightarrow> 's lms_backend \<Rightarrow> u8 \<Rightarrow> u8 \<Rightarrow> u8 \<Rightarrow> u8 \<Rightarrow> ('s, u8) io" where
  \<comment> \<open>its \<^verbatim>\<open>while (*vcocap != limit)\<close>; the fuel is the distance to the far limit\<close>
  "walk_vcocap n dev base target cap st =
     (let limit = (if target = VCO_HIGH then 0 else VCOCAP_MAX_VALUE);
          cap' = (if target = VCO_HIGH then cap - 1 else cap + 1) in
      if cap = limit then ret cap
      else case n of
        0 \<Rightarrow> undef_io
      | Suc n' \<Rightarrow>
          seq (write_vcocap dev base cap' st) (\<lambda>_.
          seq (get_vtune dev base) (\<lambda>vtune.
          if vtune = target then ret cap' else walk_vcocap n' dev base target cap' st)))"

declare walk_vcocap.simps [simp del]

definition wait_for_vtune_value ::
    "'s lms_backend \<Rightarrow> u8 \<Rightarrow> u8 \<Rightarrow> u8 \<Rightarrow> u8 \<Rightarrow> ('s, u8) io" where
  "wait_for_vtune_value dev base target cap st =
     seq (assert_io (target = VCO_HIGH \<or> target = VCO_LOW)) (\<lambda>_.
     seq (poll_vtune 15 dev base target) (\<lambda>reached.
     if reached then ret cap else walk_vcocap 64 dev base target cap st))"

definition tune_vcocap :: "'s lms_backend \<Rightarrow> u8 \<Rightarrow> u8 \<Rightarrow> u8 \<Rightarrow> ('s, u8) io" where
  "tune_vcocap dev est base st =
     seq (get_vtune dev base) (\<lambda>vtune.
     seq (if vtune = VCO_HIGH then
            seq (vtune_high_to_norm VTUNE_MAX_ITERATIONS dev base est st)
                (\<lambda>h. ret (h, 0))
          else if vtune = VCO_NORM then
            seq (vtune_norm_to_high VTUNE_MAX_ITERATIONS dev base est st)
                (\<lambda>h. ret (h, 0))
          else if vtune = VCO_LOW then
            seq (vtune_low_to_norm VTUNE_MAX_ITERATIONS dev base est st)
                (\<lambda>l. ret (VCOCAP_MAX_VALUE, l))
          else ret (VCOCAP_MAX_VALUE, 0)) (\<lambda>(high_limit, low_limit).
     seq (if high_limit \<noteq> VCOCAP_MAX_VALUE then
            seq (assert_io (vtune = VCO_HIGH \<or> vtune = VCO_NORM)) (\<lambda>_.
              let cap = (if uint high_limit + 12 < 0x3f then high_limit + 12
                         else VCOCAP_MAX_VALUE) in
              seq (write_vcocap dev base cap st) (\<lambda>_.
              seq (wait_for_vtune_value dev base VCO_LOW cap st) (\<lambda>cap.
              seq (vtune_low_to_norm VTUNE_MAX_ITERATIONS dev base cap st) (\<lambda>l.
              ret (high_limit, l)))))
          else
            seq (assert_io (vtune = VCO_LOW \<or> vtune = VCO_NORM)) (\<lambda>_.
              let cap = (if uint low_limit - 12 > 0 then low_limit - 12 else 0) in
              seq (write_vcocap dev base cap st) (\<lambda>_.
              seq (wait_for_vtune_value dev base VCO_HIGH cap st) (\<lambda>cap.
              seq (vtune_high_to_norm VTUNE_MAX_ITERATIONS dev base cap st) (\<lambda>h.
              ret (h, low_limit)))))) (\<lambda>(high_limit, low_limit).
       let cap = word_of_int (uint high_limit +
                   (let d = uint low_limit - uint high_limit in
                    if d < 0 then - (- d div 2) else d div 2)) in
       seq (write_vcocap dev base cap st) (\<lambda>_.
       seq (get_vtune dev base) (\<lambda>vtune.
       if vtune \<noteq> VCO_NORM then fail BLADERF_ERR_UNEXPECTED else ret cap)))))"

section \<open>Tuning\<close>

definition lms_select_band :: "'s lms_backend \<Rightarrow> bladerf_module \<Rightarrow> bool \<Rightarrow> ('s, unit) io" where
  "lms_select_band dev md low_band =
     seq (is_loopback_enabled dev) (\<lambda>loopback.
     if loopback then ret ()
     else if md = BLADERF_MODULE_TX then lms_select_pa dev (if low_band then PA_1 else PA_2)
     else lms_select_lna dev (if low_band then LNA_1 else LNA_2))"

definition dsm_off :: "'s lms_backend \<Rightarrow> ('s, unit) io" where
  \<comment> \<open>\<^verbatim>\<open>error:\<close> turn off the DSMs\<close>
  "dsm_off dev = seq (lms_read dev 0x09) (\<lambda>data. lms_write dev 0x09 (data AND NOT 0x05))"

definition program_pll ::
    "'s lms_backend \<Rightarrow> bool \<Rightarrow> bladerf_module \<Rightarrow> lms_freq \<Rightarrow> ('s, lms_freq) io" where
  \<comment> \<open>the part of \<^verbatim>\<open>lms_set_precalculated_frequency\<close> that fails through \<^verbatim>\<open>goto error\<close>\<close>
  "program_pll dev atomic md f =
     (let base = pll_base md; pll = (if atomic then base OR 0x80 else base) in
      seq (lms_read dev (base + 9)) (\<lambda>regst.
        let st = regst AND NOT 0x3f in
        seq (write_vcocap dev base (vcocap f) st) (\<lambda>_.
        seq (write_pll_config dev md (freqsel f)
               (flags f AND LMS_FREQ_FLAGS_LOW_BAND \<noteq> 0)) (\<lambda>_.
        seq (lms_write dev (pll + 0) (ucast (drop_bit 1 (nint f)))) (\<lambda>_.
        seq (lms_write dev (pll + 1)
               (ucast (push_bit 7 (nint f AND 1)) OR ucast (drop_bit 16 (nfrac f) AND 0x7f))) (\<lambda>_.
        seq (lms_write dev (pll + 2) (ucast (drop_bit 8 (nfrac f) AND 0xff))) (\<lambda>_.
        seq (lms_write dev (pll + 3) (ucast (nfrac f AND 0xff))) (\<lambda>_.
        if flags f AND LMS_FREQ_FLAGS_FORCE_VCOCAP \<noteq> 0
        then ret (f\<lparr>vcocap_result := vcocap f\<rparr>)
        else seq (tune_vcocap dev (vcocap f) base st) (\<lambda>cap.
             ret (f\<lparr>vcocap_result := cap\<rparr>))))))))))"

definition lms_set_precalculated_frequency ::
    "'s lms_backend \<Rightarrow> bool \<Rightarrow> bladerf_module \<Rightarrow> lms_freq \<Rightarrow> ('s, lms_freq) io" where
  \<comment> \<open>\<open>atomic\<close>: the board has \<^verbatim>\<open>BLADERF_CAP_ATOMIC_NINT_NFRAC_WRITE\<close>\<close>
  "lms_set_precalculated_frequency dev atomic md f =
     seq (lms_read dev 0x09) (\<lambda>data.
     seq (lms_write dev 0x09 (data OR 0x05)) (\<lambda>_.
     attempt (program_pll dev atomic md f) (\<lambda>status.
     attempt (dsm_off dev) (\<lambda>dsm_status.
     seq (status_io status) (\<lambda>f.
     seq (status_io dsm_status) (\<lambda>_. ret f))))))"

definition lms_set_frequency ::
    "'s lms_backend \<Rightarrow> bool \<Rightarrow> bladerf_module \<Rightarrow> u32 \<Rightarrow> lms_freq \<Rightarrow> ('s, lms_freq) io" where
  \<comment> \<open>the last argument is the uninitialised local structure\<close>
  "lms_set_frequency dev atomic md freq f =
     seq (status_io (lms_calculate_tuning_params freq f))
         (lms_set_precalculated_frequency dev atomic md)"

record bladerf_quick_tune =
  qt_freqsel :: u8
  qt_vcocap :: u8
  qt_nint :: u16
  qt_nfrac :: u32
  qt_flags :: u8
  qt_xb_gpio :: u8

definition quick_tune_xb_gpio :: "bool \<Rightarrow> u32 \<Rightarrow> u8" where
  \<comment> \<open>the XB-200 switch settings packed from the expansion GPIO\<close>
  "quick_tune_xb_gpio rx val =
     (if rx then 0x80 OR 0x40 OR push_bit 2 (ucast (drop_bit 4 (val AND 0x30)))
                 OR push_bit 4 (ucast (drop_bit 28 (val AND 0x30000000)))
      else 0x80 OR push_bit 4 (ucast (drop_bit 2 (val AND 0x0c)))
                OR push_bit 2 (ucast (drop_bit 26 (val AND 0x0c000000))))"

definition lms_get_quick_tune ::
    "'s lms_backend \<Rightarrow> ('s, u32) io \<Rightarrow> bool \<Rightarrow> bladerf_module \<Rightarrow> lms_freq \<Rightarrow>
     ('s, bladerf_quick_tune) io" where
  \<comment> \<open>\<open>gpio_read\<close> is the backend's \<^verbatim>\<open>expansion_gpio_read\<close>, \<open>xb200\<close> tells an attached XB-200\<close>
  "lms_get_quick_tune dev gpio_read xb200 md f =
     seq (lms_get_frequency dev md f) (\<lambda>f.
     seq gpio_read (\<lambda>val.
     seq (status_io (lms_frequency_to_hz f)) (\<lambda>hz.
     ret \<lparr>qt_freqsel = freqsel f, qt_vcocap = vcocap f, qt_nint = nint f, qt_nfrac = nfrac f,
          qt_flags = LMS_FREQ_FLAGS_FORCE_VCOCAP OR
            (if hz < BLADERF1_BAND_HIGH then LMS_FREQ_FLAGS_LOW_BAND else 0),
          qt_xb_gpio = (if xb200 then quick_tune_xb_gpio (md = BLADERF_MODULE_RX) val
                        else 0)\<rparr>)))"

section \<open>Implementation over a transport\<close>

context lms_transport
begin

lemma impl_pll_config [lms_impl]:
  "implements good chip (lms_get_loopback_mode dev) (lms_get_loopback_mode ideal)"
  "implements good chip (is_loopback_enabled dev) (is_loopback_enabled ideal)"
  "implements good chip (write_pll_config dev md fs lb) (write_pll_config ideal md fs lb)"
  "implements good chip (lms_get_frequency dev md f) (lms_get_frequency ideal md f)"
  "implements good chip (get_vtune dev base) (get_vtune ideal base)"
  "implements good chip (write_vcocap dev base cap st) (write_vcocap ideal base cap st)"
  unfolding is_loopback_enabled_def write_pll_config_def lms_get_loopback_mode_def
    lms_get_frequency_def get_vtune_def write_vcocap_def
  by (intro lms_impl)+

lemma impl_walks [lms_impl]:
  "implements good chip (vtune_high_to_norm n dev base cap st) (vtune_high_to_norm n ideal base cap st)"
  "implements good chip (vtune_norm_to_high n dev base cap st) (vtune_norm_to_high n ideal base cap st)"
  "implements good chip (vtune_low_to_norm n dev base cap st) (vtune_low_to_norm n ideal base cap st)"
  "implements good chip (poll_vtune n dev base t) (poll_vtune n ideal base t)"
  by (induction n arbitrary: cap) (auto intro!: lms_impl)

lemma impl_walk_vcocap [lms_impl]:
  "implements good chip (walk_vcocap n dev base t cap st) (walk_vcocap n ideal base t cap st)"
  by (induction n arbitrary: cap)
     (subst (1 2) walk_vcocap.simps, auto simp: Let_def intro!: lms_impl)+

lemma impl_tune_vcocap [lms_impl]:
  "implements good chip (wait_for_vtune_value dev base t cap st) (wait_for_vtune_value ideal base t cap st)"
  "implements good chip (tune_vcocap dev est base st) (tune_vcocap ideal est base st)"
  unfolding tune_vcocap_def wait_for_vtune_value_def by (intro lms_impl)+

lemma impl_tuning [lms_impl]:
  "implements good chip (lms_select_band dev md lb) (lms_select_band ideal md lb)"
  "implements good chip (dsm_off dev) (dsm_off ideal)"
  "implements good chip (program_pll dev atomic md f) (program_pll ideal atomic md f)"
  "implements good chip (lms_set_precalculated_frequency dev atomic md f)
     (lms_set_precalculated_frequency ideal atomic md f)"
  "implements good chip (lms_set_frequency dev atomic md freq f)
     (lms_set_frequency ideal atomic md freq f)"
  unfolding lms_select_band_def dsm_off_def lms_set_precalculated_frequency_def
    lms_set_frequency_def program_pll_def
  by (intro lms_impl)+

end

end
