(* ===== verification/Lms_Tune_Params.thy ===== *)
theory Lms_Tune_Params
  imports Lms_Tune
begin

unbundle bit_operations_syntax

text \<open>
  The tuning parameters of \<open>Lms_Tune\<close> against a reference computation on natural numbers: the
  64-bit arithmetic never wraps, the bands cover the whole range, the conversion back to Hz
  is accurate, the single-precision capacitance estimate stays in range, and where the
  fractional word exceeds its register field.
\<close>

section \<open>Correctness of the tuning parameters\<close>

text \<open>The reference computation on natural numbers.\<close>

definition pll_nint :: "nat \<Rightarrow> nat \<Rightarrow> nat" where
  "pll_nint x hz = (x * hz) div 38400000"

definition pll_nfrac :: "nat \<Rightarrow> nat \<Rightarrow> nat" where
  "pll_nfrac x hz = (8388608 * ((x * hz) mod 38400000) + 19200000) div 38400000"

definition band_shift :: "u8 \<Rightarrow> nat" where
  "band_shift fsel = unat (fsel AND 7) - 3"

lemma find_band_Some:
  "find_band f bs = Some (low, high, v) \<Longrightarrow> (low, high, v) \<in> set bs \<and> low \<le> f \<and> f \<le> high"
  by (induction f bs rule: find_band.induct) (auto split: if_splits)

lemma find_band_total:
  assumes "237500000 \<le> f" "f \<le> 3800000000"
  shows "\<exists>b. find_band f bands = Some b"
  using assms unfolding bands_def word_le_nat_alt
  by (simp add: word_le_nat_alt)

lemma band_facts:
  assumes "(low, high, v) \<in> set bands"
  shows "1 \<le> band_shift v" "band_shift v \<le> 4" "3 \<le> v AND 7" "v \<le> 0x3f"
    "3800000000 \<le> 2 ^ band_shift v * unat low" "2 ^ band_shift v * unat high \<le> 7600000000"
    "low < high" "unat high - unat low < 2 ^ 30"
  using assms unfolding bands_def by (auto simp: band_shift_def)

lemma u64_mult:
  fixes a b :: u64
  assumes "unat a * unat b < 2 ^ 64"
  shows "unat (a * b) = unat a * unat b"
  using assms by (simp add: unat_word_ariths)

lemma u64_add:
  fixes a b :: u64
  assumes "unat a + unat b < 2 ^ 64"
  shows "unat (a + b) = unat a + unat b"
  using assms by (simp add: unat_word_ariths)

lemma unat_ucast_up:
  "unat (ucast (w :: u32) :: u64) = unat w" "unat (ucast (v :: u16) :: u64) = unat v"
proof -
  have "unat w < 2 ^ 32" "unat v < 2 ^ 16"
    using unsigned_less [of w] unsigned_less [of v] by simp_all
  then show "unat (ucast w :: u64) = unat w" "unat (ucast v :: u64) = unat v"
    by (simp_all add: unsigned_ucast_eq take_bit_nat_eq_self)
qed

lemma unat_pow2_u64: "k \<le> 4 \<Longrightarrow> unat (2 ^ k :: u64) = 2 ^ k"
proof -
  assume "k \<le> 4"
  then have "k = 0 \<or> k = 1 \<or> k = 2 \<or> k = 3 \<or> k = 4" by auto
  then show ?thesis by (elim disjE) simp_all
qed

lemma pll_bounds:
  assumes "x * hz \<le> 7600000000"
  shows "pll_nint x hz \<le> 197" "pll_nfrac x hz \<le> 8388608"
proof -
  show "pll_nint x hz \<le> 197"
    using div_le_mono [OF assms, of 38400000] by (simp add: pll_nint_def)
  have "(x * hz) mod 38400000 \<le> 38399999" by (simp add: less_Suc_eq_le [symmetric])
  then have "8388608 * ((x * hz) mod 38400000) + 19200000 \<le> 8388608 * 38399999 + 19200000"
    by simp
  from div_le_mono [OF this, of 38400000] show "pll_nfrac x hz \<le> 8388608"
    by (simp add: pll_nfrac_def)
qed

lemma tuning_words:
  fixes freq :: u32
  assumes "k \<le> 4" "2 ^ k * unat freq \<le> 7600000000"
  defines "N \<equiv> push_bit k 1 * ucast freq :: u64"
  defines "D \<equiv> push_bit 23 1 * (N - ucast (ucast (N div 38400000) :: u16) * 38400000) :: u64"
  shows "unat (N div 38400000) = pll_nint (2 ^ k) (unat freq)"
    and "unat ((D + 19200000) div 38400000) = pll_nfrac (2 ^ k) (unat freq)"
proof -
  have N: "unat N = 2 ^ k * unat freq"
    unfolding N_def using assms(1,2)
    by (subst u64_mult) (simp_all add: unat_pow2_u64 unat_ucast_up)
  show q: "unat (N div 38400000) = pll_nint (2 ^ k) (unat freq)"
    by (simp add: unat_div N pll_nint_def)
  have "unat (N div 38400000) \<le> 197" using q pll_bounds(1) [OF assms(2)] by simp
  then have c: "unat (ucast (ucast (N div 38400000) :: u16) :: u64) = pll_nint (2 ^ k) (unat freq)"
    unfolding unat_ucast_up using q by (simp add: unsigned_ucast_eq take_bit_nat_eq_self)
  have m: "unat (ucast (ucast (N div 38400000) :: u16) * 38400000 :: u64) =
           pll_nint (2 ^ k) (unat freq) * 38400000"
    using c pll_bounds(1) [OF assms(2)] by (subst u64_mult) simp_all
  have "pll_nint (2 ^ k) (unat freq) * 38400000 \<le> 2 ^ k * unat freq"
    unfolding pll_nint_def by (rule div_times_less_eq_dividend)
  then have d: "unat (N - ucast (ucast (N div 38400000) :: u16) * 38400000) =
            (2 ^ k * unat freq) mod 38400000"
    using N m by (simp add: unat_sub word_le_nat_alt minus_div_mult_eq_mod pll_nint_def)
  have r: "(2 ^ k * unat freq) mod 38400000 < 38400000" by simp
  have D: "unat D = 8388608 * ((2 ^ k * unat freq) mod 38400000)"
    unfolding D_def using d r by (subst u64_mult) (simp_all add: push_bit_eq_mult)
  show "unat ((D + 19200000) div 38400000) = pll_nfrac (2 ^ k) (unat freq)"
    using D r by (simp add: unat_div u64_add pll_nfrac_def)
qed

lemma calculate_tuning_params_ok:
  assumes "237500000 \<le> freq" "freq \<le> 3800000000"
  shows "\<exists>low high v. (low, high, v) \<in> set bands \<and> low \<le> freq \<and> freq \<le> high \<and>
     lms_calculate_tuning_params freq f =
       Ok (f\<lparr>vcocap := estimate_vcocap freq low high,
             vco_x := push_bit (band_shift v) 1,
             nint := of_nat (pll_nint (2 ^ band_shift v) (unat freq)),
             nfrac := of_nat (pll_nfrac (2 ^ band_shift v) (unat freq)),
             freqsel := v, xb_gpio := 0,
             flags := (if freq < 1500000000 then 1 else 0)\<rparr>)"
proof -
  obtain low high v where b: "find_band freq bands = Some (low, high, v)"
    using find_band_total [OF assms] by auto
  note v = find_band_Some [OF this]
  note bf = band_facts [of low high v]
  let ?k = "band_shift v"
  have "unat freq \<le> unat high" using v by (simp add: word_le_nat_alt)
  then have le: "2 ^ ?k * unat freq \<le> 7600000000"
    using bf(6) v mult_le_mono2 order_trans by meson
  let ?N = "2 ^ ?k * ucast freq :: u64"
  let ?q = "?N div 38400000"
  let ?t = "(8388608 * (?N - ucast (ucast ?q :: u16) * 38400000) + 19200000) div 38400000 :: u64"
  have q: "unat ?q = pll_nint (2 ^ ?k) (unat freq)"
    and t: "unat ?t = pll_nfrac (2 ^ ?k) (unat freq)"
    using tuning_words [OF _ le] bf(2) v by (simp_all add: push_bit_eq_mult)
  have small: "\<not> ?q > 0xffff" "\<not> ?t > 0xffffffff" "\<not> (2 ^ ?k :: u64) > 0xff"
    using q t pll_bounds [OF le] bf(2) v power_increasing [of ?k 4 "2::nat"]
    by (simp_all add: word_less_nat_alt unat_pow2_u64)
  have conv: "(ucast ?q :: u16) = of_nat (pll_nint (2 ^ ?k) (unat freq))"
    "(ucast ?t :: u32) = of_nat (pll_nfrac (2 ^ ?k) (unat freq))"
    unfolding q [symmetric] t [symmetric] by simp_all
  have clip: "\<not> freq < 237500000" "\<not> 3800000000 < freq" using assms by auto
  have "?k = 1 \<or> ?k = 2 \<or> ?k = 3 \<or> ?k = 4" using bf(1,2) v by linarith
  then have x: "(ucast (2 ^ ?k :: u64) :: u8) = 2 ^ ?k" by (elim disjE) simp_all
  have "lms_calculate_tuning_params freq f =
       Ok (f\<lparr>vcocap := estimate_vcocap freq low high,
             vco_x := push_bit (band_shift v) 1,
             nint := of_nat (pll_nint (2 ^ band_shift v) (unat freq)),
             nfrac := of_nat (pll_nfrac (2 ^ band_shift v) (unat freq)),
             freqsel := v, xb_gpio := 0,
             flags := (if freq < 1500000000 then 1 else 0)\<rparr>)"
    using b clip small conv x
    by (simp add: lms_calculate_tuning_params_def lms_freq_consts Let_def band_shift_def)
  with v show ?thesis by blast
qed

text \<open>Converting tuning parameters back: within half a PLL step, hence within 1 Hz.\<close>

lemma frequency_to_hz_nat:
  assumes "vco_x f = push_bit k 1" "1 \<le> k" "k \<le> 4"
    and "unat (nint f) \<le> 1000" "unat (nfrac f) \<le> 8388608"
  shows "lms_frequency_to_hz f =
     Ok (of_nat ((38400000 * (8388608 * unat (nint f) + unat (nfrac f)) + 2 ^ (k + 22)) div
                 2 ^ (k + 23)))"
proof -
  let ?p = "push_bit 23 (ucast (nint f) :: u64) + ucast (nfrac f)"
  have p: "unat ?p = 8388608 * unat (nint f) + unat (nfrac f)"
  proof -
    have "unat (push_bit 23 (ucast (nint f)) :: u64) = 8388608 * unat (nint f)"
      unfolding push_bit_eq_mult using assms(4)
      by (subst mult.commute, subst u64_mult) (simp_all add: unat_ucast_up)
    then show ?thesis using assms(4,5) by (subst u64_add) (simp_all add: unat_ucast_up)
  qed
  have k: "k = 1 \<or> k = 2 \<or> k = 3 \<or> k = 4" using assms(2,3) by linarith
  have dv: "push_bit 23 (ucast (vco_x f) :: u32) = 2 ^ (k + 23)"
    "drop_bit 1 (2 ^ (k + 23) :: u32) = 2 ^ (k + 22)"
    "unat (ucast (2 ^ (k + 23) :: u32) :: u64) = 2 ^ (k + 23)"
    "unat (ucast (2 ^ (k + 22) :: u32) :: u64) = 2 ^ (k + 22)"
    "(2 ^ (k + 23) :: u32) \<noteq> 0"
    using k assms(1) by (elim disjE; simp)+
  let ?n = "38400000 * ?p + ucast (2 ^ (k + 22) :: u32) :: u64"
  have "2 ^ (k + 22) \<le> (2 ^ 26 :: nat)" using assms(3) by (intro power_increasing) simp_all
  then have n: "unat ?n = 38400000 * (8388608 * unat (nint f) + unat (nfrac f)) + 2 ^ (k + 22)"
    using p dv(4) assms(4,5)
    by (subst u64_add; subst u64_mult; simp add: u64_mult)
  have "lms_frequency_to_hz f = Ok (ucast (?n div ucast (2 ^ (k + 23) :: u32)))"
    using dv(5) by (simp add: lms_frequency_to_hz_def Let_def dv(1) dv(2) [unfolded One_nat_def] lms_freq_consts)
  also have "ucast (?n div ucast (2 ^ (k + 23) :: u32)) =
      (of_nat (unat (?n div ucast (2 ^ (k + 23) :: u32))) :: u32)" by simp
  finally show ?thesis by (simp only: unat_div n dv(3))
qed

lemma pll_error:
  assumes "x * hz \<le> 7600000000" "x = 2 ^ k" "1 \<le> k" "k \<le> 4"
  defines "c \<equiv> 8388608 * pll_nint x hz + pll_nfrac x hz"
  shows "(38400000 * c + 2 ^ (k + 22)) div 2 ^ (k + 23) \<le> hz + 1"
    and "hz \<le> (38400000 * c + 2 ^ (k + 22)) div 2 ^ (k + 23) + 1"
    and "3 \<le> k \<Longrightarrow> (38400000 * c + 2 ^ (k + 22)) div 2 ^ (k + 23) = hz"
proof -
  let ?m = "(x * hz) mod 38400000"
  let ?e = "8388608 * ?m + 19200000"
  have xhz: "x * hz = 38400000 * pll_nint x hz + ?m" by (simp add: pll_nint_def)
  have nf: "38400000 * pll_nfrac x hz \<le> ?e" "?e < 38400000 * pll_nfrac x hz + 38400000"
    unfolding pll_nfrac_def by linarith+
  have up: "38400000 * c \<le> 8388608 * (x * hz) + 19200000"
    and lo: "8388608 * (x * hz) < 38400000 * c + 19200000 + 1"
    unfolding c_def using xhz nf by (simp_all add: algebra_simps)
  have k: "k = 1 \<or> k = 2 \<or> k = 3 \<or> k = 4" using assms(3,4) by auto
  show "(38400000 * c + 2 ^ (k + 22)) div 2 ^ (k + 23) \<le> hz + 1"
    using k up assms(2) by (elim disjE; simp; linarith?)
  show "hz \<le> (38400000 * c + 2 ^ (k + 22)) div 2 ^ (k + 23) + 1"
    using k lo assms(2) by (elim disjE; simp; linarith?)
  show "3 \<le> k \<Longrightarrow> (38400000 * c + 2 ^ (k + 22)) div 2 ^ (k + 23) = hz"
    using k up lo assms(2) by (elim disjE; simp; linarith?)
qed

lemma pll_nfrac_max:
  assumes "1 \<le> k" "k \<le> 4"
  shows "pll_nfrac (2 ^ k) hz = 8388608 \<longleftrightarrow> k = 1 \<and> hz mod 19200000 = 19199999"
proof -
  let ?m = "(2 ^ k * hz) mod 38400000"
  have k: "k = 1 \<or> k = 2 \<or> k = 3 \<or> k = 4" using assms by linarith
  have m: "?m < 38400000" by simp
  have "pll_nfrac (2 ^ k) hz = 8388608 \<longleftrightarrow> 38399998 \<le> ?m"
    unfolding pll_nfrac_def using m by linarith
  moreover have "38399998 \<le> ?m \<longleftrightarrow> k = 1 \<and> hz mod 19200000 = 19199999"
    using k
  proof (elim disjE)
    assume "k = 1"
    moreover have "(2 * hz) mod 38400000 = 2 * (hz mod 19200000)"
      using mult_mod_right [of 2 hz 19200000] by simp
    ultimately show ?thesis by (simp, linarith?)
  next
    assume "k = 2"
    moreover have "(4 * hz) mod 38400000 = 4 * (hz mod 9600000)"
      using mult_mod_right [of 4 hz 9600000] by simp
    ultimately show ?thesis by (simp, linarith?)
  next
    assume "k = 3"
    moreover have "(8 * hz) mod 38400000 = 8 * (hz mod 4800000)"
      using mult_mod_right [of 8 hz 4800000] by simp
    ultimately show ?thesis by (simp, linarith?)
  next
    assume "k = 4"
    moreover have "(16 * hz) mod 38400000 = 16 * (hz mod 2400000)"
      using mult_mod_right [of 16 hz 2400000] by simp
    ultimately show ?thesis by (simp, linarith?)
  qed
  ultimately show ?thesis by blast
qed

lemma tuning_params_sound:
  assumes "237500000 \<le> freq" "freq \<le> 3800000000"
  obtains p k where "lms_calculate_tuning_params freq f = Ok p"
    and "1 \<le> k" "k \<le> 4" "k < 3 \<longrightarrow> 950000000 \<le> freq" "vco_x p = push_bit k 1"
    and "2 ^ k * unat freq \<le> 7600000000" "3800000000 \<le> 2 ^ k * unat freq"
    and "unat (nint p) = pll_nint (2 ^ k) (unat freq)"
    and "unat (nfrac p) = pll_nfrac (2 ^ k) (unat freq)"
    and "band_shift (freqsel p) = k" "3 \<le> freqsel p AND 7" "freqsel p \<le> 0x3f"
    and "\<exists>low high. (low, high, freqsel p) \<in> set bands \<and> low \<le> freq \<and> freq \<le> high \<and>
           vcocap p = estimate_vcocap freq low high"
    and "flags p = (if freq < 1500000000 then 1 else 0)"
proof -
  obtain low high v where b: "(low, high, v) \<in> set bands" "low \<le> freq" "freq \<le> high"
    and p: "lms_calculate_tuning_params freq f =
       Ok (f\<lparr>vcocap := estimate_vcocap freq low high,
             vco_x := push_bit (band_shift v) 1,
             nint := of_nat (pll_nint (2 ^ band_shift v) (unat freq)),
             nfrac := of_nat (pll_nfrac (2 ^ band_shift v) (unat freq)),
             freqsel := v, xb_gpio := 0,
             flags := (if freq < 1500000000 then 1 else 0)\<rparr>)"
    using calculate_tuning_params_ok [OF assms] by blast
  note bf = band_facts [OF b(1)]
  have n: "unat low \<le> unat freq" "unat freq \<le> unat high"
    using b by (simp_all add: word_le_nat_alt)
  then have le: "2 ^ band_shift v * unat freq \<le> 7600000000"
    and ge: "3800000000 \<le> 2 ^ band_shift v * unat freq"
    using bf(5,6) mult_le_mono2 order_trans by meson+
  have w: "unat (of_nat (pll_nint (2 ^ band_shift v) (unat freq)) :: u16) =
             pll_nint (2 ^ band_shift v) (unat freq)"
    "unat (of_nat (pll_nfrac (2 ^ band_shift v) (unat freq)) :: u32) =
             pll_nfrac (2 ^ band_shift v) (unat freq)"
    using pll_bounds [OF le] by (simp_all add: unsigned_of_nat take_bit_nat_eq_self)
  have "band_shift v < 3 \<longrightarrow> 950000000 \<le> freq"
  proof
    assume "band_shift v < 3"
    then have "band_shift v = 1 \<or> band_shift v = 2" using bf(1) by linarith
    then show "950000000 \<le> freq" using ge by (elim disjE) (simp_all add: word_le_nat_alt)
  qed
  with that [OF p bf(1,2)] le ge w bf(3,4) b show ?thesis by auto
qed

definition clip_frequency :: "u32 \<Rightarrow> u32" where
  \<comment> \<open>the nearest frequency the synthesizer covers\<close>
  "clip_frequency freq = max BLADERF_FREQUENCY_MIN (min freq BLADERF_FREQUENCY_MAX)"

lemma clip_frequency_range:
  "237500000 \<le> clip_frequency freq" "clip_frequency freq \<le> 3800000000"
  by (simp_all add: clip_frequency_def lms_freq_consts)

lemma calculate_tuning_params_clip:
  "lms_calculate_tuning_params freq f = lms_calculate_tuning_params (clip_frequency freq) f"
proof -
  have "(if freq < BLADERF_FREQUENCY_MIN then BLADERF_FREQUENCY_MIN
         else if freq > BLADERF_FREQUENCY_MAX then BLADERF_FREQUENCY_MAX else freq) =
        clip_frequency freq"
    using order.strict_trans [of "3800000000" freq "237500000"]
    by (auto simp: clip_frequency_def max_def min_def lms_freq_consts)
  moreover have "(if clip_frequency freq < BLADERF_FREQUENCY_MIN then BLADERF_FREQUENCY_MIN
         else if clip_frequency freq > BLADERF_FREQUENCY_MAX then BLADERF_FREQUENCY_MAX
         else clip_frequency freq) = clip_frequency freq"
    by (auto simp: clip_frequency_def max_def min_def lms_freq_consts)
  ultimately show ?thesis
    unfolding lms_calculate_tuning_params_def by (simp only: Let_def)
qed

lemma hz_of_params:
  assumes "237500000 \<le> freq" "freq \<le> 3800000000" "lms_calculate_tuning_params freq f = Ok p"
  shows "\<exists>hz. lms_frequency_to_hz p = Ok hz \<and> unat hz \<le> unat freq + 1 \<and> unat freq \<le> unat hz + 1 \<and>
              (freq < 950000000 \<longrightarrow> hz = freq)"
proof -
  obtain k where k: "1 \<le> k" "k \<le> 4" "k < 3 \<longrightarrow> 950000000 \<le> freq" "vco_x p = push_bit k 1"
    and le: "2 ^ k * unat freq \<le> 7600000000"
    and n: "unat (nint p) = pll_nint (2 ^ k) (unat freq)"
      "unat (nfrac p) = pll_nfrac (2 ^ k) (unat freq)"
    using tuning_params_sound [OF assms(1,2), of f thesis] assms(3) by simp
  define h where "h = (38400000 * (8388608 * unat (nint p) + unat (nfrac p)) + 2 ^ (k + 22)) div
                 2 ^ (k + 23)"
  have hz: "lms_frequency_to_hz p = Ok (of_nat h)"
    unfolding h_def using n pll_bounds [OF le] by (intro frequency_to_hz_nat k) simp_all
  have e: "h \<le> unat freq + 1" "unat freq \<le> h + 1" "3 \<le> k \<Longrightarrow> h = unat freq"
    unfolding h_def n by (rule pll_error [OF le refl k(1,2)])+
  have "unat (of_nat h :: u32) = h"
    using e(1) assms(2) by (simp add: word_le_nat_alt unsigned_of_nat take_bit_nat_eq_self)
  moreover have "freq < 950000000 \<longrightarrow> of_nat h = freq"
  proof
    assume "freq < 950000000"
    then have "3 \<le> k" using k(3) by (metis linorder_not_less)
    from e(3) [OF this] show "of_nat h = freq" by simp
  qed
  ultimately show ?thesis using hz e(1,2) by auto
qed

subsection \<open>Single precision\<close>

lemma f32_ulp_down:
  "2 ^ k * x \<ge> 8388608 * u \<Longrightarrow> x < 16777216 * u \<Longrightarrow> k < n \<Longrightarrow> 0 < u \<Longrightarrow>
   0 < f32_ulp n x u \<and> 8388608 * f32_ulp n x u \<le> x \<and> x < 16777216 * f32_ulp n x u"
proof (induction n arbitrary: u k)
  case (Suc n)
  show ?case
  proof (cases "x < 8388608 * u")
    case True
    with Suc.prems have "k \<noteq> 0" by (intro notI) simp
    then obtain j where "k = Suc j" using not0_implies_Suc by blast
    with Suc.IH [of "u / 2" j] Suc.prems True show ?thesis by (simp add: mult.commute)
  qed (use Suc.prems in simp)
qed simp

lemma f32_ulp_up:
  "8388608 * u \<le> x \<Longrightarrow> x < 16777216 * (2 ^ k * u) \<Longrightarrow> k < n \<Longrightarrow> 0 < u \<Longrightarrow>
   0 < f32_ulp n x u \<and> 8388608 * f32_ulp n x u \<le> x \<and> x < 16777216 * f32_ulp n x u"
proof (induction n arbitrary: u k)
  case (Suc n)
  show ?case
  proof (cases "16777216 * u \<le> x")
    case True
    with Suc.prems have "k \<noteq> 0" by (intro notI) simp
    then obtain j where "k = Suc j" using not0_implies_Suc by blast
    with Suc.IH [of "2 * u" j] Suc.prems True show ?thesis by (simp add: algebra_simps)
  qed (use Suc.prems in simp)
qed simp

lemma round_half_even_error: "\<bar>of_int (round_half_even y) - y\<bar> \<le> 1 / 2"
proof -
  have "of_int \<lfloor>y\<rfloor> \<le> y" "y < of_int \<lfloor>y\<rfloor> + 1" using floor_correct [of y] by simp_all
  then show ?thesis by (auto simp: round_half_even_def Let_def)
qed

lemma float32_error:
  fixes x :: rat
  assumes "1 / 2 ^ 40 \<le> x" "x < 2 ^ 40"
  shows "\<bar>float32 x - x\<bar> \<le> x / 2 ^ 24"
proof -
  define u where "u = f32_ulp 128 x 1"
  have u: "0 < u" "8388608 * u \<le> x"
  proof -
    have "0 < u \<and> 8388608 * u \<le> x \<and> x < 16777216 * u"
    proof (cases "x < 16777216")
      case True
      then show ?thesis unfolding u_def using assms by (intro f32_ulp_down [of 1 63]) simp_all
    next
      case False
      then show ?thesis unfolding u_def using assms by (intro f32_ulp_up [of 1 x 40]) simp_all
    qed
    then show "0 < u" "8388608 * u \<le> x" by simp_all
  qed
  have "\<bar>of_int (round_half_even (x / u)) * u - x\<bar> = \<bar>of_int (round_half_even (x / u)) - x / u\<bar> * u"
    using u(1) by (simp add: abs_mult_pos left_diff_distrib)
  also have "\<dots> \<le> 1 / 2 * u"
    using u(1) by (intro mult_right_mono round_half_even_error) simp
  also have "\<dots> \<le> x / 2 ^ 24" using u by simp
  finally show ?thesis using assms by (simp add: float32_def u_def [symmetric] Let_def)
qed

lemma float32_bounds:
  fixes x :: rat
  assumes "1 / 2 ^ 40 \<le> x" "x < 2 ^ 40"
  shows "x * (16777215 / 16777216) \<le> float32 x" "float32 x \<le> x * (16777217 / 16777216)"
  using float32_error [OF assms] unfolding abs_le_iff by simp_all

lemma interpolation_bound:
  fixes D X :: rat
  assumes "1 \<le> D" "D \<le> 2 ^ 30" "1 \<le> X" "X \<le> D"
  shows "0 \<le> float32 (float32 (40 / float32 D) * float32 X) \<and>
         float32 (float32 (40 / float32 D) * float32 X) \<le> 404 / 10"
proof -
  define d where "d = float32 D"
  define x where "x = float32 X"
  define q where "q = float32 (40 / d)"
  have d: "D * (16777215 / 16777216) \<le> d" "d \<le> D * (16777217 / 16777216)"
    unfolding d_def using assms by (intro float32_bounds; simp)+
  have x: "X * (16777215 / 16777216) \<le> x" "x \<le> X * (16777217 / 16777216)"
    unfolding x_def using assms by (intro float32_bounds; simp)+
  have dpos: "0 < d" "1 / 2 \<le> d" "d \<le> 2 ^ 31" using d assms by simp_all
  have qr: "1 / 2 ^ 40 \<le> 40 / d" "40 / d < 2 ^ 40"
    using dpos by (simp_all add: field_simps)
  have q: "40 / d * (16777215 / 16777216) \<le> q" "q \<le> 40 / d * (16777217 / 16777216)"
    unfolding q_def using qr by (intro float32_bounds; simp)+
  have q_lo: "1 / 2 ^ 30 \<le> q" 
    using q(1) dpos order_trans [of "1 / 2 ^ 30" "40 / d * (16777215 / 16777216)" q]
    by (simp add: field_simps)
  have "q * D \<le> 40 * (16777217 / 16777215)"
  proof -
    have "q * d \<le> 40 * (16777217 / 16777216)"
      using q(2) dpos by (simp add: field_simps)
    moreover have "q * (D * (16777215 / 16777216)) \<le> q * d"
      using d(1) q_lo by (intro mult_left_mono) simp_all
    ultimately show ?thesis by simp
  qed
  moreover have "q * x \<le> q * (D * (16777217 / 16777216))"
    using x(2) assms(4) q_lo by (intro mult_left_mono) simp_all
  ultimately have qx: "q * x \<le> 402 / 10" by simp
  have "1 / 2 ^ 30 * (1 / 2) \<le> q * x"
    using q_lo x(1) assms(3) by (intro mult_mono) simp_all
  then have lo: "1 / 2 ^ 40 \<le> q * x" by simp
  have "q * x * (16777215 / 16777216) \<le> float32 (q * x)"
    "float32 (q * x) \<le> q * x * (16777217 / 16777216)"
    using lo qx by (intro float32_bounds; simp)+
  then show ?thesis using lo qx unfolding d_def q_def x_def by simp
qed

lemma interpolation_bound_nat:
  fixes D X :: nat
  assumes "1 \<le> D" "D \<le> 2 ^ 30" "X \<le> D"
  shows "0 \<le> float32 (float32 (40 / float32 (of_nat D)) * float32 (of_nat X)) \<and>
         float32 (float32 (40 / float32 (of_nat D)) * float32 (of_nat X)) \<le> 404 / 10"
proof (cases "X = 0")
  case True
  then show ?thesis by (simp add: float32_def)
next
  case False
  have "(of_nat D :: rat) \<le> of_nat (2 ^ 30)" unfolding of_nat_le_iff by (rule assms)
  then show ?thesis using assms False by (intro interpolation_bound) simp_all
qed

lemma estimate_vcocap_bounds:
  assumes "low \<le> f" "f \<le> high" "low < high" "unat high - unat low < 2 ^ 30"
  shows "15 \<le> unat (estimate_vcocap f low high)" "unat (estimate_vcocap f low high) \<le> 55"
proof -
  define y where "y = float32 (float32 (40 / float32 (of_nat (unat (high - low)))) *
                               float32 (of_nat (unat (f - low))))"
  have n: "unat (high - low) = unat high - unat low" "unat (f - low) = unat f - unat low"
    using assms by (simp_all add: unat_sub order_less_imp_le)
  have le: "unat f - unat low \<le> unat high - unat low" "1 \<le> unat high - unat low"
    using assms by (simp_all add: word_le_nat_alt word_less_nat_alt diff_le_mono)
  have y: "0 \<le> y \<and> y \<le> 404 / 10"
    unfolding y_def n using assms(4) by (intro interpolation_bound_nat le) simp
  then have c: "15 \<le> \<lfloor>y + 1 / 2 + 15\<rfloor>" "\<lfloor>y + 1 / 2 + 15\<rfloor> \<le> 55"
    by (simp_all add: le_floor_iff floor_le_iff)
  then have "estimate_vcocap f low high = word_of_int \<lfloor>y + 1 / 2 + 15\<rfloor>"
    by (simp add: estimate_vcocap_def Let_def y_def)
  moreover have "unat (word_of_int \<lfloor>y + 1 / 2 + 15\<rfloor> :: u8) = nat \<lfloor>y + 1 / 2 + 15\<rfloor>"
    using c by (simp add: unat_eq_nat_uint uint_word_of_int take_bit_int_eq_self)
  ultimately have "unat (estimate_vcocap f low high) = nat \<lfloor>y + 1 / 2 + 15\<rfloor>" by simp
  then show "15 \<le> unat (estimate_vcocap f low high)"
    "unat (estimate_vcocap f low high) \<le> 55" using c by linarith+
qed


section \<open>Properties\<close>

text \<open>C14. Tuning parameters are accurate: for every requested frequency, clipped to the
  synthesizer's range, the computation succeeds, the VCO runs between 3.8 and 7.6 GHz, the
  capacitance estimate is inside the six-bit register, and the parameters convert back to the
  frequency to within 1 Hz, exactly below 950 MHz.\<close>

theorem tuning_params_accurate:
  "\<exists>p hz. lms_calculate_tuning_params freq f = Ok p \<and> lms_frequency_to_hz p = Ok hz \<and>
     \<bar>int (unat hz) - int (unat (clip_frequency freq))\<bar> \<le> 1 \<and>
     (freq < 950000000 \<longrightarrow> hz = clip_frequency freq) \<and>
     unat (vco_x p) * unat (clip_frequency freq) \<in> {3800000000..7600000000} \<and>
     unat (vcocap p) \<in> {15..55}"
proof -
  let ?c = "clip_frequency freq"
  note r = clip_frequency_range [of freq]
  obtain p k where p: "lms_calculate_tuning_params ?c f = Ok p"
    and k: "1 \<le> k" "k \<le> 4" "vco_x p = push_bit k 1"
    and vco: "2 ^ k * unat ?c \<le> 7600000000" "3800000000 \<le> 2 ^ k * unat ?c"
    and b: "\<exists>low high. (low, high, freqsel p) \<in> set bands \<and> low \<le> ?c \<and> ?c \<le> high \<and>
           vcocap p = estimate_vcocap ?c low high"
    using tuning_params_sound [OF r, of f thesis] by metis
  have "k = 1 \<or> k = 2 \<or> k = 3 \<or> k = 4" using k by linarith
  then have x: "unat (vco_x p) = 2 ^ k" unfolding k(3) by (elim disjE) simp_all
  have cap: "unat (vcocap p) \<in> {15..55}"
    using b band_facts(7,8) estimate_vcocap_bounds by (metis atLeastAtMost_iff)
  obtain hz where hz: "lms_frequency_to_hz p = Ok hz" "unat hz \<le> unat ?c + 1"
      "unat ?c \<le> unat hz + 1" "?c < 950000000 \<longrightarrow> hz = ?c"
    using hz_of_params [OF r p] by blast
  then have err: "\<bar>int (unat hz) - int (unat ?c)\<bar> \<le> 1" by linarith
  have "freq < 950000000 \<longrightarrow> ?c < 950000000"
    using order.strict_trans [of freq "950000000" "3800000000"]
    by (auto simp: clip_frequency_def lms_freq_consts max_def min_def)
  with hz err vco x cap show ?thesis
    unfolding calculate_tuning_params_clip [of freq]
    by (intro exI [of _ p] exI [of _ hz]) (auto simp: p)
qed

lemma tuning_params_accurate_witness:
  "\<exists>p. lms_calculate_tuning_params 100 zero_freq = Ok p \<and> lms_frequency_to_hz p = Ok 237500000"
  using tuning_params_accurate [of 100 zero_freq]
  by (auto simp: clip_frequency_def lms_freq_consts)

text \<open>The fractional word fits its 23 register bits except in one residue class: it is at
  most \<open>2^23\<close>, and it reaches \<open>2^23\<close>, which the registers cannot hold, exactly when the divider
  is 2 and the frequency is one below a multiple of 19.2 MHz.\<close>

lemma nfrac_overflow_class:
  assumes "BLADERF_FREQUENCY_MIN \<le> freq" "freq \<le> BLADERF_FREQUENCY_MAX"
    and "lms_calculate_tuning_params freq f = Ok p"
  shows "unat (nfrac p) \<le> 2 ^ 23 \<and>
         (unat (nfrac p) = 2 ^ 23 \<longleftrightarrow> vco_x p = 2 \<and> unat freq mod 19200000 = 19199999)"
proof -
  have r: "237500000 \<le> freq" "freq \<le> 3800000000" using assms by (simp_all add: lms_freq_consts)
  obtain k where k: "1 \<le> k" "k \<le> 4" "vco_x p = push_bit k 1"
    and le: "2 ^ k * unat freq \<le> 7600000000"
    and n: "unat (nfrac p) = pll_nfrac (2 ^ k) (unat freq)"
    using tuning_params_sound [OF r, of f thesis] assms(3) by simp
  have "k = 1 \<or> k = 2 \<or> k = 3 \<or> k = 4" using k by linarith
  then have "vco_x p = 2 \<longleftrightarrow> k = 1" unfolding k(3) by (elim disjE) simp_all
  then show ?thesis
    using pll_bounds(2) [OF le] pll_nfrac_max [OF k(1,2), of "unat freq"] n by simp
qed

end
