(* ===== verification/Lms_Vco.thy ===== *)
theory Lms_Vco
  imports Lms_Tune_Params
begin

unbundle bit_operations_syntax

text \<open>
  The VCO capacitance search. The locale \<open>vco_loop\<close> states what the search relies on: a
  capacitance register and a VTUNE comparator that reads high up to a capacitance \<open>h\<close>, low
  from a capacitance \<open>l\<close> on and normal in between. Under it every stage of the search is
  computed exactly, and the search ends in the middle of the normal region. It is interpreted
  on a register file with such a comparator; through the transport contract the result holds
  for the driver in front of the whole stack.
\<close>

section \<open>The comparator contract\<close>

definition vtune_code :: "nat \<Rightarrow> nat \<Rightarrow> u8 \<Rightarrow> u8" where
  "vtune_code h l cap =
     (if unat cap \<le> h then VCO_HIGH else if l \<le> unat cap then VCO_LOW else VCO_NORM)"

definition vco_reachable :: "nat \<Rightarrow> nat \<Rightarrow> u8 \<Rightarrow> bool" where
  \<comment> \<open>the first walk ends within its iteration limit\<close>
  "vco_reachable h l est \<longleftrightarrow> unat est \<le> 63 \<and>
     (if unat est \<le> h then h + 1 - unat est \<le> 20
      else if l \<le> unat est then unat est + 1 - l \<le> 20
      else unat est - h \<le> 20)"

locale vco_loop =
  fixes dev :: "'s lms_backend" and base st :: u8 and h l :: nat
    and cap :: "'s \<Rightarrow> u8" and set_cap :: "u8 \<Rightarrow> 's \<Rightarrow> 's"
  assumes write_cap: "v \<le> 0x3f \<Longrightarrow> lms_write dev (base + 9) (v OR st) s = (Ok (), set_cap v s)"
    and read_vtune: "\<exists>w. lms_read dev (base + 10) s = (Ok w, s) \<and>
          drop_bit 6 w = vtune_code h l (cap s)"
    and cap_set: "v \<le> 0x3f \<Longrightarrow> cap (set_cap v s) = v"
    and set_set: "set_cap v (set_cap w s) = set_cap v s"
    and region: "h + 2 \<le> l" "l \<le> 63"
begin

lemma write_vcocap_ok [simp]:
  "unat v \<le> 63 \<Longrightarrow> write_vcocap dev base v st s = (Ok (), set_cap v s)"
  by (simp add: write_vcocap_def lms_freq_consts word_le_nat_alt write_cap)

lemma get_vtune_ok [simp]: "get_vtune dev base s = (Ok (vtune_code h l (cap s)), s)"
  using read_vtune [of s] by (auto simp: get_vtune_def iosimps)

lemma cap_set_nat [simp]: "unat v \<le> 63 \<Longrightarrow> cap (set_cap v s) = v"
  by (simp add: cap_set word_le_nat_alt)

lemma unat_of [simp]: "n \<le> 63 \<Longrightarrow> unat (of_nat n :: u8) = n"
  by (simp add: unsigned_of_nat take_bit_nat_eq_self)

lemma seq_write [simp]:
  "unat v \<le> 63 \<Longrightarrow> seq (write_vcocap dev base v st) k s = k () (set_cap v s)"
  by (simp add: seq_def)

lemma seq_vtune [simp]:
  "seq (get_vtune dev base) k s = k (vtune_code h l (cap s)) s"
  by (simp add: seq_def)

lemma succ_cap: "unat v < 63 \<Longrightarrow> unat (v + 1 :: u8) = unat v + 1"
  by (simp add: unat_word_ariths)

lemma pred_cap: "0 < unat v \<Longrightarrow> unat (v - 1 :: u8) = unat v - 1"
  by (subst unat_sub) (simp_all add: word_le_nat_alt)

lemma high_to_norm_ok:
  "unat v \<le> h \<Longrightarrow> h + 1 - unat v \<le> n \<Longrightarrow>
   vtune_high_to_norm n dev base v st s = (Ok (of_nat h), set_cap (of_nat (h + 1)) s)"
proof (induction n arbitrary: v s)
  case (Suc n)
  have v: "unat v < 62" using Suc.prems region by linarith
  then have nv: "\<not> VCOCAP_MAX_VALUE \<le> v" by (simp add: lms_freq_consts word_le_nat_alt)
  show ?case
  proof (cases "unat v = h")
    case True
    then have e: "v = of_nat h" "v + 1 = of_nat (h + 1)" by auto
    have "vtune_high_to_norm (Suc n) dev base v st s = (Ok v, set_cap (v + 1) s)"
      using nv v region True by (simp add: succ_cap vtune_code_def vco_consts iosimps)
    then show ?thesis unfolding e(2) [symmetric] using e(1) by simp
  next
    case False
    with Suc.prems(1) have "unat v < h" by simp
    with Suc.IH [of "v + 1" "set_cap (v + 1) s"] Suc.prems nv v show ?thesis
      by (simp add: succ_cap vtune_code_def vco_consts set_set)
  qed
qed simp

lemma norm_to_high_ok:
  "h < unat v \<Longrightarrow> unat v \<le> 63 \<Longrightarrow> unat v - h \<le> n \<Longrightarrow>
   vtune_norm_to_high n dev base v st s = (Ok (of_nat h), set_cap (of_nat h) s)"
proof (induction n arbitrary: v s)
  case (Suc n)
  then have v: "0 < unat v" "v \<noteq> 0" by auto
  show ?case
  proof (cases "unat v = h + 1")
    case True
    then have e: "v - 1 = of_nat h"
      by (metis add_diff_cancel_right' of_nat_1 of_nat_add of_nat_unat ucast_id)
    with v region True show ?thesis
      by (simp add: vtune_code_def vco_consts iosimps)
  next
    case False
    with Suc.prems have "h < unat (v - 1)" "unat (v - 1) \<le> 63" "unat (v - 1) - h \<le> n"
      using v by (simp_all add: pred_cap)
    with Suc.IH [of "v - 1" "set_cap (v - 1) s"] v show ?thesis
      by (auto simp: vtune_code_def vco_consts set_set)
  qed
qed simp

lemma low_to_norm_ok:
  "l \<le> unat v \<Longrightarrow> unat v \<le> 63 \<Longrightarrow> unat v + 1 - l \<le> n \<Longrightarrow>
   vtune_low_to_norm n dev base v st s = (Ok (of_nat l), set_cap (of_nat (l - 1)) s)"
proof (induction n arbitrary: v s)
  case (Suc n)
  then have v: "0 < unat v" "v \<noteq> 0" using region by auto
  show ?case
  proof (cases "unat v = l")
    case True
    then have e: "v = of_nat l" "v - 1 = of_nat (l - 1)" using region by (auto simp: of_nat_diff)
    have p: "unat (v - 1) = l - 1" using True v by (simp add: pred_cap)
    have "\<not> l - Suc 0 \<le> h" "\<not> l \<le> l - Suc 0" using region by simp_all
    then have "vtune_low_to_norm (Suc n) dev base v st s = (Ok v, set_cap (v - 1) s)"
      using v region True p by (simp add: vtune_code_def vco_consts iosimps)
    then show ?thesis unfolding e(2) [symmetric] using e(1) by simp
  next
    case False
    with Suc.prems have "l \<le> unat (v - 1)" "unat (v - 1) \<le> 63" "unat (v - 1) + 1 - l \<le> n"
      using v by (simp_all add: pred_cap)
    with Suc.IH [of "v - 1" "set_cap (v - 1) s"] v region show ?thesis
      by (auto simp: vtune_code_def vco_consts set_set)
  qed
qed simp

lemma poll_vtune_ok:
  "poll_vtune (Suc n) dev base t s = (Ok (vtune_code h l (cap s) = t), s)"
proof (induction n)
  case (Suc n)
  then show ?case by (auto simp: iosimps split: if_splits)
qed (simp add: iosimps)

lemma walk_up_ok:
  "unat v < l \<Longrightarrow> l - unat v \<le> n \<Longrightarrow>
   walk_vcocap n dev base VCO_LOW v st s = (Ok (of_nat l), set_cap (of_nat l) s)"
proof (induction n arbitrary: v s)
  case (Suc n)
  have v: "unat v < 63" "v \<noteq> VCOCAP_MAX_VALUE"
    using Suc.prems(1) region by (auto simp: lms_freq_consts)
  show ?case
  proof (cases "unat v + 1 = l")
    case True
    then have e: "v + 1 = of_nat l" by auto
    have "walk_vcocap (Suc n) dev base VCO_LOW v st s = (Ok (v + 1), set_cap (v + 1) s)"
      using v region True
      by (subst walk_vcocap.simps) (simp add: succ_cap vtune_code_def vco_consts iosimps Let_def)
    then show ?thesis by (simp add: e)
  next
    case False
    with Suc.prems have "unat (v + 1) < l" "l - unat (v + 1) \<le> n"
      using v by (simp_all add: succ_cap)
    with Suc.IH [of "v + 1" "set_cap (v + 1) s"] v region show ?thesis
      by (subst walk_vcocap.simps)
         (simp add: succ_cap vtune_code_def vco_consts set_set Let_def)
  qed
qed simp

lemma walk_down_ok:
  "h < unat v \<Longrightarrow> unat v \<le> 63 \<Longrightarrow> unat v - h \<le> n \<Longrightarrow>
   walk_vcocap n dev base VCO_HIGH v st s = (Ok (of_nat h), set_cap (of_nat h) s)"
proof (induction n arbitrary: v s)
  case (Suc n)
  then have v: "0 < unat v" "v \<noteq> 0" by auto
  show ?case
  proof (cases "unat v = h + 1")
    case True
    then have e: "v - 1 = of_nat h"
      by (metis add_diff_cancel_right' of_nat_1 of_nat_add of_nat_unat ucast_id)
    have "walk_vcocap (Suc n) dev base VCO_HIGH v st s = (Ok (v - 1), set_cap (v - 1) s)"
      using v region True
      by (subst walk_vcocap.simps) (simp add: pred_cap vtune_code_def vco_consts iosimps Let_def)
    then show ?thesis by (simp add: e)
  next
    case False
    with Suc.prems have "h < unat (v - 1)" "unat (v - 1) \<le> 63" "unat (v - 1) - h \<le> n"
      using v by (simp_all add: pred_cap)
    with Suc.IH [of "v - 1" "set_cap (v - 1) s"] v show ?thesis
      by (subst walk_vcocap.simps) (auto simp: vtune_code_def vco_consts set_set Let_def)
  qed
qed simp

lemma wait_low_ok:
  assumes "unat v \<le> 63" "cap s = v"
  shows "wait_for_vtune_value dev base VCO_LOW v st s =
     (if l \<le> unat v then (Ok v, s) else (Ok (of_nat l), set_cap (of_nat l) s))"
proof -
  have "poll_vtune 15 dev base VCO_LOW s = (Ok (l \<le> unat v), s)"
    using poll_vtune_ok [of 14 VCO_LOW s] assms region
    by (auto simp: vtune_code_def vco_consts)
  then show ?thesis
    using walk_up_ok [of v 64 s] region
    by (simp add: wait_for_vtune_value_def seq_def vco_consts iosimps)
qed

lemma wait_high_ok:
  assumes "unat v \<le> 63" "cap s = v"
  shows "wait_for_vtune_value dev base VCO_HIGH v st s =
     (if unat v \<le> h then (Ok v, s) else (Ok (of_nat h), set_cap (of_nat h) s))"
proof -
  have "poll_vtune 15 dev base VCO_HIGH s = (Ok (unat v \<le> h), s)"
    using poll_vtune_ok [of 14 VCO_HIGH s] assms region
    by (auto simp: vtune_code_def vco_consts)
  then show ?thesis
    using walk_down_ok [of v 64 s] assms(1)
    by (simp add: wait_for_vtune_value_def seq_def vco_consts iosimps)
qed

text \<open>The second half of the search, from either known limit.\<close>

lemma from_high_limit:
  assumes "c = (if uint (of_nat h :: u8) + 12 < 0x3f then of_nat h + 12 else VCOCAP_MAX_VALUE)"
  shows "seq (write_vcocap dev base c st) (\<lambda>_.
         seq (wait_for_vtune_value dev base VCO_LOW c st) (\<lambda>c.
         seq (vtune_low_to_norm VTUNE_MAX_ITERATIONS dev base c st) k)) s =
         k (of_nat l) (set_cap (of_nat (l - 1)) s)"
proof -
  have hi: "uint (of_nat h :: u8) = int h" using region by (simp add: uint_nat)
  have "unat (of_nat h + 12 :: u8) = h + 12" if "h + 12 < 63"
    using that by (simp add: unat_word_ariths)
  then have c: "unat c = min (h + 12) 63"
    using assms hi by (auto simp: lms_freq_consts min_def)
  have "vtune_low_to_norm VTUNE_MAX_ITERATIONS dev base c st (set_cap c s) =
          (Ok (of_nat l), set_cap (of_nat (l - 1)) (set_cap c s))" if "l \<le> unat c"
    using that c region by (intro low_to_norm_ok) (simp_all add: VTUNE_MAX_ITERATIONS_def)
  moreover have "vtune_low_to_norm VTUNE_MAX_ITERATIONS dev base (of_nat l) st t =
          (Ok (of_nat l), set_cap (of_nat (l - 1)) t)" for t
    using region by (intro low_to_norm_ok) (simp_all add: VTUNE_MAX_ITERATIONS_def)
  ultimately show ?thesis
    using c by (simp add: seq_def wait_low_ok set_set split: if_split)
qed

lemma from_low_limit:
  assumes "c = (if uint (of_nat l :: u8) - 12 > 0 then of_nat l - 12 else 0)"
  shows "seq (write_vcocap dev base c st) (\<lambda>_.
         seq (wait_for_vtune_value dev base VCO_HIGH c st) (\<lambda>c.
         seq (vtune_high_to_norm VTUNE_MAX_ITERATIONS dev base c st) k)) s =
         k (of_nat h) (set_cap (of_nat (h + 1)) s)"
proof -
  have lo: "uint (of_nat l :: u8) = int l" using region by (simp add: uint_nat)
  have "unat (of_nat l - 12 :: u8) = l - 12" if "12 < l"
    using that region by (subst unat_sub) (simp_all add: word_le_nat_alt)
  then have c: "unat c = l - 12" using assms lo by auto
  have "vtune_high_to_norm VTUNE_MAX_ITERATIONS dev base c st (set_cap c s) =
          (Ok (of_nat h), set_cap (of_nat (h + 1)) (set_cap c s))" if "unat c \<le> h"
    using that c region by (intro high_to_norm_ok) (simp_all add: VTUNE_MAX_ITERATIONS_def)
  moreover have "vtune_high_to_norm VTUNE_MAX_ITERATIONS dev base (of_nat h) st t =
          (Ok (of_nat h), set_cap (of_nat (h + 1)) t)" for t
    using region by (intro high_to_norm_ok) (simp_all add: VTUNE_MAX_ITERATIONS_def)
  moreover have "unat c \<le> 63" using c region by simp
  ultimately show ?thesis
    by (simp add: seq_def wait_high_ok set_set del: of_nat_add split: if_split)
qed

lemma tune_vcocap_ok:
  assumes "cap s = est" "vco_reachable h l est"
  shows "tune_vcocap dev est base st s =
     (Ok (of_nat (h + (l - h) div 2)), set_cap (of_nat (h + (l - h) div 2)) s)"
proof -
  let ?mid = "of_nat (h + (l - h) div 2) :: u8"
  have mid: "unat ?mid = h + (l - h) div 2" "\<not> unat ?mid \<le> h" "\<not> l \<le> unat ?mid"
    using region by (simp_all del: of_nat_add)
  have le: "unat ?mid \<le> 63" using mid(1) region by linarith
  have code: "vtune_code h l ?mid = VCO_NORM"
    unfolding vtune_code_def using mid(2,3) by (simp only: if_False)
  have mid_word: "word_of_int (uint (of_nat h :: u8) +
      (let d = uint (of_nat l :: u8) - uint (of_nat h :: u8) in
       if d < 0 then - (- d div 2) else d div 2)) = ?mid"
  proof -
    have "uint (of_nat h :: u8) = int h" "uint (of_nat l :: u8) = int l"
      using region by (simp_all add: uint_nat)
    then have "word_of_int (uint (of_nat h :: u8) +
        (let d = uint (of_nat l :: u8) - uint (of_nat h :: u8) in
         if d < 0 then - (- d div 2) else d div 2)) =
        (word_of_int (int (h + (l - h) div 2)) :: u8)"
      using region by (simp add: Let_def zdiv_int of_nat_diff)
    then show ?thesis by (simp only: of_int_of_nat_eq)
  qed
  have neq: "VCO_NORM \<noteq> VCO_HIGH" "VCO_LOW \<noteq> VCO_HIGH" "VCO_LOW \<noteq> VCO_NORM"
    "(of_nat h :: u8) \<noteq> VCOCAP_MAX_VALUE"
  proof -
    have "unat (of_nat h :: u8) \<noteq> 63" using region by simp
    then show "(of_nat h :: u8) \<noteq> VCOCAP_MAX_VALUE" by (auto simp: lms_freq_consts)
  qed (simp_all add: vco_consts)
  have finish: "(let c = word_of_int (uint (of_nat h :: u8) +
                   (let d = uint (of_nat l :: u8) - uint (of_nat h :: u8) in
                    if d < 0 then - (- d div 2) else d div 2)) in
       seq (write_vcocap dev base c st) (\<lambda>_.
       seq (get_vtune dev base) (\<lambda>vtune.
       if vtune \<noteq> VCO_NORM then fail BLADERF_ERR_UNEXPECTED else ret c))) t =
     (Ok ?mid, set_cap ?mid t)" for t
    by (simp only: Let_def mid_word [unfolded Let_def] seq_write [OF le] seq_vtune cap_set_nat [OF le] code ret_apply simp_thms
        if_False)
  note run = tune_vcocap_def seq_vtune assms(1) seq_assoc seq_ret prod.case if_True if_False
    simp_thms Let_def from_high_limit [OF refl] from_low_limit [OF refl] neq not_False_eq_True
  consider "unat est \<le> h" | "\<not> unat est \<le> h" "l \<le> unat est" | "\<not> unat est \<le> h" "\<not> l \<le> unat est"
    by blast
  then show ?thesis
  proof cases
    case 1
    then have code: "vtune_code h l est = VCO_HIGH" by (simp add: vtune_code_def)
    have "seq (vtune_high_to_norm VTUNE_MAX_ITERATIONS dev base est st) k s =
          k (of_nat h) (set_cap (of_nat (h + 1)) s)" for k
      using 1 assms(2) by (intro seq_Ok high_to_norm_ok)
        (simp_all add: vco_reachable_def VTUNE_MAX_ITERATIONS_def)
    note step = this
    show ?thesis by (simp only: run code step finish [unfolded Let_def] set_set)
  next
    case 2
    then have code: "vtune_code h l est = VCO_LOW" by (simp add: vtune_code_def)
    have "seq (vtune_low_to_norm VTUNE_MAX_ITERATIONS dev base est st) k s =
          k (of_nat l) (set_cap (of_nat (l - 1)) s)" for k
      using 2 assms(2) by (intro seq_Ok low_to_norm_ok)
        (simp_all add: vco_reachable_def VTUNE_MAX_ITERATIONS_def)
    note step = this
    show ?thesis by (simp only: run code step finish [unfolded Let_def] set_set)
  next
    case 3
    then have code: "vtune_code h l est = VCO_NORM" by (simp add: vtune_code_def)
    have "seq (vtune_norm_to_high VTUNE_MAX_ITERATIONS dev base est st) k s =
          k (of_nat h) (set_cap (of_nat h) s)" for k
      using 3 assms(2) by (intro seq_Ok norm_to_high_ok)
        (simp_all add: vco_reachable_def VTUNE_MAX_ITERATIONS_def)
    note step = this
    show ?thesis by (simp only: run code step finish [unfolded Let_def] set_set)
  qed
qed

end

section \<open>A register file with a comparator\<close>

definition vco_read :: "u8 \<Rightarrow> nat \<Rightarrow> nat \<Rightarrow> u8 \<Rightarrow> regs \<Rightarrow> u8 \<times> regs" where
  \<comment> \<open>register \<open>base + 10\<close> shows the comparator for the capacitance in \<open>base + 9\<close>\<close>
  "vco_read base h l a r =
     (if a = base + 10 then push_bit 6 (vtune_code h l (r (base + 9) AND 0x3f)) else r a, r)"

definition vco_dev :: "u8 \<Rightarrow> nat \<Rightarrow> nat \<Rightarrow> regs lms_backend" where
  "vco_dev base h l = chip_dev (vco_read base h l) regs_write"

lemma vco_dev_read [iosimps]:
  "lms_read (vco_dev base h l) a r =
     (Ok (if a = base + 10 then push_bit 6 (vtune_code h l (r (base + 9) AND 0x3f)) else r a), r)"
  by (simp add: vco_dev_def chip_dev_def vco_read_def)

lemma vco_dev_write [iosimps]: "lms_write (vco_dev base h l) a v r = (Ok (), r(a := v))"
  by (simp add: vco_dev_def chip_dev_def regs_write_def)

lemma drop_push_vtune: "drop_bit 6 (push_bit 6 (vtune_code h l c)) = vtune_code h l c"
  by (auto simp: vtune_code_def vco_consts)

lemma low6_self: "(v :: u8) \<le> 0x3f \<Longrightarrow> v AND 0x3f = v"
proof -
  assume v: "v \<le> 0x3f"
  have "v AND 0x3f = take_bit 6 v" by (simp add: take_bit_eq_mask mask_eq_exp_minus_1)
  also have "\<dots> = v"
  proof (rule unsigned_word_eqI)
    show "unat (take_bit 6 v) = unat v"
      using v by (simp add: unsigned_take_bit_eq take_bit_nat_eq_self word_le_nat_alt)
  qed
  finally show ?thesis .
qed

lemma low6_or_high: "(v :: u8) \<le> 0x3f \<Longrightarrow> (v OR (st AND NOT 0x3f)) AND 0x3f = v"
  by (simp add: bit.conj_disj_distrib2 low6_self and.assoc)

definition clip_h :: "nat \<Rightarrow> nat" where "clip_h h = min h 61"
definition clip_l :: "nat \<Rightarrow> nat \<Rightarrow> nat" where "clip_l h l = max (clip_h h + 2) (min l 63)"

lemma clip_region: "h + 2 \<le> l \<Longrightarrow> l \<le> 63 \<Longrightarrow> clip_h h = h \<and> clip_l h l = l"
  by (simp add: clip_h_def clip_l_def)

interpretation vco: vco_loop "vco_dev base (clip_h h) (clip_l h l)" base "st AND NOT 0x3f"
    "clip_h h" "clip_l h l" "\<lambda>r. r (base + 9) AND 0x3f"
    "\<lambda>v r. r(base + 9 := v OR (st AND NOT 0x3f))" for base h l st
proof
  fix s :: regs
  show "\<exists>w. lms_read (vco_dev base (clip_h h) (clip_l h l)) (base + 10) s = (Ok w, s) \<and>
          drop_bit 6 w = vtune_code (clip_h h) (clip_l h l) (s (base + 9) AND 0x3f)"
    by (simp add: iosimps drop_push_vtune)
qed (simp_all only: vco_dev_write fun_upd_same low6_or_high fun_upd_upd,
     simp_all add: clip_l_def clip_h_def)

lemma tune_vcocap_vco:
  assumes "h + 2 \<le> l" "l \<le> 63" "r (base + 9) AND 0x3f = est" "vco_reachable h l est"
  shows "tune_vcocap (vco_dev base h l) est base (st AND NOT 0x3f) r =
     (Ok (of_nat (h + (l - h) div 2)),
      r(base + 9 := of_nat (h + (l - h) div 2) OR (st AND NOT 0x3f)))"
  using vco.tune_vcocap_ok [of r base est h l st] assms clip_region [of h l] by (simp only:)

section \<open>The PLL registers\<close>

lemma not_bit_above:
  fixes x :: "'a::len word"
  assumes "unat x < 2 ^ k" "k \<le> n"
  shows "\<not> bit x n"
proof -
  have "take_bit k (unat x) = unat x" using assms(1) by (simp add: take_bit_nat_eq_self)
  then have "\<not> bit (unat x) n"
    using assms(2) by (metis bit_take_bit_iff linorder_not_less)
  then show ?thesis by (auto simp: bit_unsigned_iff dest: bit_imp_le_length)
qed

definition pll_reg0 :: "u16 \<Rightarrow> u8" where "pll_reg0 ni = ucast (drop_bit 1 ni)"
definition pll_reg1 :: "u16 \<Rightarrow> u32 \<Rightarrow> u8" where
  "pll_reg1 ni nf = ucast (push_bit 7 (ni AND 1)) OR ucast (drop_bit 16 nf AND 0x7f)"
definition pll_reg2 :: "u32 \<Rightarrow> u8" where "pll_reg2 nf = ucast (drop_bit 8 nf AND 0xff)"
definition pll_reg3 :: "u32 \<Rightarrow> u8" where "pll_reg3 nf = ucast (nf AND 0xff)"

lemma pll_nint_decode:
  assumes "unat ni < 2 ^ 9"
  shows "push_bit 1 (ucast (pll_reg0 ni)) OR ucast (drop_bit 7 (pll_reg1 ni nf AND 0x80)) = ni"
proof (rule bit_word_eqI)
  fix n assume n: "n < LENGTH(16)"
  show "bit (push_bit 1 (ucast (pll_reg0 ni)) OR ucast (drop_bit 7 (pll_reg1 ni nf AND 0x80)) :: u16) n
      = bit ni n"
  proof (cases n)
    case 0
    then show ?thesis by (simp add: pll_reg0_def pll_reg1_def bit_simps del: push_bit_Suc)
  next
    case (Suc m)
    with n not_bit_above [OF assms, of n] show ?thesis
      by (cases "m < 8") (auto simp: pll_reg0_def pll_reg1_def bit_simps simp del: push_bit_Suc)
  qed
qed

lemma pll_nfrac_decode:
  "push_bit 16 (ucast (pll_reg1 ni nf) AND 0x7f) OR push_bit 8 (ucast (pll_reg2 nf)) OR
   ucast (pll_reg3 nf) = take_bit 23 nf"
proof (rule bit_word_eqI)
  fix n assume n: "n < LENGTH(32)"
  have m: "(0x7f :: u32) = mask 7" "(0xff :: u32) = mask 8" by (simp_all add: mask_eq_exp_minus_1)
  consider "n < 8" | "8 \<le> n" "n < 16" | "16 \<le> n" "n < 23" | "23 \<le> n" by linarith
  then show "bit (push_bit 16 (ucast (pll_reg1 ni nf) AND 0x7f) OR push_bit 8 (ucast (pll_reg2 nf)) OR
         ucast (pll_reg3 nf) :: u32) n = bit (take_bit 23 nf) n"
    using n by cases (simp_all add: pll_reg1_def pll_reg2_def pll_reg3_def m bit_simps
        less_diff_conv2 le_diff_conv2)
qed

lemma freqsel_decode: "(fs :: u8) \<le> 0x3f \<Longrightarrow> drop_bit 2 (push_bit 2 fs OR (if low then 1 else 2)) = fs"
proof -
  assume "fs \<le> 0x3f"
  then have "unat fs < 2 ^ 6" by (simp add: word_le_nat_alt)
  from not_bit_above [OF this, of 6] not_bit_above [OF this, of 7] show ?thesis
    by (intro u8_eqI) (simp_all add: bit_simps)
qed

lemma freqsel_decode_keep: "(fs :: u8) \<le> 0x3f \<Longrightarrow> drop_bit 2 ((d AND NOT 0xfc) OR push_bit 2 fs) = fs"
proof -
  assume "fs \<le> 0x3f"
  then have "unat fs < 2 ^ 6" by (simp add: word_le_nat_alt)
  from not_bit_above [OF this, of 6] not_bit_above [OF this, of 7] show ?thesis
    by (intro u8_eqI) (simp_all add: bit_simps)
qed

section \<open>Programming the synthesizer\<close>

lemma seq_vco_read [iosimps]:
  "a \<noteq> base + 10 \<Longrightarrow> seq (lms_read (vco_dev base h l) a) k r = k (r a) r"
  by (simp add: seq_def vco_dev_read)

lemma seq_vco_write [iosimps]: "seq (lms_write (vco_dev base h l) a v) k r = k () (r(a := v))"
  by (simp add: seq_def vco_dev_write)

lemma pll_base_distinct [simp]:
  "0x08 \<noteq> pll_base md + 10" "0x46 \<noteq> pll_base md + 10" "0x09 \<noteq> pll_base md + 10"
  by (cases md; simp add: pll_base_def)+

lemma loopback_vco:
  "\<exists>b. is_loopback_enabled (vco_dev (pll_base md) h l) r = (Ok b, r)"
  by (simp add: is_loopback_enabled_def lms_get_loopback_mode_def seq_assoc iosimps)

lemma write_pll_config_vco:
  assumes "fs \<le> 0x3f"
  shows "\<exists>c. write_pll_config (vco_dev (pll_base md) h l) md fs lb r =
               (Ok (), r(pll_base md + 5 := c)) \<and> drop_bit 2 c = fs"
proof -
  obtain b where b: "is_loopback_enabled (vco_dev (pll_base md) h l) r = (Ok b, r)"
    using loopback_vco by blast
  have a: "(if md = BLADERF_MODULE_TX then 0x15 else 0x25) = pll_base md + 5"
    by (cases md) (simp_all add: pll_base_def)
  let ?c = "if \<not> b then push_bit 2 fs OR (if lb then 1 else 2)
            else (r (pll_base md + 5) AND NOT 0xfc) OR push_bit 2 fs"
  have "write_pll_config (vco_dev (pll_base md) h l) md fs lb r = (Ok (), r(pll_base md + 5 := ?c))"
    unfolding write_pll_config_def a Let_def using b by (simp add: iosimps)
  moreover have "drop_bit 2 ?c = fs"
    using freqsel_decode [OF assms, of lb] freqsel_decode_keep [OF assms] by (cases b) (simp_all only: if_True if_False not_True_eq_False not_False_eq_True)
  ultimately show ?thesis by blast
qed

lemma set_precalculated_body_vco:
  assumes "h + 2 \<le> l" "l \<le> 63" "vcocap f \<le> 0x3f" "freqsel f \<le> 0x3f"
    and "flags f AND LMS_FREQ_FLAGS_FORCE_VCOCAP = 0 \<Longrightarrow> vco_reachable h l (vcocap f)"
  defines "c \<equiv> if flags f AND LMS_FREQ_FLAGS_FORCE_VCOCAP \<noteq> 0 then vcocap f
               else of_nat (h + (l - h) div 2)"
  shows "\<exists>r'. lms_set_precalculated_frequency (vco_dev (pll_base md) h l) False md f r =
                (Ok (f\<lparr>vcocap_result := c\<rparr>), r') \<and>
              r' (pll_base md) = pll_reg0 (nint f) \<and>
              r' (pll_base md + 1) = pll_reg1 (nint f) (nfrac f) \<and>
              r' (pll_base md + 2) = pll_reg2 (nfrac f) \<and>
              r' (pll_base md + 3) = pll_reg3 (nfrac f) \<and>
              drop_bit 2 (r' (pll_base md + 5)) = freqsel f \<and>
              r' (pll_base md + 9) = c OR (r (pll_base md + 9) AND NOT 0x3f) \<and>
              r' 0x09 = (r 0x09 OR 5) AND NOT 5 \<and>
              (\<forall>a. a \<notin> {0x09, pll_base md, pll_base md + 1, pll_base md + 2, pll_base md + 3,
                       pll_base md + 5, pll_base md + 9} \<longrightarrow> r' a = r a)"
proof -
  let ?b = "pll_base md"
  let ?st = "r (?b + 9) AND NOT 0x3f"
  define r1 where "r1 = r(0x09 := r 0x09 OR 5, ?b + 9 := vcocap f OR ?st)"
  obtain cfg where cfg: "write_pll_config (vco_dev ?b h l) md (freqsel f)
      (flags f AND LMS_FREQ_FLAGS_LOW_BAND \<noteq> 0) r1 = (Ok (), r1(?b + 5 := cfg))"
    and fs: "drop_bit 2 cfg = freqsel f"
    using write_pll_config_vco [OF assms(4)] by blast
  from cfg have cfg_step: "seq (write_pll_config (vco_dev ?b h l) md (freqsel f)
      (flags f AND LMS_FREQ_FLAGS_LOW_BAND \<noteq> 0)) k r1 = k () (r1(?b + 5 := cfg))" for k
    by (intro seq_Ok)
  define r2 where "r2 = r1(?b + 5 := cfg, ?b := pll_reg0 (nint f),
      ?b + 1 := pll_reg1 (nint f) (nfrac f), ?b + 2 := pll_reg2 (nfrac f),
      ?b + 3 := pll_reg3 (nfrac f))"
  have ne: "?b + 9 \<noteq> ?b" "?b \<noteq> 0x09" "?b + 1 \<noteq> 0x09" "?b + 2 \<noteq> 0x09" "?b + 3 \<noteq> 0x09" "?b + 5 \<noteq> 0x09"
    "?b + 9 \<noteq> 0x09" "?b + 9 \<noteq> 9"
    by (cases md; simp add: pll_base_def)+
  have cap: "r2 (?b + 9) AND 0x3f = vcocap f" "r2 (?b + 9) = vcocap f OR ?st"
    using assms(3) low6_or_high ne by (simp_all only: r2_def r1_def) simp_all
  have body: "seq (tune_vcocap (vco_dev ?b h l) (vcocap f) ?b ?st) k r2 =
       k (of_nat (h + (l - h) div 2)) (r2(?b + 9 := of_nat (h + (l - h) div 2) OR ?st))"
    if "flags f AND LMS_FREQ_FLAGS_FORCE_VCOCAP = 0" for k
    by (rule seq_Ok, rule tune_vcocap_vco [of h l r2 ?b "vcocap f" "r (?b + 9)"])
       (rule assms(1,2) cap(1) assms(5) [OF that])+
  define r3 where "r3 = r2(?b + 9 := c OR ?st)"
  have ne10: "?b + 9 \<noteq> ?b + 10" "?b + 0 = ?b" "(0x09 :: u8) \<noteq> ?b + 10" by simp_all
  have cap_ok: "vcocap f \<le> VCOCAP_MAX_VALUE" using assms(3) by (simp add: lms_freq_consts)
  have idem: "r2 = r3" if "flags f AND LMS_FREQ_FLAGS_FORCE_VCOCAP \<noteq> 0"
    unfolding r3_def c_def using that
    by (simp only: if_True not_False_eq_True cap(2) [symmetric] fun_upd_triv)
  have tail: "(if flags f AND LMS_FREQ_FLAGS_FORCE_VCOCAP \<noteq> 0
           then ret (f\<lparr>vcocap_result := vcocap f\<rparr>)
           else seq (tune_vcocap (vco_dev ?b h l) (vcocap f) ?b ?st) (\<lambda>cap.
                ret (f\<lparr>vcocap_result := cap\<rparr>))) r2 = (Ok (f\<lparr>vcocap_result := c\<rparr>), r3)"
  proof (cases "flags f AND LMS_FREQ_FLAGS_FORCE_VCOCAP \<noteq> 0")
    case True
    then show ?thesis using idem [OF True] by (simp add: c_def ret_apply)
  next
    case False
    then have z: "flags f AND LMS_FREQ_FLAGS_FORCE_VCOCAP = 0" by simp
    show ?thesis
      unfolding r3_def c_def by (simp only: False if_False body [OF z] ret_apply)
  qed
  have prog: "program_pll (vco_dev ?b h l) False md f (r(0x09 := r 0x09 OR 5)) =
      (Ok (f\<lparr>vcocap_result := c\<rparr>), r3)"
    unfolding program_pll_def Let_def
    by (simp only: if_False seq_assoc seq_vco_read ne10 seq_vco_write not_False_eq_True simp_thms
          write_vcocap_def cap_ok if_True seq_ret fun_upd_other ne r1_def [symmetric] cfg_step
          r2_def [symmetric, unfolded pll_reg0_def pll_reg1_def pll_reg2_def pll_reg3_def] tail)
  have "dsm_off (vco_dev ?b h l) r3 = (Ok (), r3(0x09 := r3 0x09 AND NOT 5))"
    by (simp add: dsm_off_def iosimps)
  with prog have "lms_set_precalculated_frequency (vco_dev ?b h l) False md f r =
      (Ok (f\<lparr>vcocap_result := c\<rparr>), r3(0x09 := r3 0x09 AND NOT 5))"
    by (simp add: lms_set_precalculated_frequency_def iosimps)
  moreover have "r3 0x09 = r 0x09 OR 5"
    using ne by (simp add: r3_def r2_def r1_def)
  moreover have "\<forall>a. a \<notin> {0x09, ?b, ?b + 1, ?b + 2, ?b + 3, ?b + 5, ?b + 9} \<longrightarrow> r3 a = r a"
    by (simp add: r3_def r2_def r1_def)
  ultimately show ?thesis
    using ne fs by (intro exI [of _ "r3(0x09 := r3 0x09 AND NOT 5)"])
      (simp add: r3_def r2_def)
qed

lemma get_frequency_vco:
  assumes "r (pll_base md) = pll_reg0 ni" "r (pll_base md + 1) = pll_reg1 ni nf"
    "r (pll_base md + 2) = pll_reg2 nf" "r (pll_base md + 3) = pll_reg3 nf"
    "drop_bit 2 (r (pll_base md + 5)) = fs" "3 \<le> fs AND 7" "unat ni < 2 ^ 9"
  shows "lms_get_frequency (vco_dev (pll_base md) h l) md g r =
     (Ok (g\<lparr>nint := ni, nfrac := take_bit 23 nf, freqsel := fs,
            vco_x := push_bit (band_shift fs) 1, vcocap := r (pll_base md + 9) AND 0x3f\<rparr>), r)"
proof -
  have ne: "pll_base md \<noteq> pll_base md + 10" by (cases md; simp add: pll_base_def)
  have "lms_get_frequency (vco_dev (pll_base md) h l) md g r =
     (Ok (g\<lparr>nint := push_bit 1 (ucast (pll_reg0 ni)) OR ucast (drop_bit 7 (pll_reg1 ni nf AND 0x80)),
            nfrac := push_bit 16 (ucast (pll_reg1 ni nf) AND 0x7f) OR
                     push_bit 8 (ucast (pll_reg2 nf)) OR ucast (pll_reg3 nf),
            freqsel := fs, vco_x := push_bit (band_shift fs) 1,
            vcocap := r (pll_base md + 9) AND 0x3f\<rparr>), r)"
    using assms(1-6) ne by (simp add: lms_get_frequency_def Let_def iosimps band_shift_def)
  then show ?thesis by (simp only: pll_nint_decode [OF assms(7)] pll_nfrac_decode)
qed

lemma set_get_frequency_vco:
  assumes "h + 2 \<le> l" "l \<le> 63" "vcocap f \<le> 0x3f" "freqsel f \<le> 0x3f" "3 \<le> freqsel f AND 7"
    "unat (nint f) < 2 ^ 9"
    and "flags f AND LMS_FREQ_FLAGS_FORCE_VCOCAP = 0 \<Longrightarrow> vco_reachable h l (vcocap f)"
  defines "c \<equiv> if flags f AND LMS_FREQ_FLAGS_FORCE_VCOCAP \<noteq> 0 then vcocap f
               else of_nat (h + (l - h) div 2)"
  shows "\<exists>r1. lms_set_precalculated_frequency (vco_dev (pll_base md) h l) False md f r =
                (Ok (f\<lparr>vcocap_result := c\<rparr>), r1) \<and> r1 0x09 AND 5 = 0 \<and>
              lms_get_frequency (vco_dev (pll_base md) h l) md g r1 =
                (Ok (g\<lparr>nint := nint f, nfrac := take_bit 23 (nfrac f), freqsel := freqsel f,
                       vco_x := push_bit (band_shift (freqsel f)) 1, vcocap := c\<rparr>), r1)"
proof -
  obtain r1 where s: "lms_set_precalculated_frequency (vco_dev (pll_base md) h l) False md f r =
                (Ok (f\<lparr>vcocap_result := c\<rparr>), r1)"
    and regs: "r1 (pll_base md) = pll_reg0 (nint f)"
      "r1 (pll_base md + 1) = pll_reg1 (nint f) (nfrac f)"
      "r1 (pll_base md + 2) = pll_reg2 (nfrac f)" "r1 (pll_base md + 3) = pll_reg3 (nfrac f)"
      "drop_bit 2 (r1 (pll_base md + 5)) = freqsel f"
    and cap: "r1 (pll_base md + 9) = c OR (r (pll_base md + 9) AND NOT 0x3f)"
    and dsm: "r1 0x09 = (r 0x09 OR 5) AND NOT 5"
    using set_precalculated_body_vco [OF assms(1-4,7), of md r] unfolding c_def by blast
  have "c \<le> 0x3f"
  proof -
    have "unat (of_nat (h + (l - h) div 2) :: u8) = h + (l - h) div 2"
      using assms(1,2) by (simp add: unsigned_of_nat take_bit_nat_eq_self del: of_nat_add)
    moreover have "h + (l - h) div 2 \<le> 63" using assms(1,2) by linarith
    ultimately show ?thesis unfolding c_def using assms(3)
      by (simp add: word_le_nat_alt del: of_nat_add)
  qed
  then have "r1 (pll_base md + 9) AND 0x3f = c" unfolding cap by (rule low6_or_high)
  moreover have "r1 0x09 AND 5 = 0" unfolding dsm by (simp add: and.assoc)
  ultimately show ?thesis
    using s get_frequency_vco [OF regs assms(5,6), of h l g] by auto
qed

lemma frequency_to_hz_cong:
  "nint f = nint g \<Longrightarrow> nfrac f = nfrac g \<Longrightarrow> vco_x f = vco_x g \<Longrightarrow>
   lms_frequency_to_hz f = lms_frequency_to_hz g"
  by (simp add: lms_frequency_to_hz_def)

text \<open>What a tuned chip reads back, for any frequency in range.\<close>

lemma set_frequency_readback:
  assumes "237500000 \<le> freq" "freq \<le> 3800000000" "h + 2 \<le> l" "l \<le> 63"
    and p: "lms_calculate_tuning_params freq f = Ok p" and "vco_reachable h l (vcocap p)"
  shows "\<exists>q r1 g1. lms_set_frequency (vco_dev (pll_base md) h l) False md freq f r = (Ok q, r1) \<and>
           lms_get_frequency (vco_dev (pll_base md) h l) md g r1 = (Ok g1, r1) \<and>
           r1 0x09 AND 5 = 0 \<and>
           nint g1 = nint p \<and> nfrac g1 = take_bit 23 (nfrac p) \<and> vco_x g1 = vco_x p"
proof -
  obtain k where k: "vco_x p = push_bit k 1" "2 ^ k * unat freq \<le> 7600000000"
      "unat (nint p) = pll_nint (2 ^ k) (unat freq)" "band_shift (freqsel p) = k"
      "3 \<le> freqsel p AND 7" "freqsel p \<le> 0x3f" "flags p = (if freq < 1500000000 then 1 else 0)"
    using tuning_params_sound [OF assms(1,2), of f thesis] p by simp
  have ni: "unat (nint p) < 2 ^ 9" using pll_bounds(1) [OF k(2)] k(3) by simp
  have fl: "flags p AND LMS_FREQ_FLAGS_FORCE_VCOCAP = 0" by (simp add: k(7) lms_freq_consts)
  have cap: "vcocap p \<le> 0x3f" using assms(6) by (simp add: vco_reachable_def word_le_nat_alt)
  from set_get_frequency_vco [OF assms(3,4) cap k(6,5) ni assms(6), of md r g] fl
  show ?thesis
    by (auto simp: lms_set_frequency_def p iosimps k(1,4))
qed

section \<open>Properties\<close>

text \<open>C13. The capacitance search converges: in front of the whole stack and a chip whose VTUNE
  comparator is high up to a capacitance \<open>h\<close>, low from \<open>l\<close> on and normal in between, the
  search succeeds from every estimate whose first walk stays within the iteration limit,
  writes and returns the centre of the normal region and changes no other register.\<close>

theorem tune_vcocap_converges:
  assumes "world_ok d" "h + 2 \<le> l" "l \<le> 63" "lms_chip d (base + 9) AND 0x3f = est"
    and "vco_reachable h l est"
  shows "\<exists>d'. tune_vcocap (stack_dev (vco_read base h l) regs_write rt lg n) est base
                 (st AND NOT 0x3f) d = (Ok (of_nat (h + (l - h) div 2)), d') \<and>
              world_ok d' \<and>
              lms_chip d' = (lms_chip d)(base + 9 := of_nat (h + (l - h) div 2) OR (st AND NOT 0x3f))"
proof -
  have "tune_vcocap (chip_dev (vco_read base h l) regs_write) est base (st AND NOT 0x3f)
          (lms_chip d) =
        (Ok (of_nat (h + (l - h) div 2)),
         (lms_chip d)(base + 9 := of_nat (h + (l - h) div 2) OR (st AND NOT 0x3f)))"
    using tune_vcocap_vco [of h l "lms_chip d" base est st] assms(2-5)
    unfolding vco_dev_def by blast
  then show ?thesis by (rule implementsD [OF stack.impl_tune_vcocap(2) assms(1)])
qed

lemma tune_vcocap_converges_witness:
  "\<exists>d'. tune_vcocap (stack_dev (vco_read 0x20 20 30) regs_write (\<lambda>p s. (p, s)) (\<lambda>p s. (p, s)) 40)
          15 0x20 0x80 (fresh_world ((\<lambda>a. 0x8f), False)) = (Ok 25, d') \<and>
        lms_chip d' 0x29 = 0x99"
  using tune_vcocap_converges [of "fresh_world ((\<lambda>a. 0x8f), False)" 20 30 "0x20" 15
    "\<lambda>p s. (p, s)" "\<lambda>p s. (p, s)" 40 "0x80"]
  by (auto simp: vco_reachable_def)


lemma vco_reachable_estimates:
  assumes "15 \<le> unat e" "unat e \<le> 55" shows "vco_reachable 34 36 e"
  using assms by (auto simp: vco_reachable_def)

lemma tuning_params_estimate:
  assumes "237500000 \<le> freq" "freq \<le> 3800000000"
  shows "\<exists>p k. lms_calculate_tuning_params freq f = Ok p \<and> vco_reachable 34 36 (vcocap p) \<and>
           1 \<le> k \<and> k \<le> 4 \<and> 3800000000 \<le> 2 ^ k * unat freq \<and> 2 ^ k * unat freq \<le> 7600000000 \<and>
           unat (nfrac p) = pll_nfrac (2 ^ k) (unat freq)"
proof -
  obtain p k where p: "lms_calculate_tuning_params freq f = Ok p" "1 \<le> k" "k \<le> 4"
      "3800000000 \<le> 2 ^ k * unat freq" "2 ^ k * unat freq \<le> 7600000000"
      "unat (nfrac p) = pll_nfrac (2 ^ k) (unat freq)"
    and b: "\<exists>low high. (low, high, freqsel p) \<in> set bands \<and> low \<le> freq \<and> freq \<le> high \<and>
           vcocap p = estimate_vcocap freq low high"
    using tuning_params_sound [OF assms, of f thesis] by metis
  have "vco_reachable 34 36 (vcocap p)"
    using b band_facts(7,8) estimate_vcocap_bounds by (metis vco_reachable_estimates)
  with p show ?thesis by blast
qed


text \<open>C15. The fractional word that does not fit is lost in the registers: for a frequency one
  below a multiple of 19.2 MHz that needs the divide-by-2 VCO output, tuning reports success,
  but the synthesizer is programmed 19.199999 MHz below the requested frequency.\<close>

theorem set_frequency_off_by_19MHz:
  assumes "1900000000 < freq" "freq \<le> BLADERF_FREQUENCY_MAX" "unat freq mod 19200000 = 19199999"
    and "h + 2 \<le> l" "l \<le> 63" "lms_calculate_tuning_params freq f = Ok p"
    and "vco_reachable h l (vcocap p)"
  shows "\<exists>q r1 g1. lms_set_frequency (vco_dev (pll_base md) h l) False md freq f r = (Ok q, r1) \<and>
     lms_get_frequency (vco_dev (pll_base md) h l) md g r1 = (Ok g1, r1) \<and>
     lms_frequency_to_hz g1 = Ok (freq - 19199999)"
proof -
  have r: "237500000 \<le> freq" "freq \<le> 3800000000" "1900000000 < unat freq" "unat freq \<le> 3800000000"
    using assms(1,2) by (simp_all add: lms_freq_consts word_le_nat_alt word_less_nat_alt)
  obtain q r1 g1 where s: "lms_set_frequency (vco_dev (pll_base md) h l) False md freq f r = (Ok q, r1)"
      "lms_get_frequency (vco_dev (pll_base md) h l) md g r1 = (Ok g1, r1)"
    and eq: "nint g1 = nint p" "nfrac g1 = take_bit 23 (nfrac p)" "vco_x g1 = vco_x p"
    using set_frequency_readback [OF r(1,2) assms(4-7)] by blast
  obtain k where k: "1 \<le> k" "k \<le> 4" "2 ^ k * unat freq \<le> 7600000000" "vco_x p = push_bit k 1"
      "unat (nint p) = pll_nint (2 ^ k) (unat freq)"
      "unat (nfrac p) = pll_nfrac (2 ^ k) (unat freq)"
    using tuning_params_sound [OF r(1,2), of f thesis] assms(6) by simp
  have "k = 1 \<or> k = 2 \<or> k = 3 \<or> k = 4" using k by linarith
  then have k1: "k = 1" using k(3) r(3) by (elim disjE) simp_all
  have nf: "unat (nfrac p) = 8388608"
    using pll_nfrac_max [OF k(1,2), of "unat freq"] k1 assms(3) k(6) by simp
  have "unat (nfrac p) = unat (8388608 :: u32)" using nf by simp
  then have "nfrac p = 8388608" by (rule unsigned_word_eqI)
  then have nf0: "nfrac g1 = 0" using eq(2) by simp
  define m where "m = unat freq div 19200000"
  have fm: "unat freq = 19200000 * m + 19199999" 
    using div_mult_mod_eq [of "unat freq" 19200000] assms(3) unfolding m_def by simp
  have ni: "unat (nint g1) = m" unfolding eq(1) k(5) k1 pll_nint_def fm by simp
  have "m \<le> 197" using fm r(4) by linarith
  moreover have "(322122547200000 * m + 8388608) div 16777216 = 19200000 * m" by linarith
  ultimately have "lms_frequency_to_hz g1 = Ok (of_nat (19200000 * m))"
    using frequency_to_hz_nat [of g1 1] eq(3) k(4) k1 ni nf0 by simp
  also have "of_nat (19200000 * m) = freq - 19199999"
  proof -
    have "freq = of_nat (19200000 * m + 19199999)" by (simp flip: fm del: of_nat_add)
    then show ?thesis by simp
  qed
  finally show ?thesis using s by blast
qed

lemma set_frequency_off_by_19MHz_witness:
  "\<exists>q r1 g1. lms_set_frequency (vco_dev (pll_base BLADERF_MODULE_TX) 34 36) False BLADERF_MODULE_TX
       1919999999 zero_freq (\<lambda>a. 0) = (Ok q, r1) \<and>
     lms_get_frequency (vco_dev (pll_base BLADERF_MODULE_TX) 34 36) BLADERF_MODULE_TX zero_freq r1 =
       (Ok g1, r1) \<and>
     lms_frequency_to_hz g1 = Ok 1900800000"
proof -
  have r: "237500000 \<le> (1919999999 :: u32)" "(1919999999 :: u32) \<le> 3800000000" by simp_all
  obtain p where "lms_calculate_tuning_params 1919999999 zero_freq = Ok p" "vco_reachable 34 36 (vcocap p)"
    using tuning_params_estimate [OF r, of zero_freq] by blast
  from set_frequency_off_by_19MHz [OF _ _ _ _ _ this, of BLADERF_MODULE_TX "\<lambda>a. 0" zero_freq]
  show ?thesis by (simp add: lms_freq_consts)
qed

end
