(* ===== verification/Lms_Path.thy ===== *)
theory Lms_Path
  imports Lms_Vco
begin

unbundle bit_operations_syntax

text \<open>
  Loopback paths of the LMS6002D driver: the RX and TX side configuration, the path switches
  and \<open>lms_set_loopback_mode\<close>, which composes them after disabling the amplifiers. Leaving
  loopback retunes both channels, so the operations take the tuning code's parameters. Also
  the XB-200 settings of a quick tune, as the driver packs them and the firmware applies them.
\<close>

section \<open>Loopback\<close>

definition loopback_path :: "'s lms_backend \<Rightarrow> bladerf_loopback \<Rightarrow> ('s, unit) io" where
  "loopback_path dev mode =
     seq (lms_read dev 0x46) (\<lambda>loopbben.
     seq (lms_read dev 0x08) (\<lambda>lben_lbrf.
       let loopbben = loopbben AND NOT 0x0c; lben_lbrf = lben_lbrf AND NOT 0x7f in
       seq (case mode of
              BLADERF_LB_BB_TXLPF_RXVGA2 \<Rightarrow> ret (loopbben OR 0x04, lben_lbrf OR 0x20)
            | BLADERF_LB_BB_TXLPF_RXLPF \<Rightarrow> ret (loopbben OR 0x04, lben_lbrf OR 0x40)
            | BLADERF_LB_BB_TXVGA1_RXVGA2 \<Rightarrow> ret (loopbben OR 0x08, lben_lbrf OR 0x20)
            | BLADERF_LB_BB_TXVGA1_RXLPF \<Rightarrow> ret (loopbben OR 0x08, lben_lbrf OR 0x40)
            | BLADERF_LB_RF_LNA1 \<Rightarrow> ret (loopbben, lben_lbrf OR 1)
            | BLADERF_LB_RF_LNA2 \<Rightarrow> ret (loopbben, lben_lbrf OR 2)
            | BLADERF_LB_RF_LNA3 \<Rightarrow> ret (loopbben, lben_lbrf OR 3)
            | BLADERF_LB_NONE \<Rightarrow> ret (loopbben, lben_lbrf)
            | _ \<Rightarrow> fail BLADERF_ERR_INVAL) (\<lambda>(loopbben, lben_lbrf).
       seq (lms_write dev 0x46 loopbben) (\<lambda>_. lms_write dev 0x08 lben_lbrf))))"

definition restore_frequency ::
    "'s lms_backend \<Rightarrow> bool \<Rightarrow> bladerf_module \<Rightarrow> lms_freq \<Rightarrow> ('s, unit) io" where
  \<comment> \<open>the read, retune and band selection both \<^verbatim>\<open>BLADERF_LB_NONE\<close> branches perform;
      \<open>f\<close> is the uninitialised local structure\<close>
  "restore_frequency dev atomic md f =
     seq (lms_get_frequency dev md f) (\<lambda>f.
     seq (status_io (lms_frequency_to_hz f)) (\<lambda>hz.
     seq (lms_set_frequency dev atomic md hz f) (\<lambda>_.
     lms_select_band dev md (hz < BLADERF1_BAND_HIGH))))"

definition loopback_tx :: "'s lms_backend \<Rightarrow> bool \<Rightarrow> lms_freq \<Rightarrow> bladerf_loopback \<Rightarrow> ('s, unit) io" where
  "loopback_tx dev atomic f mode =
     (case mode of
        BLADERF_LB_BB_TXLPF_RXVGA2 \<Rightarrow> ret ()
      | BLADERF_LB_BB_TXLPF_RXLPF \<Rightarrow> ret ()
      | BLADERF_LB_BB_TXVGA1_RXVGA2 \<Rightarrow> ret ()
      | BLADERF_LB_BB_TXVGA1_RXLPF \<Rightarrow> ret ()
      | BLADERF_LB_RF_LNA1 \<Rightarrow> lms_select_pa dev PA_AUX
      | BLADERF_LB_RF_LNA2 \<Rightarrow> lms_select_pa dev PA_AUX
      | BLADERF_LB_RF_LNA3 \<Rightarrow> lms_select_pa dev PA_AUX
      | BLADERF_LB_NONE \<Rightarrow> restore_frequency dev atomic BLADERF_MODULE_TX f
      | _ \<Rightarrow> undef_io)"

definition enable_rxlpf_if_disabled :: "'s lms_backend \<Rightarrow> bladerf_lpf_mode \<Rightarrow> ('s, unit) io" where
  "enable_rxlpf_if_disabled dev lpf_mode =
     when_io (lpf_mode = BLADERF_LPF_DISABLED)
       (lms_lpf_set_mode dev BLADERF_MODULE_RX BLADERF_LPF_NORMAL)"

definition loopback_rx_lna :: "'s lms_backend \<Rightarrow> bladerf_lpf_mode \<Rightarrow> lms_lna \<Rightarrow> ('s, unit) io" where
  \<comment> \<open>the \<^verbatim>\<open>BLADERF_LB_RF_LNA1\<close> to \<^verbatim>\<open>LNA3\<close> branch\<close>
  "loopback_rx_lna dev lpf_mode lna =
     seq (enable_lna_power dev False) (\<lambda>_.
     seq (lms_rxvga1_enable dev True) (\<lambda>_.
     seq (enable_rxlpf_if_disabled dev lpf_mode) (\<lambda>_.
     seq (lms_rxvga2_enable dev True) (\<lambda>_.
     seq (lms_read dev 0x25) (\<lambda>regval.
     seq (lms_write dev 0x25 ((regval AND NOT 0x03) OR lna_code lna)) (\<lambda>_.
     seq (lms_select_lna dev lna) (\<lambda>_.
     enable_rf_loopback_switch dev True)))))))"

definition loopback_rx :: "'s lms_backend \<Rightarrow> bool \<Rightarrow> lms_freq \<Rightarrow> bladerf_loopback \<Rightarrow> ('s, unit) io" where
  "loopback_rx dev atomic f mode =
     seq (lms_lpf_get_mode dev BLADERF_MODULE_RX) (\<lambda>lpf_mode.
     case mode of
       BLADERF_LB_BB_TXLPF_RXVGA2 \<Rightarrow>
         seq (lms_rxvga2_enable dev True) (\<lambda>_.
         lms_lpf_set_mode dev BLADERF_MODULE_RX BLADERF_LPF_DISABLED)
     | BLADERF_LB_BB_TXVGA1_RXVGA2 \<Rightarrow>
         seq (lms_rxvga2_enable dev True) (\<lambda>_.
         lms_lpf_set_mode dev BLADERF_MODULE_RX BLADERF_LPF_DISABLED)
     | BLADERF_LB_BB_TXLPF_RXLPF \<Rightarrow>
         seq (lms_rxvga1_enable dev False) (\<lambda>_.
         seq (enable_rxlpf_if_disabled dev lpf_mode) (\<lambda>_.
         lms_rxvga2_enable dev True))
     | BLADERF_LB_BB_TXVGA1_RXLPF \<Rightarrow>
         seq (lms_rxvga1_enable dev False) (\<lambda>_.
         seq (enable_rxlpf_if_disabled dev lpf_mode) (\<lambda>_.
         lms_rxvga2_enable dev True))
     | BLADERF_LB_RF_LNA1 \<Rightarrow> loopback_rx_lna dev lpf_mode LNA_1
     | BLADERF_LB_RF_LNA2 \<Rightarrow> loopback_rx_lna dev lpf_mode LNA_2
     | BLADERF_LB_RF_LNA3 \<Rightarrow> loopback_rx_lna dev lpf_mode LNA_3
     | BLADERF_LB_NONE \<Rightarrow>
         seq (lms_rxvga1_enable dev True) (\<lambda>_.
         seq (enable_rxlpf_if_disabled dev lpf_mode) (\<lambda>_.
         seq (lms_rxvga2_enable dev True) (\<lambda>_.
         seq (enable_rf_loopback_switch dev False) (\<lambda>_.
         seq (enable_lna_power dev True) (\<lambda>_.
         restore_frequency dev atomic BLADERF_MODULE_RX f)))))
     | _ \<Rightarrow> undef_io)"

definition valid_loopback :: "bladerf_loopback \<Rightarrow> bool" where
  "valid_loopback mode \<longleftrightarrow>
     mode \<in> {BLADERF_LB_BB_TXLPF_RXVGA2, BLADERF_LB_BB_TXLPF_RXLPF, BLADERF_LB_BB_TXVGA1_RXVGA2,
             BLADERF_LB_BB_TXVGA1_RXLPF, BLADERF_LB_RF_LNA1, BLADERF_LB_RF_LNA2,
             BLADERF_LB_RF_LNA3, BLADERF_LB_NONE}"

definition lms_set_loopback_mode ::
    "'s lms_backend \<Rightarrow> bool \<Rightarrow> lms_freq \<Rightarrow> bladerf_loopback \<Rightarrow> ('s, unit) io" where
  "lms_set_loopback_mode dev atomic f mode =
     (if \<not> valid_loopback mode then fail BLADERF_ERR_INVAL
      else
        seq (lms_select_pa dev PA_NONE) (\<lambda>_.
        seq (lms_select_lna dev LNA_NONE) (\<lambda>_.
        seq (loopback_path dev BLADERF_LB_NONE) (\<lambda>_.
        seq (loopback_rx dev atomic f mode) (\<lambda>_.
        seq (loopback_tx dev atomic f mode) (\<lambda>_.
        loopback_path dev mode))))))"

section \<open>XB-200 settings of a quick tune in the firmware\<close>

definition xb_config_val :: "u8 \<Rightarrow> u32 \<Rightarrow> u32" where
  \<comment> \<open>the expansion port word \<^verbatim>\<open>xb_config_write\<close> composes\<close>
  "xb_config_val gpio val =
     (if gpio AND 0x40 \<noteq> 0 then
        (val AND NOT 0x30000030)
          OR push_bit 28 (ucast (drop_bit 4 (gpio AND 0x30)) AND 3)
          OR push_bit 4 (ucast (drop_bit 2 (gpio AND 0x0c)) AND 3) OR 0x2000
      else
        (val AND NOT 0x0c00000c)
          OR push_bit 26 (ucast (drop_bit 4 (gpio AND 0x30)) AND 3)
          OR push_bit 2 (ucast (drop_bit 2 (gpio AND 0x0c)) AND 3) OR 0x1000)"

definition xb_config_write :: "'m bus_fns \<Rightarrow> u8 \<Rightarrow> 'm nios \<Rightarrow> bool \<times> 'm nios" where
  "xb_config_write b gpio s =
     (case expansion_port_read b s of (val, s1) \<Rightarrow>
      if gpio AND 0x80 = 0 then (True, s1)
      else case expansion_port_write b (xb_config_val gpio val) s1 of
        (False, s2) \<Rightarrow> (False, s2)
      | (True, s2) \<Rightarrow>
          (case lms6_read b 0x5a 0 s2 of
             ((False, _), s3) \<Rightarrow> (False, s3)
           | ((True, reg), s3) \<Rightarrow>
               let swap = (if gpio AND 0x40 \<noteq> 0 then 0x40 else 0x08);
                   lreg = (if drop_bit 2 (gpio AND 0x0c) AND 1 \<noteq> 0 then reg OR swap
                           else reg AND NOT swap) in
               lms6_write b 0x5a lreg s3))"

section \<open>Implementation over a transport\<close>

context lms_transport
begin

lemma impl_loopback_path [lms_impl]:
  "implements good chip (loopback_path dev mode) (loopback_path ideal mode)"
  unfolding loopback_path_def Let_def by (cases mode; simp; intro lms_impl)

lemma impl_restore_frequency [lms_impl]:
  "implements good chip (restore_frequency dev atomic md f) (restore_frequency ideal atomic md f)"
  unfolding restore_frequency_def by (intro lms_impl)

lemma impl_loopback_sides [lms_impl]:
  "implements good chip (enable_rxlpf_if_disabled dev lm) (enable_rxlpf_if_disabled ideal lm)"
  "implements good chip (loopback_rx_lna dev lm lna) (loopback_rx_lna ideal lm lna)"
  unfolding loopback_rx_lna_def enable_rxlpf_if_disabled_def by (intro lms_impl)+

lemma impl_loopback_tx [lms_impl]:
  "implements good chip (loopback_tx dev atomic f mode) (loopback_tx ideal atomic f mode)"
  unfolding loopback_tx_def by (cases mode; simp; intro lms_impl)

lemma impl_loopback_rx [lms_impl]:
  "implements good chip (loopback_rx dev atomic f mode) (loopback_rx ideal atomic f mode)"
  unfolding loopback_rx_def by (cases mode; simp; intro lms_impl)

lemma impl_set_loopback_mode [lms_impl]:
  "implements good chip (lms_set_loopback_mode dev atomic f mode)
     (lms_set_loopback_mode ideal atomic f mode)"
  unfolding lms_set_loopback_mode_def by (intro lms_impl)

end

section \<open>Loopback modes read back\<close>

definition path_codes :: "(bladerf_loopback \<times> u8 \<times> u8) list" where
  \<comment> \<open>each mode with its bits in registers 0x08 and 0x46\<close>
  "path_codes =
     [(BLADERF_LB_BB_TXLPF_RXVGA2, 0x20, 4), (BLADERF_LB_BB_TXLPF_RXLPF, 0x40, 4),
      (BLADERF_LB_BB_TXVGA1_RXVGA2, 0x20, 8), (BLADERF_LB_BB_TXVGA1_RXLPF, 0x40, 8),
      (BLADERF_LB_RF_LNA1, 1, 0), (BLADERF_LB_RF_LNA2, 2, 0), (BLADERF_LB_RF_LNA3, 3, 0),
      (BLADERF_LB_NONE, 0, 0)]"

lemma loopback_path_regs:
  assumes "loopback_path regs_dev mode r = (Ok (), r')"
  shows "\<exists>x y. (mode, x, y) \<in> set path_codes \<and> r' 0x08 = (r 0x08 AND NOT 0x7f) OR x \<and>
               r' 0x46 = (r 0x46 AND NOT 0x0c) OR y"
  using assms unfolding path_codes_def
  by (cases mode) (auto simp: loopback_path_def iosimps Let_def seq_def)

lemma path_masks:
  fixes d x :: u8
  shows "((d AND NOT 0x7f) OR x) AND 7 = x AND 7" "((d AND NOT 0x7f) OR x) AND 0x70 = x AND 0x70"
    "((d AND NOT 0x0c) OR x) AND 4 = x AND 4" "((d AND NOT 0x0c) OR x) AND 8 = x AND 8"
  by (simp_all add: bit.conj_disj_distrib2 and.assoc)

lemma loopback_path_get:
  assumes "loopback_path regs_dev mode r = (Ok (), r')"
  shows "lms_get_loopback_mode regs_dev r' = (Ok mode, r')"
proof -
  obtain x y where m: "(mode, x, y) \<in> set path_codes"
    and r': "r' 0x08 = (r 0x08 AND NOT 0x7f) OR x" "r' 0x46 = (r 0x46 AND NOT 0x0c) OR y"
    using loopback_path_regs [OF assms] by blast
  show ?thesis
    unfolding lms_get_loopback_mode_def seq_regs_read ret_apply r' path_masks
    using m unfolding path_codes_def set_simps insert_iff empty_iff prod.inject
    by (elim disjE conjE FalseE; simp)
qed

text \<open>C16. A loopback mode that was set is the mode that reads back: through the whole stack,
  when \<open>lms_set_loopback_mode\<close> reports success, whatever the mode, \<open>lms_get_loopback_mode\<close> then
  returns that mode.\<close>

theorem loopback_mode_reads_back:
  assumes "world_ok d"
    and "lms_set_loopback_mode (regs_stack rt lg n) atomic f mode d = (Ok (), d1)"
  shows "\<exists>d2. lms_get_loopback_mode (regs_stack rt lg n) d1 = (Ok mode, d2) \<and>
              lms_chip d2 = lms_chip d1"
proof -
  have "world_ok d1 \<and> lms_set_loopback_mode regs_dev atomic f mode (lms_chip d) =
          (Ok (), lms_chip d1)"
    by (rule implements_run [OF regs.impl_set_loopback_mode assms])
  then have "\<exists>r. loopback_path regs_dev mode r = (Ok (), lms_chip d1)" "world_ok d1"
    by (auto simp: lms_set_loopback_mode_def seq_eq_Ok_iff fail_apply split: if_splits)
  then have "lms_get_loopback_mode regs_dev (lms_chip d1) = (Ok mode, lms_chip d1)"
    using loopback_path_get by blast
  then show ?thesis
    using implementsD [OF regs.impl_pll_config(1) \<open>world_ok d1\<close>] by blast
qed

text \<open>The register-file effect of the operations a loopback change composes.\<close>

lemma path_ops_regs [iosimps]:
  "lms_rxvga1_enable regs_dev en r =
     (Ok (), r(0x7d := if en then r 0x7d AND NOT 0x08 else r 0x7d OR 0x08))"
  "lms_rxvga2_enable regs_dev en r =
     (Ok (), r(0x64 := if en then r 0x64 OR 2 else r 0x64 AND NOT 2))"
  "lms_select_pa regs_dev PA_NONE r = (Ok (), r(0x44 := (r 0x44 AND NOT 0x1c) OR 2))"
  "loopback_path regs_dev BLADERF_LB_NONE r =
     (Ok (), r(0x46 := r 0x46 AND NOT 0x0c, 0x08 := r 0x08 AND NOT 0x7f))"
  by (simp_all add: lms_rxvga1_enable_def lms_rxvga2_enable_def lms_select_pa_def
        loopback_path_def iosimps Let_def)

lemma lpf_set_mode_run [iosimps]:
  assumes "mode \<noteq> lpf_mode_invalid"
  shows "\<exists>dl dh. lms_lpf_set_mode regs_dev BLADERF_MODULE_RX mode r =
           (Ok (), r(0x54 := dl, 0x55 := dh))"
  using lms_lpf_set_mode_regs [OF assms, of BLADERF_MODULE_RX r] by (auto simp: lpf_reg_def)

lemma loopback_rx_bb:
  assumes "mode \<in> {BLADERF_LB_BB_TXLPF_RXVGA2, BLADERF_LB_BB_TXVGA1_RXVGA2,
                    BLADERF_LB_BB_TXLPF_RXLPF, BLADERF_LB_BB_TXVGA1_RXLPF}"
    and "lms_lpf_get_mode regs_dev BLADERF_MODULE_RX r = (Ok lm, r)"
  shows "\<exists>r'. loopback_rx regs_dev atomic f mode r = (Ok (), r') \<and> r' 0x44 = r 0x44 \<and>
              r' 0x75 = r 0x75"
proof -
  have step: "\<exists>r'. lms_lpf_set_mode regs_dev BLADERF_MODULE_RX m q = (Ok (), r') \<and>
      r' 0x44 = q 0x44 \<and> r' 0x75 = q 0x75 \<and> r' 0x64 = q 0x64"
    if "m \<noteq> lpf_mode_invalid" for m q
    using lpf_set_mode_run [OF that, of q] by auto
  have lpf: "\<exists>r'. enable_rxlpf_if_disabled regs_dev lm q = (Ok (), r') \<and>
      r' 0x44 = q 0x44 \<and> r' 0x75 = q 0x75" for q
    using step [of BLADERF_LPF_NORMAL q] by (auto simp: enable_rxlpf_if_disabled_def iosimps)
  obtain r1 where r1: "lms_lpf_set_mode regs_dev BLADERF_MODULE_RX BLADERF_LPF_DISABLED
      (r(0x64 := r 0x64 OR 2)) = (Ok (), r1)" "r1 0x44 = r 0x44" "r1 0x75 = r 0x75"
    using step [of BLADERF_LPF_DISABLED "r(0x64 := r 0x64 OR 2)"] by auto
  obtain r2 where r2: "enable_rxlpf_if_disabled regs_dev lm (r(0x7d := r 0x7d OR 0x08)) =
      (Ok (), r2)" "r2 0x44 = r 0x44" "r2 0x75 = r 0x75"
    using lpf [of "r(0x7d := r 0x7d OR 0x08)"] by auto
  show ?thesis
    using assms r1 r2 by (auto simp: loopback_rx_def iosimps)
qed

lemma loopback_path_bb:
  assumes "valid_loopback mode"
  shows "\<exists>a b. loopback_path regs_dev mode r = (Ok (), r(0x46 := a, 0x08 := b))"
  using assms by (cases mode) (auto simp: valid_loopback_def loopback_path_def iosimps Let_def)

abbreviation (input) bb_loopback :: "bladerf_loopback \<Rightarrow> bool" where
  "bb_loopback mode \<equiv> mode \<in> {BLADERF_LB_BB_TXLPF_RXVGA2, BLADERF_LB_BB_TXVGA1_RXVGA2,
                                BLADERF_LB_BB_TXLPF_RXLPF, BLADERF_LB_BB_TXVGA1_RXLPF}"

lemma bb_loopback_run:
  assumes "bb_loopback mode"
    and "lms_lpf_get_mode regs_dev BLADERF_MODULE_RX r = (Ok lm, r)"
  shows "\<exists>r'. lms_set_loopback_mode regs_dev atomic f mode r = (Ok (), r') \<and>
     r' 0x44 = (r 0x44 AND NOT 0x1c) OR 2 \<and> r' 0x75 = r 0x75 AND NOT 0x30"
proof -
  define q where "q = r(0x44 := (r 0x44 AND NOT 0x1c) OR 2, 0x75 := r 0x75 AND NOT 0x30,
      0x46 := r 0x46 AND NOT 0x0c, 0x08 := r 0x08 AND NOT 0x7f)"
  have lpf: "lms_lpf_get_mode regs_dev BLADERF_MODULE_RX q = (Ok lm, q)"
    using assms(2) by (auto simp: q_def lms_lpf_get_mode_def iosimps Let_def lpf_reg_def
        split: if_splits)
  obtain q1 where q1: "loopback_rx regs_dev atomic f mode q = (Ok (), q1)" "q1 0x44 = q 0x44"
      "q1 0x75 = q 0x75"
    using loopback_rx_bb [OF assms(1) lpf] by blast
  have tx: "loopback_tx regs_dev atomic f mode q1 = (Ok (), q1)"
    using assms(1) by (auto simp: loopback_tx_def iosimps)
  have valid: "valid_loopback mode" using assms(1) by (auto simp: valid_loopback_def)
  obtain a b where path: "loopback_path regs_dev mode q1 = (Ok (), q1(0x46 := a, 0x08 := b))"
    using loopback_path_bb [OF valid] by blast
  have "lms_set_loopback_mode regs_dev atomic f mode r = (Ok (), q1(0x46 := a, 0x08 := b))"
    using valid q1(1) tx path
    by (simp add: lms_set_loopback_mode_def iosimps q_def fun_upd_def)
  then show ?thesis by (simp add: q1 q_def)
qed

lemma loopback_mode_reads_back_witness:
  "\<exists>d1 d2. lms_set_loopback_mode (regs_stack (\<lambda>p s. (p, s)) (\<lambda>p s. (p, s)) 40) False zero_freq
         BLADERF_LB_BB_TXLPF_RXLPF (fresh_world (\<lambda>a. 0x12, False)) = (Ok (), d1) \<and>
     lms_get_loopback_mode (regs_stack (\<lambda>p s. (p, s)) (\<lambda>p s. (p, s)) 40) d1 =
       (Ok BLADERF_LB_BB_TXLPF_RXLPF, d2)"
proof -
  have ok: "world_ok (fresh_world ((\<lambda>a. 0x12), False))" by (rule fresh_world_ok)
  have "lms_lpf_get_mode regs_dev BLADERF_MODULE_RX (\<lambda>a. 0x12) = (Ok BLADERF_LPF_NORMAL, \<lambda>a. 0x12)"
    by (simp add: lms_lpf_get_mode_def iosimps)
  then obtain r' where "lms_set_loopback_mode regs_dev False zero_freq BLADERF_LB_BB_TXLPF_RXLPF
      (lms_chip (fresh_world ((\<lambda>a. 0x12), False))) = (Ok (), r')"
    using bb_loopback_run [of BLADERF_LB_BB_TXLPF_RXLPF "\<lambda>a. 0x12" BLADERF_LPF_NORMAL] by auto
  from implementsD [OF regs.impl_set_loopback_mode ok this]
  obtain d1 where run: "lms_set_loopback_mode (regs_stack (\<lambda>p s. (p, s)) (\<lambda>p s. (p, s)) 40) False
      zero_freq BLADERF_LB_BB_TXLPF_RXLPF (fresh_world (\<lambda>a. 0x12, False)) = (Ok (), d1)" by blast
  from loopback_mode_reads_back [OF ok run] run show ?thesis by blast
qed



section \<open>XB-200 settings of a quick tune\<close>

lemma low2_eqI:
  fixes a b :: u32
  assumes "bit a 0 = bit b 0" "bit a 1 = bit b 1"
  shows "a AND 3 = b AND 3"
proof (rule bit_word_eqI)
  fix n assume "n < LENGTH(32)"
  have three: "(3 :: u32) = mask 2" by (simp add: mask_eq_exp_minus_1)
  have "bit a n = bit b n" if "n < 2" using assms that by (cases n) auto
  then show "bit (a AND 3) n = bit (b AND 3) n"
    unfolding three bit_and_iff bit_mask_iff by auto
qed

lemma xb_gpio_fields:
  "quick_tune_xb_gpio rx val AND 0x80 \<noteq> 0"
  "quick_tune_xb_gpio rx val AND 0x40 \<noteq> 0 \<longleftrightarrow> rx"
proof -
  have "bit (quick_tune_xb_gpio rx val) 7" "bit (quick_tune_xb_gpio rx val) 6 \<longleftrightarrow> rx"
    by (cases rx; simp add: quick_tune_xb_gpio_def bit_simps)+
  moreover have "w AND 0x80 \<noteq> 0 \<longleftrightarrow> bit w 7" "w AND 0x40 \<noteq> 0 \<longleftrightarrow> bit w 6" for w :: u8
    using and_exp_eq_0_iff_not_bit [of w 7] and_exp_eq_0_iff_not_bit [of w 6] by simp_all
  ultimately show "quick_tune_xb_gpio rx val AND 0x80 \<noteq> 0"
    "quick_tune_xb_gpio rx val AND 0x40 \<noteq> 0 \<longleftrightarrow> rx" by simp_all
qed

text \<open>Quick tune and the XB-200: for RX the firmware restores the path and filter selection
  that the expansion port had when the quick tune was captured. For TX the two fields come back
  exchanged: the filter bits receive the captured path and the path bits the captured filter.\<close>

lemma quick_tune_xb200:
  "(let w = xb_config_val (quick_tune_xb_gpio True val) cur in
      drop_bit 4 w AND 3 = drop_bit 4 val AND 3 \<and> drop_bit 28 w AND 3 = drop_bit 28 val AND 3) \<and>
   (let w = xb_config_val (quick_tune_xb_gpio False val) cur in
      drop_bit 2 w AND 3 = drop_bit 26 val AND 3 \<and> drop_bit 26 w AND 3 = drop_bit 2 val AND 3)"
  unfolding Let_def xb_config_val_def xb_gpio_fields
  by (intro conjI low2_eqI; simp add: quick_tune_xb_gpio_def bit_simps)

end
