(* ===== verification/Lms_DcCal.thy ===== *)
theory Lms_DcCal
  imports Lms_Path
begin

unbundle bit_operations_syntax

text \<open>
  DC calibration of the LMS6002D driver: the calibration state machine of
  \<open>lms_calibrate_dc\<close> (backup, initialisation, retries with falling gain, deinitialisation and
  restore), the manual calibration values and the DC offset correction registers. The status
  registers of the calibration blocks answer with arbitrary values in the chip model, so that
  the theorems hold for every outcome of the hardware's calibration.
\<close>

section \<open>Operations\<close>

datatype bladerf_cal_module =
    BLADERF_DC_CAL_INVALID | BLADERF_DC_CAL_LPF_TUNING | BLADERF_DC_CAL_TX_LPF
  | BLADERF_DC_CAL_RX_LPF | BLADERF_DC_CAL_RXVGA2

record dc_cal_state =
  clk_en :: u8
  reg0x72 :: u8
  st_lna_gain :: bladerf_lna_gain
  st_rxvga1_gain :: int
  st_rxvga2_gain :: int
  base_addr :: u8
  num_submodules :: nat
  rxvga1_curr_gain :: int
  rxvga2_curr_gain :: int

fun dc_cal_poll :: "nat \<Rightarrow> 's lms_backend \<Rightarrow> u8 \<Rightarrow> ('s, u8) io" where
  \<comment> \<open>the loop of \<^verbatim>\<open>lms_dc_cal_loop\<close>; the first argument counts the polls left\<close>
  "dc_cal_poll 0 dev base = fail BLADERF_ERR_UNEXPECTED"
| "dc_cal_poll (Suc i) dev base =
     seq (lms_read dev (base + 1)) (\<lambda>val.
     if drop_bit 1 val AND 1 = 0
     then seq (lms_read dev base) (\<lambda>dc_regval. ret (dc_regval AND 0x3f))
     else dc_cal_poll i dev base)"

definition lms_dc_cal_loop :: "'s lms_backend \<Rightarrow> u8 \<Rightarrow> u8 \<Rightarrow> u8 \<Rightarrow> ('s, u8) io" where
  "lms_dc_cal_loop dev base cal_address dc_cntval =
     seq (lms_read dev (base + 3)) (\<lambda>val.
       let val = (val AND NOT 7) OR (cal_address AND 7) in
       seq (lms_write dev (base + 3) val) (\<lambda>_.
       seq (lms_write dev (base + 2) dc_cntval) (\<lambda>_.
       let val = val OR 0x10 in
       seq (lms_write dev (base + 3) val) (\<lambda>_.
       let val = val AND NOT 0x10 in
       seq (lms_write dev (base + 3) val) (\<lambda>_.
       let val = val OR 0x20 in
       seq (lms_write dev (base + 3) val) (\<lambda>_.
       let val = val AND NOT 0x20 in
       seq (lms_write dev (base + 3) val) (\<lambda>_.
       dc_cal_poll 25 dev base)))))))"

definition cal_rx :: "bladerf_cal_module \<Rightarrow> bool" where
  "cal_rx m \<longleftrightarrow> m = BLADERF_DC_CAL_RX_LPF \<or> m = BLADERF_DC_CAL_RXVGA2"

definition dc_cal_backup :: "'s lms_backend \<Rightarrow> bladerf_cal_module \<Rightarrow> ('s, dc_cal_state) io" where
  "dc_cal_backup dev m =
     seq (lms_read dev 0x09) (\<lambda>clk.
       let state = \<lparr>clk_en = clk, reg0x72 = 0, st_lna_gain = BLADERF_LNA_GAIN_UNKNOWN,
                    st_rxvga1_gain = 0, st_rxvga2_gain = 0, base_addr = 0, num_submodules = 0,
                    rxvga1_curr_gain = 0, rxvga2_curr_gain = 0\<rparr> in
       if cal_rx m then
         seq (lms_read dev 0x72) (\<lambda>reg72.
         seq (lms_lna_get_gain dev) (\<lambda>lna.
         seq (lms_rxvga1_get_gain dev) (\<lambda>g1.
         seq (lms_rxvga2_get_gain dev) (\<lambda>g2.
         ret (state\<lparr>reg0x72 := reg72, st_lna_gain := lna, st_rxvga1_gain := g1,
                    st_rxvga2_gain := g2\<rparr>)))))
       else ret state)"

definition dc_cal_module_init ::
    "'s lms_backend \<Rightarrow> bladerf_cal_module \<Rightarrow> dc_cal_state \<Rightarrow> ('s, dc_cal_state) io" where
  "dc_cal_module_init dev m state =
     seq (case m of
            BLADERF_DC_CAL_LPF_TUNING \<Rightarrow> ret (0x20, 0x00, 1)
          | BLADERF_DC_CAL_TX_LPF \<Rightarrow> ret (0x02, 0x30, 2)
          | BLADERF_DC_CAL_RX_LPF \<Rightarrow> ret (0x08, 0x50, 2)
          | BLADERF_DC_CAL_RXVGA2 \<Rightarrow> ret (0x10, 0x60, 5)
          | _ \<Rightarrow> fail BLADERF_ERR_INVAL) (\<lambda>(cal_clock, base, subs).
       let state = state\<lparr>base_addr := base, num_submodules := subs\<rparr> in
       seq (lms_write dev 0x09 (clk_en state OR cal_clock)) (\<lambda>_.
       if m = BLADERF_DC_CAL_LPF_TUNING then ret state
       else if cal_rx m then
         seq (if m = BLADERF_DC_CAL_RXVGA2 then lms_clear dev 0x6e 0xc0
              else lms_clear dev 0x5f 0x80) (\<lambda>_.
         seq (lms_write dev 0x72 (reg0x72 state AND NOT 0x80)) (\<lambda>_.
         seq (lms_lna_set_gain dev BLADERF_LNA_GAIN_MAX) (\<lambda>_.
         seq (lms_rxvga1_set_gain dev 30) (\<lambda>_.
         seq (lms_rxvga2_set_gain dev 30) (\<lambda>_.
         ret (state\<lparr>rxvga1_curr_gain := 30, rxvga2_curr_gain := 30\<rparr>))))))
       else
         seq (lms_set dev 0x36 0x80) (\<lambda>_.
         seq (lms_clear dev 0x3f 0x80) (\<lambda>_.
         ret state))))"

definition rxvga2_stage_setup :: "'s lms_backend \<Rightarrow> nat \<Rightarrow> ('s, unit) io" where
  \<comment> \<open>the \<^verbatim>\<open>switch (submodule)\<close> of \<^verbatim>\<open>dc_cal_submodule\<close>\<close>
  "rxvga2_stage_setup dev sub =
     (if sub = 0 then seq (lms_clear dev 0x64 1) (\<lambda>_. lms_write dev 0x68 0x01)
      else if sub = 1 then seq (lms_set dev 0x64 1) (\<lambda>_. lms_write dev 0x68 0x06)
      else if sub = 2 then ret ()
      else if sub = 3 then lms_write dev 0x68 0x60
      else if sub = 4 then ret ()
      else undef_io)"

definition lpf_tuning_result :: "'s lms_backend \<Rightarrow> u8 \<Rightarrow> ('s, unit) io" where
  \<comment> \<open>its special case: the result goes to the TX and RX DCCAL modules\<close>
  "lpf_tuning_result dev dc_regval =
     seq (lms_read dev 0x35) (\<lambda>val.
     seq (lms_write dev 0x35 ((val AND NOT 0x3f) OR dc_regval)) (\<lambda>_.
     seq (lms_read dev 0x55) (\<lambda>val.
     lms_write dev 0x55 ((val AND NOT 0x3f) OR dc_regval))))"

definition dc_cal_submodule ::
    "'s lms_backend \<Rightarrow> bladerf_cal_module \<Rightarrow> nat \<Rightarrow> dc_cal_state \<Rightarrow> ('s, bool) io" where
  \<comment> \<open>returns \<^verbatim>\<open>*converged\<close>\<close>
  "dc_cal_submodule dev m sub state =
     seq (when_io (m = BLADERF_DC_CAL_RXVGA2) (rxvga2_stage_setup dev sub)) (\<lambda>_.
     seq (lms_dc_cal_loop dev (base_addr state) (of_nat sub) 31) (\<lambda>dc_regval.
     seq (if dc_regval = 31
          then seq (lms_dc_cal_loop dev (base_addr state) (of_nat sub) 0) (\<lambda>dc_regval.
               ret (if dc_regval = 0 then None else Some dc_regval))
          else ret (Some dc_regval)) (\<lambda>result.
     case result of
       None \<Rightarrow> ret False
     | Some dc_regval \<Rightarrow>
         seq (when_io (m = BLADERF_DC_CAL_LPF_TUNING) (lpf_tuning_result dev dc_regval)) (\<lambda>_.
         ret True))))"

definition dc_cal_retry_adjustment ::
    "'s lms_backend \<Rightarrow> bladerf_cal_module \<Rightarrow> dc_cal_state \<Rightarrow> ('s, bool \<times> dc_cal_state) io" where
  \<comment> \<open>returns \<^verbatim>\<open>*limit_reached\<close>\<close>
  "dc_cal_retry_adjustment dev m state =
     (if m = BLADERF_DC_CAL_LPF_TUNING \<or> m = BLADERF_DC_CAL_TX_LPF then ret (True, state)
      else if cal_rx m then
        (if rxvga1_curr_gain state > 5 then
           seq (lms_rxvga1_set_gain dev (rxvga1_curr_gain state - 1)) (\<lambda>_.
           ret (False, state\<lparr>rxvga1_curr_gain := rxvga1_curr_gain state - 1\<rparr>))
         else if m = BLADERF_DC_CAL_RXVGA2 \<and> rxvga2_curr_gain state > 0 then
           seq (lms_rxvga2_set_gain dev (rxvga2_curr_gain state - 3)) (\<lambda>_.
           ret (False, state\<lparr>rxvga2_curr_gain := rxvga2_curr_gain state - 3\<rparr>))
         else ret (True, state))
      else undef_io)"

definition dc_cal_module_deinit :: "'s lms_backend \<Rightarrow> bladerf_cal_module \<Rightarrow> ('s, unit) io" where
  "dc_cal_module_deinit dev m =
     (case m of
        BLADERF_DC_CAL_LPF_TUNING \<Rightarrow> ret ()
      | BLADERF_DC_CAL_RX_LPF \<Rightarrow> lms_set dev 0x5f 0x80
      | BLADERF_DC_CAL_RXVGA2 \<Rightarrow>
          seq (lms_write dev 0x68 0x01) (\<lambda>_.
          seq (lms_clear dev 0x64 1) (\<lambda>_.
          lms_set dev 0x6e 0xc0))
      | BLADERF_DC_CAL_TX_LPF \<Rightarrow>
          seq (lms_set dev 0x3f 0x80) (\<lambda>_. lms_clear dev 0x36 0x80)
      | _ \<Rightarrow> undef_io)"

fun first_error :: "'a outcome \<Rightarrow> 'b outcome \<Rightarrow> 'b outcome" where
  \<comment> \<open>\<^verbatim>\<open>(status != 0) ? status : tmp_status\<close>\<close>
  "first_error (Err e) _ = Err e"
| "first_error Undef _ = Undef"
| "first_error (Ok _) r = r"

definition dc_cal_restore ::
    "'s lms_backend \<Rightarrow> bladerf_cal_module \<Rightarrow> dc_cal_state \<Rightarrow> ('s, unit) io" where
  \<comment> \<open>every write is attempted; the first error is kept, but one of the last write wins\<close>
  "dc_cal_restore dev m state =
     attempt (lms_write dev 0x09 (clk_en state)) (\<lambda>r1.
     if cal_rx m then
       attempt (lms_write dev 0x72 (reg0x72 state)) (\<lambda>r2.
       attempt (lms_lna_set_gain dev (st_lna_gain state)) (\<lambda>r3.
       attempt (lms_rxvga1_set_gain dev (st_rxvga1_gain state)) (\<lambda>r4.
       attempt (lms_rxvga2_set_gain dev (st_rxvga2_gain state)) (\<lambda>r5.
       status_io (case r5 of
           Ok _ \<Rightarrow> first_error r1 (first_error r2 (first_error r3 r4))
         | _ \<Rightarrow> r5)))))
     else status_io r1)"

fun dc_cal_submodules ::
    "nat \<Rightarrow> 's lms_backend \<Rightarrow> bladerf_cal_module \<Rightarrow> nat \<Rightarrow> dc_cal_state \<Rightarrow> ('s, bool) io" where
  \<comment> \<open>the loop of \<^verbatim>\<open>dc_cal_module\<close>: submodules left and the index of the next\<close>
  "dc_cal_submodules 0 dev m i state = ret True"
| "dc_cal_submodules (Suc n) dev m i state =
     seq (dc_cal_submodule dev m i state) (\<lambda>converged.
     if converged then dc_cal_submodules n dev m (i + 1) state else ret False)"

definition dc_cal_module ::
    "'s lms_backend \<Rightarrow> bladerf_cal_module \<Rightarrow> dc_cal_state \<Rightarrow> ('s, bool) io" where
  "dc_cal_module dev m state = dc_cal_submodules (num_submodules state) dev m 0 state"

fun dc_cal_retries ::
    "nat \<Rightarrow> 's lms_backend \<Rightarrow> bladerf_cal_module \<Rightarrow> dc_cal_state \<Rightarrow> ('s, unit) io" where
  \<comment> \<open>the \<^verbatim>\<open>while\<close> of \<^verbatim>\<open>lms_calibrate_dc\<close>, with fuel; each retry lowers a gain\<close>
  "dc_cal_retries 0 dev m state = undef_io"
| "dc_cal_retries (Suc n) dev m state =
     seq (dc_cal_module dev m state) (\<lambda>converged.
     if converged then ret ()
     else seq (dc_cal_retry_adjustment dev m state) (\<lambda>(limit_reached, state).
          if limit_reached then fail BLADERF_ERR_UNEXPECTED
          else dc_cal_retries n dev m state))"

definition lms_calibrate_dc :: "'s lms_backend \<Rightarrow> bladerf_cal_module \<Rightarrow> ('s, unit) io" where
  \<comment> \<open>at most 25 steps of RXVGA1 and 10 of RXVGA2, so 37 rounds of fuel suffice\<close>
  "lms_calibrate_dc dev m =
     seq (dc_cal_backup dev m) (\<lambda>state.
     attempt (seq (dc_cal_module_init dev m state) (dc_cal_retries 37 dev m)) (\<lambda>status.
     attempt (dc_cal_module_deinit dev m) (\<lambda>deinit.
     attempt (dc_cal_restore dev m state) (\<lambda>restore.
     status_io (first_error (first_error status deinit) restore)))))"

section \<open>Manual calibration values\<close>

definition cal_clock :: "'s lms_backend \<Rightarrow> u8 \<Rightarrow> bool \<Rightarrow> ('s, unit) io" where
  \<comment> \<open>\<^verbatim>\<open>enable_lpf_cal_clock\<close>, \<^verbatim>\<open>enable_rxvga2_dccal_clock\<close>, \<^verbatim>\<open>enable_rxlpf_dccal_clock\<close>,
      \<^verbatim>\<open>enable_txlpf_dccal_clock\<close>, which differ in their mask\<close>
  "cal_clock dev clk enable = (if enable then lms_set dev 0x09 clk else lms_clear dev 0x09 clk)"

definition set_dc_cal_value :: "'s lms_backend \<Rightarrow> u8 \<Rightarrow> u8 \<Rightarrow> int \<Rightarrow> ('s, unit) io" where
  "set_dc_cal_value dev base dc_addr val =
     (let regval = 0x08 OR dc_addr in
      seq (lms_write dev (base + 3) regval) (\<lambda>_.
      seq (lms_write dev (base + 2) (word_of_int val)) (\<lambda>_.
      let regval = regval OR 0x10 in
      seq (lms_write dev (base + 3) regval) (\<lambda>_.
      let regval = regval AND NOT 0x10 in
      seq (lms_write dev (base + 3) regval) (\<lambda>_.
      seq (lms_read dev base) (\<lambda>_. ret ()))))))"

definition get_dc_cal_value :: "'s lms_backend \<Rightarrow> u8 \<Rightarrow> u8 \<Rightarrow> ('s, int) io" where
  "get_dc_cal_value dev base dc_addr =
     seq (lms_write dev (base + 3) (0x08 OR dc_addr)) (\<lambda>_.
     seq (lms_read dev base) (\<lambda>regval. ret (uint regval)))"

record bladerf_lms_dc_cals =
  lpf_tuning :: int
  tx_lpf_i :: int
  tx_lpf_q :: int
  rx_lpf_i :: int
  rx_lpf_q :: int
  dc_ref :: int
  rxvga2a_i :: int
  rxvga2a_q :: int
  rxvga2b_i :: int
  rxvga2b_q :: int

definition set_if :: "'s lms_backend \<Rightarrow> u8 \<Rightarrow> u8 \<Rightarrow> int \<Rightarrow> ('s, unit) io" where
  \<comment> \<open>\<^verbatim>\<open>if (value >= 0) set_dc_cal_value(...)\<close>\<close>
  "set_if dev base addr val = when_io (val \<ge> 0) (set_dc_cal_value dev base addr val)"

definition lms_set_dc_cals :: "'s lms_backend \<Rightarrow> bladerf_lms_dc_cals \<Rightarrow> ('s, unit) io" where
  "lms_set_dc_cals dev c =
     seq (when_io (lpf_tuning c \<ge> 0)
            (seq (cal_clock dev 0x20 True) (\<lambda>_.
             seq (set_dc_cal_value dev 0x00 0 (lpf_tuning c)) (\<lambda>_.
             cal_clock dev 0x20 False)))) (\<lambda>_.
     seq (when_io (tx_lpf_i c \<ge> 0 \<or> tx_lpf_q c \<ge> 0)
            (seq (cal_clock dev 0x02 True) (\<lambda>_.
             seq (set_if dev 0x30 0 (tx_lpf_i c)) (\<lambda>_.
             seq (set_if dev 0x30 1 (tx_lpf_q c)) (\<lambda>_.
             cal_clock dev 0x02 False))))) (\<lambda>_.
     seq (when_io (rx_lpf_i c \<ge> 0 \<or> rx_lpf_q c \<ge> 0)
            (seq (cal_clock dev 0x08 True) (\<lambda>_.
             seq (set_if dev 0x50 0 (rx_lpf_i c)) (\<lambda>_.
             seq (set_if dev 0x50 1 (rx_lpf_q c)) (\<lambda>_.
             cal_clock dev 0x08 False))))) (\<lambda>_.
     when_io (dc_ref c \<ge> 0 \<or> rxvga2a_i c \<ge> 0 \<or> rxvga2a_q c \<ge> 0 \<or> rxvga2b_i c \<ge> 0 \<or>
              rxvga2b_q c \<ge> 0)
            (seq (cal_clock dev 0x10 True) (\<lambda>_.
             seq (set_if dev 0x60 0 (dc_ref c)) (\<lambda>_.
             seq (set_if dev 0x60 1 (rxvga2a_i c)) (\<lambda>_.
             seq (set_if dev 0x60 2 (rxvga2a_q c)) (\<lambda>_.
             seq (set_if dev 0x60 3 (rxvga2b_i c)) (\<lambda>_.
             seq (set_if dev 0x60 4 (rxvga2b_q c)) (\<lambda>_.
             cal_clock dev 0x10 False)))))))))) "

definition lms_get_dc_cals :: "'s lms_backend \<Rightarrow> ('s, bladerf_lms_dc_cals) io" where
  "lms_get_dc_cals dev =
     seq (get_dc_cal_value dev 0x00 0) (\<lambda>lt.
     seq (get_dc_cal_value dev 0x30 0) (\<lambda>ti.
     seq (get_dc_cal_value dev 0x30 1) (\<lambda>tq.
     seq (get_dc_cal_value dev 0x50 0) (\<lambda>ri.
     seq (get_dc_cal_value dev 0x50 1) (\<lambda>rq.
     seq (get_dc_cal_value dev 0x60 0) (\<lambda>dr.
     seq (get_dc_cal_value dev 0x60 1) (\<lambda>ai.
     seq (get_dc_cal_value dev 0x60 2) (\<lambda>aq.
     seq (get_dc_cal_value dev 0x60 3) (\<lambda>bi.
     seq (get_dc_cal_value dev 0x60 4) (\<lambda>bq.
     ret \<lparr>lpf_tuning = lt, tx_lpf_i = ti, tx_lpf_q = tq, rx_lpf_i = ri, rx_lpf_q = rq,
          dc_ref = dr, rxvga2a_i = ai, rxvga2a_q = aq, rxvga2b_i = bi, rxvga2b_q = bq\<rparr>))))))))))"

section \<open>DC offset correction\<close>

definition scale_dc_offset :: "bladerf_module \<Rightarrow> 16 word \<Rightarrow> u8" where
  \<comment> \<open>\<^verbatim>\<open>>>\<close> on \<^verbatim>\<open>int16_t\<close> is the arithmetic shift\<close>
  "scale_dc_offset md val =
     (case md of
        BLADERF_MODULE_RX \<Rightarrow>
          (let v = sint val div 32 in
           if v < 0 then (if v \<le> -64 then 0x3f else word_of_int (- v) AND 0x3f) OR 0x40
           else if v \<ge> 64 then 0x3f else word_of_int v AND 0x3f)
      | BLADERF_MODULE_TX \<Rightarrow>
          (let v = sint val div 16 in
           if v \<ge> 0 then 0x80 OR (if v \<ge> 128 then 0x7f else word_of_int v AND 0x7f)
           else if v \<le> -128 then 0x00 else word_of_int v AND 0x7f))"

definition set_dc_offset_reg ::
    "'s lms_backend \<Rightarrow> bladerf_module \<Rightarrow> u8 \<Rightarrow> 16 word \<Rightarrow> ('s, unit) io" where
  "set_dc_offset_reg dev md addr val =
     (case md of
        BLADERF_MODULE_RX \<Rightarrow>
          seq (lms_read dev addr) (\<lambda>tmp.
          lms_write dev addr (scale_dc_offset md val OR (tmp AND 0x80)))
      | BLADERF_MODULE_TX \<Rightarrow> lms_write dev addr (scale_dc_offset md val))"

definition lms_set_dc_offset_i :: "'s lms_backend \<Rightarrow> bladerf_module \<Rightarrow> 16 word \<Rightarrow> ('s, unit) io" where
  "lms_set_dc_offset_i dev md val =
     set_dc_offset_reg dev md (if md = BLADERF_MODULE_TX then 0x42 else 0x71) val"

definition lms_set_dc_offset_q :: "'s lms_backend \<Rightarrow> bladerf_module \<Rightarrow> 16 word \<Rightarrow> ('s, unit) io" where
  "lms_set_dc_offset_q dev md val =
     set_dc_offset_reg dev md (if md = BLADERF_MODULE_TX then 0x43 else 0x72) val"

definition get_dc_offset :: "'s lms_backend \<Rightarrow> bladerf_module \<Rightarrow> u8 \<Rightarrow> ('s, int) io" where
  "get_dc_offset dev md addr =
     seq (lms_read dev addr) (\<lambda>tmp.
     ret (case md of
            BLADERF_MODULE_RX \<Rightarrow>
              (let tmp = tmp AND 0x7f in
               (if tmp AND 0x40 \<noteq> 0 then - uint (tmp AND 0x3f) else uint (tmp AND 0x3f)) * 32)
          | BLADERF_MODULE_TX \<Rightarrow> uint tmp * 16))"

definition lms_get_dc_offset_i :: "'s lms_backend \<Rightarrow> bladerf_module \<Rightarrow> ('s, int) io" where
  "lms_get_dc_offset_i dev md = get_dc_offset dev md (if md = BLADERF_MODULE_TX then 0x42 else 0x71)"

definition lms_get_dc_offset_q :: "'s lms_backend \<Rightarrow> bladerf_module \<Rightarrow> ('s, int) io" where
  "lms_get_dc_offset_q dev md = get_dc_offset dev md (if md = BLADERF_MODULE_TX then 0x43 else 0x72)"

end
