(* ===== verification/Lms_Calibration.thy ===== *)
theory Lms_Calibration
  imports Lms_DcCal
begin

unbundle bit_operations_syntax

text \<open>
  Correctness of the DC calibration: the retry loop ends, the calibration leaves the chip as it
  found it whatever the calibration hardware answers, and the manual calibration values and DC
  offset corrections read back. The chip of \<open>cal_dev\<close> holds what is written to its registers,
  except that the status registers of the calibration blocks answer with an arbitrary sequence.
\<close>

section \<open>Implementation over a transport\<close>

context lms_transport
begin

lemma impl_dc_cal_loop [lms_impl]:
  "implements good chip (dc_cal_poll n dev base) (dc_cal_poll n ideal base)"
  "implements good chip (lms_dc_cal_loop dev base addr v) (lms_dc_cal_loop ideal base addr v)"
proof -
  show "implements good chip (dc_cal_poll n dev base) (dc_cal_poll n ideal base)" for n
    by (induction n) (auto intro!: lms_impl)
  then show "implements good chip (lms_dc_cal_loop dev base addr v)
      (lms_dc_cal_loop ideal base addr v)"
    unfolding lms_dc_cal_loop_def Let_def by (intro lms_impl)
qed

lemma impl_dc_cal_steps [lms_impl]:
  "implements good chip (dc_cal_backup dev m) (dc_cal_backup ideal m)"
  "implements good chip (rxvga2_stage_setup dev sub) (rxvga2_stage_setup ideal sub)"
  "implements good chip (lpf_tuning_result dev v) (lpf_tuning_result ideal v)"
  "implements good chip (dc_cal_retry_adjustment dev m st) (dc_cal_retry_adjustment ideal m st)"
  "implements good chip (dc_cal_restore dev m st) (dc_cal_restore ideal m st)"
  unfolding dc_cal_backup_def rxvga2_stage_setup_def lpf_tuning_result_def Let_def
    dc_cal_retry_adjustment_def dc_cal_restore_def
  by (intro lms_impl)+

lemma impl_dc_cal_module_deinit [lms_impl]:
  "implements good chip (dc_cal_module_deinit dev m) (dc_cal_module_deinit ideal m)"
  unfolding dc_cal_module_deinit_def by (cases m) (auto intro!: lms_impl)

lemma impl_dc_cal_module_init [lms_impl]:
  "implements good chip (dc_cal_module_init dev m st) (dc_cal_module_init ideal m st)"
  unfolding dc_cal_module_init_def by (cases m) (auto simp: Let_def cal_rx_def intro!: lms_impl)

lemma impl_dc_cal_submodule [lms_impl]:
  "implements good chip (dc_cal_submodule dev m sub st) (dc_cal_submodule ideal m sub st)"
  unfolding dc_cal_submodule_def by (intro lms_impl) (auto split: option.split intro!: lms_impl)

lemma impl_dc_cal_submodules [lms_impl]:
  "implements good chip (dc_cal_submodules n dev m i st) (dc_cal_submodules n ideal m i st)"
  by (induction n arbitrary: i) (auto intro!: lms_impl)

lemma impl_dc_cal_retries [lms_impl]:
  "implements good chip (dc_cal_retries n dev m st) (dc_cal_retries n ideal m st)"
  by (induction n arbitrary: st)
     (auto simp: dc_cal_module_def split: prod.split intro!: lms_impl)

lemma impl_calibrate_dc:
  "implements good chip (lms_calibrate_dc dev m) (lms_calibrate_dc ideal m)"
  unfolding lms_calibrate_dc_def by (intro lms_impl)

lemma impl_dc_values [lms_impl]:
  "implements good chip (cal_clock dev clk en) (cal_clock ideal clk en)"
  "implements good chip (set_dc_cal_value dev base addr v) (set_dc_cal_value ideal base addr v)"
  "implements good chip (get_dc_cal_value dev base addr) (get_dc_cal_value ideal base addr)"
  "implements good chip (set_dc_offset_reg dev md addr val) (set_dc_offset_reg ideal md addr val)"
  "implements good chip (get_dc_offset dev md addr) (get_dc_offset ideal md addr)"
  unfolding cal_clock_def set_dc_cal_value_def get_dc_cal_value_def set_dc_offset_reg_def
    get_dc_offset_def Let_def
  by (cases md; auto intro!: lms_impl)+

lemma impl_dc_cals:
  "implements good chip (lms_set_dc_cals dev c) (lms_set_dc_cals ideal c)"
  "implements good chip (lms_get_dc_cals dev) (lms_get_dc_cals ideal)"
  unfolding lms_set_dc_cals_def lms_get_dc_cals_def set_if_def by (intro lms_impl)+

end

section \<open>The retry loop ends\<close>

definition retries_left :: "dc_cal_state \<Rightarrow> nat" where
  \<comment> \<open>gain steps that remain before the limit is reached\<close>
  "retries_left state =
     nat (rxvga1_curr_gain state - 5) + nat ((rxvga2_curr_gain state + 2) div 3)"

lemma retry_adjustment_decreases:
  assumes "dc_cal_retry_adjustment dev m st s = (Ok (False, st'), s')"
  shows "retries_left st' < retries_left st"
  using assms
  by (auto simp: dc_cal_retry_adjustment_def retries_left_def seq_eq_Ok_iff ret_apply undef_io_apply
       split: if_splits)

lemma dc_cal_retries_fuel:
  assumes "retries_left st < n"
  shows "dc_cal_retries (n + k) dev m st s = dc_cal_retries n dev m st s"
  using assms
proof (induction n arbitrary: st s)
  case (Suc n)
  have *: "dc_cal_retries (n + k) dev m st' s' = dc_cal_retries n dev m st' s'"
    if "dc_cal_retry_adjustment dev m st t = (Ok (False, st'), s')" for st' s' t
    using Suc retry_adjustment_decreases [OF that] by simp
  show ?case
    unfolding add_Suc dc_cal_retries.simps(2)
    by (intro seq_cong_run) (auto intro!: seq_cong_run simp: * split: prod.split)
qed simp

text \<open>C20. The retry loop of the calibration ends: once the module is initialised, running it with
  any amount of fuel from 37 on gives the same result, on every device and from every state, so
  the loop leaves by its own conditions within 37 rounds.\<close>

theorem calibration_loop_ends:
  assumes "dc_cal_module_init dev m st0 s0 = (Ok st, s)" "rxvga1_curr_gain st0 = 0"
    "rxvga2_curr_gain st0 = 0" "37 \<le> n"
  shows "dc_cal_retries n dev m st s = dc_cal_retries 37 dev m st s"
proof -
  have "rxvga1_curr_gain st \<le> 30 \<and> rxvga2_curr_gain st \<le> 30"
    using assms(1-3)
    by (cases m) (auto simp: dc_cal_module_init_def Let_def cal_rx_def seq_eq_Ok_iff ret_apply
        fail_apply)
  then have "retries_left st < 37" unfolding retries_left_def by linarith
  then show ?thesis using dc_cal_retries_fuel [of st 37 "n - 37"] assms(4) by simp
qed

lemma calibration_loop_ends_witness:
  "\<exists>st r. dc_cal_retries 1000 regs_dev BLADERF_DC_CAL_RX_LPF st r =
     dc_cal_retries 37 regs_dev BLADERF_DC_CAL_RX_LPF st r \<and> rxvga1_curr_gain st = 30"
proof -
  let ?st0 = "\<lparr>clk_en = 0, reg0x72 = 0, st_lna_gain = BLADERF_LNA_GAIN_MID, st_rxvga1_gain = 5,
    st_rxvga2_gain = 0, base_addr = 0, num_submodules = 0, rxvga1_curr_gain = 0,
    rxvga2_curr_gain = 0\<rparr>"
  obtain st r where run: "dc_cal_module_init regs_dev BLADERF_DC_CAL_RX_LPF ?st0 (\<lambda>a. 0x40) =
      (Ok st, r)" "rxvga1_curr_gain st = 30"
    by (simp add: dc_cal_module_init_def Let_def cal_rx_def iosimps lms_lna_set_gain_def)
  from calibration_loop_ends [OF run(1), of 1000] run(2) show ?thesis by auto
qed

section \<open>A chip with arbitrary calibration results\<close>

type_synonym cal_chip = "regs \<times> nat"

definition dc_cal_status :: "u8 list" where
  \<comment> \<open>\<^verbatim>\<open>DC_REGVAL\<close> and the status register of the four calibration blocks\<close>
  "dc_cal_status = [0x00, 0x01, 0x30, 0x31, 0x50, 0x51, 0x60, 0x61]"

fun cal_read :: "(nat \<Rightarrow> u8) \<Rightarrow> u8 \<Rightarrow> cal_chip \<Rightarrow> u8 \<times> cal_chip" where
  "cal_read orc a (r, n) = (if a \<in> set dc_cal_status then (orc n, (r, Suc n)) else (r a, (r, n)))"

fun cal_write :: "u8 \<Rightarrow> u8 \<Rightarrow> cal_chip \<Rightarrow> cal_chip" where
  "cal_write a v (r, n) = (r(a := v), n)"

definition cal_dev :: "(nat \<Rightarrow> u8) \<Rightarrow> cal_chip lms_backend" where
  "cal_dev orc = chip_dev (cal_read orc) cal_write"

lemma cal_dev_simps [iosimps]:
  "a \<notin> set dc_cal_status \<Longrightarrow> lms_read (cal_dev orc) a (r, n) = (Ok (r a), (r, n))"
  "lms_write (cal_dev orc) a v (r, n) = (Ok (), (r(a := v), n))"
  by (simp_all add: cal_dev_def chip_dev_def)

lemma cal_dev_rmw [iosimps]:
  assumes "a \<notin> set dc_cal_status"
  shows "lms_set (cal_dev orc) a m (r, n) = (Ok (), (r(a := r a OR m), n))"
    "lms_clear (cal_dev orc) a m (r, n) = (Ok (), (r(a := r a AND NOT m), n))"
  using assms by (simp_all add: lms_set_def lms_clear_def iosimps)

definition confined :: "(u8 \<Rightarrow> u8) \<Rightarrow> (cal_chip, 'a) io \<Rightarrow> bool" where
  \<comment> \<open>the operation is defined and changes only the bits the mask of each register allows\<close>
  "confined M act \<longleftrightarrow>
     (\<forall>c. case act c of (res, c') \<Rightarrow>
        res \<noteq> Undef \<and> (\<forall>a. fst c' a AND NOT (M a) = fst c a AND NOT (M a)))"

named_theorems confined_rules \<open>composition of bounded register footprints\<close>

lemma confined_ret [confined_rules]: "confined M (ret x)" "confined M (fail e)"
  by (simp_all add: confined_def ret_def fail_def)

lemma confinedD:
  assumes "confined M act" "act c = (res, c')"
  shows "res \<noteq> Undef" "fst c' a AND NOT (M a) = fst c a AND NOT (M a)"
  using assms unfolding confined_def by (metis (mono_tags, lifting) case_prod_conv)+

lemma confined_seq_run:
  assumes "confined M act" "\<And>c x c'. act c = (Ok x, c') \<Longrightarrow> confined M (k x)"
  shows "confined M (seq act k)"
  unfolding confined_def
proof
  fix c
  obtain res c1 where act: "act c = (res, c1)" by (rule prod.exhaust)
  show "case seq act k c of (res, c') \<Rightarrow>
      res \<noteq> Undef \<and> (\<forall>a. fst c' a AND NOT (M a) = fst c a AND NOT (M a))"
  proof (cases res)
    case (Ok x)
    obtain q c2 where k: "k x c1 = (q, c2)" by (rule prod.exhaust)
    show ?thesis
      using confinedD [OF assms(1) act] confinedD [OF assms(2) k] act k Ok by (simp add: iosimps)
  qed (use confinedD [OF assms(1) act] act in \<open>auto simp: iosimps\<close>)
qed

lemma confined_seq [confined_rules]:
  assumes "confined M act" "\<And>x. confined M (k x)"
  shows "confined M (seq act k)"
  using assms by (blast intro: confined_seq_run)

lemma confined_if [confined_rules]:
  assumes "b \<Longrightarrow> confined M act" "\<not> b \<Longrightarrow> confined M act'"
  shows "confined M (if b then act else act')"
  using assms by simp

lemma confined_read [confined_rules]: "confined M (lms_read (cal_dev orc) a)"
  by (auto simp: confined_def cal_dev_def chip_dev_def)

lemma confined_write [confined_rules]:
  assumes "M a = -1" shows "confined M (lms_write (cal_dev orc) a v)"
  using assms by (auto simp: confined_def iosimps split: prod.split)

lemma confined_rmw [confined_rules]:
  assumes "M a = -1"
  shows "confined M (lms_set (cal_dev orc) a m)" "confined M (lms_clear (cal_dev orc) a m)"
  using assms unfolding lms_set_def lms_clear_def by (auto intro!: confined_rules)

lemma confined_option [confined_rules]:
  assumes "x = None \<Longrightarrow> confined M act" "\<And>y. x = Some y \<Longrightarrow> confined M (k y)"
  shows "confined M (case x of None \<Rightarrow> act | Some y \<Rightarrow> k y)"
  using assms by (cases x) simp_all

lemma confined_attempt [confined_rules]:
  assumes "confined M act" "\<And>x. confined M (k (Ok x))" "\<And>e. confined M (k (Err e))"
  shows "confined M (attempt act k)"
  unfolding confined_def
proof
  fix c
  obtain res c1 where act: "act c = (res, c1)" by (rule prod.exhaust)
  obtain q c2 where k: "k res c1 = (q, c2)" by (rule prod.exhaust)
  show "case attempt act k c of (res, c') \<Rightarrow>
      res \<noteq> Undef \<and> (\<forall>a. fst c' a AND NOT (M a) = fst c a AND NOT (M a))"
  proof (cases res)
    case (Ok x)
    then show ?thesis
      using confinedD [OF assms(1) act] confinedD [OF assms(2) k [unfolded Ok]] act k
      by (simp add: iosimps)
  next
    case (Err e)
    then show ?thesis
      using confinedD [OF assms(1) act] confinedD [OF assms(3) k [unfolded Err]] act k
      by (simp add: iosimps)
  qed (use confinedD [OF assms(1) act] in simp)
qed

lemma confined_lna_set_gain [confined_rules]:
  assumes "M 0x75 = 0xc0" shows "confined M (lms_lna_set_gain (cal_dev orc) gain)"
  unfolding lms_lna_set_gain_def confined_def
  by (auto simp: iosimps dc_cal_status_def assms bit.conj_disj_distrib2 and.assoc split: prod.split)

lemma confined_gains [confined_rules]:
  "M 0x76 = -1 \<Longrightarrow> confined M (lms_rxvga1_set_gain (cal_dev orc) g)"
  "M 0x65 = -1 \<Longrightarrow> confined M (lms_rxvga2_set_gain (cal_dev orc) g)"
  unfolding lms_rxvga1_set_gain_def lms_rxvga2_set_gain_def by (auto intro!: confined_rules)

lemma confined_dc_cal_loop:
  assumes "M (base + 2) = -1" "M (base + 3) = -1"
  shows "confined M (lms_dc_cal_loop (cal_dev orc) base addr v)"
proof -
  have "confined M (dc_cal_poll n (cal_dev orc) base)" for n
    by (induction n) (auto intro!: confined_rules)
  then show ?thesis
    using assms unfolding lms_dc_cal_loop_def Let_def by (intro confined_rules)
qed

definition cal_mask :: "bladerf_cal_module \<Rightarrow> u8 \<Rightarrow> u8" where
  \<comment> \<open>what initialisation and calibration of a module may change\<close>
  "cal_mask m a =
     (if a = 0x75 then (if cal_rx m then 0xc0 else 0)
      else if a \<in> set (case m of
          BLADERF_DC_CAL_LPF_TUNING \<Rightarrow> [0x09, 0x02, 0x03, 0x35, 0x55]
        | BLADERF_DC_CAL_TX_LPF \<Rightarrow> [0x09, 0x32, 0x33, 0x36, 0x3f]
        | BLADERF_DC_CAL_RX_LPF \<Rightarrow> [0x09, 0x52, 0x53, 0x5f, 0x65, 0x72, 0x76]
        | BLADERF_DC_CAL_RXVGA2 \<Rightarrow> [0x09, 0x62, 0x63, 0x64, 0x65, 0x68, 0x6e, 0x72, 0x76]
        | _ \<Rightarrow> []) then -1 else 0)"

lemma confined_init:
  assumes "m \<noteq> BLADERF_DC_CAL_INVALID"
  shows "confined (cal_mask m) (dc_cal_module_init (cal_dev orc) m st)"
  using assms unfolding dc_cal_module_init_def
  by (cases m) (auto simp: Let_def cal_rx_def cal_mask_def intro!: confined_rules)

lemma confined_submodules:
  assumes "m \<noteq> BLADERF_DC_CAL_INVALID" "base_addr st = base" "n + i \<le> 5"
    and "(m, base) \<in> {(BLADERF_DC_CAL_LPF_TUNING, 0x00), (BLADERF_DC_CAL_TX_LPF, 0x30),
                       (BLADERF_DC_CAL_RX_LPF, 0x50), (BLADERF_DC_CAL_RXVGA2, 0x60)}"
  shows "confined (cal_mask m) (dc_cal_submodules n (cal_dev orc) m i st)"
  using assms(3)
proof (induction n arbitrary: i)
  case (Suc n)
  have loop: "confined (cal_mask m) (lms_dc_cal_loop (cal_dev orc) (base_addr st) a v)" for a v
    using assms(2,4) by (auto simp: cal_mask_def intro!: confined_dc_cal_loop)
  have stage: "m = BLADERF_DC_CAL_RXVGA2 \<Longrightarrow>
      confined (cal_mask m) (rxvga2_stage_setup (cal_dev orc) i)"
    using Suc.prems unfolding rxvga2_stage_setup_def
    by (auto simp: cal_mask_def intro!: confined_rules)
  have lpf: "m = BLADERF_DC_CAL_LPF_TUNING \<Longrightarrow>
      confined (cal_mask m) (lpf_tuning_result (cal_dev orc) v)" for v
    unfolding lpf_tuning_result_def by (auto simp: cal_mask_def intro!: confined_rules)
  have "confined (cal_mask m) (dc_cal_submodule (cal_dev orc) m i st)"
    unfolding dc_cal_submodule_def
    by (intro confined_rules loop stage lpf) assumption+
  then show ?case using Suc by (auto intro!: confined_rules)
qed (auto intro!: confined_rules)

lemma confined_adjustment:
  assumes "m \<noteq> BLADERF_DC_CAL_INVALID"
  shows "confined (cal_mask m) (dc_cal_retry_adjustment (cal_dev orc) m st)"
  using assms unfolding dc_cal_retry_adjustment_def
  by (cases m) (auto simp: cal_rx_def cal_mask_def intro!: confined_rules)

definition cal_target :: "bladerf_cal_module \<Rightarrow> dc_cal_state \<Rightarrow> bool" where
  \<comment> \<open>the block an initialised state addresses\<close>
  "cal_target m st \<longleftrightarrow>
     (m, base_addr st, num_submodules st) \<in>
       {(BLADERF_DC_CAL_LPF_TUNING, 0x00, 1), (BLADERF_DC_CAL_TX_LPF, 0x30, 2),
        (BLADERF_DC_CAL_RX_LPF, 0x50, 2), (BLADERF_DC_CAL_RXVGA2, 0x60, 5)}"

lemma adjustment_keeps_target:
  assumes "dc_cal_retry_adjustment dev m st s = (Ok (limit_reached, st'), s')" "cal_target m st"
  shows "cal_target m st'"
  using assms
  by (auto simp: dc_cal_retry_adjustment_def cal_target_def seq_eq_Ok_iff ret_apply undef_io_apply
       split: if_splits)

lemma confined_retries:
  assumes "cal_target m st" "retries_left st < n"
  shows "confined (cal_mask m) (dc_cal_retries n (cal_dev orc) m st)"
  using assms
proof (induction n arbitrary: st)
  case (Suc n)
  have m: "m \<noteq> BLADERF_DC_CAL_INVALID" using Suc.prems by (auto simp: cal_target_def)
  have md: "confined (cal_mask m) (dc_cal_module (cal_dev orc) m st)"
    unfolding dc_cal_module_def
    by (rule confined_submodules [OF m refl]) (use Suc.prems in \<open>auto simp: cal_target_def\<close>)
  have retry: "confined (cal_mask m) (case p of (limit_reached, st') \<Rightarrow>
      if limit_reached then fail BLADERF_ERR_UNEXPECTED else dc_cal_retries n (cal_dev orc) m st')"
    if run: "dc_cal_retry_adjustment (cal_dev orc) m st c = (Ok p, c')" for c p c'
  proof (cases p)
    case (Pair limit_reached st')
    have "confined (cal_mask m) (dc_cal_retries n (cal_dev orc) m st')" if "\<not> limit_reached"
      using Suc.IH [of st'] Suc.prems adjustment_keeps_target [of "cal_dev orc" m st c]
        retry_adjustment_decreases [of "cal_dev orc" m st c] run that Pair by fastforce
    then show ?thesis using Pair by (auto intro: confined_rules)
  qed
  have "confined (cal_mask m) (if converged then ret ()
      else seq (dc_cal_retry_adjustment (cal_dev orc) m st) (\<lambda>(limit_reached, st').
        if limit_reached then fail BLADERF_ERR_UNEXPECTED
        else dc_cal_retries n (cal_dev orc) m st'))" for converged
    using confined_seq_run [OF confined_adjustment [OF m] retry] by (auto intro: confined_rules)
  then show ?case unfolding dc_cal_retries.simps by (rule confined_seq [OF md])
qed simp

lemma init_target:
  assumes "dc_cal_module_init dev m st0 s = (Ok st, s')" "rxvga1_curr_gain st0 = 0"
    "rxvga2_curr_gain st0 = 0"
  shows "cal_target m st \<and> retries_left st < 37"
  using assms
  by (cases m) (auto simp: dc_cal_module_init_def Let_def cal_rx_def seq_eq_Ok_iff ret_apply
        fail_apply cal_target_def retries_left_def)

lemma confined_calibration:
  assumes "m \<noteq> BLADERF_DC_CAL_INVALID" "rxvga1_curr_gain st0 = 0" "rxvga2_curr_gain st0 = 0"
  shows "confined (cal_mask m)
    (seq (dc_cal_module_init (cal_dev orc) m st0) (dc_cal_retries 37 (cal_dev orc) m))"
proof (rule confined_seq_run [OF confined_init [OF assms(1)]])
  fix c st c' assume "dc_cal_module_init (cal_dev orc) m st0 c = (Ok st, c')"
  from init_target [OF this assms(2,3)]
  show "confined (cal_mask m) (dc_cal_retries 37 (cal_dev orc) m st)"
    by (simp add: confined_retries)
qed

section \<open>Calibration restores the chip\<close>

definition rxvga1_gain_of :: "u8 \<Rightarrow> int" where
  \<comment> \<open>the gain the code in register 0x76 stands for\<close>
  "rxvga1_gain_of code =
     (let c = code AND 0x7f in uint (rxvga1_lut_code2val ! unat (if c > 120 then 120 else c)))"

lemma rxvga1_gain_of_range: "5 \<le> rxvga1_gain_of c" "rxvga1_gain_of c \<le> 30"
proof -
  have all: "list_all (\<lambda>v. 5 \<le> v \<and> v \<le> 30) rxvga1_lut_code2val" "length rxvga1_lut_code2val = 121"
    by (simp_all add: rxvga1_lut_code2val_def)
  define i :: u8 where "i = (if c AND 0x7f > 120 then 120 else c AND 0x7f)"
  have "i \<le> 120" by (auto simp: i_def)
  then have "unat i < 121" by (simp add: word_le_nat_alt)
  then have "rxvga1_lut_code2val ! unat i \<in> set rxvga1_lut_code2val" using all(2) by simp
  then have "5 \<le> rxvga1_lut_code2val ! unat i \<and> rxvga1_lut_code2val ! unat i \<le> 30"
    using all(1) by (simp add: list_all_iff)
  then show "5 \<le> rxvga1_gain_of c" "rxvga1_gain_of c \<le> 30"
    unfolding rxvga1_gain_of_def Let_def i_def [symmetric] by (simp_all add: word_le_def)
qed

lemma rxvga1_gain_of_code:
  assumes "5 \<le> g" "g \<le> 30"
  shows "rxvga1_gain_of (rxvga1_lut_val2code ! nat g) = g"
  using lms_rxvga1_get_gain_regs [OF _ assms, of "\<lambda>_. rxvga1_lut_val2code ! nat g"]
  by (simp add: lms_rxvga1_get_gain_def iosimps Let_def rxvga1_gain_of_def)

definition lna_gain_of :: "u8 \<Rightarrow> bladerf_lna_gain" where
  "lna_gain_of v =
     (let data = drop_bit 6 v AND 3 in
      if data = 1 then BLADERF_LNA_GAIN_BYPASS else if data = 2 then BLADERF_LNA_GAIN_MID
      else if data = 3 then BLADERF_LNA_GAIN_MAX else BLADERF_LNA_GAIN_UNKNOWN)"

lemma lna_gain_of_known:
  assumes "lna_gain_of v \<noteq> BLADERF_LNA_GAIN_UNKNOWN"
  shows "(v AND NOT 0xc0) OR push_bit 6 (lna_gain_code (lna_gain_of v) AND 3) = v"
proof -
  have "lna_gain_code (lna_gain_of v) = drop_bit 6 v AND 3"
    using assms by (auto simp: lna_gain_of_def Let_def)
  then show ?thesis by (simp only:) (rule u8_eqI; simp add: bit_simps)
qed

definition restored_regs :: "bladerf_cal_module \<Rightarrow> regs \<Rightarrow> regs \<Rightarrow> regs" where
  \<comment> \<open>the register file \<open>q\<close> after \<^verbatim>\<open>dc_cal_restore\<close> with the state backed up from \<open>r\<close>\<close>
  "restored_regs m r q =
     (if cal_rx m
      then q(0x09 := r 0x09, 0x72 := r 0x72,
             0x75 := (q 0x75 AND NOT 0xc0) OR push_bit 6 (lna_gain_code (lna_gain_of (r 0x75)) AND 3),
             0x76 := rxvga1_lut_val2code ! nat (rxvga1_gain_of (r 0x76)),
             0x65 := word_of_int (clamp 0 30 (uint (r 0x65 * 3)) div 3))
      else q(0x09 := r 0x09))"

lemma gain_reads_cal [iosimps]:
  "lms_rxvga1_get_gain (cal_dev orc) (r, n) = (Ok (rxvga1_gain_of (r 0x76)), (r, n))"
  "lms_rxvga2_get_gain (cal_dev orc) (r, n) = (Ok (uint (r 0x65 * 3)), (r, n))"
  "lna_gain_of (r 0x75) \<noteq> BLADERF_LNA_GAIN_UNKNOWN \<Longrightarrow>
   lms_lna_get_gain (cal_dev orc) (r, n) = (Ok (lna_gain_of (r 0x75)), (r, n))"
  by (auto simp: lms_rxvga1_get_gain_def lms_rxvga2_get_gain_def lms_lna_get_gain_def iosimps
      dc_cal_status_def rxvga1_gain_of_def lna_gain_of_def Let_def)

lemma gain_writes_cal [iosimps]:
  "lms_rxvga1_set_gain (cal_dev orc) g (r, n) =
     (Ok (), (r(0x76 := rxvga1_lut_val2code ! nat (clamp 5 30 g)), n))"
  "lms_rxvga2_set_gain (cal_dev orc) g (r, n) =
     (Ok (), (r(0x65 := word_of_int (clamp 0 30 g div 3)), n))"
  "gain \<noteq> BLADERF_LNA_GAIN_UNKNOWN \<Longrightarrow> lms_lna_set_gain (cal_dev orc) gain (r, n) =
     (Ok (), (r(0x75 := (r 0x75 AND NOT 0xc0) OR push_bit 6 (lna_gain_code gain AND 3)), n))"
  by (cases gain;
      simp add: lms_rxvga1_set_gain_def lms_rxvga2_set_gain_def lms_lna_set_gain_def iosimps
        dc_cal_status_def)+

lemma backup_restore:
  assumes "cal_rx m \<Longrightarrow> lna_gain_of (r 0x75) \<noteq> BLADERF_LNA_GAIN_UNKNOWN"
  shows "\<exists>st. dc_cal_backup (cal_dev orc) m (r, n) = (Ok st, (r, n)) \<and>
     rxvga1_curr_gain st = 0 \<and> rxvga2_curr_gain st = 0 \<and>
     (\<forall>q n'. dc_cal_restore (cal_dev orc) m st (q, n') = (Ok (), (restored_regs m r q, n')))"
proof (cases "cal_rx m")
  case True
  have c: "clamp 5 30 (rxvga1_gain_of (r 0x76)) = rxvga1_gain_of (r 0x76)"
    using rxvga1_gain_of_range [of "r 0x76"] by (simp add: clamp_def)
  show ?thesis
    using assms [OF True] True
    by (simp add: dc_cal_backup_def dc_cal_restore_def iosimps dc_cal_status_def c
        restored_regs_def Let_def)
next
  case False
  then show ?thesis
    by (simp add: dc_cal_backup_def dc_cal_restore_def iosimps dc_cal_status_def
        restored_regs_def Let_def)
qed

definition deinit_regs :: "bladerf_cal_module \<Rightarrow> regs \<Rightarrow> regs" where
  "deinit_regs m q =
     (case m of
        BLADERF_DC_CAL_RX_LPF \<Rightarrow> q(0x5f := q 0x5f OR 0x80)
      | BLADERF_DC_CAL_RXVGA2 \<Rightarrow> q(0x68 := 1, 0x64 := q 0x64 AND NOT 1, 0x6e := q 0x6e OR 0xc0)
      | BLADERF_DC_CAL_TX_LPF \<Rightarrow> q(0x3f := q 0x3f OR 0x80, 0x36 := q 0x36 AND NOT 0x80)
      | _ \<Rightarrow> q)"

definition dc_cal_idle :: "bladerf_cal_module \<Rightarrow> regs \<Rightarrow> bool" where
  \<comment> \<open>comparators powered down and the gain stages in their default configuration\<close>
  "dc_cal_idle m r \<longleftrightarrow>
     (case m of
        BLADERF_DC_CAL_RX_LPF \<Rightarrow> r 0x5f AND 0x80 \<noteq> 0
      | BLADERF_DC_CAL_RXVGA2 \<Rightarrow> r 0x6e AND 0xc0 = 0xc0 \<and> r 0x68 = 1 \<and> r 0x64 AND 1 = 0
      | BLADERF_DC_CAL_TX_LPF \<Rightarrow> r 0x3f AND 0x80 \<noteq> 0 \<and> r 0x36 AND 0x80 = 0
      | _ \<Rightarrow> True)"

definition cal_footprint :: "bladerf_cal_module \<Rightarrow> u8 list" where
  \<comment> \<open>the calibration result, the comparator controls and the two VGA gain codes\<close>
  "cal_footprint m =
     (case m of
        BLADERF_DC_CAL_LPF_TUNING \<Rightarrow> [0x02, 0x03, 0x35, 0x55]
      | BLADERF_DC_CAL_TX_LPF \<Rightarrow> [0x32, 0x33, 0x36, 0x3f]
      | BLADERF_DC_CAL_RX_LPF \<Rightarrow> [0x52, 0x53, 0x5f, 0x65, 0x76]
      | BLADERF_DC_CAL_RXVGA2 \<Rightarrow> [0x62, 0x63, 0x64, 0x65, 0x68, 0x6e, 0x76]
      | _ \<Rightarrow> [])"

lemma deinit_run:
  assumes "m \<noteq> BLADERF_DC_CAL_INVALID"
  shows "dc_cal_module_deinit (cal_dev orc) m (q, n) = (Ok (), (deinit_regs m q, n))"
  using assms by (cases m) (simp_all add: dc_cal_module_deinit_def deinit_regs_def iosimps
      dc_cal_status_def)

lemma calibrate_dc_run:
  assumes "m \<noteq> BLADERF_DC_CAL_INVALID"
    and "cal_rx m \<Longrightarrow> lna_gain_of (r 0x75) \<noteq> BLADERF_LNA_GAIN_UNKNOWN"
  shows "\<exists>res q n'. lms_calibrate_dc (cal_dev orc) m (r, n) =
       (res, (restored_regs m r (deinit_regs m q), n')) \<and> res \<noteq> Undef \<and>
     (\<forall>a. q a AND NOT (cal_mask m a) = r a AND NOT (cal_mask m a))"
proof -
  obtain st where st: "dc_cal_backup (cal_dev orc) m (r, n) = (Ok st, (r, n))"
      "rxvga1_curr_gain st = 0" "rxvga2_curr_gain st = 0"
      "\<And>q n'. dc_cal_restore (cal_dev orc) m st (q, n') = (Ok (), (restored_regs m r q, n'))"
    using backup_restore [of m r orc n] assms(2) by blast
  obtain res q n' where run: "seq (dc_cal_module_init (cal_dev orc) m st)
      (dc_cal_retries 37 (cal_dev orc) m) (r, n) = (res, (q, n'))"
    by (metis surj_pair)
  have res: "res \<noteq> Undef" "\<And>a. q a AND NOT (cal_mask m a) = r a AND NOT (cal_mask m a)"
    using confinedD [OF confined_calibration [OF assms(1) st(2,3)] run] by simp_all
  have "lms_calibrate_dc (cal_dev orc) m (r, n) = (res, (restored_regs m r (deinit_regs m q), n'))"
    using res(1) run
    by (cases res) (simp_all add: lms_calibrate_dc_def st deinit_run [OF assms(1)] iosimps)
  then show ?thesis using res by blast
qed

lemma restored_facts:
  assumes "m \<noteq> BLADERF_DC_CAL_INVALID"
    and "cal_rx m \<Longrightarrow> lna_gain_of (r 0x75) \<noteq> BLADERF_LNA_GAIN_UNKNOWN"
    and "\<And>a. q a AND NOT (cal_mask m a) = r a AND NOT (cal_mask m a)"
  defines "r' \<equiv> restored_regs m r (deinit_regs m q)"
  shows "a \<notin> set (cal_footprint m) \<Longrightarrow> r' a = r a"
    and "rxvga1_gain_of (r' 0x76) = rxvga1_gain_of (r 0x76)"
    and "r 0x65 \<le> 10 \<Longrightarrow> r' 0x65 = r 0x65" "dc_cal_idle m r'"
proof -
  have keep: "q b = r b" if "cal_mask m b = 0" for b using assms(3) [of b] that by simp
  have lna: "cal_rx m \<Longrightarrow>
      (q 0x75 AND NOT 0xc0) OR push_bit 6 (lna_gain_code (lna_gain_of (r 0x75)) AND 3) = r 0x75"
    using assms(3) [of "0x75"] lna_gain_of_known [OF assms(2)] by (simp add: cal_mask_def)
  show "r' a = r a" if "a \<notin> set (cal_footprint m)"
    using that assms(1) lna keep [of a]
    by (cases m) (auto simp: r'_def restored_regs_def deinit_regs_def cal_footprint_def cal_rx_def
         cal_mask_def)
  show "rxvga1_gain_of (r' 0x76) = rxvga1_gain_of (r 0x76)"
    using assms(1) keep [of "0x76"]
    by (cases m) (auto simp: r'_def restored_regs_def deinit_regs_def cal_rx_def cal_mask_def
        rxvga1_gain_of_code [OF rxvga1_gain_of_range])
  show "r' 0x65 = r 0x65" if "r 0x65 \<le> 10"
  proof -
    have le: "uint (r 0x65) \<le> 10" using that by (simp add: word_le_def)
    then have "uint (r 0x65 * 3) = uint (r 0x65) * 3"
      using uint_mult_lem [of "r 0x65" 3] by simp
    then have "word_of_int (clamp 0 30 (uint (r 0x65 * 3)) div 3) = r 0x65"
      using le by (simp add: clamp_def)
    then show ?thesis
      using assms(1) keep [of "0x65"]
      by (cases m) (auto simp: r'_def restored_regs_def deinit_regs_def cal_rx_def cal_mask_def)
  qed
  show "dc_cal_idle m r'"
    using assms(1)
    by (cases m) (auto simp: r'_def restored_regs_def deinit_regs_def cal_rx_def dc_cal_idle_def
       bit.conj_disj_distrib2 and.assoc)
qed

text \<open>C19. DC calibration leaves the radio as it found it: through the whole stack, for each of the
  four modules and whatever the calibration hardware answers, \<open>lms_calibrate_dc\<close> ends with a
  defined status, and whether it succeeds or fails every register outside the calibration's own
  result and control registers has its old value (the clock enables, the LNA gain and register
  0x72 among them), the RXVGA1 and RXVGA2 gains are back, and the comparators are powered down.\<close>

theorem calibrate_dc_restores:
  assumes "world_ok d" "lms_chip d = (r, n)" "m \<noteq> BLADERF_DC_CAL_INVALID"
    and "cal_rx m \<longrightarrow> lna_gain_of (r 0x75) \<noteq> BLADERF_LNA_GAIN_UNKNOWN"
  shows "\<exists>res d' r' n'. lms_calibrate_dc (stack_dev (cal_read orc) cal_write rt lg k) m d = (res, d') \<and>
     res \<noteq> Undef \<and> lms_chip d' = (r', n') \<and>
     (\<forall>a. a \<notin> set (cal_footprint m) \<longrightarrow> r' a = r a) \<and>
     rxvga1_gain_of (r' 0x76) = rxvga1_gain_of (r 0x76) \<and>
     (r 0x65 \<le> 10 \<longrightarrow> r' 0x65 = r 0x65) \<and> dc_cal_idle m r'"
proof -
  obtain res q n' where run: "lms_calibrate_dc (cal_dev orc) m (lms_chip d) =
       (res, (restored_regs m r (deinit_regs m q), n'))" "res \<noteq> Undef"
    and q: "\<And>a. q a AND NOT (cal_mask m a) = r a AND NOT (cal_mask m a)"
    using calibrate_dc_run [OF assms(3), of r orc n] assms(2,4) by auto
  note facts = restored_facts [OF assms(3) assms(4) [rule_format] q]
  show ?thesis
    using implementsD [OF stack.impl_calibrate_dc assms(1) run(1) [unfolded cal_dev_def]]
      run(2) facts by blast
qed

lemma calibrate_dc_restores_witness:
  "\<exists>res d' r' n'.
     lms_calibrate_dc (stack_dev (cal_read (\<lambda>_. 0)) cal_write (\<lambda>p s. (p, s)) (\<lambda>p s. (p, s)) 40)
       BLADERF_DC_CAL_RXVGA2 (fresh_world (((\<lambda>a. 0x48), 0), False)) = (res, d') \<and>
     res \<noteq> Undef \<and> lms_chip d' = (r', n') \<and> r' 0x09 = 0x48 \<and> r' 0x72 = 0x48 \<and> r' 0x75 = 0x48"
proof -
  have "lms_chip (fresh_world (((\<lambda>a. 0x48), 0), False)) = ((\<lambda>a. 0x48), 0)" by simp
  from calibrate_dc_restores [OF fresh_world_ok this, of BLADERF_DC_CAL_RXVGA2 "\<lambda>_. 0"
      "\<lambda>p s. (p, s)" "\<lambda>p s. (p, s)" 40]
  show ?thesis by (fastforce simp: lna_gain_of_def cal_footprint_def)
qed

section \<open>DC offset correction reads back\<close>

lemma low_word_of_int:
  "uint (word_of_int v AND 0x3f :: u8) = v mod 64" "uint (word_of_int v AND 0x7f :: u8) = v mod 128"
proof -
  have "(word_of_int v :: u8) AND 0x3f = take_bit 6 (word_of_int v)"
    "(word_of_int v :: u8) AND 0x7f = take_bit 7 (word_of_int v)"
    by (simp_all add: take_bit_eq_mask mask_eq_exp_minus_1)
  moreover have "take_bit 6 (take_bit LENGTH(8) v) = v mod 64"
    "take_bit 7 (take_bit LENGTH(8) v) = v mod 128"
    by (simp_all add: take_bit_eq_mod mod_mod_cancel)
  ultimately show "uint (word_of_int v AND 0x3f :: u8) = v mod 64"
    "uint (word_of_int v AND 0x7f :: u8) = v mod 128"
    by (simp_all only: unsigned_take_bit_eq uint_word_of_int_eq)
qed

lemma scale_rx:
  "\<exists>w neg. scale_dc_offset BLADERF_MODULE_RX val = (w AND 0x3f) OR (if neg then 0x40 else 0) \<and>
     (if neg then - uint (w AND 0x3f) else uint (w AND 0x3f)) =
       clamp (-63) 63 (sint val div 32)"
proof -
  define v where "v = sint val div 32"
  consider "v \<le> -64" | "-64 < v" "v < 0" | "0 \<le> v" "v < 64" | "64 \<le> v" by linarith
  then show ?thesis
  proof cases
    case 1 then show ?thesis
      by (intro exI [of _ "0x3f"] exI [of _ True]) (simp add: scale_dc_offset_def v_def [symmetric] clamp_def)
  next
    case 2
    moreover from this have "uint (word_of_int (- v) AND 0x3f :: u8) = - v"
      unfolding low_word_of_int by simp
    ultimately show ?thesis
      by (intro exI [of _ "word_of_int (- v)"] exI [of _ True])
         (simp add: scale_dc_offset_def v_def [symmetric] clamp_def)
  next
    case 3 then show ?thesis
      by (intro exI [of _ "word_of_int v"] exI [of _ False])
         (simp add: scale_dc_offset_def v_def [symmetric] clamp_def low_word_of_int)
  next
    case 4 then show ?thesis
      by (intro exI [of _ "0x3f"] exI [of _ False]) (simp add: scale_dc_offset_def v_def [symmetric] clamp_def)
  qed
qed

lemma rx_offset_bits:
  fixes w c :: u8
  shows "(((w AND 0x3f) OR (if neg then 0x40 else 0) OR (c AND 0x80)) AND 0x7f) AND 0x3f = w AND 0x3f"
    "(((w AND 0x3f) OR (if neg then 0x40 else 0) OR (c AND 0x80)) AND 0x7f) AND 0x40 =
       (if neg then 0x40 else 0)"
    "((w AND 0x3f) OR (if neg then 0x40 else 0) OR (c AND 0x80)) AND 0x80 = c AND 0x80"
  by (cases neg; rule u8_eqI; simp add: bit_simps)+

lemma rx_offset_roundtrip:
  "\<exists>x. set_dc_offset_reg regs_dev BLADERF_MODULE_RX addr val r = (Ok (), r(addr := x)) \<and>
     get_dc_offset regs_dev BLADERF_MODULE_RX addr (r(addr := x)) =
       (Ok (32 * clamp (-63) 63 (sint val div 32)), r(addr := x)) \<and> x AND 0x80 = r addr AND 0x80"
proof -
  obtain w neg where w: "scale_dc_offset BLADERF_MODULE_RX val =
        (w AND 0x3f) OR (if neg then 0x40 else 0)"
      "(if neg then - uint (w AND 0x3f) else uint (w AND 0x3f)) = clamp (-63) 63 (sint val div 32)"
    using scale_rx by blast
  show ?thesis
    unfolding set_dc_offset_reg_def get_dc_offset_def bladerf_module.case w(1) Let_def
      seq_regs_read regs_dev_write ret_apply
    by (intro exI [of _ "(w AND 0x3f) OR (if neg then 0x40 else 0) OR (r addr AND 0x80)"])
       (simp only: rx_offset_bits fun_upd_same w(2) [symmetric],
         simp add: mult.commute or.assoc)
qed

text \<open>The RX DC offset correction round trips: what was set for I or Q reads back as the same
  value at the hardware's resolution, rounded down to a multiple of 32 and limited to 63 steps
  either way, and bit 7 of the register, which belongs to another function, is kept.\<close>

lemma rx_dc_offset_roundtrip:
  "(\<exists>r'. lms_set_dc_offset_i regs_dev BLADERF_MODULE_RX val r = (Ok (), r') \<and>
     lms_get_dc_offset_i regs_dev BLADERF_MODULE_RX r' =
       (Ok (32 * clamp (-63) 63 (sint val div 32)), r') \<and> r' 0x71 AND 0x80 = r 0x71 AND 0x80) \<and>
   (\<exists>r'. lms_set_dc_offset_q regs_dev BLADERF_MODULE_RX val r = (Ok (), r') \<and>
     lms_get_dc_offset_q regs_dev BLADERF_MODULE_RX r' =
       (Ok (32 * clamp (-63) 63 (sint val div 32)), r') \<and> r' 0x72 AND 0x80 = r 0x72 AND 0x80)"
  unfolding lms_set_dc_offset_i_def lms_get_dc_offset_i_def lms_set_dc_offset_q_def
    lms_get_dc_offset_q_def
  using rx_offset_roundtrip [of "0x71" val r] rx_offset_roundtrip [of "0x72" val r] by auto

lemma scale_tx:
  "uint (scale_dc_offset BLADERF_MODULE_TX val) = clamp (-128) 127 (sint val div 16) + 128"
proof -
  define v where "v = sint val div 16"
  have or80: "uint (0x80 OR (w AND 0x7f)) = 128 + uint (w AND 0x7f)" for w :: u8
  proof -
    have "0x80 AND (w AND 0x7f) = 0" by (rule u8_eqI; simp add: bit_simps)
    then have "0x80 OR (w AND 0x7f) = 0x80 + (w AND 0x7f)"
      by (rule disjunctive_add_eq_or [symmetric])
    moreover have "uint (w AND 0x7f) < 128"
      using low_word_of_int(2) [of "uint w"] by simp
    ultimately show ?thesis using uint_add_lem [of "0x80" "w AND 0x7f"] by simp
  qed
  have neg: "v mod 128 = v + 128" if "-128 < v" "v < 0"
    using that by presburger
  consider "v \<le> -128" | "-128 < v" "v < 0" | "0 \<le> v" "v < 128" | "128 \<le> v" by linarith
  then show ?thesis
    unfolding v_def [symmetric]
    using or80 [of "0x7f"] or80 [of "word_of_int v"]
    by cases (simp_all add: scale_dc_offset_def v_def [symmetric] clamp_def low_word_of_int neg)
qed

text \<open>The TX DC offset correction does not round trip: whatever was set for I or Q, the value
  read back is 2048 above it (at the hardware's resolution, limited to the register's range).\<close>

lemma tx_dc_offset_reads_high:
  "(\<exists>r'. lms_set_dc_offset_i regs_dev BLADERF_MODULE_TX val r = (Ok (), r') \<and>
     lms_get_dc_offset_i regs_dev BLADERF_MODULE_TX r' =
       (Ok (16 * clamp (-128) 127 (sint val div 16) + 2048), r')) \<and>
   (\<exists>r'. lms_set_dc_offset_q regs_dev BLADERF_MODULE_TX val r = (Ok (), r') \<and>
     lms_get_dc_offset_q regs_dev BLADERF_MODULE_TX r' =
       (Ok (16 * clamp (-128) 127 (sint val div 16) + 2048), r'))"
  by (simp add: lms_set_dc_offset_i_def lms_get_dc_offset_i_def lms_set_dc_offset_q_def
      lms_get_dc_offset_q_def set_dc_offset_reg_def get_dc_offset_def iosimps scale_tx)

section \<open>Manual calibration values read back\<close>

type_synonym dcv_chip = "regs \<times> (u8 \<Rightarrow> u8 \<Rightarrow> u8)"

definition dc_cal_bases :: "u8 list" where
  "dc_cal_bases = [0x00, 0x30, 0x50, 0x60]"

fun dcv_read :: "u8 \<Rightarrow> dcv_chip \<Rightarrow> u8 \<times> dcv_chip" where
  \<comment> \<open>\<^verbatim>\<open>DC_REGVAL\<close> shows the value of the submodule \<^verbatim>\<open>DC_ADDR\<close> selects\<close>
  "dcv_read a (r, v) =
     (if a \<in> set dc_cal_bases then v a (r (a + 3) AND 7) else r a, (r, v))"

fun dcv_write :: "u8 \<Rightarrow> u8 \<Rightarrow> dcv_chip \<Rightarrow> dcv_chip" where
  \<comment> \<open>\<^verbatim>\<open>DC_LOAD\<close> loads \<^verbatim>\<open>DC_CNTVAL\<close> into that submodule\<close>
  "dcv_write a x (r, v) =
     (r(a := x),
      if a - 3 \<in> set dc_cal_bases \<and> x AND 0x10 \<noteq> 0
      then v(a - 3 := (v (a - 3))(x AND 7 := r (a - 1))) else v)"

definition dcv_dev :: "dcv_chip lms_backend" where
  "dcv_dev = chip_dev dcv_read dcv_write"

lemma dcv_simps [iosimps]:
  "lms_read dcv_dev a (r, v) =
     (Ok (if a \<in> set dc_cal_bases then v a (r (a + 3) AND 7) else r a), (r, v))"
  "lms_write dcv_dev a x (r, v) = (Ok (), dcv_write a x (r, v))"
  by (simp_all add: dcv_dev_def chip_dev_def)

definition dc_subs :: "(u8 \<times> u8) list" where
  "dc_subs = [(0x00, 0), (0x30, 0), (0x30, 1), (0x50, 0), (0x50, 1),
              (0x60, 0), (0x60, 1), (0x60, 2), (0x60, 3), (0x60, 4)]"

lemma dcv_set_value:
  assumes "(base, addr) \<in> set dc_subs"
  shows "\<exists>r'. set_dc_cal_value dcv_dev base addr x (r, v) =
           (Ok (), (r', v(base := (v base)(addr := word_of_int x))))"
  using assms unfolding dc_subs_def set_simps insert_iff empty_iff prod.inject
  by (elim disjE conjE FalseE;
      simp add: set_dc_cal_value_def iosimps dc_cal_bases_def Let_def)

definition load_cal :: "u8 \<Rightarrow> u8 \<Rightarrow> int \<Rightarrow> (u8 \<Rightarrow> u8 \<Rightarrow> u8) \<Rightarrow> u8 \<Rightarrow> u8 \<Rightarrow> u8" where
  \<comment> \<open>the submodule values after a conditional load\<close>
  "load_cal base addr x v =
     (if x \<ge> 0 then v(base := (v base)(addr := word_of_int x)) else v)"

lemma dcv_set_if:
  assumes "(base, addr) \<in> set dc_subs"
  shows "\<exists>r'. set_if dcv_dev base addr x (r, v) = (Ok (), (r', load_cal base addr x v))"
  using dcv_set_value [OF assms, of x r v] by (auto simp: set_if_def load_cal_def iosimps)

lemma dcv_clock:
  "clk \<in> {0x20, 0x02, 0x08, 0x10} \<Longrightarrow> \<exists>r'. cal_clock dcv_dev clk en (r, v) = (Ok (), (r', v))"
  by (auto simp: cal_clock_def lms_set_def lms_clear_def iosimps dc_cal_bases_def)

lemma dcv_get_value:
  assumes "(base, addr) \<in> set dc_subs"
  shows "\<exists>r'. get_dc_cal_value dcv_dev base addr (r, v) = (Ok (uint (v base addr)), (r', v))"
  using assms unfolding dc_subs_def set_simps insert_iff empty_iff prod.inject
  by (elim disjE conjE FalseE;
      simp add: get_dc_cal_value_def iosimps dc_cal_bases_def Let_def)

definition loads :: "(dcv_chip, unit) io \<Rightarrow> ((u8 \<Rightarrow> u8 \<Rightarrow> u8) \<Rightarrow> u8 \<Rightarrow> u8 \<Rightarrow> u8) \<Rightarrow> bool" where
  \<comment> \<open>the operation succeeds and changes the submodule values by a function\<close>
  "loads act g \<longleftrightarrow> (\<forall>r v. \<exists>r'. act (r, v) = (Ok (), (r', g v)))"

lemma loads_seq:
  assumes "loads act g" "loads act' h"
  shows "loads (seq act (\<lambda>_. act')) (\<lambda>v. h (g v))"
  unfolding loads_def
proof (intro allI)
  fix r v
  obtain r1 where "act (r, v) = (Ok (), (r1, g v))" using assms(1) by (auto simp: loads_def)
  moreover obtain r2 where "act' (r1, g v) = (Ok (), (r2, h (g v)))"
    using assms(2) by (auto simp: loads_def)
  ultimately show "\<exists>r'. seq act (\<lambda>_. act') (r, v) = (Ok (), (r', h (g v)))"
    by (simp add: iosimps)
qed

lemma loads_when:
  assumes "loads act g"
  shows "loads (when_io b act) (\<lambda>v. if b then g v else v)"
  using assms by (simp add: loads_def iosimps)

lemma loads_eq: "loads act g \<Longrightarrow> (\<And>v. g v = h v) \<Longrightarrow> loads act h"
  by (simp add: loads_def)

lemma loads_clock: "clk \<in> {0x20, 0x02, 0x08, 0x10} \<Longrightarrow> loads (cal_clock dcv_dev clk en) (\<lambda>v. v)"
  using dcv_clock by (simp add: loads_def)

lemma loads_set_if: "(base, addr) \<in> set dc_subs \<Longrightarrow>
    loads (set_if dcv_dev base addr x) (load_cal base addr x)"
  using dcv_set_if by (simp add: loads_def)

lemma loads_set_value: "(base, addr) \<in> set dc_subs \<Longrightarrow>
    loads (set_dc_cal_value dcv_dev base addr x) (\<lambda>v. v(base := (v base)(addr := word_of_int x)))"
  using dcv_set_value by (simp add: loads_def)

definition load_cals :: "bladerf_lms_dc_cals \<Rightarrow> (u8 \<Rightarrow> u8 \<Rightarrow> u8) \<Rightarrow> u8 \<Rightarrow> u8 \<Rightarrow> u8" where
  "load_cals c v =
     load_cal 0x60 4 (rxvga2b_q c) (load_cal 0x60 3 (rxvga2b_i c) (load_cal 0x60 2 (rxvga2a_q c)
     (load_cal 0x60 1 (rxvga2a_i c) (load_cal 0x60 0 (dc_ref c)
     (load_cal 0x50 1 (rx_lpf_q c) (load_cal 0x50 0 (rx_lpf_i c)
     (load_cal 0x30 1 (tx_lpf_q c) (load_cal 0x30 0 (tx_lpf_i c)
     (load_cal 0x00 0 (lpf_tuning c) v)))))))))"

lemma load_cal_neg: "\<not> 0 \<le> x \<Longrightarrow> load_cal base addr x v = v"
  by (simp add: load_cal_def)

lemma load_blocks:
  "(if 0 \<le> a then v(base := (v base)(addr := word_of_int a)) else v) = load_cal base addr a v"
  "(if 0 \<le> a \<or> 0 \<le> b then load_cal b2 a2 b (load_cal b1 a1 a v) else v) =
     load_cal b2 a2 b (load_cal b1 a1 a v)"
  "(if 0 \<le> a \<or> 0 \<le> b \<or> 0 \<le> c \<or> 0 \<le> d \<or> 0 \<le> e
    then load_cal b5 a5 e (load_cal b4 a4 d (load_cal b3 a3 c (load_cal b2 a2 b (load_cal b1 a1 a v))))
    else v) =
     load_cal b5 a5 e (load_cal b4 a4 d (load_cal b3 a3 c (load_cal b2 a2 b (load_cal b1 a1 a v))))"
  by (simp_all add: load_cal_neg) (simp add: load_cal_def)

lemma loads_dc_cals: "loads (lms_set_dc_cals dcv_dev c) (load_cals c)"
proof -
  have subs: "(0x00, 0) \<in> set dc_subs" "(0x30, 0) \<in> set dc_subs" "(0x30, 1) \<in> set dc_subs"
    "(0x50, 0) \<in> set dc_subs" "(0x50, 1) \<in> set dc_subs" "(0x60, 0) \<in> set dc_subs"
    "(0x60, 1) \<in> set dc_subs" "(0x60, 2) \<in> set dc_subs" "(0x60, 3) \<in> set dc_subs"
    "(0x60, 4) \<in> set dc_subs" by (simp_all add: dc_subs_def)
  have clk: "loads (cal_clock dcv_dev 0x20 en) (\<lambda>v. v)" "loads (cal_clock dcv_dev 0x02 en) (\<lambda>v. v)"
    "loads (cal_clock dcv_dev 0x08 en) (\<lambda>v. v)" "loads (cal_clock dcv_dev 0x10 en) (\<lambda>v. v)" for en
    by (simp_all add: loads_clock)
  note rules = loads_seq loads_when clk loads_set_if [OF subs(2)] loads_set_if [OF subs(3)]
    loads_set_if [OF subs(4)] loads_set_if [OF subs(5)] loads_set_if [OF subs(6)]
    loads_set_if [OF subs(7)] loads_set_if [OF subs(8)] loads_set_if [OF subs(9)]
    loads_set_if [OF subs(10)] loads_set_value [OF subs(1)]
  show ?thesis
    unfolding lms_set_dc_cals_def
    by (rule loads_eq, (rule rules)+)
       (simp only: load_cals_def load_blocks)
qed

definition read_cals :: "(u8 \<Rightarrow> u8 \<Rightarrow> u8) \<Rightarrow> bladerf_lms_dc_cals" where
  "read_cals v =
     \<lparr>lpf_tuning = uint (v 0x00 0), tx_lpf_i = uint (v 0x30 0), tx_lpf_q = uint (v 0x30 1),
      rx_lpf_i = uint (v 0x50 0), rx_lpf_q = uint (v 0x50 1), dc_ref = uint (v 0x60 0),
      rxvga2a_i = uint (v 0x60 1), rxvga2a_q = uint (v 0x60 2),
      rxvga2b_i = uint (v 0x60 3), rxvga2b_q = uint (v 0x60 4)\<rparr>"

lemma dcv_get_seq:
  assumes "(base, addr) \<in> set dc_subs" "\<And>r. \<exists>r'. k (uint (v base addr)) (r, v) = (Ok x, (r', v))"
  shows "\<exists>r'. seq (get_dc_cal_value dcv_dev base addr) k (r, v) = (Ok x, (r', v))"
proof -
  obtain r1 where "get_dc_cal_value dcv_dev base addr (r, v) = (Ok (uint (v base addr)), (r1, v))"
    using dcv_get_value [OF assms(1)] by blast
  then show ?thesis using assms(2) [of r1] by (simp add: iosimps)
qed

lemma get_dc_cals_run: "\<exists>r'. lms_get_dc_cals dcv_dev (r, v) = (Ok (read_cals v), (r', v))"
  unfolding lms_get_dc_cals_def
  by (intro dcv_get_seq; simp add: dc_subs_def ret_apply read_cals_def)

definition merge_cal :: "int \<Rightarrow> int \<Rightarrow> int" where
  \<comment> \<open>a negative value leaves the setting alone\<close>
  "merge_cal new old = (if new \<ge> 0 then new else old)"

definition merge_cals :: "bladerf_lms_dc_cals \<Rightarrow> bladerf_lms_dc_cals \<Rightarrow> bladerf_lms_dc_cals" where
  "merge_cals c old =
     \<lparr>lpf_tuning = merge_cal (lpf_tuning c) (lpf_tuning old),
      tx_lpf_i = merge_cal (tx_lpf_i c) (tx_lpf_i old), tx_lpf_q = merge_cal (tx_lpf_q c) (tx_lpf_q old),
      rx_lpf_i = merge_cal (rx_lpf_i c) (rx_lpf_i old), rx_lpf_q = merge_cal (rx_lpf_q c) (rx_lpf_q old),
      dc_ref = merge_cal (dc_ref c) (dc_ref old),
      rxvga2a_i = merge_cal (rxvga2a_i c) (rxvga2a_i old),
      rxvga2a_q = merge_cal (rxvga2a_q c) (rxvga2a_q old),
      rxvga2b_i = merge_cal (rxvga2b_i c) (rxvga2b_i old),
      rxvga2b_q = merge_cal (rxvga2b_q c) (rxvga2b_q old)\<rparr>"

definition cals_fit :: "bladerf_lms_dc_cals \<Rightarrow> bool" where
  "cals_fit c \<longleftrightarrow>
     lpf_tuning c < 256 \<and> tx_lpf_i c < 256 \<and> tx_lpf_q c < 256 \<and> rx_lpf_i c < 256 \<and>
     rx_lpf_q c < 256 \<and> dc_ref c < 256 \<and> rxvga2a_i c < 256 \<and> rxvga2a_q c < 256 \<and>
     rxvga2b_i c < 256 \<and> rxvga2b_q c < 256"

lemma load_cal_uint:
  assumes "x < 256"
  shows "uint (load_cal base addr x v base addr) = merge_cal x (uint (v base addr))"
  using assms by (simp add: load_cal_def merge_cal_def uint_word_of_int)

lemma load_cal_other:
  "(b, a) \<noteq> (base, addr) \<Longrightarrow> load_cal base addr x v b a = v b a"
  by (auto simp: load_cal_def)

lemma read_load_cals:
  assumes "cals_fit c"
  shows "read_cals (load_cals c v) = merge_cals c (read_cals v)"
  using assms
  by (simp add: read_cals_def load_cals_def merge_cals_def cals_fit_def load_cal_uint load_cal_other)

text \<open>C21. Manual DC calibration values read back: through the whole stack, in front of a chip that
  loads and shows the value of the addressed submodule, \<open>lms_set_dc_cals\<close> followed by
  \<open>lms_get_dc_cals\<close> returns each value that was set, and for each negative one the value that was
  there before.\<close>

theorem dc_cals_roundtrip:
  assumes "world_ok d" "cals_fit c" "lms_chip d = (r, v)"
  shows "\<exists>d1 d2. lms_set_dc_cals (stack_dev dcv_read dcv_write rt lg n) c d = (Ok (), d1) \<and>
     lms_get_dc_cals (stack_dev dcv_read dcv_write rt lg n) d1 =
       (Ok (merge_cals c (read_cals v)), d2)"
proof -
  obtain r1 where "lms_set_dc_cals dcv_dev c (lms_chip d) = (Ok (), (r1, load_cals c v))"
    using loads_dc_cals [of c] assms(3) unfolding loads_def by metis
  from implementsD [OF stack.impl_dc_cals(1) assms(1) this [unfolded dcv_dev_def]]
  obtain d1 where d1: "lms_set_dc_cals (stack_dev dcv_read dcv_write rt lg n) c d = (Ok (), d1)"
      "world_ok d1" "lms_chip d1 = (r1, load_cals c v)" by blast
  obtain r2 where "lms_get_dc_cals dcv_dev (lms_chip d1) =
      (Ok (merge_cals c (read_cals v)), (r2, load_cals c v))"
    using get_dc_cals_run [of r1 "load_cals c v"] d1(3) read_load_cals [OF assms(2)] by auto
  from implementsD [OF stack.impl_dc_cals(2) d1(2) this [unfolded dcv_dev_def]] d1(1)
  show ?thesis by blast
qed

lemma dc_cals_roundtrip_witness:
  "\<exists>d1 d2 c. lms_set_dc_cals (stack_dev dcv_read dcv_write (\<lambda>p s. (p, s)) (\<lambda>p s. (p, s)) 40)
       \<lparr>lpf_tuning = 7, tx_lpf_i = -1, tx_lpf_q = 12, rx_lpf_i = 63, rx_lpf_q = -1, dc_ref = -1,
        rxvga2a_i = 1, rxvga2a_q = 2, rxvga2b_i = 3, rxvga2b_q = 4\<rparr>
       (fresh_world ((\<lambda>a. 0, \<lambda>b a. 31), False)) = (Ok (), d1) \<and>
     lms_get_dc_cals (stack_dev dcv_read dcv_write (\<lambda>p s. (p, s)) (\<lambda>p s. (p, s)) 40) d1 =
       (Ok c, d2) \<and> lpf_tuning c = 7 \<and> tx_lpf_i c = 31 \<and> rx_lpf_i c = 63"
proof -
  have "lms_chip (fresh_world ((\<lambda>a. 0, \<lambda>b a. 31), False)) = (\<lambda>a. 0, \<lambda>b a. 31)" by simp
  from dc_cals_roundtrip [OF fresh_world_ok _ this, of "\<lparr>lpf_tuning = 7, tx_lpf_i = -1, tx_lpf_q = 12,
      rx_lpf_i = 63, rx_lpf_q = -1, dc_ref = -1, rxvga2a_i = 1, rxvga2a_q = 2, rxvga2b_i = 3,
      rxvga2b_q = 4\<rparr>" "\<lambda>p s. (p, s)" "\<lambda>p s. (p, s)" 40]
  show ?thesis
    by (fastforce simp: cals_fit_def merge_cals_def merge_cal_def read_cals_def)
qed

end
