(* ===== verification/Nios_Retune.thy ===== *)
theory Nios_Retune
  imports Lms_Path
begin

unbundle bit_operations_syntax

text \<open>
  Scheduled retunes: the retune packets of \<^verbatim>\<open>nios_pkt_retune.h\<close>, the firmware's retune queues
  and their worker (\<^verbatim>\<open>pkt_retune.c\<close>) over the time tamer registers of \<^verbatim>\<open>devices.c\<close>, and the
  band selection of \<^verbatim>\<open>band_select.c\<close>.

  A queue and the firmware state are passed as a pair. The time tamer interrupt may preempt the
  worker while it publishes the state of an entry; \<open>perform_work\<close> takes a function that tells at
  which of its numbered points the interrupt is served. The error counter of the debug build is
  not modelled.
\<close>

section \<open>Retune packets\<close>

record retune_request =
  rq_module :: "bladerf_module option"
  rq_timestamp :: u64
  rq_nint :: u16
  rq_nfrac :: u32
  rq_freqsel :: u8
  rq_vcocap :: u8
  rq_low_band :: bool
  rq_xb_gpio :: u8
  rq_quick_tune :: bool

definition nios_pkt_retune_pack :: "retune_request \<Rightarrow> u8 list" where
  \<comment> \<open>\<open>None\<close> for the module: neither RX nor TX\<close>
  "nios_pkt_retune_pack q =
     (let ts = rq_timestamp q in
      [NIOS_PKT_RETUNE_MAGIC,
       byte_of 0 ts, byte_of 1 ts, byte_of 2 ts, byte_of 3 ts,
       byte_of 4 ts, byte_of 5 ts, byte_of 6 ts, byte_of 7 ts,
       ucast (drop_bit 1 (rq_nint q) AND 0xff),
       ucast (push_bit 7 (rq_nint q AND 1)) OR ucast (drop_bit 16 (rq_nfrac q) AND 0x7f),
       ucast (drop_bit 8 (rq_nfrac q) AND 0xff),
       ucast (rq_nfrac q AND 0xff),
       rq_freqsel q OR (case rq_module q of
           Some BLADERF_MODULE_TX \<Rightarrow> 0x80 | Some BLADERF_MODULE_RX \<Rightarrow> 0x40 | None \<Rightarrow> 0),
       (if rq_low_band q then 0x80 else 0) OR (if rq_quick_tune q then 0x40 else 0)
         OR rq_vcocap q,
       rq_xb_gpio q])"

definition nios_pkt_retune_unpack :: "u8 list \<Rightarrow> retune_request" where
  "nios_pkt_retune_unpack buf =
     \<lparr>rq_module = (if buf ! 13 AND 0x80 \<noteq> 0 then Some BLADERF_MODULE_TX
                   else if buf ! 13 AND 0x40 \<noteq> 0 then Some BLADERF_MODULE_RX else None),
      rq_timestamp = ucast (buf ! 1) OR push_bit 8 (ucast (buf ! 2)) OR
        push_bit 16 (ucast (buf ! 3)) OR push_bit 24 (ucast (buf ! 4)) OR
        push_bit 32 (ucast (buf ! 5)) OR push_bit 40 (ucast (buf ! 6)) OR
        push_bit 48 (ucast (buf ! 7)) OR push_bit 56 (ucast (buf ! 8)),
      rq_nint = push_bit 1 (ucast (buf ! 9)) OR ucast (drop_bit 7 (buf ! 10)),
      rq_nfrac = push_bit 16 (ucast (buf ! 10 AND 0x7f)) OR push_bit 8 (ucast (buf ! 11)) OR
        ucast (buf ! 12),
      rq_freqsel = buf ! 13 AND 0x3f,
      rq_vcocap = buf ! 14 AND 0x3f,
      rq_low_band = (buf ! 14 AND 0x80 \<noteq> 0),
      rq_xb_gpio = buf ! 15,
      rq_quick_tune = (buf ! 14 AND 0x40 \<noteq> 0)\<rparr>"

definition nios_pkt_retune_resp_pack :: "u64 \<Rightarrow> u8 \<Rightarrow> u8 \<Rightarrow> u8 list" where
  "nios_pkt_retune_resp_pack duration cap fl =
     [NIOS_PKT_RETUNE_MAGIC,
      byte_of 0 duration, byte_of 1 duration, byte_of 2 duration, byte_of 3 duration,
      byte_of 4 duration, byte_of 5 duration, byte_of 6 duration, byte_of 7 duration,
      cap, fl, 0, 0, 0, 0, 0]"

definition nios_pkt_retune_resp_unpack :: "u8 list \<Rightarrow> u64 \<times> u8 \<times> u8" where
  "nios_pkt_retune_resp_unpack buf =
     (ucast (buf ! 1) OR push_bit 8 (ucast (buf ! 2)) OR
        push_bit 16 (ucast (buf ! 3)) OR push_bit 24 (ucast (buf ! 4)) OR
        push_bit 32 (ucast (buf ! 5)) OR push_bit 40 (ucast (buf ! 6)) OR
        push_bit 48 (ucast (buf ! 7)) OR push_bit 56 (ucast (buf ! 8)),
      buf ! 9, buf ! 10)"

section \<open>The time tamer\<close>

definition tamer_status :: "'m bus_fns \<Rightarrow> bladerf_module \<Rightarrow> ('m nios, u8) io" where
  "tamer_status b m s = (case rd8 b (tamer_base m) 9 s of (v, s1) \<Rightarrow> (Ok v, s1))"

definition tamer_flag :: "'m bus_fns \<Rightarrow> u8 \<Rightarrow> bladerf_module \<Rightarrow> ('m nios, bool) io" where
  "tamer_flag b bits m = seq (tamer_status b m) (\<lambda>v. ret (v AND bits \<noteq> 0))"

definition tamer_schedule_acknowledged :: "'m bus_fns \<Rightarrow> bladerf_module \<Rightarrow> ('m nios, bool) io" where
  "tamer_schedule_acknowledged b m = tamer_flag b 0x08 m"

definition tamer_compare_fired :: "'m bus_fns \<Rightarrow> bladerf_module \<Rightarrow> ('m nios, bool) io" where
  "tamer_compare_fired b m = tamer_flag b 0x10 m"

definition tamer_clock_stalled :: "'m bus_fns \<Rightarrow> bladerf_module \<Rightarrow> ('m nios, bool) io" where
  "tamer_clock_stalled b m = tamer_flag b 0x20 m"

definition tamer_schedule_failed :: "'m bus_fns \<Rightarrow> bladerf_module \<Rightarrow> ('m nios, bool) io" where
  "tamer_schedule_failed b m = tamer_flag b 0x40 m"

definition tamer_cancel_failed :: "'m bus_fns \<Rightarrow> bladerf_module \<Rightarrow> ('m nios, bool) io" where
  "tamer_cancel_failed b m = tamer_flag b 0x80 m"

definition tamer_write :: "'m bus_fns \<Rightarrow> bladerf_module \<Rightarrow> u8 \<Rightarrow> u8 \<Rightarrow> ('m nios, unit) io" where
  "tamer_write b m off v s = (Ok (), wr8 b (tamer_base m) off v s)"

definition tamer_schedule_request ::
    "'m bus_fns \<Rightarrow> bladerf_module \<Rightarrow> u64 \<Rightarrow> ('m nios, bool) io" where
  "tamer_schedule_request b m time =
     seq (tamer_clock_stalled b m) (\<lambda>stalled.
     if stalled then ret False
     else
       seq (tamer_write b m 0 (byte_of 0 time)) (\<lambda>_.
       seq (tamer_write b m 1 (byte_of 1 time)) (\<lambda>_.
       seq (tamer_write b m 2 (byte_of 2 time)) (\<lambda>_.
       seq (tamer_write b m 3 (byte_of 3 time)) (\<lambda>_.
       seq (tamer_write b m 4 (byte_of 4 time)) (\<lambda>_.
       seq (tamer_write b m 5 (byte_of 5 time)) (\<lambda>_.
       seq (tamer_write b m 6 (byte_of 6 time)) (\<lambda>_.
       seq (tamer_write b m 7 (byte_of 7 time)) (\<lambda>_.
       seq (tamer_write b m 8 0) (\<lambda>_. ret True))))))))))"

definition tamer_cancel_request :: "'m bus_fns \<Rightarrow> bladerf_module \<Rightarrow> ('m nios, u8 option) io" where
  \<comment> \<open>\<open>Some\<close> of the value stored through \<^verbatim>\<open>ack_before\<close> when the request was issued\<close>
  "tamer_cancel_request b m =
     seq (tamer_status b m) (\<lambda>status.
     if status AND 0x20 \<noteq> 0 then ret None
     else seq (tamer_write b m 8 4) (\<lambda>_. ret (Some (status AND 2))))"

definition tamer_cancel_acknowledged ::
    "'m bus_fns \<Rightarrow> bladerf_module \<Rightarrow> u8 \<Rightarrow> ('m nios, bool) io" where
  "tamer_cancel_acknowledged b m ack_before =
     seq (tamer_status b m) (\<lambda>status. ret (status AND 2 \<noteq> ack_before))"

definition timer_tamer_clear_interrupt :: "'m bus_fns \<Rightarrow> bladerf_module \<Rightarrow> ('m nios, unit) io" where
  "timer_tamer_clear_interrupt b m = tamer_write b m 8 1"

section \<open>The retune queue\<close>

datatype entry_state =
    ENTRY_STATE_INVALID | ENTRY_STATE_NEW | ENTRY_STATE_SCHEDULE_PENDING | ENTRY_STATE_SCHEDULED
  | ENTRY_STATE_CANCEL_PENDING | ENTRY_STATE_READY

record queue_entry =
  e_state :: entry_state
  e_freq :: lms_freq
  e_timestamp :: u64
  cancel_recovery_seen :: bool
  cancel_request_pending :: bool
  cancel_ack_before :: u8

record retune_queue =
  q_count :: u8
  ins_idx :: u8
  rem_idx :: u8
  clear_requested :: bool
  clear_complete :: bool
  clear_cancel_pending :: bool
  clear_cancel_recovery_seen :: bool
  clear_cancel_ack_before :: u8
  entries :: "queue_entry list"

definition RETUNE_QUEUE_MAX :: u8 where "RETUNE_QUEUE_MAX = 16"
definition QUEUE_FULL :: u8 where "QUEUE_FULL = 0xff"
definition QUEUE_EMPTY :: u8 where "QUEUE_EMPTY = 0xfe"

definition enqueue_retune :: "retune_queue \<Rightarrow> lms_freq \<Rightarrow> u64 \<Rightarrow> u8 \<times> retune_queue" where
  "enqueue_retune q f timestamp =
     (if clear_requested q then (QUEUE_FULL, q)
      else
        (let q = q\<lparr>clear_complete := False\<rparr> in
         if q_count q \<ge> RETUNE_QUEUE_MAX then (QUEUE_FULL, q)
         else
           (let i = unat (ins_idx q);
                e = (entries q ! i)\<lparr>e_freq := f, e_state := ENTRY_STATE_NEW,
                      e_timestamp := timestamp, cancel_recovery_seen := False,
                      cancel_request_pending := False\<rparr> in
            (q_count q + 1,
             q\<lparr>entries := (entries q)[i := e],
                ins_idx := (ins_idx q + 1) AND (RETUNE_QUEUE_MAX - 1),
                q_count := q_count q + 1\<rparr>))))"

definition dequeue_retune :: "retune_queue \<Rightarrow> u8 \<times> retune_queue" where
  \<comment> \<open>as called with \<^verbatim>\<open>e == NULL\<close>\<close>
  "dequeue_retune q =
     (if q_count q = 0 then (QUEUE_EMPTY, q)
      else (q_count q - 1,
            q\<lparr>rem_idx := (rem_idx q + 1) AND (RETUNE_QUEUE_MAX - 1), q_count := q_count q - 1\<rparr>))"

definition peek_next_retune :: "retune_queue \<Rightarrow> queue_entry option" where
  "peek_next_retune q = (if q_count q = 0 then None else Some (entries q ! unat (rem_idx q)))"

definition update_head :: "(queue_entry \<Rightarrow> queue_entry) \<Rightarrow> retune_queue \<Rightarrow> retune_queue" where
  \<comment> \<open>writes through the pointer that \<^verbatim>\<open>peek_next_retune\<close> returns\<close>
  "update_head g q = q\<lparr>entries := (entries q)[unat (rem_idx q) := g (entries q ! unat (rem_idx q))]\<rparr>"

definition reset_queue :: "retune_queue \<Rightarrow> retune_queue" where
  "reset_queue q =
     q\<lparr>q_count := 0, entries := map (\<lambda>e. e\<lparr>e_state := ENTRY_STATE_INVALID\<rparr>) (entries q),
       rem_idx := 0, ins_idx := 0, clear_requested := False, clear_complete := False,
       clear_cancel_pending := False, clear_cancel_recovery_seen := False\<rparr>"

section \<open>Operations on a queue and the device\<close>

definition on_dev :: "('d, 'a) io \<Rightarrow> ('q \<times> 'd, 'a) io" where
  "on_dev act = (\<lambda>(q, s). case act s of (r, s') \<Rightarrow> (r, (q, s')))"

definition on_queue :: "('q \<Rightarrow> 'q) \<Rightarrow> ('q \<times> 'd, unit) io" where
  "on_queue g = (\<lambda>(q, s). (Ok (), (g q, s)))"

definition look :: "('q \<Rightarrow> 'a) \<Rightarrow> ('q \<times> 'd, 'a) io" where
  "look g = (\<lambda>(q, s). (Ok (g q), (q, s)))"

definition set_state :: "entry_state \<Rightarrow> (retune_queue \<times> 'd, unit) io" where
  "set_state st = on_queue (update_head (e_state_update (\<lambda>_. st)))"

definition head_state :: "(retune_queue \<times> 'd, entry_state) io" where
  \<comment> \<open>\<^verbatim>\<open>e->state\<close>, read again because the interrupt may have changed it\<close>
  "head_state = look (\<lambda>q. e_state (entries q ! unat (rem_idx q)))"

definition to_cancel_pending :: "(retune_queue \<times> 'd, unit) io" where
  \<comment> \<open>a failed schedule keeps the timer until its cancellation is acknowledged\<close>
  "to_cancel_pending = on_queue (update_head (\<lambda>e. e\<lparr>e_state := ENTRY_STATE_CANCEL_PENDING,
       cancel_recovery_seen := False, cancel_request_pending := False\<rparr>))"

definition retune_isr :: "'m bus_fns \<Rightarrow> bladerf_module \<Rightarrow> (retune_queue \<times> 'm nios, unit) io" where
  "retune_isr b m =
     seq (look clear_requested) (\<lambda>clear.
     if clear then ret ()
     else seq (look peek_next_retune) (\<lambda>e.
       case e of
         None \<Rightarrow> ret ()
       | Some e \<Rightarrow>
           if e_state e = ENTRY_STATE_SCHEDULE_PENDING \<or> e_state e = ENTRY_STATE_SCHEDULED
           then seq (on_dev (tamer_compare_fired b m)) (\<lambda>fired.
                when_io fired (set_state ENTRY_STATE_READY))
           else ret ()))"

definition retune_interrupt ::
    "'m bus_fns \<Rightarrow> bladerf_module \<Rightarrow> (retune_queue \<times> 'm nios, unit) io" where
  \<comment> \<open>\<^verbatim>\<open>retune_rx\<close> and \<^verbatim>\<open>retune_tx\<close>\<close>
  "retune_interrupt b m =
     seq (retune_isr b m) (\<lambda>_. on_dev (timer_tamer_clear_interrupt b m))"

definition pre_io :: "'m bus_fns \<Rightarrow> (nat \<Rightarrow> bool) \<Rightarrow> nat \<Rightarrow> bladerf_module \<Rightarrow>
    (retune_queue \<times> 'm nios, unit) io" where
  \<comment> \<open>a point where the interrupt may preempt the worker\<close>
  "pre_io b irq i m = when_io (irq i) (retune_interrupt b m)"

section \<open>Clearing a queue\<close>

definition q_cancel_request ::
    "'m bus_fns \<Rightarrow> bladerf_module \<Rightarrow> (retune_queue \<times> 'm nios, bool) io" where
  \<comment> \<open>\<^verbatim>\<open>tamer_cancel_request(module, &q->clear_cancel_ack_before)\<close>\<close>
  "q_cancel_request b m =
     seq (on_dev (tamer_cancel_request b m)) (\<lambda>r.
     case r of
       None \<Rightarrow> ret False
     | Some ack \<Rightarrow> seq (on_queue (clear_cancel_ack_before_update (\<lambda>_. ack))) (\<lambda>_. ret True))"

definition e_cancel_request ::
    "'m bus_fns \<Rightarrow> bladerf_module \<Rightarrow> (retune_queue \<times> 'm nios, bool) io" where
  \<comment> \<open>\<^verbatim>\<open>tamer_cancel_request(module, &e->cancel_ack_before)\<close>\<close>
  "e_cancel_request b m =
     seq (on_dev (tamer_cancel_request b m)) (\<lambda>r.
     case r of
       None \<Rightarrow> ret False
     | Some ack \<Rightarrow> seq (on_queue (update_head (cancel_ack_before_update (\<lambda>_. ack)))) (\<lambda>_. ret True))"

abbreviation (input) set_clear_flags :: "bool \<Rightarrow> bool \<Rightarrow> retune_queue \<Rightarrow> retune_queue" where
  "set_clear_flags pending seen q \<equiv>
     q\<lparr>clear_cancel_pending := pending, clear_cancel_recovery_seen := seen\<rparr>"

abbreviation (input) set_cancel_flags :: "bool \<Rightarrow> bool \<Rightarrow> queue_entry \<Rightarrow> queue_entry" where
  "set_cancel_flags pending seen e \<equiv>
     e\<lparr>cancel_request_pending := pending, cancel_recovery_seen := seen\<rparr>"

definition clear_again ::
    "'m bus_fns \<Rightarrow> bladerf_module \<Rightarrow> (retune_queue \<times> 'm nios, bool) io" where
  \<comment> \<open>\<^verbatim>\<open>clear_queue_async\<close> while a clear is under way; returns \<^verbatim>\<open>*cancel_failed\<close>\<close>
  "clear_again b m =
     seq (look peek_next_retune) (\<lambda>e.
     seq (on_dev (tamer_clock_stalled b m)) (\<lambda>stalled.
     if stalled then ret True
     else
       seq (on_dev (tamer_cancel_failed b m)) (\<lambda>failed.
       if failed then
         (case e of
            None \<Rightarrow> seq (q_cancel_request b m) (\<lambda>ok.
                    seq (when_io ok (on_queue (set_clear_flags True True))) (\<lambda>_. ret True))
          | Some _ \<Rightarrow> seq (e_cancel_request b m) (\<lambda>ok.
                    seq (when_io ok (on_queue (update_head (set_cancel_flags True True)))) (\<lambda>_.
                    ret True)))
       else
         seq (look (\<lambda>q. q)) (\<lambda>q.
         case e of
           None \<Rightarrow>
             if \<not> clear_cancel_pending q \<and> clear_cancel_recovery_seen q
             then seq (q_cancel_request b m) (\<lambda>ok.
                  seq (when_io ok (on_queue (clear_cancel_pending_update (\<lambda>_. True)))) (\<lambda>_.
                  ret False))
             else ret False
         | Some e \<Rightarrow>
             if e_state e = ENTRY_STATE_CANCEL_PENDING \<and> \<not> cancel_request_pending e \<and>
                cancel_recovery_seen e
             then seq (e_cancel_request b m) (\<lambda>ok.
                  seq (when_io ok
                        (on_queue (update_head (cancel_request_pending_update (\<lambda>_. True))))) (\<lambda>_.
                  ret False))
             else ret False))))"

definition clear_start_empty ::
    "'m bus_fns \<Rightarrow> bladerf_module \<Rightarrow> (retune_queue \<times> 'm nios, bool) io" where
  "clear_start_empty b m =
     seq (on_queue (set_clear_flags False False)) (\<lambda>_.
     seq (on_dev (tamer_clock_stalled b m)) (\<lambda>stalled.
     if stalled then ret True
     else
       seq (on_dev (tamer_cancel_failed b m)) (\<lambda>failed.
       seq (q_cancel_request b m) (\<lambda>ok.
       seq (when_io ok (on_queue (set_clear_flags True True))) (\<lambda>_. ret failed)))))"

definition clear_cancel_head ::
    "'m bus_fns \<Rightarrow> bladerf_module \<Rightarrow> (retune_queue \<times> 'm nios, bool) io" where
  \<comment> \<open>the first cancel request for the head of a queue to be cleared\<close>
  "clear_cancel_head b m =
     seq (on_dev (tamer_clock_stalled b m)) (\<lambda>stalled.
     if stalled then ret True
     else
       seq (on_dev (tamer_cancel_failed b m)) (\<lambda>failed.
       if failed then
         seq (e_cancel_request b m) (\<lambda>ok.
         seq (when_io ok (on_queue (update_head (set_cancel_flags True True)))) (\<lambda>_. ret True))
       else
         seq (look (\<lambda>q. cancel_request_pending (entries q ! unat (rem_idx q)))) (\<lambda>pending.
         if pending then ret False
         else
           seq (on_queue (update_head (cancel_recovery_seen_update (\<lambda>_. True)))) (\<lambda>_.
           seq (e_cancel_request b m) (\<lambda>ok.
           seq (on_queue (update_head
                  (if ok then cancel_request_pending_update (\<lambda>_. True)
                   else cancel_recovery_seen_update (\<lambda>_. False)))) (\<lambda>_.
           ret False))))))"

definition clear_start_head ::
    "'m bus_fns \<Rightarrow> bladerf_module \<Rightarrow> queue_entry \<Rightarrow> (retune_queue \<times> 'm nios, bool) io" where
  "clear_start_head b m e =
     seq (when_io (e_state e \<noteq> ENTRY_STATE_CANCEL_PENDING) to_cancel_pending) (\<lambda>_.
     clear_cancel_head b m)"

definition clear_queue_async ::
    "'m bus_fns \<Rightarrow> bladerf_module \<Rightarrow> (retune_queue \<times> 'm nios, bool \<times> bool) io" where
  \<comment> \<open>the result and \<^verbatim>\<open>*cancel_failed\<close>\<close>
  "clear_queue_async b m =
     seq (look peek_next_retune) (\<lambda>e.
     seq (look (\<lambda>q. (clear_complete q, clear_requested q))) (\<lambda>(complete, requested).
     if complete then
       seq (on_queue (clear_complete_update (\<lambda>_. False))) (\<lambda>_. ret (True, False))
     else if requested then
       seq (clear_again b m) (\<lambda>failed. ret (False, failed))
     else
       seq (on_queue (clear_requested_update (\<lambda>_. True))) (\<lambda>_.
       seq (case e of None \<Rightarrow> clear_start_empty b m | Some e \<Rightarrow> clear_start_head b m e)
           (\<lambda>failed. ret (False, failed)))))"

section \<open>Performing a retune\<close>

definition fw_lms :: "'m bus_fns \<Rightarrow> 'm nios lms_backend" where
  \<comment> \<open>\<^verbatim>\<open>LMS_READ\<close> and \<^verbatim>\<open>LMS_WRITE\<close> of the firmware build; their failure is \<^verbatim>\<open>-1\<close>\<close>
  "fw_lms b =
     \<lparr>lms_read = (\<lambda>a s. case lms6_read b a 0 s of
         ((ok, v), s1) \<Rightarrow> (if ok then Ok v else Err BLADERF_ERR_UNEXPECTED, s1)),
      lms_write = (\<lambda>a v s. case lms6_write b a v s of
         (ok, s1) \<Rightarrow> (if ok then Ok () else Err BLADERF_ERR_UNEXPECTED, s1))\<rparr>"

definition band_select ::
    "'s lms_backend \<Rightarrow> ('s, u32) io \<Rightarrow> (u32 \<Rightarrow> ('s, unit) io) \<Rightarrow> bladerf_module \<Rightarrow> bool \<Rightarrow>
     ('s, unit) io" where
  \<comment> \<open>over the backend's configuration GPIO access\<close>
  "band_select dev gpio_read gpio_write md low_band =
     (let band = (if low_band then 2 else 1) in
      seq (lms_select_band dev md low_band) (\<lambda>_.
      seq gpio_read (\<lambda>gpio.
        let sh = (if md = BLADERF_MODULE_TX then 3 else 5);
            gpio = gpio AND NOT (push_bit sh 3) in
        gpio_write (gpio OR push_bit sh band))))"

definition fw_band_select :: "'m bus_fns \<Rightarrow> bladerf_module \<Rightarrow> bool \<Rightarrow> ('m nios, unit) io" where
  \<comment> \<open>with \<^verbatim>\<open>CONFIG_GPIO_READ\<close> and \<^verbatim>\<open>CONFIG_GPIO_WRITE\<close> of the firmware build\<close>
  "fw_band_select b =
     band_select (fw_lms b)
       (\<lambda>s. case control_reg_read b s of (v, s1) \<Rightarrow> (Ok v, s1))
       (\<lambda>v s. case control_reg_write b v s of
          (ok, s1) \<Rightarrow> (if ok then Ok () else Err BLADERF_ERR_UNEXPECTED, s1))"

definition xb_config :: "'m bus_fns \<Rightarrow> u8 \<Rightarrow> ('m nios, bool) io" where
  "xb_config b gpio s = (case xb_config_write b gpio s of (ok, s1) \<Rightarrow> (Ok ok, s1))"

definition retune_now :: "'m bus_fns \<Rightarrow> bladerf_module \<Rightarrow> lms_freq \<Rightarrow> ('m nios, unit) io" where
  \<comment> \<open>the \<^verbatim>\<open>ENTRY_STATE_READY\<close> work: failures are counted and the entry is dropped anyway\<close>
  "retune_now b m f =
     attempt (lms_set_precalculated_frequency (fw_lms b) True m f) (\<lambda>r.
     case r of
       Ok _ \<Rightarrow>
         attempt (fw_band_select b m (flags f AND LMS_FREQ_FLAGS_LOW_BAND \<noteq> 0)) (\<lambda>_.
         seq (xb_config b (xb_gpio f)) (\<lambda>_. ret ()))
     | _ \<Rightarrow> ret ())"

section \<open>The worker\<close>

type_synonym 'm rt_io = "(retune_queue \<times> 'm nios, unit) io"

definition work_clear :: "'m bus_fns \<Rightarrow> bladerf_module \<Rightarrow> 'm rt_io" where
  \<comment> \<open>\<^verbatim>\<open>perform_work\<close> on an empty queue\<close>
  "work_clear b m =
     seq (look (\<lambda>q. q)) (\<lambda>q.
     if \<not> clear_requested q then ret ()
     else if clear_cancel_pending q then
       seq (on_dev (tamer_clock_stalled b m)) (\<lambda>stalled.
       if stalled then on_queue (set_clear_flags False False)
       else
         seq (on_dev (tamer_cancel_acknowledged b m (clear_cancel_ack_before q))) (\<lambda>acked.
         if acked then on_queue (\<lambda>q. q\<lparr>clear_cancel_pending := False, clear_requested := False,
                                        clear_complete := True\<rparr>)
         else
           seq (on_dev (tamer_cancel_failed b m)) (\<lambda>failed.
           when_io failed (on_queue (set_clear_flags False True)))))
     else
       seq (on_dev (tamer_clock_stalled b m)) (\<lambda>stalled.
       if \<not> stalled \<and> \<not> clear_cancel_recovery_seen q then
         seq (on_queue (clear_cancel_recovery_seen_update (\<lambda>_. True))) (\<lambda>_.
         seq (q_cancel_request b m) (\<lambda>ok.
         on_queue (if ok then clear_cancel_pending_update (\<lambda>_. True)
                   else clear_cancel_recovery_seen_update (\<lambda>_. False))))
       else
         seq (on_dev (tamer_clock_stalled b m)) (\<lambda>stalled.
         when_io stalled (on_queue (clear_cancel_recovery_seen_update (\<lambda>_. False))))))"

definition publish_scheduled :: "'m bus_fns \<Rightarrow> (nat \<Rightarrow> bool) \<Rightarrow> bladerf_module \<Rightarrow> 'm rt_io" where
  \<comment> \<open>the acknowledged schedule is published and the sticky event checked once more\<close>
  "publish_scheduled b irq m =
     seq (set_state ENTRY_STATE_SCHEDULED) (\<lambda>_.
     seq (pre_io b irq 6 m) (\<lambda>_.
     seq (on_dev (tamer_compare_fired b m)) (\<lambda>fired.
     seq (pre_io b irq 7 m) (\<lambda>_.
     when_io fired (set_state ENTRY_STATE_READY)))))"

definition work_new :: "'m bus_fns \<Rightarrow> (nat \<Rightarrow> bool) \<Rightarrow> bladerf_module \<Rightarrow> u64 \<Rightarrow> 'm rt_io" where
  "work_new b irq m timestamp =
     seq (set_state ENTRY_STATE_SCHEDULE_PENDING) (\<lambda>_.
     seq (pre_io b irq 1 m) (\<lambda>_.
     seq (on_dev (tamer_schedule_request b m timestamp)) (\<lambda>armed.
     seq (pre_io b irq 2 m) (\<lambda>_.
     if armed then
       seq (on_dev (tamer_schedule_failed b m)) (\<lambda>failed.
       seq (pre_io b irq 3 m) (\<lambda>_.
       if failed then to_cancel_pending
       else
         seq head_state (\<lambda>st.
         seq (pre_io b irq 4 m) (\<lambda>_.
         if st = ENTRY_STATE_SCHEDULE_PENDING then
           seq (on_dev (tamer_schedule_acknowledged b m)) (\<lambda>acked.
           seq (pre_io b irq 5 m) (\<lambda>_.
           when_io acked (publish_scheduled b irq m)))
         else ret ()))))
     else to_cancel_pending))))"

definition work_schedule_pending :: "'m bus_fns \<Rightarrow> (nat \<Rightarrow> bool) \<Rightarrow> bladerf_module \<Rightarrow> 'm rt_io" where
  "work_schedule_pending b irq m =
     seq (on_dev (tamer_schedule_failed b m)) (\<lambda>failed.
     seq (pre_io b irq 1 m) (\<lambda>_.
     if failed then to_cancel_pending
     else
       seq (on_dev (tamer_schedule_acknowledged b m)) (\<lambda>acked.
       seq (pre_io b irq 2 m) (\<lambda>_.
       if acked then
         seq head_state (\<lambda>st.
         seq (pre_io b irq 3 m) (\<lambda>_.
         when_io (st = ENTRY_STATE_SCHEDULE_PENDING) (publish_scheduled b irq m)))
       else
         seq (on_dev (tamer_clock_stalled b m)) (\<lambda>stalled.
         seq (pre_io b irq 4 m) (\<lambda>_.
         when_io stalled to_cancel_pending))))))"

definition work_scheduled :: "'m bus_fns \<Rightarrow> (nat \<Rightarrow> bool) \<Rightarrow> bladerf_module \<Rightarrow> 'm rt_io" where
  "work_scheduled b irq m =
     seq (on_dev (tamer_compare_fired b m)) (\<lambda>fired.
     seq (pre_io b irq 1 m) (\<lambda>_.
     if fired then set_state ENTRY_STATE_READY
     else
       seq (on_dev (tamer_clock_stalled b m)) (\<lambda>stalled.
       seq (pre_io b irq 2 m) (\<lambda>_.
       when_io stalled (on_queue (update_head (\<lambda>e. e\<lparr>e_state := ENTRY_STATE_CANCEL_PENDING,
                                                   cancel_recovery_seen := False\<rparr>)))))))"

definition work_cancel_pending :: "'m bus_fns \<Rightarrow> bladerf_module \<Rightarrow> queue_entry \<Rightarrow> 'm rt_io" where
  "work_cancel_pending b m e =
     seq (on_dev (tamer_clock_stalled b m)) (\<lambda>stalled.
     if stalled then on_queue (update_head (set_cancel_flags False False))
     else if cancel_request_pending e then
       seq (on_dev (tamer_cancel_acknowledged b m (cancel_ack_before e))) (\<lambda>acked.
       if acked then
         seq (look clear_requested) (\<lambda>clear.
         on_queue (if clear then (\<lambda>q. (reset_queue q)\<lparr>clear_complete := True\<rparr>)
                   else (\<lambda>q. snd (dequeue_retune q))))
       else
         seq (on_dev (tamer_cancel_failed b m)) (\<lambda>failed.
         when_io failed (on_queue (update_head (set_cancel_flags False True)))))
     else if \<not> cancel_recovery_seen e then
       seq (on_queue (update_head (cancel_recovery_seen_update (\<lambda>_. True)))) (\<lambda>_.
       seq (e_cancel_request b m) (\<lambda>ok.
       on_queue (update_head (if ok then cancel_request_pending_update (\<lambda>_. True)
                              else cancel_recovery_seen_update (\<lambda>_. False)))))
     else ret ())"

definition work_ready :: "'m bus_fns \<Rightarrow> bladerf_module \<Rightarrow> queue_entry \<Rightarrow> 'm rt_io" where
  "work_ready b m e =
     seq (on_dev (retune_now b m (e_freq e))) (\<lambda>_.
     on_queue (\<lambda>q. snd (dequeue_retune q)))"

definition perform_work :: "'m bus_fns \<Rightarrow> (nat \<Rightarrow> bool) \<Rightarrow> bladerf_module \<Rightarrow> 'm rt_io" where
  "perform_work b irq m =
     seq (look peek_next_retune) (\<lambda>e.
     case e of
       None \<Rightarrow> work_clear b m
     | Some e \<Rightarrow>
         (case e_state e of
            ENTRY_STATE_NEW \<Rightarrow> work_new b irq m (e_timestamp e)
          | ENTRY_STATE_SCHEDULE_PENDING \<Rightarrow> work_schedule_pending b irq m
          | ENTRY_STATE_SCHEDULED \<Rightarrow> work_scheduled b irq m
          | ENTRY_STATE_CANCEL_PENDING \<Rightarrow> work_cancel_pending b m e
          | ENTRY_STATE_READY \<Rightarrow> work_ready b m e
          | ENTRY_STATE_INVALID \<Rightarrow> ret ()))"

section \<open>The packet handler\<close>

record retune_queues =
  rx_queue :: retune_queue
  tx_queue :: retune_queue

definition queue_of :: "bladerf_module \<Rightarrow> retune_queues \<Rightarrow> retune_queue" where
  "queue_of m qs = (case m of BLADERF_MODULE_RX \<Rightarrow> rx_queue qs | BLADERF_MODULE_TX \<Rightarrow> tx_queue qs)"

definition set_queue :: "bladerf_module \<Rightarrow> retune_queue \<Rightarrow> retune_queues \<Rightarrow> retune_queues" where
  "set_queue m q qs =
     (case m of BLADERF_MODULE_RX \<Rightarrow> qs\<lparr>rx_queue := q\<rparr> | BLADERF_MODULE_TX \<Rightarrow> qs\<lparr>tx_queue := q\<rparr>)"

definition with_queue ::
    "bladerf_module \<Rightarrow> (retune_queue \<times> 'd, 'a) io \<Rightarrow> (retune_queues \<times> 'd, 'a) io" where
  "with_queue m act =
     (\<lambda>(qs, s). case act (queue_of m qs, s) of (r, (q, s')) \<Rightarrow> (r, (set_queue m q qs, s')))"

definition pkt_retune_work ::
    "'m bus_fns \<Rightarrow> (nat \<Rightarrow> bool) \<Rightarrow> (nat \<Rightarrow> bool) \<Rightarrow> (retune_queues \<times> 'm nios, unit) io" where
  "pkt_retune_work b irq_rx irq_tx =
     seq (with_queue BLADERF_MODULE_RX (perform_work b irq_rx BLADERF_MODULE_RX)) (\<lambda>_.
     with_queue BLADERF_MODULE_TX (perform_work b irq_tx BLADERF_MODULE_TX))"

definition pkt_retune_init :: "retune_queues \<Rightarrow> retune_queues" where
  "pkt_retune_init qs =
     \<lparr>rx_queue = reset_queue (rx_queue qs), tx_queue = reset_queue (tx_queue qs)\<rparr>"

definition tamer_time :: "'m bus_fns \<Rightarrow> bladerf_module \<Rightarrow> ('m nios, u64 option) io" where
  "tamer_time b m s =
     (case time_tamer_read b m 0 s of ((ok, t), s1) \<Rightarrow> (Ok (if ok then Some t else None), s1))"

definition request_freq :: "u8 \<Rightarrow> retune_request \<Rightarrow> lms_freq" where
  \<comment> \<open>\<^verbatim>\<open>struct lms_freq f\<close> of \<^verbatim>\<open>pkt_retune\<close>; its \<^verbatim>\<open>xb_gpio\<close> is never assigned and holds \<open>junk\<close>\<close>
  "request_freq junk rq =
     \<lparr>freqsel = rq_freqsel rq, vcocap = rq_vcocap rq, nint = rq_nint rq, nfrac = rq_nfrac rq,
      flags = (if rq_low_band rq then LMS_FREQ_FLAGS_LOW_BAND else 0) OR
              (if rq_quick_tune rq then LMS_FREQ_FLAGS_FORCE_VCOCAP else 0),
      xb_gpio = junk, vco_x = 0, vcocap_result = 0xff\<rparr>"

definition retune_immediately ::
    "'m bus_fns \<Rightarrow> u8 \<Rightarrow> bladerf_module \<Rightarrow> retune_request \<Rightarrow> lms_freq \<Rightarrow>
     ('m nios, bool \<times> u8 \<times> u8) io" where
  \<comment> \<open>the \<^verbatim>\<open>NIOS_PKT_RETUNE_NOW\<close> branch: \<^verbatim>\<open>status == 0\<close>, the extra flags and
      \<^verbatim>\<open>f.vcocap_result\<close>, for which \<open>cap\<close> is what a failed tuning leaves\<close>
  "retune_immediately b cap m rq f =
     attempt (lms_set_precalculated_frequency (fw_lms b) True m f) (\<lambda>r.
     case r of
       Ok f' \<Rightarrow>
         attempt (fw_band_select b m (rq_low_band rq)) (\<lambda>r2.
         case r2 of
           Ok _ \<Rightarrow> seq (xb_config b (rq_xb_gpio rq)) (\<lambda>ok. ret (ok, 0x01, vcocap_result f'))
         | _ \<Rightarrow> ret (False, 0x01, vcocap_result f'))
     | _ \<Rightarrow> ret (False, 0, cap))"

definition pkt_retune ::
    "'m bus_fns \<Rightarrow> u8 \<Rightarrow> u8 \<Rightarrow> u8 list \<Rightarrow> (retune_queues \<times> 'm nios, u8 list) io" where
  "pkt_retune b junk cap req =
     (let rq = nios_pkt_retune_unpack req; f = request_freq junk rq; ts = rq_timestamp rq;
          answer = (\<lambda>ok fl duration cap. ret (nios_pkt_retune_resp_pack duration cap
                      ((if ok then 0x02 else 0) OR fl))) in
      if ts = RETUNE_NOW then
        (case rq_module rq of
           None \<Rightarrow> answer False 0 0 0xff
         | Some m \<Rightarrow> seq (on_dev (retune_immediately b cap m rq f)) (\<lambda>(ok, fl, cap). answer ok fl 0 cap))
      else if ts = RETUNE_CLEAR_QUEUE then
        (case rq_module rq of
           None \<Rightarrow> answer False 0 0 0xff
         | Some m \<Rightarrow>
             seq (with_queue m (clear_queue_async b m)) (\<lambda>(ok, failed).
             answer ok (if ok then 0 else if failed then 0x04 else 0x08) 0 0xff))
      else
        (case rq_module rq of
           None \<Rightarrow> answer False 0 0 0xff
         | Some m \<Rightarrow>
             seq (on_dev (tamer_time b m)) (\<lambda>start.
             case start of
               None \<Rightarrow> answer False 0 0 0xff
             | Some t0 \<Rightarrow>
                 seq (with_queue m (\<lambda>(q, s). case enqueue_retune q f ts of
                        (queue_size, q') \<Rightarrow> (Ok queue_size, (q', s)))) (\<lambda>queue_size.
                 seq (on_dev (tamer_time b m)) (\<lambda>t1.
                 answer (queue_size \<noteq> QUEUE_FULL) 0
                   (case t1 of None \<Rightarrow> 0 | Some t \<Rightarrow> t - t0) 0xff)))))"

end
