(* ===== verification/Retune_Queue.thy ===== *)
theory Retune_Queue
  imports Nios_Retune
begin

unbundle bit_operations_syntax

text \<open>
  Correctness of the retune queues. The ring of sixteen entries implements a FIFO (the contract
  \<open>fifo\<close>, interpreted on \<^verbatim>\<open>peek_next_retune\<close>, \<^verbatim>\<open>dequeue_retune\<close> and the updates of the head). An
  execution of a queue interleaves requests, rounds of the worker, interrupts and clear requests
  in any order, with arbitrary behaviour of the hardware; its invariant and the order in which
  retunes are performed are proved by rule induction.
\<close>

section \<open>The FIFO contract\<close>

locale fifo =
  fixes good :: "'q \<Rightarrow> bool" and items :: "'q \<Rightarrow> 'e list" and front :: "'q \<Rightarrow> 'e option"
    and change :: "('e \<Rightarrow> 'e) \<Rightarrow> 'q \<Rightarrow> 'q" and drop_front :: "'q \<Rightarrow> 'q"
  assumes front_items: "good q \<Longrightarrow> front q = (case items q of [] \<Rightarrow> None | e # _ \<Rightarrow> Some e)"
    and good_change: "good q \<Longrightarrow> items q \<noteq> [] \<Longrightarrow> good (change g q)"
    and items_change: "good q \<Longrightarrow> items q = e # es \<Longrightarrow> items (change g q) = g e # es"
    and good_drop: "good q \<Longrightarrow> items q \<noteq> [] \<Longrightarrow> good (drop_front q)"
    and items_drop: "good q \<Longrightarrow> items q = e # es \<Longrightarrow> items (drop_front q) = es"
begin

lemma front_None: "good q \<Longrightarrow> front q = None \<longleftrightarrow> items q = []"
  by (simp add: front_items split: list.split)

lemma front_Some: "good q \<Longrightarrow> front q = Some e \<longleftrightarrow> (\<exists>es. items q = e # es)"
  by (auto simp: front_items split: list.split)

lemma map_change:
  assumes "good q" "\<And>e. h (g e) = h e"
  shows "items q \<noteq> [] \<Longrightarrow> map h (items (change g q)) = map h (items q)"
  using assms items_change by (cases "items q") auto

lemma tl_change: "good q \<Longrightarrow> items q \<noteq> [] \<Longrightarrow> tl (items (change g q)) = tl (items q)"
  using items_change by (cases "items q") auto

lemma hd_change: "good q \<Longrightarrow> items q \<noteq> [] \<Longrightarrow> hd (items (change g q)) = g (hd (items q))"
  using items_change by (cases "items q") auto

lemma change_nonempty: "good q \<Longrightarrow> items q \<noteq> [] \<Longrightarrow> items (change g q) \<noteq> []"
  using items_change by (cases "items q") auto

lemma drop_tl: "good q \<Longrightarrow> items q \<noteq> [] \<Longrightarrow> items (drop_front q) = tl (items q)"
  using items_drop by (cases "items q") auto

end

section \<open>The ring implements it\<close>

definition ring_ok :: "retune_queue \<Rightarrow> bool" where
  "ring_ok q \<longleftrightarrow>
     length (entries q) = 16 \<and> unat (q_count q) \<le> 16 \<and> unat (rem_idx q) < 16 \<and>
     unat (ins_idx q) = (unat (rem_idx q) + unat (q_count q)) mod 16"

definition queue_list :: "retune_queue \<Rightarrow> queue_entry list" where
  "queue_list q =
     map (\<lambda>i. entries q ! ((unat (rem_idx q) + i) mod 16)) [0..<unat (q_count q)]"

lemma length_queue_list [simp]: "length (queue_list q) = unat (q_count q)"
  by (simp add: queue_list_def)

lemma queue_list_Nil: "queue_list q = [] \<longleftrightarrow> q_count q = 0"
  by (metis length_0_conv length_queue_list unat_eq_zero unsigned_0)

lemma next_idx:
  assumes "unat (i :: u8) < 16"
  shows "unat ((i + 1) AND (RETUNE_QUEUE_MAX - 1)) = (unat i + 1) mod 16"
proof -
  have "(i + 1) AND (RETUNE_QUEUE_MAX - 1) = take_bit 4 (i + 1)"
    by (simp add: RETUNE_QUEUE_MAX_def take_bit_eq_mask mask_eq_exp_minus_1)
  moreover have "unat (i + 1) = unat i + 1" using assms by (simp add: unat_word_ariths)
  ultimately show ?thesis
    by (simp only: unsigned_take_bit_eq) (simp add: take_bit_eq_mod)
qed

lemma queue_list_drop:
  assumes "ring_ok q" "q_count q \<noteq> 0"
  shows "ring_ok (snd (dequeue_retune q)) \<and> queue_list (snd (dequeue_retune q)) = tl (queue_list q)"
proof -
  define c r where "c = unat (q_count q)" and "r = unat (rem_idx q)"
  have c: "0 < c" "unat (q_count q - 1) = c - 1"
    using assms(2) by (simp_all add: c_def unat_gt_0 unat_minus_one)
  have r: "r < 16" "unat ((rem_idx q + 1) AND (RETUNE_QUEUE_MAX - 1)) = (r + 1) mod 16"
    using assms(1) next_idx by (simp_all add: ring_ok_def r_def)
  let ?q = "snd (dequeue_retune q)"
  have q: "entries ?q = entries q" "unat (q_count ?q) = c - 1" "unat (rem_idx ?q) = (r + 1) mod 16"
      "ins_idx ?q = ins_idx q"
    using assms(2) c r by (simp_all add: dequeue_retune_def)
  have "ring_ok ?q"
  proof -
    obtain k where k: "c = Suc k" using c(1) by (cases c) auto
    then have "(r + c) mod 16 = ((r + 1) mod 16 + (c - 1)) mod 16" by (simp add: mod_add_left_eq)
    moreover have "length (entries q) = 16" "c \<le> 16" "unat (ins_idx q) = (r + c) mod 16"
      using assms(1) by (simp_all add: ring_ok_def c_def r_def)
    ultimately show ?thesis unfolding ring_ok_def q by simp
  qed
  moreover have "queue_list ?q = tl (queue_list q)"
    unfolding queue_list_def q c_def [symmetric] r_def [symmetric]
    by (rule nth_equalityI) (auto simp: nth_tl c_def mod_add_left_eq)
  ultimately show ?thesis by blast
qed

lemma update_head_ring:
  assumes "ring_ok q"
  shows "ring_ok (update_head g q)" "q_count (update_head g q) = q_count q"
    "queue_list q = e # es \<Longrightarrow> queue_list (update_head g q) = g e # es"
proof -
  let ?r = "unat (rem_idx q)"
  have r: "?r < 16" "length (entries q) = 16" using assms by (simp_all add: ring_ok_def)
  show "ring_ok (update_head g q)" "q_count (update_head g q) = q_count q"
    using assms by (simp_all add: ring_ok_def update_head_def)
  show "queue_list (update_head g q) = g e # es" if l: "queue_list q = e # es"
  proof (rule nth_equalityI)
    have n: "unat (q_count q) = Suc (length es)" "unat (q_count q) \<le> 16"
      using arg_cong [OF l, of length] assms by (simp_all add: ring_ok_def)
    show "length (queue_list (update_head g q)) = length (g e # es)"
      using n by (simp add: update_head_def)
    fix i assume "i < length (queue_list (update_head g q))"
    then have i: "i < unat (q_count q)" by (simp add: update_head_def)
    have qi: "queue_list q ! i = entries q ! ((?r + i) mod 16)" using i by (simp add: queue_list_def)
    have "queue_list (update_head g q) ! i =
        (entries q)[?r := g (entries q ! ?r)] ! ((?r + i) mod 16)"
      using i by (simp add: queue_list_def update_head_def)
    also have "\<dots> = (g e # es) ! i"
    proof (cases i)
      case 0
      then show ?thesis using r qi l by (simp add: mod_less)
    next
      case (Suc k)
      have "(?r + i) mod 16 \<noteq> ?r" using i n(2) r(1) Suc by (auto simp: mod_if)
      then show ?thesis using qi l Suc by (simp add: nth_list_update)
    qed
    finally show "queue_list (update_head g q) ! i = (g e # es) ! i" .
  qed
qed

lemma peek_front: "ring_ok q \<Longrightarrow> peek_next_retune q = (case queue_list q of [] \<Rightarrow> None | e # _ \<Rightarrow> Some e)"
  by (auto simp: peek_next_retune_def queue_list_Nil ring_ok_def queue_list_def unat_gt_0
      upt_conv_Cons split: list.split)

interpretation rq: fifo ring_ok queue_list peek_next_retune update_head "\<lambda>q. snd (dequeue_retune q)"
proof
  fix q :: retune_queue and g e es assume ok: "ring_ok q"
  show "peek_next_retune q = (case queue_list q of [] \<Rightarrow> None | e # _ \<Rightarrow> Some e)"
    by (rule peek_front [OF ok])
  show "ring_ok (update_head g q)" by (rule update_head_ring(1) [OF ok])
  show "queue_list q = e # es \<Longrightarrow> queue_list (update_head g q) = g e # es"
    by (rule update_head_ring(3) [OF ok])
  show "queue_list q \<noteq> [] \<Longrightarrow> ring_ok (snd (dequeue_retune q))"
    using queue_list_drop [OF ok] by (simp add: queue_list_Nil)
  show "queue_list q = e # es \<Longrightarrow> queue_list (snd (dequeue_retune q)) = es"
    using queue_list_drop [OF ok] by (metis list.distinct(1) list.sel(3) queue_list_Nil)
qed

lemma rem_in_bounds: "ring_ok q \<Longrightarrow> unat (rem_idx q) < length (entries q)"
  by (simp add: ring_ok_def)

lemma qhead_hd:
  assumes "ring_ok q" "queue_list q \<noteq> []"
  shows "entries q ! unat (rem_idx q) = hd (queue_list q)"
  using assms peek_front [OF assms(1)] by (auto simp: peek_next_retune_def queue_list_Nil split: list.splits)

type_synonym job = "lms_freq \<times> u64"

definition job_of :: "queue_entry \<Rightarrow> job" where
  "job_of e = (e_freq e, e_timestamp e)"

definition jobs :: "retune_queue \<Rightarrow> job list" where
  "jobs q = map job_of (queue_list q)"

lemma ring_ok_fields [simp]:
  "ring_ok (clear_requested_update g1 q) = ring_ok q" "ring_ok (clear_complete_update g1 q) = ring_ok q"
  "ring_ok (clear_cancel_pending_update g1 q) = ring_ok q"
  "ring_ok (clear_cancel_recovery_seen_update g1 q) = ring_ok q"
  "ring_ok (clear_cancel_ack_before_update g2 q) = ring_ok q"
  by (simp_all add: ring_ok_def)

lemma queue_list_fields [simp]:
  "queue_list (clear_requested_update g1 q) = queue_list q"
  "queue_list (clear_complete_update g1 q) = queue_list q"
  "queue_list (clear_cancel_pending_update g1 q) = queue_list q"
  "queue_list (clear_cancel_recovery_seen_update g1 q) = queue_list q"
  "queue_list (clear_cancel_ack_before_update g2 q) = queue_list q"
  by (simp_all add: queue_list_def)

lemma update_head_fields [simp]:
  "clear_requested (update_head g q) = clear_requested q"
  "clear_complete (update_head g q) = clear_complete q"
  "clear_cancel_pending (update_head g q) = clear_cancel_pending q"
  "clear_cancel_recovery_seen (update_head g q) = clear_cancel_recovery_seen q"
  by (simp_all add: update_head_def)

lemma dequeue_fields [simp]:
  "clear_requested (snd (dequeue_retune q)) = clear_requested q"
  "clear_complete (snd (dequeue_retune q)) = clear_complete q"
  "clear_cancel_pending (snd (dequeue_retune q)) = clear_cancel_pending q"
  by (simp_all add: dequeue_retune_def)

lemma reset_queue_ok [simp]:
  assumes "length (entries q) = 16"
  shows "ring_ok (reset_queue q)" "queue_list (reset_queue q) = []"
  using assms by (simp_all add: ring_ok_def reset_queue_def queue_list_def)

lemma enqueue_appends:
  assumes "ring_ok q" "enqueue_retune q f ts = (n, q')" "n \<noteq> QUEUE_FULL"
  shows "\<not> clear_requested q \<and> ring_ok q' \<and> clear_requested q' = clear_requested q \<and>
     \<not> clear_complete q' \<and> clear_cancel_pending q' = clear_cancel_pending q \<and>
     (\<exists>e. queue_list q' = queue_list q @ [e] \<and> job_of e = (f, ts) \<and> e_state e = ENTRY_STATE_NEW)"
proof -
  define c r where "c = unat (q_count q)" and "r = unat (rem_idx q)"
  have nf: "\<not> clear_requested q" "c < 16"
    using assms(2,3) by (auto simp: enqueue_retune_def Let_def RETUNE_QUEUE_MAX_def c_def
        word_le_nat_alt split: if_splits)
  have ok: "length (entries q) = 16" "r < 16" "unat (ins_idx q) = (r + c) mod 16"
    using assms(1) by (simp_all add: ring_ok_def c_def r_def)
  define e where "e = (entries q ! ((r + c) mod 16))\<lparr>e_freq := f, e_state := ENTRY_STATE_NEW,
      e_timestamp := ts, cancel_recovery_seen := False, cancel_request_pending := False\<rparr>"
  have q': "entries q' = (entries q)[(r + c) mod 16 := e]" "q_count q' = q_count q + 1"
      "rem_idx q' = rem_idx q" "ins_idx q' = (ins_idx q + 1) AND (RETUNE_QUEUE_MAX - 1)"
      "clear_requested q' = clear_requested q" "\<not> clear_complete q'"
      "clear_cancel_pending q' = clear_cancel_pending q"
    using assms(2,3) nf ok(3) by (auto simp: enqueue_retune_def Let_def e_def split: if_splits)
  have c': "unat (q_count q') = c + 1" using nf(2) q'(2) by (simp add: c_def unat_word_ariths)
  have "unat (ins_idx q') = (unat (ins_idx q) + 1) mod 16"
    unfolding q'(4) by (rule next_idx) (simp add: ok(3))
  then have "ring_ok q'"
    using ok nf(2) c' q'(1,3) by (simp add: ring_ok_def r_def mod_Suc_eq)
  moreover have "queue_list q' = queue_list q @ [e]"
  proof (rule nth_equalityI)
    show "length (queue_list q') = length (queue_list q @ [e])" using c' by (simp add: c_def)
    fix i assume "i < length (queue_list q')"
    then have i: "i < c + 1" using c' by simp
    have "queue_list q' ! i = (entries q)[(r + c) mod 16 := e] ! ((r + i) mod 16)"
      using i c' q'(1,3) by (simp add: queue_list_def r_def del: upt_Suc)
    also have "\<dots> = (queue_list q @ [e]) ! i"
    proof (cases "i = c")
      case True then show ?thesis using ok(1) by (simp add: nth_append c_def)
    next
      case False
      then have "(r + i) mod 16 \<noteq> (r + c) mod 16" using i nf(2) ok(2) by (auto simp: mod_if)
      then show ?thesis using i False
        by (simp add: nth_append nth_list_update queue_list_def c_def r_def)
    qed
    finally show "queue_list q' ! i = (queue_list q @ [e]) ! i" .
  qed
  moreover have "job_of e = (f, ts)" "e_state e = ENTRY_STATE_NEW"
    by (simp_all add: job_of_def e_def)
  ultimately show ?thesis using nf(1) q' by blast
qed

lemma enqueue_full:
  assumes "enqueue_retune q f ts = (n, q')" "n = QUEUE_FULL" "ring_ok q"
  shows "q' = q \<or> (\<not> clear_requested q \<and> q' = q\<lparr>clear_complete := False\<rparr>)"
proof -
  have "q_count q + 1 \<noteq> QUEUE_FULL"
  proof
    assume "q_count q + 1 = QUEUE_FULL"
    then have "unat (q_count q + 1) = 255" by (simp add: QUEUE_FULL_def)
    then show False using assms(3) by (simp add: ring_ok_def unat_word_ariths)
  qed
  then show ?thesis
    using assms(1,2) by (auto simp: enqueue_retune_def Let_def split: if_splits)
qed

section \<open>Invariant of a queue\<close>

definition queue_inv :: "retune_queue \<Rightarrow> bool" where
  \<comment> \<open>only the head is under way; a clear in progress owns the head or an empty queue\<close>
  "queue_inv q \<longleftrightarrow>
     ring_ok q \<and> (\<forall>e \<in> set (tl (queue_list q)). e_state e = ENTRY_STATE_NEW) \<and>
     (queue_list q \<noteq> [] \<longrightarrow>
        e_state (hd (queue_list q)) \<noteq> ENTRY_STATE_INVALID \<and> \<not> clear_complete q \<and>
        \<not> clear_cancel_pending q \<and>
        (clear_requested q \<longrightarrow> e_state (hd (queue_list q)) = ENTRY_STATE_CANCEL_PENDING)) \<and>
     (queue_list q = [] \<longrightarrow>
        \<not> (clear_complete q \<and> clear_requested q) \<and> (clear_cancel_pending q \<longrightarrow> clear_requested q))"

definition keeps :: "(retune_queue \<Rightarrow> bool) \<Rightarrow> (retune_queue \<times> 'd, 'a) io \<Rightarrow> bool" where
  \<comment> \<open>the queue predicate survives the action, whatever the device does\<close>
  "keeps J act \<longleftrightarrow> (\<forall>q s. J q \<longrightarrow> (case act (q, s) of (_, (q', _)) \<Rightarrow> J q'))"

named_theorems keeps_rules \<open>composition of preserved queue predicates\<close>

lemma keepsD: "keeps J act \<Longrightarrow> J q \<Longrightarrow> act (q, s) = (r, (q', s')) \<Longrightarrow> J q'"
  unfolding keeps_def by (metis (mono_tags, lifting) case_prod_conv)

lemma keeps_ret [keeps_rules]: "keeps J (ret x)" "keeps J (look g)" "keeps J (on_dev act)"
  by (auto simp: keeps_def ret_def look_def on_dev_def split: prod.split)

lemma keeps_on_queue: "(\<And>q. J q \<Longrightarrow> J (g q)) \<Longrightarrow> keeps J (on_queue g)"
  by (simp add: keeps_def on_queue_def)

lemma keeps_seq [keeps_rules]:
  assumes "keeps J act" "\<And>x. keeps J (k x)"
  shows "keeps J (seq act k)"
  unfolding keeps_def
proof (intro allI impI)
  fix q :: retune_queue and s assume J: "J q"
  obtain r q1 s1 where a: "act (q, s) = (r, (q1, s1))" by (metis surj_pair)
  have J1: "J q1" by (rule keepsD [OF assms(1) J a])
  show "case seq act k (q, s) of (_, (q', _)) \<Rightarrow> J q'"
  proof (cases r)
    case (Ok x)
    obtain r2 q2 s2 where b: "k x (q1, s1) = (r2, (q2, s2))" by (metis surj_pair)
    show ?thesis using keepsD [OF assms(2) J1 b] a b Ok by (simp add: iosimps)
  qed (use a J1 in \<open>simp_all add: iosimps\<close>)
qed

lemma keeps_if [keeps_rules]:
  "(b \<Longrightarrow> keeps J act) \<Longrightarrow> (\<not> b \<Longrightarrow> keeps J act') \<Longrightarrow> keeps J (if b then act else act')"
  by simp

lemma keeps_option [keeps_rules]:
  "(x = None \<Longrightarrow> keeps J act) \<Longrightarrow> (\<And>y. x = Some y \<Longrightarrow> keeps J (k y)) \<Longrightarrow>
   keeps J (case x of None \<Rightarrow> act | Some y \<Rightarrow> k y)"
  by (cases x) simp_all

definition under_way :: "job list \<Rightarrow> retune_queue \<Rightarrow> bool" where
  \<comment> \<open>a nonempty queue that is not being cleared\<close>
  "under_way js q \<longleftrightarrow> queue_inv q \<and> jobs q = js \<and> js \<noteq> [] \<and> \<not> clear_requested q"

definition being_cleared :: "job list \<Rightarrow> retune_queue \<Rightarrow> bool" where
  "being_cleared js q \<longleftrightarrow> queue_inv q \<and> jobs q = js \<and> js \<noteq> [] \<and> clear_requested q"

lemma jobs_update_head:
  assumes "ring_ok q" "queue_list q \<noteq> []" "\<And>e. job_of (g e) = job_of e"
  shows "jobs (update_head g q) = jobs q"
  unfolding jobs_def using rq.map_change [OF assms(1), of job_of g] assms by simp

lemma queue_inv_update_head:
  assumes "queue_inv q" "queue_list q \<noteq> []"
    and "\<not> clear_requested q \<Longrightarrow> e_state (g (hd (queue_list q))) \<noteq> ENTRY_STATE_INVALID"
    and "clear_requested q \<Longrightarrow> e_state (g (hd (queue_list q))) = ENTRY_STATE_CANCEL_PENDING"
  shows "queue_inv (update_head g q)"
proof -
  have ok: "ring_ok q" using assms(1) by (simp add: queue_inv_def)
  show ?thesis
    using assms
    by (cases "clear_requested q") (simp_all add: queue_inv_def rq.tl_change rq.hd_change
        update_head_ring(1) rq.change_nonempty)
qed

lemma under_way_update:
  assumes "under_way js q" "\<And>e. job_of (g e) = job_of e"
    and "e_state (g (hd (queue_list q))) \<noteq> ENTRY_STATE_INVALID"
  shows "under_way js (update_head g q)"
proof -
  have "queue_list q \<noteq> []" "ring_ok q" using assms(1) by (auto simp: under_way_def jobs_def queue_inv_def)
  then show ?thesis
    using assms jobs_update_head [of q g] queue_inv_update_head [of q g]
    by (simp add: under_way_def)
qed

lemma being_cleared_update:
  assumes "being_cleared js q" "\<And>e. job_of (g e) = job_of e" "\<And>e. e_state (g e) = e_state e"
  shows "being_cleared js (update_head g q)"
proof -
  have ne: "queue_list q \<noteq> []" "ring_ok q"
    using assms(1) by (auto simp: being_cleared_def jobs_def queue_inv_def)
  then have "e_state (g (hd (queue_list q))) = ENTRY_STATE_CANCEL_PENDING"
    using assms(1,3) by (simp add: being_cleared_def queue_inv_def)
  then show ?thesis
    using assms(1) ne jobs_update_head [OF ne(2,1) assms(2)] queue_inv_update_head [of q g]
    by (simp add: being_cleared_def)
qed

lemma keeps_under_way [keeps_rules]:
  "st \<noteq> ENTRY_STATE_INVALID \<Longrightarrow> keeps (under_way js) (set_state st)"
  "keeps (under_way js) to_cancel_pending"
  unfolding set_state_def to_cancel_pending_def
  by (rule keeps_on_queue; rule under_way_update; simp add: job_of_def)+

lemma keeps_interrupt [keeps_rules]:
  "keeps (under_way js) (retune_interrupt b m)" "keeps (under_way js) (pre_io b irq i m)"
  unfolding pre_io_def retune_interrupt_def retune_isr_def by (intro keeps_rules; simp)+

lemma keeps_work_new: "keeps (under_way js) (work_new b irq m ts)"
  unfolding work_new_def publish_scheduled_def head_state_def by (intro keeps_rules; simp)

lemma keeps_work_schedule_pending: "keeps (under_way js) (work_schedule_pending b irq m)"
  unfolding work_schedule_pending_def publish_scheduled_def head_state_def
  by (intro keeps_rules; simp)

lemma keeps_work_scheduled: "keeps (under_way js) (work_scheduled b irq m)"
  unfolding work_scheduled_def
  by (intro keeps_rules keeps_on_queue under_way_update; simp add: job_of_def)

section \<open>Effect of the operations\<close>

definition leads :: "(retune_queue \<times> 'd, 'a) io \<Rightarrow> retune_queue \<Rightarrow> (retune_queue \<Rightarrow> bool) \<Rightarrow> bool" where
  \<comment> \<open>every way the action can end from \<open>q\<close> satisfies the predicate\<close>
  "leads act q Q \<longleftrightarrow> (\<forall>s. case act (q, s) of (_, (q', _)) \<Rightarrow> Q q')"

named_theorems leads_rules \<open>symbolic execution of queue operations\<close>

lemma leadsD: "leads act q Q \<Longrightarrow> act (q, s) = (r, (q', s')) \<Longrightarrow> Q q'"
  unfolding leads_def by (metis (mono_tags, lifting) case_prod_conv)

lemma leads_keeps: "keeps J act \<Longrightarrow> J q \<Longrightarrow> leads act q J"
  by (simp add: keeps_def leads_def)

lemma leads_mono: "leads act q P \<Longrightarrow> (\<And>q'. P q' \<Longrightarrow> Q q') \<Longrightarrow> leads act q Q"
  unfolding leads_def by (auto split: prod.splits)

lemma leads_ret [leads_rules]: "Q q \<Longrightarrow> leads (ret x) q Q"
  by (simp add: leads_def ret_def)

lemma leads_on_queue [leads_rules]: "Q (g q) \<Longrightarrow> leads (on_queue g) q Q"
  by (simp add: leads_def on_queue_def)

lemma leads_seq_on_queue [leads_rules]:
  "leads (k ()) (g q) Q \<Longrightarrow> leads (seq (on_queue g) k) q Q"
  by (simp add: leads_def on_queue_def seq_def)

lemma leads_seq_look [leads_rules]: "leads (k (g q)) q Q \<Longrightarrow> leads (seq (look g) k) q Q"
  by (simp add: leads_def look_def seq_def)

lemma leads_seq_on_dev [leads_rules]:
  assumes "\<And>x. leads (k x) q Q" "Q q"
  shows "leads (seq (on_dev act) k) q Q"
  unfolding leads_def
proof
  fix s
  obtain r s1 where a: "act s = (r, s1)" by (metis surj_pair)
  show "case seq (on_dev act) k (q, s) of (_, (q', _)) \<Rightarrow> Q q'"
    using assms a by (cases r) (auto simp: on_dev_def seq_def leads_def)
qed

lemma leads_if [leads_rules]:
  "(b \<Longrightarrow> leads act q Q) \<Longrightarrow> (\<not> b \<Longrightarrow> leads act' q Q) \<Longrightarrow> leads (if b then act else act') q Q"
  by simp

lemma leads_option [leads_rules]:
  "(x = None \<Longrightarrow> leads act q Q) \<Longrightarrow> (\<And>y. x = Some y \<Longrightarrow> leads (k y) q Q) \<Longrightarrow>
   leads (case x of None \<Rightarrow> act | Some y \<Rightarrow> k y) q Q"
  by (cases x) simp_all

lemma leads_seq_keeps:
  assumes "keeps J act" "J q" "\<And>x q'. J q' \<Longrightarrow> leads (k x) q' Q" "\<And>q'. J q' \<Longrightarrow> Q q'"
  shows "leads (seq act k) q Q"
  unfolding leads_def
proof
  fix s
  obtain r q1 s1 where a: "act (q, s) = (r, (q1, s1))" by (metis surj_pair)
  have J1: "J q1" by (rule keepsD [OF assms(1,2) a])
  show "case seq act k (q, s) of (_, (q', _)) \<Rightarrow> Q q'"
    using assms(3,4) [OF J1] a by (cases r) (auto simp: seq_def leads_def)
qed

lemma keeps_cancel_request:
  assumes "\<And>q ack. J q \<Longrightarrow> J (update_head (cancel_ack_before_update (\<lambda>_. ack)) q)"
  shows "keeps J (e_cancel_request b m)"
  unfolding e_cancel_request_def using assms by (intro keeps_rules keeps_on_queue)

lemma keeps_q_cancel_request:
  assumes "\<And>q ack. J q \<Longrightarrow> J (clear_cancel_ack_before_update (\<lambda>_. ack) q)"
  shows "keeps J (q_cancel_request b m)"
  unfolding q_cancel_request_def using assms by (intro keeps_rules keeps_on_queue)

definition worked :: "retune_queue \<Rightarrow> retune_queue \<Rightarrow> bool" where
  \<comment> \<open>a round of the worker keeps the jobs, finishes the head, or completes a clear\<close>
  "worked q q' \<longleftrightarrow>
     queue_inv q' \<and>
     (jobs q' = jobs q \<or>
      jobs q \<noteq> [] \<and> \<not> clear_requested q \<and> jobs q' = tl (jobs q) \<or>
      clear_requested q \<and> jobs q' = [])"

definition cancelling :: "bool \<Rightarrow> job list \<Rightarrow> retune_queue \<Rightarrow> bool" where
  \<comment> \<open>the head's schedule is being cancelled\<close>
  "cancelling clear js q \<longleftrightarrow>
     queue_inv q \<and> jobs q = js \<and> js \<noteq> [] \<and> clear_requested q = clear \<and>
     e_state (hd (queue_list q)) = ENTRY_STATE_CANCEL_PENDING"

lemma cancelling_update:
  assumes "cancelling clear js q" "\<And>e. job_of (g e) = job_of e" "\<And>e. e_state (g e) = e_state e"
  shows "cancelling clear js (update_head g q)"
proof -
  have ne: "queue_list q \<noteq> []" "ring_ok q"
    using assms(1) by (auto simp: cancelling_def jobs_def queue_inv_def)
  then show ?thesis
    using assms(1,3) jobs_update_head [OF ne(2,1) assms(2)] queue_inv_update_head [of q g]
    by (simp add: cancelling_def rq.hd_change)
qed

lemma keeps_cancelling_request: "keeps (cancelling clear js) (e_cancel_request b m)"
  by (rule keeps_cancel_request) (rule cancelling_update; simp add: job_of_def)

lemma queue_inv_tail:
  assumes "queue_inv q" "queue_list q \<noteq> []" "\<not> clear_requested q"
  shows "queue_inv (snd (dequeue_retune q)) \<and> jobs (snd (dequeue_retune q)) = tl (jobs q)"
proof -
  have ok: "ring_ok q" and nw: "\<forall>e \<in> set (tl (queue_list q)). e_state e = ENTRY_STATE_NEW"
    using assms(1) by (simp_all add: queue_inv_def)
  have l: "queue_list (snd (dequeue_retune q)) = tl (queue_list q)" by (rule rq.drop_tl [OF ok assms(2)])
  have "e_state e = ENTRY_STATE_NEW" if "e \<in> set (tl (tl (queue_list q)))" for e
    using nw that by (cases "tl (queue_list q)") auto
  moreover have "e_state (hd (tl (queue_list q))) = ENTRY_STATE_NEW" if "tl (queue_list q) \<noteq> []"
    using nw that by simp
  ultimately show ?thesis
    using assms rq.good_drop [OF ok assms(2)]
    by (auto simp: queue_inv_def l jobs_def map_tl)
qed

lemma queue_inv_reset:
  assumes "length (entries q) = 16"
  shows "queue_inv ((reset_queue q)\<lparr>clear_complete := x\<rparr>)" "jobs ((reset_queue q)\<lparr>clear_complete := x\<rparr>) = []"
  using assms by (simp_all add: queue_inv_def jobs_def) (simp add: reset_queue_def)

lemma cancelling_worked: "cancelling clear js q' \<Longrightarrow> cancelling clear js q \<Longrightarrow> worked q q'"
  by (simp add: cancelling_def worked_def)

lemma work_cancel_pending_leads:
  assumes "cancelling clear js q" "e = hd (queue_list q)"
  shows "leads (work_cancel_pending b m e) q (worked q)"
proof -
  have q: "queue_inv q" "queue_list q \<noteq> []" "length (entries q) = 16" "clear_requested q = clear"
    "jobs q \<noteq> []"
    using assms(1) by (auto simp: cancelling_def queue_inv_def ring_ok_def jobs_def)
  have upd: "worked q (update_head g q)"
    if "\<And>e. job_of (g e) = job_of e" "\<And>e. e_state (g e) = e_state e" for g
    by (rule cancelling_worked [OF cancelling_update [OF assms(1) that] assms(1)])
  have self: "worked q q" using assms(1) by (rule cancelling_worked [OF _ assms(1)])
  have fin: "worked q ((if clear_requested q then (\<lambda>q. (reset_queue q)\<lparr>clear_complete := True\<rparr>)
       else (\<lambda>q. snd (dequeue_retune q))) q)"
    using q queue_inv_tail [of q] queue_inv_reset [of q True] by (simp add: worked_def)
  have seen: "cancelling clear js (update_head (cancel_recovery_seen_update (\<lambda>_. True)) q)"
    by (rule cancelling_update [OF assms(1)]; simp add: job_of_def)
  have req: "leads (seq (e_cancel_request b m) (\<lambda>ok. on_queue (update_head
       (if ok then cancel_request_pending_update (\<lambda>_. True)
        else cancel_recovery_seen_update (\<lambda>_. False)))))
      (update_head (cancel_recovery_seen_update (\<lambda>_. True)) q) (worked q)"
    by (rule leads_seq_keeps [OF keeps_cancelling_request seen])
       (auto intro!: leads_rules cancelling_worked [OF _ assms(1)] cancelling_update simp: job_of_def)
  show ?thesis
    unfolding work_cancel_pending_def
    by (intro leads_rules self fin req upd; simp add: job_of_def)
qed


lemma under_way_worked: "under_way js q' \<Longrightarrow> under_way js q \<Longrightarrow> worked q q'"
  by (simp add: under_way_def worked_def)

lemma work_ready_leads:
  assumes "under_way js q"
  shows "leads (work_ready b m e) q (worked q)"
proof -
  have q: "queue_inv q" "queue_list q \<noteq> []" "\<not> clear_requested q" "jobs q \<noteq> []"
    using assms by (auto simp: under_way_def jobs_def)
  have "worked q q" "worked q (snd (dequeue_retune q))"
    using q queue_inv_tail [OF q(1-3)] by (simp_all add: worked_def)
  then show ?thesis unfolding work_ready_def by (intro leads_rules)
qed

lemma empty_inv:
  assumes "queue_inv q" "queue_list q = []"
    and "ring_ok q'" "queue_list q' = []" "\<not> (clear_complete q' \<and> clear_requested q')"
    "clear_cancel_pending q' \<longrightarrow> clear_requested q'"
  shows "worked q q'"
  using assms by (simp add: worked_def queue_inv_def jobs_def)

definition clearing_empty :: "retune_queue \<Rightarrow> bool" where
  "clearing_empty q \<longleftrightarrow>
     ring_ok q \<and> queue_list q = [] \<and> clear_requested q \<and> \<not> clear_complete q"

lemma keeps_clearing_empty: "keeps clearing_empty (q_cancel_request b m)"
  by (rule keeps_q_cancel_request) (simp add: clearing_empty_def)

lemma work_clear_leads:
  assumes "queue_inv q" "queue_list q = []"
  shows "leads (work_clear b m) q (worked q)"
proof (cases "clear_requested q")
  case False
  then show ?thesis
    using assms unfolding work_clear_def
    by (intro leads_rules) (auto simp: worked_def intro!: leads_rules)
next
  case True
  have cl: "clearing_empty q" using assms True by (auto simp: clearing_empty_def queue_inv_def)
  have w: "worked q q'" if "clearing_empty q'" for q'
    using that by (intro empty_inv [OF assms]) (simp_all add: clearing_empty_def)
  have fin: "worked q (q\<lparr>clear_cancel_pending := False, clear_requested := False,
      clear_complete := True\<rparr>)"
    using cl by (intro empty_inv [OF assms]) (simp_all add: clearing_empty_def)
  have seen: "clearing_empty (q\<lparr>clear_cancel_recovery_seen := True\<rparr>)"
    using cl by (simp add: clearing_empty_def)
  have req: "leads (seq (q_cancel_request b m) (\<lambda>ok. on_queue
       (if ok then clear_cancel_pending_update (\<lambda>_. True)
        else clear_cancel_recovery_seen_update (\<lambda>_. False))))
      (q\<lparr>clear_cancel_recovery_seen := True\<rparr>) (worked q)"
    by (rule leads_seq_keeps [OF keeps_clearing_empty seen])
       (auto intro!: leads_rules w simp: clearing_empty_def)
  show ?thesis
    unfolding work_clear_def
    by (intro leads_rules fin req w) (use cl in \<open>auto simp: clearing_empty_def\<close>)
qed

lemma perform_work_leads:
  assumes "queue_inv q"
  shows "leads (perform_work b irq m) q (worked q)"
proof (cases "queue_list q = []")
  case True
  then have "peek_next_retune q = None" using assms by (simp add: queue_inv_def rq.front_None)
  then show ?thesis
    unfolding perform_work_def
    by (intro leads_seq_look) (simp add: work_clear_leads [OF assms True])
next
  case False
  define e where "e = hd (queue_list q)"
  have e: "peek_next_retune q = Some e" "e_state e \<noteq> ENTRY_STATE_INVALID"
    using assms False rq.front_Some [of q e] by (auto simp: queue_inv_def e_def neq_Nil_conv)
  have js: "jobs q \<noteq> []" using False by (simp add: jobs_def)
  have uw: "leads (case e_state e of
            ENTRY_STATE_NEW \<Rightarrow> work_new b irq m (e_timestamp e)
          | ENTRY_STATE_SCHEDULE_PENDING \<Rightarrow> work_schedule_pending b irq m
          | ENTRY_STATE_SCHEDULED \<Rightarrow> work_scheduled b irq m
          | ENTRY_STATE_CANCEL_PENDING \<Rightarrow> work_cancel_pending b m e
          | ENTRY_STATE_READY \<Rightarrow> work_ready b m e
          | ENTRY_STATE_INVALID \<Rightarrow> ret ()) q (worked q)"
  proof (cases "e_state e = ENTRY_STATE_CANCEL_PENDING")
    case True
    then have "cancelling (clear_requested q) (jobs q) q"
      using assms js by (simp add: cancelling_def e_def)
    from work_cancel_pending_leads [OF this e_def] show ?thesis using True by simp
  next
    case nc: False
    have u: "under_way (jobs q) q"
      using assms js False nc by (auto simp: under_way_def queue_inv_def e_def)
    have k: "leads act q (worked q)" if "keeps (under_way (jobs q)) act"
      for act :: "'a rt_io"
      by (rule leads_mono [OF leads_keeps [OF that u]]) (rule under_way_worked [OF _ u])
    show ?thesis
      using e(2) nc k [OF keeps_work_new] k [OF keeps_work_schedule_pending]
        k [OF keeps_work_scheduled] work_ready_leads [OF u]
      by (cases "e_state e") simp_all
  qed
  show ?thesis
    unfolding perform_work_def by (intro leads_seq_look) (simp add: e(1) uw)
qed


definition same_jobs :: "retune_queue \<Rightarrow> retune_queue \<Rightarrow> bool" where
  "same_jobs q q' \<longleftrightarrow> queue_inv q' \<and> jobs q' = jobs q"

lemma retune_interrupt_leads:
  assumes "queue_inv q"
  shows "leads (retune_interrupt b m) q (same_jobs q)"
proof (cases "jobs q \<noteq> [] \<and> \<not> clear_requested q")
  case True
  then have "under_way (jobs q) q" using assms by (simp add: under_way_def)
  from leads_keeps [OF keeps_interrupt(1) this] show ?thesis
    by (rule leads_mono) (simp add: under_way_def same_jobs_def)
next
  case False
  have idle: "clear_requested q \<or> peek_next_retune q = None"
    using False assms by (auto simp: jobs_def queue_inv_def rq.front_None)
  have "leads (retune_isr b m) q (\<lambda>q'. q' = q)"
    using idle unfolding retune_isr_def by (intro leads_rules) (auto intro!: leads_rules)
  moreover have "keeps (\<lambda>q'. q' = q) (on_dev (timer_tamer_clear_interrupt b m))"
    by (rule keeps_rules)
  ultimately show ?thesis
    using assms unfolding retune_interrupt_def leads_def
    by (fastforce simp: same_jobs_def seq_def on_dev_def split: outcome.splits prod.splits)
qed

lemma clear_again_leads:
  assumes "queue_inv q" "clear_requested q"
  shows "leads (clear_again b m) q (same_jobs q)"
proof -
  have self: "same_jobs q q" using assms(1) by (simp add: same_jobs_def)
  show ?thesis
  proof (cases "queue_list q = []")
    case True
    have cl: "clearing_empty q" using assms True by (auto simp: clearing_empty_def queue_inv_def)
    have w: "same_jobs q q'" if "clearing_empty q'" for q'
      using that True by (simp add: clearing_empty_def same_jobs_def queue_inv_def jobs_def)
    have p: "peek_next_retune q = None" using assms True by (simp add: queue_inv_def rq.front_None)
    have upd: "leads (seq (q_cancel_request b m) (\<lambda>ok. seq (when_io ok (on_queue g)) (\<lambda>_. ret x))) q
        (same_jobs q)" if "\<And>q. clearing_empty q \<Longrightarrow> clearing_empty (g q)" for g and x :: bool
      by (rule leads_seq_keeps [OF keeps_clearing_empty cl])
         (auto intro!: leads_rules w that simp: seq_assoc split: if_splits)
    show ?thesis
      unfolding clear_again_def
      by (rule leads_seq_look)
         (auto simp: p intro!: leads_rules upd self simp: clearing_empty_def)
  next
    case False
    define e where "e = hd (queue_list q)"
    have c: "cancelling True (jobs q) q"
      using assms False by (auto simp: cancelling_def queue_inv_def jobs_def)
    have w: "same_jobs q q'" if "cancelling True (jobs q) q'" for q'
      using that by (simp add: cancelling_def same_jobs_def)
    have p: "peek_next_retune q = Some e"
      using assms(1) False rq.front_Some [of q e] by (auto simp: queue_inv_def e_def neq_Nil_conv)
    have upd: "leads (seq (e_cancel_request b m)
        (\<lambda>ok. seq (when_io ok (on_queue (update_head g))) (\<lambda>_. ret x))) q (same_jobs q)"
      if "\<And>e. job_of (g e) = job_of e" "\<And>e. e_state (g e) = e_state e" for g and x :: bool
      by (rule leads_seq_keeps [OF keeps_cancelling_request c])
         (auto intro!: leads_rules w cancelling_update that split: if_splits)
    show ?thesis
      unfolding clear_again_def
      by (rule leads_seq_look)
         (auto simp: p job_of_def intro!: leads_rules upd self)
  qed
qed


lemma clear_start_empty_leads:
  assumes "clearing_empty q"
  shows "leads (clear_start_empty b m) q (\<lambda>q'. queue_inv q' \<and> jobs q' = [])"
proof -
  have w: "queue_inv q' \<and> jobs q' = []" if "clearing_empty q'" for q'
    using that by (simp add: clearing_empty_def queue_inv_def jobs_def)
  have c: "clearing_empty (q\<lparr>clear_cancel_pending := False, clear_cancel_recovery_seen := False\<rparr>)"
    using assms by (simp add: clearing_empty_def)
  have req: "leads (seq (q_cancel_request b m) (\<lambda>ok. seq (when_io ok (on_queue
        (\<lambda>q. q\<lparr>clear_cancel_pending := True, clear_cancel_recovery_seen := True\<rparr>))) (\<lambda>_. ret x)))
      (q\<lparr>clear_cancel_pending := False, clear_cancel_recovery_seen := False\<rparr>)
      (\<lambda>q'. queue_inv q' \<and> jobs q' = [])" for x :: bool
    by (rule leads_seq_keeps [OF keeps_clearing_empty c])
       (auto intro!: leads_rules w split: if_splits simp: clearing_empty_def)
  show ?thesis
    unfolding clear_start_empty_def by (intro leads_rules req w c)
qed

lemma clear_cancel_head_leads:
  assumes "cancelling True js q"
  shows "leads (clear_cancel_head b m) q (cancelling True js)"
proof -
  have seen: "cancelling True js (update_head (cancel_recovery_seen_update (\<lambda>_. True)) q)"
    by (rule cancelling_update [OF assms]; simp add: job_of_def)
  have req: "leads (seq (e_cancel_request b m) (\<lambda>ok. seq (on_queue (update_head
       (if ok then cancel_request_pending_update (\<lambda>_. True)
        else cancel_recovery_seen_update (\<lambda>_. False)))) (\<lambda>_. ret False)))
      (update_head (cancel_recovery_seen_update (\<lambda>_. True)) q) (cancelling True js)"
    by (rule leads_seq_keeps [OF keeps_cancelling_request seen])
       (auto intro!: leads_rules cancelling_update simp: job_of_def)
  have req2: "leads (seq (e_cancel_request b m)
      (\<lambda>ok. seq (when_io ok (on_queue (update_head (set_cancel_flags True True)))) (\<lambda>_. ret True))) q
      (cancelling True js)"
    by (rule leads_seq_keeps [OF keeps_cancelling_request assms])
       (auto intro!: leads_rules cancelling_update simp: job_of_def split: if_splits)
  show ?thesis unfolding clear_cancel_head_def by (intro leads_rules req req2 assms)
qed

lemma clear_queue_async_leads:
  assumes "queue_inv q"
  shows "leads (clear_queue_async b m) q (same_jobs q)"
proof -
  have fin: "leads (seq act (\<lambda>failed. ret (False, failed))) q' Q" if "leads act q' Q"
    for act :: "(retune_queue \<times> 'a nios, bool) io" and q' Q
    using that unfolding leads_def by (auto simp: seq_def ret_def split: prod.splits outcome.splits)
  have sub: "leads (case peek_next_retune q of None \<Rightarrow> clear_start_empty b m
        | Some e \<Rightarrow> clear_start_head b m e) (q\<lparr>clear_requested := True\<rparr>) (same_jobs q)"
    if nc: "\<not> clear_complete q" "\<not> clear_requested q"
  proof (cases "queue_list q = []")
    case True
    have "clearing_empty (q\<lparr>clear_requested := True\<rparr>)"
      using assms True nc by (simp add: clearing_empty_def queue_inv_def)
    from clear_start_empty_leads [OF this, of b m]
    have "leads (clear_start_empty b m) (q\<lparr>clear_requested := True\<rparr>) (same_jobs q)"
      by (rule leads_mono) (use True in \<open>simp add: same_jobs_def jobs_def\<close>)
    moreover have "peek_next_retune q = None"
      using assms True by (simp add: queue_inv_def rq.front_None)
    ultimately show ?thesis by simp
  next
    case False
    define e where "e = hd (queue_list q)"
    have p: "peek_next_retune q = Some e"
      using assms(1) False rq.front_Some [of q e] by (auto simp: queue_inv_def e_def neq_Nil_conv)
    have inv: "ring_ok q" "\<forall>e \<in> set (tl (queue_list q)). e_state e = ENTRY_STATE_NEW"
        "\<not> clear_cancel_pending q"
      using assms False by (simp_all add: queue_inv_def)
    let ?q = "q\<lparr>clear_requested := True\<rparr>"
    have c1: "cancelling True (jobs q) (update_head (\<lambda>e. e\<lparr>e_state := ENTRY_STATE_CANCEL_PENDING,
        cancel_recovery_seen := False, cancel_request_pending := False\<rparr>) ?q)"
      using inv False nc jobs_update_head [of ?q "\<lambda>e. e\<lparr>e_state := ENTRY_STATE_CANCEL_PENDING,
        cancel_recovery_seen := False, cancel_request_pending := False\<rparr>"]
      by (simp add: cancelling_def queue_inv_def rq.hd_change rq.tl_change rq.change_nonempty
          update_head_ring(1) job_of_def jobs_def)
    have c2: "cancelling True (jobs q) ?q" if "e_state e = ENTRY_STATE_CANCEL_PENDING"
      using inv False nc that by (simp add: cancelling_def queue_inv_def e_def jobs_def)
    have "leads (clear_start_head b m e) ?q (cancelling True (jobs q))"
      unfolding clear_start_head_def to_cancel_pending_def
      using clear_cancel_head_leads [OF c1, of b m] clear_cancel_head_leads [OF c2, of b m]
      by (cases "e_state e = ENTRY_STATE_CANCEL_PENDING") (simp_all add: leads_seq_on_queue)
    then show ?thesis
      unfolding p option.case by (rule leads_mono) (simp add: cancelling_def same_jobs_def)
  qed
  have reset: "same_jobs q (q\<lparr>clear_complete := False\<rparr>)"
    using assms by (auto simp: same_jobs_def queue_inv_def jobs_def)
  show ?thesis
    unfolding clear_queue_async_def
    by ((rule leads_seq_look)+, unfold prod.case,
        intro leads_rules reset fin sub clear_again_leads [OF assms])
qed


section \<open>Executions\<close>

datatype retune_event =
  Accepted job | Executed job | Cancelled job | Cleared "job list"

definition work_event :: "retune_queue \<Rightarrow> retune_queue \<Rightarrow> retune_event list" where
  \<comment> \<open>what a round of the worker did, seen from the queue before and after\<close>
  "work_event q q' =
     (if q_count q' = q_count q then []
      else if clear_requested q then [Cleared (jobs q)]
      else case peek_next_retune q of
        None \<Rightarrow> []
      | Some e \<Rightarrow>
          if e_state e = ENTRY_STATE_READY then [Executed (job_of e)] else [Cancelled (job_of e)])"

inductive retune_exec :: "'m bus_fns \<Rightarrow> bladerf_module \<Rightarrow> retune_event list \<Rightarrow> retune_queue \<Rightarrow> bool"
  for b m where
  init: "length (entries q) = 16 \<Longrightarrow> retune_exec b m [] (reset_queue q)"
| accept: "retune_exec b m tr q \<Longrightarrow> enqueue_retune q f ts = (n, q') \<Longrightarrow> n \<noteq> QUEUE_FULL \<Longrightarrow>
    retune_exec b m (tr @ [Accepted (f, ts)]) q'"
| refuse: "retune_exec b m tr q \<Longrightarrow> enqueue_retune q f ts = (n, q') \<Longrightarrow> n = QUEUE_FULL \<Longrightarrow>
    retune_exec b m tr q'"
| work: "retune_exec b m tr q \<Longrightarrow> perform_work b irq m (q, s) = (r, (q', s')) \<Longrightarrow>
    retune_exec b m (tr @ work_event q q') q'"
| interrupt: "retune_exec b m tr q \<Longrightarrow> retune_interrupt b m (q, s) = (r, (q', s')) \<Longrightarrow>
    retune_exec b m tr q'"
| clear: "retune_exec b m tr q \<Longrightarrow> clear_queue_async b m (q, s) = (r', (q', s')) \<Longrightarrow>
    retune_exec b m tr q'"

fun accepted :: "retune_event list \<Rightarrow> job list" where
  "accepted [] = []"
| "accepted (Accepted j # tr) = j # accepted tr"
| "accepted (_ # tr) = accepted tr"

fun finished :: "retune_event list \<Rightarrow> job list" where
  "finished [] = []"
| "finished (Accepted j # tr) = finished tr"
| "finished (Executed j # tr) = j # finished tr"
| "finished (Cancelled j # tr) = j # finished tr"
| "finished (Cleared js # tr) = js @ finished tr"

lemma accepted_append [simp]: "accepted (tr @ tr') = accepted tr @ accepted tr'"
  by (induction tr rule: accepted.induct) auto

lemma finished_append [simp]: "finished (tr @ tr') = finished tr @ finished tr'"
  by (induction tr rule: finished.induct) auto

lemma count_jobs: "q_count q' = q_count q \<longleftrightarrow> length (jobs q') = length (jobs q)"
  by (simp add: jobs_def word_unat_eq_iff)

lemma worked_event:
  assumes "queue_inv q" "worked q q'"
  shows "accepted (work_event q q') = []" "jobs q = finished (work_event q q') @ jobs q'"
proof -
  show "accepted (work_event q q') = []" by (auto simp: work_event_def split: option.split)
  show "jobs q = finished (work_event q q') @ jobs q'"
  proof (cases "q_count q' = q_count q")
    case True
    then have "length (jobs q') = length (jobs q)" by (simp add: count_jobs)
    then have "jobs q' = jobs q" using assms(2) by (cases "jobs q") (auto simp: worked_def)
    then show ?thesis using True by (simp add: work_event_def)
  next
    case False
    then have ne: "length (jobs q') \<noteq> length (jobs q)" by (simp add: count_jobs)
    then have js: "jobs q \<noteq> []" using assms(2) by (auto simp: worked_def)
    then have nn: "queue_list q \<noteq> []" by (simp add: jobs_def)
    then have p: "peek_next_retune q = Some (hd (queue_list q))"
      using assms(1) rq.front_Some [of q "hd (queue_list q)"]
      by (auto simp: queue_inv_def neq_Nil_conv)
    have hd: "job_of (hd (queue_list q)) = hd (jobs q)" using nn by (simp add: jobs_def hd_map)
    show ?thesis
      using False ne p hd js assms(2) by (auto simp: work_event_def worked_def)
  qed
qed

lemma retune_exec_inv: "retune_exec b m tr q \<Longrightarrow> queue_inv q \<and> accepted tr = finished tr @ jobs q"
proof (induction rule: retune_exec.induct)
  case (init q)
  moreover have "(reset_queue q)\<lparr>clear_complete := False\<rparr> = reset_queue q"
    by (simp add: reset_queue_def)
  ultimately show ?case using queue_inv_reset [of q False] by simp
next
  case (accept tr q f ts n q')
  then have ok: "ring_ok q" by (simp add: queue_inv_def)
  from enqueue_appends [OF ok accept.hyps(2,3)] obtain e where
    e: "\<not> clear_requested q" "ring_ok q'" "\<not> clear_requested q'" "\<not> clear_complete q'"
      "clear_cancel_pending q' = clear_cancel_pending q" "queue_list q' = queue_list q @ [e]"
      "job_of e = (f, ts)" "e_state e = ENTRY_STATE_NEW"
    by auto
  have "queue_inv q'"
    using accept.IH e by (cases "queue_list q") (auto simp: queue_inv_def)
  then show ?case using accept.IH e by (simp add: jobs_def)
next
  case (refuse tr q f ts n q')
  then have "ring_ok q" by (simp add: queue_inv_def)
  from enqueue_full [OF refuse.hyps(2,3) this] refuse.IH show ?case
    by (auto simp: queue_inv_def jobs_def)
next
  case (work tr q irq s r q' s')
  have inv: "queue_inv q" and tr: "accepted tr = finished tr @ jobs q" using work.IH by simp_all
  have w: "worked q q'" by (rule leadsD [OF perform_work_leads work.hyps(2)]) (rule inv)
  have "queue_inv q'" using w by (simp add: worked_def)
  moreover have "accepted (tr @ work_event q q') = finished (tr @ work_event q q') @ jobs q'"
    using tr worked_event [OF inv w] by simp
  ultimately show ?case ..
next
  case (interrupt tr q s r q' s')
  have "same_jobs q q'"
    by (rule leadsD [OF retune_interrupt_leads interrupt.hyps(2)]) (simp add: interrupt.IH)
  then show ?case using interrupt.IH by (simp add: same_jobs_def)
next
  case (clear tr q s r' q' s')
  have "same_jobs q q'"
    by (rule leadsD [OF clear_queue_async_leads clear.hyps(2)]) (simp add: clear.IH)
  then show ?case using clear.IH by (simp add: same_jobs_def)
qed


section \<open>Properties\<close>


lemma enqueue_accepts:
  assumes "\<not> clear_requested q" "q_count q < 16"
  shows "\<exists>n q'. enqueue_retune q f ts = (n, q') \<and> n \<noteq> QUEUE_FULL \<and> q_count q' = q_count q + 1 \<and>
     \<not> clear_requested q'"
proof -
  have "q_count q + 1 \<noteq> 0xff" using assms(2) by (auto simp: word_less_nat_alt unat_word_ariths dest: arg_cong [where f = unat])
  then show ?thesis
    using assms by (simp add: enqueue_retune_def Let_def RETUNE_QUEUE_MAX_def QUEUE_FULL_def not_le)
qed

definition empty_entry :: queue_entry where
  "empty_entry = \<lparr>e_state = ENTRY_STATE_INVALID, e_freq = zero_freq, e_timestamp = 0,
     cancel_recovery_seen = False, cancel_request_pending = False, cancel_ack_before = 0\<rparr>"

definition empty_queue :: retune_queue where
  "empty_queue = \<lparr>q_count = 0, ins_idx = 0, rem_idx = 0, clear_requested = False,
     clear_complete = False, clear_cancel_pending = False, clear_cancel_recovery_seen = False,
     clear_cancel_ack_before = 0, entries = replicate 16 empty_entry\<rparr>"


section \<open>No retune before its time\<close>

definition never_fires :: "'m bus_fns \<Rightarrow> bladerf_module \<Rightarrow> bool" where
  "never_fires b m \<longleftrightarrow> (\<forall>x. fst (iord8 b (tamer_base m) 9 x) AND 0x10 = 0)"

lemma compare_never_fires:
  assumes "never_fires b m"
  shows "\<exists>s'. tamer_compare_fired b m s = (Ok False, s')"
  using assms [unfolded never_fires_def, THEN spec, of "hw s"]
  by (auto simp: tamer_compare_fired_def tamer_flag_def tamer_status_def rd8_def
      seq_def ret_def split: prod.split)

definition never_ready :: "retune_queue \<Rightarrow> bool" where
  "never_ready q \<longleftrightarrow>
     ring_ok q \<and> (\<forall>e \<in> set (queue_list q). e_state e \<noteq> ENTRY_STATE_READY)"

lemma never_ready_update:
  assumes "never_ready q" "\<And>e. e_state e \<noteq> ENTRY_STATE_READY \<Longrightarrow> e_state (g e) \<noteq> ENTRY_STATE_READY"
  shows "never_ready (update_head g q)"
proof (cases "queue_list q")
  case Nil
  then have "queue_list (update_head g q) = []" using assms(1)
    by (simp add: queue_list_Nil never_ready_def update_head_ring)
  then show ?thesis using assms(1) by (simp add: never_ready_def update_head_ring)
next
  case (Cons e es)
  then show ?thesis
    using assms update_head_ring(3) [of q e es g] by (auto simp: never_ready_def update_head_ring(1))
qed

lemma keeps_fired:
  assumes "never_fires b m" "keeps J (k False)"
  shows "keeps J (seq (on_dev (tamer_compare_fired b m)) k)"
  unfolding keeps_def
proof (intro allI impI)
  fix q s assume "J q"
  obtain s' where "tamer_compare_fired b m s = (Ok False, s')"
    using compare_never_fires [OF assms(1)] by blast
  then have "seq (on_dev (tamer_compare_fired b m)) k (q, s) = k False (q, s')"
    by (simp add: seq_def on_dev_def)
  then show "case seq (on_dev (tamer_compare_fired b m)) k (q, s) of (_, (q', _)) \<Rightarrow> J q'"
    using assms(2) \<open>J q\<close> by (simp add: keeps_def)
qed

lemma never_ready_set_state:
  "st \<noteq> ENTRY_STATE_READY \<Longrightarrow> keeps never_ready (set_state st)"
  unfolding set_state_def by (rule keeps_on_queue, rule never_ready_update) simp_all

lemma never_ready_parts:
  "keeps never_ready to_cancel_pending" "keeps never_ready (e_cancel_request b m)"
  "keeps never_ready (q_cancel_request b m)"
proof -
  show "keeps never_ready to_cancel_pending"
    unfolding to_cancel_pending_def by (rule keeps_on_queue, rule never_ready_update) simp_all
  show "keeps never_ready (e_cancel_request b m)"
    by (rule keeps_cancel_request, rule never_ready_update) simp_all
  show "keeps never_ready (q_cancel_request b m)"
    by (rule keeps_q_cancel_request) (simp add: never_ready_def)
qed

lemma never_ready_isr:
  assumes "never_fires b m"
  shows "keeps never_ready (retune_interrupt b m)" "keeps never_ready (pre_io b irq i m)"
  unfolding pre_io_def retune_interrupt_def retune_isr_def
  by (intro keeps_rules keeps_fired [OF assms]; simp add: keeps_rules)+

lemma never_ready_fields [simp]:
  "never_ready (clear_requested_update g1 q) = never_ready q"
  "never_ready (clear_complete_update g1 q) = never_ready q"
  "never_ready (clear_cancel_pending_update g1 q) = never_ready q"
  "never_ready (clear_cancel_recovery_seen_update g1 q) = never_ready q"
  by (simp_all add: never_ready_def)

lemma never_ready_drop:
  assumes "never_ready q"
  shows "never_ready (snd (dequeue_retune q))" "never_ready (reset_queue q)"
proof -
  have ok: "ring_ok q" using assms by (simp add: never_ready_def)
  show "never_ready (snd (dequeue_retune q))"
  proof (cases "queue_list q = []")
    case True
    then show ?thesis using assms by (simp add: queue_list_Nil dequeue_retune_def)
  next
    case False
    then show ?thesis
      using assms rq.drop_tl [OF ok False] rq.good_drop [OF ok False]
      by (auto simp: never_ready_def dest: list.set_sel(2))
  qed
  have "length (entries q) = 16" using ok by (simp add: ring_ok_def)
  then show "never_ready (reset_queue q)" by (simp add: never_ready_def)
qed

lemma never_ready_work:
  assumes "never_fires b m"
  shows "keeps never_ready (perform_work b irq m)"
proof -
  note r = keeps_fired [OF assms] keeps_rules never_ready_isr [OF assms] never_ready_set_state
    never_ready_parts keeps_on_queue
    never_ready_update
  have pub: "keeps never_ready (publish_scheduled b irq m)"
    unfolding publish_scheduled_def by (intro r; simp add: keeps_rules)
  have new: "keeps never_ready (work_new b irq m ts)" for ts
    unfolding work_new_def head_state_def by (intro r pub; simp)
  have sp: "keeps never_ready (work_schedule_pending b irq m)"
    unfolding work_schedule_pending_def head_state_def by (intro r pub; simp)
  have sch: "keeps never_ready (work_scheduled b irq m)"
    unfolding work_scheduled_def by (intro r; simp add: keeps_rules)
  have can: "keeps never_ready (work_cancel_pending b m e)" for e
    unfolding work_cancel_pending_def
    by (intro r; auto intro: never_ready_drop never_ready_update split: if_splits)
  have rdy: "keeps never_ready (work_ready b m e)" for e
    unfolding work_ready_def by (intro r never_ready_drop)
  have clr: "keeps never_ready (work_clear b m)"
    unfolding work_clear_def by (intro r; auto split: if_splits)
  show ?thesis
    unfolding perform_work_def
    by (intro keeps_rules; simp add: clr split: entry_state.split) 
       (auto intro: new sp sch can rdy keeps_rules)
qed

lemma keeps_prod:
  "(\<And>x y. keeps J (k x y)) \<Longrightarrow> keeps J (case p of (x, y) \<Rightarrow> k x y)"
  by (cases p) simp

lemma never_ready_clear:
  "keeps never_ready (clear_queue_async b m)"
proof -
  note r = keeps_rules never_ready_parts keeps_on_queue never_ready_update
  have "keeps never_ready (clear_again b m)"
    unfolding clear_again_def by (intro r; auto split: if_splits)
  moreover have "keeps never_ready (clear_start_empty b m)"
    unfolding clear_start_empty_def by (intro r; auto split: if_splits)
  moreover have "keeps never_ready (clear_start_head b m e)" for e
    unfolding clear_start_head_def clear_cancel_head_def by (intro r; auto split: if_splits)
  moreover have "keeps never_ready (on_queue (clear_complete_update (\<lambda>_. False)) ::
      (retune_queue \<times> 'a nios, unit) io)"
    "keeps never_ready (on_queue (clear_requested_update (\<lambda>_. True)) ::
      (retune_queue \<times> 'a nios, unit) io)" by (rule keeps_on_queue; simp)+
  ultimately show ?thesis
    unfolding clear_queue_async_def by - (intro keeps_rules keeps_prod)
qed



section \<open>A fired comparator is not missed\<close>

definition fired_hw :: "'m bus_fns \<Rightarrow> bladerf_module \<Rightarrow> ('m \<Rightarrow> bool) \<Rightarrow> bool" where
  \<comment> \<open>states of the tamer in which the schedule is acknowledged, the comparator has fired and
      the event is sticky: reading the status and clearing the interrupt keep it\<close>
  "fired_hw b m F \<longleftrightarrow>
     (\<forall>x. F x \<longrightarrow> (case iord8 b (tamer_base m) 9 x of (v, x') \<Rightarrow> F x' \<and> v AND 0x58 = 0x18)) \<and>
     (\<forall>x. F x \<longrightarrow> F (iowr8 b (tamer_base m) 8 1 x))"

definition at_head :: "entry_state set \<Rightarrow> job list \<Rightarrow> ('m \<Rightarrow> bool) \<Rightarrow> retune_queue \<times> 'm nios \<Rightarrow> bool" where
  "at_head S js F c \<longleftrightarrow>
     under_way js (fst c) \<and> F (hw (snd c)) \<and> e_state (hd (queue_list (fst c))) \<in> S"

definition ends :: "('c \<Rightarrow> bool) \<Rightarrow> ('c, 'a) io \<Rightarrow> ('a \<Rightarrow> 'c \<Rightarrow> bool) \<Rightarrow> bool" where
  \<comment> \<open>total correctness: the action returns and establishes its postcondition\<close>
  "ends P act Q \<longleftrightarrow> (\<forall>c. P c \<longrightarrow> (\<exists>x c'. act c = (Ok x, c') \<and> Q x c'))"

lemma ends_seq:
  assumes "ends P act R" "\<And>x. ends (R x) (k x) Q"
  shows "ends P (seq act k) Q"
  unfolding ends_def
proof (intro allI impI)
  fix c assume "P c"
  then obtain x c' where "act c = (Ok x, c')" "R x c'" using assms(1) by (auto simp: ends_def)
  moreover obtain y c'' where "k x c' = (Ok y, c'')" "Q y c''"
    using assms(2) [of x] \<open>R x c'\<close> by (auto simp: ends_def)
  ultimately show "\<exists>y c''. seq act k c = (Ok y, c'') \<and> Q y c''" by (simp add: iosimps)
qed

lemma ends_ret: "(\<And>c. P c \<Longrightarrow> Q x c) \<Longrightarrow> ends P (ret x) Q"
  by (simp add: ends_def ret_def)

lemma ends_weaken: "ends P act Q \<Longrightarrow> (\<And>c. P' c \<Longrightarrow> P c) \<Longrightarrow> (\<And>x c. Q x c \<Longrightarrow> Q' x c) \<Longrightarrow> ends P' act Q'"
  unfolding ends_def by blast

lemma under_way_head:
  assumes "under_way js q"
  shows "peek_next_retune q = Some (hd (queue_list q))"
  using assms rq.front_Some [of q "hd (queue_list q)"]
  by (auto simp: under_way_def queue_inv_def jobs_def neq_Nil_conv)

lemma at_head_flags:
  assumes "fired_hw b m F"
  shows "ends (at_head S js F) (on_dev (tamer_schedule_failed b m)) (\<lambda>x c. \<not> x \<and> at_head S js F c)"
    "ends (at_head S js F) (on_dev (tamer_schedule_acknowledged b m)) (\<lambda>x c. x \<and> at_head S js F c)"
    "ends (at_head S js F) (on_dev (tamer_compare_fired b m)) (\<lambda>x c. x \<and> at_head S js F c)"
proof -
  have bits: "v AND 0x40 = 0 \<and> v AND 0x08 \<noteq> 0 \<and> v AND 0x10 \<noteq> 0" if "v AND 0x58 = 0x18" for v :: u8
  proof -
    have "v AND 0x40 = (v AND 0x58) AND 0x40" "v AND 0x08 = (v AND 0x58) AND 0x08"
      "v AND 0x10 = (v AND 0x58) AND 0x10" by (simp_all add: and.assoc)
    then show ?thesis using that by simp
  qed
  have flag: "ends (at_head S js F) (on_dev (tamer_flag b k m))
      (\<lambda>x c. (\<exists>v. v AND 0x58 = 0x18 \<and> x = (v AND k \<noteq> 0)) \<and> at_head S js F c)" for k
    unfolding ends_def
  proof (intro allI impI)
    fix c assume c: "at_head S js F c"
    obtain q s where qs: "c = (q, s)" by (cases c)
    obtain v x' where rd: "iord8 b (tamer_base m) 9 (hw s) = (v, x')" by (metis surj_pair)
    have "F x'" "v AND 0x58 = 0x18"
      using assms c rd by (auto simp: fired_hw_def at_head_def qs)
    moreover have "on_dev (tamer_flag b k m) c = (Ok (v AND k \<noteq> 0), (q, s\<lparr>hw := x'\<rparr>))"
      by (simp add: qs on_dev_def tamer_flag_def tamer_status_def rd8_def rd seq_def ret_def)
    ultimately show "\<exists>x c'. on_dev (tamer_flag b k m) c = (Ok x, c') \<and>
        (\<exists>v. v AND 0x58 = 0x18 \<and> x = (v AND k \<noteq> 0)) \<and> at_head S js F c'"
      using c by (auto simp: at_head_def qs)
  qed
  show "ends (at_head S js F) (on_dev (tamer_schedule_failed b m)) (\<lambda>x c. \<not> x \<and> at_head S js F c)"
    "ends (at_head S js F) (on_dev (tamer_schedule_acknowledged b m)) (\<lambda>x c. x \<and> at_head S js F c)"
    "ends (at_head S js F) (on_dev (tamer_compare_fired b m)) (\<lambda>x c. x \<and> at_head S js F c)"
    unfolding tamer_schedule_failed_def tamer_schedule_acknowledged_def tamer_compare_fired_def
    by (rule ends_weaken [OF flag]; use bits in blast)+
qed

lemma at_head_set_state:
  assumes "st \<noteq> ENTRY_STATE_INVALID" "st \<in> S'"
  shows "ends (at_head S js F) (set_state st) (\<lambda>_. at_head S' js F)"
  unfolding ends_def
proof (intro allI impI)
  fix c assume c: "at_head S js F c"
  obtain q s where qs: "c = (q, s)" by (cases c)
  let ?q = "update_head (e_state_update (\<lambda>_. st)) q"
  have u: "under_way js q" using c by (simp add: at_head_def qs)
  then have "under_way js ?q" by (rule under_way_update) (simp_all add: job_of_def assms)
  moreover have "queue_list q \<noteq> []" "ring_ok q"
    using u by (auto simp: under_way_def queue_inv_def jobs_def)
  then have "e_state (hd (queue_list ?q)) = st" by (simp add: rq.hd_change)
  ultimately show "\<exists>x c'. set_state st c = (Ok x, c') \<and> at_head S' js F c'"
    using c assms by (simp add: set_state_def on_queue_def qs at_head_def)
qed

lemma at_head_interrupt:
  assumes "fired_hw b m F" "ENTRY_STATE_READY \<in> S"
  shows "ends (at_head S js F) (pre_io b irq i m) (\<lambda>_. at_head S js F)"
proof -
  have clr: "ends (at_head S js F) (on_dev (timer_tamer_clear_interrupt b m)) (\<lambda>_. at_head S js F)"
    using assms(1) by (auto simp: ends_def on_dev_def timer_tamer_clear_interrupt_def tamer_write_def
        wr8_def at_head_def fired_hw_def)
  have fire: "ends (at_head S js F) (seq (on_dev (tamer_compare_fired b m)) (\<lambda>fired.
      when_io fired (set_state ENTRY_STATE_READY))) (\<lambda>_. at_head S js F)"
    by (rule ends_seq [OF at_head_flags(3) [OF assms(1)]])
       (auto intro!: ends_weaken [OF at_head_set_state [of ENTRY_STATE_READY S S]] ends_ret
          simp: assms(2))
  have isr: "ends (at_head S js F) (retune_isr b m) (\<lambda>_. at_head S js F)"
    unfolding ends_def
  proof (intro allI impI)
    fix c assume c: "at_head S js F c"
    obtain q s where qs: "c = (q, s)" by (cases c)
    have q: "\<not> clear_requested q" "peek_next_retune q = Some (hd (queue_list q))"
      using c under_way_head by (auto simp: at_head_def qs under_way_def)
    show "\<exists>x c'. retune_isr b m c = (Ok x, c') \<and> at_head S js F c'"
      using c fire [unfolded ends_def, rule_format, OF c] q
      by (auto simp: retune_isr_def look_def qs seq_def ret_def)
  qed
  show ?thesis
    unfolding pre_io_def retune_interrupt_def
    using ends_seq [OF isr clr] by (auto intro: ends_ret)
qed

lemma at_head_head_state:
  "ends (at_head S js F) head_state (\<lambda>st c. st \<in> S \<and> at_head {st} js F c)"
  unfolding ends_def
proof (intro allI impI)
  fix c assume c: "at_head S js F c"
  obtain q s where qs: "c = (q, s)" by (cases c)
  have "queue_list q \<noteq> []" "ring_ok q"
    using c by (auto simp: qs at_head_def under_way_def queue_inv_def jobs_def)
  then show "\<exists>st c'. head_state c = (Ok st, c') \<and> st \<in> S \<and> at_head {st} js F c'"
    using c by (simp add: qs at_head_def head_state_def look_def qhead_hd)
qed

lemma ends_pure:
  assumes "A \<Longrightarrow> ends P act Q"
  shows "ends (\<lambda>c. A \<and> P c) act Q"
  using assms unfolding ends_def by blast

lemma publish_fired:
  assumes "fired_hw b m F"
  shows "ends (at_head S js F) (publish_scheduled b irq m) (\<lambda>_. at_head {ENTRY_STATE_READY} js F)"
  unfolding publish_scheduled_def
  by (rule ends_seq, rule at_head_set_state
        [where S' = "{ENTRY_STATE_SCHEDULED, ENTRY_STATE_READY}"], simp, simp,
      rule ends_seq, rule at_head_interrupt [OF assms], simp,
      rule ends_seq, rule at_head_flags(3) [OF assms], rule ends_pure, simp,
      rule ends_seq, rule at_head_interrupt [OF assms], simp, rule at_head_set_state; simp)

lemma schedule_pending_fired:
  assumes "fired_hw b m F"
  shows "ends (at_head {ENTRY_STATE_SCHEDULE_PENDING, ENTRY_STATE_READY} js F)
    (work_schedule_pending b irq m) (\<lambda>_. at_head {ENTRY_STATE_READY} js F)"
proof -
  let ?R = "\<lambda>_. at_head {ENTRY_STATE_READY} js F"
  note irq = at_head_interrupt [OF assms] and fl = at_head_flags [OF assms]
  have rest: "ends (at_head {st} js F)
      (seq (pre_io b irq 3 m) (\<lambda>_. when_io (st = ENTRY_STATE_SCHEDULE_PENDING) (publish_scheduled b irq m))) ?R"
    if "st \<in> {ENTRY_STATE_SCHEDULE_PENDING, ENTRY_STATE_READY}" for st
  proof (cases "st = ENTRY_STATE_READY")
    case True
    then show ?thesis by (auto intro!: ends_seq [OF irq] ends_ret)
  next
    case False
    have "ends (at_head {st} js F) (pre_io b irq 3 m) (\<lambda>_. at_head {st, ENTRY_STATE_READY} js F)"
      by (rule ends_weaken [OF irq [of "{st, ENTRY_STATE_READY}"]]) (auto simp: at_head_def)
    then show ?thesis using False that
      by (intro ends_seq) (auto intro: publish_fired [OF assms])
  qed
  show ?thesis
    unfolding work_schedule_pending_def
    by (rule ends_seq, rule fl(1), rule ends_pure, simp, rule ends_seq, rule irq, simp,
        rule ends_seq, rule fl(2), rule ends_pure, simp, rule ends_seq, rule irq, simp,
        rule ends_seq, rule at_head_head_state, rule ends_pure, rule rest)
qed

lemma scheduled_fired:
  assumes "fired_hw b m F"
  shows "ends (at_head {ENTRY_STATE_SCHEDULED, ENTRY_STATE_READY} js F) (work_scheduled b irq m)
    (\<lambda>_. at_head {ENTRY_STATE_READY} js F)"
  unfolding work_scheduled_def
  by (rule ends_seq, rule at_head_flags(3) [OF assms], rule ends_pure, simp,
      rule ends_seq, rule at_head_interrupt [OF assms], simp, rule at_head_set_state; simp)

text \<open>C23. The event of a scheduled retune is not lost to a race: once the schedule is acknowledged
  and the comparator has fired (and the hardware keeps the event), one round of the worker returns
  with the oldest entry ready to be performed, no job added or dropped, at whichever of its
  preemption points the interrupt handler runs, and whether the entry was already published as
  scheduled or not.\<close>

theorem fired_event_not_missed:
  fixes b :: "'m bus_fns"
  assumes "fired_hw b m F" "F (hw s)" "queue_inv q" "jobs q \<noteq> []" "\<not> clear_requested q"
    and "e_state (hd (queue_list q)) \<in> {ENTRY_STATE_SCHEDULE_PENDING, ENTRY_STATE_SCHEDULED}"
  shows "\<exists>q' s'. perform_work b irq m (q, s) = (Ok (), (q', s')) \<and> jobs q' = jobs q \<and>
    e_state (hd (queue_list q')) = ENTRY_STATE_READY"
proof -
  let ?st = "e_state (hd (queue_list q))"
  have u: "under_way (jobs q) q" using assms by (simp add: under_way_def)
  have run: "\<exists>q' s'. act (q, s) = (Ok (), (q', s')) \<and> jobs q' = jobs q \<and>
      e_state (hd (queue_list q')) = ENTRY_STATE_READY"
    if act: "ends (at_head {?st, ENTRY_STATE_READY} (jobs q) F) act
      (\<lambda>_. at_head {ENTRY_STATE_READY} (jobs q) F)" for act :: "'m rt_io"
  proof -
    have "at_head {?st, ENTRY_STATE_READY} (jobs q) F (q, s)" using u assms(2) by (simp add: at_head_def)
    then obtain c where "act (q, s) = (Ok (), c)" "at_head {ENTRY_STATE_READY} (jobs q) F c"
      using act [unfolded ends_def, rule_format, of "(q, s)"] by auto
    then show ?thesis by (cases c) (auto simp: at_head_def under_way_def)
  qed
  show ?thesis
    using assms(6) run schedule_pending_fired [OF assms(1)] scheduled_fired [OF assms(1)]
    by (auto simp: perform_work_def look_def seq_def under_way_head [OF u])
qed

definition fired_bus :: "xb_pins bus_fns" where
  "fired_bus = xb_bus\<lparr>iord8 := (\<lambda>base off x. (0x18, x))\<rparr>"

definition pending_queue :: retune_queue where
  "pending_queue = empty_queue\<lparr>q_count := 1, ins_idx := 1,
     entries := empty_entry\<lparr>e_state := ENTRY_STATE_SCHEDULE_PENDING, e_timestamp := 100\<rparr> #
       replicate 15 empty_entry\<rparr>"

definition fresh_nios :: "xb_pins nios" where
  "fresh_nios = fw (usb_link (fresh_world \<lparr>xb_out = 0, xb_dir = 0, xb_ext = 0\<rparr>))"

lemma fired_event_not_missed_witness:
  "\<exists>q' s'. perform_work fired_bus (\<lambda>i. i = 6) BLADERF_MODULE_RX (pending_queue, fresh_nios) =
      (Ok (), (q', s')) \<and> jobs q' = [(zero_freq, 100)] \<and>
    e_state (hd (queue_list q')) = ENTRY_STATE_READY"
proof -
  have hw: "fired_hw fired_bus BLADERF_MODULE_RX (\<lambda>_. True)"
    by (simp add: fired_hw_def fired_bus_def)
  have l: "queue_list pending_queue =
      [empty_entry\<lparr>e_state := ENTRY_STATE_SCHEDULE_PENDING, e_timestamp := 100\<rparr>]"
    by (simp add: queue_list_def pending_queue_def empty_queue_def)
  have q: "queue_inv pending_queue" "jobs pending_queue = [(zero_freq, 100)]"
    "\<not> clear_requested pending_queue"
    by (simp_all add: queue_inv_def jobs_def l ring_ok_def job_of_def empty_entry_def)
       (simp_all add: pending_queue_def empty_queue_def)
  have st: "e_state (hd (queue_list pending_queue)) \<in>
      {ENTRY_STATE_SCHEDULE_PENDING, ENTRY_STATE_SCHEDULED}" by (simp add: l)
  show ?thesis
    using fired_event_not_missed [OF hw TrueI q(1) _ q(3) st, of "\<lambda>i. i = 6" fresh_nios] q(2)
    by simp
qed

end
