(* ===== verification/Retune_Packet.thy ===== *)
theory Retune_Packet
  imports Retune_Queue
begin

unbundle bit_operations_syntax

text \<open>
  The retune packets and their handler: the fields of requests and responses survive the link,
  and what a scheduled request keeps of its packet.
\<close>

section \<open>Retune packets\<close>

definition retune_fields_fit :: "retune_request \<Rightarrow> bool" where
  "retune_fields_fit q \<longleftrightarrow> rq_module q \<noteq> None \<and> rq_nint q < 512 \<and> rq_nfrac q < 2 ^ 23 \<and>
     rq_freqsel q < 64 \<and> rq_vcocap q < 64"

lemma nint_bytes:
  fixes w :: u16
  assumes "w < 512"
  shows "push_bit 1 (ucast (ucast (drop_bit 1 w AND 0xff) :: u8)) OR
    ucast (drop_bit 7 (ucast (push_bit 7 (w AND 1)) OR ucast (x AND 0x7f) :: u8)) = w"
proof (rule bit_word_eqI)
  have hi: "k < 9" if "bit w k" for k
    using less_pow2_bits [of w 9 k] assms that by (simp add: not_less [symmetric]) blast
  show "bit (push_bit 1 (ucast (ucast (drop_bit 1 w AND 0xff) :: u8)) OR
    ucast (drop_bit 7 (ucast (push_bit 7 (w AND 1)) OR ucast (x AND 0x7f) :: u8)) :: u16) n = bit w n"
    if "n < LENGTH(16)" for n
    using that hi [of n] unfolding low_masks bit_or_iff bit_fields bit_drop_bit_eq o_def bit_take_bit_iff bit_push_bit_iff
    by (cases n) auto
qed

lemma nfrac_bytes:
  fixes w :: u32
  assumes "w < 2 ^ 23"
  shows "push_bit 16 (ucast ((ucast (push_bit 7 (x AND 1)) OR ucast (drop_bit 16 w AND 0x7f)) AND 0x7f :: u8)) OR
    push_bit 8 (ucast (ucast (drop_bit 8 w AND 0xff) :: u8)) OR
    ucast (ucast (w AND 0xff) :: u8) = w"
proof (rule bit_word_eqI)
  have hi: "k < 23" if "bit w k" for k
    using less_pow2_bits [OF assms, of k] that by (simp add: not_less [symmetric]) blast
  show "bit (push_bit 16 (ucast ((ucast (push_bit 7 (x AND 1)) OR ucast (drop_bit 16 w AND 0x7f)) AND 0x7f :: u8)) OR
    push_bit 8 (ucast (ucast (drop_bit 8 w AND 0xff) :: u8)) OR
    ucast (ucast (w AND 0xff) :: u8) :: u32) n = bit w n" if "n < LENGTH(32)" for n
    using that hi [of n] unfolding low_masks bit_or_iff bit_fields bit_drop_bit_eq o_def bit_take_bit_iff bit_push_bit_iff
    by (cases "n < 8"; cases "n < 16"; auto)
qed

lemma small_field:
  fixes v :: u8
  assumes "v < 64"
  shows "(v OR 0x80) AND 0x80 \<noteq> 0" "(v OR 0x40) AND 0x80 = 0" "(v OR 0x40) AND 0x40 \<noteq> 0"
    "(v OR 0x80) AND 0x3f = v" "(v OR 0x40) AND 0x3f = v"
    "((if p then 0x80 else 0) OR (if q then 0x40 else 0) OR v) AND 0x3f = v"
    "(((if p then 0x80 else 0) OR (if q then 0x40 else 0) OR v) AND 0x80 \<noteq> 0) = p"
    "(((if p then 0x80 else 0) OR (if q then 0x40 else 0) OR v) AND 0x40 \<noteq> 0) = q"
proof -
  have hi: "\<not> bit v 6" "\<not> bit v 7" using less_pow2_bits [of v 6] assms by simp_all
  have b: "x AND 0x80 \<noteq> 0 \<longleftrightarrow> bit x 7" "x AND 0x40 \<noteq> 0 \<longleftrightarrow> bit x 6" for x :: u8
    using and_exp_eq_0_iff_not_bit [of x 7] and_exp_eq_0_iff_not_bit [of x 6] by simp_all
  show "(v OR 0x80) AND 0x80 \<noteq> 0" "(v OR 0x40) AND 0x40 \<noteq> 0" unfolding b by (simp_all add: bit_or_iff)
  show "(v OR 0x40) AND 0x80 = 0" using b(1) [of "v OR 0x40"] hi by (simp add: bit_or_iff)
  show "(v OR 0x80) AND 0x3f = v" "(v OR 0x40) AND 0x3f = v"
    "((if p then 0x80 else 0) OR (if q then 0x40 else 0) OR v) AND 0x3f = v"
    by (rule u8_eqI; simp add: bit_or_iff bit_and_iff hi)+
  show "(((if p then 0x80 else 0) OR (if q then 0x40 else 0) OR v) AND 0x80 \<noteq> 0) = p"
    "(((if p then 0x80 else 0) OR (if q then 0x40 else 0) OR v) AND 0x40 \<noteq> 0) = q"
    unfolding b by (simp_all add: bit_or_iff hi)
qed

text \<open>Retune requests survive the link: unpacking a packed request gives back every field, for
  every request whose counters fit the 9 and 23 bits and whose band and VCOCAP selections fit the
  6 bits of the format; the response fields come back unchanged.\<close>

lemma retune_packet_roundtrip:
  assumes "retune_fields_fit q"
  shows "nios_pkt_retune_unpack (nios_pkt_retune_pack q) = q \<and>
    nios_pkt_retune_resp_unpack (nios_pkt_retune_resp_pack d cap fl) = (d, cap, fl)"
proof -
  have f: "rq_nint q < 512" "rq_nfrac q < 2 ^ 23" "rq_freqsel q < 64" "rq_vcocap q < 64"
    and m: "rq_module q \<noteq> None" using assms by (auto simp: retune_fields_fit_def)
  have "nios_pkt_retune_unpack (nios_pkt_retune_pack q) = q"
  proof (rule retune_request.equality)
    let ?q = "nios_pkt_retune_unpack (nios_pkt_retune_pack q)"
    note d = nios_pkt_retune_unpack_def nios_pkt_retune_pack_def Let_def
    obtain md where md: "rq_module q = Some md" using m by blast
    show "rq_module ?q = rq_module q" "rq_freqsel ?q = rq_freqsel q"
      by (cases md; simp add: d md small_field(1-5) [OF f(3)])+
    show "rq_timestamp ?q = rq_timestamp q" by (simp add: d le_bytes)
    show "rq_nint ?q = rq_nint q" using nint_bytes [OF f(1)] by (simp add: d)
    show "rq_nfrac ?q = rq_nfrac q" using nfrac_bytes [OF f(2)] by (simp add: d)
    show "rq_vcocap ?q = rq_vcocap q" "rq_low_band ?q = rq_low_band q" "rq_quick_tune ?q = rq_quick_tune q"
      using small_field [OF f(4)] by (simp_all add: d)
    show "rq_xb_gpio ?q = rq_xb_gpio q" by (simp add: d)
  qed simp
  moreover have "nios_pkt_retune_resp_unpack (nios_pkt_retune_resp_pack d cap fl) = (d, cap, fl)"
    by (simp add: nios_pkt_retune_resp_unpack_def nios_pkt_retune_resp_pack_def le_bytes)
  ultimately show ?thesis ..
qed

lemma retune_packet_roundtrip_witness:
  "nios_pkt_retune_unpack (nios_pkt_retune_pack \<lparr>rq_module = Some BLADERF_MODULE_TX,
      rq_timestamp = 0x123456789, rq_nint = 301, rq_nfrac = 0x7fffff, rq_freqsel = 0x27,
      rq_vcocap = 45, rq_low_band = True, rq_xb_gpio = 0x95, rq_quick_tune = False\<rparr>) =
   \<lparr>rq_module = Some BLADERF_MODULE_TX, rq_timestamp = 0x123456789, rq_nint = 301,
      rq_nfrac = 0x7fffff, rq_freqsel = 0x27, rq_vcocap = 45, rq_low_band = True,
      rq_xb_gpio = 0x95, rq_quick_tune = False\<rparr>"
  by (rule retune_packet_roundtrip [THEN conjunct1]) (simp add: retune_fields_fit_def)


definition schedule_packet :: "u8 list" where
  "schedule_packet = nios_pkt_retune_pack \<lparr>rq_module = Some BLADERF_MODULE_RX, rq_timestamp = 100,
     rq_nint = 301, rq_nfrac = 0, rq_freqsel = 0x27, rq_vcocap = 45, rq_low_band = True,
     rq_xb_gpio = 0x95, rq_quick_tune = False\<rparr>"


end
