(* ===== verification/Si5338.thy ===== *)
theory Si5338
  imports Lms_Base
begin

unbundle bit_operations_syntax

text \<open>
  The clock generator driver (\<^verbatim>\<open>driver/si5338.c\<close>): sample rates and the SMB clock as settings
  of the Si5338's multisynth dividers, and the SMB port modes of \<^verbatim>\<open>driver/smb_clock.c\<close>. The
  chip's registers are accessed through the backend's \<^verbatim>\<open>si5338_read\<close> and \<^verbatim>\<open>si5338_write\<close>, an 8-bit
  register backend like the transceiver's. A rate is written through pointers in C; here the
  functions return the updated structure.
\<close>

type_synonym 's si_backend = "'s lms_backend"

abbreviation (input) si_read :: "'s si_backend \<Rightarrow> u8 \<Rightarrow> ('s, u8) io" where
  "si_read \<equiv> lms_read"
abbreviation (input) si_write :: "'s si_backend \<Rightarrow> u8 \<Rightarrow> u8 \<Rightarrow> ('s, unit) io" where
  "si_write \<equiv> lms_write"

record bladerf_rational_rate =
  rr_integer :: u64
  rr_num :: u64
  rr_den :: u64

record si5338_multisynth =
  ms_index :: u8
  ms_base :: u16
  ms_enable :: u8
  ms_a :: u32
  ms_b :: u32
  ms_c :: u32
  ms_r :: u32
  ms_p1 :: u32
  ms_p2 :: u32
  ms_p3 :: u32
  ms_regs :: "u8 list"

definition SI5338_F_VCO :: u64 where "SI5338_F_VCO = 38400000 * 66"
definition SI5338_EN_A :: u8 where "SI5338_EN_A = 0x01"
definition SI5338_EN_B :: u8 where "SI5338_EN_B = 0x02"
definition BLADERF_SAMPLERATE_MIN :: u64 where "BLADERF_SAMPLERATE_MIN = 80000"
definition BLADERF_SMB_FREQUENCY_MAX :: u64 where "BLADERF_SMB_FREQUENCY_MAX = 200000000"
definition BLADERF_SMB_FREQUENCY_MIN :: u64 where
  "BLADERF_SMB_FREQUENCY_MIN = (38400000 * 66) div (32 * 567)"

section \<open>Rational rates\<close>

function si5338_gcd :: "u64 \<Rightarrow> u64 \<Rightarrow> u64" where
  "si5338_gcd a b = (if b \<noteq> 0 then si5338_gcd b (a mod b) else a)"
  by pat_completeness auto

termination
proof (relation "measure (\<lambda>(a, b). unat b)")
  fix a b :: u64 assume "b \<noteq> 0"
  then show "((b, a mod b), (a, b)) \<in> measure (\<lambda>(a, b). unat b)"
    by (simp add: unat_mod unat_gt_0)
qed simp

declare si5338_gcd.simps [simp del]

definition si5338_rational_reduce :: "bladerf_rational_rate \<Rightarrow> bladerf_rational_rate" where
  \<comment> \<open>\<^verbatim>\<open>val\<close> is an \<^verbatim>\<open>int64_t\<close>: a divisor with its top bit set counts as negative\<close>
  "si5338_rational_reduce r =
     (let r = (if 0 < rr_den r \<and> rr_den r \<le> rr_num r
               then (let whole = rr_num r div rr_den r in
                     r\<lparr>rr_integer := rr_integer r + whole,
                       rr_num := rr_num r - whole * rr_den r\<rparr>)
               else r);
          val = si5338_gcd (rr_num r) (rr_den r) in
      if 0 < sint val then r\<lparr>rr_num := rr_num r div val, rr_den := rr_den r div val\<rparr> else r)"

definition si5338_rational_double :: "bladerf_rational_rate \<Rightarrow> bladerf_rational_rate" where
  "si5338_rational_double r =
     si5338_rational_reduce (r\<lparr>rr_integer := rr_integer r * 2, rr_num := rr_num r * 2\<rparr>)"

section \<open>Multisynth registers\<close>

definition si5338_update_base :: "si5338_multisynth \<Rightarrow> si5338_multisynth" where
  "si5338_update_base ms = ms\<lparr>ms_base := 53 + ucast (ms_index ms) * 11\<rparr>"

definition si5338_unpack_regs :: "si5338_multisynth \<Rightarrow> si5338_multisynth outcome" where
  "si5338_unpack_regs ms =
     (let rg = (\<lambda>i. ucast (ms_regs ms ! i) :: u32);
          p1 = push_bit 16 (rg 2 AND 3) OR push_bit 8 (rg 1) OR rg 0;
          p2 = push_bit 22 (rg 5) OR push_bit 14 (rg 4) OR push_bit 6 (rg 3) OR
               (drop_bit 2 (rg 2) AND 0x3f);
          p3 = push_bit 24 (rg 9 AND 0x3f) OR push_bit 16 (rg 8) OR push_bit 8 (rg 7) OR rg 6;
          a = (p1 + 512) div 128;
          temp = ucast (p1 + 512) - 128 * (ucast a :: u64);
          temp = temp * ucast p3 + ucast p2;
          temp = (temp + 64) div 128 in
      if temp \<le> 0xffffffff
      then Ok (ms\<lparr>ms_p1 := p1, ms_p2 := p2, ms_p3 := p3, ms_c := p3, ms_a := a,
                  ms_b := ucast temp\<rparr>)
      else Undef)"

definition si5338_pack_regs :: "si5338_multisynth \<Rightarrow> si5338_multisynth outcome" where
  \<comment> \<open>\<open>Undef\<close> for a division by zero or a failed assertion\<close>
  "si5338_pack_regs ms =
     (if ms_c ms = 0 then Undef
      else
        (let t1 = (ucast (ms_a ms) * ucast (ms_c ms) + ucast (ms_b ms)) * 128 div ucast (ms_c ms)
                    - 512 :: u64;
             t2 = ucast (ms_b ms) * 128 mod ucast (ms_c ms) :: u64;
             p1 = ucast t1; p2 = ucast t2; p3 = ms_c ms in
         if t1 \<le> 0xffffffff \<and> t2 \<le> 0xffffffff
         then Ok (ms\<lparr>ms_p1 := p1, ms_p2 := p2, ms_p3 := p3,
                ms_regs := [ucast (p1 AND 0xff), ucast (drop_bit 8 p1 AND 0xff),
                  ucast (push_bit 2 (p2 AND 0x3f) OR (drop_bit 16 p1 AND 3)),
                  ucast (drop_bit 6 p2 AND 0xff), ucast (drop_bit 14 p2 AND 0xff),
                  ucast (drop_bit 22 p2 AND 0xff), ucast (p3 AND 0xff),
                  ucast (drop_bit 8 p3 AND 0xff), ucast (drop_bit 16 p3 AND 0xff),
                  ucast (drop_bit 24 p3 AND 0xff)]\<rparr>)
         else Undef))"

definition reg_addr :: "u16 \<Rightarrow> nat \<Rightarrow> u8" where
  \<comment> \<open>\<^verbatim>\<open>ms->base + i\<close> converted to the accessor's \<^verbatim>\<open>uint8_t\<close>\<close>
  "reg_addr base i = ucast (base + of_nat i)"

fun write_seq :: "'s si_backend \<Rightarrow> (u8 \<times> u8) list \<Rightarrow> ('s, unit) io" where
  \<comment> \<open>a sequence of register writes that stops at the first failure\<close>
  "write_seq dev [] = ret ()"
| "write_seq dev ((a, v) # rest) = seq (si_write dev a v) (\<lambda>_. write_seq dev rest)"

fun read_seq :: "'s si_backend \<Rightarrow> u8 list \<Rightarrow> ('s, u8 list) io" where
  "read_seq dev [] = ret []"
| "read_seq dev (a # rest) =
     seq (si_read dev a) (\<lambda>v. seq (read_seq dev rest) (\<lambda>vs. ret (v # vs)))"

lemma unat_half: "unat (drop_bit 1 (w :: 'l::len word)) = unat w div 2"
  unfolding unat_drop_bit_eq by (simp add: drop_bit_eq_div)

function r_power_of :: "u8 \<Rightarrow> u8" where
  \<comment> \<open>\<^verbatim>\<open>while (r_count > 0) { r_count >>= 1; r_power++; }\<close>\<close>
  "r_power_of r_count = (if 0 < r_count then r_power_of (drop_bit 1 r_count) + 1 else 0)"
  by pat_completeness auto

termination
proof (relation "measure unat")
  fix r :: u8 assume "0 < r"
  then show "(drop_bit 1 r, r) \<in> measure unat"
    by (simp only: in_measure unat_half) (simp add: word_less_nat_alt)
qed simp

declare r_power_of.simps [simp del]

definition si5338_write_multisynth :: "'s si_backend \<Rightarrow> si5338_multisynth \<Rightarrow> ('s, unit) io" where
  "si5338_write_multisynth dev ms =
     seq (si_read dev (36 + ms_index ms)) (\<lambda>val.
     seq (si_write dev (36 + ms_index ms) (val OR ms_enable ms)) (\<lambda>_.
     seq (write_seq dev (map (\<lambda>i. (reg_addr (ms_base ms) i, ms_regs ms ! i)) [0..<10])) (\<lambda>_.
     si_write dev (31 + ms_index ms)
       (0xc0 OR push_bit 2 (r_power_of (ucast (drop_bit 1 (ms_r ms))))))))"

definition si5338_read_multisynth ::
    "'s si_backend \<Rightarrow> si5338_multisynth \<Rightarrow> ('s, si5338_multisynth) io" where
  "si5338_read_multisynth dev ms =
     seq (si_read dev (36 + ms_index ms)) (\<lambda>en.
     seq (read_seq dev (map (reg_addr (ms_base ms)) [0..<10])) (\<lambda>rs.
     seq (si_read dev (31 + ms_index ms)) (\<lambda>val.
     status_io (si5338_unpack_regs (ms\<lparr>ms_enable := en AND 7, ms_regs := rs,
         ms_r := push_bit (unat (drop_bit 2 val AND 7)) 1\<rparr>)))))"

section \<open>Divider settings\<close>

definition si5338_calculate_ms_freq :: "si5338_multisynth \<Rightarrow> bladerf_rational_rate" where
  "si5338_calculate_ms_freq ms =
     (let a = ucast (ms_a ms) :: u64; b = ucast (ms_b ms); c = ucast (ms_c ms);
          den = ucast (ms_r ms) * (a * c + b) in
      si5338_rational_reduce
        \<lparr>rr_integer = 0, rr_num = SI5338_F_VCO * c,
         rr_den = (if ms_index ms = 1 \<or> ms_index ms = 2 then den * 2 else den)\<rparr>)"

fun find_r :: "nat \<Rightarrow> bladerf_rational_rate \<Rightarrow> u8 \<Rightarrow> bladerf_rational_rate \<times> u8" where
  \<comment> \<open>the search for a suitable R; five doublings reach the bound 32\<close>
  "find_r 0 req r_value = (req, r_value)"
| "find_r (Suc n) req r_value =
     (if rr_integer req < 5000000 \<and> r_value < 32
      then find_r n (si5338_rational_double req) (push_bit 1 r_value)
      else (req, r_value))"

function drop_precision :: "u64 \<Rightarrow> u64 \<Rightarrow> u64 \<times> u64" where
  "drop_precision num den =
     (if num > 2 ^ 30 \<or> den > 2 ^ 30 then drop_precision (drop_bit 1 num) (drop_bit 1 den)
      else (num, den))"
  by pat_completeness auto

termination
proof (relation "measure (\<lambda>(n, d). unat n + unat d)")
  fix n d :: u64 assume "n > 2 ^ 30 \<or> d > 2 ^ 30"
  then have "0 < unat n \<or> 0 < unat d" by (auto simp: word_less_nat_alt)
  then show "((drop_bit 1 n, drop_bit 1 d), (n, d)) \<in> measure (\<lambda>(n, d). unat n + unat d)"
    by (simp only: in_measure case_prod_conv unat_half) linarith
qed simp

declare drop_precision.simps [simp del]

definition si5338_calculate_multisynth ::
    "si5338_multisynth \<Rightarrow> bladerf_rational_rate \<Rightarrow> si5338_multisynth outcome" where
  "si5338_calculate_multisynth ms rate =
     (let req = (if ms_index ms = 1 \<or> ms_index ms = 2 then si5338_rational_double rate else rate);
          (req, r_value) = find_r 5 req 1 in
      if r_value = 32 \<and> rr_integer req < 5000000 then Err BLADERF_ERR_INVAL
      else
        (let abc = si5338_rational_reduce
               \<lparr>rr_integer = 0, rr_num = SI5338_F_VCO * rr_den req,
                rr_den = rr_integer req * rr_den req + rr_num req\<rparr>;
             a = rr_integer abc in
         if a < 8 \<and> a \<in> {0, 1, 2, 3, 5, 7} then Err BLADERF_ERR_INVAL
         else if 567 < a then Err BLADERF_ERR_INVAL
         else
           (case drop_precision (rr_num abc) (rr_den abc) of (num, den) \<Rightarrow>
              if a \<le> 0xffffffff \<and> num \<le> 0xffffffff \<and> den \<le> 0xffffffff
              then si5338_pack_regs (ms\<lparr>ms_a := ucast a, ms_b := ucast num, ms_c := ucast den,
                                        ms_r := ucast r_value\<rparr>)
              else Undef)))"

definition new_multisynth :: "u8 \<Rightarrow> u8 \<Rightarrow> si5338_multisynth" where
  \<comment> \<open>a \<^verbatim>\<open>struct si5338_multisynth\<close> on the stack; the fields that are computed later are 0 here\<close>
  "new_multisynth index channel =
     si5338_update_base \<lparr>ms_index = index, ms_base = 0, ms_enable = channel, ms_a = 0, ms_b = 0,
       ms_c = 0, ms_r = 0, ms_p1 = 0, ms_p2 = 0, ms_p3 = 0, ms_regs = replicate 10 0\<rparr>"

definition si5338_set_rational_multisynth ::
    "'s si_backend \<Rightarrow> u8 \<Rightarrow> u8 \<Rightarrow> bladerf_rational_rate \<Rightarrow> ('s, bladerf_rational_rate) io" where
  "si5338_set_rational_multisynth dev index channel rate =
     seq (status_io (si5338_calculate_multisynth (new_multisynth index channel)
            (si5338_rational_reduce rate))) (\<lambda>ms.
     seq (si5338_write_multisynth dev ms) (\<lambda>_. ret (si5338_calculate_ms_freq ms)))"

definition rate_index :: "bladerf_module \<Rightarrow> u8" where
  "rate_index ch = (if ch = BLADERF_MODULE_RX then 1 else 2)"

definition si5338_set_rational_sample_rate ::
    "'s si_backend \<Rightarrow> bladerf_module \<Rightarrow> bladerf_rational_rate \<Rightarrow> ('s, bladerf_rational_rate) io" where
  "si5338_set_rational_sample_rate dev ch rate =
     (let rate_reduced = si5338_rational_reduce rate;
          channel = (if ch = BLADERF_MODULE_TX then SI5338_EN_A OR SI5338_EN_B else SI5338_EN_A) in
      if rr_integer rate_reduced < BLADERF_SAMPLERATE_MIN then fail BLADERF_ERR_INVAL
      else si5338_set_rational_multisynth dev (rate_index ch) channel rate_reduced)"

definition si5338_set_rational_smb_freq ::
    "'s si_backend \<Rightarrow> bladerf_rational_rate \<Rightarrow> ('s, bladerf_rational_rate) io" where
  "si5338_set_rational_smb_freq dev rate =
     (let rate_reduced = si5338_rational_reduce rate in
      if rr_integer rate_reduced < BLADERF_SMB_FREQUENCY_MIN then fail BLADERF_ERR_INVAL
      else if rr_integer rate_reduced > BLADERF_SMB_FREQUENCY_MAX then fail BLADERF_ERR_INVAL
      else si5338_set_rational_multisynth dev 3 SI5338_EN_A rate_reduced)"

definition integer_rate :: "bladerf_rational_rate \<Rightarrow> ('s, u32) io" where
  \<comment> \<open>\<^verbatim>\<open>assert(act.integer <= UINT32_MAX)\<close> and the truncation of the fraction\<close>
  "integer_rate act =
     seq (assert_io (rr_integer act \<le> 0xffffffff)) (\<lambda>_. ret (ucast (rr_integer act)))"

definition si5338_set_sample_rate ::
    "'s si_backend \<Rightarrow> bladerf_module \<Rightarrow> u32 \<Rightarrow> ('s, u32) io" where
  "si5338_set_sample_rate dev ch rate =
     seq (si5338_set_rational_sample_rate dev ch
            \<lparr>rr_integer = ucast rate, rr_num = 0, rr_den = 1\<rparr>) integer_rate"

definition si5338_set_smb_freq :: "'s si_backend \<Rightarrow> u32 \<Rightarrow> ('s, u32) io" where
  "si5338_set_smb_freq dev rate =
     seq (si5338_set_rational_smb_freq dev
            \<lparr>rr_integer = ucast rate, rr_num = 0, rr_den = 1\<rparr>) integer_rate"

definition si5338_get_rational_sample_rate ::
    "'s si_backend \<Rightarrow> bladerf_module \<Rightarrow> ('s, bladerf_rational_rate) io" where
  "si5338_get_rational_sample_rate dev ch =
     seq (si5338_read_multisynth dev (new_multisynth (rate_index ch) 0)) (\<lambda>ms.
     ret (si5338_calculate_ms_freq ms))"

definition si5338_get_rational_smb_freq :: "'s si_backend \<Rightarrow> ('s, bladerf_rational_rate) io" where
  "si5338_get_rational_smb_freq dev =
     seq (si5338_read_multisynth dev (new_multisynth 3 0)) (\<lambda>ms.
     ret (si5338_calculate_ms_freq ms))"

definition si5338_get_sample_rate :: "'s si_backend \<Rightarrow> bladerf_module \<Rightarrow> ('s, u32) io" where
  "si5338_get_sample_rate dev ch = seq (si5338_get_rational_sample_rate dev ch) integer_rate"

definition si5338_get_smb_freq :: "'s si_backend \<Rightarrow> ('s, u32) io" where
  "si5338_get_smb_freq dev = seq (si5338_get_rational_smb_freq dev) integer_rate"

section \<open>The SMB clock port\<close>

datatype bladerf_smb_mode =
    BLADERF_SMB_MODE_INVALID | BLADERF_SMB_MODE_DISABLED | BLADERF_SMB_MODE_OUTPUT
  | BLADERF_SMB_MODE_INPUT | BLADERF_SMB_MODE_UNAVAILBLE

definition default_config :: "(u8 \<times> u8) list" where
  "default_config = [(6, 0x08), (28, 0x0b), (29, 0x08), (30, 0xb0), (34, 0xe3), (39, 0x00),
     (86, 0), (87, 0), (88, 0), (89, 0), (90, 0), (91, 0), (92, 0), (93, 0), (94, 0), (95, 0)]"

definition input_config :: "(u8 \<times> u8) list" where
  "input_config = [(6, 0x04), (28, 0x2b), (29, 0x28), (30, 0xa8)]"

definition output_config :: "(u8 \<times> u8) list" where
  "output_config = [(34, 0x22)]"

definition smb_mode_input :: "'s si_backend \<Rightarrow> ('s, unit) io" where
  "smb_mode_input dev =
     seq (write_seq dev input_config) (\<lambda>_.
     seq (si_read dev 39) (\<lambda>val. si_write dev 39 (val AND NOT 1)))"

definition smb_mode_output :: "'s si_backend \<Rightarrow> ('s, unit) io" where
  "smb_mode_output dev =
     seq (si_read dev 39) (\<lambda>val.
     seq (si_write dev 39 (val OR 1)) (\<lambda>_. write_seq dev output_config))"

definition smb_mode_disabled :: "'s si_backend \<Rightarrow> ('s, unit) io" where
  "smb_mode_disabled dev = write_seq dev default_config"

definition smb_clock_set_mode :: "'s si_backend \<Rightarrow> bladerf_smb_mode \<Rightarrow> ('s, unit) io" where
  "smb_clock_set_mode dev mode =
     seq (smb_mode_disabled dev) (\<lambda>_.
     case mode of
       BLADERF_SMB_MODE_DISABLED \<Rightarrow> ret ()
     | BLADERF_SMB_MODE_OUTPUT \<Rightarrow> smb_mode_output dev
     | BLADERF_SMB_MODE_INPUT \<Rightarrow> smb_mode_input dev
     | _ \<Rightarrow> fail BLADERF_ERR_INVAL)"

definition smb_clock_get_mode :: "'s si_backend \<Rightarrow> ('s, bladerf_smb_mode) io" where
  "smb_clock_get_mode dev =
     seq (si_read dev 39) (\<lambda>val.
     if val AND 7 = 0 then
       seq (si_read dev 28) (\<lambda>val.
       ret (if val AND push_bit 5 1 \<noteq> 0 then BLADERF_SMB_MODE_INPUT
            else BLADERF_SMB_MODE_DISABLED))
     else if val AND 7 = 1 then ret BLADERF_SMB_MODE_OUTPUT
     else if val AND 7 = 2 then ret BLADERF_SMB_MODE_UNAVAILBLE
     else fail BLADERF_ERR_UNSUPPORTED)"

end
