(* ===== verification/Si5338_Rates.thy ===== *)
theory Si5338_Rates
  imports Si5338 Lms_Tune_Params
begin

unbundle bit_operations_syntax

text \<open>
  Correctness of the clock generator's divider settings: the driver's gcd and reduction of
  rational rates against their arithmetic, the packing of a divider into registers, and the
  search for a divider. A rate with a small denominator is realised exactly.
\<close>

section \<open>Rational rates\<close>

lemma si5338_gcd_eq: "unat (si5338_gcd a b) = gcd (unat a) (unat b)"
proof (induction a b rule: si5338_gcd.induct)
  case (1 a b)
  show ?case
  proof (cases "b = 0")
    case True
    then show ?thesis by (simp add: si5338_gcd.simps)
  next
    case False
    then have "unat (si5338_gcd a b) = gcd (unat b) (unat (a mod b))"
      using "1.IH" by (simp add: si5338_gcd.simps [of a b])
    also have "\<dots> = gcd (unat a) (unat b)"
      using gcd_red_nat [of "unat a" "unat b"] by (simp add: unat_mod gcd.commute)
    finally show ?thesis .
  qed
qed

definition rr_val :: "bladerf_rational_rate \<Rightarrow> rat" where
  "rr_val r = of_nat (unat (rr_integer r)) + of_nat (unat (rr_num r)) / of_nat (unat (rr_den r))"

definition rr_normal :: "bladerf_rational_rate \<Rightarrow> bool" where
  \<comment> \<open>a proper fraction in lowest terms\<close>
  "rr_normal r \<longleftrightarrow> rr_num r < rr_den r \<and> coprime (unat (rr_num r)) (unat (rr_den r))"

lemma sint_pos:
  fixes w :: u64
  assumes "0 < unat w" "unat w < 2 ^ 63"
  shows "0 < sint w"
proof -
  have "\<not> bit w 63"
    using assms(2) less_pow2_bits [of w 63 63] by (simp add: word_less_nat_alt)
  moreover have "take_bit 63 (uint w) = uint w"
  proof (rule take_bit_int_eq_self)
    show "uint w < 2 ^ 63"
      unfolding uint_nat using assms(2) by (metis of_nat_less_iff of_nat_numeral of_nat_power)
  qed simp
  ultimately have "sint w = uint w"
    by (simp add: sint_uint signed_take_bit_eq_if_positive bit_uint_iff)
  then show ?thesis using assms(1) by (simp only: uint_nat of_nat_0_less_iff)
qed

lemma reduce_parts:
  fixes r :: bladerf_rational_rate
  defines "n \<equiv> unat (rr_num r)" and "d \<equiv> unat (rr_den r)" and "i \<equiv> unat (rr_integer r)"
  assumes "0 < d" "d < 2 ^ 63" "i + n div d < 2 ^ 64"
  shows "unat (rr_integer (si5338_rational_reduce r)) = i + n div d"
    "unat (rr_num (si5338_rational_reduce r)) = (n mod d) div gcd (n mod d) d"
    "unat (rr_den (si5338_rational_reduce r)) = d div gcd (n mod d) d"
proof -
  define r1 where "r1 = (if 0 < rr_den r \<and> rr_den r \<le> rr_num r
     then (let whole = rr_num r div rr_den r in r\<lparr>rr_integer := rr_integer r + whole,
       rr_num := rr_num r - whole * rr_den r\<rparr>) else r)"
  have d0: "0 < rr_den r" using assms(4) by (simp add: d_def word_less_nat_alt)
  have r1: "unat (rr_integer r1) = i + n div d" "unat (rr_num r1) = n mod d" "rr_den r1 = rr_den r"
  proof -
    have "rr_num r - rr_num r div rr_den r * rr_den r = rr_num r mod rr_den r"
      by (simp add: minus_div_mult_eq_mod)
    then have m: "unat (rr_num r - rr_num r div rr_den r * rr_den r) = n mod d"
      by (simp add: unat_mod n_def d_def)
    have "unat (rr_integer r + rr_num r div rr_den r) = i + n div d"
      using assms(6) by (simp add: unat_word_ariths unat_div i_def n_def d_def)
    with m d0 show "unat (rr_integer r1) = i + n div d" "unat (rr_num r1) = n mod d"
        "rr_den r1 = rr_den r"
      by (auto simp: r1_def Let_def word_le_nat_alt i_def n_def d_def)
  qed
  define g where "g = si5338_gcd (rr_num r1) (rr_den r1)"
  have g: "unat g = gcd (n mod d) d" by (simp add: g_def si5338_gcd_eq r1 d_def)
  moreover have "0 < gcd (n mod d) d" "gcd (n mod d) d \<le> d" using assms(4) by (simp_all add: gcd_le2_nat)
  ultimately have pos: "0 < sint g" using assms(5) by (intro sint_pos) simp_all
  have e: "si5338_rational_reduce r = r1\<lparr>rr_num := rr_num r1 div g, rr_den := rr_den r1 div g\<rparr>"
    unfolding si5338_rational_reduce_def Let_def r1_def [unfolded Let_def, symmetric]
    using pos by (simp add: g_def)
  show "unat (rr_integer (si5338_rational_reduce r)) = i + n div d"
    "unat (rr_num (si5338_rational_reduce r)) = (n mod d) div gcd (n mod d) d"
    "unat (rr_den (si5338_rational_reduce r)) = d div gcd (n mod d) d"
    using r1 g by (simp_all add: e unat_div d_def)
qed

lemma reduce_normal_val:
  assumes "0 < rr_den r" "unat (rr_den r) < 2 ^ 63"
    "unat (rr_integer r) + unat (rr_num r) div unat (rr_den r) < 2 ^ 64"
  shows "rr_normal (si5338_rational_reduce r)" "rr_val (si5338_rational_reduce r) = rr_val r"
    "unat (rr_den (si5338_rational_reduce r)) \<le> unat (rr_den r)"
proof -
  define n d i where "n = unat (rr_num r)" and "d = unat (rr_den r)" and "i = unat (rr_integer r)"
  define g where "g = gcd (n mod d) d"
  have d: "0 < d" using assms(1) by (simp add: d_def word_less_nat_alt)
  have g: "0 < g" using d by (simp add: g_def)
  have p: "unat (rr_integer (si5338_rational_reduce r)) = i + n div d"
    "unat (rr_num (si5338_rational_reduce r)) = (n mod d) div g"
    "unat (rr_den (si5338_rational_reduce r)) = d div g"
    using reduce_parts [of r] d assms(2,3) by (simp_all add: g_def n_def d_def i_def)
  have dv: "g dvd n mod d" "g dvd d" by (simp_all add: g_def)
  show "unat (rr_den (si5338_rational_reduce r)) \<le> unat (rr_den r)"
    unfolding p by (simp add: d_def)
  have "(n mod d) div g < d div g"
    using dv g d by (metis div_less_iff_less_mult dvd_div_mult_self mod_less_divisor)
  moreover have "coprime ((n mod d) div g) (d div g)"
    unfolding g_def using d by (intro div_gcd_coprime) auto
  ultimately show "rr_normal (si5338_rational_reduce r)"
    by (simp add: rr_normal_def word_less_nat_alt p)
  have "of_nat ((n mod d) div g) / of_nat (d div g) = (of_nat (n mod d) / of_nat d :: rat)"
  proof -
    obtain k1 k2 where "n mod d = g * k1" "d = g * k2" using dv by (auto elim!: dvdE)
    then show ?thesis using g by simp
  qed
  moreover have "of_nat n / of_nat d = (of_nat (n div d) + of_nat (n mod d) / of_nat d :: rat)"
  proof -
    have "(of_nat n :: rat) = of_nat (n div d) * of_nat d + of_nat (n mod d)"
      by (metis div_mult_mod_eq of_nat_add of_nat_mult)
    then show ?thesis using d by (simp add: field_simps)
  qed
  ultimately show "rr_val (si5338_rational_reduce r) = rr_val r"
    by (simp add: rr_val_def p n_def [symmetric] d_def [symmetric] i_def [symmetric])
qed
lemma normal_floor:
  assumes "rr_normal r"
  shows "of_nat (unat (rr_integer r)) \<le> rr_val r" "rr_val r < of_nat (unat (rr_integer r)) + 1"
  using assms
  by (simp_all add: rr_normal_def rr_val_def word_less_nat_alt divide_less_eq del: of_nat_unat)

lemma normal_unique:
  assumes "rr_normal r" "rr_normal r'" "rr_val r = rr_val r'"
  shows "r = r'"
proof -
  have "\<bar>rat_of_nat (unat (rr_integer r)) - of_nat (unat (rr_integer r'))\<bar> < 1"
    using normal_floor [OF assms(1)] normal_floor [OF assms(2)] assms(3) by linarith
  then have i: "unat (rr_integer r) = unat (rr_integer r')" by linarith
  have d: "0 < unat (rr_den r)" "0 < unat (rr_den r')"
    using assms(1,2) by (auto simp: rr_normal_def word_less_nat_alt)
  have "rat_of_nat (unat (rr_num r)) / of_nat (unat (rr_den r)) =
      of_nat (unat (rr_num r')) / of_nat (unat (rr_den r'))"
    using assms(3) i by (simp add: rr_val_def)
  then have "rat_of_nat (unat (rr_num r) * unat (rr_den r')) = of_nat (unat (rr_num r') * unat (rr_den r))"
    using d by (simp add: frac_eq_eq del: of_nat_unat)
  then have "unat (rr_num r) * unat (rr_den r') = unat (rr_num r') * unat (rr_den r)"
    unfolding of_nat_eq_iff .
  then have "unat (rr_num r) = unat (rr_num r')" "unat (rr_den r) = unat (rr_den r')"
    using coprime_crossproduct_nat [of "unat (rr_num r)" "unat (rr_den r)" "unat (rr_num r')" "unat (rr_den r')"]
      assms(1,2) by (simp_all add: rr_normal_def mult.commute)
  with i show ?thesis by (intro bladerf_rational_rate.equality) (simp_all add: word_unat_eq_iff)
qed

lemma reduce_normal:
  assumes "rr_normal r" "unat (rr_den r) < 2 ^ 63"
  shows "si5338_rational_reduce r = r"
proof -
  have "unat (rr_num r) div unat (rr_den r) = 0" "0 < rr_den r"
    using assms(1) by (auto simp: rr_normal_def word_less_nat_alt)
  then have "rr_normal (si5338_rational_reduce r)" "rr_val (si5338_rational_reduce r) = rr_val r"
    using reduce_normal_val [of r] assms(2) unsigned_less [of "rr_integer r"] by simp_all
  then show ?thesis using normal_unique assms(1) by blast
qed

lemma double_normal:
  assumes "rr_normal r" "unat (rr_den r) < 2 ^ 32" "rr_val r < 2 ^ 32"
  shows "rr_normal (si5338_rational_double r)" "rr_val (si5338_rational_double r) = 2 * rr_val r"
    "unat (rr_den (si5338_rational_double r)) \<le> unat (rr_den r)"
proof -
  let ?r = "r\<lparr>rr_integer := rr_integer r * 2, rr_num := rr_num r * 2\<rparr>"
  have "rat_of_nat (unat (rr_integer r)) < 2 ^ 32" using normal_floor(1) [OF assms(1)] assms(3) by linarith
  then have "rat_of_nat (unat (rr_integer r)) < of_nat (2 ^ 32)" by simp
  then have i: "unat (rr_integer r) < 2 ^ 32" unfolding of_nat_less_iff .
  have n: "unat (rr_num r) < unat (rr_den r)" using assms(1) by (simp add: rr_normal_def word_less_nat_alt)
  have u: "unat (rr_integer r * 2) = 2 * unat (rr_integer r)" "unat (rr_num r * 2) = 2 * unat (rr_num r)"
    using i n assms(2) by (simp_all add: unat_word_ariths)
  have d: "0 < rr_den r" using n by (simp add: word_less_nat_alt)
  have s: "unat (rr_integer ?r) + unat (rr_num ?r) div unat (rr_den ?r) < 2 ^ 64"
  proof -
    have "unat (rr_num ?r) div unat (rr_den ?r) \<le> unat (rr_num ?r)" by (rule div_le_dividend)
    then have "unat (rr_integer ?r) + unat (rr_num ?r) div unat (rr_den ?r) \<le>
        2 * unat (rr_integer r) + 2 * unat (rr_num r)" using u by simp
    also have "\<dots> < 2 ^ 64" using i n assms(2) by simp
    finally show ?thesis .
  qed
  note p = reduce_normal_val [of ?r]
  show "rr_normal (si5338_rational_double r)" "unat (rr_den (si5338_rational_double r)) \<le> unat (rr_den r)"
    using p(1,3) d s assms(2) by (simp_all add: si5338_rational_double_def)
  have "rr_val ?r = 2 * rr_val r" using u by (simp add: rr_val_def)
  then show "rr_val (si5338_rational_double r) = 2 * rr_val r"
    using p(2) d s assms(2) by (simp add: si5338_rational_double_def)
qed

lemma find_r_spec:
  assumes "rr_normal q" "unat (rr_den q) < 2 ^ 32" "rr_val q < 2 ^ 32" "n \<le> 5"
    and "find_r n q (2 ^ (5 - n)) = (q', rv)"
  shows "\<exists>k. k \<le> n \<and> rv = 2 ^ (5 - n + k) \<and> rr_normal q' \<and> rr_val q' = 2 ^ k * rr_val q \<and>
    unat (rr_den q') \<le> unat (rr_den q) \<and> (k = n \<or> 5000000 \<le> rr_integer q') \<and>
    (k = 0 \<or> rr_val q' < 10000000)"
  using assms
proof (induction n arbitrary: q)
  case 0
  then show ?case by auto
next
  case (Suc n)
  have small: "(2 ^ (5 - Suc n) :: u8) < 32"
  proof -
    have "5 - Suc n \<in> {0, 1, 2, 3, 4}" by auto
    then show ?thesis by auto
  qed
  show ?case
  proof (cases "rr_integer q < 5000000")
    case False
    then have "q' = q" "rv = 2 ^ (5 - Suc n)" using Suc.prems(5) by simp_all
    then show ?thesis using False Suc.prems by (intro exI [of _ 0]) (simp add: not_less)
  next
    case True
    let ?q = "si5338_rational_double q"
    have "unat (rr_integer q) + 1 \<le> 5000000" using True by (simp add: word_less_nat_alt)
    then have "rat_of_nat (unat (rr_integer q) + 1) \<le> of_nat 5000000" unfolding of_nat_le_iff .
    then have v: "rr_val q < 5000000" using normal_floor(2) [OF Suc.prems(1)] by simp
    note d = double_normal [OF Suc.prems(1-3)]
    have e: "push_bit 1 (2 ^ (5 - Suc n)) = (2 ^ (5 - n) :: u8)"
    proof -
      have "5 - n = Suc (5 - Suc n)" using Suc.prems(4) by arith
      then show ?thesis by (simp add: push_bit_eq_mult mult.commute)
    qed
    have run: "find_r n ?q (2 ^ (5 - n)) = (q', rv)"
      using Suc.prems(5) True small e by simp
    have pre: "unat (rr_den ?q) < 2 ^ 32" "rr_val ?q < 2 ^ 32" "n \<le> 5"
      using d v Suc.prems(2,4) by simp_all
    obtain k where k: "k \<le> n" "rv = 2 ^ (5 - n + k)" "rr_normal q'" "rr_val q' = 2 ^ k * rr_val ?q"
      "unat (rr_den q') \<le> unat (rr_den ?q)" "k = n \<or> 5000000 \<le> rr_integer q'"
      "k = 0 \<or> rr_val q' < 10000000"
      using Suc.IH [OF d(1) pre run] by blast
    moreover have "5 - n + k = 5 - Suc n + Suc k" using Suc.prems(4) by simp
    ultimately show ?thesis
      using d v by (intro exI [of _ "Suc k"]) auto
  qed
qed
section \<open>Multisynth registers\<close>

lemma and_3: "w AND 3 = take_bit 2 (w :: 'l::len word)"
  by (simp add: take_bit_eq_mask mask_eq_exp_minus_1)

lemmas reg_bits = low_masks and_3 bit_or_iff bit_fields bit_drop_bit_eq o_def bit_take_bit_iff
  bit_push_bit_iff

lemma p1_bytes:
  fixes p1 p2 :: u32
  assumes "p1 < 2 ^ 18"
  shows "push_bit 16 (ucast (ucast (push_bit 2 (p2 AND 0x3f) OR (drop_bit 16 p1 AND 3)) :: u8) AND 3) OR
    push_bit 8 (ucast (ucast (drop_bit 8 p1 AND 0xff) :: u8)) OR ucast (ucast (p1 AND 0xff) :: u8) = p1"
    (is "?l = _")
proof (rule bit_word_eqI)
  show "bit ?l n = bit p1 n" if "n < LENGTH(32)" for n
    using that less_pow2_bits [OF assms, of n] unfolding reg_bits
    by (cases "n < 8"; cases "n < 16"; cases "n < 18") auto
qed

lemma p2_bytes:
  fixes p1 p2 :: u32
  assumes "p2 < 2 ^ 30"
  shows "push_bit 22 (ucast (ucast (drop_bit 22 p2 AND 0xff) :: u8)) OR
    push_bit 14 (ucast (ucast (drop_bit 14 p2 AND 0xff) :: u8)) OR
    push_bit 6 (ucast (ucast (drop_bit 6 p2 AND 0xff) :: u8)) OR
    (drop_bit 2 (ucast (ucast (push_bit 2 (p2 AND 0x3f) OR (drop_bit 16 p1 AND 3)) :: u8)) AND 0x3f) = p2"
    (is "?l = _")
proof (rule bit_word_eqI)
  show "bit ?l n = bit p2 n" if "n < LENGTH(32)" for n
    using that less_pow2_bits [OF assms, of n] unfolding reg_bits
    by (cases "n < 6"; cases "n < 14"; cases "n < 22"; cases "n < 30") auto
qed

lemma p3_bytes:
  fixes p3 :: u32
  shows "push_bit 24 (ucast (ucast (drop_bit 24 p3 AND 0xff) :: u8) AND 0x3f) OR
    push_bit 16 (ucast (ucast (drop_bit 16 p3 AND 0xff) :: u8)) OR
    push_bit 8 (ucast (ucast (drop_bit 8 p3 AND 0xff) :: u8)) OR ucast (ucast (p3 AND 0xff) :: u8) =
    take_bit 30 p3"
    (is "?l = _")
proof (rule bit_word_eqI)
  show "bit ?l n = bit (take_bit 30 p3) n" if "n < LENGTH(32)" for n
    using that unfolding reg_bits
    by (cases "n < 8"; cases "n < 16"; cases "n < 24"; cases "n < 30") auto
qed

definition divider_ok :: "u32 \<Rightarrow> u32 \<Rightarrow> u32 \<Rightarrow> bool" where
  "divider_ok a b c \<longleftrightarrow> 4 \<le> a \<and> a \<le> 567 \<and> b < c \<and> c < 2 ^ 30"

definition ms_p1_of :: "u32 \<Rightarrow> u32 \<Rightarrow> u32 \<Rightarrow> nat" where
  "ms_p1_of a b c = 128 * unat a + 128 * unat b div unat c - 512"

lemma pack_ok:
  assumes "ms_a ms = a" "ms_b ms = b" "ms_c ms = c" "4 \<le> a" "a \<le> 567" "b < c" "c \<le> 2 ^ 30"
  shows "\<exists>ms'. si5338_pack_regs ms = Ok ms' \<and> unat (ms_p1 ms') = ms_p1_of a b c \<and>
    unat (ms_p2 ms') = 128 * unat b mod unat c \<and> ms_p3 ms' = c \<and>
    ms' = ms\<lparr>ms_p1 := ms_p1 ms', ms_p2 := ms_p2 ms', ms_p3 := c, ms_regs := ms_regs ms'\<rparr> \<and>
    ms_regs ms' = [ucast (ms_p1 ms' AND 0xff), ucast (drop_bit 8 (ms_p1 ms') AND 0xff),
                  ucast (push_bit 2 (ms_p2 ms' AND 0x3f) OR (drop_bit 16 (ms_p1 ms') AND 3)),
                  ucast (drop_bit 6 (ms_p2 ms') AND 0xff), ucast (drop_bit 14 (ms_p2 ms') AND 0xff),
                  ucast (drop_bit 22 (ms_p2 ms') AND 0xff), ucast (c AND 0xff),
                  ucast (drop_bit 8 c AND 0xff), ucast (drop_bit 16 c AND 0xff),
                  ucast (drop_bit 24 c AND 0xff)]"
proof -
  define A B C where "A = unat a" and "B = unat b" and "C = unat c"
  have n: "4 \<le> A" "A \<le> 567" "B < C" "C \<le> 2 ^ 30"
    using assms(4-7) by (simp_all add: A_def B_def C_def word_less_nat_alt word_le_nat_alt)
  define t1 t2 :: u64 where
    "t1 = (ucast a * ucast c + ucast b) * 128 div ucast c - 512" and "t2 = ucast b * 128 mod ucast c"
  have u: "unat (ucast a :: u64) = A" "unat (ucast b :: u64) = B" "unat (ucast c :: u64) = C"
    by (simp_all add: A_def B_def C_def unat_ucast_up)
  have prod: "A * C + B < 2 ^ 40"
  proof -
    have "A * C \<le> 567 * 2 ^ 30" using n by (intro mult_le_mono) auto
    then show ?thesis using n by simp
  qed
  have "unat ((ucast a * ucast c + ucast b :: u64) * 128) = (A * C + B) * 128"
    using prod by (simp add: unat_word_ariths u)
  then have q: "unat ((ucast a * ucast c + ucast b :: u64) * 128 div ucast c) = 128 * A + 128 * B div C"
  proof -
    have "(A * C + B) * 128 = 128 * B + (128 * A) * C" by (simp add: algebra_simps)
    then have "(A * C + B) * 128 div C = 128 * A + 128 * B div C"
      unfolding \<open>(A * C + B) * 128 = _\<close> using n by (simp only: div_mult_self1)
    then show ?thesis
      using \<open>unat ((ucast a * ucast c + ucast b :: u64) * 128) = _\<close> by (simp add: unat_div u)
  qed
  have small: "128 * B div C < 128" using n by (simp add: div_less_iff_less_mult)
  have t1: "unat t1 = 128 * A + 128 * B div C - 512"
    unfolding t1_def using q n by (subst unat_sub) (auto simp: word_le_nat_alt)
  have t2: "unat t2 = 128 * B mod C"
    using n by (simp add: t2_def unat_mod unat_word_ariths u mult.commute)
  have t2C: "128 * B mod C \<le> 2 ^ 30"
    using n mod_less_divisor [of C "128 * B"] by linarith
  have c0: "c \<noteq> 0" using n by (auto simp: C_def)
  have fit: "t1 \<le> 0xffffffff" "t2 \<le> 0xffffffff"
    using t1 t2 small n t2C by (simp_all add: word_le_nat_alt)
  have p: "unat (ucast t1 :: u32) = unat t1" "unat (ucast t2 :: u32) = unat t2"
    using fit by (simp_all add: unsigned_ucast_eq take_bit_nat_eq_self word_le_nat_alt)
  show ?thesis
    unfolding si5338_pack_regs_def Let_def assms(1-3) t1_def [symmetric] t2_def [symmetric]
    using c0 fit p t1 t2 by (simp add: ms_p1_of_def A_def B_def C_def)
qed

lemma unpack_pack:
  assumes "divider_ok (ms_a ms) (ms_b ms) (ms_c ms)" "si5338_pack_regs ms = Ok ms'"
  shows "\<exists>x. si5338_unpack_regs (m\<lparr>ms_regs := ms_regs ms'\<rparr>) = Ok x \<and> ms_a x = ms_a ms \<and>
    ms_b x = ms_b ms \<and> ms_c x = ms_c ms \<and> ms_index x = ms_index m \<and> ms_r x = ms_r m"
proof -
  define a b c where "a = ms_a ms" and "b = ms_b ms" and "c = ms_c ms"
  define A B C where "A = unat a" and "B = unat b" and "C = unat c"
  have n: "4 \<le> A" "A \<le> 567" "B < C" "C < 2 ^ 30"
    using assms(1)
    by (simp_all add: divider_ok_def A_def B_def C_def a_def b_def c_def word_less_nat_alt word_le_nat_alt)
  have "4 \<le> a" "a \<le> 567" "b < c" "c \<le> 2 ^ 30"
    using assms(1) by (auto simp: divider_ok_def a_def b_def c_def)
  from pack_ok [OF a_def [symmetric] b_def [symmetric] c_def [symmetric] this] assms(2)
  have p: "unat (ms_p1 ms') = 128 * A + 128 * B div C - 512" "unat (ms_p2 ms') = 128 * B mod C"
    and rg: "ms_regs ms' = [ucast (ms_p1 ms' AND 0xff), ucast (drop_bit 8 (ms_p1 ms') AND 0xff),
                  ucast (push_bit 2 (ms_p2 ms' AND 0x3f) OR (drop_bit 16 (ms_p1 ms') AND 3)),
                  ucast (drop_bit 6 (ms_p2 ms') AND 0xff), ucast (drop_bit 14 (ms_p2 ms') AND 0xff),
                  ucast (drop_bit 22 (ms_p2 ms') AND 0xff), ucast (c AND 0xff),
                  ucast (drop_bit 8 c AND 0xff), ucast (drop_bit 16 c AND 0xff),
                  ucast (drop_bit 24 c AND 0xff)]"
    by (auto simp: ms_p1_of_def A_def B_def C_def)
  define q where "q = 128 * B div C"
  have q: "q < 128" using n by (simp add: q_def div_less_iff_less_mult)
  have bC: "128 * B mod C < 2 ^ 30"
    using n by (intro order.strict_trans [OF mod_less_divisor n(4)]) auto
  have r30: "take_bit 30 c = c"
    using n(4) by (simp add: word_unat_eq_iff unsigned_take_bit_eq take_bit_nat_eq_self C_def)
  have b1: "ms_p1 ms' < 2 ^ 18" and b2: "ms_p2 ms' < 2 ^ 30"
    using p n q bC by (simp_all add: word_less_nat_alt q_def)
  have p1: "unat (ms_p1 ms' + 512) = 128 * A + q"
    using p(1) n q by (subst unat_word_ariths) (simp add: q_def)
  have a': "unat ((ms_p1 ms' + 512) div 128) = A"
    using p1 q by (simp add: unat_div)
  have t: "unat (ucast (ms_p1 ms' + 512) - 128 * ucast ((ms_p1 ms' + 512) div 128) :: u64) = q"
  proof -
    have m: "unat (128 * ucast ((ms_p1 ms' + 512) div 128) :: u64) = 128 * A"
      using n by (subst u64_mult) (simp_all add: unat_ucast_up a')
    then show ?thesis
      using p1 by (subst unat_sub) (simp_all add: word_le_nat_alt unat_ucast_up)
  qed
  let ?t = "(ucast (ms_p1 ms' + 512) - 128 * ucast ((ms_p1 ms' + 512) div 128)) * ucast c +
      ucast (ms_p2 ms') :: u64"
  have qC: "q * C + 128 * B mod C = 128 * B" by (simp add: q_def)
  have lt: "128 * B < 2 ^ 40" using n by simp
  have t2: "unat ?t = 128 * B"
  proof -
    have "unat ((ucast (ms_p1 ms' + 512) - 128 * ucast ((ms_p1 ms' + 512) div 128)) * ucast c :: u64) = q * C"
      using lt qC by (subst u64_mult) (simp_all add: unat_ucast_up t C_def)
    then show ?thesis using lt qC p(2) by (subst u64_add) (simp_all add: unat_ucast_up)
  qed
  have t3: "unat ((?t + 64) div 128) = B"
  proof -
    have "unat (?t + 64) = 128 * B + 64" using lt t2 by (subst u64_add) simp_all
    then show ?thesis by (simp add: unat_div)
  qed
  have B32: "B < 2 ^ 32" using unsigned_less [of b] by (simp add: B_def)
  have fit: "(?t + 64) div 128 \<le> 0xffffffff" using t3 B32 by (simp add: word_le_nat_alt)
  have ab: "(ms_p1 ms' + 512) div 128 = a" "ucast ((?t + 64) div 128) = b"
    using a' t3 B32 by (simp_all add: word_unat_eq_iff A_def B_def unsigned_ucast_eq take_bit_nat_eq_self)
  have u: "si5338_unpack_regs (m\<lparr>ms_regs := ms_regs ms'\<rparr>) =
      Ok (m\<lparr>ms_regs := ms_regs ms', ms_p1 := ms_p1 ms', ms_p2 := ms_p2 ms', ms_p3 := c,
            ms_c := c, ms_a := a, ms_b := b\<rparr>)"
    using fit ab p1_bytes [OF b1, of "ms_p2 ms'"] p2_bytes [OF b2, of "ms_p1 ms'"] p3_bytes [of c]
    unfolding si5338_unpack_regs_def rg Let_def by (simp add: r30)
  show ?thesis using u by (simp add: a_def b_def c_def)
qed
section \<open>Divider settings\<close>

abbreviation sample_clock :: "u8 \<Rightarrow> bool" where
  "sample_clock i \<equiv> i = 1 \<or> i = 2"

definition clock_factor :: "u8 \<Rightarrow> rat" where
  \<comment> \<open>sample clocks run at twice the sample rate\<close>
  "clock_factor i = (if sample_clock i then 2 else 1)"

lemma div_fits: "unat (w :: u64) div m < 2 ^ 64"
proof -
  have "unat w < 2 ^ 64" using unsigned_less [of w, where 'a = nat] by simp
  then show ?thesis using div_le_dividend [of "unat w" m] by linarith
qed

lemma unat_vco: "unat SI5338_F_VCO = 2534400000"
  by (simp add: SI5338_F_VCO_def)

lemma ms_freq_val:
  assumes "4 \<le> ms_a ms" "ms_a ms \<le> 567" "ms_b ms < ms_c ms" "ms_c ms \<le> 2 ^ 30"
    and "ms_r ms = 2 ^ k" "k \<le> 5"
  shows "rr_normal (si5338_calculate_ms_freq ms)"
    "rr_val (si5338_calculate_ms_freq ms) =
      2534400000 / (2 ^ k * (of_nat (unat (ms_a ms)) + of_nat (unat (ms_b ms)) / of_nat (unat (ms_c ms))) *
        clock_factor (ms_index ms))"
    "unat (rr_den (si5338_calculate_ms_freq ms)) < 2 ^ 63"
proof -
  define A B C where "A = unat (ms_a ms)" and "B = unat (ms_b ms)" and "C = unat (ms_c ms)"
  define f :: nat where "f = (if sample_clock (ms_index ms) then 2 else 1)"
  have n: "4 \<le> A" "A \<le> 567" "B < C" "C \<le> 2 ^ 30"
    using assms(1-4) by (simp_all add: A_def B_def C_def word_less_nat_alt word_le_nat_alt)
  have r: "unat (ms_r ms) = 2 ^ k" "(2 :: nat) ^ k \<le> 32"
  proof -
    have "k = 0 \<or> k = 1 \<or> k = 2 \<or> k = 3 \<or> k = 4 \<or> k = 5" using assms(6) by auto
    then show "unat (ms_r ms) = 2 ^ k" "(2 :: nat) ^ k \<le> 32" by (elim disjE; simp add: assms(5))+
  qed
  let ?a = "ucast (ms_a ms) :: u64" and ?b = "ucast (ms_b ms) :: u64" and ?c = "ucast (ms_c ms) :: u64"
  have ac: "A * C + B < 2 ^ 40"
  proof -
    have "A * C \<le> 567 * 2 ^ 30" using n by (intro mult_le_mono) auto
    then show ?thesis using n by simp
  qed
  have s: "unat (?a * ?c + ?b) = A * C + B"
    using ac by (simp add: unat_word_ariths unat_ucast_up A_def B_def C_def)
  have rs: "2 ^ k * (A * C + B) \<le> 32 * 2 ^ 40" using r(2) ac by (intro mult_le_mono) auto
  have d1: "unat (ucast (ms_r ms) * (?a * ?c + ?b)) = 2 ^ k * (A * C + B)"
    using rs by (subst u64_mult) (simp_all add: unat_ucast_up r(1) s)
  define D where "D = (if sample_clock (ms_index ms) then ucast (ms_r ms) * (?a * ?c + ?b) * 2
      else ucast (ms_r ms) * (?a * ?c + ?b) :: u64)"
  have D: "unat D = 2 ^ k * (A * C + B) * f"
  proof (cases "sample_clock (ms_index ms)")
    case True
    have "unat (ucast (ms_r ms) * (?a * ?c + ?b) * 2) = 2 ^ k * (A * C + B) * 2"
      using rs d1 by (subst u64_mult) (simp_all add: mult.commute)
    then show ?thesis using True by (simp add: D_def f_def)
  qed (simp add: D_def f_def d1)
  have nm: "unat (SI5338_F_VCO * ?c) = 2534400000 * C"
    using n by (subst u64_mult) (simp_all add: unat_vco unat_ucast_up C_def)
  have f2: "f \<le> 2" "0 < f" by (simp_all add: f_def)
  have "2 ^ k * (A * C + B) * f \<le> 32 * 2 ^ 40 * 2" by (rule mult_le_mono [OF rs f2(1)])
  then have D63: "unat D < 2 ^ 63" using D by simp
  have pos: "0 < 2 ^ k * (A * C + B) * f" using n f2 by simp
  then have D0: "0 < D" using D by (simp add: word_less_nat_alt)
  let ?q = "\<lparr>rr_integer = 0, rr_num = SI5338_F_VCO * ?c, rr_den = D\<rparr>"
  have e: "si5338_calculate_ms_freq ms = si5338_rational_reduce ?q"
    by (simp add: si5338_calculate_ms_freq_def Let_def D_def)
  have sm: "unat (rr_integer ?q) + unat (rr_num ?q) div unat (rr_den ?q) < 2 ^ 64"
    using div_fits [of "rr_num ?q" "unat (rr_den ?q)"] by simp
  note p = reduce_normal_val [of ?q, OF _ _ sm]
  show "rr_normal (si5338_calculate_ms_freq ms)" unfolding e using p(1) D0 D63 by simp
  show "unat (rr_den (si5338_calculate_ms_freq ms)) < 2 ^ 63"
    unfolding e using p(3) D0 D63 by simp
  have "rr_val ?q = of_nat (2534400000 * C) / of_nat (2 ^ k * (A * C + B) * f)"
    unfolding rr_val_def by (simp only: bladerf_rational_rate.simps nm D unsigned_0 of_nat_0 add_0)
  also have "\<dots> = 2534400000 / (2 ^ k * (of_nat A + of_nat B / of_nat C) * of_nat f)"
    using n pos by (simp add: field_simps)
  finally show "rr_val (si5338_calculate_ms_freq ms) =
      2534400000 / (2 ^ k * (of_nat (unat (ms_a ms)) + of_nat (unat (ms_b ms)) / of_nat (unat (ms_c ms))) *
        clock_factor (ms_index ms))"
    unfolding e using p(2) D0 D63
    by (simp add: A_def B_def C_def f_def clock_factor_def del: of_nat_unat)
qed

definition rr_total :: "bladerf_rational_rate \<Rightarrow> nat" where
  "rr_total r = unat (rr_integer r) * unat (rr_den r) + unat (rr_num r)"

lemma rr_total_val:
  assumes "rr_normal r"
  shows "rr_val r = of_nat (rr_total r) / of_nat (unat (rr_den r))" "0 < unat (rr_den r)"
proof -
  show d: "0 < unat (rr_den r)" using assms by (auto simp: rr_normal_def word_less_nat_alt)
  then show "rr_val r = of_nat (rr_total r) / of_nat (unat (rr_den r))"
    by (simp add: rr_val_def rr_total_def field_simps del: of_nat_unat)
qed

lemma drop_precision_id: "num \<le> 2 ^ 30 \<Longrightarrow> den \<le> 2 ^ 30 \<Longrightarrow> drop_precision num den = (num, den)"
  by (subst drop_precision.simps) (simp add: not_less [symmetric])

lemma divider_exact:
  \<comment> \<open>the divider of a normal rate whose total is below \<open>2 ^ 30\<close> is exact\<close>
  assumes "rr_normal q" "rr_total q < 2 ^ 30" "5000000 \<le> rr_val q" "rr_val q \<le> 316800000"
    "unat (rr_den q) \<le> 100"
  defines "abc \<equiv> si5338_rational_reduce \<lparr>rr_integer = 0, rr_num = SI5338_F_VCO * rr_den q,
      rr_den = rr_integer q * rr_den q + rr_num q\<rparr>"
  shows "rr_normal abc" "rr_val abc = 2534400000 / rr_val q" "unat (rr_den abc) < 2 ^ 30"
    "8 \<le> rr_integer abc" "rr_integer abc \<le> 506"
proof -
  let ?q = "\<lparr>rr_integer = 0, rr_num = SI5338_F_VCO * rr_den q,
      rr_den = rr_integer q * rr_den q + rr_num q\<rparr>"
  have N: "unat (rr_integer q * rr_den q + rr_num q) = rr_total q"
    using assms(2) by (simp add: unat_word_ariths rr_total_def)
  have n: "unat (SI5338_F_VCO * rr_den q) = 2534400000 * unat (rr_den q)"
    using assms(5) by (subst u64_mult) (simp_all add: unat_vco)
  have N0: "0 < rr_total q"
    using assms(3) rr_total_val [OF assms(1)] by (cases "rr_total q = 0") auto
  have sm: "unat (rr_integer ?q) + unat (rr_num ?q) div unat (rr_den ?q) < 2 ^ 64"
    using div_fits [of "rr_num ?q" "unat (rr_den ?q)"] by simp
  have d: "0 < rr_den ?q" "unat (rr_den ?q) < 2 ^ 63"
    using N N0 assms(2) by (simp_all add: word_less_nat_alt)
  note p = reduce_normal_val [of ?q, OF d sm, folded abc_def]
  show norm: "rr_normal abc" by (rule p(1))
  show "unat (rr_den abc) < 2 ^ 30" using p(3) assms(2) N by simp
  have "rr_val ?q = of_nat (2534400000 * unat (rr_den q)) / of_nat (rr_total q)"
    unfolding rr_val_def by (simp only: bladerf_rational_rate.simps n N unsigned_0 of_nat_0 add_0)
  then show v: "rr_val abc = 2534400000 / rr_val q"
    using p(2) rr_total_val [OF assms(1)] by (simp del: of_nat_unat)
  have "8 \<le> rr_val abc" "rr_val abc < 507"
    using assms(3,4) unfolding v by (simp_all add: field_simps)
  then have "8 < rat_of_nat (unat (rr_integer abc)) + 1" "rat_of_nat (unat (rr_integer abc)) < 507"
    using normal_floor [OF norm] by linarith+
  then have "8 < rat_of_nat (unat (rr_integer abc) + 1)" "rat_of_nat (unat (rr_integer abc)) < of_nat 507"
    by simp_all
  then have "8 < unat (rr_integer abc) + 1" "unat (rr_integer abc) < 507"
    by (metis of_nat_less_iff of_nat_numeral, metis of_nat_less_iff)
  then show "8 \<le> rr_integer abc" "rr_integer abc \<le> 506" by (simp_all add: word_le_nat_alt)
qed
definition rate_fits :: "u8 \<Rightarrow> bladerf_rational_rate \<Rightarrow> bool" where
  \<comment> \<open>a normal rate within reach of the dividers, with a denominator of at most two digits\<close>
  "rate_fits i r \<longleftrightarrow> rr_normal r \<and> unat (rr_den r) \<le> 100 \<and>
     156250 \<le> clock_factor i * rr_val r \<and> clock_factor i * rr_val r \<le> 316800000 \<and>
     clock_factor i * of_nat (rr_total r) < 2 ^ 30"

lemma total_bound:
  assumes "rr_normal q" "rr_normal rate" "unat (rr_den q) \<le> unat (rr_den rate)"
    "unat (rr_den rate) \<le> 100" "0 \<le> rr_val q"
    and "rr_val q < 10000000 \<or> rr_val q = f * rr_val rate" "f * of_nat (rr_total rate) < 2 ^ 30"
  shows "rr_total q < 2 ^ 30"
proof -
  have "rat_of_nat (rr_total q) = rr_val q * of_nat (unat (rr_den q))"
    using rr_total_val [OF assms(1)] by (simp del: of_nat_unat)
  also have "\<dots> < 2 ^ 30"
    using assms(6)
  proof
    assume e: "rr_val q = f * rr_val rate"
    have "rr_val q * of_nat (unat (rr_den q)) \<le> rr_val q * of_nat (unat (rr_den rate))"
      using assms(3,5) by (intro mult_left_mono) (simp_all del: of_nat_unat)
    also have "\<dots> = f * of_nat (rr_total rate)"
      using e rr_total_val [OF assms(2)] by (simp del: of_nat_unat)
    finally show ?thesis using assms(7) by simp
  next
    assume "rr_val q < 10000000"
    then have "rr_val q * of_nat (unat (rr_den q)) \<le> 10000000 * 100"
      using assms(3-5) by (intro mult_mono) (simp_all del: of_nat_unat)
    then show ?thesis by simp
  qed
  finally have "rat_of_nat (rr_total q) < of_nat (2 ^ 30)" by simp
  then show ?thesis unfolding of_nat_less_iff .
qed

lemma r_search:
  assumes "rate_fits i rate"
  defines "q0 \<equiv> (if sample_clock i then si5338_rational_double rate else rate)"
  shows "\<exists>q k. find_r 5 q0 1 = (q, 2 ^ k) \<and> k \<le> 5 \<and> rr_normal q \<and>
    rr_val q = 2 ^ k * clock_factor i * rr_val rate \<and> 5000000 \<le> rr_integer q \<and>
    5000000 \<le> rr_val q \<and> rr_val q \<le> 316800000 \<and> unat (rr_den q) \<le> 100 \<and> rr_total q < 2 ^ 30"
proof -
  let ?f = "clock_factor i"
  have r: "rr_normal rate" "unat (rr_den rate) \<le> 100" "156250 \<le> ?f * rr_val rate"
    "?f * rr_val rate \<le> 316800000" "?f * of_nat (rr_total rate) < 2 ^ 30"
    using assms by (simp_all add: rate_fits_def)
  have f: "?f = 1 \<or> ?f = 2" "0 < ?f" by (simp_all add: clock_factor_def)
  have val: "rr_val rate \<le> 316800000" using r(4) f by (elim disjE) (use r(3) in auto)
  have q0: "rr_normal q0" "rr_val q0 = ?f * rr_val rate" "unat (rr_den q0) \<le> unat (rr_den rate)"
    using double_normal [OF r(1)] r(1,2) val by (simp_all add: q0_def clock_factor_def)
  obtain q rv where run: "find_r 5 q0 1 = (q, rv)" by (cases "find_r 5 q0 1")
  have pre: "unat (rr_den q0) < 2 ^ 32" "rr_val q0 < 2 ^ 32" using q0 r by simp_all
  have run': "find_r 5 q0 (2 ^ (5 - 5)) = (q, rv)" using run by simp
  obtain k where k: "k \<le> 5" "rv = 2 ^ (5 - 5 + k)" "rr_normal q" "rr_val q = 2 ^ k * rr_val q0"
    "unat (rr_den q) \<le> unat (rr_den q0)" "k = 5 \<or> 5000000 \<le> rr_integer q"
    "k = 0 \<or> rr_val q < 10000000"
    using find_r_spec [OF q0(1) pre le_refl run'] by blast
  have big: "5000000 \<le> rr_integer q"
  proof (cases "k = 5")
    case True
    then have "5000000 \<le> rr_val q" using k(4) q0(2) r(3) by simp
    then have "5000000 < rat_of_nat (unat (rr_integer q) + 1)" using normal_floor(2) [OF k(3)] by simp
    then have "5000000 < unat (rr_integer q) + 1" by (metis of_nat_less_iff of_nat_numeral)
    then show ?thesis by (simp add: word_le_nat_alt)
  qed (use k(6) in simp)
  then have "5000000 \<le> unat (rr_integer q)" by (simp add: word_le_nat_alt)
  then have "rat_of_nat 5000000 \<le> of_nat (unat (rr_integer q))" unfolding of_nat_le_iff .
  then have lo: "5000000 \<le> rr_val q" using normal_floor(1) [OF k(3)] by simp
  have hi: "rr_val q \<le> 316800000" using k(4,7) q0(2) r(4) by auto
  have d: "unat (rr_den q) \<le> 100" using k(5) q0(3) r(2) by simp
  have "rr_total q < 2 ^ 30"
    using k q0 r lo by (intro total_bound [OF k(3) r(1), of ?f]) auto
  with run k q0 big lo hi d show ?thesis by (intro exI [of _ q] exI [of _ k]) simp
qed

lemma calculate_exact:
  assumes "rate_fits i rate"
  shows "\<exists>ms k. si5338_calculate_multisynth (new_multisynth i ch) rate = Ok ms \<and>
    divider_ok (ms_a ms) (ms_b ms) (ms_c ms) \<and> ms_r ms = 2 ^ k \<and> k \<le> 5 \<and> ms_index ms = i \<and>
    ms_base ms = ms_base (new_multisynth i ch) \<and> ms_enable ms = ch \<and> length (ms_regs ms) = 10 \<and>
    si5338_calculate_ms_freq ms = rate \<and>
    (\<forall>m. \<exists>x. si5338_unpack_regs (m\<lparr>ms_regs := ms_regs ms\<rparr>) = Ok x \<and> ms_a x = ms_a ms \<and>
       ms_b x = ms_b ms \<and> ms_c x = ms_c ms \<and> ms_index x = ms_index m \<and> ms_r x = ms_r m)"
proof -
  have rate: "rr_normal rate" "0 < rr_val rate"
    using assms by (auto simp: rate_fits_def clock_factor_def split: if_splits)
  obtain q k where q: "find_r 5 (if sample_clock i then si5338_rational_double rate else rate) 1 = (q, 2 ^ k)"
    "k \<le> 5" "rr_normal q" "rr_val q = 2 ^ k * clock_factor i * rr_val rate" "5000000 \<le> rr_integer q"
    "5000000 \<le> rr_val q" "rr_val q \<le> 316800000" "unat (rr_den q) \<le> 100" "rr_total q < 2 ^ 30"
    using r_search [OF assms] by blast
  define abc where "abc = si5338_rational_reduce \<lparr>rr_integer = 0, rr_num = SI5338_F_VCO * rr_den q,
      rr_den = rr_integer q * rr_den q + rr_num q\<rparr>"
  note x = divider_exact [OF q(3,9,6,7,8), folded abc_def]
  have nd: "rr_num abc < rr_den abc" using x(1) by (simp add: rr_normal_def)
  have den: "unat (rr_num abc) < 2 ^ 30" "unat (rr_den abc) < 2 ^ 30" "unat (rr_integer abc) \<le> 506"
    "8 \<le> unat (rr_integer abc)"
    using x(3,4,5) nd by (simp_all add: word_less_nat_alt word_le_nat_alt)
  define ms0 where "ms0 = (new_multisynth i ch)\<lparr>ms_a := ucast (rr_integer abc),
      ms_b := ucast (rr_num abc), ms_c := ucast (rr_den abc), ms_r := ucast (2 ^ k :: u8)\<rparr>"
  have u: "unat (ms_a ms0) = unat (rr_integer abc)" "unat (ms_b ms0) = unat (rr_num abc)"
    "unat (ms_c ms0) = unat (rr_den abc)"
    using den by (simp_all add: ms0_def unsigned_ucast_eq take_bit_nat_eq_self)
  have ok: "divider_ok (ms_a ms0) (ms_b ms0) (ms_c ms0)"
    using den nd by (simp add: divider_ok_def word_less_nat_alt word_le_nat_alt u)
  then have "4 \<le> ms_a ms0" "ms_a ms0 \<le> 567" "ms_b ms0 < ms_c ms0" "ms_c ms0 \<le> 2 ^ 30"
    by (auto simp: divider_ok_def)
  from pack_ok [OF refl refl refl this] obtain ms where
    ms: "si5338_pack_regs ms0 = Ok ms" "length (ms_regs ms) = 10"
      "ms = ms0\<lparr>ms_p1 := ms_p1 ms, ms_p2 := ms_p2 ms, ms_p3 := ms_c ms0, ms_regs := ms_regs ms\<rparr>"
    by force
  have same: "ms_a ms = ms_a ms0" "ms_b ms = ms_b ms0" "ms_c ms = ms_c ms0" "ms_r ms = ms_r ms0"
    "ms_index ms = ms_index ms0" "ms_base ms = ms_base ms0" "ms_enable ms = ms_enable ms0"
    by (subst ms(3), simp)+
  have small: "rr_integer abc \<le> 0xffffffff" "rr_num abc \<le> 0xffffffff" "rr_den abc \<le> 0xffffffff"
    "rr_num abc \<le> 2 ^ 30" "rr_den abc \<le> 2 ^ 30" "\<not> rr_integer abc < 8" "\<not> 567 < rr_integer abc"
    using den by (simp_all add: word_le_nat_alt word_less_nat_alt)
  have "si5338_calculate_multisynth (new_multisynth i ch) rate = Ok ms"
    unfolding si5338_calculate_multisynth_def Let_def
    using q(1,5) small ms(1)
    by (simp add: new_multisynth_def si5338_update_base_def abc_def [symmetric] drop_precision_id ms0_def not_less)
  moreover have r: "ms_r ms = 2 ^ k"
  proof -
    have "k = 0 \<or> k = 1 \<or> k = 2 \<or> k = 3 \<or> k = 4 \<or> k = 5" using q(2) by auto
    then show ?thesis by (elim disjE) (simp_all add: same(4) ms0_def)
  qed
  moreover have "si5338_calculate_ms_freq ms = rate"
  proof (rule normal_unique)
    have i: "ms_index ms = i" by (simp add: same ms0_def new_multisynth_def si5338_update_base_def)
    have ok': "4 \<le> ms_a ms" "ms_a ms \<le> 567" "ms_b ms < ms_c ms" "ms_c ms \<le> 2 ^ 30"
      using ok same by (auto simp: divider_ok_def)
    note f = ms_freq_val [OF ok' r q(2)]
    show "rr_normal (si5338_calculate_ms_freq ms)" by (rule f(1))
    have "of_nat (unat (ms_a ms)) + of_nat (unat (ms_b ms)) / of_nat (unat (ms_c ms)) = rr_val abc"
      by (simp only: same u rr_val_def)
    then show "rr_val (si5338_calculate_ms_freq ms) = rr_val rate"
      using f(2) x(2) q(4) rate(2) by (simp add: i clock_factor_def)
  qed (rule rate(1))
  moreover have "\<forall>m. \<exists>x. si5338_unpack_regs (m\<lparr>ms_regs := ms_regs ms\<rparr>) = Ok x \<and> ms_a x = ms_a ms \<and>
       ms_b x = ms_b ms \<and> ms_c x = ms_c ms \<and> ms_index x = ms_index m \<and> ms_r x = ms_r m"
    unfolding same(1-3) by (rule allI, rule unpack_pack [OF ok ms(1)])
  ultimately show ?thesis
    using ok q(2) ms(2) same
    by (intro exI [of _ ms] exI [of _ k]) (simp add: ms0_def new_multisynth_def si5338_update_base_def)
qed
section \<open>Register file\<close>

lemma r_field:
  assumes "k \<le> 5"
  shows "push_bit (unat (drop_bit 2 (0xc0 OR push_bit 2 (r_power_of (ucast (drop_bit 1 (2 ^ k :: u32))))) AND 7)) 1 =
    (2 ^ k :: u32)"
proof -
  have pw: "r_power_of 0 = 0" "r_power_of 1 = 1" "r_power_of 2 = 2" "r_power_of 4 = 3"
    "r_power_of 8 = 4" "r_power_of 16 = 5"
    by (simp_all add: r_power_of.simps)
  have "k = 0 \<or> k = 1 \<or> k = 2 \<or> k = 3 \<or> k = 4 \<or> k = 5" using assms by auto
  then show ?thesis by (elim disjE) (simp_all add: pw)
qed

lemma ms_readback:
  assumes "i \<in> {1, 2, 3}" "ms_index ms = i" "ms_base ms = ms_base (new_multisynth i ch)"
    "length (ms_regs ms) = 10" "ms_r ms = 2 ^ k" "k \<le> 5"
  shows "\<exists>r' e. si5338_write_multisynth regs_dev ms r = (Ok (), r') \<and>
    si5338_read_multisynth regs_dev (new_multisynth i 0) r' =
      (si5338_unpack_regs ((new_multisynth i 0)\<lparr>ms_enable := e, ms_r := 2 ^ k, ms_regs := ms_regs ms\<rparr>), r')"
proof -
  obtain x0 x1 x2 x3 x4 x5 x6 x7 x8 x9 where rg: "ms_regs ms = [x0, x1, x2, x3, x4, x5, x6, x7, x8, x9]"
    using assms(4) by (auto simp: numeral_eq_Suc length_Suc_conv)
  have upt: "[0..<10] = [0, 1, 2, 3, 4, 5, 6, 7, 8, 9 :: nat]" by (simp add: upt_rec)
  show ?thesis
    using assms(1)
    by (elim insertE emptyE)
       (simp_all add: si5338_write_multisynth_def si5338_read_multisynth_def assms(2,3,5) rg upt
         new_multisynth_def si5338_update_base_def reg_addr_def iosimps status_io_def
         r_field [OF assms(6), simplified], blast+)
qed

section \<open>Rates end to end\<close>

lemma set_rational_regs:
  assumes "i \<in> {1, 2, 3}" "rate_fits i rate"
  shows "\<exists>r'. si5338_set_rational_multisynth regs_dev i ch rate r = (Ok rate, r') \<and>
    seq (si5338_read_multisynth regs_dev (new_multisynth i 0)) (\<lambda>ms. ret (si5338_calculate_ms_freq ms)) r' =
      (Ok rate, r')"
proof -
  obtain ms k where ms: "si5338_calculate_multisynth (new_multisynth i ch) rate = Ok ms"
    "divider_ok (ms_a ms) (ms_b ms) (ms_c ms)" "ms_r ms = 2 ^ k" "k \<le> 5" "ms_index ms = i"
    "ms_base ms = ms_base (new_multisynth i ch)" "length (ms_regs ms) = 10"
    "si5338_calculate_ms_freq ms = rate"
    and un: "\<And>m. \<exists>x. si5338_unpack_regs (m\<lparr>ms_regs := ms_regs ms\<rparr>) = Ok x \<and> ms_a x = ms_a ms \<and>
       ms_b x = ms_b ms \<and> ms_c x = ms_c ms \<and> ms_index x = ms_index m \<and> ms_r x = ms_r m"
    using calculate_exact [OF assms(2)] by metis
  obtain r' e where w: "si5338_write_multisynth regs_dev ms r = (Ok (), r')"
    and rd: "si5338_read_multisynth regs_dev (new_multisynth i 0) r' =
      (si5338_unpack_regs ((new_multisynth i 0)\<lparr>ms_enable := e, ms_r := 2 ^ k, ms_regs := ms_regs ms\<rparr>), r')"
    using ms_readback [OF assms(1) ms(5,6,7,3,4)] by blast
  obtain x where x: "si5338_unpack_regs ((new_multisynth i 0)\<lparr>ms_enable := e, ms_r := 2 ^ k,
        ms_regs := ms_regs ms\<rparr>) = Ok x"
    "ms_a x = ms_a ms" "ms_b x = ms_b ms" "ms_c x = ms_c ms" "ms_index x = ms_index ms" "ms_r x = ms_r ms"
    using un [of "(new_multisynth i 0)\<lparr>ms_enable := e, ms_r := 2 ^ k\<rparr>"] ms(3,5)
    by (auto simp: new_multisynth_def si5338_update_base_def)
  have "si5338_calculate_ms_freq x = si5338_calculate_ms_freq ms"
    by (simp add: si5338_calculate_ms_freq_def x)
  moreover have "si5338_rational_reduce rate = rate"
    using assms(2) by (intro reduce_normal) (simp_all add: rate_fits_def)
  ultimately show ?thesis
    using ms(1,8) w rd x(1) by (simp add: si5338_set_rational_multisynth_def iosimps seq_def)
qed


end
