(* ===== verification/Si5338_Link.thy ===== *)
theory Si5338_Link
  imports Si5338_Rates
begin

unbundle bit_operations_syntax

text \<open>
  The clock driver on the whole stack: the firmware's I2C routines against a controller and a
  chip, the contract \<open>lms_transport\<close> interpreted on host, firmware and I2C bus, and the sample
  rate and SMB clock properties end to end.
\<close>

section \<open>An I2C controller in front of the chip\<close>

datatype i2c_phase = I2C_Idle | I2C_Pointer | I2C_Data | I2C_Read

record i2c_hw =
  si_regs :: regs
  si_pointer :: u8
  i2c_phase :: i2c_phase
  i2c_txr :: u8
  i2c_rxr :: u8

definition i2c_send :: "i2c_hw \<Rightarrow> i2c_hw" where
  \<comment> \<open>the chip receives the byte in the transmit register\<close>
  "i2c_send m =
     (case i2c_phase m of
        I2C_Pointer \<Rightarrow> m\<lparr>si_pointer := i2c_txr m, i2c_phase := I2C_Data\<rparr>
      | I2C_Data \<Rightarrow> m\<lparr>si_regs := (si_regs m)(si_pointer m := i2c_txr m), si_pointer := si_pointer m + 1\<rparr>
      | _ \<Rightarrow> m)"

definition i2c_command :: "u8 \<Rightarrow> i2c_hw \<Rightarrow> i2c_hw" where
  \<comment> \<open>a command of the controller: start with the address byte, send, receive, stop\<close>
  "i2c_command cmd m =
     (let m = (if cmd AND OC_I2C_STA \<noteq> 0
               then m\<lparr>i2c_phase := (if i2c_txr m = SI5338_I2C then I2C_Pointer
                                   else if i2c_txr m = SI5338_I2C OR 1 then I2C_Read else I2C_Idle)\<rparr>
               else if cmd AND OC_I2C_WR \<noteq> 0 then i2c_send m
               else if cmd AND OC_I2C_RD \<noteq> 0 \<and> i2c_phase m = I2C_Read
               then m\<lparr>i2c_rxr := si_regs m (si_pointer m), si_pointer := si_pointer m + 1\<rparr>
               else m) in
      if cmd AND OC_I2C_STO \<noteq> 0 then m\<lparr>i2c_phase := I2C_Idle\<rparr> else m)"

definition i2c_bus :: "i2c_hw bus_fns" where
  \<comment> \<open>transfers complete at once and are acknowledged\<close>
  "i2c_bus =
     \<lparr>iord8 = (\<lambda>base off m.
        if base = I2C \<and> off = OC_I2C_CMD_STATUS then (OC_I2C_IF, m)
        else if base = I2C \<and> off = OC_I2C_DATA then (i2c_rxr m, m) else (0, m)),
      iowr8 = (\<lambda>base off v m.
        if base = I2C \<and> off = OC_I2C_DATA then m\<lparr>i2c_txr := v\<rparr>
        else if base = I2C \<and> off = OC_I2C_CMD_STATUS then i2c_command v m else m),
      iord_pio = (\<lambda>base m. (0, m)),
      iowr_pio = (\<lambda>base v m. m),
      iowr32 = (\<lambda>base off v m. m),
      spi_rd = (\<lambda>r m. (0, m)),
      spi_wr = (\<lambda>r v m. m),
      ROE_MSK = 0x08, TOE_MSK = 0x10, TMT_MSK = 0x20, TRDY_MSK = 0x40, RRDY_MSK = 0x80,
      SSO_MSK = 0x400\<rparr>"

lemma i2c_wait_now: "\<not> busy status \<Longrightarrow> i2c_wait b busy n status s = (Some status, s)"
  by (cases n) simp_all

lemma i2c_complete_ok:
  "\<exists>f. i2c_complete_transfer i2c_bus c s = (True, f) \<and> hw f = hw s"
  by (simp add: i2c_complete_transfer_def rd8_def i2c_bus_def i2c_wait_now
      bladerf_i2c_status_failure_def Let_def)

lemma i2c_byte_ok:
  "\<exists>f. i2c_byte i2c_bus byte cmd c s = (True, f) \<and>
    hw f = i2c_command cmd (case byte of None \<Rightarrow> hw s | Some v \<Rightarrow> (hw s)\<lparr>i2c_txr := v\<rparr>)"
  using i2c_complete_ok [of c "wr8 i2c_bus I2C 4 cmd
      (case byte of None \<Rightarrow> s | Some v \<Rightarrow> wr8 i2c_bus I2C 3 v s)"]
  by (auto simp: i2c_byte_def wr8_def i2c_bus_def split: option.split)

lemma i2c_bytes_ok:
  "\<exists>f. i2c_bytes i2c_bus op step bs s = (True, f) \<and>
    hw f = fold (\<lambda>(byte, cmd, _) m. i2c_command cmd
       (case byte of None \<Rightarrow> m | Some v \<Rightarrow> m\<lparr>i2c_txr := v\<rparr>)) bs (hw s)"
proof (induction bs arbitrary: step s)
  case (Cons x bs)
  obtain byte cmd c where x: "x = (byte, cmd, c)" by (cases x)
  obtain f where f: "i2c_byte i2c_bus byte cmd c s = (True, f)"
    "hw f = i2c_command cmd (case byte of None \<Rightarrow> hw s | Some v \<Rightarrow> (hw s)\<lparr>i2c_txr := v\<rparr>)"
    using i2c_byte_ok by blast
  then show ?case using Cons.IH [of "step + 1" f] by (simp add: x)
qed simp

lemma si5338_read_ok:
  "\<exists>f. si5338_read i2c_bus addr s = ((True, si_regs (hw s) addr), f) \<and> si_regs (hw f) = si_regs (hw s)"
proof -
  let ?bs = "[(Some SI5338_I2C, OC_I2C_STA OR OC_I2C_WR OR OC_I2C_IACK, True),
              (Some addr, OC_I2C_WR OR OC_I2C_STO OR OC_I2C_IACK, True),
              (Some (SI5338_I2C OR 1), OC_I2C_STA OR OC_I2C_WR OR OC_I2C_IACK, True),
              (None, OC_I2C_RD OR OC_I2C_NACK OR OC_I2C_STO OR OC_I2C_IACK, False)]"
  obtain f where f: "i2c_bytes i2c_bus 1 0 ?bs s = (True, f)"
    "hw f = fold (\<lambda>(byte, cmd, _) m. i2c_command cmd
       (case byte of None \<Rightarrow> m | Some v \<Rightarrow> m\<lparr>i2c_txr := v\<rparr>)) ?bs (hw s)"
    using i2c_bytes_ok by blast
  have "i2c_rxr (hw f) = si_regs (hw s) addr" "si_regs (hw f) = si_regs (hw s)"
    unfolding f(2) by (simp_all add: i2c_command_def i2c_send_def Let_def)
  then show ?thesis
    using f(1) by (simp add: si5338_read_def rd8_def i2c_bus_def)
qed

lemma si5338_write_ok:
  "\<exists>f. si5338_write i2c_bus addr v s = (True, f) \<and> si_regs (hw f) = (si_regs (hw s))(addr := v)"
proof -
  let ?bs = "[(Some SI5338_I2C, OC_I2C_STA OR OC_I2C_WR OR OC_I2C_IACK, True),
        (Some addr, OC_I2C_WR OR OC_I2C_IACK, True),
        (Some v, OC_I2C_WR OR OC_I2C_STO OR OC_I2C_IACK, False)]"
  obtain f where f: "i2c_bytes i2c_bus 2 0 ?bs s = (True, f)"
    "hw f = fold (\<lambda>(byte, cmd, _) m. i2c_command cmd
       (case byte of None \<Rightarrow> m | Some v \<Rightarrow> m\<lparr>i2c_txr := v\<rparr>)) ?bs (hw s)"
    using i2c_bytes_ok by blast
  have "si_regs (hw f) = (si_regs (hw s))(addr := v)"
    unfolding f(2) by (simp add: i2c_command_def i2c_send_def Let_def)
  then show ?thesis using f(1) by (simp add: si5338_write_def)
qed

section \<open>The whole stack\<close>

type_synonym si_world = "i2c_hw uart nios_dev"

definition si_chip :: "si_world \<Rightarrow> regs" where
  "si_chip d = si_regs (hw (fw (usb_link d)))"

definition si_stack :: "i2c_hw handler \<Rightarrow> i2c_hw handler \<Rightarrow> nat \<Rightarrow> si_world si_backend" where
  \<comment> \<open>the USB backend's \<^verbatim>\<open>si5338_read\<close> and \<^verbatim>\<open>si5338_write\<close> on the firmware and the chip\<close>
  "si_stack rt lg n =
     \<lparr>lms_read = nios_si5338_read (fw_handle i2c_bus rt lg n),
      lms_write = nios_si5338_write (fw_handle i2c_bus rt lg n)\<rparr>"

interpretation si: lms_transport "si_stack rt lg n" regs_dev world_ok si_chip for rt lg n
proof
  fix a v
  show "implements world_ok si_chip (lms_read (si_stack rt lg n) a) (lms_read regs_dev a)"
  proof (rule implementsI)
    fix d :: si_world assume ok: "world_ok d"
    obtain f where "si5338_read i2c_bus a (fw (usb_link d)) = ((True, si_chip d a), f)"
      "si_regs (hw f) = si_chip d"
      using si5338_read_ok unfolding si_chip_def by blast
    then show "\<exists>r d'. lms_read (si_stack rt lg n) a d = (r, d') \<and> world_ok d' \<and>
        lms_read regs_dev a (si_chip d) = (r, si_chip d')"
      using world_8x8_read [OF ok, of i2c_bus 1 a True "si_chip d a" f rt lg n]
      by (auto simp: si_stack_def nios_si5338_read_def pkt_8x8_perform_read_def regs_dev_read si_chip_def)
  qed
  show "implements world_ok si_chip (lms_write (si_stack rt lg n) a v) (lms_write regs_dev a v)"
  proof (rule implementsI)
    fix d :: si_world assume ok: "world_ok d"
    obtain f where "si5338_write i2c_bus a v (fw (usb_link d)) = (True, f)"
      "si_regs (hw f) = (si_chip d)(a := v)"
      using si5338_write_ok unfolding si_chip_def by blast
    then show "\<exists>r d'. lms_write (si_stack rt lg n) a v d = (r, d') \<and> world_ok d' \<and>
        lms_write regs_dev a v (si_chip d) = (r, si_chip d')"
      using world_8x8_write [OF ok, of i2c_bus 1 a v True f rt lg n]
      by (auto simp: si_stack_def nios_si5338_write_def pkt_8x8_perform_write_def regs_dev_write si_chip_def)
  qed
qed
section \<open>The driver over any transport\<close>

context lms_transport
begin

lemma impl_write_seq [lms_impl]: "implements good chip (write_seq dev ws) (write_seq ideal ws)"
  by (induction ws) (auto intro!: implements_seq impl_write implements_ret)

lemma impl_read_seq [lms_impl]: "implements good chip (read_seq dev as) (read_seq ideal as)"
  by (induction as) (auto intro: lms_impl)

lemma impl_write_multisynth [lms_impl]:
  "implements good chip (si5338_write_multisynth dev ms) (si5338_write_multisynth ideal ms)"
  unfolding si5338_write_multisynth_def by (intro lms_impl)

lemma impl_read_multisynth [lms_impl]:
  "implements good chip (si5338_read_multisynth dev ms) (si5338_read_multisynth ideal ms)"
  unfolding si5338_read_multisynth_def by (intro lms_impl)

lemma impl_set_multisynth [lms_impl]:
  "implements good chip (si5338_set_rational_multisynth dev i ch r)
     (si5338_set_rational_multisynth ideal i ch r)"
  unfolding si5338_set_rational_multisynth_def by (intro lms_impl)

lemma impl_integer_rate [lms_impl]: "implements good chip (integer_rate r) (integer_rate r)"
  unfolding integer_rate_def by (intro lms_impl)

lemma impl_set_rates [lms_impl]:
  "implements good chip (si5338_set_rational_sample_rate dev m r) (si5338_set_rational_sample_rate ideal m r)"
  "implements good chip (si5338_set_rational_smb_freq dev r) (si5338_set_rational_smb_freq ideal r)"
  unfolding si5338_set_rational_sample_rate_def si5338_set_rational_smb_freq_def Let_def
  by (intro lms_impl)+

lemma impl_get_rates [lms_impl]:
  "implements good chip (si5338_get_rational_sample_rate dev m) (si5338_get_rational_sample_rate ideal m)"
  "implements good chip (si5338_get_rational_smb_freq dev) (si5338_get_rational_smb_freq ideal)"
  unfolding si5338_get_rational_sample_rate_def si5338_get_rational_smb_freq_def
  by (intro lms_impl)+

lemma impl_integer_rates [lms_impl]:
  "implements good chip (si5338_set_sample_rate dev m f) (si5338_set_sample_rate ideal m f)"
  "implements good chip (si5338_get_sample_rate dev m) (si5338_get_sample_rate ideal m)"
  "implements good chip (si5338_set_smb_freq dev f) (si5338_set_smb_freq ideal f)"
  "implements good chip (si5338_get_smb_freq dev) (si5338_get_smb_freq ideal)"
  unfolding si5338_set_sample_rate_def si5338_get_sample_rate_def si5338_set_smb_freq_def
    si5338_get_smb_freq_def by (intro lms_impl)+

lemma impl_smb_mode [lms_impl]:
  "implements good chip (smb_clock_set_mode dev mode) (smb_clock_set_mode ideal mode)"
  "implements good chip (smb_clock_get_mode dev) (smb_clock_get_mode ideal)"
  unfolding smb_clock_set_mode_def smb_clock_get_mode_def smb_mode_disabled_def smb_mode_output_def
    smb_mode_input_def
  by (intro lms_impl; cases mode; simp; intro lms_impl) (intro lms_impl)

end
section \<open>Properties\<close>

lemma samplerate_min [simp]: "unat BLADERF_SAMPLERATE_MIN = 80000"
  by (simp add: BLADERF_SAMPLERATE_MIN_def)

lemma normal_integer_bounds:
  assumes "rr_normal r" "of_nat lo \<le> rr_val r" "rr_val r \<le> of_nat hi"
  shows "lo \<le> unat (rr_integer r)" "unat (rr_integer r) \<le> hi"
proof -
  have "rat_of_nat lo < of_nat (unat (rr_integer r) + 1)" "rat_of_nat (unat (rr_integer r)) \<le> of_nat hi"
    using normal_floor [OF assms(1)] assms(2,3) by simp_all
  then show "lo \<le> unat (rr_integer r)" "unat (rr_integer r) \<le> hi"
    unfolding of_nat_less_iff of_nat_le_iff by simp_all
qed

lemma val_bounds_integer:
  assumes "0 < rr_den r" "rr_val r < 2 ^ 32"
  shows "unat (rr_integer r) + unat (rr_num r) div unat (rr_den r) < 2 ^ 64"
proof -
  define n d i where "n = unat (rr_num r)" and "d = unat (rr_den r)" and "i = unat (rr_integer r)"
  have d: "0 < d" using assms(1) by (simp add: d_def word_less_nat_alt)
  have "rat_of_nat (n div d) \<le> of_nat n / of_nat d"
  proof -
    have "rat_of_nat (n div d * d) \<le> of_nat n" unfolding of_nat_le_iff by simp
    then show ?thesis using d by (simp add: field_simps)
  qed
  then have "rat_of_nat (i + n div d) < 2 ^ 32"
    using assms(2) by (simp add: rr_val_def n_def d_def i_def del: of_nat_unat)
  then have "rat_of_nat (i + n div d) < of_nat (2 ^ 32)" by simp
  then show ?thesis unfolding of_nat_less_iff by (simp add: n_def d_def i_def)
qed

lemma reduce_fits:
  assumes "0 < rr_den r" "rr_den r \<le> 100" "156250 \<le> clock_factor i * rr_val r"
    "clock_factor i * rr_val r \<le> 316800000" "clock_factor i * rr_val r * of_nat (unat (rr_den r)) < 2 ^ 30"
  shows "rate_fits i (si5338_rational_reduce r)" "rr_val (si5338_rational_reduce r) = rr_val r"
proof -
  have f: "clock_factor i = 1 \<or> clock_factor i = 2" "0 < clock_factor i" by (simp_all add: clock_factor_def)
  have v0: "0 \<le> rr_val r" by (simp add: rr_val_def del: of_nat_unat)
  have v: "0 \<le> rr_val r" "rr_val r \<le> 316800000" using assms(4) f(1) v0 by auto
  have d: "unat (rr_den r) \<le> 100" using assms(2) by (simp add: word_le_nat_alt)
  have d63: "unat (rr_den r) < 2 ^ 63" using d by simp
  have "unat (rr_integer r) + unat (rr_num r) div unat (rr_den r) < 2 ^ 64"
    using assms(1) v by (intro val_bounds_integer) simp_all
  note p = reduce_normal_val [OF assms(1) d63 this]
  show "rr_val (si5338_rational_reduce r) = rr_val r" by (rule p(2))
  have "of_nat (rr_total (si5338_rational_reduce r)) =
      rr_val r * of_nat (unat (rr_den (si5338_rational_reduce r)))"
    using rr_total_val [OF p(1)] p(2) by (simp del: of_nat_unat)
  also have "\<dots> \<le> rr_val r * of_nat (unat (rr_den r))"
    using p(3) v by (intro mult_left_mono) (simp_all del: of_nat_unat)
  finally have "clock_factor i * of_nat (rr_total (si5338_rational_reduce r)) \<le>
      clock_factor i * (rr_val r * of_nat (unat (rr_den r)))"
    using f(2) by (intro mult_left_mono) auto
  then show "rate_fits i (si5338_rational_reduce r)"
    using assms p d by (simp add: rate_fits_def algebra_simps del: of_nat_unat)
qed

text \<open>C26. Sample rates are realised exactly, through the whole stack: for every rational rate
  from 80 kHz to 158.4 MHz whose denominator is at most 100 (and small enough for its total to stay
  below \<open>2 ^ 29\<close>; integer rates have denominator 1), setting it succeeds, reports that rate in
  lowest terms, and reading the sample rate back gives the same rate.\<close>

theorem rational_rate_exact:
  assumes "world_ok d" "0 < rr_den r" "rr_den r \<le> 100" "80000 \<le> rr_val r" "rr_val r \<le> 158400000"
    "rr_val r * of_nat (unat (rr_den r)) < 2 ^ 29"
  shows "\<exists>act d1 d2. si5338_set_rational_sample_rate (si_stack rt lg n) ch r d = (Ok act, d1) \<and>
    si5338_get_rational_sample_rate (si_stack rt lg n) ch d1 = (Ok act, d2) \<and>
    rr_val act = rr_val r \<and> rr_normal act"
proof -
  let ?i = "rate_index ch" and ?a = "si5338_rational_reduce r"
  have i: "?i \<in> {1, 2, 3}" "clock_factor ?i = 2" by (simp_all add: rate_index_def clock_factor_def)
  have fits: "rate_fits ?i ?a" "rr_val ?a = rr_val r"
    using reduce_fits [of r ?i] assms(2-6) by (simp_all add: i del: of_nat_unat)
  then have norm: "rr_normal ?a" and d: "unat (rr_den ?a) < 2 ^ 63" by (simp_all add: rate_fits_def)
  have "80000 \<le> unat (rr_integer ?a)"
    using normal_integer_bounds(1) [OF norm, of 80000 158400000] fits(2) assms(4,5) by simp
  then have lo: "\<not> rr_integer ?a < BLADERF_SAMPLERATE_MIN" by (simp add: word_less_nat_alt)
  define chn where "chn = (if ch = BLADERF_MODULE_TX then SI5338_EN_A OR SI5338_EN_B else SI5338_EN_A)"
  obtain r1 where r1: "si5338_set_rational_multisynth regs_dev ?i chn ?a (si_chip d) = (Ok ?a, r1)"
    "seq (si5338_read_multisynth regs_dev (new_multisynth ?i 0))
       (\<lambda>ms. ret (si5338_calculate_ms_freq ms)) r1 = (Ok ?a, r1)"
    using set_rational_regs [OF i(1) fits(1), of chn "si_chip d"] by blast
  have "si5338_set_rational_sample_rate regs_dev ch r (si_chip d) = (Ok ?a, r1)"
    using r1(1) lo by (simp add: si5338_set_rational_sample_rate_def Let_def chn_def)
  from implementsD [OF si.impl_set_rates(1) [where rt = rt and lg = lg and n = n] assms(1) this]
  obtain d1 where d1: "si5338_set_rational_sample_rate (si_stack rt lg n) ch r d = (Ok ?a, d1)"
    "world_ok d1" "si_chip d1 = r1" by metis
  have "si5338_get_rational_sample_rate regs_dev ch (si_chip d1) = (Ok ?a, r1)"
    using r1(2) d1(3) by (simp add: si5338_get_rational_sample_rate_def)
  from implementsD [OF si.impl_get_rates(1) [where rt = rt and lg = lg and n = n] d1(2) this]
    d1(1) fits(2) norm show ?thesis by metis
qed
definition idle_i2c :: i2c_hw where
  "idle_i2c = \<lparr>si_regs = (\<lambda>_. 0), si_pointer = 0, i2c_phase = I2C_Idle, i2c_txr = 0, i2c_rxr = 0\<rparr>"

lemma rational_rate_exact_witness:
  "\<exists>act d1 d2. si5338_set_rational_sample_rate (si_stack (\<lambda>p s. (p, s)) (\<lambda>p s. (p, s)) 40)
       BLADERF_MODULE_TX \<lparr>rr_integer = 3000000, rr_num = 4, rr_den = 12\<rparr> (fresh_world idle_i2c) = (Ok act, d1) \<and>
    si5338_get_rational_sample_rate (si_stack (\<lambda>p s. (p, s)) (\<lambda>p s. (p, s)) 40) BLADERF_MODULE_TX d1 =
      (Ok act, d2) \<and> rr_val act = 9000001 / 3 \<and> rr_normal act"
proof -
  let ?r = "\<lparr>rr_integer = 3000000, rr_num = 4, rr_den = 12\<rparr>"
  have v: "rr_val ?r = 9000001 / 3" by (simp add: rr_val_def)
  show ?thesis
    using rational_rate_exact [OF fresh_world_ok, of ?r "\<lambda>p s. (p, s)" "\<lambda>p s. (p, s)" 40 BLADERF_MODULE_TX idle_i2c]
    by (simp add: v)
qed

lemma calculate_too_slow:
  assumes "rr_normal r" "unat (rr_den r) < 2 ^ 32" "32 * (clock_factor i * rr_val r) < 5000000"
  shows "si5338_calculate_multisynth (new_multisynth i ch) r = Err BLADERF_ERR_INVAL"
proof -
  define q0 where "q0 = (if sample_clock i then si5338_rational_double r else r)"
  have v0: "0 \<le> rr_val r" by (simp add: rr_val_def del: of_nat_unat)
  have v: "rr_val r < 2 ^ 32" using assms(3) v0 by (auto simp: clock_factor_def split: if_splits)
  have q0: "rr_normal q0" "rr_val q0 = clock_factor i * rr_val r" "unat (rr_den q0) < 2 ^ 32"
    using double_normal [OF assms(1,2) v] assms(1,2) by (simp_all add: q0_def clock_factor_def)
  have pre: "rr_val q0 < 2 ^ 32" using q0(2) assms(3) v0 by simp
  obtain q rv where run: "find_r 5 q0 1 = (q, rv)" by (cases "find_r 5 q0 1")
  then have "find_r 5 q0 (2 ^ (5 - 5)) = (q, rv)" by simp
  from find_r_spec [OF q0(1,3) pre le_refl this] obtain k where k: "k \<le> 5" "rv = 2 ^ (5 - 5 + k)"
    "rr_normal q" "rr_val q = 2 ^ k * rr_val q0" "k = 5 \<or> 5000000 \<le> rr_integer q" by blast
  have "(2 :: rat) ^ k \<le> 2 ^ 5" using k(1) by (intro power_increasing) simp_all
  then have "rr_val q \<le> 32 * rr_val q0"
    unfolding k(4) using q0(2) v0 by (intro mult_right_mono) (simp_all add: clock_factor_def)
  then have "rat_of_nat (unat (rr_integer q)) < of_nat 5000000"
    using normal_floor(1) [OF k(3)] assms(3) q0(2) by simp
  then have small: "rr_integer q < 5000000" unfolding of_nat_less_iff by (simp add: word_less_nat_alt)
  then have "k = 5" using k(5) by auto
  then have "rv = 32" using k(2) by simp
  then show ?thesis
    using run small unfolding si5338_calculate_multisynth_def q0_def
    by (simp add: new_multisynth_def si5338_update_base_def)
qed

text \<open>The SMB clock output: every integer frequency from 156250 Hz to the documented maximum of
  200 MHz is realised exactly and reads back, through the whole stack; a frequency from the documented
  minimum \<^verbatim>\<open>BLADERF_SMB_FREQUENCY_MIN\<close> (139682 Hz) up to 156249 Hz is rejected as invalid although it is
  inside the documented range, and the registers are left alone.\<close>

lemma smb_frequency_range:
  assumes "world_ok d" "BLADERF_SMB_FREQUENCY_MIN \<le> ucast f" "ucast f \<le> BLADERF_SMB_FREQUENCY_MAX"
  shows "if 156250 \<le> f
    then \<exists>d1 d2. si5338_set_smb_freq (si_stack rt lg n) f d = (Ok f, d1) \<and>
           si5338_get_smb_freq (si_stack rt lg n) d1 = (Ok f, d2)
    else si5338_set_smb_freq (si_stack rt lg n) f d = (Err BLADERF_ERR_INVAL, d)"
proof (cases "156250 \<le> f")
  case True
  let ?r = "\<lparr>rr_integer = ucast f, rr_num = 0, rr_den = 1\<rparr> :: bladerf_rational_rate"
  have f: "156250 \<le> unat f" "unat f \<le> 200000000" "unat (ucast f :: u64) = unat f"
    using True assms(3) by (simp_all add: word_le_nat_alt BLADERF_SMB_FREQUENCY_MAX_def unat_ucast_up)
  then have q: "156250 \<le> rat_of_nat (unat f)" "rat_of_nat (unat f) \<le> 200000000"
    using of_nat_le_iff [where 'a = rat, of 156250 "unat f"] of_nat_le_iff [where 'a = rat, of "unat f" 200000000]
    by (simp_all del: of_nat_unat)
  have fits: "rate_fits 3 ?r"
    using q by (simp add: rate_fits_def rr_normal_def rr_val_def rr_total_def clock_factor_def f(3) del: of_nat_unat)
  have red: "si5338_rational_reduce ?r = ?r"
    using fits by (intro reduce_normal) (simp_all add: rate_fits_def)
  have out: "integer_rate ?r c = (Ok f, c)" for c :: 'c
  proof -
    have "ucast (ucast f :: u64) = f" "(ucast f :: u64) \<le> 0xffffffff"
      using f by (simp_all add: word_le_nat_alt word_unat_eq_iff unsigned_ucast_eq
          take_bit_nat_eq_self take_bit_word_beyond_length_eq)
    then show ?thesis by (simp add: integer_rate_def iosimps)
  qed
  obtain r1 where r1: "si5338_set_rational_multisynth regs_dev 3 SI5338_EN_A ?r (si_chip d) = (Ok ?r, r1)"
    "seq (si5338_read_multisynth regs_dev (new_multisynth 3 0))
       (\<lambda>ms. ret (si5338_calculate_ms_freq ms)) r1 = (Ok ?r, r1)"
    using set_rational_regs [OF _ fits, of SI5338_EN_A "si_chip d"] by auto
  have "si5338_set_smb_freq regs_dev f (si_chip d) = (Ok f, r1)"
    using r1(1) assms(2,3) out
    by (simp add: si5338_set_smb_freq_def si5338_set_rational_smb_freq_def Let_def red iosimps not_less)
  from implementsD [OF si.impl_integer_rates(3) [where rt = rt and lg = lg and n = n] assms(1) this]
  obtain d1 where d1: "si5338_set_smb_freq (si_stack rt lg n) f d = (Ok f, d1)" "world_ok d1" "si_chip d1 = r1"
    by metis
  have "si5338_get_smb_freq regs_dev (si_chip d1) = (Ok f, r1)"
    using r1(2) d1(3) out by (simp add: si5338_get_smb_freq_def si5338_get_rational_smb_freq_def iosimps)
  from implementsD [OF si.impl_integer_rates(4) [where rt = rt and lg = lg and n = n] d1(2) this] d1(1) True
  show ?thesis by metis
next
  case False
  let ?r = "\<lparr>rr_integer = ucast f, rr_num = 0, rr_den = 1\<rparr> :: bladerf_rational_rate"
  have n: "rr_normal ?r" by (simp add: rr_normal_def)
  have red: "si5338_rational_reduce ?r = ?r" by (rule reduce_normal [OF n]) simp
  have "rat_of_nat (unat f) < of_nat 156250"
    unfolding of_nat_less_iff using False by (simp add: word_less_nat_alt not_le)
  then have "32 * (clock_factor 3 * rr_val ?r) < 5000000"
    by (simp add: clock_factor_def rr_val_def unat_ucast_up del: of_nat_unat)
  from calculate_too_slow [OF n _ this] show ?thesis
    using False assms(2,3)
    by (simp add: si5338_set_smb_freq_def si5338_set_rational_smb_freq_def Let_def red
        si5338_set_rational_multisynth_def iosimps not_less [symmetric])
qed

lemma smb_frequency_range_witness:
  "(\<exists>d1 d2. si5338_set_smb_freq (si_stack (\<lambda>p s. (p, s)) (\<lambda>p s. (p, s)) 40) 10000000
       (fresh_world idle_i2c) = (Ok 10000000, d1) \<and>
     si5338_get_smb_freq (si_stack (\<lambda>p s. (p, s)) (\<lambda>p s. (p, s)) 40) d1 = (Ok 10000000, d2)) \<and>
   si5338_set_smb_freq (si_stack (\<lambda>p s. (p, s)) (\<lambda>p s. (p, s)) 40) 140000 (fresh_world idle_i2c) =
     (Err BLADERF_ERR_INVAL, fresh_world idle_i2c)"
  using smb_frequency_range [OF fresh_world_ok, of 10000000 "\<lambda>p s. (p, s)" "\<lambda>p s. (p, s)" 40 idle_i2c]
    smb_frequency_range [OF fresh_world_ok, of 140000 "\<lambda>p s. (p, s)" "\<lambda>p s. (p, s)" 40 idle_i2c]
  by (simp add: BLADERF_SMB_FREQUENCY_MIN_def BLADERF_SMB_FREQUENCY_MAX_def)

text \<open>The driver's rational arithmetic is exact: the gcd loop computes the greatest common
  divisor for all arguments, and reducing a rate keeps its value and gives the proper fraction in
  lowest terms, for every nonzero denominator below \<open>2 ^ 63\<close> whose whole part does not overflow.\<close>

lemma rational_reduce_correct:
  assumes "0 < rr_den r" "unat (rr_den r) < 2 ^ 63"
    "unat (rr_integer r) + unat (rr_num r) div unat (rr_den r) < 2 ^ 64"
  shows "rr_normal (si5338_rational_reduce r) \<and> rr_val (si5338_rational_reduce r) = rr_val r \<and>
    unat (si5338_gcd a b) = gcd (unat a) (unat b)"
  using reduce_normal_val(1,2) [OF assms] si5338_gcd_eq by blast

lemma rational_reduce_correct_witness:
  "rr_val (si5338_rational_reduce \<lparr>rr_integer = 3, rr_num = 50, rr_den = 20\<rparr>) = 11 / 2 \<and>
   rr_normal (si5338_rational_reduce \<lparr>rr_integer = 3, rr_num = 50, rr_den = 20\<rparr>)"
  using rational_reduce_correct [of "\<lparr>rr_integer = 3, rr_num = 50, rr_den = 20\<rparr>"]
  by (simp add: rr_val_def)

definition wrapping_rate :: bladerf_rational_rate where
  \<comment> \<open>\<open>2 ^ 42 / 879609\<close> Hz, about 5 MHz\<close>
  "wrapping_rate = \<lparr>rr_integer = 5000001, rr_num = 631495, rr_den = 879609\<rparr>"

lemma wrapping_divider:
  assumes "ch \<in> {1, 2}"
  shows "\<exists>ms. si5338_calculate_multisynth (new_multisynth ch en) wrapping_rate = Ok ms \<and>
    ms_a ms = 253 \<and> ms_b ms = 472352903 \<and> ms_c ms = 2 ^ 30 \<and> ms_r ms = 1 \<and> ms_index ms = ch \<and>
    ms_base ms = ms_base (new_multisynth ch en) \<and> length (ms_regs ms) = 10 \<and>
    (\<exists>ms0. si5338_pack_regs ms0 = Ok ms \<and> ms_a ms0 = 253 \<and> ms_b ms0 = 472352903 \<and> ms_c ms0 = 2 ^ 30)"
proof -
  have cp: "coprime (631495 :: nat) 879609" "coprime (383381 :: nat) 879609" "coprime (472352903 :: nat) 1073741824"
    by (simp_all add: coprime_iff_gcd_eq_1 gcd_non_0_nat)
  have n: "rr_normal wrapping_rate" "rr_val wrapping_rate = 2 ^ 42 / 879609"
    by (simp_all add: wrapping_rate_def rr_normal_def rr_val_def cp)
  let ?q = "\<lparr>rr_integer = 10000003, rr_num = 383381, rr_den = 879609\<rparr> :: bladerf_rational_rate"
  have d: "si5338_rational_double wrapping_rate = ?q"
  proof (rule normal_unique)
    have "unat (rr_den wrapping_rate) < 2 ^ 32" "rr_val wrapping_rate < 2 ^ 32"
      by (simp_all add: n(2)) (simp add: wrapping_rate_def)
    note x = double_normal [OF n(1) this]
    show "rr_normal (si5338_rational_double wrapping_rate)" by (rule x(1))
    show "rr_val (si5338_rational_double wrapping_rate) = rr_val ?q"
      unfolding x(2) n(2) by (simp add: rr_val_def)
  qed (simp add: rr_normal_def cp)
  let ?t = "\<lparr>rr_integer = 0, rr_num = SI5338_F_VCO * 879609, rr_den = 10000003 * 879609 + 383381\<rparr> :: bladerf_rational_rate"
  let ?a = "\<lparr>rr_integer = 253, rr_num = 472352903, rr_den = 1073741824\<rparr> :: bladerf_rational_rate"
  have a: "si5338_rational_reduce ?t = ?a"
  proof (rule normal_unique)
    have "0 < rr_den ?t" "unat (rr_den ?t) < 2 ^ 63"
      "unat (rr_integer ?t) + unat (rr_num ?t) div unat (rr_den ?t) < 2 ^ 64"
      by (simp_all add: SI5338_F_VCO_def)
    note x = reduce_normal_val [OF this]
    show "rr_normal (si5338_rational_reduce ?t)" by (rule x(1))
    show "rr_val (si5338_rational_reduce ?t) = rr_val ?a"
      unfolding x(2) by (simp add: rr_val_def SI5338_F_VCO_def)
  qed (simp add: rr_normal_def cp)
  define ms0 where "ms0 = (new_multisynth ch en)\<lparr>ms_a := 253, ms_b := 472352903, ms_c := 2 ^ 30, ms_r := 1\<rparr>"
  have "4 \<le> ms_a ms0" "ms_a ms0 \<le> 567" "ms_b ms0 < ms_c ms0" "ms_c ms0 \<le> 2 ^ 30" by (simp_all add: ms0_def)
  from pack_ok [OF refl refl refl this] obtain ms where
    ms: "si5338_pack_regs ms0 = Ok ms" "length (ms_regs ms) = 10"
      "ms = ms0\<lparr>ms_p1 := ms_p1 ms, ms_p2 := ms_p2 ms, ms_p3 := ms_c ms0, ms_regs := ms_regs ms\<rparr>"
    by force
  have same: "ms_a ms = ms_a ms0" "ms_b ms = ms_b ms0" "ms_c ms = ms_c ms0" "ms_r ms = ms_r ms0"
    "ms_index ms = ms_index ms0" "ms_base ms = ms_base ms0"
    by (subst ms(3), simp)+
  have "find_r (Suc 4) ?q 1 = (?q, 1)" by (simp only: find_r.simps) simp
  then have r: "find_r 5 ?q 1 = (?q, 1)" by simp
  have "si5338_calculate_multisynth (new_multisynth ch en) wrapping_rate = Ok ms"
    unfolding si5338_calculate_multisynth_def Let_def
    using assms ms(1) a
    by (auto simp: new_multisynth_def si5338_update_base_def d r ms0_def drop_precision_id)
  then show ?thesis
    using ms same by (intro exI [of _ ms]) (auto simp: ms0_def new_multisynth_def si5338_update_base_def)
qed

lemma wrapped_freq:
  assumes "si5338_pack_regs ms0 = Ok ms" "ms_a ms0 = 253" "ms_b ms0 = 472352903" "ms_c ms0 = 2 ^ 30"
    "ms_r m = 1"
  shows "\<exists>x. si5338_unpack_regs (m\<lparr>ms_regs := ms_regs ms\<rparr>) = Ok x \<and>
    si5338_calculate_ms_freq x = \<lparr>rr_integer = 0, rr_num = 0, rr_den = 1\<rparr>"
proof -
  have "4 \<le> (253 :: u32)" "(253 :: u32) \<le> 567" "(472352903 :: u32) < 2 ^ 30" "(2 ^ 30 :: u32) \<le> 2 ^ 30" by simp_all
  from pack_ok [OF assms(2-4) this] assms(1)
  have p: "unat (ms_p1 ms) = 31928" "unat (ms_p2 ms) = 331629440"
    and rg: "ms_regs ms = [ucast (ms_p1 ms AND 0xff), ucast (drop_bit 8 (ms_p1 ms) AND 0xff),
                  ucast (push_bit 2 (ms_p2 ms AND 0x3f) OR (drop_bit 16 (ms_p1 ms) AND 3)),
                  ucast (drop_bit 6 (ms_p2 ms) AND 0xff), ucast (drop_bit 14 (ms_p2 ms) AND 0xff),
                  ucast (drop_bit 22 (ms_p2 ms) AND 0xff), ucast ((2 ^ 30 :: u32) AND 0xff),
                  ucast (drop_bit 8 (2 ^ 30 :: u32) AND 0xff), ucast (drop_bit 16 (2 ^ 30 :: u32) AND 0xff),
                  ucast (drop_bit 24 (2 ^ 30 :: u32) AND 0xff)]"
    by (auto simp: ms_p1_of_def)
  have pe: "ms_p1 ms = 31928" "ms_p2 ms = 331629440" using p by (simp_all add: word_unat_eq_iff)
  let ?x = "m\<lparr>ms_regs := ms_regs ms, ms_p1 := 31928, ms_p2 := 331629440, ms_p3 := 0, ms_c := 0,
      ms_a := 253, ms_b := 2590855\<rparr>"
  have "si5338_unpack_regs (m\<lparr>ms_regs := ms_regs ms\<rparr>) = Ok ?x"
    unfolding si5338_unpack_regs_def rg Let_def pe by simp
  moreover have "si5338_calculate_ms_freq ?x = \<lparr>rr_integer = 0, rr_num = 0, rr_den = 1\<rparr>"
  proof -
    let ?t = "\<lparr>rr_integer = 0, rr_num = 0, rr_den = (if sample_clock (ms_index m) then 5181710 else 2590855)\<rparr> ::
      bladerf_rational_rate"
    have "si5338_rational_reduce ?t = \<lparr>rr_integer = 0, rr_num = 0, rr_den = 1\<rparr>"
    proof (rule normal_unique)
      have "0 < rr_den ?t" "unat (rr_den ?t) < 2 ^ 63"
        "unat (rr_integer ?t) + unat (rr_num ?t) div unat (rr_den ?t) < 2 ^ 64" by simp_all
      note y = reduce_normal_val [OF this]
      show "rr_normal (si5338_rational_reduce ?t)" by (rule y(1))
      show "rr_val (si5338_rational_reduce ?t) = rr_val \<lparr>rr_integer = 0, rr_num = 0, rr_den = 1\<rparr>"
        unfolding y(2) by (simp add: rr_val_def)
    qed (simp add: rr_normal_def)
    then show ?thesis by (simp add: si5338_calculate_ms_freq_def Let_def assms(5) if_distrib cong: if_cong)
  qed
  ultimately show ?thesis by blast
qed

text \<open>A divider denominator of exactly \<open>2 ^ 30\<close> passes the precision check but does not fit the
  30 bits of its registers: setting the sample rate to \<open>2 ^ 42 / 879609\<close> Hz (about 5 MHz) succeeds and
  reports that rate as realised, and the sample rate read back from the device is 0.\<close>

lemma wrapping_rate_lost:
  assumes "world_ok d"
  shows "\<exists>d1 d2. si5338_set_rational_sample_rate (si_stack rt lg n) ch wrapping_rate d = (Ok wrapping_rate, d1) \<and>
    si5338_get_rational_sample_rate (si_stack rt lg n) ch d1 =
      (Ok \<lparr>rr_integer = 0, rr_num = 0, rr_den = 1\<rparr>, d2)"
proof -
  let ?i = "rate_index ch"
  let ?en = "if ch = BLADERF_MODULE_TX then SI5338_EN_A OR SI5338_EN_B else SI5338_EN_A"
  have i: "?i \<in> {1, 2}" "?i \<in> {1, 2, 3}" by (simp_all add: rate_index_def)
  obtain ms ms0 where ms: "si5338_calculate_multisynth (new_multisynth ?i ?en) wrapping_rate = Ok ms"
    "ms_a ms = 253" "ms_b ms = 472352903" "ms_c ms = 2 ^ 30" "ms_r ms = 1" "ms_index ms = ?i"
    "ms_base ms = ms_base (new_multisynth ?i ?en)" "length (ms_regs ms) = 10" "si5338_pack_regs ms0 = Ok ms"
    "ms_a ms0 = 253" "ms_b ms0 = 472352903" "ms_c ms0 = 2 ^ 30"
    using wrapping_divider [OF i(1)] by blast
  have r1: "ms_r ms = 2 ^ 0" using ms(5) by simp
  obtain r' e where w: "si5338_write_multisynth regs_dev ms (si_chip d) = (Ok (), r')"
    and rd: "si5338_read_multisynth regs_dev (new_multisynth ?i 0) r' =
      (si5338_unpack_regs ((new_multisynth ?i 0)\<lparr>ms_enable := e, ms_r := 2 ^ 0, ms_regs := ms_regs ms\<rparr>), r')"
    using ms_readback [OF i(2) ms(6,7,8) r1] by blast
  have norm: "rr_normal wrapping_rate" by (simp add: wrapping_rate_def rr_normal_def coprime_iff_gcd_eq_1 gcd_non_0_nat)
  have "si5338_rational_reduce wrapping_rate = wrapping_rate"
    by (rule reduce_normal [OF norm]) (simp add: wrapping_rate_def)
  moreover have "si5338_calculate_ms_freq ms = wrapping_rate"
  proof (rule normal_unique)
    have ok: "4 \<le> ms_a ms" "ms_a ms \<le> 567" "ms_b ms < ms_c ms" "ms_c ms \<le> 2 ^ 30" by (simp_all add: ms)
    note f = ms_freq_val [OF ok r1]
    show "rr_normal (si5338_calculate_ms_freq ms)" by (rule f(1)) simp
    have "rr_val (si5338_calculate_ms_freq ms) = 2 ^ 42 / 879609"
      using f(2) i(1) by (simp add: ms clock_factor_def)
    then show "rr_val (si5338_calculate_ms_freq ms) = rr_val wrapping_rate"
      by (simp add: wrapping_rate_def rr_val_def)
  qed (rule norm)
  ultimately have "si5338_set_rational_sample_rate regs_dev ch wrapping_rate (si_chip d) = (Ok wrapping_rate, r')"
    using ms(1) w by (simp add: si5338_set_rational_sample_rate_def si5338_set_rational_multisynth_def Let_def
        BLADERF_SAMPLERATE_MIN_def iosimps) (simp add: wrapping_rate_def)
  from implementsD [OF si.impl_set_rates(1) [where rt = rt and lg = lg and n = n] assms this]
  obtain d1 where d1: "si5338_set_rational_sample_rate (si_stack rt lg n) ch wrapping_rate d = (Ok wrapping_rate, d1)"
    "world_ok d1" "si_chip d1 = r'" by metis
  obtain x where x: "si5338_unpack_regs ((new_multisynth ?i 0)\<lparr>ms_enable := e, ms_r := 2 ^ 0, ms_regs := ms_regs ms\<rparr>) = Ok x"
    "si5338_calculate_ms_freq x = \<lparr>rr_integer = 0, rr_num = 0, rr_den = 1\<rparr>"
    using wrapped_freq [OF ms(9-12), of "(new_multisynth ?i 0)\<lparr>ms_enable := e, ms_r := 2 ^ 0\<rparr>"] by auto
  have "si5338_get_rational_sample_rate regs_dev ch (si_chip d1) = (Ok \<lparr>rr_integer = 0, rr_num = 0, rr_den = 1\<rparr>, r')"
    using rd x d1(3) by (simp add: si5338_get_rational_sample_rate_def iosimps)
  from implementsD [OF si.impl_get_rates(1) [where rt = rt and lg = lg and n = n] d1(2) this] d1(1)
  show ?thesis by metis
qed

lemma wrapping_rate_lost_witness:
  "\<exists>d1 d2. si5338_set_rational_sample_rate (si_stack (\<lambda>p s. (p, s)) (\<lambda>p s. (p, s)) 40) BLADERF_MODULE_RX
      wrapping_rate (fresh_world idle_i2c) = (Ok wrapping_rate, d1) \<and>
    si5338_get_rational_sample_rate (si_stack (\<lambda>p s. (p, s)) (\<lambda>p s. (p, s)) 40) BLADERF_MODULE_RX d1 =
      (Ok \<lparr>rr_integer = 0, rr_num = 0, rr_den = 1\<rparr>, d2)"
  by (rule wrapping_rate_lost) (rule fresh_world_ok)

text \<open>The SMB port reads back the mode that was set.\<close>

lemma smb_mode_reads_back:
  assumes "mode \<in> {BLADERF_SMB_MODE_DISABLED, BLADERF_SMB_MODE_OUTPUT, BLADERF_SMB_MODE_INPUT}" "world_ok d"
  shows "\<exists>d1 d2. smb_clock_set_mode (si_stack rt lg n) mode d = (Ok (), d1) \<and>
    smb_clock_get_mode (si_stack rt lg n) d1 = (Ok mode, d2)"
proof -
  have "\<exists>r1. smb_clock_set_mode regs_dev mode (si_chip d) = (Ok (), r1) \<and> smb_clock_get_mode regs_dev r1 = (Ok mode, r1)"
    using assms(1)
    by (elim insertE emptyE)
       (simp_all add: smb_clock_set_mode_def smb_clock_get_mode_def smb_mode_disabled_def smb_mode_output_def
         smb_mode_input_def default_config_def input_config_def output_config_def iosimps)
  then obtain r1 where r1: "smb_clock_set_mode regs_dev mode (si_chip d) = (Ok (), r1)"
    "smb_clock_get_mode regs_dev r1 = (Ok mode, r1)" by blast
  from implementsD [OF si.impl_smb_mode(1) [where rt = rt and lg = lg and n = n] assms(2) r1(1)]
  obtain d1 where d1: "smb_clock_set_mode (si_stack rt lg n) mode d = (Ok (), d1)" "world_ok d1" "si_chip d1 = r1"
    by metis
  have "smb_clock_get_mode regs_dev (si_chip d1) = (Ok mode, r1)" using r1(2) d1(3) by simp
  from implementsD [OF si.impl_smb_mode(2) [where rt = rt and lg = lg and n = n] d1(2) this] d1(1)
  show ?thesis by metis
qed

end
