(* ===== verification/Stream_Format.thy ===== *)
theory Stream_Format
  imports Bladerf_Prelude
begin

unbundle bit_operations_syntax

text \<open>
  Sample formats and message headers of the streaming interface: the conversions of
  \<^verbatim>\<open>streaming/format.h\<close>, channel interleaving of \<^verbatim>\<open>helpers/interleave.c\<close> and the header
  functions of \<^verbatim>\<open>streaming/metadata.h\<close>. A \<^verbatim>\<open>size_t\<close> is a natural number below \<open>2 ^ 64\<close>; a buffer is
  a list of bytes.
\<close>

section \<open>Sample formats\<close>

datatype bladerf_format =
    BLADERF_FORMAT_SC16_Q11 | BLADERF_FORMAT_SC16_Q11_PACKED | BLADERF_FORMAT_SC16_Q11_META
  | BLADERF_FORMAT_PACKET_META | BLADERF_FORMAT_SC8_Q7 | BLADERF_FORMAT_SC8_Q7_META
  | format_invalid

datatype bladerf_channel_layout =
    BLADERF_RX_X1 | BLADERF_TX_X1 | BLADERF_RX_X2 | BLADERF_TX_X2 | layout_invalid

abbreviation (input) SIZE_MAX :: nat where "SIZE_MAX \<equiv> 2 ^ 64 - 1"

definition scaled_size :: "nat \<Rightarrow> nat \<Rightarrow> nat outcome" where
  "scaled_size sample_size n_samples =
     (if n_samples \<le> SIZE_MAX div sample_size then Ok (n_samples * sample_size) else Undef)"

definition sc8q7_to_bytes :: "nat \<Rightarrow> nat outcome" where
  "sc8q7_to_bytes n = scaled_size 2 n"

definition sc16q11_to_bytes :: "nat \<Rightarrow> nat outcome" where
  "sc16q11_to_bytes n = scaled_size 4 n"

definition sc16q11_packed_to_bytes :: "nat \<Rightarrow> nat outcome" where
  "sc16q11_packed_to_bytes n = scaled_size 3 n"

definition bytes_to_sc8q7 :: "nat \<Rightarrow> nat outcome" where
  "bytes_to_sc8q7 n = (if n mod 2 = 0 then Ok (n div 2) else Undef)"

definition bytes_to_sc16q11 :: "nat \<Rightarrow> nat outcome" where
  "bytes_to_sc16q11 n = (if n mod 4 = 0 then Ok (n div 4) else Undef)"

definition samples_to_bytes :: "bladerf_format \<Rightarrow> nat \<Rightarrow> nat outcome" where
  "samples_to_bytes fmt n =
     (case fmt of
        BLADERF_FORMAT_SC8_Q7 \<Rightarrow> sc8q7_to_bytes n
      | BLADERF_FORMAT_SC8_Q7_META \<Rightarrow> sc8q7_to_bytes n
      | BLADERF_FORMAT_SC16_Q11_PACKED \<Rightarrow> sc16q11_packed_to_bytes n
      | BLADERF_FORMAT_SC16_Q11 \<Rightarrow> sc16q11_to_bytes n
      | BLADERF_FORMAT_SC16_Q11_META \<Rightarrow> sc16q11_to_bytes n
      | BLADERF_FORMAT_PACKET_META \<Rightarrow> Ok (n * 4 mod 2 ^ 64)
      | format_invalid \<Rightarrow> Undef)"

definition bytes_to_samples :: "bladerf_format \<Rightarrow> nat \<Rightarrow> nat outcome" where
  "bytes_to_samples fmt n =
     (case fmt of
        BLADERF_FORMAT_SC8_Q7 \<Rightarrow> bytes_to_sc8q7 n
      | BLADERF_FORMAT_SC8_Q7_META \<Rightarrow> bytes_to_sc8q7 n
      | BLADERF_FORMAT_SC16_Q11_PACKED \<Rightarrow> bytes_to_sc16q11 n
      | BLADERF_FORMAT_SC16_Q11 \<Rightarrow> bytes_to_sc16q11 n
      | BLADERF_FORMAT_SC16_Q11_META \<Rightarrow> bytes_to_sc16q11 n
      | BLADERF_FORMAT_PACKET_META \<Rightarrow> Ok ((n + 3) mod 2 ^ 64 div 4)
      | format_invalid \<Rightarrow> Undef)"

type_synonym i16 = u16

fun sc16q11_pack_samples :: "(i16 \<times> i16) list \<Rightarrow> u8 list" where
  \<comment> \<open>one complex sample per iteration; a sample is its 16-bit two's complement pattern\<close>
  "sc16q11_pack_samples [] = []"
| "sc16q11_pack_samples ((i, q) # rest) =
     (let i_sample = i AND 0x0fff; q_sample = q AND 0x0fff in
      [ucast i_sample,
       ucast (drop_bit 8 i_sample OR push_bit 4 (q_sample AND 0x0f)),
       ucast (drop_bit 4 q_sample)] @ sc16q11_pack_samples rest)"

fun sc16q11_unpack_samples :: "u8 list \<Rightarrow> (i16 \<times> i16) list" where
  "sc16q11_unpack_samples (p0 # p1 # p2 # rest) =
     (let i_raw = ucast p0 OR push_bit 8 (ucast (p1 AND 0x0f) :: u16);
          q_raw = ucast (drop_bit 4 p1) OR push_bit 4 (ucast p2 :: u16) in
      (xor i_raw 0x0800 - 0x0800, xor q_raw 0x0800 - 0x0800) # sc16q11_unpack_samples rest)"
| "sc16q11_unpack_samples _ = []"

section \<open>Interleaving\<close>

definition interleave_calc_num_channels :: "bladerf_channel_layout \<Rightarrow> nat" where
  "interleave_calc_num_channels layout =
     (case layout of
        BLADERF_RX_X1 \<Rightarrow> 1 | BLADERF_TX_X1 \<Rightarrow> 1 | BLADERF_RX_X2 \<Rightarrow> 2 | BLADERF_TX_X2 \<Rightarrow> 2
      | layout_invalid \<Rightarrow> 0)"

definition interleave_calc_bytes_per_sample :: "bladerf_format \<Rightarrow> nat" where
  "interleave_calc_bytes_per_sample fmt =
     (case fmt of
        BLADERF_FORMAT_SC8_Q7 \<Rightarrow> 2 | BLADERF_FORMAT_SC8_Q7_META \<Rightarrow> 2
      | BLADERF_FORMAT_SC16_Q11_PACKED \<Rightarrow> 4 | BLADERF_FORMAT_SC16_Q11 \<Rightarrow> 4
      | BLADERF_FORMAT_SC16_Q11_META \<Rightarrow> 4 | BLADERF_FORMAT_PACKET_META \<Rightarrow> 4
      | format_invalid \<Rightarrow> 0)"

definition interleave_calc_metadata_bytes :: "bladerf_format \<Rightarrow> nat" where
  "interleave_calc_metadata_bytes fmt =
     (case fmt of
        BLADERF_FORMAT_SC8_Q7_META \<Rightarrow> 0x10 | BLADERF_FORMAT_SC16_Q11_META \<Rightarrow> 0x10
      | BLADERF_FORMAT_PACKET_META \<Rightarrow> 0x10
      | _ \<Rightarrow> 0)"

definition memcpy_at :: "u8 list \<Rightarrow> nat \<Rightarrow> u8 list \<Rightarrow> u8 list" where
  \<comment> \<open>\<^verbatim>\<open>memcpy(dst + off, src, length src)\<close>\<close>
  "memcpy_at dst off src = take off dst @ src @ drop (off + length src) dst"

definition copy_samples ::
    "nat \<Rightarrow> u8 list \<Rightarrow> (nat \<times> nat) list \<Rightarrow> u8 list \<Rightarrow> u8 list" where
  \<comment> \<open>the loop body for each pair of a destination and a source index\<close>
  "copy_samples samp_size src moves dst =
     fold (\<lambda>(dstidx, srcidx) d.
       memcpy_at d (dstidx * samp_size) (take samp_size (drop (srcidx * samp_size) src))) moves dst"

definition interleave_moves :: "nat \<Rightarrow> nat \<Rightarrow> (nat \<times> nat) list" where
  "interleave_moves num_channels samps_per_ch =
     concat (map (\<lambda>ch. map (\<lambda>samp. (samp * num_channels + ch, samps_per_ch * ch + samp))
       [0..<samps_per_ch]) [0..<num_channels])"

definition deinterleave_moves :: "nat \<Rightarrow> nat \<Rightarrow> (nat \<times> nat) list" where
  "deinterleave_moves num_channels samps_per_ch =
     concat (map (\<lambda>samp. map (\<lambda>ch. (samps_per_ch * ch + samp, num_channels * samp + ch))
       [0..<num_channels]) [0..<samps_per_ch])"

definition rearrange_buf ::
    "(nat \<Rightarrow> nat \<Rightarrow> (nat \<times> nat) list) \<Rightarrow> bladerf_channel_layout \<Rightarrow> bladerf_format \<Rightarrow> nat \<Rightarrow>
     u8 list option \<Rightarrow> u8 list \<Rightarrow> u8 list outcome" where
  \<comment> \<open>the body the two functions share; \<open>tmp\<close> is what \<^verbatim>\<open>malloc\<close> returned\<close>
  "rearrange_buf moves layout fmt buffer_size tmp samples =
     (let num_channels = interleave_calc_num_channels layout;
          samp_size = interleave_calc_bytes_per_sample fmt;
          meta_size = interleave_calc_metadata_bytes fmt in
      if num_channels = 0 \<or> buffer_size = 0 then Err BLADERF_ERR_INVAL
      else if samp_size = 0 \<or> buffer_size mod num_channels \<noteq> 0 \<or>
              buffer_size < meta_size div samp_size \<or> buffer_size > SIZE_MAX div samp_size
      then Err BLADERF_ERR_INVAL
      else if num_channels < 2 then Ok samples
      else
        (case tmp of
           None \<Rightarrow> Err BLADERF_ERR_MEM
         | Some buf \<Rightarrow>
             let samps_per_ch = buffer_size div num_channels -
                   (if 0 < meta_size then meta_size div samp_size div num_channels else 0);
                 body = copy_samples samp_size (drop meta_size samples)
                          (moves num_channels samps_per_ch) (drop meta_size buf);
                 buf' = take meta_size samples @ body in
             Ok (take (buffer_size * samp_size) buf' @ drop (buffer_size * samp_size) samples)))"

definition interleave_interleave_buf ::
    "bladerf_channel_layout \<Rightarrow> bladerf_format \<Rightarrow> nat \<Rightarrow> u8 list option \<Rightarrow> u8 list \<Rightarrow> u8 list outcome" where
  "interleave_interleave_buf = rearrange_buf interleave_moves"

definition interleave_deinterleave_buf ::
    "bladerf_channel_layout \<Rightarrow> bladerf_format \<Rightarrow> nat \<Rightarrow> u8 list option \<Rightarrow> u8 list \<Rightarrow> u8 list outcome" where
  "interleave_deinterleave_buf = rearrange_buf deinterleave_moves"

section \<open>Message headers\<close>

definition METADATA_HEADER_SIZE :: nat where "METADATA_HEADER_SIZE = 16"
definition METADATA_RX_EPOCH_TAG_VALID :: u32 where "METADATA_RX_EPOCH_TAG_VALID = push_bit 31 1"
definition METADATA_RX_EPOCH_ID_MASK :: u32 where "METADATA_RX_EPOCH_ID_MASK = 0xff"
definition BLADERF_META_FLAG_TX_BURST_START :: u32 where "BLADERF_META_FLAG_TX_BURST_START = 1"
definition BLADERF_META_FLAG_TX_BURST_END :: u32 where "BLADERF_META_FLAG_TX_BURST_END = 2"
definition BLADERF_META_FLAG_TX_NOW :: u32 where "BLADERF_META_FLAG_TX_NOW = 4"
definition BLADERF_META_FLAG_TX_UPDATE_TIMESTAMP :: u32 where
  "BLADERF_META_FLAG_TX_UPDATE_TIMESTAMP = 8"
definition BLADERF_META_FLAG_RX_NOW :: u32 where "BLADERF_META_FLAG_RX_NOW = push_bit 31 1"
definition BLADERF_META_FLAG_RX_HW_UNDERFLOW :: u32 where "BLADERF_META_FLAG_RX_HW_UNDERFLOW = 1"
definition BLADERF_META_FLAG_RX_HW_MINIEXP1 :: u32 where
  "BLADERF_META_FLAG_RX_HW_MINIEXP1 = push_bit 16 1"
definition BLADERF_META_FLAG_RX_HW_MINIEXP2 :: u32 where
  "BLADERF_META_FLAG_RX_HW_MINIEXP2 = push_bit 17 1"
definition BLADERF_META_STATUS_UNDERRUN :: u32 where "BLADERF_META_STATUS_UNDERRUN = 2"

definition metadata_tx_packet_length_bytes :: "nat \<Rightarrow> u32 \<Rightarrow> nat option" where
  "metadata_tx_packet_length_bytes buffer_bytes actual_count =
     (if unat actual_count < METADATA_HEADER_SIZE div 4 \<or> unat actual_count > buffer_bytes div 4
      then None else Some (unat actual_count * 4))"

definition metadata_tx_packet_payload_length_bytes :: "nat \<Rightarrow> u32 \<Rightarrow> nat option" where
  "metadata_tx_packet_payload_length_bytes buffer_bytes payload_dwords =
     (if payload_dwords > 0xffff \<or> payload_dwords > 0xffffffff - 4 then None
      else metadata_tx_packet_length_bytes buffer_bytes (payload_dwords + 4))"

definition header_tag :: "u8 list \<Rightarrow> u32" where
  "header_tag h = ucast (h ! 0) OR push_bit 8 (ucast (h ! 1)) OR push_bit 16 (ucast (h ! 2)) OR
     push_bit 24 (ucast (h ! 3))"

definition metadata_get_rx_clipping_flags :: "u8 list \<Rightarrow> u8" where
  "metadata_get_rx_clipping_flags h =
     (if header_tag h AND METADATA_RX_EPOCH_TAG_VALID = 0 then 0
      else ucast (drop_bit 8 (header_tag h) AND 3))"

definition metadata_rx_format_has_epoch_tag :: "bladerf_format \<Rightarrow> bool" where
  "metadata_rx_format_has_epoch_tag fmt \<longleftrightarrow>
     fmt = BLADERF_FORMAT_SC16_Q11_META \<or> fmt = BLADERF_FORMAT_SC8_Q7_META"

definition metadata_rx_format_allowed_for_epoch_contract :: "bool \<Rightarrow> bladerf_format \<Rightarrow> bool" where
  "metadata_rx_format_allowed_for_epoch_contract epoch_contract_enabled fmt \<longleftrightarrow>
     \<not> epoch_contract_enabled \<or> metadata_rx_format_has_epoch_tag fmt"

definition metadata_get_rx_epoch_id :: "u8 list \<Rightarrow> u8 option" where
  "metadata_get_rx_epoch_id h =
     (if header_tag h AND METADATA_RX_EPOCH_TAG_VALID = 0 then None
      else Some (ucast (header_tag h AND METADATA_RX_EPOCH_ID_MASK)))"

definition metadata_rx_epoch_matches :: "u8 list \<Rightarrow> u8 \<Rightarrow> bool" where
  "metadata_rx_epoch_matches h expected_epoch_id \<longleftrightarrow>
     metadata_get_rx_epoch_id h = Some expected_epoch_id"

definition metadata_timestamp_at_or_after :: "u64 \<Rightarrow> u64 \<Rightarrow> bool" where
  "metadata_timestamp_at_or_after timestamp boundary \<longleftrightarrow> timestamp - boundary < push_bit 63 1"

definition metadata_tx_start_timestamp_valid :: "u32 \<Rightarrow> u64 \<Rightarrow> u64 \<Rightarrow> bool" where
  "metadata_tx_start_timestamp_valid flags timestamp current \<longleftrightarrow>
     flags AND BLADERF_META_FLAG_TX_BURST_START = 0 \<or> flags AND BLADERF_META_FLAG_TX_NOW \<noteq> 0 \<or>
     metadata_timestamp_at_or_after timestamp current"

definition metadata_get_timestamp :: "u8 list \<Rightarrow> u64" where
  "metadata_get_timestamp h =
     ucast (h ! 4) OR push_bit 8 (ucast (h ! 5)) OR push_bit 16 (ucast (h ! 6)) OR
     push_bit 24 (ucast (h ! 7)) OR push_bit 32 (ucast (h ! 8)) OR push_bit 40 (ucast (h ! 9)) OR
     push_bit 48 (ucast (h ! 10)) OR push_bit 56 (ucast (h ! 11))"

definition metadata_get_flags :: "u8 list \<Rightarrow> u32" where
  "metadata_get_flags h = ucast (h ! 12) OR push_bit 8 (ucast (h ! 13)) OR
     push_bit 16 (ucast (h ! 14)) OR push_bit 24 (ucast (h ! 15))"

definition metadata_flags_to_sync_status :: "u32 \<Rightarrow> u32" where
  "metadata_flags_to_sync_status flags =
     (flags AND (BLADERF_META_FLAG_RX_HW_MINIEXP1 OR BLADERF_META_FLAG_RX_HW_MINIEXP2)) OR
     (if flags AND BLADERF_META_FLAG_RX_HW_UNDERFLOW \<noteq> 0 then BLADERF_META_STATUS_UNDERRUN else 0)"

definition metadata_get_packet_len :: "u8 list \<Rightarrow> u16" where
  "metadata_get_packet_len h = ucast (h ! 0) OR push_bit 8 (ucast (h ! 1))"

definition metadata_get_packet_core :: "u8 list \<Rightarrow> u8" where
  "metadata_get_packet_core h = h ! 3"

definition metadata_get_packet_flags :: "u8 list \<Rightarrow> u8" where
  "metadata_get_packet_flags h = h ! 2"

definition metadata_rx_packet_payload_length_valid :: "u8 list \<Rightarrow> nat \<Rightarrow> nat \<Rightarrow> bool" where
  "metadata_rx_packet_payload_length_valid buffer received_bytes buffer_bytes \<longleftrightarrow>
     \<not> (received_bytes < METADATA_HEADER_SIZE \<or> received_bytes > buffer_bytes) \<and>
     unat (metadata_get_packet_len buffer) * 4 \<le> received_bytes - METADATA_HEADER_SIZE"

definition metadata_rx_packet_fits_output :: "u8 list \<Rightarrow> nat \<Rightarrow> bool" where
  "metadata_rx_packet_fits_output h output_dwords \<longleftrightarrow>
     unat (metadata_get_packet_len h) \<le> output_dwords"

definition metadata_set_packet :: "u8 list \<Rightarrow> u64 \<Rightarrow> u32 \<Rightarrow> u16 \<Rightarrow> u8 \<Rightarrow> u8 \<Rightarrow> u8 list" where
  "metadata_set_packet h timestamp flags len core pkt_flags =
     [byte_of 0 len, byte_of 1 len, pkt_flags, core,
      byte_of 0 timestamp, byte_of 1 timestamp, byte_of 2 timestamp, byte_of 3 timestamp,
      byte_of 4 timestamp, byte_of 5 timestamp, byte_of 6 timestamp, byte_of 7 timestamp,
      byte_of 0 flags, byte_of 1 flags, byte_of 2 flags, byte_of 3 flags] @
     drop METADATA_HEADER_SIZE h"

definition metadata_set :: "u8 list \<Rightarrow> u64 \<Rightarrow> u32 \<Rightarrow> u8 list" where
  "metadata_set h timestamp flags = metadata_set_packet h timestamp flags 0 0 0"

section \<open>Epoch filtering of transfers\<close>

function message_headers :: "nat \<Rightarrow> u8 list \<Rightarrow> u8 list list" where
  \<comment> \<open>the messages \<^verbatim>\<open>for (offset = 0; offset < length; offset += message_size)\<close> visits\<close>
  "message_headers message_size buffer =
     (if buffer = [] \<or> message_size = 0 then []
      else buffer # message_headers message_size (drop message_size buffer))"
  by pat_completeness auto

termination
  by (relation "measure (\<lambda>(_, b). length b)") auto

declare message_headers.simps [simp del]

definition metadata_rx_buffer_matches_epoch ::
    "u8 list \<Rightarrow> nat \<Rightarrow> u8 \<Rightarrow> u64 \<Rightarrow> bool" where
  "metadata_rx_buffer_matches_epoch buffer message_size expected_epoch_id minimum_timestamp \<longleftrightarrow>
     \<not> (message_size \<le> METADATA_HEADER_SIZE \<or> length buffer = 0 \<or>
        length buffer mod message_size \<noteq> 0) \<and>
     list_all (\<lambda>h. metadata_rx_epoch_matches h expected_epoch_id \<and>
        metadata_timestamp_at_or_after (metadata_get_timestamp h) minimum_timestamp)
       (message_headers message_size buffer)"

fun first_invalid :: "u8 \<Rightarrow> u64 \<Rightarrow> u8 list list \<Rightarrow> (u8 \<times> u64) option" where
  "first_invalid expected_epoch_id minimum_timestamp [] = None"
| "first_invalid expected_epoch_id minimum_timestamp (h # hs) =
     (case metadata_get_rx_epoch_id h of
        None \<Rightarrow> None
      | Some observed \<Rightarrow>
          if observed \<noteq> expected_epoch_id \<or>
             \<not> metadata_timestamp_at_or_after (metadata_get_timestamp h) minimum_timestamp
          then Some (observed, metadata_get_timestamp h)
          else first_invalid expected_epoch_id minimum_timestamp hs)"

definition metadata_rx_buffer_invalid_source ::
    "u8 list \<Rightarrow> nat \<Rightarrow> u8 \<Rightarrow> u64 \<Rightarrow> (u8 \<times> u64) option" where
  "metadata_rx_buffer_invalid_source buffer message_size expected_epoch_id minimum_timestamp =
     (if message_size \<le> METADATA_HEADER_SIZE \<or> length buffer = 0 \<or>
         length buffer mod message_size \<noteq> 0
      then None
      else first_invalid expected_epoch_id minimum_timestamp (message_headers message_size buffer))"

datatype metadata_rx_buffer_epoch_result =
    METADATA_RX_BUFFER_INVALID
  | METADATA_RX_BUFFER_CONTIGUOUS u64
  | METADATA_RX_BUFFER_DISCONTINUITY u64

fun follow_timestamps :: "u64 \<Rightarrow> u8 list list \<Rightarrow> bool \<Rightarrow> u64 \<Rightarrow> bool \<Rightarrow> bool \<times> u64" where
  \<comment> \<open>the loop over the messages: have and expected timestamp, and the discontinuity flag\<close>
  "follow_timestamps step [] have expected disc = (disc, expected)"
| "follow_timestamps step (h # hs) have expected disc =
     (let timestamp = metadata_get_timestamp h in
      follow_timestamps step hs True (timestamp + step)
        (disc \<or> have \<and> timestamp \<noteq> expected))"

definition metadata_rx_buffer_epoch_contiguous ::
    "u8 list \<Rightarrow> nat \<Rightarrow> u8 \<Rightarrow> u64 \<Rightarrow> bool \<Rightarrow> u64 \<Rightarrow> u64 \<Rightarrow> metadata_rx_buffer_epoch_result" where
  \<comment> \<open>the valid results carry \<^verbatim>\<open>*next_timestamp\<close>\<close>
  "metadata_rx_buffer_epoch_contiguous buffer message_size expected_epoch_id minimum_timestamp
     have_expected expected step =
     (if step = 0 \<or>
         \<not> metadata_rx_buffer_matches_epoch buffer message_size expected_epoch_id minimum_timestamp
      then METADATA_RX_BUFFER_INVALID
      else
        (case follow_timestamps step (message_headers message_size buffer) have_expected expected False of
           (disc, next) \<Rightarrow>
             if disc then METADATA_RX_BUFFER_DISCONTINUITY next
             else METADATA_RX_BUFFER_CONTIGUOUS next))"

datatype metadata_rx_epoch_disposition =
    METADATA_RX_EPOCH_ACCEPT | METADATA_RX_EPOCH_DROP_MESSAGE
  | METADATA_RX_EPOCH_SKIP_TIMESTAMP_PREFIX | METADATA_RX_EPOCH_RETURN_VALID_PREFIX
  | METADATA_RX_EPOCH_DISCONTINUITY

definition metadata_rx_epoch_disposition ::
    "bool \<Rightarrow> bool \<Rightarrow> bool \<Rightarrow> u64 \<Rightarrow> u64 \<Rightarrow> u64 \<Rightarrow> bool \<Rightarrow> bool \<Rightarrow> metadata_rx_epoch_disposition" where
  "metadata_rx_epoch_disposition boundary_enabled epoch_filter_enabled epoch_matches
     message_timestamp expected_timestamp minimum_timestamp have_timestamp copied_data =
     (if boundary_enabled \<and> epoch_filter_enabled \<and> \<not> epoch_matches
      then (if copied_data then METADATA_RX_EPOCH_RETURN_VALID_PREFIX
            else METADATA_RX_EPOCH_DROP_MESSAGE)
      else if boundary_enabled \<and>
              (\<not> metadata_timestamp_at_or_after message_timestamp minimum_timestamp \<or>
               have_timestamp \<and> \<not> metadata_timestamp_at_or_after expected_timestamp minimum_timestamp)
      then METADATA_RX_EPOCH_SKIP_TIMESTAMP_PREFIX
      else if have_timestamp \<and> message_timestamp \<noteq> expected_timestamp
      then METADATA_RX_EPOCH_DISCONTINUITY
      else METADATA_RX_EPOCH_ACCEPT)"

definition metadata_rx_epoch_snapshot_is_current ::
    "bool \<Rightarrow> bool \<Rightarrow> u8 \<Rightarrow> u64 \<Rightarrow> bool \<Rightarrow> bool \<Rightarrow> u8 \<Rightarrow> u64 \<Rightarrow> bool" where
  "metadata_rx_epoch_snapshot_is_current s_enabled s_certified s_epoch s_first
     c_enabled c_certified c_epoch c_first \<longleftrightarrow>
     s_enabled \<and> s_certified \<and> c_enabled \<and> c_certified \<and> s_epoch = c_epoch \<and> s_first = c_first"

record rx_cursor =
  \<comment> \<open>\<^verbatim>\<open>*have_expected_timestamp\<close>, \<^verbatim>\<open>*timestamp_epoch_id\<close> and \<^verbatim>\<open>*expected_timestamp\<close>\<close>
  have_expected_timestamp :: bool
  timestamp_epoch_id :: u8
  expected_timestamp :: u64

definition metadata_rx_epoch_commit_timestamp ::
    "bool \<Rightarrow> bool \<Rightarrow> u8 \<Rightarrow> u64 \<Rightarrow> bool \<Rightarrow> bool \<Rightarrow> u8 \<Rightarrow> u64 \<Rightarrow> u64 \<Rightarrow> rx_cursor \<Rightarrow> bool \<times> rx_cursor" where
  "metadata_rx_epoch_commit_timestamp s_enabled s_certified s_epoch s_first
     c_enabled c_certified c_epoch c_first next_timestamp cur =
     (if \<not> metadata_rx_epoch_snapshot_is_current s_enabled s_certified s_epoch s_first
            c_enabled c_certified c_epoch c_first
      then (False, cur)
      else (True, cur\<lparr>have_expected_timestamp := True, timestamp_epoch_id := s_epoch,
                      expected_timestamp := next_timestamp\<rparr>))"

definition metadata_rx_uncertified_snapshot_is_current ::
    "u32 \<Rightarrow> u8 \<Rightarrow> u32 \<Rightarrow> u8 \<Rightarrow> bool \<Rightarrow> bool" where
  "metadata_rx_uncertified_snapshot_is_current s_transaction s_epoch c_transaction c_epoch c_certified \<longleftrightarrow>
     \<not> c_certified \<and> s_transaction = c_transaction \<and> s_epoch = c_epoch"

end
