(* ===== verification/Stream_Buffers.thy ===== *)
theory Stream_Buffers
  imports Stream_Format
begin

unbundle bit_operations_syntax

text \<open>
  Properties of the buffer transformations of Stream_Format: interleaving and deinterleaving two
  channels are inverse, packed samples survive the round trip, header fields read back, and the
  classification of a received transfer is characterised message by message.
\<close>

section \<open>Interleaving\<close>

lemma length_memcpy_at: "off + length s \<le> length d \<Longrightarrow> length (memcpy_at d off s) = length d"
  by (simp add: memcpy_at_def)

lemma nth_memcpy_at:
  assumes "off + length s \<le> length d" "p < length d"
  shows "memcpy_at d off s ! p = (if off \<le> p \<and> p < off + length s then s ! (p - off) else d ! p)"
  using assms by (auto simp: memcpy_at_def nth_append min_def)

lemma chunk_in: "d < n \<Longrightarrow> d * z + z \<le> n * (z :: nat)"
  using mult_le_mono1 [of "Suc d" n z] by simp

lemma chunk_bounds:
  assumes "d < n" "s < m" "n * z \<le> length (dst :: u8 list)" "m * z \<le> length src"
  shows "length (take z (drop (s * z) src)) = z"
    "d * z + length (take z (drop (s * z) src)) \<le> length dst"
  using chunk_in [OF assms(1), of z] chunk_in [OF assms(2), of z] assms(3,4) by auto

lemma copy_samples_Cons:
  "copy_samples z src ((d, s) # moves) dst =
   copy_samples z src moves (memcpy_at dst (d * z) (take z (drop (s * z) src)))"
  by (simp add: copy_samples_def)

lemma length_copy_samples:
  assumes "\<forall>mv \<in> set moves. fst mv < n \<and> snd mv < m" "n * z \<le> length dst" "m * z \<le> length src"
  shows "length (copy_samples z src moves dst) = length dst"
  using assms
proof (induction moves arbitrary: dst)
  case (Cons mv moves)
  obtain d s where mv: "mv = (d, s)" by (cases mv)
  have "d < n" "s < m" using Cons.prems(1) by (simp_all add: mv)
  then have "length (memcpy_at dst (d * z) (take z (drop (s * z) src))) = length dst"
    using Cons.prems(2,3) by (intro length_memcpy_at chunk_bounds(2))
  then show ?case
    using Cons.IH [of "memcpy_at dst (d * z) (take z (drop (s * z) src))"] Cons.prems
    by (simp add: mv copy_samples_Cons)
qed (simp add: copy_samples_def)

lemma copy_one:
  assumes "d < n" "s < m" "n * z \<le> length dst" "m * z \<le> length src" "p < length dst" "0 < z"
  shows "memcpy_at dst (d * z) (take z (drop (s * z) src)) ! p =
    (if p div z = d then src ! (s * z + p mod z) else dst ! p)"
proof -
  let ?c = "take z (drop (s * z) src)"
  note b = chunk_bounds [OF assms(1-4)]
  have "d * z \<le> p \<and> p < d * z + z \<longleftrightarrow> p div z = d"
  proof
    assume "d * z \<le> p \<and> p < d * z + z"
    then show "p div z = d" by (intro div_nat_eqI) (simp_all add: mult.commute)
  next
    assume "p div z = d"
    then have "p = d * z + p mod z" by (metis div_mult_mod_eq)
    moreover have "p mod z < z" using assms(6) by simp
    ultimately show "d * z \<le> p \<and> p < d * z + z" by linarith
  qed
  moreover have "?c ! (p - d * z) = src ! (s * z + p mod z)" if "p div z = d"
  proof -
    have "p - d * z = p mod z" using that by (metis minus_div_mult_eq_mod)
    moreover have "p mod z < z" using assms(6) by simp
    moreover have "s * z + z \<le> length src" using assms(4) chunk_in [OF assms(2), of z] by simp
    ultimately show ?thesis by simp
  qed
  ultimately show ?thesis using nth_memcpy_at [OF b(2) assms(5)] b(1) by auto
qed

lemma nth_copy_samples:
  assumes "distinct (map fst moves)" "\<forall>mv \<in> set moves. fst mv < n \<and> snd mv < m"
    and "n * z \<le> length dst" "m * z \<le> length src" "p < length dst" "0 < z"
  shows "copy_samples z src moves dst ! p =
      (case map_of moves (p div z) of None \<Rightarrow> dst ! p | Some s \<Rightarrow> src ! (s * z + p mod z))"
  using assms
proof (induction moves arbitrary: dst)
  case (Cons mv moves)
  obtain d s where mv: "mv = (d, s)" by (cases mv)
  let ?dst = "memcpy_at dst (d * z) (take z (drop (s * z) src))"
  have ds: "d < n" "s < m" using Cons.prems(2) by (simp_all add: mv)
  have l: "length ?dst = length dst"
    using ds Cons.prems(3,4) by (intro length_memcpy_at chunk_bounds(2))
  have "copy_samples z src moves ?dst ! p =
      (case map_of moves (p div z) of None \<Rightarrow> ?dst ! p | Some s \<Rightarrow> src ! (s * z + p mod z))"
    using Cons.IH [of ?dst] Cons.prems l by simp
  moreover have "map_of moves d = None" using Cons.prems(1) by (simp add: mv map_of_eq_None_iff)
  ultimately show ?case
    using copy_one [OF ds Cons.prems(3-6)] by (simp add: mv copy_samples_Cons split: option.split)
qed (simp add: copy_samples_def)

lemma interleave_moves_2:
  "distinct (map fst (interleave_moves 2 S))"
  "\<forall>mv \<in> set (interleave_moves 2 S). fst mv < 2 * S \<and> snd mv < 2 * S"
  "k < 2 * S \<Longrightarrow> map_of (interleave_moves 2 S) k = Some (S * (k mod 2) + k div 2)"
proof -
  have e: "interleave_moves 2 S = map (\<lambda>x. (x * 2, x)) [0..<S] @ map (\<lambda>x. (x * 2 + 1, S + x)) [0..<S]"
    by (simp add: interleave_moves_def numeral_2_eq_2)
  have "inj_on (\<lambda>x :: nat. x * 2) A" "inj_on (\<lambda>x :: nat. Suc (x * 2)) A" for A by (auto simp: inj_on_def)
  moreover have "Suc (x * 2) \<noteq> y * 2" "x * 2 \<noteq> Suc (y * 2)" for x y :: nat by arith+
  ultimately show dist: "distinct (map fst (interleave_moves 2 S))"
    by (auto simp: e comp_def distinct_map mult.commute)
  show "\<forall>mv \<in> set (interleave_moves 2 S). fst mv < 2 * S \<and> snd mv < 2 * S" by (auto simp: e)
  show "map_of (interleave_moves 2 S) k = Some (S * (k mod 2) + k div 2)" if "k < 2 * S"
  proof (rule map_of_is_SomeI [OF dist])
    show "(k, S * (k mod 2) + k div 2) \<in> set (interleave_moves 2 S)"
    proof (cases "even k")
      case True
      then have "k = k div 2 * 2" "k div 2 < S" using that by auto
      then show ?thesis using True by (auto simp: e)
    next
      case False
      then have "k = k div 2 * 2 + 1" "k div 2 < S" "k mod 2 = 1" using that by presburger+
      then show ?thesis by (auto simp: e)
    qed
  qed
qed

lemma deinterleave_moves_2:
  "distinct (map fst (deinterleave_moves 2 S))"
  "\<forall>mv \<in> set (deinterleave_moves 2 S). fst mv < 2 * S \<and> snd mv < 2 * S"
  "k < 2 * S \<Longrightarrow> map_of (deinterleave_moves 2 S) k = Some (2 * (k mod S) + k div S)"
proof -
  have e: "deinterleave_moves 2 S = concat (map (\<lambda>x. [(x, 2 * x), (S + x, 2 * x + 1)]) [0..<S])"
    by (simp add: deinterleave_moves_def numeral_2_eq_2)
  have "distinct (concat (map (\<lambda>x. [x, S + x]) [0..<n]))" if "n \<le> S" for n
    using that by (induction n) auto
  moreover have "map fst (deinterleave_moves 2 S) = concat (map (\<lambda>x. [x, S + x]) [0..<S])"
    unfolding e by (simp add: map_concat comp_def)
  ultimately show dist: "distinct (map fst (deinterleave_moves 2 S))" by simp
  show "\<forall>mv \<in> set (deinterleave_moves 2 S). fst mv < 2 * S \<and> snd mv < 2 * S" by (auto simp: e)
  show "map_of (deinterleave_moves 2 S) k = Some (2 * (k mod S) + k div S)" if "k < 2 * S"
  proof (rule map_of_is_SomeI [OF dist])
    show "(k, 2 * (k mod S) + k div S) \<in> set (deinterleave_moves 2 S)"
    proof (cases "k < S")
      case True
      then show ?thesis by (auto simp: e)
    next
      case False
      then have "k = S + (k - S)" "k - S < S" "k mod S = k - S" "k div S = 1"
        using that by (auto simp: le_mod_geq div_nat_eqI)
      then show ?thesis unfolding e by (auto intro!: bexI [of _ "k - S"])
    qed
  qed
qed

lemma deinterleave_interleave_samples:
  assumes "0 < z" "length src = 2 * S * z" "length t1 = 2 * S * z" "length t2 = 2 * S * z"
  shows "copy_samples z (copy_samples z src (interleave_moves 2 S) t1) (deinterleave_moves 2 S) t2 = src"
    (is "?r = src")
proof (rule nth_equalityI)
  let ?i = "copy_samples z src (interleave_moves 2 S) t1"
  have li: "length ?i = 2 * S * z"
    using length_copy_samples [OF interleave_moves_2(2), of S z t1 src] assms by simp
  show l: "length ?r = length src"
    using length_copy_samples [OF deinterleave_moves_2(2), of S z t2 ?i] assms li by simp
  note I = nth_copy_samples [OF interleave_moves_2(1,2) [of S], where z = z and src = src and dst = t1]
  note D = nth_copy_samples [OF deinterleave_moves_2(1,2) [of S], where z = z and src = ?i and dst = t2]
  fix p assume "p < length ?r"
  then have p: "p < 2 * S * z" using l assms by simp
  let ?k = "p div z"
  have k: "?k < 2 * S" using p assms(1) by (simp add: div_less_iff_less_mult)
  let ?j = "2 * (?k mod S) + ?k div S"
  have S: "0 < S" using k by simp
  have kS: "?k div S < 2" using k S by (simp add: div_less_iff_less_mult mult.commute)
  have j: "?j < 2 * S" using kS S mod_less_divisor [OF S, of ?k] by linarith
  have "?r ! p = ?i ! (?j * z + p mod z)"
    using D [of p] p assms li deinterleave_moves_2(3) [OF k] by simp
  also have "\<dots> = src ! ((S * (?j mod 2) + ?j div 2) * z + p mod z)"
  proof -
    let ?q = "?j * z + p mod z"
    have m: "p mod z < z" using assms(1) by simp
    have q: "?q div z = ?j" "?q mod z = p mod z" using m by simp_all
    have "?q < 2 * S * z" using j m chunk_in [of ?j "2 * S" z] by linarith
    then show ?thesis using I [of ?q] assms interleave_moves_2(3) [OF j] q by simp
  qed
  also have "S * (?j mod 2) + ?j div 2 = ?k"
  proof -
    have "?j mod 2 = ?k div S" "?j div 2 = ?k mod S" using kS by auto
    then show ?thesis by simp
  qed
  also have "?k * z + p mod z = p" by simp
  finally show "?r ! p = src ! p" .
qed

lemma copy_samples_take:
  assumes "\<forall>mv \<in> set moves. fst mv < n \<and> snd mv < m"
  shows "copy_samples z (take (m * z) src) moves dst = copy_samples z src moves dst"
  using assms
proof (induction moves arbitrary: dst)
  case (Cons mv moves)
  obtain d s where mv: "mv = (d, s)" by (cases mv)
  have "s * z + z \<le> m * z" using Cons.prems chunk_in [of s m z] by (simp add: mv)
  then have "take z (drop (s * z) (take (m * z) src)) = take z (drop (s * z) src)"
    by (simp add: drop_take min_def)
  then show ?case using Cons by (simp add: mv copy_samples_Cons)
qed (simp add: copy_samples_def)

lemma rearrange_2:
  fixes fmt :: bladerf_format and n :: nat
  defines "z \<equiv> interleave_calc_bytes_per_sample fmt" and "m \<equiv> interleave_calc_metadata_bytes fmt"
  defines "S \<equiv> n div 2 - m div z div 2"
  assumes "interleave_calc_num_channels layout = 2" "0 < n" "0 < z" "even n" "m div z \<le> n" "n \<le> SIZE_MAX div z"
    and "n * z \<le> length samples" "length t = n * z"
    and mv: "\<forall>mv \<in> set (moves 2 S). fst mv < 2 * S \<and> snd mv < 2 * S"
  shows "rearrange_buf moves layout fmt n (Some t) samples =
      Ok (take m samples @ copy_samples z (take (2 * S * z) (drop m samples)) (moves 2 S) (drop m t) @
          drop (n * z) samples)"
    "m + 2 * S * z = n * z"
proof -
  have div: "even (m div z)" "m div z * z = m"
    by (cases fmt; simp add: z_def m_def interleave_calc_metadata_bytes_def interleave_calc_bytes_per_sample_def)+
  have S2: "2 * S = n - m div z" using assms(7,8) div(1) by (auto simp: S_def elim!: evenE)
  have mle: "m \<le> n * z" using assms(8) div(2) mult_le_mono1 by metis
  have "2 * S * z = n * z - m" using S2 div(2) by (simp add: diff_mult_distrib)
  then show len: "m + 2 * S * z = n * z" using mle by simp
  have "length (copy_samples z (drop m samples) (moves 2 S) (drop m t)) = length (drop m t)"
    using assms(10,11) len by (intro length_copy_samples [OF mv]) auto
  then have l: "length (copy_samples z (drop m samples) (moves 2 S) (drop m t)) = 2 * S * z"
    using assms(11) len by simp
  have S': "n div 2 - (if 0 < m then m div z div 2 else 0) = S" by (simp add: S_def)
  show "rearrange_buf moves layout fmt n (Some t) samples =
      Ok (take m samples @ copy_samples z (take (2 * S * z) (drop m samples)) (moves 2 S) (drop m t) @
          drop (n * z) samples)"
    using assms(4-11) len l mle S'
    by (simp add: rearrange_buf_def Let_def z_def [symmetric] m_def [symmetric] copy_samples_take [OF mv] not_less)
qed

lemma rearrange_rejects:
  fixes fmt layout n
  defines "z \<equiv> interleave_calc_bytes_per_sample fmt" and "m \<equiv> interleave_calc_metadata_bytes fmt"
    and "c \<equiv> interleave_calc_num_channels layout"
  assumes "c = 0 \<or> n = 0 \<or> z = 0 \<or> n mod c \<noteq> 0 \<or> n < m div z \<or> n > SIZE_MAX div z"
  shows "rearrange_buf moves layout fmt n t samples = Err BLADERF_ERR_INVAL"
proof (cases "c = 0 \<or> n = 0")
  case False
  then have "z = 0 \<or> n mod c \<noteq> 0 \<or> n < m div z \<or> n > SIZE_MAX div z" using assms(4) by blast
  with False show ?thesis
    unfolding rearrange_buf_def Let_def z_def [symmetric] m_def [symmetric] c_def [symmetric]
    by (simp only: if_False if_True simp_thms)
next
  case True
  then show ?thesis
    unfolding rearrange_buf_def Let_def c_def [symmetric] by (simp only: if_True)
qed

lemma rearrange_single:
  fixes fmt layout n
  defines "z \<equiv> interleave_calc_bytes_per_sample fmt" and "m \<equiv> interleave_calc_metadata_bytes fmt"
    and "c \<equiv> interleave_calc_num_channels layout"
  assumes "\<not> (c = 0 \<or> n = 0 \<or> z = 0 \<or> n mod c \<noteq> 0 \<or> n < m div z \<or> n > SIZE_MAX div z)" "c < 2"
  shows "rearrange_buf moves layout fmt n t samples = Ok samples"
proof -
  have "\<not> (c = 0 \<or> n = 0)" "\<not> (z = 0 \<or> n mod c \<noteq> 0 \<or> n < m div z \<or> n > SIZE_MAX div z)"
    using assms(4) by blast+
  then show ?thesis
    unfolding rearrange_buf_def Let_def z_def [symmetric] m_def [symmetric] c_def [symmetric]
    by (simp only: if_False if_True assms(5))
qed

text \<open>C27. Interleaving is undone by deinterleaving: for every layout, sample format and buffer that
  the functions accept, with any contents of the temporary buffers, deinterleaving the interleaved
  buffer gives back the original, headers and bytes beyond the buffer size included; and both
  functions reject the same arguments.\<close>

theorem interleave_roundtrip:
  assumes "length samples \<ge> n * interleave_calc_bytes_per_sample fmt"
    and "length t1 = n * interleave_calc_bytes_per_sample fmt"
    and "length t2 = n * interleave_calc_bytes_per_sample fmt"
  shows "case interleave_interleave_buf layout fmt n (Some t1) samples of
      Ok s \<Rightarrow> interleave_deinterleave_buf layout fmt n (Some t2) s = Ok samples
    | r \<Rightarrow> r = Err BLADERF_ERR_INVAL \<and> interleave_deinterleave_buf layout fmt n (Some t2) samples = r"
proof -
  let ?z = "interleave_calc_bytes_per_sample fmt" and ?m = "interleave_calc_metadata_bytes fmt"
    and ?c = "interleave_calc_num_channels layout"
  let ?bad = "?c = 0 \<or> n = 0 \<or> ?z = 0 \<or> n mod ?c \<noteq> 0 \<or> n < ?m div ?z \<or> n > SIZE_MAX div ?z"
  consider "?bad" | "\<not> ?bad" "?c < 2" | "\<not> (?bad \<or> ?c < 2)" by blast
  then show ?thesis
  proof cases
    case 1
    then show ?thesis
      by (simp only: interleave_interleave_buf_def interleave_deinterleave_buf_def rearrange_rejects) simp
  next
    case 2
    note single = rearrange_single [OF 2]
    show ?thesis
      unfolding interleave_interleave_buf_def interleave_deinterleave_buf_def single outcome.case ..
  next
    case 3
    note False = 3
    have c: "?c = 2" using False by (auto simp: interleave_calc_num_channels_def split: bladerf_channel_layout.splits)
    define S where "S = n div 2 - ?m div ?z div 2"
    have v: "0 < n" "0 < ?z" "even n" "?m div ?z \<le> n" "n \<le> SIZE_MAX div ?z" using False c by auto
    let ?src = "take (2 * S * ?z) (drop ?m samples)"
    let ?i = "copy_samples ?z ?src (interleave_moves 2 S) (drop ?m t1)"
    let ?s = "take ?m samples @ ?i @ drop (n * ?z) samples"
    have len: "?m + 2 * S * ?z = n * ?z"
      using rearrange_2(2) [where moves = interleave_moves, OF c v assms(1,2) interleave_moves_2(2)] by (simp add: S_def)
    have e1: "interleave_interleave_buf layout fmt n (Some t1) samples = Ok ?s"
      unfolding interleave_interleave_buf_def S_def
      by (rule rearrange_2(1) [where moves = interleave_moves, OF c v assms(1,2) interleave_moves_2(2)])
    have src: "length ?src = 2 * S * ?z" using assms(1) len by simp
    have t: "length (drop ?m t1) = 2 * S * ?z" "length (drop ?m t2) = 2 * S * ?z"
      using assms(2,3) len by simp_all
    have li: "length ?i = 2 * S * ?z"
      using length_copy_samples [OF interleave_moves_2(2), of S ?z "drop ?m t1" ?src] src t by simp
    have ls: "n * ?z \<le> length ?s" using li len assms(1) by simp
    have m: "min (length samples) ?m = ?m" using len assms(1) by simp
    have parts: "take ?m ?s = take ?m samples" "take (2 * S * ?z) (drop ?m ?s) = ?i"
      "drop (n * ?z) ?s = drop (n * ?z) samples"
      using li m len by (auto simp: drop_append)
    have "interleave_deinterleave_buf layout fmt n (Some t2) ?s =
        Ok (take ?m ?s @ copy_samples ?z (take (2 * S * ?z) (drop ?m ?s)) (deinterleave_moves 2 S) (drop ?m t2) @
            drop (n * ?z) ?s)"
      unfolding interleave_deinterleave_buf_def S_def
      by (rule rearrange_2(1) [where moves = deinterleave_moves, OF c v ls [unfolded S_def] assms(3) deinterleave_moves_2(2)])
    also have "\<dots> = Ok (take ?m samples @ ?src @ drop (n * ?z) samples)"
      unfolding parts using deinterleave_interleave_samples [OF v(2) src t] by simp
    also have "\<dots> = Ok samples"
      using append_take_drop_id [of "2 * S * ?z" "drop ?m samples"] append_take_drop_id [of ?m samples]
      by (simp add: len [symmetric] add.commute)
    finally show ?thesis using e1 by simp
  qed
qed

lemma interleave_roundtrip_witness:
  "case interleave_interleave_buf BLADERF_RX_X2 BLADERF_FORMAT_SC8_Q7 4 (Some (replicate 8 0))
     [1, 2, 3, 4, 5, 6, 7, 8] of
      Ok s \<Rightarrow> interleave_deinterleave_buf BLADERF_RX_X2 BLADERF_FORMAT_SC8_Q7 4 (Some (replicate 8 9)) s =
        Ok [1, 2, 3, 4, 5, 6, 7, 8]
    | r \<Rightarrow> r = Err BLADERF_ERR_INVAL \<and>
        interleave_deinterleave_buf BLADERF_RX_X2 BLADERF_FORMAT_SC8_Q7 4 (Some (replicate 8 9))
          [1, 2, 3, 4, 5, 6, 7, 8] = r"
  by (rule interleave_roundtrip) (simp_all add: interleave_calc_bytes_per_sample_def)

section \<open>Packed samples\<close>

definition q11 :: "i16 \<Rightarrow> bool" where
  \<comment> \<open>a sample of the 12-bit converters\<close>
  "q11 w \<longleftrightarrow> -2048 \<le> sint w \<and> sint w \<le> 2047"

lemma q11_cases:
  assumes "q11 w"
  shows "uint w < 2048 \<or> 63488 \<le> uint w"
proof (cases "uint w < 32768")
  case True
  then have "(uint w + 32768) mod 65536 = uint w + 32768" by (intro mod_pos_pos_trivial) simp_all
  then show ?thesis
    using assms by (simp add: q11_def sint_uint signed_take_bit_eq_take_bit_shift take_bit_eq_mod)
next
  case False
  then have "(uint w + 32768) mod 65536 = uint w - 32768"
    using uint_lt2p [of w] by (intro int_mod_pos_eq [of _ _ 1]) simp_all
  then show ?thesis
    using assms by (simp add: q11_def sint_uint signed_take_bit_eq_take_bit_shift take_bit_eq_mod)
qed

lemma xor_sign:
  fixes v :: u16
  assumes "v < 0x0800"
  shows "xor v 0x0800 = v + 0x0800" "xor (v + 0x0800) 0x0800 = v"
proof -
  have "\<not> bit v 11" using assms less_pow2_bits [of v 11 11] by simp
  then have "v AND 0x0800 = 0" using and_exp_eq_0_iff_not_bit [of v 11] by simp
  then show x: "xor v 0x0800 = v + 0x0800" by (simp add: disjunctive_xor_eq_or disjunctive_add_eq_or)
  then show "xor (v + 0x0800) 0x0800 = v" unfolding x [symmetric] by (simp add: xor.assoc)
qed

lemma sign_extend_12:
  fixes w :: u16
  assumes "q11 w"
  shows "xor (take_bit 12 w) 0x0800 - 0x0800 = w"
proof (cases "uint w < 2048")
  case True
  then have w: "w < 0x0800" by (simp add: word_less_def)
  moreover have "take_bit 12 w = w"
    using True by (intro word_uint_eqI) (simp only: unsigned_take_bit_eq, simp add: take_bit_eq_mod)
  ultimately show ?thesis using xor_sign(1) [OF w] by simp
next
  case False
  then have "63488 \<le> uint w" using q11_cases [OF assms] by simp
  then have v: "uint (w - 0xf800) = uint w - 63488" by (simp add: uint_sub_if')
  then have v': "w - 0xf800 < 0x0800" using uint_lt2p [of w] by (simp add: word_less_def)
  have "uint w mod 4096 = uint w - 61440"
    using \<open>63488 \<le> uint w\<close> uint_lt2p [of w] by (intro int_mod_pos_eq [of _ _ 15]) simp_all
  then have "take_bit 12 w = (w - 0xf800) + 0x0800"
    using v \<open>63488 \<le> uint w\<close> uint_lt2p [of w]
    by (intro word_uint_eqI) (simp only: unsigned_take_bit_eq uint_plus_if', simp add: take_bit_eq_mod)
  then show ?thesis using xor_sign(2) [OF v'] by simp
qed

lemma nibble_masks:
  fixes w :: "'l::len word"
  shows "w AND 0x0f = take_bit 4 w" "w AND 0x0fff = take_bit 12 w"
  by (simp_all add: take_bit_eq_mask mask_eq_exp_minus_1)

lemma nat_split_4: "(n < 4 \<Longrightarrow> P n) \<Longrightarrow> (\<And>k. n = 4 + k \<Longrightarrow> P (4 + k)) \<Longrightarrow> P (n :: nat)"
  by (metis le_Suc_ex not_less)

lemma packed_fields:
  fixes i q :: u16
  defines "p0 \<equiv> ucast (i AND 0x0fff) :: u8"
    and "p1 \<equiv> ucast (drop_bit 8 (i AND 0x0fff) OR push_bit 4 ((q AND 0x0fff) AND 0x0f)) :: u8"
    and "p2 \<equiv> ucast (drop_bit 4 (q AND 0x0fff)) :: u8"
  shows "ucast p0 OR push_bit 8 (ucast (p1 AND 0x0f) :: u16) = take_bit 12 i"
    "ucast (drop_bit 4 p1) OR push_bit 4 (ucast p2 :: u16) = take_bit 12 q"
  unfolding p0_def p1_def p2_def
  unfolding nibble_masks
  subgoal by (rule bit_word_eqI) (auto simp: bit_simps)
  subgoal by (rule bit_word_eqI, rule nat_split_4) (auto simp: bit_simps)
  done


text \<open>C28. Packing 12-bit samples three bytes each and unpacking them is the identity: every
  sequence of samples in the range of the converters comes back with its signs, whatever its length,
  and takes exactly the number of bytes \<^verbatim>\<open>samples_to_bytes\<close> reserves for it.\<close>

theorem packed_samples_roundtrip:
  assumes "\<forall>s \<in> set xs. q11 (fst s) \<and> q11 (snd s)" "length xs \<le> SIZE_MAX div 3"
  shows "sc16q11_unpack_samples (sc16q11_pack_samples xs) = xs \<and>
    samples_to_bytes BLADERF_FORMAT_SC16_Q11_PACKED (length xs) = Ok (length (sc16q11_pack_samples xs))"
proof
  show "sc16q11_unpack_samples (sc16q11_pack_samples xs) = xs"
    using assms(1)
  proof (induction xs)
    case (Cons s rest)
    obtain i q where s: "s = (i, q)" by (cases s)
    have "sc16q11_unpack_samples (sc16q11_pack_samples (s # rest)) =
        (xor (take_bit 12 i) 0x0800 - 0x0800, xor (take_bit 12 q) 0x0800 - 0x0800) # rest"
      unfolding s sc16q11_pack_samples.simps Let_def append_Cons append_Nil
        sc16q11_unpack_samples.simps packed_fields
      using Cons by simp
    then show ?case using Cons.prems by (simp add: s sign_extend_12)
  qed simp
  have "length (sc16q11_pack_samples xs) = 3 * length xs"
    by (induction xs rule: sc16q11_pack_samples.induct) (simp_all add: Let_def)
  then show "samples_to_bytes BLADERF_FORMAT_SC16_Q11_PACKED (length xs) = Ok (length (sc16q11_pack_samples xs))"
    using assms(2) by (simp add: samples_to_bytes_def sc16q11_packed_to_bytes_def scaled_size_def)
qed

theorem packed_samples_roundtrip_witness:
  "sc16q11_unpack_samples (sc16q11_pack_samples [(2047, -2048), (0, -1)]) = [(2047, -2048), (0, -1)]"
  using packed_samples_roundtrip [of "[(2047, -2048), (0, -1)]"] by (simp add: q11_def)

text \<open>The inverse conversion of the packed format divides by four: it is not the inverse of
  \<^verbatim>\<open>samples_to_bytes\<close> on any nonzero count, and its assertion fails unless the count is a multiple of four.\<close>

lemma packed_count_lost:
  assumes "0 < n" "samples_to_bytes BLADERF_FORMAT_SC16_Q11_PACKED n = Ok b"
  shows "bytes_to_samples BLADERF_FORMAT_SC16_Q11_PACKED b =
    (if n mod 4 = 0 then Ok (3 * (n div 4)) else Undef)"
proof -
  have b: "b = n * 3"
    using assms(2) by (simp add: samples_to_bytes_def sc16q11_packed_to_bytes_def scaled_size_def split: if_splits)
  have "n * 3 mod 4 = 0 \<longleftrightarrow> n mod 4 = 0" by presburger
  moreover have "n mod 4 = 0 \<Longrightarrow> n * 3 div 4 = 3 * (n div 4)" by presburger
  ultimately show ?thesis by (simp add: b bytes_to_samples_def bytes_to_sc16q11_def)
qed

section \<open>Headers\<close>

text \<open>What \<^verbatim>\<open>metadata_set_packet\<close> writes, the getters read back.\<close>

lemma metadata_set_get:
  "metadata_get_timestamp (metadata_set_packet h timestamp flags len core pkt_flags) = timestamp"
  "metadata_get_flags (metadata_set_packet h timestamp flags len core pkt_flags) = flags"
  "metadata_get_packet_len (metadata_set_packet h timestamp flags len core pkt_flags) = len"
  "metadata_get_packet_core (metadata_set_packet h timestamp flags len core pkt_flags) = core"
  "metadata_get_packet_flags (metadata_set_packet h timestamp flags len core pkt_flags) = pkt_flags"
  unfolding metadata_set_packet_def metadata_get_timestamp_def metadata_get_flags_def
    metadata_get_packet_len_def metadata_get_packet_core_def metadata_get_packet_flags_def
  by (simp_all add: le_bytes)

section \<open>Contiguous transfers\<close>

lemma message_headers_indexed:
  assumes "0 < z" "length buffer = n * z"
  shows "message_headers z buffer = map (\<lambda>j. drop (j * z) buffer) [0..<n]"
  using assms(2)
proof (induction n arbitrary: buffer)
  case (Suc n)
  have "[0..<Suc n] = 0 # map Suc [0..<n]" by (simp add: upt_conv_Cons map_Suc_upt del: upt_Suc)
  moreover have "message_headers z (drop z buffer) = map (\<lambda>j. drop (j * z) (drop z buffer)) [0..<n]"
    using Suc by simp
  moreover have "buffer \<noteq> []" using Suc.prems assms(1) by auto
  ultimately show ?case
    using assms(1) by (subst message_headers.simps) (simp add: add.commute comp_def del: upt_Suc)
qed (subst message_headers.simps, simp)

lemma follow_timestamps_disc: "fst (follow_timestamps step hs have expected True)"
  by (induction hs arbitrary: "have" expected) (simp_all add: Let_def)

lemma follow_timestamps_run:
  "follow_timestamps step hs True expected False = (False, next) \<longleftrightarrow>
   (\<forall>j < length hs. metadata_get_timestamp (hs ! j) = expected + of_nat j * step) \<and>
   next = expected + of_nat (length hs) * step"
proof (induction hs arbitrary: expected)
  case (Cons h hs)
  show ?case
  proof (cases "metadata_get_timestamp h = expected")
    case True
    then show ?thesis
      using Cons.IH [of "expected + step"]
      by (auto simp: Let_def All_less_Suc2 algebra_simps)
  next
    case False
    moreover from False have "fst (follow_timestamps step (h # hs) True expected False)"
      by (simp add: Let_def follow_timestamps_disc)
    ultimately show ?thesis by (auto simp del: follow_timestamps.simps)
  qed
qed auto

lemma follow_timestamps_start:
  assumes "hs \<noteq> []"
  shows "follow_timestamps step hs have expected False = (False, next) \<longleftrightarrow>
   (have \<longrightarrow> metadata_get_timestamp (hs ! 0) = expected) \<and>
   (\<forall>j < length hs. metadata_get_timestamp (hs ! j) = metadata_get_timestamp (hs ! 0) + of_nat j * step) \<and>
   next = metadata_get_timestamp (hs ! 0) + of_nat (length hs) * step"
proof -
  obtain h rest where hs: "hs = h # rest" using assms by (cases hs) auto
  let ?t = "metadata_get_timestamp h"
  have "follow_timestamps step hs have expected False =
      follow_timestamps step hs True ?t (have \<and> ?t \<noteq> expected)"
    by (simp add: hs Let_def)
  also have "\<dots> = (False, next) \<longleftrightarrow> (have \<longrightarrow> ?t = expected) \<and> follow_timestamps step hs True ?t False = (False, next)"
    using follow_timestamps_disc [of step hs True ?t] by (cases "have \<and> ?t \<noteq> expected") auto
  finally show ?thesis unfolding follow_timestamps_run by (simp add: hs)
qed

text \<open>C29. A received transfer is reported contiguous exactly when it is a whole number of messages,
  every message carries the expected epoch and a timestamp at or after the boundary, each timestamp is
  the previous one plus the message length (modulo \<open>2 ^ 64\<close>), and the first one is the expected
  timestamp when there is one; the next expected timestamp is then the one after the last message.\<close>

theorem contiguous_transfer:
  "metadata_rx_buffer_epoch_contiguous buffer z epoch boundary have expected step =
     METADATA_RX_BUFFER_CONTIGUOUS next \<longleftrightarrow>
   step \<noteq> 0 \<and> METADATA_HEADER_SIZE < z \<and>
   (\<exists>n t. 0 < n \<and> length buffer = n * z \<and> (have \<longrightarrow> t = expected) \<and> next = t + of_nat n * step \<and>
     (\<forall>j < n. metadata_get_rx_epoch_id (drop (j * z) buffer) = Some epoch \<and>
       metadata_get_timestamp (drop (j * z) buffer) = t + of_nat j * step \<and>
       t + of_nat j * step - boundary < 2 ^ 63))"
  (is "?l = METADATA_RX_BUFFER_CONTIGUOUS next \<longleftrightarrow> ?r")
proof (cases "METADATA_HEADER_SIZE < z \<and> length buffer \<noteq> 0 \<and> length buffer mod z = 0")
  case False
  then have "?l = METADATA_RX_BUFFER_INVALID"
    by (auto simp: metadata_rx_buffer_epoch_contiguous_def metadata_rx_buffer_matches_epoch_def not_less)
  moreover have "\<not> ?r" using False by auto
  ultimately show ?thesis by simp
next
  case True
  then have z: "METADATA_HEADER_SIZE < z" "0 < z" by simp_all
  define n where "n = length buffer div z"
  have len: "length buffer = n * z" using True by (auto simp: n_def)
  have n: "0 < n" using True len by (cases n) auto
  let ?h = "\<lambda>j. drop (j * z) buffer" and ?ts = "\<lambda>j. metadata_get_timestamp (drop (j * z) buffer)"
  have hs: "message_headers z buffer = map ?h [0..<n]" by (rule message_headers_indexed [OF z(2) len])
  have m: "metadata_rx_buffer_matches_epoch buffer z epoch boundary \<longleftrightarrow>
      (\<forall>j < n. metadata_get_rx_epoch_id (?h j) = Some epoch \<and> ?ts j - boundary < 2 ^ 63)"
    using True unfolding metadata_rx_buffer_matches_epoch_def hs
    by (auto simp: list_all_iff metadata_rx_epoch_matches_def metadata_timestamp_at_or_after_def)
  have f: "follow_timestamps step (message_headers z buffer) have expected False = (False, next) \<longleftrightarrow>
      (have \<longrightarrow> ?ts 0 = expected) \<and> (\<forall>j < n. ?ts j = ?ts 0 + of_nat j * step) \<and> next = ?ts 0 + of_nat n * step"
    using n unfolding hs by (subst follow_timestamps_start) auto
  have "?l = METADATA_RX_BUFFER_CONTIGUOUS next \<longleftrightarrow> step \<noteq> 0 \<and>
      metadata_rx_buffer_matches_epoch buffer z epoch boundary \<and>
      follow_timestamps step (message_headers z buffer) have expected False = (False, next)"
    by (auto simp: metadata_rx_buffer_epoch_contiguous_def split: prod.splits)
  also have "\<dots> \<longleftrightarrow> step \<noteq> 0 \<and> (have \<longrightarrow> ?ts 0 = expected) \<and> next = ?ts 0 + of_nat n * step \<and>
      (\<forall>j < n. metadata_get_rx_epoch_id (?h j) = Some epoch \<and> ?ts j = ?ts 0 + of_nat j * step \<and>
        ?ts 0 + of_nat j * step - boundary < 2 ^ 63)"
    unfolding m f by (metis (no_types, lifting))
  also have "\<dots> \<longleftrightarrow> ?r"
  proof
    assume "step \<noteq> 0 \<and> (have \<longrightarrow> ?ts 0 = expected) \<and> next = ?ts 0 + of_nat n * step \<and>
      (\<forall>j < n. metadata_get_rx_epoch_id (?h j) = Some epoch \<and> ?ts j = ?ts 0 + of_nat j * step \<and>
        ?ts 0 + of_nat j * step - boundary < 2 ^ 63)"
    then show ?r using z n len by blast
  next
    assume ?r
    then obtain k t where k: "step \<noteq> 0" "0 < k" "length buffer = k * z" "have \<longrightarrow> t = expected"
        "next = t + of_nat k * step"
        "\<forall>j < k. metadata_get_rx_epoch_id (?h j) = Some epoch \<and> ?ts j = t + of_nat j * step \<and>
          t + of_nat j * step - boundary < 2 ^ 63" by blast
    have "k = n" using k(3) len z(2) by simp
    moreover have "?ts 0 = t" using k(2,6) by (metis add.right_neutral mult_zero_left of_nat_0)
    ultimately show "step \<noteq> 0 \<and> (have \<longrightarrow> ?ts 0 = expected) \<and> next = ?ts 0 + of_nat n * step \<and>
      (\<forall>j < n. metadata_get_rx_epoch_id (?h j) = Some epoch \<and> ?ts j = ?ts 0 + of_nat j * step \<and>
        ?ts 0 + of_nat j * step - boundary < 2 ^ 63)" using k by blast
  qed
  finally show ?thesis .
qed

lemma contiguous_transfer_witness:
  "metadata_rx_buffer_epoch_contiguous
     [7, 0, 0, 0x80, 0x64, 0, 0, 0, 0, 0, 0, 0, 0, 0, 0, 0, 1] 17 7 90 True 100 8 =
   METADATA_RX_BUFFER_CONTIGUOUS 108"
  unfolding contiguous_transfer
  by (intro conjI exI [of _ 1] exI [of _ 100])
    (simp_all add: METADATA_HEADER_SIZE_def metadata_get_rx_epoch_id_def header_tag_def
      METADATA_RX_EPOCH_TAG_VALID_def METADATA_RX_EPOCH_ID_MASK_def metadata_get_timestamp_def)

end
