(* ===== verification/Sync_Worker.thy ===== *)
theory Sync_Worker
  imports Stream_Format
begin

unbundle bit_operations_syntax

text \<open>
  The buffer ring of the synchronous interface: \<^verbatim>\<open>struct buffer_mgmt\<close> of \<^verbatim>\<open>streaming/sync.h\<close>, the
  callbacks of the worker thread (\<^verbatim>\<open>streaming/sync_worker.c\<close>, \<^verbatim>\<open>streaming/sync_worker.h\<close>) and the ring
  operations of \<^verbatim>\<open>sync_rx\<close> and \<^verbatim>\<open>sync_tx\<close> (\<^verbatim>\<open>streaming/sync.c\<close>). Every operation here runs under
  \<^verbatim>\<open>buf_mgmt.lock\<close>, so operations of the two threads are atomic steps.

  An index or length of type \<^verbatim>\<open>unsigned int\<close> or \<^verbatim>\<open>size_t\<close> is a natural number; sequence numbers are
  32-bit words; a buffer address is a 64-bit word. The array \<^verbatim>\<open>reorder\<close> with \<^verbatim>\<open>reorder_len\<close> is the list of
  its live entries. \<open>signals\<close> counts the signals of \<^verbatim>\<open>buf_ready\<close>, \<open>handed\<close> is a history of the sequence
  numbers of the buffers marked ready, and \<open>events\<close> of the overrun events given to the board.
\<close>

section \<open>Data\<close>

datatype sync_buffer_status =
  SYNC_BUFFER_EMPTY | SYNC_BUFFER_PARTIAL | SYNC_BUFFER_FULL | SYNC_BUFFER_IN_FLIGHT

datatype sync_tx_submitter =
  SYNC_TX_SUBMITTER_INVALID | SYNC_TX_SUBMITTER_FN | SYNC_TX_SUBMITTER_CALLBACK

datatype sync_state =
    SYNC_STATE_CHECK_WORKER | SYNC_STATE_RESET_BUF_MGMT | SYNC_STATE_START_WORKER
  | SYNC_STATE_WAIT_FOR_BUFFER | SYNC_STATE_BUFFER_READY | SYNC_STATE_USING_BUFFER
  | SYNC_STATE_USING_PACKET_META | SYNC_STATE_USING_BUFFER_META

datatype sync_meta_state = SYNC_META_STATE_HEADER | SYNC_META_STATE_SAMPLES

definition SYNC_RX_MAX_REORDER :: nat where "SYNC_RX_MAX_REORDER = 256"
definition BUFFER_MGMT_INVALID_INDEX :: nat where "BUFFER_MGMT_INVALID_INDEX = 2 ^ 32 - 1"
definition BLADERF_STREAM_SHUTDOWN :: u64 where "BLADERF_STREAM_SHUTDOWN = 0"
definition BLADERF_STREAM_NO_DATA :: u64 where "BLADERF_STREAM_NO_DATA = -1"
definition BLADERF_STREAM_REUSE_BUFFER :: u64 where "BLADERF_STREAM_REUSE_BUFFER = -2"
definition BLADERF_RF_STREAM_STATUS_FPGA_RX_LOSS :: u32 where
  "BLADERF_RF_STREAM_STATUS_FPGA_RX_LOSS = push_bit 1 1"
definition BLADERF_RF_STREAM_STATUS_SYNC_RX_QUEUE :: u32 where
  "BLADERF_RF_STREAM_STATUS_SYNC_RX_QUEUE = push_bit 2 1"
definition BLADERF_RF_STREAM_STATUS_SYNC_RX_RING_FULL :: u32 where
  "BLADERF_RF_STREAM_STATUS_SYNC_RX_RING_FULL = push_bit 6 1"
definition BLADERF_RF_STREAM_STATUS_SYNC_RX_REORDER :: u32 where
  "BLADERF_RF_STREAM_STATUS_SYNC_RX_REORDER = push_bit 7 1"
definition BLADERF_RF_STREAM_STATUS_SYNC_RX_SEQUENCE_TRACKER :: u32 where
  "BLADERF_RF_STREAM_STATUS_SYNC_RX_SEQUENCE_TRACKER = push_bit 8 1"
definition SYNC_WORKER_START :: u32 where "SYNC_WORKER_START = 1"
definition SYNC_WORKER_STOP :: u32 where "SYNC_WORKER_STOP = 2"

record rx_reorder_entry =
  e_seq :: u32
  e_buf_idx :: nat
  e_num_samples :: nat
  e_dropped :: bool

record buffer_mgmt =
  status :: "sync_buffer_status list"
  actual_lengths :: "nat list"
  buffers :: "u64 list"
  num_buffers :: nat
  prod_i :: nat
  cons_i :: nat
  partial_off :: nat
  overrun_pending :: bool
  overrun_source_flags :: u32
  overrun_event_published :: bool
  rx_data_withheld_pending :: bool
  stale_pending :: bool
  rx_ring_full_warning_published :: bool
  submitter :: sync_tx_submitter
  buffer_seq :: "u32 list option"
  buffer_dropped :: "bool list option"
  expected_seq :: u32
  next_seq :: u32
  reorder :: "rx_reorder_entry list"
  reorder_limit :: nat
  rx_epoch_trace_remaining :: nat
  signals :: nat
  handed :: "u32 list"

record bladerf_sync =
  initialized :: bool
  rx_direction :: bool
  stream_format :: bladerf_format
  num_xfers :: nat
  board_overrun_hook :: bool
  requests :: u32
  sync_state_of :: sync_state
  meta_state :: sync_meta_state
  curr_msg_off :: nat
  msg_num :: nat
  buf_mgmt :: buffer_mgmt
  events :: "u32 list"

abbreviation reorder_len :: "buffer_mgmt \<Rightarrow> nat" where
  "reorder_len b \<equiv> length (reorder b)"

definition in_bufs :: "(buffer_mgmt \<Rightarrow> buffer_mgmt) \<Rightarrow> bladerf_sync \<Rightarrow> bladerf_sync" where
  "in_bufs f s = s\<lparr>buf_mgmt := f (buf_mgmt s)\<rparr>"

definition set_status :: "nat \<Rightarrow> sync_buffer_status \<Rightarrow> buffer_mgmt \<Rightarrow> buffer_mgmt" where
  "set_status i v b = b\<lparr>status := (status b)[i := v]\<rparr>"

definition cond_signal :: "buffer_mgmt \<Rightarrow> buffer_mgmt" where
  "cond_signal b = b\<lparr>signals := signals b + 1\<rparr>"

section \<open>Sequence tracking\<close>

definition sync_reset_sequence_tracking :: "nat \<Rightarrow> buffer_mgmt \<Rightarrow> buffer_mgmt" where
  "sync_reset_sequence_tracking num_in_flight b =
     (case buffer_seq b of
        None \<Rightarrow> b\<lparr>expected_seq := 0, next_seq := 0, reorder := []\<rparr>
      | Some _ \<Rightarrow>
          let n = num_buffers b; bound = min num_in_flight n in
          b\<lparr>buffer_seq := Some (map word_of_nat [0..<bound] @ replicate (n - bound) (-1)),
            expected_seq := 0, next_seq := word_of_nat bound, reorder := [],
            reorder_limit := (if 1 < n then min (n - 1) SYNC_RX_MAX_REORDER else 0)\<rparr>)"

definition sync_worker_mark_rx_slot_in_flight :: "nat \<Rightarrow> u32 \<Rightarrow> buffer_mgmt \<Rightarrow> buffer_mgmt" where
  "sync_worker_mark_rx_slot_in_flight idx sq b =
     (set_status idx SYNC_BUFFER_IN_FLIGHT b)
       \<lparr>buffer_seq := map_option (\<lambda>q. q[idx := sq]) (buffer_seq b),
        buffer_dropped := map_option (\<lambda>d. d[idx := False]) (buffer_dropped b)\<rparr>"

definition submit_slot :: "nat \<Rightarrow> buffer_mgmt \<Rightarrow> buffer_mgmt" where
  \<comment> \<open>\<^verbatim>\<open>sync_worker_mark_rx_slot_in_flight(b, idx, b->next_seq++)\<close>\<close>
  "submit_slot idx b =
     (sync_worker_mark_rx_slot_in_flight idx (next_seq b) b)\<lparr>next_seq := next_seq b + 1\<rparr>"

definition slot_seq :: "buffer_mgmt \<Rightarrow> nat \<Rightarrow> u32" where
  "slot_seq b idx = (case buffer_seq b of None \<Rightarrow> 0 | Some q \<Rightarrow> q ! idx)"

definition mark_buffer_ready :: "nat \<Rightarrow> nat \<Rightarrow> buffer_mgmt \<Rightarrow> buffer_mgmt" where
  "mark_buffer_ready idx num_samples b =
     cond_signal ((set_status idx SYNC_BUFFER_FULL b)
       \<lparr>actual_lengths := (actual_lengths b)[idx := num_samples],
        handed := handed b @ [slot_seq b idx]\<rparr>)"

lemma dropWhile_Cons_length:
  "dropWhile P xs = e # rest \<Longrightarrow> length (takeWhile P xs) + length rest < length xs"
  by (metis Suc_le_eq add_Suc_right length_Cons length_append order_refl takeWhile_dropWhile_id)

function flush_reorder_entries :: "buffer_mgmt \<Rightarrow> buffer_mgmt" where
  "flush_reorder_entries b =
     (case dropWhile (\<lambda>e. e_seq e \<noteq> expected_seq b) (reorder b) of
        [] \<Rightarrow> b
      | e # rest \<Rightarrow>
          let b1 = if e_dropped e then b else mark_buffer_ready (e_buf_idx e) (e_num_samples e) b in
          flush_reorder_entries (b1
            \<lparr>expected_seq := expected_seq b + 1,
             reorder := takeWhile (\<lambda>e. e_seq e \<noteq> expected_seq b) (reorder b) @ rest\<rparr>))"
  by pat_completeness auto

termination
  by (relation "measure (\<lambda>b. length (reorder b))") (auto dest: dropWhile_Cons_length)

declare flush_reorder_entries.simps [simp del]

definition insert_entry :: "rx_reorder_entry \<Rightarrow> buffer_mgmt \<Rightarrow> buffer_mgmt" where
  \<comment> \<open>the entries stay ordered by their distance from the expected sequence number\<close>
  "insert_entry e b =
     (let nearer = \<lambda>x. e_seq x - expected_seq b \<le> e_seq e - expected_seq b in
      b\<lparr>reorder := takeWhile nearer (reorder b) @ e # dropWhile nearer (reorder b)\<rparr>)"

definition hold_out_of_order_buffer ::
    "u32 \<Rightarrow> nat \<Rightarrow> nat \<Rightarrow> bool \<Rightarrow> buffer_mgmt \<Rightarrow> bool \<times> buffer_mgmt" where
  "hold_out_of_order_buffer sq idx num_samples dropped b =
     (if reorder_limit b = 0 \<or> reorder_len b \<ge> reorder_limit b then (False, b)
      else (True, insert_entry \<lparr>e_seq = sq, e_buf_idx = idx, e_num_samples = num_samples,
                                e_dropped = dropped\<rparr> b))"

definition hold_dropped_sequence :: "u32 \<Rightarrow> buffer_mgmt \<Rightarrow> bool \<times> buffer_mgmt" where
  "hold_dropped_sequence sq b =
     (if reorder_len b \<ge> SYNC_RX_MAX_REORDER then (False, b)
      else (True, insert_entry \<lparr>e_seq = sq, e_buf_idx = BUFFER_MGMT_INVALID_INDEX,
                                e_num_samples = 0, e_dropped = True\<rparr> b))"

section \<open>Receive worker\<close>

definition note_rx_overrun :: "u32 \<Rightarrow> bladerf_sync \<Rightarrow> bladerf_sync" where
  "note_rx_overrun source_flags s =
     (let b = buf_mgmt s;
          flags = overrun_source_flags b OR source_flags;
          publish = \<not> overrun_event_published b \<and> board_overrun_hook s;
          b1 = b\<lparr>overrun_pending := True, overrun_source_flags := flags,
                 overrun_event_published := overrun_event_published b \<or> publish\<rparr>;
          b2 = if stale_pending b then b1 else cond_signal (b1\<lparr>stale_pending := True\<rparr>) in
      s\<lparr>buf_mgmt := b2, events := (if publish then events s @ [flags] else events s)\<rparr>)"

definition retire_dropped_sequence :: "u32 \<Rightarrow> bladerf_sync \<Rightarrow> bladerf_sync" where
  "retire_dropped_sequence sq s =
     (let b = buf_mgmt s in
      if sq = expected_seq b
      then s\<lparr>buf_mgmt := flush_reorder_entries (b\<lparr>expected_seq := expected_seq b + 1\<rparr>)\<rparr>
      else if sq - expected_seq b \<noteq> 0
      then (case hold_dropped_sequence sq b of
              (True, b') \<Rightarrow> s\<lparr>buf_mgmt := b'\<rparr>
            | (False, _) \<Rightarrow>
                note_rx_overrun (BLADERF_RF_STREAM_STATUS_SYNC_RX_QUEUE OR
                  BLADERF_RF_STREAM_STATUS_SYNC_RX_SEQUENCE_TRACKER) s)
      else s)"

definition sync_worker_rx_ring_full_recycle :: "nat \<Rightarrow> bladerf_sync \<Rightarrow> bladerf_sync" where
  "sync_worker_rx_ring_full_recycle buffer_idx s =
     (if \<not> initialized s \<or> buffer_idx \<ge> num_buffers (buf_mgmt s) then s
      else
        let s1 = (case buffer_seq (buf_mgmt s) of
                    None \<Rightarrow> s
                  | Some q \<Rightarrow> retire_dropped_sequence (q ! buffer_idx) s) in
        in_bufs (submit_slot buffer_idx) s1)"

definition sync_worker_rx_select_producer_slot :: "bladerf_sync \<Rightarrow> nat \<times> bladerf_sync" where
  "sync_worker_rx_select_producer_slot s =
     (let b = buf_mgmt s in
      if \<not> initialized s \<or> num_buffers b = 0 \<or> prod_i b \<ge> num_buffers b
      then (BUFFER_MGMT_INVALID_INDEX, s)
      else
        (case find (\<lambda>idx. status b ! idx = SYNC_BUFFER_EMPTY)
                (map (\<lambda>offset. (prod_i b + offset) mod num_buffers b) [0..<num_buffers b]) of
           None \<Rightarrow> (BUFFER_MGMT_INVALID_INDEX, s)
         | Some idx \<Rightarrow> (idx, s\<lparr>buf_mgmt := b\<lparr>prod_i := idx\<rparr>\<rparr>)))"

definition sync_worker_rx_reorder_buffer ::
    "u32 \<Rightarrow> nat \<Rightarrow> nat \<Rightarrow> bladerf_sync \<Rightarrow> bool \<times> bladerf_sync" where
  "sync_worker_rx_reorder_buffer sq buffer_idx num_samples s =
     (let b = buf_mgmt s; distance = sq - expected_seq b;
          (held, b') = (if unat distance \<le> reorder_limit b
                        then hold_out_of_order_buffer sq buffer_idx num_samples False b
                        else (False, b)) in
      if distance = 0 then (False, s)
      else if held then (True, s\<lparr>buf_mgmt := b'\<rparr>)
      else (False, note_rx_overrun (BLADERF_RF_STREAM_STATUS_SYNC_RX_QUEUE OR
                     BLADERF_RF_STREAM_STATUS_SYNC_RX_REORDER) s))"

definition find_index :: "u64 \<Rightarrow> u64 list \<Rightarrow> nat" where
  \<comment> \<open>the length of the list when the address does not occur\<close>
  "find_index a xs = length (takeWhile (\<lambda>x. x \<noteq> a) xs)"

definition best_base :: "u64 \<Rightarrow> u64 list \<Rightarrow> nat option" where
  "best_base want xs =
     fold (\<lambda>i best. if xs ! i < want \<and> (case best of None \<Rightarrow> True | Some j \<Rightarrow> xs ! j < xs ! i)
                    then Some i else best) [0..<length xs] None"

definition sync_buf2idx :: "buffer_mgmt \<Rightarrow> u64 \<Rightarrow> nat outcome" where
  "sync_buf2idx b addr =
     (if find_index addr (buffers b) < num_buffers b then Ok (find_index addr (buffers b))
      else (case best_base addr (buffers b) of Some i \<Rightarrow> Ok i | None \<Rightarrow> Undef))"

definition sync_worker_rx_buffer_rejected :: "u64 \<Rightarrow> bladerf_sync \<Rightarrow> u64 \<times> bladerf_sync" where
  "sync_worker_rx_buffer_rejected buffer s =
     (let b = buf_mgmt s; idx = find_index buffer (buffers b) in
      if buffer = 0 \<or> \<not> rx_direction s then (buffer, s)
      else
        (case buffer_seq b of
           None \<Rightarrow> (buffer, s)
         | Some q \<Rightarrow>
             if idx \<ge> num_buffers b \<or> status b ! idx \<noteq> SYNC_BUFFER_IN_FLIGHT then (buffer, s)
             else
               let s1 = retire_dropped_sequence (q ! idx) s;
                   s2 = in_bufs (\<lambda>b. b\<lparr>buffer_dropped := map_option (\<lambda>d. d[idx := True]) (buffer_dropped b)\<rparr>) s1;
                   s3 = (if idx = cons_i (buf_mgmt s2) then in_bufs cond_signal s2 else s2);
                   s4 = in_bufs (set_status idx SYNC_BUFFER_EMPTY) s3 in
               (case sync_worker_rx_select_producer_slot s4 of
                  (next_idx, s5) \<Rightarrow>
                    if next_idx \<noteq> BUFFER_MGMT_INVALID_INDEX
                    then (buffers b ! next_idx,
                          in_bufs (\<lambda>b. (submit_slot next_idx b)
                                         \<lparr>prod_i := (next_idx + 1) mod num_buffers b\<rparr>) s5)
                    else (buffer, in_bufs (submit_slot idx) s5))))"

definition rx_store :: "nat \<Rightarrow> nat \<Rightarrow> bladerf_sync \<Rightarrow> bladerf_sync" where
  \<comment> \<open>the completed buffer is handed over, or held until its predecessors arrive\<close>
  "rx_store samples_idx num_samples s =
     (case buffer_seq (buf_mgmt s) of
        None \<Rightarrow> in_bufs (mark_buffer_ready samples_idx num_samples) s
      | Some q \<Rightarrow>
          let sq = q ! samples_idx;
              (held, s1) = (if sq \<noteq> expected_seq (buf_mgmt s)
                            then sync_worker_rx_reorder_buffer sq samples_idx num_samples s
                            else (False, s)) in
          if held then s1
          else
            let s2 = in_bufs (mark_buffer_ready samples_idx num_samples) s1 in
            if sq = expected_seq (buf_mgmt s2)
            then in_bufs (\<lambda>b. flush_reorder_entries (b\<lparr>expected_seq := expected_seq b + 1\<rparr>)) s2
            else s2)"

definition rx_callback :: "u64 \<Rightarrow> nat \<Rightarrow> bladerf_sync \<Rightarrow> u64 outcome \<times> bladerf_sync" where
  "rx_callback samples num_samples s =
     (if requests s AND SYNC_WORKER_STOP \<noteq> 0 then (Ok BLADERF_STREAM_SHUTDOWN, s)
      else if samples = 0 \<and> num_samples = 0
      then (Ok BLADERF_STREAM_REUSE_BUFFER,
            in_bufs (\<lambda>b. cond_signal (b\<lparr>rx_data_withheld_pending := True\<rparr>)) s)
      else
        (case sync_buf2idx (buf_mgmt s) samples of
           Ok samples_idx \<Rightarrow>
             let s0 = in_bufs (\<lambda>b. b\<lparr>rx_epoch_trace_remaining := rx_epoch_trace_remaining b - 1,
                        buffer_dropped := map_option (\<lambda>d. d[samples_idx := False]) (buffer_dropped b)\<rparr>) s in
             (case sync_worker_rx_select_producer_slot s0 of
                (next_idx, s1) \<Rightarrow>
                  if next_idx \<noteq> BUFFER_MGMT_INVALID_INDEX
                  then
                    (Ok (buffers (buf_mgmt s) ! next_idx),
                     in_bufs (\<lambda>b. (submit_slot next_idx b)\<lparr>prod_i := (next_idx + 1) mod num_buffers b\<rparr>)
                       (rx_store samples_idx num_samples s1))
                  else if reorder_len (buf_mgmt s1) > 0 then (Ok BLADERF_STREAM_NO_DATA, s1)
                  else
                    (Ok samples,
                     note_rx_overrun (BLADERF_RF_STREAM_STATUS_SYNC_RX_QUEUE OR
                         BLADERF_RF_STREAM_STATUS_SYNC_RX_RING_FULL)
                       (sync_worker_rx_ring_full_recycle samples_idx
                         (in_bufs (\<lambda>b. b\<lparr>rx_ring_full_warning_published := True\<rparr>) s1))))
         | Err e \<Rightarrow> (Err e, s)
         | Undef \<Rightarrow> (Undef, s)))"

end
