(* ===== verification/Sync_Ring.thy ===== *)
theory Sync_Ring
  imports Sync_Worker
begin

unbundle bit_operations_syntax

text \<open>
  The reader's and the writer's side of the buffer ring (\<^verbatim>\<open>streaming/sync.c\<close>), the transmit callback
  and the start and epoch fence of the worker (\<^verbatim>\<open>streaming/sync_worker.c\<close>, \<^verbatim>\<open>streaming/sync_worker.h\<close>).
  Submitting a transmit buffer drops the ring lock: \<open>submit\<close> is the call of
  \<^verbatim>\<open>async_submit_stream_buffer\<close> together with whatever callbacks run before the lock is taken again.
\<close>

section \<open>Start of a stream\<close>

definition rx_init_ring :: "nat \<Rightarrow> nat \<Rightarrow> u64 list \<Rightarrow> buffer_mgmt" where
  \<comment> \<open>what \<^verbatim>\<open>sync_init\<close> leaves for a receive stream\<close>
  "rx_init_ring n num_transfers addrs = sync_reset_sequence_tracking num_transfers
     \<lparr>status = map (\<lambda>i. if i < num_transfers then SYNC_BUFFER_IN_FLIGHT else SYNC_BUFFER_EMPTY) [0..<n],
      actual_lengths = replicate n 0, buffers = addrs, num_buffers = n, prod_i = num_transfers,
      cons_i = 0, partial_off = 0, overrun_pending = False, overrun_source_flags = 0,
      overrun_event_published = False, rx_data_withheld_pending = False, stale_pending = False,
      rx_ring_full_warning_published = False, submitter = SYNC_TX_SUBMITTER_INVALID,
      buffer_seq = Some (replicate n 0), buffer_dropped = Some (replicate n False),
      expected_seq = 0, next_seq = 0, reorder = [], reorder_limit = 0,
      rx_epoch_trace_remaining = 0, signals = 0, handed = []\<rparr>"

definition tx_init_ring :: "nat \<Rightarrow> u64 list \<Rightarrow> buffer_mgmt" where
  \<comment> \<open>what \<^verbatim>\<open>sync_init\<close> leaves for a transmit stream\<close>
  "tx_init_ring n addrs =
     \<lparr>status = replicate n SYNC_BUFFER_EMPTY, actual_lengths = replicate n 0, buffers = addrs,
      num_buffers = n, prod_i = 0, cons_i = BUFFER_MGMT_INVALID_INDEX, partial_off = 0,
      overrun_pending = False, overrun_source_flags = 0, overrun_event_published = False,
      rx_data_withheld_pending = False, stale_pending = False, rx_ring_full_warning_published = False,
      submitter = SYNC_TX_SUBMITTER_FN, buffer_seq = None, buffer_dropped = None, expected_seq = 0,
      next_seq = 0, reorder = [], reorder_limit = 0, rx_epoch_trace_remaining = 0, signals = 0,
      handed = []\<rparr>"

definition worker_start_ring :: "bladerf_sync \<Rightarrow> bladerf_sync" where
  \<comment> \<open>the START request of the idle worker\<close>
  "worker_start_ring s =
     (let b = buf_mgmt s in
      if \<not> rx_direction s
      then s\<lparr>buf_mgmt := cond_signal (b\<lparr>status := map (\<lambda>v. if v = SYNC_BUFFER_IN_FLIGHT
               then SYNC_BUFFER_EMPTY else v) (status b)\<rparr>)\<rparr>
      else s\<lparr>buf_mgmt := sync_reset_sequence_tracking (num_xfers s)
             (b\<lparr>prod_i := num_xfers s,
                status := map (\<lambda>i. if i < num_xfers s then SYNC_BUFFER_IN_FLIGHT
                   else if status b ! i = SYNC_BUFFER_IN_FLIGHT then SYNC_BUFFER_EMPTY
                   else status b ! i) [0..<length (status b)]\<rparr>)\<rparr>)"

section \<open>Epoch fence\<close>

definition retire_held :: "rx_reorder_entry \<Rightarrow> buffer_mgmt \<Rightarrow> buffer_mgmt" where
  "retire_held e b =
     (if \<not> e_dropped e \<and> e_buf_idx e < num_buffers b \<and> status b ! e_buf_idx e = SYNC_BUFFER_IN_FLIGHT
      then b\<lparr>status := (status b)[e_buf_idx e := SYNC_BUFFER_EMPTY],
             actual_lengths := (actual_lengths b)[e_buf_idx e := 0],
             buffer_dropped := map_option (\<lambda>d. d[e_buf_idx e := False]) (buffer_dropped b)\<rparr>
      else b)"

definition discard_slot ::
    "nat \<Rightarrow> buffer_mgmt \<times> (u32 \<times> nat) option \<Rightarrow> buffer_mgmt \<times> (u32 \<times> nat) option" where
  \<comment> \<open>one round of the loop; the second component is the nearest in-flight distance and slot\<close>
  "discard_slot i st =
     (case st of (b, best) \<Rightarrow>
      if status b ! i = SYNC_BUFFER_FULL \<or> status b ! i = SYNC_BUFFER_PARTIAL
      then (b\<lparr>status := (status b)[i := SYNC_BUFFER_EMPTY], actual_lengths := (actual_lengths b)[i := 0],
              partial_off := (if i = cons_i b then 0 else partial_off b),
              buffer_dropped := map_option (\<lambda>d. d[i := True]) (buffer_dropped b)\<rparr>, best)
      else if status b ! i = SYNC_BUFFER_IN_FLIGHT
      then (case buffer_seq b of
              None \<Rightarrow> (b, best)
            | Some q \<Rightarrow>
                let distance = q ! i - expected_seq b in
                (b, if distance < (case best of None \<Rightarrow> -1 | Some (d, _) \<Rightarrow> d)
                    then Some (distance, i) else best))
      else (b, best))"

definition sync_worker_discard_rx_epoch :: "bladerf_sync \<Rightarrow> bladerf_sync" where
  "sync_worker_discard_rx_epoch s =
     (if \<not> initialized s \<or> \<not> rx_direction s then s
      else
        let b0 = fold retire_held (reorder (buf_mgmt s)) (buf_mgmt s) in
        (case fold discard_slot [0..<num_buffers b0] (b0, None) of
           (b, None) \<Rightarrow> s\<lparr>buf_mgmt := b\<rparr>
         | (b, Some (_, i)) \<Rightarrow>
             s\<lparr>buf_mgmt := b\<lparr>expected_seq := slot_seq b i, cons_i := i, partial_off := 0, reorder := []\<rparr>\<rparr>))"

section \<open>Reader\<close>

definition anchor_key :: "buffer_mgmt \<Rightarrow> u32 list \<Rightarrow> nat \<Rightarrow> nat option" where
  \<comment> \<open>released sequences behind the expected one first, oldest first; then the ones ahead\<close>
  "anchor_key b q i =
     (let ahead = q ! i - expected_seq b; behind = ahead > 0x7fffffff in
      if status b ! i = SYNC_BUFFER_FULL \<and> behind
      then Some (unat ((-1 :: u32) - (0 - ahead)))
      else if (status b ! i = SYNC_BUFFER_FULL \<or> status b ! i = SYNC_BUFFER_IN_FLIGHT) \<and> \<not> behind
      then Some (2 ^ 32 + unat ahead)
      else None)"

definition best_anchor :: "buffer_mgmt \<Rightarrow> u32 list \<Rightarrow> (nat \<times> nat) option" where
  \<comment> \<open>the smallest key below \<^verbatim>\<open>UINT64_MAX\<close> with the first slot that has it\<close>
  "best_anchor b q =
     fold (\<lambda>i best. case anchor_key b q i of
             None \<Rightarrow> best
           | Some k \<Rightarrow> if k < (case best of None \<Rightarrow> 2 ^ 64 - 1 | Some (k', _) \<Rightarrow> k')
                       then Some (k, i) else best)
       [0..<num_buffers b] None"

definition sync_worker_reanchor_rx_consumer_to_oldest :: "bladerf_sync \<Rightarrow> bool \<times> bladerf_sync" where
  "sync_worker_reanchor_rx_consumer_to_oldest s =
     (let b = buf_mgmt s in
      case buffer_seq b of
        None \<Rightarrow> (False, s)
      | Some q \<Rightarrow>
          if \<not> initialized s \<or> num_buffers b = 0 \<or> cons_i b \<ge> num_buffers b \<or>
             status b ! cons_i b = SYNC_BUFFER_PARTIAL \<or>
             list_ex (\<lambda>i. status b ! i = SYNC_BUFFER_PARTIAL) [0..<num_buffers b]
          then (False, s)
          else
            (case best_anchor b q of
               None \<Rightarrow> (False, s)
             | Some (_, i) \<Rightarrow>
                 if i = cons_i b then (False, s)
                 else (True, s\<lparr>buf_mgmt := b\<lparr>cons_i := i, partial_off := 0\<rparr>\<rparr>)))"

definition advance_rx_buffer :: "buffer_mgmt \<Rightarrow> buffer_mgmt" where
  "advance_rx_buffer b =
     (set_status (cons_i b) SYNC_BUFFER_EMPTY b)\<lparr>cons_i := (cons_i b + 1) mod num_buffers b\<rparr>"

fun skip_dropped :: "nat \<Rightarrow> buffer_mgmt \<Rightarrow> buffer_mgmt" where
  "skip_dropped 0 b = b"
| "skip_dropped (Suc n) b =
     (case buffer_dropped b of
        None \<Rightarrow> b
      | Some d \<Rightarrow>
          if d ! cons_i b
          then skip_dropped n (b\<lparr>buffer_dropped := Some (d[cons_i b := False]),
                                 cons_i := (cons_i b + 1) mod num_buffers b\<rparr>)
          else b)"

definition sync_rx_should_drop_stale :: "bladerf_format \<Rightarrow> u32 \<Rightarrow> bool" where
  "sync_rx_should_drop_stale fmt metadata_flags \<longleftrightarrow>
     (if fmt = BLADERF_FORMAT_PACKET_META then False
      else if fmt = BLADERF_FORMAT_SC16_Q11_META \<or> fmt = BLADERF_FORMAT_SC8_Q7_META
      then metadata_flags AND BLADERF_META_FLAG_RX_NOW \<noteq> 0
      else True)"

definition empty_full_slots :: "buffer_mgmt \<Rightarrow> buffer_mgmt" where
  "empty_full_slots b = b\<lparr>status := map (\<lambda>v. if v = SYNC_BUFFER_FULL then SYNC_BUFFER_EMPTY else v) (status b)\<rparr>"

definition rx_drop_stale :: "bool \<Rightarrow> bladerf_sync \<Rightarrow> bladerf_sync" where
  "rx_drop_stale metadata_rx_now s =
     (let b = empty_full_slots (buf_mgmt s);
          partial = metadata_rx_now \<and> status b ! cons_i b = SYNC_BUFFER_PARTIAL;
          s1 = (if partial
                then s\<lparr>meta_state := SYNC_META_STATE_HEADER, msg_num := 0, curr_msg_off := 0,
                       sync_state_of := SYNC_STATE_WAIT_FOR_BUFFER\<rparr> else s);
          b1 = (if partial then advance_rx_buffer b else b) in
      s1\<lparr>buf_mgmt := b1\<lparr>stale_pending := False\<rparr>\<rparr>)"

definition rx_wait_for_buffer :: "bool \<Rightarrow> u32 option \<Rightarrow> (bladerf_sync, bool) io" where
  \<comment> \<open>\<^verbatim>\<open>SYNC_STATE_WAIT_FOR_BUFFER\<close> up to the wait; the result tells whether a buffer is ready\<close>
  "rx_wait_for_buffer nonblocking flags s =
     (if rx_data_withheld_pending (buf_mgmt s) \<and> nonblocking
      then (Err BLADERF_ERR_WOULD_BLOCK, in_bufs (\<lambda>b. b\<lparr>rx_data_withheld_pending := False\<rparr>) s)
      else
        let s1 = in_bufs (\<lambda>b. b\<lparr>rx_data_withheld_pending := False\<rparr>) s;
            s2 = (case buffer_dropped (buf_mgmt s1) of
                    None \<Rightarrow> s1
                  | Some _ \<Rightarrow> snd (sync_worker_reanchor_rx_consumer_to_oldest
                                (in_bufs (\<lambda>b. skip_dropped (num_buffers b) b) s1)));
            fmt = stream_format s2;
            metadata_rx_now = (case flags of None \<Rightarrow> False
               | Some f \<Rightarrow> f AND BLADERF_META_FLAG_RX_NOW \<noteq> 0 \<and>
                   (fmt = BLADERF_FORMAT_SC16_Q11_META \<or> fmt = BLADERF_FORMAT_SC8_Q7_META));
            s3 = (if stale_pending (buf_mgmt s2) \<and>
                     sync_rx_should_drop_stale fmt (case flags of None \<Rightarrow> 0 | Some f \<Rightarrow> f)
                  then rx_drop_stale metadata_rx_now s2 else s2);
            ready = (status (buf_mgmt s3) ! cons_i (buf_mgmt s3) = SYNC_BUFFER_FULL) in
        (Ok ready, if ready then s3\<lparr>sync_state_of := SYNC_STATE_BUFFER_READY\<rparr> else s3))"

definition rx_buffer_ready :: "(bladerf_sync, unit) io" where
  "rx_buffer_ready s =
     (let s1 = in_bufs (\<lambda>b. (set_status (cons_i b) SYNC_BUFFER_PARTIAL b)\<lparr>partial_off := 0\<rparr>) s in
      case stream_format s of
        BLADERF_FORMAT_SC16_Q11_META \<Rightarrow>
          (Ok (), s1\<lparr>sync_state_of := SYNC_STATE_USING_BUFFER_META, curr_msg_off := 0, msg_num := 0\<rparr>)
      | BLADERF_FORMAT_SC8_Q7_META \<Rightarrow>
          (Ok (), s1\<lparr>sync_state_of := SYNC_STATE_USING_BUFFER_META, curr_msg_off := 0, msg_num := 0\<rparr>)
      | BLADERF_FORMAT_PACKET_META \<Rightarrow> (Ok (), s1\<lparr>sync_state_of := SYNC_STATE_USING_PACKET_META\<rparr>)
      | format_invalid \<Rightarrow> (Undef, s1)
      | _ \<Rightarrow> (Ok (), s1\<lparr>sync_state_of := SYNC_STATE_USING_BUFFER\<rparr>))"

section \<open>Transmit ring\<close>

definition tx_callback :: "u64 \<Rightarrow> bladerf_sync \<Rightarrow> (u64 \<times> nat option) outcome \<times> bladerf_sync" where
  \<comment> \<open>the second component is \<^verbatim>\<open>meta->actual_count\<close> when it is set\<close>
  "tx_callback samples s =
     (if requests s AND SYNC_WORKER_STOP \<noteq> 0 then (Ok (BLADERF_STREAM_SHUTDOWN, None), s)
      else if samples = 0 then (Ok (BLADERF_STREAM_NO_DATA, None), s)
      else
        (case sync_buf2idx (buf_mgmt s) samples of
           Ok idx \<Rightarrow>
             if status (buf_mgmt s) ! idx \<noteq> SYNC_BUFFER_IN_FLIGHT then (Undef, s)
             else
               let b = cond_signal (set_status idx SYNC_BUFFER_EMPTY (buf_mgmt s)) in
               if submitter b \<noteq> SYNC_TX_SUBMITTER_CALLBACK
               then (Ok (BLADERF_STREAM_NO_DATA, None), s\<lparr>buf_mgmt := b\<rparr>)
               else if cons_i b = BUFFER_MGMT_INVALID_INDEX then (Undef, s\<lparr>buf_mgmt := b\<rparr>)
               else if status b ! cons_i b = SYNC_BUFFER_FULL \<and>
                       stream_format s = BLADERF_FORMAT_PACKET_META \<and> actual_lengths b ! cons_i b mod 4 \<noteq> 0
               then (Undef, s\<lparr>buf_mgmt := b\<rparr>)
               else if status b ! cons_i b = SYNC_BUFFER_FULL
               then (Ok (buffers b ! cons_i b,
                         Some (if stream_format s = BLADERF_FORMAT_PACKET_META
                               then actual_lengths b ! cons_i b div 4 else 0)),
                     s\<lparr>buf_mgmt := (set_status (cons_i b) SYNC_BUFFER_IN_FLIGHT b)
                                     \<lparr>cons_i := (cons_i b + 1) mod num_buffers b\<rparr>\<rparr>)
               else (Ok (BLADERF_STREAM_NO_DATA, None),
                     s\<lparr>buf_mgmt := b\<lparr>submitter := SYNC_TX_SUBMITTER_FN,
                                     cons_i := BUFFER_MGMT_INVALID_INDEX\<rparr>\<rparr>)
         | Err e \<Rightarrow> (Err e, s)
         | Undef \<Rightarrow> (Undef, s)))"

definition oldest_full_buffer :: "buffer_mgmt \<Rightarrow> nat" where
  "oldest_full_buffer b =
     (let from = (if cons_i b = BUFFER_MGMT_INVALID_INDEX then prod_i b else cons_i b) in
      case find (\<lambda>idx. status b ! idx = SYNC_BUFFER_FULL)
             (map (\<lambda>i. (from + i) mod num_buffers b) [0..<num_buffers b]) of
        None \<Rightarrow> BUFFER_MGMT_INVALID_INDEX | Some idx \<Rightarrow> idx)"

definition tx_submission_parked :: "buffer_mgmt \<Rightarrow> bool" where
  "tx_submission_parked b \<longleftrightarrow>
     (if submitter b = SYNC_TX_SUBMITTER_CALLBACK then cons_i b \<noteq> BUFFER_MGMT_INVALID_INDEX
      else submitter b = SYNC_TX_SUBMITTER_FN \<and> oldest_full_buffer b \<noteq> BUFFER_MGMT_INVALID_INDEX)"

type_synonym submit_fn = "u64 \<Rightarrow> nat \<Rightarrow> (bladerf_sync, unit) io"

definition transfer_len :: "nat \<Rightarrow> nat \<Rightarrow> bladerf_sync \<Rightarrow> nat" where
  "transfer_len buf_bytes idx s =
     (if stream_format s = BLADERF_FORMAT_PACKET_META then actual_lengths (buf_mgmt s) ! idx
      else buf_bytes)"

definition take_submission :: "buffer_mgmt \<Rightarrow> buffer_mgmt" where
  "take_submission b = b\<lparr>submitter := SYNC_TX_SUBMITTER_FN, cons_i := BUFFER_MGMT_INVALID_INDEX\<rparr>"

definition reclaim_tx_submission :: "submit_fn \<Rightarrow> nat \<Rightarrow> (bladerf_sync, unit) io" where
  "reclaim_tx_submission submit buf_bytes s =
     (let idx = oldest_full_buffer (buf_mgmt s) in
      if idx = BUFFER_MGMT_INVALID_INDEX then (Ok (), in_bufs take_submission s)
      else
        (case submit (buffers (buf_mgmt s) ! idx) (transfer_len buf_bytes idx s)
                (in_bufs (set_status idx SYNC_BUFFER_IN_FLIGHT) s) of
           (Ok _, s1) \<Rightarrow>
             let s2 = in_bufs (\<lambda>b. b\<lparr>cons_i := (idx + 1) mod num_buffers b\<rparr>) s1 in
             (Ok (), if oldest_full_buffer (buf_mgmt s2) = BUFFER_MGMT_INVALID_INDEX
                     then in_bufs take_submission s2 else s2)
         | (Err e, s1) \<Rightarrow>
             (if e = BLADERF_ERR_WOULD_BLOCK then Ok () else Err e,
              in_bufs (set_status idx SYNC_BUFFER_FULL) s1)
         | (Undef, s1) \<Rightarrow> (Undef, s1)))"

definition next_tx_buffer :: "nat \<Rightarrow> bladerf_sync \<Rightarrow> bladerf_sync" where
  "next_tx_buffer idx s =
     (let s1 = in_bufs (\<lambda>b. b\<lparr>prod_i := (idx + 1) mod num_buffers b\<rparr>) s in
      s1\<lparr>sync_state_of := (if status (buf_mgmt s1) ! prod_i (buf_mgmt s1) = SYNC_BUFFER_EMPTY
                           then SYNC_STATE_BUFFER_READY else SYNC_STATE_CHECK_WORKER)\<rparr>)"

definition tx_submit_failed :: "nat \<Rightarrow> bladerf_sync \<Rightarrow> bladerf_sync" where
  "tx_submit_failed idx s =
     (let s1 = (in_bufs (\<lambda>b. (set_status idx SYNC_BUFFER_EMPTY b)\<lparr>partial_off := 0\<rparr>) s)
                 \<lparr>sync_state_of := SYNC_STATE_BUFFER_READY\<rparr> in
      if stream_format s = BLADERF_FORMAT_SC16_Q11_META \<or> stream_format s = BLADERF_FORMAT_SC8_Q7_META \<or>
         stream_format s = BLADERF_FORMAT_PACKET_META
      then s1\<lparr>meta_state := SYNC_META_STATE_HEADER, curr_msg_off := 0, msg_num := 0\<rparr> else s1)"

definition advance_tx_buffer :: "submit_fn \<Rightarrow> nat \<Rightarrow> (bladerf_sync, unit) io" where
  "advance_tx_buffer submit buf_bytes s =
     (let idx = prod_i (buf_mgmt s) in
      if submitter (buf_mgmt s) = SYNC_TX_SUBMITTER_FN
      then
        (case submit (buffers (buf_mgmt s) ! idx) (transfer_len buf_bytes idx s)
                (in_bufs (set_status idx SYNC_BUFFER_IN_FLIGHT) s) of
           (Ok _, s1) \<Rightarrow> (Ok (), next_tx_buffer idx s1)
         | (Err e, s1) \<Rightarrow>
             if e = BLADERF_ERR_WOULD_BLOCK
             then (Ok (), next_tx_buffer idx (in_bufs (\<lambda>b. (set_status idx SYNC_BUFFER_FULL b)
                     \<lparr>submitter := SYNC_TX_SUBMITTER_CALLBACK, cons_i := idx\<rparr>) s1))
             else (Err e, tx_submit_failed idx s1)
         | (Undef, s1) \<Rightarrow> (Undef, s1))
      else
        let s1 = in_bufs (set_status idx SYNC_BUFFER_FULL) s in
        if submitter (buf_mgmt s1) = SYNC_TX_SUBMITTER_CALLBACK \<and>
           cons_i (buf_mgmt s1) \<noteq> BUFFER_MGMT_INVALID_INDEX
        then (case reclaim_tx_submission submit buf_bytes s1 of
                (Ok _, s2) \<Rightarrow> (Ok (), next_tx_buffer idx s2)
              | (Err e, s2) \<Rightarrow> (Err e, s2)
              | (Undef, s2) \<Rightarrow> (Undef, s2))
        else (Ok (), next_tx_buffer idx s1))"

definition sync_worker_restore_rejected_tx_buffer :: "u64 \<Rightarrow> (bladerf_sync, unit) io" where
  "sync_worker_restore_rejected_tx_buffer buffer s =
     (case sync_buf2idx (buf_mgmt s) buffer of
        Ok idx \<Rightarrow>
          (Ok (), if idx < num_buffers (buf_mgmt s) \<and> status (buf_mgmt s) ! idx = SYNC_BUFFER_IN_FLIGHT
                  then in_bufs (\<lambda>b. cond_signal ((set_status idx SYNC_BUFFER_FULL b)
                         \<lparr>submitter := SYNC_TX_SUBMITTER_CALLBACK, cons_i := idx\<rparr>)) s
                  else s)
      | Err e \<Rightarrow> (Err e, s)
      | Undef \<Rightarrow> (Undef, s))"

definition tx_buffer_ready :: "(bladerf_sync, unit) io" where
  "tx_buffer_ready s =
     (let s1 = in_bufs (\<lambda>b. (set_status (prod_i b) SYNC_BUFFER_PARTIAL b)\<lparr>partial_off := 0\<rparr>) s in
      case stream_format s of
        BLADERF_FORMAT_SC16_Q11_META \<Rightarrow>
          (Ok (), s1\<lparr>sync_state_of := SYNC_STATE_USING_BUFFER_META, curr_msg_off := 0, msg_num := 0\<rparr>)
      | BLADERF_FORMAT_SC8_Q7_META \<Rightarrow>
          (Ok (), s1\<lparr>sync_state_of := SYNC_STATE_USING_BUFFER_META, curr_msg_off := 0, msg_num := 0\<rparr>)
      | BLADERF_FORMAT_PACKET_META \<Rightarrow>
          (Ok (), s1\<lparr>sync_state_of := SYNC_STATE_USING_PACKET_META, curr_msg_off := 0, msg_num := 0\<rparr>)
      | format_invalid \<Rightarrow> (Undef, s1)
      | _ \<Rightarrow> (Ok (), s1\<lparr>sync_state_of := SYNC_STATE_USING_BUFFER\<rparr>))"

end
