(* ===== verification/Sync_Order.thy ===== *)
theory Sync_Order
  imports Sync_Ring
begin

unbundle bit_operations_syntax

text \<open>
  Runs of the receive ring. A step is a completion or rejection of a transfer that the USB layer owns,
  an event callback without a buffer, or a ring operation of the reader; each runs under the ring
  lock. \<open>owned\<close> is the set of slots with an outstanding transfer: a completed transfer is resubmitted
  with the buffer the callback returns, and not at all when it returns \<^verbatim>\<open>BLADERF_STREAM_NO_DATA\<close>.
  \<open>rejected\<close> is the history of the sequence numbers rejected by the epoch check. Runs lie between two
  epoch fences and two reports of an overrun to the caller.
\<close>

section \<open>Runs of the receive ring\<close>

record rx_run =
  run_sync :: bladerf_sync
  owned :: "nat set"
  rejected :: "u32 list"

definition resubmitted :: "bladerf_sync \<Rightarrow> u64 \<Rightarrow> nat set" where
  "resubmitted s r = {j. j < num_buffers (buf_mgmt s) \<and> buffers (buf_mgmt s) ! j = r}"

inductive rx_step :: "rx_run \<Rightarrow> rx_run \<Rightarrow> bool" where
  complete: "idx \<in> W \<Longrightarrow> rx_callback (buffers (buf_mgmt s) ! idx) n s = (Ok r, s') \<Longrightarrow>
    rx_step \<lparr>run_sync = s, owned = W, rejected = R\<rparr>
      \<lparr>run_sync = s', owned = (W - {idx}) \<union> resubmitted s r, rejected = R\<rparr>"
| reject: "idx \<in> W \<Longrightarrow> sync_worker_rx_buffer_rejected (buffers (buf_mgmt s) ! idx) s = (r, s') \<Longrightarrow>
    rx_step \<lparr>run_sync = s, owned = W, rejected = R\<rparr>
      \<lparr>run_sync = s', owned = (W - {idx}) \<union> resubmitted s r,
       rejected = R @ [slot_seq (buf_mgmt s) idx]\<rparr>"
| event: "rx_callback 0 0 s = (Ok r, s') \<Longrightarrow>
    rx_step \<lparr>run_sync = s, owned = W, rejected = R\<rparr> \<lparr>run_sync = s', owned = W, rejected = R\<rparr>"
| wait: "rx_wait_for_buffer nonblocking flags s = (r, s') \<Longrightarrow>
    rx_step \<lparr>run_sync = s, owned = W, rejected = R\<rparr> \<lparr>run_sync = s', owned = W, rejected = R\<rparr>"
| take: "status (buf_mgmt s) ! cons_i (buf_mgmt s) = SYNC_BUFFER_FULL \<Longrightarrow>
    rx_buffer_ready s = (Ok (), s') \<Longrightarrow>
    rx_step \<lparr>run_sync = s, owned = W, rejected = R\<rparr> \<lparr>run_sync = s', owned = W, rejected = R\<rparr>"
| release: "status (buf_mgmt s) ! cons_i (buf_mgmt s) = SYNC_BUFFER_PARTIAL \<Longrightarrow>
    rx_step \<lparr>run_sync = s, owned = W, rejected = R\<rparr>
      \<lparr>run_sync = in_bufs advance_rx_buffer s, owned = W, rejected = R\<rparr>"

definition valid_addrs :: "nat \<Rightarrow> u64 list \<Rightarrow> bool" where
  "valid_addrs n addrs \<longleftrightarrow> length addrs = n \<and> distinct addrs \<and>
     (\<forall>a \<in> set addrs. a \<noteq> 0 \<and> a \<noteq> BLADERF_STREAM_NO_DATA \<and> a \<noteq> BLADERF_STREAM_REUSE_BUFFER)"

section \<open>Invariant\<close>

definition live :: "buffer_mgmt \<Rightarrow> rx_reorder_entry list" where
  "live b = filter (\<lambda>e. \<not> e_dropped e) (reorder b)"

definition ring_shape :: "buffer_mgmt \<Rightarrow> bool" where
  "ring_shape b \<longleftrightarrow> num_buffers b < 2 ^ 32 - 1 \<and> length (status b) = num_buffers b \<and>
     valid_addrs (num_buffers b) (buffers b) \<and> prod_i b < num_buffers b \<and>
     (\<exists>q. buffer_seq b = Some q \<and> length q = num_buffers b)"

definition ring_ok :: "buffer_mgmt \<Rightarrow> nat set \<Rightarrow> bool" where
  "ring_ok b W \<longleftrightarrow> ring_shape b \<and>
     (\<forall>i \<in> W. i < num_buffers b \<and> status b ! i = SYNC_BUFFER_IN_FLIGHT) \<and>
     distinct (map e_buf_idx (live b)) \<and>
     (\<forall>e \<in> set (live b). e_buf_idx e < num_buffers b \<and> e_buf_idx e \<notin> W \<and>
        status b ! e_buf_idx e = SYNC_BUFFER_IN_FLIGHT \<and> slot_seq b (e_buf_idx e) = e_seq e)"

definition order_ok :: "buffer_mgmt \<Rightarrow> u32 list \<Rightarrow> bool" where
  "order_ok b R \<longleftrightarrow> (\<forall>e \<in> set (reorder b). e_dropped e \<longrightarrow> e_seq e \<in> set R) \<and>
     (\<exists>ks n. sorted_wrt (<) ks \<and> (\<forall>k \<in> set ks. k < n) \<and> handed b = map word_of_nat ks \<and>
        expected_seq b = word_of_nat n \<and> (\<forall>k < n. k \<in> set ks \<or> word_of_nat k \<in> set R))"

lemmas ring_ops = in_bufs_def set_status_def cond_signal_def mark_buffer_ready_def submit_slot_def
  sync_worker_mark_rx_slot_in_flight_def

lemma order_deliver:
  assumes "order_ok b R" "handed b' = handed b @ [expected_seq b]" "expected_seq b' = expected_seq b + 1"
    "set (reorder b') \<subseteq> set (reorder b)"
  shows "order_ok b' R"
proof -
  obtain ks n where k: "sorted_wrt (<) ks" "\<forall>k \<in> set ks. k < n" "handed b = map word_of_nat ks"
      "expected_seq b = word_of_nat n" "\<forall>k < n. k \<in> set ks \<or> word_of_nat k \<in> set R"
    using assms(1) by (auto simp: order_ok_def)
  have "sorted_wrt (<) (ks @ [n])" "\<forall>k \<in> set (ks @ [n]). k < Suc n"
    using k(1,2) by (auto simp: sorted_wrt_append less_Suc_eq)
  moreover have "handed b' = map word_of_nat (ks @ [n])" "expected_seq b' = word_of_nat (Suc n)"
    using assms(2,3) k(3,4) by (simp_all add: add.commute)
  moreover have "\<forall>k < Suc n. k \<in> set (ks @ [n]) \<or> word_of_nat k \<in> set R"
    using k(5) by (auto simp: less_Suc_eq)
  moreover have "\<forall>e \<in> set (reorder b'). e_dropped e \<longrightarrow> e_seq e \<in> set R"
    using assms(1,4) by (auto simp: order_ok_def)
  ultimately show ?thesis unfolding order_ok_def by blast
qed

lemma order_skip:
  assumes "order_ok b R" "handed b' = handed b" "expected_seq b' = expected_seq b + 1"
    "set (reorder b') \<subseteq> set (reorder b)" "expected_seq b \<in> set R"
  shows "order_ok b' R"
proof -
  obtain ks n where k: "sorted_wrt (<) ks" "\<forall>k \<in> set ks. k < n" "handed b = map word_of_nat ks"
      "expected_seq b = word_of_nat n" "\<forall>k < n. k \<in> set ks \<or> word_of_nat k \<in> set R"
    using assms(1) by (auto simp: order_ok_def)
  have "\<forall>k \<in> set ks. k < Suc n" "\<forall>k < Suc n. k \<in> set ks \<or> word_of_nat k \<in> set R"
    using k(2,4,5) assms(5) by (auto simp: less_Suc_eq)
  moreover have "handed b' = map word_of_nat ks" "expected_seq b' = word_of_nat (Suc n)"
    using assms(2,3) k(3,4) by (simp_all add: add.commute)
  moreover have "\<forall>e \<in> set (reorder b'). e_dropped e \<longrightarrow> e_seq e \<in> set R"
    using assms(1,4) by (auto simp: order_ok_def)
  ultimately show ?thesis using k(1) unfolding order_ok_def by blast
qed

lemma order_same:
  assumes "order_ok b R" "handed b' = handed b" "expected_seq b' = expected_seq b"
    "\<forall>e \<in> set (reorder b'). e_dropped e \<longrightarrow> e \<in> set (reorder b) \<or> e_seq e \<in> set R'" "set R \<subseteq> set R'"
  shows "order_ok b' R'"
proof -
  obtain ks n where k: "sorted_wrt (<) ks" "\<forall>k \<in> set ks. k < n" "handed b = map word_of_nat ks"
      "expected_seq b = word_of_nat n" "\<forall>k < n. k \<in> set ks \<or> word_of_nat k \<in> set R"
    using assms(1) by (auto simp: order_ok_def)
  have "\<forall>k < n. k \<in> set ks \<or> word_of_nat k \<in> set R'" using k(5) assms(5) by blast
  moreover have "\<forall>e \<in> set (reorder b'). e_dropped e \<longrightarrow> e_seq e \<in> set R'"
    using assms(1,4,5) by (auto simp: order_ok_def)
  ultimately show ?thesis using k(1-4) assms(2,3) unfolding order_ok_def by metis
qed

lemma flush_fields [simp]:
  "overrun_pending (flush_reorder_entries b) = overrun_pending b"
  "buffers (flush_reorder_entries b) = buffers b"
  "num_buffers (flush_reorder_entries b) = num_buffers b"
  "buffer_seq (flush_reorder_entries b) = buffer_seq b"
  "prod_i (flush_reorder_entries b) = prod_i b"
  "cons_i (flush_reorder_entries b) = cons_i b"
  "next_seq (flush_reorder_entries b) = next_seq b"
  by (induction b rule: flush_reorder_entries.induct,
      subst flush_reorder_entries.simps, auto simp: ring_ops Let_def split: list.split)+

lemma ring_release:
  assumes "ring_ok b W" "e_buf_idx e < num_buffers b" "\<not> e_dropped e"
    "live b = xs @ e # ys" 
    "live b' = xs @ ys" "status b' = (status b)[e_buf_idx e := v]" "buffer_seq b' = buffer_seq b"
    "num_buffers b' = num_buffers b" "buffers b' = buffers b" "prod_i b' = prod_i b"
  shows "ring_ok b' W"
  using assms by (auto simp: ring_ok_def ring_shape_def slot_seq_def nth_list_update)

lemma flush_ok:
  assumes "ring_ok b W" "order_ok b R"
  shows "ring_ok (flush_reorder_entries b) W \<and> order_ok (flush_reorder_entries b) R \<and>
    (\<forall>j. status b ! j = SYNC_BUFFER_EMPTY \<longrightarrow> status (flush_reorder_entries b) ! j = SYNC_BUFFER_EMPTY)"
  using assms
proof (induction b rule: flush_reorder_entries.induct)
  case (1 b)
  let ?P = "\<lambda>e. e_seq e \<noteq> expected_seq b"
  show ?case
  proof (cases "dropWhile ?P (reorder b)")
    case Nil
    then have "flush_reorder_entries b = b"
      by (subst flush_reorder_entries.simps) (simp only: list.case)
    then show ?thesis using 1(2,3) by simp
  next
    case (Cons e rest)
    let ?b = "if e_dropped e then b else mark_buffer_ready (e_buf_idx e) (e_num_samples e) b"
    let ?b' = "?b\<lparr>expected_seq := expected_seq b + 1, reorder := takeWhile ?P (reorder b) @ rest\<rparr>"
    have split: "reorder b = takeWhile ?P (reorder b) @ e # rest"
      using Cons by (metis takeWhile_dropWhile_id)
    have eq: "e_seq e = expected_seq b" using Cons by (metis (mono_tags) dropWhile_eq_Cons_conv)
    have in_b: "e \<in> set (reorder b)" using split by (metis in_set_conv_decomp)
    have sub: "set (takeWhile ?P (reorder b) @ rest) \<subseteq> set (reorder b)"
      using split by (metis (no_types, lifting) Un_subset_iff set_append set_subset_Cons sup.cobounded1 sup.cobounded2 order_trans)
    have fl: "flush_reorder_entries b = flush_reorder_entries ?b'"
      using Cons by (subst flush_reorder_entries.simps) (simp add: Let_def)
    have live: "live b = live (b\<lparr>reorder := takeWhile ?P (reorder b)\<rparr>) @
        (if e_dropped e then [] else [e]) @ live (b\<lparr>reorder := rest\<rparr>)"
      unfolding live_def by (subst split) simp
    have live': "live ?b' = live (b\<lparr>reorder := takeWhile ?P (reorder b)\<rparr>) @ live (b\<lparr>reorder := rest\<rparr>)"
      by (simp add: live_def)
    have ok: "ring_ok ?b' W \<and> order_ok ?b' R \<and>
        (\<forall>j. status b ! j = SYNC_BUFFER_EMPTY \<longrightarrow> status ?b' ! j = SYNC_BUFFER_EMPTY)"
    proof (cases "e_dropped e")
      case True
      have "ring_ok ?b' W" using 1(2) live live' True by (simp add: ring_ok_def ring_shape_def slot_seq_def)
      moreover have "order_ok ?b' R"
        using 1(3) True in_b eq sub by (intro order_skip [OF 1(3)]) (auto simp: order_ok_def)
      ultimately show ?thesis using True by simp
    next
      case False
      then have e: "e_buf_idx e < num_buffers b" "status b ! e_buf_idx e = SYNC_BUFFER_IN_FLIGHT"
          "slot_seq b (e_buf_idx e) = e_seq e"
        using 1(2) in_b by (auto simp: ring_ok_def live_def)
      have "ring_ok ?b' W"
        by (rule ring_release [OF 1(2) e(1) False]) (use live live' False in \<open>simp_all add: ring_ops\<close>)
      moreover have "order_ok ?b' R"
        using False e(3) eq sub by (intro order_deliver [OF 1(3)]) (simp_all add: ring_ops)
      moreover have "\<forall>j. status b ! j = SYNC_BUFFER_EMPTY \<longrightarrow> status ?b' ! j = SYNC_BUFFER_EMPTY"
        using False e(2) by (auto simp: ring_ops nth_list_update_neq) (metis nth_list_update_neq sync_buffer_status.distinct(5))
      ultimately show ?thesis by blast
    qed
    have "ring_ok (flush_reorder_entries ?b') W \<and> order_ok (flush_reorder_entries ?b') R \<and>
        (\<forall>j. status ?b' ! j = SYNC_BUFFER_EMPTY \<longrightarrow> status (flush_reorder_entries ?b') ! j = SYNC_BUFFER_EMPTY)"
      using ok by (intro 1(1) [OF Cons]) simp_all
    then show ?thesis using ok fl by simp
  qed
qed

definition quiet :: "buffer_mgmt \<Rightarrow> buffer_mgmt \<Rightarrow> bool" where
  \<comment> \<open>a step of the reader: no in-flight slot and no sequence number changes\<close>
  "quiet b b' \<longleftrightarrow> num_buffers b' = num_buffers b \<and> buffers b' = buffers b \<and> prod_i b' = prod_i b \<and>
     buffer_seq b' = buffer_seq b \<and> reorder b' = reorder b \<and> handed b' = handed b \<and>
     expected_seq b' = expected_seq b \<and> overrun_pending b' = overrun_pending b \<and>
     length (status b') = length (status b) \<and>
     (\<forall>i < length (status b). status b ! i = SYNC_BUFFER_IN_FLIGHT \<longrightarrow> status b' ! i = SYNC_BUFFER_IN_FLIGHT)"

lemma quiet_trans [trans]: "quiet b b' \<Longrightarrow> quiet b' b'' \<Longrightarrow> quiet b b''"
  by (auto simp: quiet_def)

lemma quiet_refl [simp]: "quiet b b" by (simp add: quiet_def)

lemma quiet_ok: "quiet b b' \<Longrightarrow> ring_ok b W \<Longrightarrow> ring_ok b' W"
  "quiet b b' \<Longrightarrow> order_ok b R \<Longrightarrow> order_ok b' R"
proof -
  show "quiet b b' \<Longrightarrow> ring_ok b W \<Longrightarrow> ring_ok b' W"
    unfolding quiet_def ring_ok_def ring_shape_def by (auto simp: live_def slot_seq_def)
  show "quiet b b' \<Longrightarrow> order_ok b R \<Longrightarrow> order_ok b' R"
    unfolding quiet_def by (auto intro: order_same [where R = R])
qed

lemma quiet_cursor [simp]:
  "quiet b (b\<lparr>buffer_dropped := d\<rparr>)" "quiet b (b\<lparr>cons_i := i\<rparr>)" "quiet b (b\<lparr>partial_off := i\<rparr>)"
  "quiet b (b\<lparr>rx_data_withheld_pending := w\<rparr>)" "quiet b (b\<lparr>stale_pending := w\<rparr>)" "quiet b (cond_signal b)"
  by (simp_all add: quiet_def cond_signal_def)

lemma quiet_status:
  "status b ! i \<noteq> SYNC_BUFFER_IN_FLIGHT \<Longrightarrow> quiet b (set_status i v b)"
  unfolding quiet_def set_status_def by (cases "i < length (status b)") (auto simp: nth_list_update)

lemma quiet_skip: "quiet b (skip_dropped n b)"
  by (induction n b rule: skip_dropped.induct)
    (auto simp: quiet_def split: option.split)

lemma quiet_reanchor: "quiet (buf_mgmt s) (buf_mgmt (snd (sync_worker_reanchor_rx_consumer_to_oldest s)))"
  by (auto simp: sync_worker_reanchor_rx_consumer_to_oldest_def Let_def quiet_def split: option.split)

lemma quiet_advance:
  "status b ! cons_i b \<noteq> SYNC_BUFFER_IN_FLIGHT \<Longrightarrow> quiet b (advance_rx_buffer b)"
  unfolding advance_rx_buffer_def by (rule quiet_trans [OF quiet_status quiet_cursor(2)])

lemma quiet_drop_stale: "quiet (buf_mgmt s) (buf_mgmt (rx_drop_stale now s))"
proof -
  have e: "quiet (buf_mgmt s) (empty_full_slots (buf_mgmt s))"
    by (auto simp: quiet_def empty_full_slots_def)
  let ?b = "empty_full_slots (buf_mgmt s)"
  have "quiet ?b (if now \<and> status ?b ! cons_i ?b = SYNC_BUFFER_PARTIAL then advance_rx_buffer ?b else ?b)"
    using quiet_advance [of ?b] by auto
  then show ?thesis using e unfolding rx_drop_stale_def Let_def by (auto intro: quiet_trans)
qed

lemma quiet_wait:
  assumes "rx_wait_for_buffer nonblocking flags s = (r, s')"
  shows "quiet (buf_mgmt s) (buf_mgmt s')" "initialized s' = initialized s" "rx_direction s' = rx_direction s"
proof -
  define s1 where "s1 = in_bufs (\<lambda>b. b\<lparr>rx_data_withheld_pending := False\<rparr>) s"
  define s2 where "s2 = (case buffer_dropped (buf_mgmt s1) of None \<Rightarrow> s1
    | Some _ \<Rightarrow> snd (sync_worker_reanchor_rx_consumer_to_oldest (in_bufs (\<lambda>b. skip_dropped (num_buffers b) b) s1)))"
  have 1: "quiet (buf_mgmt s) (buf_mgmt s1)" by (simp add: s1_def in_bufs_def)
  have "quiet (buf_mgmt s1) (buf_mgmt (snd (sync_worker_reanchor_rx_consumer_to_oldest
      (in_bufs (\<lambda>b. skip_dropped (num_buffers b) b) s1))))"
    by (rule quiet_trans [OF _ quiet_reanchor]) (simp add: in_bufs_def quiet_skip)
  then have 2: "quiet (buf_mgmt s) (buf_mgmt s2)"
    using 1 by (auto simp: s2_def split: option.split intro: quiet_trans)
  have re: "initialized (snd (sync_worker_reanchor_rx_consumer_to_oldest s)) = initialized s"
      "rx_direction (snd (sync_worker_reanchor_rx_consumer_to_oldest s)) = rx_direction s" for s
    by (auto simp: sync_worker_reanchor_rx_consumer_to_oldest_def Let_def split: option.split)
  have f2: "initialized s2 = initialized s" "rx_direction s2 = rx_direction s"
    by (auto simp: s2_def s1_def re in_bufs_def split: option.split)
  have fd: "initialized (rx_drop_stale now s2) = initialized s" "rx_direction (rx_drop_stale now s2) = rx_direction s" for now
    using f2 by (simp_all add: rx_drop_stale_def Let_def)
  have "s' = s1 \<or> (\<exists>s3. (s3 = s2 \<or> (\<exists>now. s3 = rx_drop_stale now s2)) \<and>
      (s' = s3 \<or> s' = s3\<lparr>sync_state_of := SYNC_STATE_BUFFER_READY\<rparr>))"
    using assms unfolding rx_wait_for_buffer_def Let_def s1_def [symmetric] s2_def [symmetric]
    by (auto split: if_splits)
  then consider "s' = s1" | s3 where "s3 = s2 \<or> (\<exists>now. s3 = rx_drop_stale now s2)"
      "s' = s3 \<or> s' = s3\<lparr>sync_state_of := SYNC_STATE_BUFFER_READY\<rparr>" by blast
  then have "quiet (buf_mgmt s) (buf_mgmt s') \<and> initialized s' = initialized s \<and> rx_direction s' = rx_direction s"
  proof cases
    case 1
    then show ?thesis using \<open>quiet (buf_mgmt s) (buf_mgmt s1)\<close> by (simp add: s1_def in_bufs_def)
  next
    case 2
    have "quiet (buf_mgmt s) (buf_mgmt s3) \<and> initialized s3 = initialized s \<and> rx_direction s3 = rx_direction s"
      using 2(1) \<open>quiet (buf_mgmt s) (buf_mgmt s2)\<close> quiet_trans [OF _ quiet_drop_stale] f2 fd by metis
    then show ?thesis using 2(2) by auto
  qed
  then show "quiet (buf_mgmt s) (buf_mgmt s')" "initialized s' = initialized s" "rx_direction s' = rx_direction s"
    by simp_all
qed

lemma submit_ok:
  assumes "ring_ok b W" "order_ok b R" "j < num_buffers b" "status b ! j = SYNC_BUFFER_EMPTY" "p < num_buffers b"
  shows "ring_ok ((submit_slot j b)\<lparr>prod_i := p\<rparr>) (insert j W)" "order_ok ((submit_slot j b)\<lparr>prod_i := p\<rparr>) R"
proof -
  show "ring_ok ((submit_slot j b)\<lparr>prod_i := p\<rparr>) (insert j W)"
    using assms(1,3-5)
    by (auto simp: ring_ok_def ring_shape_def ring_ops live_def slot_seq_def nth_list_update
        split: option.splits)
  show "order_ok ((submit_slot j b)\<lparr>prod_i := p\<rparr>) R"
    using assms(2) by (rule order_same) (simp_all add: ring_ops)
qed

lemma select_slot:
  assumes "ring_shape (buf_mgmt s)" "initialized s" "sync_worker_rx_select_producer_slot s = (j, s')"
  obtains "j = BUFFER_MGMT_INVALID_INDEX" "s' = s"
  | "j < num_buffers (buf_mgmt s)" "status (buf_mgmt s) ! j = SYNC_BUFFER_EMPTY"
    "j \<noteq> BUFFER_MGMT_INVALID_INDEX" "s' = s\<lparr>buf_mgmt := (buf_mgmt s)\<lparr>prod_i := j\<rparr>\<rparr>"
proof -
  let ?b = "buf_mgmt s" and ?ix = "map (\<lambda>offset. (prod_i (buf_mgmt s) + offset) mod num_buffers (buf_mgmt s)) [0..<num_buffers (buf_mgmt s)]"
  let ?f = "find (\<lambda>idx. status ?b ! idx = SYNC_BUFFER_EMPTY) ?ix"
  have n: "prod_i ?b < num_buffers ?b" "num_buffers ?b < 2 ^ 32 - 1"
    using assms(1) by (auto simp: ring_shape_def)
  have e: "sync_worker_rx_select_producer_slot s = (case ?f of None \<Rightarrow> (BUFFER_MGMT_INVALID_INDEX, s)
      | Some idx \<Rightarrow> (idx, s\<lparr>buf_mgmt := ?b\<lparr>prod_i := idx\<rparr>\<rparr>))"
    using assms(2) n(1) by (simp add: sync_worker_rx_select_producer_slot_def Let_def)
  show thesis
  proof (cases ?f)
    case None
    then show thesis using e assms(3) by (intro that(1)) simp_all
  next
    case (Some k)
    then have k: "k \<in> set ?ix" "status ?b ! k = SYNC_BUFFER_EMPTY"
      unfolding find_Some_iff by (metis nth_mem)+
    then have "k < num_buffers ?b" using n(1) by auto
    then show thesis
      using k(2) n(2) Some e assms(3) by (intro that(2)) (simp_all add: BUFFER_MGMT_INVALID_INDEX_def)
  qed
qed

lemma ring_drop_owned:
  assumes "ring_ok b W" "i \<in> W" "status b' = (status b)[i := v]" "live b' = live b"
    "buffer_seq b' = buffer_seq b" "num_buffers b' = num_buffers b" "buffers b' = buffers b"
    "prod_i b' = prod_i b"
  shows "ring_ok b' (W - {i})"
  using assms by (auto simp: ring_ok_def ring_shape_def slot_seq_def nth_list_update)

lemma live_insert:
  obtains xs ys where "live (insert_entry e b) = xs @ (if e_dropped e then [] else [e]) @ ys" "live b = xs @ ys"
proof
  let ?P = "\<lambda>x. e_seq x - expected_seq b \<le> e_seq e - expected_seq b"
  let ?F = "filter (\<lambda>e. \<not> e_dropped e)"
  show "live (insert_entry e b) = ?F (takeWhile ?P (reorder b)) @ (if e_dropped e then [] else [e]) @ ?F (dropWhile ?P (reorder b))"
    by (simp add: live_def insert_entry_def Let_def)
  show "live b = ?F (takeWhile ?P (reorder b)) @ ?F (dropWhile ?P (reorder b))"
    by (metis filter_append live_def takeWhile_dropWhile_id)
qed

lemma insert_entry_fields [simp]:
  "status (insert_entry e b) = status b" "num_buffers (insert_entry e b) = num_buffers b"
  "buffers (insert_entry e b) = buffers b" "prod_i (insert_entry e b) = prod_i b"
  "buffer_seq (insert_entry e b) = buffer_seq b" "handed (insert_entry e b) = handed b"
  "expected_seq (insert_entry e b) = expected_seq b" "overrun_pending (insert_entry e b) = overrun_pending b"
  "slot_seq (insert_entry e b) i = slot_seq b i"
  by (simp_all add: insert_entry_def Let_def slot_seq_def)

lemma set_insert_entry: "set (reorder (insert_entry e b)) = insert e (set (reorder b))"
proof -
  let ?P = "\<lambda>x. e_seq x - expected_seq b \<le> e_seq e - expected_seq b"
  have "set (reorder b) = set (takeWhile ?P (reorder b)) \<union> set (dropWhile ?P (reorder b))"
    by (metis set_append takeWhile_dropWhile_id)
  then show ?thesis by (simp add: insert_entry_def Let_def)
qed

lemma hold_ok:
  assumes "ring_ok b W" "order_ok b R" "e_dropped e \<Longrightarrow> e_seq e \<in> set R'" "set R \<subseteq> set R'"
    "\<not> e_dropped e \<Longrightarrow> e_buf_idx e \<in> W \<and> slot_seq b (e_buf_idx e) = e_seq e"
  shows "ring_ok (insert_entry e b) (if e_dropped e then W else W - {e_buf_idx e}) \<and>
    order_ok (insert_entry e b) R'"
proof
  obtain xs ys where l: "live (insert_entry e b) = xs @ (if e_dropped e then [] else [e]) @ ys" "live b = xs @ ys"
    by (rule live_insert)
  show "ring_ok (insert_entry e b) (if e_dropped e then W else W - {e_buf_idx e})"
    using assms(1,5) l by (auto simp: ring_ok_def ring_shape_def)
  show "order_ok (insert_entry e b) R'"
    by (rule order_same [OF assms(2)]) (use assms(3,4) in \<open>auto simp: set_insert_entry\<close>)
qed

lemma overrun_fields [simp]:
  "overrun_pending (buf_mgmt (note_rx_overrun f s))"
  by (simp add: note_rx_overrun_def Let_def cond_signal_def)

lemma store_ok:
  assumes "ring_ok (buf_mgmt s) W" "order_ok (buf_mgmt s) R" "i \<in> W" "rx_store i n s = s'"
    "\<not> overrun_pending (buf_mgmt s')"
  shows "ring_ok (buf_mgmt s') (W - {i}) \<and> order_ok (buf_mgmt s') R \<and> (\<exists>b. s' = s\<lparr>buf_mgmt := b\<rparr>) \<and>
    (\<forall>j. status (buf_mgmt s) ! j = SYNC_BUFFER_EMPTY \<longrightarrow> status (buf_mgmt s') ! j = SYNC_BUFFER_EMPTY) \<and>
    num_buffers (buf_mgmt s') = num_buffers (buf_mgmt s) \<and> buffers (buf_mgmt s') = buffers (buf_mgmt s)"
proof -
  let ?b = "buf_mgmt s"
  obtain q where q: "buffer_seq ?b = Some q" using assms(1) by (auto simp: ring_ok_def ring_shape_def)
  have i: "i < num_buffers ?b" "status ?b ! i = SYNC_BUFFER_IN_FLIGHT"
    using assms(1,3) by (auto simp: ring_ok_def)
  have sl: "slot_seq ?b i = q ! i" by (simp add: slot_seq_def q)
  show ?thesis
  proof (cases "q ! i = expected_seq ?b")
    case True
    let ?b1 = "(mark_buffer_ready i n ?b)\<lparr>expected_seq := expected_seq ?b + 1\<rparr>"
    have s': "s' = s\<lparr>buf_mgmt := flush_reorder_entries ?b1\<rparr>"
      using assms(4) True q by (simp add: rx_store_def Let_def ring_ops)
    have r: "ring_ok ?b1 (W - {i})"
      by (rule ring_drop_owned [OF assms(1,3)]) (simp_all add: ring_ops live_def)
    have o: "order_ok ?b1 R" by (rule order_deliver [OF assms(2)]) (simp_all add: ring_ops sl True)
    have "\<forall>j. status ?b ! j = SYNC_BUFFER_EMPTY \<longrightarrow> status ?b1 ! j = SYNC_BUFFER_EMPTY"
      using i(2) by (auto simp: ring_ops) (metis nth_list_update_neq sync_buffer_status.distinct(5))
    then show ?thesis using flush_ok [OF r o] by (auto simp: s' ring_ops)
  next
    case False
    let ?e = "\<lparr>e_seq = q ! i, e_buf_idx = i, e_num_samples = n, e_dropped = False\<rparr>"
    have "s' = s\<lparr>buf_mgmt := insert_entry ?e ?b\<rparr>"
      using assms(4,5) False q
      by (auto simp: rx_store_def Let_def sync_worker_rx_reorder_buffer_def hold_out_of_order_buffer_def
          ring_ops split: if_splits)
    then show ?thesis using hold_ok [OF assms(1,2), of ?e R] assms(3) sl by auto
  qed
qed

lemma retire_ok:
  assumes "ring_ok (buf_mgmt s) W" "order_ok (buf_mgmt s) R" "sq \<in> set R'" "set R \<subseteq> set R'"
    "retire_dropped_sequence sq s = s'" "\<not> overrun_pending (buf_mgmt s')"
  shows "ring_ok (buf_mgmt s') W \<and> order_ok (buf_mgmt s') R' \<and> (\<exists>b. s' = s\<lparr>buf_mgmt := b\<rparr>) \<and>
    num_buffers (buf_mgmt s') = num_buffers (buf_mgmt s) \<and> buffers (buf_mgmt s') = buffers (buf_mgmt s)"
proof (cases "sq = expected_seq (buf_mgmt s)")
  case True
  let ?b1 = "(buf_mgmt s)\<lparr>expected_seq := expected_seq (buf_mgmt s) + 1\<rparr>"
  have s': "s' = s\<lparr>buf_mgmt := flush_reorder_entries ?b1\<rparr>"
    using assms(5) True by (simp add: retire_dropped_sequence_def Let_def)
  have "ring_ok ?b1 W" using assms(1) by (simp add: ring_ok_def ring_shape_def live_def slot_seq_def)
  moreover have "order_ok (buf_mgmt s) R'"
    by (rule order_same [OF assms(2)]) (use assms(4) in auto)
  then have "order_ok ?b1 R'" by (rule order_skip) (use assms(3) True in simp_all)
  ultimately show ?thesis using flush_ok [of ?b1 W R'] by (auto simp: s')
next
  case False
  let ?e = "\<lparr>e_seq = sq, e_buf_idx = BUFFER_MGMT_INVALID_INDEX, e_num_samples = 0, e_dropped = True\<rparr>"
  have "s' = s\<lparr>buf_mgmt := insert_entry ?e (buf_mgmt s)\<rparr>"
    using assms(5,6) False
    by (auto simp: retire_dropped_sequence_def Let_def hold_dropped_sequence_def split: if_splits)
  then show ?thesis using hold_ok [OF assms(1,2), of ?e R'] assms(3,4) by auto
qed

lemma find_index_nth:
  assumes "distinct xs" "i < length xs"
  shows "find_index (xs ! i) xs = i"
proof -
  have "takeWhile (\<lambda>x. x \<noteq> xs ! i) xs = take i xs"
    using assms by (intro takeWhile_eq_take_P_nth) (auto simp: nth_eq_iff_index_eq)
  then show ?thesis using assms(2) by (simp add: find_index_def)
qed

lemma address_facts:
  assumes "ring_shape (buf_mgmt s)" "i < num_buffers (buf_mgmt s)"
  shows "find_index (buffers (buf_mgmt s) ! i) (buffers (buf_mgmt s)) = i"
    "sync_buf2idx (buf_mgmt s) (buffers (buf_mgmt s) ! i) = Ok i" "buffers (buf_mgmt s) ! i \<noteq> 0"
    "resubmitted s (buffers (buf_mgmt s) ! i) = {i}"
    "resubmitted s 0 = {}" "resubmitted s BLADERF_STREAM_NO_DATA = {}"
proof -
  have v: "length (buffers (buf_mgmt s)) = num_buffers (buf_mgmt s)" "distinct (buffers (buf_mgmt s))"
      "\<forall>a \<in> set (buffers (buf_mgmt s)). a \<noteq> 0 \<and> a \<noteq> BLADERF_STREAM_NO_DATA"
    using assms(1) by (auto simp: ring_shape_def valid_addrs_def)
  show f: "find_index (buffers (buf_mgmt s) ! i) (buffers (buf_mgmt s)) = i"
    using find_index_nth [OF v(2)] v(1) assms(2) by simp
  then show "sync_buf2idx (buf_mgmt s) (buffers (buf_mgmt s) ! i) = Ok i"
    using assms(2) by (simp add: sync_buf2idx_def)
  show "buffers (buf_mgmt s) ! i \<noteq> 0" using v assms(2) by (metis nth_mem)
  show "resubmitted s (buffers (buf_mgmt s) ! i) = {i}"
    using v(1,2) assms(2) by (auto simp: resubmitted_def nth_eq_iff_index_eq)
  show "resubmitted s 0 = {}" "resubmitted s BLADERF_STREAM_NO_DATA = {}"
    using v by (auto simp: resubmitted_def)
qed

lemma submit_overrun [simp]: "overrun_pending (submit_slot j b) = overrun_pending b"
  "num_buffers (submit_slot j b) = num_buffers b"
  by (simp_all add: ring_ops)

lemma retire_mono: "overrun_pending (buf_mgmt s) \<Longrightarrow> overrun_pending (buf_mgmt (retire_dropped_sequence sq s))"
  by (auto simp: retire_dropped_sequence_def Let_def hold_dropped_sequence_def)

lemma store_mono: "overrun_pending (buf_mgmt s) \<Longrightarrow> overrun_pending (buf_mgmt (rx_store i n s))"
  by (auto simp: rx_store_def Let_def sync_worker_rx_reorder_buffer_def hold_out_of_order_buffer_def ring_ops
      split: option.split prod.split if_splits)

lemma select_mono:
  "overrun_pending (buf_mgmt (snd (sync_worker_rx_select_producer_slot s))) = overrun_pending (buf_mgmt s)"
  by (auto simp: sync_worker_rx_select_producer_slot_def Let_def split: option.split)

lemma callback_mono:
  assumes "rx_callback a n s = (r, s')" "overrun_pending (buf_mgmt s)"
  shows "overrun_pending (buf_mgmt s')"
proof -
  have "overrun_pending (buf_mgmt s1)"
    if "sync_worker_rx_select_producer_slot (in_bufs f s) = (j, s1)" "overrun_pending (f (buf_mgmt s))" for f j s1
    using that select_mono [of "in_bufs f s"] by (simp add: in_bufs_def)
  then show ?thesis
    using assms
    by (auto simp: rx_callback_def Let_def in_bufs_def cond_signal_def
        split: if_splits outcome.splits prod.splits intro!: store_mono)
qed

lemma rejected_mono:
  assumes "sync_worker_rx_buffer_rejected a s = (r, s')" "overrun_pending (buf_mgmt s)"
  shows "overrun_pending (buf_mgmt s')"
proof -
  have "overrun_pending (buf_mgmt s1)"
    if "sync_worker_rx_select_producer_slot s0 = (j, s1)" "overrun_pending (buf_mgmt s0)" for s0 j s1
    using that select_mono [of s0] by simp
  then show ?thesis
    using assms retire_mono [OF assms(2)]
    by (auto simp: sync_worker_rx_buffer_rejected_def Let_def in_bufs_def cond_signal_def set_status_def
        split: if_splits option.splits prod.splits)
qed

definition rx_inv :: "bladerf_sync \<Rightarrow> nat set \<Rightarrow> u32 list \<Rightarrow> bool" where
  "rx_inv s W R \<longleftrightarrow> initialized s \<and> rx_direction s \<and> ring_ok (buf_mgmt s) W \<and> order_ok (buf_mgmt s) R"

lemma rx_inv_shape: "rx_inv s W R \<Longrightarrow> ring_shape (buf_mgmt s)"
  by (simp add: rx_inv_def ring_ok_def)

lemma submit_selected:
  assumes "ring_ok b W" "order_ok b R" "j < num_buffers b" "status b ! j = SYNC_BUFFER_EMPTY"
    "initialized s" "rx_direction s"
  shows "rx_inv (s\<lparr>buf_mgmt := (submit_slot j b)\<lparr>prod_i := (j + 1) mod num_buffers b\<rparr>\<rparr>) (insert j W) R"
  using submit_ok [OF assms(1-4), of "(j + 1) mod num_buffers b"] assms(3,5,6) by (simp add: rx_inv_def)

lemma callback_inv:
  assumes "rx_inv s W R" "i \<in> W" "rx_callback (buffers (buf_mgmt s) ! i) n s = (Ok r, s')"
    "\<not> overrun_pending (buf_mgmt s')"
  shows "rx_inv s' ((W - {i}) \<union> resubmitted s r) R"
proof (cases "requests s AND SYNC_WORKER_STOP = 0")
  case False
  then show ?thesis
    using assms address_facts(5) [OF rx_inv_shape [OF assms(1)]]
    by (auto simp: rx_callback_def BLADERF_STREAM_SHUTDOWN_def rx_inv_def ring_ok_def)
next
  case True
  let ?b = "buf_mgmt s"
  have i: "i < num_buffers ?b" using assms(1,2) by (auto simp: rx_inv_def ring_ok_def)
  note a = address_facts [OF rx_inv_shape [OF assms(1)] i]
  define s0 where "s0 = in_bufs (\<lambda>b. b\<lparr>rx_epoch_trace_remaining := rx_epoch_trace_remaining b - 1,
      buffer_dropped := map_option (\<lambda>d. d[i := False]) (buffer_dropped b)\<rparr>) s"
  have q: "quiet ?b (buf_mgmt s0)" by (simp add: s0_def in_bufs_def quiet_def)
  have b0: "ring_ok (buf_mgmt s0) W" "order_ok (buf_mgmt s0) R"
    using quiet_ok [OF q] assms(1) by (auto simp: rx_inv_def)
  have g0: "initialized s0" "rx_direction s0" using assms(1) by (simp_all add: s0_def in_bufs_def rx_inv_def)
  have sh0: "ring_shape (buf_mgmt s0)" using b0 by (simp add: ring_ok_def)
  obtain j s1 where sel: "sync_worker_rx_select_producer_slot s0 = (j, s1)" by force
  have call: "rx_callback (buffers ?b ! i) n s =
      (if j \<noteq> BUFFER_MGMT_INVALID_INDEX
       then (Ok (buffers ?b ! j), in_bufs (\<lambda>b. (submit_slot j b)\<lparr>prod_i := (j + 1) mod num_buffers b\<rparr>) (rx_store i n s1))
       else if reorder_len (buf_mgmt s1) > 0 then (Ok BLADERF_STREAM_NO_DATA, s1)
       else (Ok (buffers ?b ! i), note_rx_overrun (BLADERF_RF_STREAM_STATUS_SYNC_RX_QUEUE OR
               BLADERF_RF_STREAM_STATUS_SYNC_RX_RING_FULL) (sync_worker_rx_ring_full_recycle i
               (in_bufs (\<lambda>b. b\<lparr>rx_ring_full_warning_published := True\<rparr>) s1))))"
    using True a(2,3) sel unfolding rx_callback_def by (simp add: Let_def s0_def)
  from sh0 g0(1) sel show ?thesis
  proof (cases rule: select_slot)
    case 1
    then have "r = BLADERF_STREAM_NO_DATA" "s' = s0"
      using call assms(3,4) by (auto split: if_splits)
    then show ?thesis using a(6) b0 g0 by (auto simp: rx_inv_def ring_ok_def)
  next
    case 2
    let ?s2 = "rx_store i n s1"
    have b1: "ring_ok (buf_mgmt s1) W" "order_ok (buf_mgmt s1) R"
      using b0 2(1,4) by (auto simp: ring_ok_def ring_shape_def live_def slot_seq_def order_ok_def)
    have s': "r = buffers ?b ! j" "s' = in_bufs (\<lambda>b. (submit_slot j b)\<lparr>prod_i := (j + 1) mod num_buffers b\<rparr>) ?s2"
      using call assms(3) 2(3) by simp_all
    have "\<not> overrun_pending (buf_mgmt ?s2)" using assms(4) s'(2) by (simp add: in_bufs_def)
    then have st: "ring_ok (buf_mgmt ?s2) (W - {i})" "order_ok (buf_mgmt ?s2) R" "\<exists>b. ?s2 = s1\<lparr>buf_mgmt := b\<rparr>"
        "num_buffers (buf_mgmt ?s2) = num_buffers (buf_mgmt s1)"
        "\<forall>j. status (buf_mgmt s1) ! j = SYNC_BUFFER_EMPTY \<longrightarrow> status (buf_mgmt ?s2) ! j = SYNC_BUFFER_EMPTY"
      using store_ok [OF b1 assms(2) refl] by blast+
    have n: "num_buffers (buf_mgmt s0) = num_buffers ?b" using q by (simp add: quiet_def)
    have j: "j < num_buffers (buf_mgmt ?s2)" "status (buf_mgmt ?s2) ! j = SYNC_BUFFER_EMPTY" "j < num_buffers ?b"
      using st(4,5) 2(1,2,4) n by simp_all
    have "initialized ?s2" "rx_direction ?s2" using st(3) g0 2(4) by auto
    then have "rx_inv s' (insert j (W - {i})) R"
      using submit_selected [OF st(1,2) j(1,2)] s'(2) by (simp add: in_bufs_def)
    then show ?thesis
      using address_facts(4) [OF rx_inv_shape [OF assms(1)] j(3)] s'(1) by simp
  qed
qed

lemma rejected_inv:
  assumes "rx_inv s W R" "i \<in> W" "sync_worker_rx_buffer_rejected (buffers (buf_mgmt s) ! i) s = (r, s')"
    "\<not> overrun_pending (buf_mgmt s')"
  shows "rx_inv s' ((W - {i}) \<union> resubmitted s r) (R @ [slot_seq (buf_mgmt s) i])"
proof -
  let ?b = "buf_mgmt s" and ?R = "R @ [slot_seq (buf_mgmt s) i]"
  have i: "i < num_buffers ?b" "status ?b ! i = SYNC_BUFFER_IN_FLIGHT"
    using assms(1,2) by (auto simp: rx_inv_def ring_ok_def)
  note a = address_facts [OF rx_inv_shape [OF assms(1)] i(1)]
  obtain q where q: "buffer_seq ?b = Some q" using rx_inv_shape [OF assms(1)] by (auto simp: ring_shape_def)
  define s1 where "s1 = retire_dropped_sequence (q ! i) s"
  define s2 where "s2 = in_bufs (\<lambda>b. b\<lparr>buffer_dropped := map_option (\<lambda>d. d[i := True]) (buffer_dropped b)\<rparr>) s1"
  define s4 where "s4 = in_bufs (set_status i SYNC_BUFFER_EMPTY)
    (if i = cons_i (buf_mgmt s2) then in_bufs cond_signal s2 else s2)"
  define b4 where "b4 = buf_mgmt s4"
  have s4: "s1\<lparr>buf_mgmt := b4\<rparr> = s4"
    by (simp add: b4_def s4_def s2_def in_bufs_def)
  note b4_simps = b4_def s4_def s2_def in_bufs_def set_status_def cond_signal_def
  obtain j s5 where sel: "sync_worker_rx_select_producer_slot (s1\<lparr>buf_mgmt := b4\<rparr>) = (j, s5)" by force
  have call: "(r, s') = (if j \<noteq> BUFFER_MGMT_INVALID_INDEX
      then (buffers ?b ! j, in_bufs (\<lambda>b. (submit_slot j b)\<lparr>prod_i := (j + 1) mod num_buffers b\<rparr>) s5)
      else (buffers ?b ! i, in_bufs (submit_slot i) s5))"
  proof -
    have "sync_worker_rx_buffer_rejected (buffers ?b ! i) s =
      (case sync_worker_rx_select_producer_slot s4 of (j, s5) \<Rightarrow>
        if j \<noteq> BUFFER_MGMT_INVALID_INDEX
        then (buffers ?b ! j, in_bufs (\<lambda>b. (submit_slot j b)\<lparr>prod_i := (j + 1) mod num_buffers b\<rparr>) s5)
        else (buffers ?b ! i, in_bufs (submit_slot i) s5))"
      unfolding sync_worker_rx_buffer_rejected_def s4_def s2_def s1_def Let_def a(1)
      using assms(1) a(1,3) i q by (simp add: Let_def rx_inv_def split del: if_split)
    then show ?thesis using assms(3) sel [unfolded s4] by simp
  qed
  have o5: "\<not> overrun_pending (buf_mgmt s5)" using assms(4) call by (auto simp: in_bufs_def split: if_splits)
  have o1: "\<not> overrun_pending (buf_mgmt s1)"
  proof -
    have "overrun_pending b4 = overrun_pending (buf_mgmt s1)" by (simp add: b4_simps)
    then show ?thesis using o5 select_mono [of "s1\<lparr>buf_mgmt := b4\<rparr>"] sel by simp
  qed
  have r1: "ring_ok (buf_mgmt s1) W" "order_ok (buf_mgmt s1) ?R" "\<exists>b. s1 = s\<lparr>buf_mgmt := b\<rparr>"
      "num_buffers (buf_mgmt s1) = num_buffers ?b"
    using retire_ok [OF _ _ _ _ s1_def [symmetric] o1, of W R ?R] assms(1) q
    by (auto simp: rx_inv_def slot_seq_def)
  have b4: "ring_ok b4 (W - {i})"
    by (rule ring_drop_owned [where v = SYNC_BUFFER_EMPTY, OF r1(1) assms(2)]) (simp_all add: b4_simps live_def)
  have o4: "order_ok b4 ?R" by (rule order_same [OF r1(2)]) (simp_all add: b4_simps)
  have l: "length (status (buf_mgmt s1)) = num_buffers ?b" using r1(1,4) by (simp add: ring_ok_def ring_shape_def)
  have e4: "status b4 ! i = SYNC_BUFFER_EMPTY" "num_buffers b4 = num_buffers ?b"
    using l i(1) r1(4) by (simp_all add: b4_simps)
  have g: "initialized s1" "rx_direction s1" using r1(3) assms(1) by (auto simp: rx_inv_def)
  have "ring_shape (buf_mgmt (s1\<lparr>buf_mgmt := b4\<rparr>))" "initialized (s1\<lparr>buf_mgmt := b4\<rparr>)"
    using b4 g by (simp_all add: ring_ok_def)
  from this sel show ?thesis
  proof (cases rule: select_slot)
    case 1
    have p: "prod_i b4 < num_buffers b4" using b4 by (simp add: ring_ok_def ring_shape_def)
    have "rx_inv (s1\<lparr>buf_mgmt := (submit_slot i b4)\<lparr>prod_i := prod_i b4\<rparr>\<rparr>) (insert i (W - {i})) ?R"
      using submit_ok [OF b4 o4 _ e4(1) p] e4(2) i(1) g by (simp add: rx_inv_def)
    moreover have "(submit_slot i b4)\<lparr>prod_i := prod_i b4\<rparr> = submit_slot i b4" by (simp add: ring_ops)
    ultimately show ?thesis using 1 call a(4) by (simp add: in_bufs_def)
  next
    case 2
    have b5: "ring_ok (buf_mgmt s5) (W - {i})" "order_ok (buf_mgmt s5) ?R"
      using b4 o4 2(1,4) by (auto simp: ring_ok_def ring_shape_def live_def slot_seq_def order_ok_def)
    have "rx_inv s' (insert j (W - {i})) ?R"
      using submit_selected [OF b5, of j s5] 2 call g by (simp add: in_bufs_def)
    moreover have "j < num_buffers ?b" using 2(1) e4(2) by simp
    ultimately show ?thesis
      using address_facts(4) [OF rx_inv_shape [OF assms(1)], of j] call 2(3) by simp
  qed
qed

definition rx_start :: "nat \<Rightarrow> nat \<Rightarrow> u64 list \<Rightarrow> bladerf_sync \<Rightarrow> rx_run" where
  "rx_start n t addrs s = \<lparr>run_sync = s\<lparr>buf_mgmt := rx_init_ring n t addrs\<rparr>, owned = {0..<t}, rejected = []\<rparr>"

lemma start_inv:
  assumes "t < n" "n < 2 ^ 32 - 1" "valid_addrs n addrs" "initialized s" "rx_direction s"
  shows "rx_inv (s\<lparr>buf_mgmt := rx_init_ring n t addrs\<rparr>) {0..<t} []"
proof -
  have "order_ok (rx_init_ring n t addrs) []"
    unfolding order_ok_def
    by (auto simp: rx_init_ring_def sync_reset_sequence_tracking_def Let_def intro!: exI [of _ "[]"] exI [of _ 0])
  moreover have "ring_ok (rx_init_ring n t addrs) {0..<t}"
    using assms by (auto simp: ring_ok_def ring_shape_def rx_init_ring_def sync_reset_sequence_tracking_def
        Let_def live_def)
  ultimately show ?thesis using assms by (simp add: rx_inv_def)
qed

lemma step_inv:
  assumes "rx_step st st'" "overrun_pending (buf_mgmt (run_sync st)) \<or> rx_inv (run_sync st) (owned st) (rejected st)"
  shows "overrun_pending (buf_mgmt (run_sync st')) \<or> rx_inv (run_sync st') (owned st') (rejected st')"
  using assms
proof (cases rule: rx_step.cases)
  case (complete i W s n r s' R)
  have "rx_inv s W R" if "\<not> overrun_pending (buf_mgmt s')"
    using assms(2) that callback_mono [OF complete(4)] unfolding complete(1) by simp blast
  then show ?thesis using callback_inv [OF _ complete(3,4)] unfolding complete(2) by simp blast
next
  case (reject i W s r s' R)
  have "rx_inv s W R" if "\<not> overrun_pending (buf_mgmt s')"
    using assms(2) that rejected_mono [OF reject(4)] unfolding reject(1) by simp blast
  then show ?thesis using rejected_inv [OF _ reject(3,4)] unfolding reject(2) by simp blast
next
  case (event s r s' W R)
  have "quiet (buf_mgmt s) (buf_mgmt s')" "initialized s' = initialized s" "rx_direction s' = rx_direction s"
    using event(3) by (auto simp: rx_callback_def in_bufs_def cond_signal_def quiet_def split: if_splits)
  then show ?thesis using assms(2) event quiet_ok by (auto simp: rx_inv_def quiet_def)
next
  case (wait nb fl s r s' W R)
  then show ?thesis
    using assms(2) quiet_ok [OF quiet_wait(1) [OF wait(3)]] quiet_wait [OF wait(3)]
    by (auto simp: rx_inv_def quiet_def)
next
  case (take s s' W R)
  have "quiet (buf_mgmt s) (buf_mgmt s')"
    using take(4) quiet_status [of "buf_mgmt s" "cons_i (buf_mgmt s)" SYNC_BUFFER_PARTIAL] take(3)
    by (auto simp: rx_buffer_ready_def Let_def in_bufs_def quiet_def split: bladerf_format.splits)
  moreover have "initialized s' = initialized s" "rx_direction s' = rx_direction s"
    using take(4) by (auto simp: rx_buffer_ready_def Let_def in_bufs_def split: bladerf_format.splits)
  ultimately show ?thesis using assms(2) take quiet_ok by (auto simp: rx_inv_def quiet_def)
next
  case (release s W R)
  then have "quiet (buf_mgmt s) (advance_rx_buffer (buf_mgmt s))" by (intro quiet_advance) simp
  then show ?thesis using assms(2) release quiet_ok by (auto simp: rx_inv_def quiet_def in_bufs_def)
qed

lemma run_inv:
  assumes "rx_step\<^sup>*\<^sup>* st st'" "rx_inv (run_sync st) (owned st) (rejected st)"
  shows "overrun_pending (buf_mgmt (run_sync st')) \<or> rx_inv (run_sync st') (owned st') (rejected st')"
  using assms by (induction rule: rtranclp_induct) (auto dest: step_inv)


definition idle_sync :: bladerf_sync where
  "idle_sync = \<lparr>initialized = True, rx_direction = True, stream_format = BLADERF_FORMAT_SC16_Q11,
     num_xfers = 2, board_overrun_hook = False, requests = 0, sync_state_of = SYNC_STATE_CHECK_WORKER,
     meta_state = SYNC_META_STATE_HEADER, curr_msg_off = 0, msg_num = 0,
     buf_mgmt = rx_init_ring 4 2 [16, 32, 48, 64], events = []\<rparr>"

definition ring4 :: "sync_buffer_status list \<Rightarrow> u32 list \<Rightarrow> rx_reorder_entry list \<Rightarrow> u32 \<Rightarrow> nat \<Rightarrow> bladerf_sync" where
  "ring4 st q held nx p = idle_sync\<lparr>buf_mgmt := (rx_init_ring 4 2 [16, 32, 48, 64])
     \<lparr>status := st, buffer_seq := Some q, reorder := held, next_seq := nx, prod_i := p\<rparr>\<rparr>"

abbreviation (input) held_entry :: "u32 \<Rightarrow> nat \<Rightarrow> rx_reorder_entry" where
  "held_entry sq i \<equiv> \<lparr>e_seq = sq, e_buf_idx = i, e_num_samples = 512, e_dropped = False\<rparr>"

lemma four_slots: "valid_addrs 4 [16, 32, 48, 64]"
  by (simp add: valid_addrs_def BLADERF_STREAM_NO_DATA_def BLADERF_STREAM_REUSE_BUFFER_def)

lemma init4: "rx_init_ring 4 2 [16, 32, 48, 64] =
   \<lparr>status = [SYNC_BUFFER_IN_FLIGHT, SYNC_BUFFER_IN_FLIGHT, SYNC_BUFFER_EMPTY, SYNC_BUFFER_EMPTY],
      actual_lengths = [0, 0, 0, 0], buffers = [16, 32, 48, 64], num_buffers = 4, prod_i = 2,
      cons_i = 0, partial_off = 0, overrun_pending = False, overrun_source_flags = 0,
      overrun_event_published = False, rx_data_withheld_pending = False, stale_pending = False,
      rx_ring_full_warning_published = False, submitter = SYNC_TX_SUBMITTER_INVALID,
      buffer_seq = Some [0, 1, -1, -1], buffer_dropped = Some [False, False, False, False],
      expected_seq = 0, next_seq = 2, reorder = [], reorder_limit = 3,
      rx_epoch_trace_remaining = 0, signals = 0, handed = []\<rparr>"
  by (simp add: rx_init_ring_def sync_reset_sequence_tracking_def SYNC_RX_MAX_REORDER_def numeral_eq_Suc upt_rec)

lemma upt4: "[0..<4] = [0, 1, 2, 3 :: nat]" by (simp add: upt_rec numeral_eq_Suc)

lemmas ring4_eval = ring4_def init4 idle_sync_def rx_callback_def sync_buf2idx_def find_index_def Let_def
  in_bufs_def sync_worker_rx_select_producer_slot_def rx_store_def sync_worker_rx_reorder_buffer_def
  hold_out_of_order_buffer_def insert_entry_def submit_slot_def sync_worker_mark_rx_slot_in_flight_def
  set_status_def BUFFER_MGMT_INVALID_INDEX_def upt4

lemma first_completion:
  "rx_callback 32 512 (ring4 [SYNC_BUFFER_IN_FLIGHT, SYNC_BUFFER_IN_FLIGHT, SYNC_BUFFER_EMPTY, SYNC_BUFFER_EMPTY]
      [0, 1, -1, -1] [] 2 2) =
   (Ok 48, ring4 [SYNC_BUFFER_IN_FLIGHT, SYNC_BUFFER_IN_FLIGHT, SYNC_BUFFER_IN_FLIGHT, SYNC_BUFFER_EMPTY]
      [0, 1, 2, -1] [held_entry 1 1] 3 3)"
  by (simp add: ring4_eval)

lemma second_completion:
  "rx_callback 48 512 (ring4 [SYNC_BUFFER_IN_FLIGHT, SYNC_BUFFER_IN_FLIGHT, SYNC_BUFFER_IN_FLIGHT, SYNC_BUFFER_EMPTY]
      [0, 1, 2, -1] [held_entry 1 1] 3 3) =
   (Ok 64, ring4 [SYNC_BUFFER_IN_FLIGHT, SYNC_BUFFER_IN_FLIGHT, SYNC_BUFFER_IN_FLIGHT, SYNC_BUFFER_IN_FLIGHT]
      [0, 1, 2, 3] [held_entry 1 1, held_entry 2 2] 4 0)"
  by (simp add: ring4_eval)

abbreviation (input) full_ring :: bladerf_sync where
  "full_ring \<equiv> ring4 [SYNC_BUFFER_IN_FLIGHT, SYNC_BUFFER_IN_FLIGHT, SYNC_BUFFER_IN_FLIGHT, SYNC_BUFFER_IN_FLIGHT]
     [0, 1, 2, 3] [held_entry 1 1, held_entry 2 2] 4 0"

lemma later_completions:
  "rx_callback 16 512 full_ring = (Ok BLADERF_STREAM_NO_DATA, full_ring)"
  "rx_callback 64 512 full_ring = (Ok BLADERF_STREAM_NO_DATA, full_ring)"
  by (simp_all add: ring4_eval)

lemma ring4_shape:
  "length st = 4 \<Longrightarrow> length q = 4 \<Longrightarrow> p < 4 \<Longrightarrow> ring_shape (buf_mgmt (ring4 st q held nx p))"
  "num_buffers (buf_mgmt (ring4 st q held nx p)) = 4" "buffers (buf_mgmt (ring4 st q held nx p)) = [16, 32, 48, 64]"
  using four_slots by (simp_all add: ring_shape_def ring4_def init4)

lemma complete_step:
  assumes "rx_callback a 512 s = (Ok r, s')" "buffers (buf_mgmt s) ! i = a" "i \<in> W"
    "W' = (W - {i}) \<union> resubmitted s r"
  shows "rx_step \<lparr>run_sync = s, owned = W, rejected = R\<rparr> \<lparr>run_sync = s', owned = W', rejected = R\<rparr>"
  using rx_step.complete [of i W s 512 r s' R] assms by simp

section \<open>A stuck stream\<close>

definition drained :: "rx_run \<Rightarrow> bool" where
  "drained st \<longleftrightarrow> owned st = {} \<and> cons_i (buf_mgmt (run_sync st)) < length (status (buf_mgmt (run_sync st))) \<and>
     num_buffers (buf_mgmt (run_sync st)) = length (status (buf_mgmt (run_sync st))) \<and>
     (\<forall>v \<in> set (status (buf_mgmt (run_sync st))). v \<noteq> SYNC_BUFFER_FULL \<and> v \<noteq> SYNC_BUFFER_PARTIAL)"

lemma skip_dropped_ring:
  "status (skip_dropped n b) = status b" "num_buffers (skip_dropped n b) = num_buffers b"
  "cons_i b < num_buffers b \<Longrightarrow> cons_i (skip_dropped n b) < num_buffers b"
  by (induction n b rule: skip_dropped.induct) (auto split: option.split)

lemma best_anchor_bound: "best_anchor b q = Some (k, i) \<Longrightarrow> i < num_buffers b"
proof -
  have "\<forall>k i. fold (\<lambda>i best. case anchor_key b q i of None \<Rightarrow> best
           | Some k \<Rightarrow> if k < (case best of None \<Rightarrow> 2 ^ 64 - 1 | Some (k', _) \<Rightarrow> k') then Some (k, i) else best)
       xs None = Some (k, i) \<longrightarrow> i \<in> set xs" for xs
    by (induction xs rule: rev_induct) (auto split: option.splits if_splits)
  from this [of "[0..<num_buffers b]"] show "best_anchor b q = Some (k, i) \<Longrightarrow> i < num_buffers b"
    by (auto simp: best_anchor_def)
qed

lemma reanchor_ring:
  fixes s defines "s' \<equiv> snd (sync_worker_reanchor_rx_consumer_to_oldest s)"
  shows "status (buf_mgmt s') = status (buf_mgmt s)" "num_buffers (buf_mgmt s') = num_buffers (buf_mgmt s)"
    "cons_i (buf_mgmt s) < num_buffers (buf_mgmt s) \<Longrightarrow> cons_i (buf_mgmt s') < num_buffers (buf_mgmt s)"
  unfolding s'_def sync_worker_reanchor_rx_consumer_to_oldest_def
  by (auto simp: Let_def dest: best_anchor_bound split: option.split)

lemma drained_drop_stale:
  assumes "\<forall>v \<in> set (status (buf_mgmt s)). v \<noteq> SYNC_BUFFER_FULL \<and> v \<noteq> SYNC_BUFFER_PARTIAL"
    "cons_i (buf_mgmt s) < length (status (buf_mgmt s))"
  shows "status (buf_mgmt (rx_drop_stale now s)) = status (buf_mgmt s)"
    "cons_i (buf_mgmt (rx_drop_stale now s)) = cons_i (buf_mgmt s)"
    "num_buffers (buf_mgmt (rx_drop_stale now s)) = num_buffers (buf_mgmt s)"
proof -
  have "map (\<lambda>v. if v = SYNC_BUFFER_FULL then SYNC_BUFFER_EMPTY else v) (status (buf_mgmt s)) = status (buf_mgmt s)"
    using assms(1) by (intro map_idI) auto
  moreover have "status (buf_mgmt s) ! cons_i (buf_mgmt s) \<noteq> SYNC_BUFFER_PARTIAL" using assms nth_mem by blast
  ultimately show "status (buf_mgmt (rx_drop_stale now s)) = status (buf_mgmt s)"
    "cons_i (buf_mgmt (rx_drop_stale now s)) = cons_i (buf_mgmt s)"
    "num_buffers (buf_mgmt (rx_drop_stale now s)) = num_buffers (buf_mgmt s)"
    by (simp_all add: rx_drop_stale_def Let_def empty_full_slots_def)
qed

lemma drained_wait:
  assumes "rx_wait_for_buffer nonblocking flags s = (r, s')" "drained \<lparr>run_sync = s, owned = {}, rejected = R\<rparr>"
  shows "drained \<lparr>run_sync = s', owned = {}, rejected = R\<rparr>" "handed (buf_mgmt s') = handed (buf_mgmt s)"
proof -
  show "handed (buf_mgmt s') = handed (buf_mgmt s)" using quiet_wait(1) [OF assms(1)] by (simp add: quiet_def)
  define s1 where "s1 = in_bufs (\<lambda>b. b\<lparr>rx_data_withheld_pending := False\<rparr>) s"
  define s2 where "s2 = (case buffer_dropped (buf_mgmt s1) of None \<Rightarrow> s1
    | Some _ \<Rightarrow> snd (sync_worker_reanchor_rx_consumer_to_oldest (in_bufs (\<lambda>b. skip_dropped (num_buffers b) b) s1)))"
  let ?b = "buf_mgmt s"
  have d: "cons_i ?b < num_buffers ?b" "num_buffers ?b = length (status ?b)"
    "\<forall>v \<in> set (status ?b). v \<noteq> SYNC_BUFFER_FULL \<and> v \<noteq> SYNC_BUFFER_PARTIAL"
    using assms(2) by (auto simp: drained_def)
  have 1: "status (buf_mgmt s1) = status ?b" "num_buffers (buf_mgmt s1) = num_buffers ?b" "cons_i (buf_mgmt s1) = cons_i ?b"
    by (simp_all add: s1_def in_bufs_def)
  have 2: "status (buf_mgmt s2) = status ?b" "num_buffers (buf_mgmt s2) = num_buffers ?b" "cons_i (buf_mgmt s2) < num_buffers ?b"
    using d 1 reanchor_ring [of "in_bufs (\<lambda>b. skip_dropped (num_buffers b) b) s1"]
      skip_dropped_ring [where n = "num_buffers (buf_mgmt s1)" and b = "buf_mgmt s1"]
    by (auto simp: s2_def in_bufs_def split: option.split)
  have "s' = s1 \<or> (\<exists>s3. (s3 = s2 \<or> (\<exists>now. s3 = rx_drop_stale now s2)) \<and>
      (s' = s3 \<or> s' = s3\<lparr>sync_state_of := SYNC_STATE_BUFFER_READY\<rparr>))"
    using assms(1) unfolding rx_wait_for_buffer_def Let_def s1_def [symmetric] s2_def [symmetric]
    by (auto split: if_splits)
  then have "status (buf_mgmt s') = status ?b \<and> num_buffers (buf_mgmt s') = num_buffers ?b \<and>
      cons_i (buf_mgmt s') < num_buffers ?b"
    using 1 2 d drained_drop_stale [of s2] by auto
  then show "drained \<lparr>run_sync = s', owned = {}, rejected = R\<rparr>" using d by (simp add: drained_def)
qed

lemma drained_step:
  assumes "rx_step st st'" "drained st"
  shows "drained st' \<and> handed (buf_mgmt (run_sync st')) = handed (buf_mgmt (run_sync st))"
  using assms(1)
proof (cases rule: rx_step.cases)
  case (event s r s' W R)
  have "buf_mgmt s' = buf_mgmt s \<or> buf_mgmt s' = cond_signal ((buf_mgmt s)\<lparr>rx_data_withheld_pending := True\<rparr>)"
    using event(3) by (auto simp: rx_callback_def in_bufs_def split: if_splits)
  then show ?thesis using assms(2) event(1,2) by (auto simp: drained_def cond_signal_def)
next
  case (wait nb fl s r s' W R)
  have W: "W = {}" using assms(2) unfolding wait(1) drained_def by simp
  then show ?thesis
    using drained_wait [OF wait(3), of R] assms(2) unfolding wait(1,2) W by simp
next
  case (take s s' W R)
  have "status (buf_mgmt s) ! cons_i (buf_mgmt s) \<in> set (status (buf_mgmt s))"
    using assms(2) unfolding take(1) drained_def by simp
  then show ?thesis using assms(2) take(3) unfolding take(1) drained_def by auto
next
  case (release s W R)
  have "status (buf_mgmt s) ! cons_i (buf_mgmt s) \<in> set (status (buf_mgmt s))"
    using assms(2) unfolding release(1) drained_def by simp
  then show ?thesis using assms(2) release(3) unfolding release(1) drained_def by auto
qed (use assms(2) in \<open>auto simp: drained_def\<close>)

lemma drained_run:
  assumes "rx_step\<^sup>*\<^sup>* st st'" "drained st"
  shows "drained st' \<and> handed (buf_mgmt (run_sync st')) = handed (buf_mgmt (run_sync st))"
  using assms by (induction rule: rtranclp_induct) (auto dest: drained_step)

lemma full_ring_reached:
  "rx_step\<^sup>*\<^sup>* (rx_start 4 2 [16, 32, 48, 64] idle_sync) \<lparr>run_sync = full_ring, owned = {}, rejected = []\<rparr>"
proof -
  let ?r1 = "ring4 [SYNC_BUFFER_IN_FLIGHT, SYNC_BUFFER_IN_FLIGHT, SYNC_BUFFER_EMPTY, SYNC_BUFFER_EMPTY] [0, 1, -1, -1] [] 2 2"
  let ?r2 = "ring4 [SYNC_BUFFER_IN_FLIGHT, SYNC_BUFFER_IN_FLIGHT, SYNC_BUFFER_IN_FLIGHT, SYNC_BUFFER_EMPTY]
      [0, 1, 2, -1] [held_entry 1 1] 3 3"
  let ?run = "\<lambda>s W. \<lparr>run_sync = s, owned = W, rejected = []\<rparr>"
  have sh: "resubmitted ?r1 48 = {2}" "resubmitted ?r2 64 = {3}" "resubmitted full_ring BLADERF_STREAM_NO_DATA = {}"
    using address_facts(4) [OF ring4_shape(1), of _ _ _ 2] address_facts(4) [OF ring4_shape(1), of _ _ _ 3]
      address_facts(6) [OF ring4_shape(1), of _ _ _ 0] by (simp_all add: ring4_shape)
  have start: "rx_start 4 2 [16, 32, 48, 64] idle_sync = ?run ?r1 {0, 1}"
    by (auto simp: rx_start_def ring4_def init4)
  have 1: "rx_step (?run ?r1 {0, 1}) (?run ?r2 {0, 2})"
    by (rule complete_step [OF first_completion, of 1]) (auto simp: ring4_shape sh sh [unfolded One_nat_def])
  have 2: "rx_step (?run ?r2 {0, 2}) (?run full_ring {0, 3})"
    by (rule complete_step [OF second_completion, of 2]) (auto simp: ring4_shape sh sh [unfolded One_nat_def])
  have 3: "rx_step (?run full_ring {0, 3}) (?run full_ring {3})"
    by (rule complete_step [OF later_completions(1), of 0]) (auto simp: ring4_shape sh sh [unfolded One_nat_def])
  have 4: "rx_step (?run full_ring {3}) (?run full_ring {})"
    by (rule complete_step [OF later_completions(2), of 3]) (auto simp: ring4_shape sh sh [unfolded One_nat_def])
  note into = converse_rtranclp_into_rtranclp
  show ?thesis unfolding start by (rule into [OF 1 into [OF 2 into [OF 3 r_into_rtranclp [of rx_step, OF 4]]]])
qed

text \<open>C31. The receive worker can lose the completion it is waiting for: with four buffers and two
  transfers, when the transfers 1 and 2 complete before transfer 0, every slot is in flight or held,
  the completion of transfer 0 takes the branch for a full ring with held buffers, which neither
  records it nor resubmits a transfer, and so does the last one. No overrun is reported, no transfer
  is outstanding, and whatever happens afterwards no buffer is ever handed to the reader.\<close>

theorem rx_completion_lost:
  "\<exists>st. rx_step\<^sup>*\<^sup>* (rx_start 4 2 [16, 32, 48, 64] idle_sync) st \<and>
     \<not> overrun_pending (buf_mgmt (run_sync st)) \<and> rejected st = [] \<and>
     (\<forall>st'. rx_step\<^sup>*\<^sup>* st st' \<longrightarrow> owned st' = {} \<and> handed (buf_mgmt (run_sync st')) = [])"
proof (intro exI conjI allI impI)
  let ?st = "\<lparr>run_sync = full_ring, owned = {}, rejected = []\<rparr>"
  show "rx_step\<^sup>*\<^sup>* (rx_start 4 2 [16, 32, 48, 64] idle_sync) ?st" by (rule full_ring_reached)
  have "drained ?st" by (simp add: drained_def ring4_def init4)
  fix st' assume "rx_step\<^sup>*\<^sup>* ?st st'"
  from drained_run [OF this \<open>drained ?st\<close>] show "owned st' = {}" "handed (buf_mgmt (run_sync st')) = []"
    by (simp_all add: drained_def ring4_def init4)
qed (simp_all add: ring4_def init4)

lemma rx_completion_lost_witness:
  "\<exists>st. rx_step\<^sup>*\<^sup>* (rx_start 4 2 [16, 32, 48, 64] idle_sync) st \<and> owned st = {} \<and> handed (buf_mgmt (run_sync st)) = []"
  using rx_completion_lost by blast


end
