(* ===== verification/Sync_Submit.thy ===== *)
theory Sync_Submit
  imports Sync_Order
begin

text \<open>
  The transmit ring: an interleaving of \<^verbatim>\<open>sync_tx\<close> with the completion callback in which buffers
  overtake each other.
\<close>

section \<open>Submission order of the transmit ring\<close>

definition tx_idle :: bladerf_sync where
  "tx_idle = \<lparr>initialized = True, rx_direction = False, stream_format = BLADERF_FORMAT_SC16_Q11,
     num_xfers = 1, board_overrun_hook = False, requests = 0, sync_state_of = SYNC_STATE_BUFFER_READY,
     meta_state = SYNC_META_STATE_HEADER, curr_msg_off = 0, msg_num = 0,
     buf_mgmt = tx_init_ring 4 [16, 32, 48, 64], events = []\<rparr>"

definition submit_accepted :: submit_fn where
  "submit_accepted addr len s = (Ok (), s)"

definition submit_busy :: submit_fn where
  "submit_busy addr len s = (Err BLADERF_ERR_WOULD_BLOCK, s)"

definition submit_busy_then_completion :: "u64 \<Rightarrow> submit_fn" where
  \<comment> \<open>no transfer is free; one completes before the ring lock is taken again\<close>
  "submit_busy_then_completion a addr len s = (Err BLADERF_ERR_WOULD_BLOCK, snd (tx_callback a s))"

definition write_buffer :: "submit_fn \<Rightarrow> bladerf_sync \<Rightarrow> bladerf_sync" where
  "write_buffer submit s = snd (advance_tx_buffer submit 8192 (snd (tx_buffer_ready s)))"

lemma status4: "replicate 4 x = [x, x, x, x]" by (simp add: numeral_eq_Suc)

lemmas tx_eval = tx_idle_def tx_init_ring_def write_buffer_def tx_buffer_ready_def advance_tx_buffer_def
  submit_accepted_def submit_busy_def submit_busy_then_completion_def tx_callback_def
  reclaim_tx_submission_def next_tx_buffer_def oldest_full_buffer_def transfer_len_def
  in_bufs_def set_status_def cond_signal_def sync_buf2idx_def find_index_def Let_def upt4
  BUFFER_MGMT_INVALID_INDEX_def status4

definition tx4 ::
    "sync_buffer_status list \<Rightarrow> sync_tx_submitter \<Rightarrow> nat \<Rightarrow> nat \<Rightarrow> nat \<Rightarrow> sync_state \<Rightarrow> bladerf_sync" where
  "tx4 st sub c p n x = tx_idle\<lparr>buf_mgmt := (tx_init_ring 4 [16, 32, 48, 64])
     \<lparr>status := st, submitter := sub, cons_i := c, prod_i := p, signals := n\<rparr>, sync_state_of := x\<rparr>"

abbreviation (input) "slot_E \<equiv> SYNC_BUFFER_EMPTY"
abbreviation (input) "slot_F \<equiv> SYNC_BUFFER_FULL"
abbreviation (input) "slot_I \<equiv> SYNC_BUFFER_IN_FLIGHT"

lemma tx_writes:
  "write_buffer submit_accepted tx_idle =
   tx4 [slot_I, slot_E, slot_E, slot_E] SYNC_TX_SUBMITTER_FN BUFFER_MGMT_INVALID_INDEX 1 0 SYNC_STATE_BUFFER_READY"
  "write_buffer submit_busy
     (tx4 [slot_I, slot_E, slot_E, slot_E] SYNC_TX_SUBMITTER_FN BUFFER_MGMT_INVALID_INDEX 1 0 SYNC_STATE_BUFFER_READY) =
   tx4 [slot_I, slot_F, slot_E, slot_E] SYNC_TX_SUBMITTER_CALLBACK 1 2 0 SYNC_STATE_BUFFER_READY"
  "write_buffer (submit_busy_then_completion 16)
     (tx4 [slot_I, slot_F, slot_E, slot_E] SYNC_TX_SUBMITTER_CALLBACK 1 2 0 SYNC_STATE_BUFFER_READY) =
   tx4 [slot_E, slot_F, slot_F, slot_E] SYNC_TX_SUBMITTER_FN BUFFER_MGMT_INVALID_INDEX 3 1 SYNC_STATE_BUFFER_READY"
  "write_buffer submit_accepted
     (tx4 [slot_E, slot_F, slot_F, slot_E] SYNC_TX_SUBMITTER_FN BUFFER_MGMT_INVALID_INDEX 3 1 SYNC_STATE_BUFFER_READY) =
   tx4 [slot_E, slot_F, slot_F, slot_I] SYNC_TX_SUBMITTER_FN BUFFER_MGMT_INVALID_INDEX 0 1 SYNC_STATE_BUFFER_READY"
  by (simp_all add: tx_eval tx4_def SYNC_WORKER_STOP_def)


end
