(* ===== verification/Sync_Meta.thy ===== *)
theory Sync_Meta
  imports Sync_Ring "HOL-Library.Signed_Division"
begin

unbundle bit_operations_syntax

text \<open>
  The metadata parser of \<^verbatim>\<open>sync_rx\<close> (\<^verbatim>\<open>streaming/sync.c\<close>, state \<^verbatim>\<open>SYNC_STATE_USING_BUFFER_META\<close>): one
  iteration parses a message header, skips, seeks, or copies samples to the caller. The reader's
  state is \<^verbatim>\<open>struct sync_meta\<close>, the parts of \<^verbatim>\<open>struct bladerf_metadata\<close> the parser writes and the
  locals of \<^verbatim>\<open>sync_rx\<close>. \<open>m_released\<close> records that the buffer was given back and the loop waits for the
  next one. \<open>admission\<close> is the board's hook, when it has one; \<open>chunks\<close> is a history of the copies: the
  timestamp which the message header gives the first copied sample, and the number of samples.
\<close>

definition BLADERF_META_STATUS_OVERRUN :: u32 where "BLADERF_META_STATUS_OVERRUN = 1"
definition BLADERF_RF_WITHHELD_EPOCH_UNCERTIFIED :: u32 where
  "BLADERF_RF_WITHHELD_EPOCH_UNCERTIFIED = push_bit 0 1"
definition BLADERF_RF_WITHHELD_EPOCH_OR_TIMESTAMP_MISMATCH :: u32 where
  "BLADERF_RF_WITHHELD_EPOCH_OR_TIMESTAMP_MISMATCH = push_bit 1 1"
definition BLADERF_RF_WITHHELD_TIMESTAMP_DISCONTINUITY :: u32 where
  "BLADERF_RF_WITHHELD_TIMESTAMP_DISCONTINUITY = push_bit 2 1"
definition BLADERF_RF_WITHHELD_SYNC_TIMEOUT :: u32 where
  "BLADERF_RF_WITHHELD_SYNC_TIMEOUT = push_bit 8 1"
definition BLADERF_RF_WITHHELD_RX_CHANNEL_SELECTION :: u32 where
  "BLADERF_RF_WITHHELD_RX_CHANNEL_SELECTION = push_bit 9 1"

section \<open>Sizes and timestamps\<close>

definition sample_count_fits_host_buffer :: "nat \<Rightarrow> bool" where
  "sample_count_fits_host_buffer num_samples \<longleftrightarrow> num_samples \<le> SIZE_MAX div 4"

definition msg_per_buf_of :: "nat \<Rightarrow> nat \<Rightarrow> nat \<Rightarrow> nat" where
  "msg_per_buf_of msg_size buf_size bytes_per_sample = buf_size div (msg_size div bytes_per_sample)"

definition samples_per_msg_of :: "nat \<Rightarrow> nat \<Rightarrow> nat" where
  "samples_per_msg_of msg_size bytes_per_sample = (msg_size - METADATA_HEADER_SIZE) div bytes_per_sample"

definition sync_sample_count_aligned :: "nat \<Rightarrow> nat \<Rightarrow> bool" where
  "sync_sample_count_aligned num_samples samples_per_ts \<longleftrightarrow>
     samples_per_ts \<noteq> 0 \<and> num_samples mod samples_per_ts = 0"

definition sync_format_count_aligned :: "bladerf_format \<Rightarrow> nat \<Rightarrow> nat \<Rightarrow> bool" where
  "sync_format_count_aligned fmt num_samples samples_per_ts \<longleftrightarrow>
     fmt = BLADERF_FORMAT_PACKET_META \<or> sync_sample_count_aligned num_samples samples_per_ts"

definition sync_timestamp_delta_to_samples :: "u64 \<Rightarrow> nat \<Rightarrow> nat \<Rightarrow> nat" where
  "sync_timestamp_delta_to_samples timestamp_delta samples_per_ts samples_available =
     (if samples_per_ts = 0 then 0
      else
        let timestamps_available = samples_available div samples_per_ts +
              (if samples_available mod samples_per_ts \<noteq> 0 then 1 else 0) in
        if unat timestamp_delta \<ge> timestamps_available then samples_available
        else unat timestamp_delta * samples_per_ts)"

definition sync_samples_to_timestamp_delta :: "nat \<Rightarrow> nat \<Rightarrow> nat" where
  "sync_samples_to_timestamp_delta num_samples samples_per_ts =
     (if samples_per_ts = 0 then 0 else num_samples div samples_per_ts)"

section \<open>State of a read\<close>

record meta_reader =
  m_state :: sync_meta_state
  m_msg_size :: nat
  m_msg_per_buf :: nat
  m_samples_per_msg :: nat
  m_samples_per_ts :: nat
  m_bytes_per_sample :: nat
  m_have_timestamp :: bool
  m_curr_timestamp :: u64
  m_curr_msg :: "u8 list"
  m_off :: nat
  m_num :: nat
  m_msg_timestamp :: u64
  m_msg_flags :: u32
  m_epoch_id :: u8
  m_epoch_valid :: bool
  m_filtered_out :: bool
  m_channel_filtered :: bool
  m_admission_reason :: u32
  m_boundary_enabled :: bool
  m_min_timestamp :: u64
  m_filter_enabled :: bool
  m_invalidated :: bool
  m_expected_id :: u8
  m_buf :: "u8 list"
  m_released :: bool
  u_rx_now :: bool
  u_nonblocking :: bool
  u_num_samples :: nat
  u_timestamp :: u64
  u_status :: u32
  u_epoch :: "u8 option"
  u_clipping :: u8
  r_target :: u64
  r_copied :: bool
  r_returned :: nat
  r_out :: "u8 list"
  r_exit_early :: bool
  r_result :: "unit outcome"
  w_reason :: u32
  w_timestamp :: u64
  w_epoch :: u8
  w_hook :: bool
  w_published :: bool
  chunks :: "(u64 \<times> nat) list"

definition left_in_msg :: "meta_reader \<Rightarrow> nat" where
  "left_in_msg r = m_samples_per_msg r - m_off r"

definition ts_remaining :: "meta_reader \<Rightarrow> nat" where
  "ts_remaining r = (m_samples_per_msg r - m_off r) div m_samples_per_ts r"

definition timestamp_to_msg :: "meta_reader \<Rightarrow> nat \<Rightarrow> nat" where
  "timestamp_to_msg r t = t div m_samples_per_msg r"

definition sync_rx_note_withheld :: "bool \<Rightarrow> u32 \<Rightarrow> u64 \<Rightarrow> u8 \<Rightarrow> meta_reader \<Rightarrow> meta_reader" where
  "sync_rx_note_withheld allow_immediate reason timestamp epoch r =
     (if w_reason r = 0
      then r\<lparr>w_reason := reason, w_timestamp := timestamp, w_epoch := epoch,
             w_published := w_published r \<or> (allow_immediate \<and> w_hook r)\<rparr>
      else r)"

definition note_epoch :: "meta_reader \<Rightarrow> u8" where
  "note_epoch r = (if m_epoch_valid r then m_epoch_id r else m_expected_id r)"

section \<open>Header\<close>

definition epoch_matches :: "meta_reader \<Rightarrow> bool" where
  "epoch_matches r \<longleftrightarrow> \<not> m_invalidated r \<and>
     (\<not> m_filter_enabled r \<or> metadata_rx_epoch_matches (m_curr_msg r) (m_expected_id r))"

definition load_header :: "meta_reader \<Rightarrow> meta_reader" where
  "load_header r =
     (let msg = drop (m_msg_size r * m_num r) (m_buf r);
          ts = metadata_get_timestamp msg; fl = metadata_get_flags msg;
          r1 = r\<lparr>m_curr_msg := msg, m_msg_timestamp := ts, m_msg_flags := fl,
                 m_epoch_valid := (metadata_get_rx_epoch_id msg \<noteq> None),
                 m_epoch_id := (case metadata_get_rx_epoch_id msg of None \<Rightarrow> m_epoch_id r | Some e \<Rightarrow> e),
                 m_channel_filtered := False, m_admission_reason := 0,
                 u_status := (if \<not> m_boundary_enabled r \<or>
                                 metadata_timestamp_at_or_after ts (m_min_timestamp r)
                              then u_status r OR metadata_flags_to_sync_status fl else u_status r),
                 m_off := 0\<rparr> in
      r1\<lparr>m_filtered_out := m_boundary_enabled r \<and> m_filter_enabled r \<and> \<not> epoch_matches r1\<rparr>)"

definition header_disposition :: "meta_reader \<Rightarrow> metadata_rx_epoch_disposition" where
  "header_disposition r =
     metadata_rx_epoch_disposition (m_boundary_enabled r) (m_filter_enabled r) (epoch_matches r)
       (m_msg_timestamp r) (m_curr_timestamp r) (m_min_timestamp r) (m_have_timestamp r) (r_copied r)"

definition accept_header :: "meta_reader \<Rightarrow> meta_reader" where
  "accept_header r =
     (if m_filtered_out r then r\<lparr>m_state := SYNC_META_STATE_SAMPLES\<rparr>
      else r\<lparr>m_curr_timestamp := m_msg_timestamp r, m_have_timestamp := True,
             m_state := SYNC_META_STATE_SAMPLES\<rparr>)"

definition meta_header :: "meta_reader \<Rightarrow> meta_reader" where
  "meta_header r0 =
     (if m_num r0 \<ge> m_msg_per_buf r0 then r0\<lparr>r_result := Undef\<rparr>
      else
        let r = load_header r0;
            overrun = r\<lparr>u_status := u_status r OR BLADERF_META_STATUS_OVERRUN\<rparr> in
        (case header_disposition r of
           METADATA_RX_EPOCH_RETURN_VALID_PREFIX \<Rightarrow>
             (sync_rx_note_withheld (\<not> r_copied r) BLADERF_RF_WITHHELD_EPOCH_OR_TIMESTAMP_MISMATCH
                (m_msg_timestamp r) (note_epoch r) overrun)
               \<lparr>r_exit_early := True, m_state := SYNC_META_STATE_HEADER\<rparr>
         | METADATA_RX_EPOCH_DISCONTINUITY \<Rightarrow>
             accept_header ((sync_rx_note_withheld (\<not> r_copied r) BLADERF_RF_WITHHELD_TIMESTAMP_DISCONTINUITY
                (if m_have_timestamp r then m_curr_timestamp r else m_msg_timestamp r) (note_epoch r) overrun)
               \<lparr>r_exit_early := r_copied r\<rparr>)
         | METADATA_RX_EPOCH_ACCEPT \<Rightarrow> accept_header r
         | METADATA_RX_EPOCH_DROP_MESSAGE \<Rightarrow>
             accept_header (sync_rx_note_withheld (\<not> r_copied r)
               (if m_invalidated r then BLADERF_RF_WITHHELD_EPOCH_UNCERTIFIED
                else BLADERF_RF_WITHHELD_EPOCH_OR_TIMESTAMP_MISMATCH)
               (m_msg_timestamp r) (note_epoch r) r)
         | METADATA_RX_EPOCH_SKIP_TIMESTAMP_PREFIX \<Rightarrow>
             accept_header (sync_rx_note_withheld (\<not> r_copied r)
               BLADERF_RF_WITHHELD_EPOCH_OR_TIMESTAMP_MISMATCH (m_msg_timestamp r) (note_epoch r) r)))"

section \<open>Samples\<close>

definition finish_message :: "meta_reader \<Rightarrow> meta_reader" where
  "finish_message r =
     (let r1 = r\<lparr>m_state := SYNC_META_STATE_HEADER, m_num := m_num r + 1\<rparr> in
      if m_num r1 \<ge> m_msg_per_buf r1 then r1\<lparr>m_num := 0, m_released := True\<rparr> else r1)"

definition skip_message :: "meta_reader \<Rightarrow> meta_reader" where
  "skip_message r =
     (let left = left_in_msg r in
      finish_message (r\<lparr>m_off := m_off r + left,
        m_curr_timestamp := m_curr_timestamp r + of_nat (left div m_samples_per_ts r)\<rparr>))"

definition withheld_message :: "meta_reader \<Rightarrow> meta_reader" where
  "withheld_message r =
     (let reason =
            (if m_channel_filtered r then BLADERF_RF_WITHHELD_RX_CHANNEL_SELECTION
             else if m_admission_reason r \<noteq> 0 then m_admission_reason r
             else if m_invalidated r then BLADERF_RF_WITHHELD_EPOCH_UNCERTIFIED
             else BLADERF_RF_WITHHELD_EPOCH_OR_TIMESTAMP_MISMATCH);
          r1 = sync_rx_note_withheld (\<not> r_copied r) reason
                 (if m_channel_filtered r then m_msg_timestamp r else m_curr_timestamp r) (note_epoch r) r;
          r2 = skip_message r1 in
      if m_admission_reason r2 = BLADERF_RF_WITHHELD_SYNC_TIMEOUT
      then r2\<lparr>r_result := Err BLADERF_ERR_TIMEOUT\<rparr>
      else if m_channel_filtered r2 \<or> m_admission_reason r2 \<noteq> 0
      then (if \<not> r_copied r2 \<and> u_nonblocking r2 then r2\<lparr>r_result := Err BLADERF_ERR_WOULD_BLOCK\<rparr>
            else if r_copied r2
            then r2\<lparr>u_status := u_status r2 OR BLADERF_META_STATUS_OVERRUN, r_exit_early := True\<rparr>
            else r2)
      else r2)"

definition skip_to_boundary :: "meta_reader \<Rightarrow> meta_reader" where
  "skip_to_boundary r =
     (let timestamps_to_skip = m_min_timestamp r - m_curr_timestamp r;
          timestamps_to_end = (left_in_msg r + m_samples_per_ts r - 1) div m_samples_per_ts r in
      if unat timestamps_to_skip \<ge> timestamps_to_end then skip_message r
      else r\<lparr>m_off := m_off r + unat timestamps_to_skip * m_samples_per_ts r,
             m_curr_timestamp := m_curr_timestamp r + timestamps_to_skip\<rparr>)"

type_synonym admission_fn = "(u8 \<Rightarrow> u64 \<Rightarrow> nat \<Rightarrow> u32) option"

definition copy_message :: "nat \<Rightarrow> meta_reader \<Rightarrow> meta_reader" where
  "copy_message n r =
     (let r1 = r\<lparr>u_clipping := u_clipping r OR metadata_get_rx_clipping_flags (m_curr_msg r),
                 r_out := r_out r @ take (m_bytes_per_sample r * n)
                   (drop (METADATA_HEADER_SIZE + m_bytes_per_sample r * m_off r) (m_curr_msg r)),
                 chunks := chunks r @ [(metadata_get_timestamp (m_curr_msg r) +
                                        of_nat (m_off r div m_samples_per_ts r), n)],
                 r_returned := r_returned r + n,
                 u_epoch := (if \<not> r_copied r \<and> m_epoch_valid r then Some (m_epoch_id r) else u_epoch r),
                 m_off := m_off r + n,
                 u_timestamp := (if \<not> r_copied r \<and> u_rx_now r then m_curr_timestamp r else u_timestamp r),
                 r_copied := True,
                 m_curr_timestamp := m_curr_timestamp r + of_nat (n div m_samples_per_ts r),
                 r_target := m_curr_timestamp r + of_nat (n div m_samples_per_ts r)\<rparr> in
      if left_in_msg r1 = 0 then finish_message r1 else r1)"

definition copy_samples_step :: "admission_fn \<Rightarrow> meta_reader \<Rightarrow> meta_reader" where
  "copy_samples_step admission r =
     (let n = min (u_num_samples r - r_returned r) (left_in_msg r);
          reason = (if n \<noteq> 0 \<and> m_filter_enabled r
                    then (case admission of None \<Rightarrow> 0 | Some f \<Rightarrow> f (m_epoch_id r) (m_curr_timestamp r) n)
                    else 0) in
      if reason \<noteq> 0
      then r\<lparr>m_admission_reason := reason,
             m_channel_filtered := (reason = BLADERF_RF_WITHHELD_RX_CHANNEL_SELECTION),
             m_filtered_out := True\<rparr>
      else copy_message n r)"

definition seek_target :: "meta_reader \<Rightarrow> meta_reader" where
  "seek_target r =
     (let time_delta = r_target r - m_curr_timestamp r;
          in_messages = m_samples_per_msg r * (m_msg_per_buf r - m_num r);
          left_in_buffer = in_messages - m_off r;
          samples_left = sync_timestamp_delta_to_samples time_delta (m_samples_per_ts r) left_in_buffer in
      if m_off r > in_messages \<or> left_in_buffer > 2 ^ 32 - 1 then r\<lparr>r_result := Undef\<rparr>
      else if samples_left \<ge> left_in_buffer
      then r\<lparr>m_curr_timestamp := m_curr_timestamp r + of_nat (left_in_buffer div m_samples_per_ts r),
             m_released := True, m_state := SYNC_META_STATE_HEADER\<rparr>
      else if m_off r > m_samples_per_msg r then r\<lparr>r_result := Undef\<rparr>
      else if unat time_delta \<le> ts_remaining r
      then r\<lparr>m_off := m_off r + samples_left, m_curr_timestamp := m_curr_timestamp r + time_delta\<rparr>
      else
        let skip_msgs = timestamp_to_msg r samples_left;
            skipped = int skip_msgs * int (m_samples_per_msg r) - int (m_off r) in
        r\<lparr>m_curr_timestamp := m_curr_timestamp r + of_int (skipped sdiv int (m_samples_per_ts r)),
          m_state := SYNC_META_STATE_HEADER, m_num := m_num r + skip_msgs\<rparr>)"

definition meta_samples :: "admission_fn \<Rightarrow> meta_reader \<Rightarrow> meta_reader" where
  "meta_samples admission r =
     (if m_invalidated r \<or> m_filtered_out r then withheld_message r
      else if m_boundary_enabled r \<and>
              \<not> metadata_timestamp_at_or_after (m_curr_timestamp r) (m_min_timestamp r)
      then skip_to_boundary r
      else if \<not> r_copied r \<and> \<not> u_rx_now r \<and>
              \<not> metadata_timestamp_at_or_after (r_target r) (m_curr_timestamp r)
      then r\<lparr>r_result := Err BLADERF_ERR_TIME_PAST\<rparr>
      else if u_rx_now r \<or> r_target r = m_curr_timestamp r then copy_samples_step admission r
      else seek_target r)"

definition meta_step :: "admission_fn \<Rightarrow> meta_reader \<Rightarrow> meta_reader" where
  "meta_step admission r =
     (case m_state r of
        SYNC_META_STATE_HEADER \<Rightarrow> meta_header r
      | SYNC_META_STATE_SAMPLES \<Rightarrow> meta_samples admission r)"

definition meta_running :: "meta_reader \<Rightarrow> bool" where
  \<comment> \<open>the condition of the loop of \<^verbatim>\<open>sync_rx\<close>\<close>
  "meta_running r \<longleftrightarrow> \<not> r_exit_early r \<and> r_returned r < u_num_samples r \<and> r_result r = Ok ()"

definition meta_next_buffer :: "u8 list \<Rightarrow> meta_reader \<Rightarrow> meta_reader" where
  \<comment> \<open>\<^verbatim>\<open>SYNC_STATE_BUFFER_READY\<close>: the next buffer of the ring\<close>
  "meta_next_buffer buf r = r\<lparr>m_buf := buf, m_released := False, m_off := 0, m_num := 0\<rparr>"

end
