(* ===== verification/Sync_Samples.thy ===== *)
theory Sync_Samples
  imports Sync_Meta
begin

unbundle bit_operations_syntax

text \<open>
  A whole metadata read: iterations of the parser, with the next buffer of the ring whenever the
  current one was given back, in any number and with any received contents. Epoch fences are not
  interleaved here: while the reader waits, a fence advances the generation and the loop of
  \<^verbatim>\<open>sync_rx\<close> ends (\<open>Sync_Ring\<close>). The invariant ties the parser's position to the header of the current
  message and the copied runs to the target timestamp.
\<close>

section \<open>A read\<close>

inductive meta_read :: "admission_fn \<Rightarrow> meta_reader \<Rightarrow> meta_reader \<Rightarrow> bool" for adm r0 where
  start: "meta_read adm r0 r0"
| parse: "meta_read adm r0 r \<Longrightarrow> meta_running r \<Longrightarrow> \<not> m_released r \<Longrightarrow> meta_read adm r0 (meta_step adm r)"
| refill: "meta_read adm r0 r \<Longrightarrow> meta_running r \<Longrightarrow> m_released r \<Longrightarrow> meta_read adm r0 (meta_next_buffer buf r)"

fun contiguous :: "nat \<Rightarrow> (u64 \<times> nat) list \<Rightarrow> bool" where
  "contiguous spt (c # d # cs) \<longleftrightarrow> fst d = fst c + of_nat (snd c div spt) \<and> contiguous spt (d # cs)"
| "contiguous spt _ \<longleftrightarrow> True"

definition chunk_end :: "nat \<Rightarrow> (u64 \<times> nat) list \<Rightarrow> u64" where
  "chunk_end spt cs = fst (last cs) + of_nat (snd (last cs) div spt)"

lemma contiguous_snoc:
  "contiguous spt (cs @ [c]) \<longleftrightarrow> contiguous spt cs \<and> (cs \<noteq> [] \<longrightarrow> fst c = chunk_end spt cs)"
  by (induction spt cs rule: contiguous.induct) (auto simp: chunk_end_def)

definition parser_ok :: "meta_reader \<Rightarrow> bool" where
  \<comment> \<open>between two iterations the parser's position agrees with the header of the current message\<close>
  "parser_ok r \<longleftrightarrow> 0 < m_samples_per_ts r \<and> m_samples_per_ts r dvd m_samples_per_msg r \<and>
     m_off r \<le> m_samples_per_msg r \<and> m_samples_per_ts r dvd m_off r \<and>
     (m_released r \<longrightarrow> m_state r = SYNC_META_STATE_HEADER) \<and>
     (m_state r = SYNC_META_STATE_SAMPLES \<longrightarrow> \<not> m_filtered_out r \<longrightarrow> m_have_timestamp r \<and>
        m_curr_timestamp r = metadata_get_timestamp (m_curr_msg r) + of_nat (m_off r div m_samples_per_ts r))"

definition read_ok :: "meta_reader \<Rightarrow> bool" where
  "read_ok r \<longleftrightarrow> m_samples_per_ts r dvd u_num_samples r \<and> m_samples_per_ts r dvd r_returned r \<and>
     r_returned r = sum_list (map snd (chunks r)) \<and> contiguous (m_samples_per_ts r) (chunks r) \<and>
     (r_copied r \<longleftrightarrow> chunks r \<noteq> []) \<and>
     (if chunks r = [] then r_target r = u_timestamp r
      else r_target r = chunk_end (m_samples_per_ts r) (chunks r) \<and> fst (hd (chunks r)) = u_timestamp r \<and>
        m_have_timestamp r \<and> \<not> m_invalidated r)"

definition at_target :: "meta_reader \<Rightarrow> bool" where
  \<comment> \<open>without a boundary the parser of a running read never leaves the end of the copied samples\<close>
  "at_target r \<longleftrightarrow> \<not> m_boundary_enabled r \<and>
     (m_state r = SYNC_META_STATE_SAMPLES \<and> m_filtered_out r \<longrightarrow> m_admission_reason r \<noteq> 0) \<and>
     (r_copied r \<and> meta_running r \<and> \<not> (m_state r = SYNC_META_STATE_SAMPLES \<and> m_filtered_out r) \<longrightarrow>
        m_curr_timestamp r = r_target r)"

lemmas meta_steps = finish_message_def skip_message_def Let_def left_in_msg_def

lemma note_withheld_fields [simp]:
  "m_state (sync_rx_note_withheld a x t e r) = m_state r"
  "m_msg_size (sync_rx_note_withheld a x t e r) = m_msg_size r"
  "m_msg_per_buf (sync_rx_note_withheld a x t e r) = m_msg_per_buf r"
  "m_samples_per_msg (sync_rx_note_withheld a x t e r) = m_samples_per_msg r"
  "m_samples_per_ts (sync_rx_note_withheld a x t e r) = m_samples_per_ts r"
  "m_have_timestamp (sync_rx_note_withheld a x t e r) = m_have_timestamp r"
  "m_curr_timestamp (sync_rx_note_withheld a x t e r) = m_curr_timestamp r"
  "m_curr_msg (sync_rx_note_withheld a x t e r) = m_curr_msg r"
  "m_off (sync_rx_note_withheld a x t e r) = m_off r"
  "m_num (sync_rx_note_withheld a x t e r) = m_num r"
  "m_msg_timestamp (sync_rx_note_withheld a x t e r) = m_msg_timestamp r"
  "m_filtered_out (sync_rx_note_withheld a x t e r) = m_filtered_out r"
  "m_channel_filtered (sync_rx_note_withheld a x t e r) = m_channel_filtered r"
  "m_admission_reason (sync_rx_note_withheld a x t e r) = m_admission_reason r"
  "m_boundary_enabled (sync_rx_note_withheld a x t e r) = m_boundary_enabled r"
  "m_min_timestamp (sync_rx_note_withheld a x t e r) = m_min_timestamp r"
  "m_filter_enabled (sync_rx_note_withheld a x t e r) = m_filter_enabled r"
  "m_invalidated (sync_rx_note_withheld a x t e r) = m_invalidated r"
  "m_buf (sync_rx_note_withheld a x t e r) = m_buf r"
  "m_released (sync_rx_note_withheld a x t e r) = m_released r"
  "u_rx_now (sync_rx_note_withheld a x t e r) = u_rx_now r"
  "u_nonblocking (sync_rx_note_withheld a x t e r) = u_nonblocking r"
  "u_num_samples (sync_rx_note_withheld a x t e r) = u_num_samples r"
  "u_timestamp (sync_rx_note_withheld a x t e r) = u_timestamp r"
  "u_status (sync_rx_note_withheld a x t e r) = u_status r"
  "r_target (sync_rx_note_withheld a x t e r) = r_target r"
  "r_copied (sync_rx_note_withheld a x t e r) = r_copied r"
  "r_returned (sync_rx_note_withheld a x t e r) = r_returned r"
  "r_exit_early (sync_rx_note_withheld a x t e r) = r_exit_early r"
  "r_result (sync_rx_note_withheld a x t e r) = r_result r"
  "chunks (sync_rx_note_withheld a x t e r) = chunks r"
  by (simp_all add: sync_rx_note_withheld_def)

lemma finish_ok:
  "parser_ok r \<Longrightarrow> parser_ok (finish_message r)" "parser_ok r \<Longrightarrow> parser_ok (skip_message r)"
  by (auto simp: parser_ok_def meta_steps)

lemma load_header_fields [simp]:
  "m_curr_msg (load_header r) = drop (m_msg_size r * m_num r) (m_buf r)"
  "m_msg_timestamp (load_header r) = metadata_get_timestamp (m_curr_msg (load_header r))"
  "m_off (load_header r) = 0" "m_state (load_header r) = m_state r" "m_released (load_header r) = m_released r"
  "m_samples_per_ts (load_header r) = m_samples_per_ts r" "m_samples_per_msg (load_header r) = m_samples_per_msg r"
  "m_have_timestamp (load_header r) = m_have_timestamp r" "m_curr_timestamp (load_header r) = m_curr_timestamp r"
  "m_boundary_enabled (load_header r) = m_boundary_enabled r" "m_invalidated (load_header r) = m_invalidated r"
  "m_filter_enabled (load_header r) = m_filter_enabled r" "m_min_timestamp (load_header r) = m_min_timestamp r"
  "u_rx_now (load_header r) = u_rx_now r" "u_num_samples (load_header r) = u_num_samples r"
  "u_timestamp (load_header r) = u_timestamp r" "r_target (load_header r) = r_target r"
  "r_copied (load_header r) = r_copied r" "r_returned (load_header r) = r_returned r"
  "r_exit_early (load_header r) = r_exit_early r" "r_result (load_header r) = r_result r" "chunks (load_header r) = chunks r"
  by (simp_all add: load_header_def Let_def)

lemma header_filtered: "m_filtered_out (load_header r) \<Longrightarrow> m_boundary_enabled r"
  by (simp add: load_header_def Let_def)

lemma meta_header_parser_ok: "parser_ok r \<Longrightarrow> m_state r = SYNC_META_STATE_HEADER \<Longrightarrow> \<not> m_released r \<Longrightarrow> parser_ok (meta_header r)"
  by (auto simp: meta_header_def Let_def accept_header_def parser_ok_def split: metadata_rx_epoch_disposition.split)

lemma meta_header_read_ok: "read_ok r \<Longrightarrow> read_ok (meta_header r)"
  by (auto simp: meta_header_def Let_def accept_header_def read_ok_def split: metadata_rx_epoch_disposition.split)

lemma meta_header_at_target:
  assumes "at_target r" "read_ok r" "meta_running r" "m_state r = SYNC_META_STATE_HEADER"
  shows "at_target (meta_header r)"
proof -
  have nf: "\<not> m_filtered_out (load_header r)" using assms(1) header_filtered by (auto simp: at_target_def)
  have "m_have_timestamp r" if "r_copied r" using assms(2) that by (auto simp: read_ok_def)
  then show ?thesis
    using assms nf
    by (auto simp: meta_header_def Let_def accept_header_def at_target_def meta_running_def header_disposition_def
        metadata_rx_epoch_disposition_def split: metadata_rx_epoch_disposition.splits if_splits)
qed

lemma dvd_left: "parser_ok r \<Longrightarrow> m_samples_per_ts r dvd left_in_msg r"
  by (auto simp: parser_ok_def left_in_msg_def)

lemma div_add_mult: "(s :: nat) dvd a \<Longrightarrow> 0 < s \<Longrightarrow> (a + k * s) div s = a div s + k"
  by auto

lemma skip_to_boundary_ok:
  assumes "parser_ok r" "m_state r = SYNC_META_STATE_SAMPLES" "\<not> m_filtered_out r"
  shows "parser_ok (skip_to_boundary r)"
proof -
  let ?s = "m_samples_per_ts r" and ?k = "unat (m_min_timestamp r - m_curr_timestamp r)"
  have s: "0 < ?s" using assms(1) by (simp add: parser_ok_def)
  obtain q where q: "left_in_msg r = q * ?s" using dvd_left [OF assms(1)] by (metis dvdE mult.commute)
  have e: "(left_in_msg r + ?s - 1) div ?s = q"
    using s q by (intro div_nat_eqI) (simp_all add: mult.commute [of _ q])
  show ?thesis
  proof (cases "q \<le> ?k")
    case True
    then show ?thesis using finish_ok(2) [OF assms(1)] e by (simp add: skip_to_boundary_def Let_def)
  next
    case False
    then have "?k * ?s \<le> left_in_msg r" using q by simp
    moreover have "m_off r \<le> m_samples_per_msg r" using assms(1) by (simp add: parser_ok_def)
    ultimately have "m_off r + ?k * ?s \<le> m_samples_per_msg r" by (simp add: left_in_msg_def)
    moreover have "skip_to_boundary r = r\<lparr>m_off := m_off r + ?k * ?s,
        m_curr_timestamp := m_curr_timestamp r + (m_min_timestamp r - m_curr_timestamp r)\<rparr>"
      using False e by (simp add: skip_to_boundary_def Let_def)
    ultimately show ?thesis
      using assms by (simp add: parser_ok_def div_add_mult)
  qed
qed

lemma skip_static:
  "read_ok (skip_message r) = read_ok r" "read_ok (skip_to_boundary r) = read_ok r"
  "read_ok (finish_message r) = read_ok r" "read_ok (seek_target r) = read_ok r"
  by (simp_all add: read_ok_def skip_to_boundary_def seek_target_def meta_steps)

lemma result_frame:
  "parser_ok (r\<lparr>r_result := v\<rparr>) = parser_ok r" "parser_ok (r\<lparr>u_status := w, r_exit_early := b\<rparr>) = parser_ok r"
  "read_ok (r\<lparr>r_result := v\<rparr>) = read_ok r" "read_ok (r\<lparr>u_status := w, r_exit_early := b\<rparr>) = read_ok r"
  "read_ok (r\<lparr>m_admission_reason := x, m_channel_filtered := c, m_filtered_out := f\<rparr>) = read_ok r"
  "parser_ok r \<Longrightarrow> parser_ok (r\<lparr>m_admission_reason := x, m_channel_filtered := c, m_filtered_out := True\<rparr>)"
  by (simp_all add: parser_ok_def read_ok_def)

lemma withheld_ok:
  assumes "parser_ok r" "read_ok r"
  shows "parser_ok (withheld_message r)" "read_ok (withheld_message r)"
proof -
  have "parser_ok (sync_rx_note_withheld a x t e r) = parser_ok r" "read_ok (sync_rx_note_withheld a x t e r) = read_ok r" for a x t e
    by (simp_all add: parser_ok_def read_ok_def)
  then have p: "parser_ok (sync_rx_note_withheld a x t e r)" "read_ok (sync_rx_note_withheld a x t e r)" for a x t e
    using assms by simp_all
  show "parser_ok (withheld_message r)" "read_ok (withheld_message r)"
    unfolding withheld_message_def Let_def using finish_ok(2) [OF p(1)] p(2)
    by (simp_all add: result_frame skip_static)
qed

lemma withheld_at_target:
  assumes "at_target r" "read_ok r" "m_state r = SYNC_META_STATE_SAMPLES" "m_invalidated r \<or> m_filtered_out r"
  shows "at_target (withheld_message r)"
proof -
  have "\<not> m_invalidated r" if "r_copied r" using assms(2) that by (auto simp: read_ok_def split: if_splits)
  then have "m_admission_reason r \<noteq> 0" if "r_copied r"
    using assms that by (auto simp: at_target_def)
  then show ?thesis
    using assms(1) by (auto simp: withheld_message_def meta_steps at_target_def meta_running_def)
qed

lemma copy_ok:
  assumes "parser_ok r" "read_ok r" "m_state r = SYNC_META_STATE_SAMPLES" "\<not> m_filtered_out r" "\<not> m_invalidated r"
    and "r_target r = m_curr_timestamp r \<or> u_rx_now r \<and> \<not> r_copied r"
    and "n = min (u_num_samples r - r_returned r) (left_in_msg r)" "meta_running r" "\<not> m_released r"
  shows "parser_ok (copy_message n r)" "read_ok (copy_message n r)"
    "\<not> m_boundary_enabled r \<Longrightarrow> at_target (copy_message n r)"
proof -
  let ?s = "m_samples_per_ts r"
  let ?r1 = "r\<lparr>u_clipping := u_clipping r OR metadata_get_rx_clipping_flags (m_curr_msg r),
                 r_out := r_out r @ take (m_bytes_per_sample r * n)
                   (drop (METADATA_HEADER_SIZE + m_bytes_per_sample r * m_off r) (m_curr_msg r)),
                 chunks := chunks r @ [(metadata_get_timestamp (m_curr_msg r) +
                                        of_nat (m_off r div m_samples_per_ts r), n)],
                 r_returned := r_returned r + n,
                 u_epoch := (if \<not> r_copied r \<and> m_epoch_valid r then Some (m_epoch_id r) else u_epoch r),
                 m_off := m_off r + n,
                 u_timestamp := (if \<not> r_copied r \<and> u_rx_now r then m_curr_timestamp r else u_timestamp r),
                 r_copied := True,
                 m_curr_timestamp := m_curr_timestamp r + of_nat (n div m_samples_per_ts r),
                 r_target := m_curr_timestamp r + of_nat (n div m_samples_per_ts r)\<rparr>"
  have s: "0 < ?s" and off: "?s dvd m_off r" using assms(1) by (simp_all add: parser_ok_def)
  have "?s dvd u_num_samples r - r_returned r" using assms(2) by (auto simp: read_ok_def)
  then have n: "?s dvd n" using dvd_left [OF assms(1)] assms(7) by (auto simp: min_def)
  have "m_off r \<le> m_samples_per_msg r" using assms(1) by (simp add: parser_ok_def)
  then have le: "m_off r + n \<le> m_samples_per_msg r" using assms(7) by (simp add: left_in_msg_def)
  have ts: "m_curr_timestamp r = metadata_get_timestamp (m_curr_msg r) + of_nat (m_off r div ?s)" "m_have_timestamp r"
    using assms(1,3,4) by (simp_all add: parser_ok_def)
  have sum: "(m_off r + n) div ?s = m_off r div ?s + n div ?s" using off by (simp add: div_plus_div_distrib_dvd_left)
  have cm: "copy_message n r = (if left_in_msg ?r1 = 0 then finish_message ?r1 else ?r1)"
    unfolding copy_message_def Let_def ..
  have p1: "parser_ok ?r1"
    using assms(1,9) n le ts(2) unfolding parser_ok_def ts(1) by (auto simp: sum add.assoc)
  then show "parser_ok (copy_message n r)" unfolding cm using finish_ok(1) [OF p1] by simp
  have cont: "contiguous ?s (chunks r @ [(m_curr_timestamp r, n)])"
  proof (cases "chunks r = []")
    case False
    then have "r_copied r" "r_target r = chunk_end ?s (chunks r)" using assms(2) by (simp_all add: read_ok_def)
    then show ?thesis using assms(2,6) by (simp add: contiguous_snoc read_ok_def)
  qed simp
  have hd: "fst (hd (chunks r @ [(m_curr_timestamp r, n)])) =
      (if \<not> r_copied r \<and> u_rx_now r then m_curr_timestamp r else u_timestamp r)"
  proof (cases "chunks r = []")
    case True
    then have "\<not> r_copied r" "r_target r = u_timestamp r" using assms(2) by (simp_all add: read_ok_def)
    then show ?thesis using assms(6) True by auto
  next
    case False
    then show ?thesis using assms(2) by (simp add: read_ok_def)
  qed
  have dv: "?s dvd u_num_samples r" "?s dvd r_returned r" "r_returned r = sum_list (map snd (chunks r))"
    using assms(2) unfolding read_ok_def by blast+
  have r1: "read_ok ?r1"
    unfolding read_ok_def ts(1) [symmetric]
    using dv n ts(2) assms(5) cont hd by (simp add: chunk_end_def)
  then show "read_ok (copy_message n r)" unfolding cm by (simp add: skip_static)
  show "at_target (copy_message n r)" if "\<not> m_boundary_enabled r"
    unfolding cm using that assms(3,4) by (simp add: at_target_def meta_steps)
qed

lemma seek_ok:
  assumes "parser_ok r" "read_ok r" "m_state r = SYNC_META_STATE_SAMPLES" "\<not> m_filtered_out r"
  shows "parser_ok (seek_target r)" "read_ok (seek_target r)"
proof -
  let ?s = "m_samples_per_ts r" and ?d = "r_target r - m_curr_timestamp r"
  let ?left = "m_samples_per_msg r * (m_msg_per_buf r - m_num r) - m_off r"
  have s: "0 < ?s" "?s dvd m_off r" using assms(1) by (simp_all add: parser_ok_def)
  show "read_ok (seek_target r)"
    using assms(2) by (simp add: skip_static)
  have sl: "sync_timestamp_delta_to_samples ?d ?s ?left = unat ?d * ?s"
    if "sync_timestamp_delta_to_samples ?d ?s ?left < ?left"
    using that s(1) by (auto simp: sync_timestamp_delta_to_samples_def Let_def split: if_splits)
  have fits: "m_off r + unat ?d * ?s \<le> m_samples_per_msg r" if "unat ?d \<le> ts_remaining r"
  proof -
    have "unat ?d * ?s \<le> ts_remaining r * ?s" using that by simp
    also have "\<dots> \<le> m_samples_per_msg r - m_off r" unfolding ts_remaining_def by (rule div_times_less_eq_dividend)
    finally have "unat ?d * ?s \<le> m_samples_per_msg r - m_off r" .
    moreover have "m_off r \<le> m_samples_per_msg r" using assms(1) by (simp add: parser_ok_def)
    ultimately show ?thesis by simp
  qed
  have in_msg: "parser_ok (r\<lparr>m_off := m_off r + unat ?d * ?s, m_curr_timestamp := m_curr_timestamp r + ?d\<rparr>)"
    if "unat ?d \<le> ts_remaining r"
    using assms fits [OF that] by (simp add: parser_ok_def div_add_mult)
  show "parser_ok (seek_target r)"
    using assms(1) in_msg sl
    by (auto simp: seek_target_def Let_def not_le) (auto simp: parser_ok_def)
qed

definition read_start :: "meta_reader \<Rightarrow> bool" where
  \<comment> \<open>the locals of \<^verbatim>\<open>sync_rx\<close> when its loop is entered\<close>
  "read_start r \<longleftrightarrow> \<not> r_copied r \<and> r_returned r = 0 \<and> chunks r = [] \<and> r_target r = u_timestamp r \<and>
     \<not> r_exit_early r \<and> r_result r = Ok () \<and>
     sync_sample_count_aligned (u_num_samples r) (m_samples_per_ts r)"

lemma copy_step_cases:
  "copy_samples_step adm r = copy_message (min (u_num_samples r - r_returned r) (left_in_msg r)) r \<or>
   (\<exists>x c. x \<noteq> 0 \<and>
     copy_samples_step adm r = r\<lparr>m_admission_reason := x, m_channel_filtered := c, m_filtered_out := True\<rparr>)"
proof -
  let ?n = "min (u_num_samples r - r_returned r) (left_in_msg r)"
  let ?x = "if ?n \<noteq> 0 \<and> m_filter_enabled r
    then (case adm of None \<Rightarrow> 0 | Some f \<Rightarrow> f (m_epoch_id r) (m_curr_timestamp r) ?n) else 0"
  have e: "copy_samples_step adm r =
     (if ?x \<noteq> 0 then r\<lparr>m_admission_reason := ?x, m_channel_filtered := (?x = BLADERF_RF_WITHHELD_RX_CHANNEL_SELECTION),
        m_filtered_out := True\<rparr> else copy_message ?n r)"
    unfolding copy_samples_step_def Let_def ..
  show ?thesis
  proof (cases "?x = 0")
    case True
    then show ?thesis unfolding e by (simp only: if_False not_True_eq_False simp_thms)
  next
    case False
    then have "copy_samples_step adm r = r\<lparr>m_admission_reason := ?x,
        m_channel_filtered := (?x = BLADERF_RF_WITHHELD_RX_CHANNEL_SELECTION), m_filtered_out := True\<rparr>"
      unfolding e by (simp only: if_True not_False_eq_True simp_thms)
    with False show ?thesis by blast
  qed
qed

lemma meta_config:
  "u_rx_now (meta_step adm r) = u_rx_now r" "m_boundary_enabled (meta_step adm r) = m_boundary_enabled r"
  "m_samples_per_ts (meta_step adm r) = m_samples_per_ts r"
proof -
  have copy: "u_rx_now (copy_message n r) = u_rx_now r" "m_boundary_enabled (copy_message n r) = m_boundary_enabled r"
    "m_samples_per_ts (copy_message n r) = m_samples_per_ts r" for n
    by (simp_all add: copy_message_def meta_steps)
  have header: "u_rx_now (meta_header r) = u_rx_now r" "m_boundary_enabled (meta_header r) = m_boundary_enabled r"
    "m_samples_per_ts (meta_header r) = m_samples_per_ts r"
    by (simp_all add: meta_header_def Let_def accept_header_def split: metadata_rx_epoch_disposition.split)
  have held: "u_rx_now (withheld_message r) = u_rx_now r" "m_boundary_enabled (withheld_message r) = m_boundary_enabled r"
    "m_samples_per_ts (withheld_message r) = m_samples_per_ts r"
    by (simp_all add: withheld_message_def meta_steps)
  have seek: "u_rx_now (seek_target r) = u_rx_now r" "m_boundary_enabled (seek_target r) = m_boundary_enabled r"
    "m_samples_per_ts (seek_target r) = m_samples_per_ts r"
    "u_rx_now (skip_to_boundary r) = u_rx_now r" "m_boundary_enabled (skip_to_boundary r) = m_boundary_enabled r"
    "m_samples_per_ts (skip_to_boundary r) = m_samples_per_ts r"
    by (simp_all add: seek_target_def skip_to_boundary_def meta_steps)
  have step: "u_rx_now (copy_samples_step adm r) = u_rx_now r \<and>
      m_boundary_enabled (copy_samples_step adm r) = m_boundary_enabled r \<and>
      m_samples_per_ts (copy_samples_step adm r) = m_samples_per_ts r"
    using copy_step_cases [of adm r]
  proof (elim disjE exE conjE)
    assume e: "copy_samples_step adm r = copy_message (min (u_num_samples r - r_returned r) (left_in_msg r)) r"
    show ?thesis unfolding e by (simp only: copy simp_thms)
  next
    fix x c
    assume e: "copy_samples_step adm r = r\<lparr>m_admission_reason := x, m_channel_filtered := c, m_filtered_out := True\<rparr>"
    show ?thesis unfolding e by simp
  qed
  show "u_rx_now (meta_step adm r) = u_rx_now r" "m_boundary_enabled (meta_step adm r) = m_boundary_enabled r"
    "m_samples_per_ts (meta_step adm r) = m_samples_per_ts r"
    by (simp_all add: meta_step_def meta_samples_def header held seek step split: sync_meta_state.split)
qed

lemma step_ok:
  assumes "parser_ok r" "read_ok r" "u_rx_now r \<Longrightarrow> at_target r" "meta_running r" "\<not> m_released r"
  shows "parser_ok (meta_step adm r) \<and> read_ok (meta_step adm r) \<and> (u_rx_now r \<longrightarrow> at_target (meta_step adm r))"
proof (cases "m_state r")
  case SYNC_META_STATE_HEADER
  then show ?thesis
    using meta_header_parser_ok [OF assms(1) _ assms(5)] meta_header_read_ok [OF assms(2)]
      meta_header_at_target [OF assms(3) assms(2,4)] by (simp add: meta_step_def)
next
  case SYNC_META_STATE_SAMPLES
  note st = SYNC_META_STATE_SAMPLES
  let ?n = "min (u_num_samples r - r_returned r) (left_in_msg r)"
  consider (withheld) "m_invalidated r \<or> m_filtered_out r" "meta_step adm r = withheld_message r"
    | (boundary) "\<not> m_filtered_out r" "m_boundary_enabled r" "meta_step adm r = skip_to_boundary r"
    | (past) e where "\<not> m_filtered_out r" "meta_step adm r = r\<lparr>r_result := Err e\<rparr>"
    | (refused) x c where "\<not> m_filtered_out r" "x \<noteq> 0"
        "meta_step adm r = r\<lparr>m_admission_reason := x, m_channel_filtered := c, m_filtered_out := True\<rparr>"
    | (copy) "\<not> m_invalidated r" "\<not> m_filtered_out r" "u_rx_now r \<or> r_target r = m_curr_timestamp r"
        "meta_step adm r = copy_message ?n r"
    | (seek) "\<not> m_filtered_out r" "\<not> u_rx_now r" "meta_step adm r = seek_target r"
  proof -
    have e: "meta_step adm r = meta_samples adm r" using st by (simp add: meta_step_def)
    show thesis
    proof (cases "m_invalidated r \<or> m_filtered_out r")
      case True
      then show thesis using withheld e by (simp add: meta_samples_def)
    next
      case False
      let ?b = "m_boundary_enabled r \<and> \<not> metadata_timestamp_at_or_after (m_curr_timestamp r) (m_min_timestamp r)"
      let ?p = "\<not> r_copied r \<and> \<not> u_rx_now r \<and> \<not> metadata_timestamp_at_or_after (r_target r) (m_curr_timestamp r)"
      let ?c = "u_rx_now r \<or> r_target r = m_curr_timestamp r"
      have m: "meta_step adm r = (if ?b then skip_to_boundary r else if ?p then r\<lparr>r_result := Err BLADERF_ERR_TIME_PAST\<rparr>
          else if ?c then copy_samples_step adm r else seek_target r)"
        unfolding e meta_samples_def using False by (simp only: if_False)
      show thesis
      proof (cases ?b)
        case True
        have "meta_step adm r = skip_to_boundary r" by (rule trans [OF m if_P [OF True]])
        then show thesis using boundary False True by blast
      next
        case nb: False
        show thesis
        proof (cases ?p)
          case True
          have "meta_step adm r = r\<lparr>r_result := Err BLADERF_ERR_TIME_PAST\<rparr>"
            by (rule trans [OF m trans [OF if_not_P [OF nb] if_P [OF True]]])
          then show thesis using past False by blast
        next
          case np: False
          show thesis
          proof (cases ?c)
            case True
            have "meta_step adm r = copy_samples_step adm r"
              by (rule trans [OF m trans [OF if_not_P [OF nb] trans [OF if_not_P [OF np] if_P [OF True]]]])
            moreover note copy_step_cases [of adm r]
            ultimately consider "meta_step adm r = copy_message ?n r"
              | x c where "x \<noteq> 0"
                  "meta_step adm r = r\<lparr>m_admission_reason := x, m_channel_filtered := c, m_filtered_out := True\<rparr>"
              by metis
            then show thesis using refused copy False True by cases blast+
          next
            case nc: False
            have "meta_step adm r = seek_target r"
              by (rule trans [OF m trans [OF if_not_P [OF nb] trans [OF if_not_P [OF np] if_not_P [OF nc]]]])
            then show thesis using nc seek False by blast
          qed
        qed
      qed
    qed
  qed
  then show ?thesis
  proof cases
    case withheld
    then show ?thesis using withheld_ok [OF assms(1,2)] withheld_at_target [OF assms(3,2) st] by simp
  next
    case boundary
    then show ?thesis
      using skip_to_boundary_ok [OF assms(1) st] assms(2,3) by (auto simp: skip_static at_target_def)
  next
    case past
    then show ?thesis using assms(1-3) by (simp add: result_frame) (simp add: at_target_def meta_running_def)
  next
    case refused
    then show ?thesis using assms(1-3) by (simp add: result_frame) (simp add: at_target_def st)
  next
    case copy
    have "r_target r = m_curr_timestamp r \<or> u_rx_now r \<and> \<not> r_copied r"
      using copy(2,3) assms(3,4) by (auto simp: at_target_def)
    note c = copy_ok [OF assms(1,2) st copy(2,1) this refl assms(4,5)]
    have "\<not> m_boundary_enabled r" if "u_rx_now r" using assms(3) that by (simp add: at_target_def)
    then show ?thesis using c copy(4) by simp
  next
    case seek
    then show ?thesis using seek_ok [OF assms(1,2) st] by simp
  qed
qed

lemma refill_ok:
  assumes "parser_ok r" "read_ok r" "u_rx_now r \<Longrightarrow> at_target r" "m_released r"
  shows "parser_ok (meta_next_buffer buf r) \<and> read_ok (meta_next_buffer buf r) \<and>
    (u_rx_now r \<longrightarrow> at_target (meta_next_buffer buf r))"
  using assms by (auto simp: parser_ok_def read_ok_def at_target_def meta_next_buffer_def meta_running_def)

section \<open>Concrete reads\<close>

definition message_at :: "u8 \<Rightarrow> u8 \<Rightarrow> u8 list" where
  \<comment> \<open>a message of four samples with a 16-byte header whose timestamp is \<open>t\<close>\<close>
  "message_at t v = [0, 0, 0, 0, t, 0, 0, 0, 0, 0, 0, 0, 0, 0, 0, 0] @ replicate 16 v"

definition two_messages :: "u8 \<Rightarrow> u8 \<Rightarrow> bool \<Rightarrow> u64 \<Rightarrow> meta_reader" where
  \<comment> \<open>a read of the live edge, eight samples, at the first message of a buffer of two\<close>
  "two_messages t1 t2 boundary first = \<lparr>m_state = SYNC_META_STATE_HEADER, m_msg_size = 32, m_msg_per_buf = 2,
     m_samples_per_msg = 4, m_samples_per_ts = 1, m_bytes_per_sample = 4, m_have_timestamp = False,
     m_curr_timestamp = 0, m_curr_msg = [], m_off = 0, m_num = 0, m_msg_timestamp = 0, m_msg_flags = 0,
     m_epoch_id = 0, m_epoch_valid = False, m_filtered_out = False, m_channel_filtered = False,
     m_admission_reason = 0, m_boundary_enabled = boundary, m_min_timestamp = first, m_filter_enabled = False,
     m_invalidated = False, m_expected_id = 0, m_buf = message_at t1 1 @ message_at t2 2, m_released = False,
     u_rx_now = True, u_nonblocking = False, u_num_samples = 8, u_timestamp = 0, u_status = 0, u_epoch = None,
     u_clipping = 0, r_target = 0, r_copied = False, r_returned = 0, r_out = [], r_exit_early = False,
     r_result = Ok (), w_reason = 0, w_timestamp = 0, w_epoch = 0, w_hook = False, w_published = False, chunks = []\<rparr>"

lemma message_headers:
  "metadata_get_timestamp (message_at t v @ rest) = ucast t" "metadata_get_flags (message_at t v @ rest) = 0"
  "header_tag (message_at t v @ rest) = 0"
  "metadata_get_timestamp (message_at t v) = ucast t" "metadata_get_flags (message_at t v) = 0"
  "header_tag (message_at t v) = 0" "length (message_at t v) = 32"
  by (simp_all add: message_at_def metadata_get_timestamp_def metadata_get_flags_def header_tag_def)

lemmas parse_simps = meta_step_def meta_samples_def copy_samples_step_def copy_message_def skip_to_boundary_def
  meta_header_def header_disposition_def metadata_rx_epoch_disposition_def load_header_def epoch_matches_def
  metadata_get_rx_epoch_id_def metadata_flags_to_sync_status_def metadata_get_rx_clipping_flags_def
  metadata_timestamp_at_or_after_def accept_header_def note_epoch_def sync_rx_note_withheld_def meta_steps
  METADATA_HEADER_SIZE_def

lemma funpow_4_5: "(f ^^ 4) x = f (f (f (f x)))" "(f ^^ 5) x = f (f (f (f (f x))))"
  by (simp_all add: eval_nat_numeral)

lemma read_two:
  "chunks ((meta_step None ^^ 4) (two_messages 100 104 False 0)) = [(100, 4), (104, 4)]"
  "meta_read None (two_messages 100 104 False 0) ((meta_step None ^^ 4) (two_messages 100 104 False 0))"
  unfolding funpow_4_5
  subgoal by (simp add: two_messages_def parse_simps message_headers)
  subgoal by (intro meta_read.parse meta_read.start)
      (simp_all add: two_messages_def parse_simps message_headers meta_running_def)
  done

lemma read_back:
  "chunks ((meta_step None ^^ 5) (two_messages 100 48 True 50)) = [(100, 4), (50, 2)]"
  "u_status ((meta_step None ^^ 5) (two_messages 100 48 True 50)) = 0"
  "r_result ((meta_step None ^^ 5) (two_messages 100 48 True 50)) = Ok ()"
  "meta_read None (two_messages 100 48 True 50) ((meta_step None ^^ 5) (two_messages 100 48 True 50))"
  unfolding funpow_4_5
  subgoal by (simp add: two_messages_def parse_simps message_headers)
  subgoal by (simp add: two_messages_def parse_simps message_headers)
  subgoal by (simp add: two_messages_def parse_simps message_headers)
  subgoal by (intro meta_read.parse meta_read.start)
      (simp_all add: two_messages_def parse_simps message_headers meta_running_def)
  done




text \<open>
  With an epoch boundary a read of the live edge is not contiguous when the timestamps jump back
  before the boundary: the header check takes the message for a prefix to skip, although samples were
  already copied, and the read goes on behind the boundary with success and no status bit.
\<close>

lemma live_read_jumps_back:
  "\<exists>r. meta_read None (two_messages 100 48 True 50) r \<and> chunks r = [(100, 4), (50, 2)] \<and>
     \<not> contiguous 1 (chunks r) \<and> u_status r = 0 \<and> r_result r = Ok ()"
  using read_back by (intro exI [of _ "(meta_step None ^^ 5) (two_messages 100 48 True 50)"]) simp

end
