(* ===== verification/Flash_Fields.thy ===== *)
theory Flash_Fields
  imports Bladerf_Prelude
begin

unbundle bit_operations_syntax

text \<open>
  Key-value fields of the flash: the checksum \<open>zcrc\<close> (\<^verbatim>\<open>firmware_common/misc.h\<close>), the binary fields of
  the calibration region, OTP and autoload metadata page (\<^verbatim>\<open>board/bladerf1/flash.c\<close>), the calibration
  region itself (\<^verbatim>\<open>board/bladerf1/image.c\<close>) and the number parser it is read with
  (\<^verbatim>\<open>host/common/src/conversions.c\<close>). Buffers are byte lists, C strings the bytes before the
  terminator; an access behind the end of a buffer is \<open>Undef\<close>. \<open>strtoul\<close> and \<open>%u\<close> are the C library's.
\<close>

section \<open>Strings and numbers\<close>

definition chars :: "string \<Rightarrow> u8 list" where
  "chars s = map of_char s"

fun print_u :: "nat \<Rightarrow> u8 list" where
  \<comment> \<open>\<^verbatim>\<open>printf("%u")\<close>\<close>
  "print_u n = (if n < 10 then [of_nat (48 + n)] else print_u (n div 10) @ [of_nat (48 + n mod 10)])"

declare print_u.simps [simp del]

definition is_space :: "u8 \<Rightarrow> bool" where
  "is_space c \<longleftrightarrow> c = 32 \<or> 9 \<le> c \<and> c \<le> 13"

definition digit_value :: "u8 \<Rightarrow> nat option" where
  "digit_value c =
     (if 48 \<le> c \<and> c \<le> 57 then Some (unat c - 48)
      else if 97 \<le> c \<and> c \<le> 122 then Some (unat c - 87)
      else if 65 \<le> c \<and> c \<le> 90 then Some (unat c - 55)
      else None)"

fun digits :: "nat \<Rightarrow> u8 list \<Rightarrow> nat list" where
  "digits base [] = []"
| "digits base (c # cs) =
     (case digit_value c of None \<Rightarrow> [] | Some d \<Rightarrow> if d < base then d # digits base cs else [])"

definition is_hex_digit :: "u8 list \<Rightarrow> bool" where
  "is_hex_digit cs \<longleftrightarrow> digits 16 (take 1 cs) \<noteq> []"

definition strtoul_digits :: "u8 list \<Rightarrow> nat \<times> nat list" where
  \<comment> \<open>base 0: hexadecimal after \<^verbatim>\<open>0x\<close>, octal after \<^verbatim>\<open>0\<close>, decimal otherwise\<close>
  "strtoul_digits cs =
     (if take 1 cs = [48] \<and> (take 1 (drop 1 cs) = [120] \<or> take 1 (drop 1 cs) = [88]) \<and> is_hex_digit (drop 2 cs)
      then (16, digits 16 (drop 2 cs))
      else if take 1 cs = [48] then (8, digits 8 cs)
      else (10, digits 10 cs))"

datatype strtoul_result = No_Conversion | Out_Of_Range | Number u64

definition strtoul :: "u8 list \<Rightarrow> strtoul_result" where
  "strtoul str =
     (let cs = dropWhile is_space str;
          neg = (take 1 cs = [45]);
          body = (if neg \<or> take 1 cs = [43] then drop 1 cs else cs);
          (base, ds) = strtoul_digits body;
          n = foldl (\<lambda>a d. a * base + d) 0 ds in
      if ds = [] then No_Conversion
      else if n \<ge> 2 ^ 64 then Out_Of_Range
      else Number (if neg then - of_nat n else of_nat n))"

definition str2uint :: "u8 list \<Rightarrow> u32 \<Rightarrow> u32 \<Rightarrow> u32 option" where
  \<comment> \<open>\<^verbatim>\<open>None\<close> when \<^verbatim>\<open>*ok\<close> is false; \<^verbatim>\<open>ret\<close> is an \<^verbatim>\<open>unsigned int\<close>\<close>
  "str2uint str lo hi =
     (case strtoul str of
        No_Conversion \<Rightarrow> None
      | Out_Of_Range \<Rightarrow> None
      | Number n \<Rightarrow> (let ret = ucast n in if lo \<le> ret \<and> ret \<le> hi then Some ret else None))"

section \<open>Checksum\<close>

definition zcrc_bit :: "u16 \<Rightarrow> u16" where
  "zcrc_bit r = (if r AND 0x8000 \<noteq> 0 then push_bit 1 r XOR 0x1021 else push_bit 1 r)"

definition zcrc_byte :: "u8 \<Rightarrow> u16 \<Rightarrow> u16" where
  "zcrc_byte b r = (zcrc_bit ^^ 8) (r XOR push_bit 8 (ucast b))"

definition zcrc :: "u8 list \<Rightarrow> u16" where
  "zcrc data = fold zcrc_byte data 0"

section \<open>Fields\<close>

definition read_le16 :: "u8 list \<Rightarrow> nat \<Rightarrow> u16" where
  "read_le16 p i = ucast (p ! i) OR push_bit 8 (ucast (p ! (i + 1)))"

definition store_le16 :: "u16 \<Rightarrow> u8 list" where
  "store_le16 w = [byte_of 0 w, byte_of 1 w]"

definition strncpy_at :: "u8 list \<Rightarrow> nat \<Rightarrow> nat \<Rightarrow> u8 list outcome" where
  \<comment> \<open>the string that \<^verbatim>\<open>strncpy\<close> leaves of \<open>n\<close> bytes at \<open>off\<close>; it stops at a terminator\<close>
  "strncpy_at p off n =
     (let src = take n (drop off p); s = takeWhile (\<lambda>c. c \<noteq> 0) src in
      if length src < n \<and> s = src then Undef else Ok s)"

definition strncmp_eq :: "u8 list \<Rightarrow> nat \<Rightarrow> u8 list \<Rightarrow> bool outcome" where
  \<comment> \<open>\<^verbatim>\<open>!strncmp(p + off, field, strlen(field))\<close>\<close>
  "strncmp_eq p off field =
     (let s = take (length field) (drop off p) in
      if length s < length field \<and> s = take (length s) field then Undef else Ok (s = field))"

function binkv_decode_at :: "u8 list \<Rightarrow> nat \<Rightarrow> nat \<Rightarrow> u8 list \<Rightarrow> nat \<Rightarrow> u8 list outcome" where
  "binkv_decode_at ptr len ub field maxlen =
     (if ub < len then
        if ub \<ge> length ptr then Undef
        else
          let c = unat (ptr ! ub) in
          if c = 0xff then Err BLADERF_ERR_INVAL
          else if ub + c + 2 \<ge> length ptr then Undef
          else if read_le16 ptr (ub + c + 1) \<noteq> zcrc (take (c + 1) (drop ub ptr)) then Err BLADERF_ERR_INVAL
          else
            (case strncmp_eq ptr (ub + 1) field of
               Ok True \<Rightarrow>
                 strncpy_at ptr (ub + 1 + length field)
                   (if length field \<le> c then min (c - length field) maxlen else maxlen)
             | Ok False \<Rightarrow> binkv_decode_at ptr len (ub + c + 3) field maxlen
             | Err e \<Rightarrow> Err e
             | Undef \<Rightarrow> Undef)
      else Err BLADERF_ERR_INVAL)"
  by pat_completeness auto
termination by (relation "measure (\<lambda>(ptr, len, ub, field, maxlen). len - ub)") auto

declare binkv_decode_at.simps [simp del]

definition binkv_decode_field :: "u8 list \<Rightarrow> nat \<Rightarrow> u8 list \<Rightarrow> nat \<Rightarrow> u8 list outcome" where
  "binkv_decode_field ptr len field maxlen = binkv_decode_at ptr len 0 field maxlen"

definition binkv_encode_field :: "u8 list \<Rightarrow> nat \<Rightarrow> nat \<Rightarrow> u8 list \<Rightarrow> u8 list \<Rightarrow> (u8 list \<times> nat) outcome" where
  "binkv_encode_field ptr len idx field val =
     (let flen = length field; vlen = length val; tlen = flen + vlen + 1 in
      if tlen \<ge> 256 \<or> idx + tlen \<ge> len then Err BLADERF_ERR_MEM
      else if idx + tlen + 2 > length ptr then Undef
      else
        let entry = of_nat (flen + vlen) # field @ val in
        Ok (take idx ptr @ entry @ store_le16 (zcrc entry) @ drop (idx + tlen + 2) ptr, idx + tlen + 2))"

function binkv_end :: "u8 list \<Rightarrow> nat \<Rightarrow> nat \<Rightarrow> nat outcome" where
  \<comment> \<open>the loop of \<^verbatim>\<open>binkv_add_field\<close>: the first free byte\<close>
  "binkv_end buf buf_len i =
     (if i < buf_len then
        if i \<ge> length buf then Undef
        else if buf ! i = 0xff then Ok i
        else binkv_end buf buf_len (i + unat (buf ! i) + 3)
      else Ok i)"
  by pat_completeness auto
termination by (relation "measure (\<lambda>(buf, buf_len, i). buf_len - i)") auto

declare binkv_end.simps [simp del]

definition binkv_add_field :: "u8 list \<Rightarrow> nat \<Rightarrow> u8 list \<Rightarrow> u8 list \<Rightarrow> u8 list outcome" where
  "binkv_add_field buf buf_len field_name val =
     (case binkv_end buf buf_len 0 of
        Ok i \<Rightarrow>
          (case binkv_encode_field (drop i buf) (buf_len - i) 0 field_name val of
             Ok (rest, _) \<Rightarrow> Ok (take i buf @ rest)
           | Err e \<Rightarrow> Err e
           | Undef \<Rightarrow> Undef)
      | Err e \<Rightarrow> Err e
      | Undef \<Rightarrow> Undef)"

section \<open>Calibration region\<close>

datatype bladerf_fpga_size = BLADERF_FPGA_UNKNOWN | BLADERF_FPGA_40KLE | BLADERF_FPGA_115KLE
  | BLADERF_FPGA_A4 | BLADERF_FPGA_A5 | BLADERF_FPGA_A9

definition CAL_BUFFER_SIZE :: nat where "CAL_BUFFER_SIZE = 256"
definition OTP_BUFFER_SIZE :: nat where "OTP_BUFFER_SIZE = 256"
definition BLADERF_SERIAL_LENGTH :: nat where "BLADERF_SERIAL_LENGTH = 33"

definition fpga_size_name :: "bladerf_fpga_size \<Rightarrow> string outcome" where
  "fpga_size_name sz =
     (case sz of
        BLADERF_FPGA_40KLE \<Rightarrow> Ok ''40''
      | BLADERF_FPGA_115KLE \<Rightarrow> Ok ''115''
      | BLADERF_FPGA_A4 \<Rightarrow> Ok ''A4''
      | BLADERF_FPGA_A5 \<Rightarrow> Ok ''A5''
      | BLADERF_FPGA_A9 \<Rightarrow> Ok ''A9''
      | BLADERF_FPGA_UNKNOWN \<Rightarrow> Undef)"

definition make_cal_region :: "bladerf_fpga_size \<Rightarrow> u16 \<Rightarrow> nat \<Rightarrow> u8 list outcome" where
  "make_cal_region sz vctcxo_trim len =
     (case fpga_size_name sz of
        Ok name \<Rightarrow>
          (case binkv_add_field (replicate len 0xff) len (chars ''B'') (chars name) of
             Ok buf \<Rightarrow> binkv_add_field buf len (chars ''DAC'') (print_u (unat vctcxo_trim))
           | Err e \<Rightarrow> Err e
           | Undef \<Rightarrow> Undef)
      | Err e \<Rightarrow> Err e
      | Undef \<Rightarrow> Undef)"

text \<open>The device's calibration and OTP pages are read by the backend, a parameter.\<close>

definition spi_flash_read_otp :: "u8 list outcome \<Rightarrow> u8 list \<Rightarrow> nat \<Rightarrow> u8 list outcome" where
  "spi_flash_read_otp get_otp field data_size =
     (case get_otp of
        Ok otp \<Rightarrow> binkv_decode_field otp OTP_BUFFER_SIZE field data_size
      | Err e \<Rightarrow> Err e
      | Undef \<Rightarrow> Undef)"

definition spi_flash_read_cal :: "u8 list outcome \<Rightarrow> u8 list \<Rightarrow> nat \<Rightarrow> u8 list outcome" where
  "spi_flash_read_cal get_cal field data_size =
     (case get_cal of
        Ok cal \<Rightarrow> binkv_decode_field cal CAL_BUFFER_SIZE field data_size
      | Err e \<Rightarrow> Err e
      | Undef \<Rightarrow> Undef)"

definition spi_flash_read_serial :: "u8 list outcome \<Rightarrow> u8 list \<Rightarrow> u8 list \<Rightarrow> (u8 list \<times> u8 list) outcome" where
  \<comment> \<open>the caller's buffer and \<^verbatim>\<open>dev->ident.serial\<close>; a failure defaults the latter\<close>
  "spi_flash_read_serial get_otp serial_buf ident_serial =
     (case spi_flash_read_otp get_otp (chars ''S'') (BLADERF_SERIAL_LENGTH - 1) of
        Ok s \<Rightarrow> Ok (s, ident_serial)
      | Err _ \<Rightarrow> Ok (takeWhile (\<lambda>c. c \<noteq> 0) (take (BLADERF_SERIAL_LENGTH - 1) serial_buf),
                     replicate (BLADERF_SERIAL_LENGTH - 1) 48)
      | Undef \<Rightarrow> Undef)"

definition spi_flash_read_vctcxo_trim :: "u8 list outcome \<Rightarrow> u16 outcome" where
  "spi_flash_read_vctcxo_trim get_cal =
     (case spi_flash_read_cal get_cal (chars ''DAC'') 6 of
        Ok tmp \<Rightarrow> (case str2uint tmp 0 0xffff of None \<Rightarrow> Err BLADERF_ERR_INVAL | Some trim \<Rightarrow> Ok (ucast trim))
      | Err e \<Rightarrow> Err e
      | Undef \<Rightarrow> Undef)"

definition spi_flash_read_fpga_size :: "u8 list outcome \<Rightarrow> bladerf_fpga_size outcome" where
  "spi_flash_read_fpga_size get_cal =
     (case spi_flash_read_cal get_cal (chars ''B'') 6 of
        Ok tmp \<Rightarrow>
          Ok (if tmp = chars ''40'' then BLADERF_FPGA_40KLE
              else if tmp = chars ''115'' then BLADERF_FPGA_115KLE
              else if tmp = chars ''A4'' then BLADERF_FPGA_A4
              else if tmp = chars ''A5'' then BLADERF_FPGA_A5
              else if tmp = chars ''A9'' then BLADERF_FPGA_A9
              else BLADERF_FPGA_UNKNOWN)
      | Err e \<Rightarrow> Err e
      | Undef \<Rightarrow> Undef)"

end
