(* ===== verification/Sha256.thy ===== *)
theory Sha256
  imports Bladerf_Prelude
begin

unbundle bit_operations_syntax

text \<open>
  The hash of image files (\<^verbatim>\<open>host/common/src/sha256.c\<close>, little-endian build): the compression function
  with its rotating working state, the buffered \<open>SHA256_Update\<close>, padding and the digest, and
  \<^verbatim>\<open>sha256_buffer\<close> of \<^verbatim>\<open>image.c\<close>. The reference it is compared with is the definition of the FIPS 180-4
  standard: textbook round function, padding and a fold over the blocks of the padded message.
\<close>

section \<open>Big-endian vectors\<close>

definition be32dec :: "u8 list \<Rightarrow> u32" where
  "be32dec p = push_bit 24 (ucast (p ! 0)) OR push_bit 16 (ucast (p ! 1)) OR push_bit 8 (ucast (p ! 2)) OR
     ucast (p ! 3)"

definition be32enc :: "u32 \<Rightarrow> u8 list" where
  "be32enc u = [ucast (drop_bit 24 u AND 0xff), ucast (drop_bit 16 u AND 0xff), ucast (drop_bit 8 u AND 0xff),
     ucast (u AND 0xff)]"

definition be32enc_vect :: "u32 list \<Rightarrow> nat \<Rightarrow> u8 list" where
  "be32enc_vect src len = concat (map (\<lambda>i. be32enc (src ! i)) [0..<len div 4])"

definition be32dec_vect :: "u8 list \<Rightarrow> nat \<Rightarrow> u32 list" where
  "be32dec_vect src len = map (\<lambda>i. be32dec (drop (i * 4) src)) [0..<len div 4]"

section \<open>Elementary functions\<close>

definition Ch :: "u32 \<Rightarrow> u32 \<Rightarrow> u32 \<Rightarrow> u32" where "Ch x y z = (x AND (y XOR z)) XOR z"
definition Maj :: "u32 \<Rightarrow> u32 \<Rightarrow> u32 \<Rightarrow> u32" where "Maj x y z = (x AND (y OR z)) OR (y AND z)"
definition SHR :: "u32 \<Rightarrow> nat \<Rightarrow> u32" where "SHR x n = drop_bit n x"
definition ROTR :: "u32 \<Rightarrow> nat \<Rightarrow> u32" where "ROTR x n = drop_bit n x OR push_bit (32 - n) x"
definition S0 :: "u32 \<Rightarrow> u32" where "S0 x = ROTR x 2 XOR ROTR x 13 XOR ROTR x 22"
definition S1 :: "u32 \<Rightarrow> u32" where "S1 x = ROTR x 6 XOR ROTR x 11 XOR ROTR x 25"
definition s0 :: "u32 \<Rightarrow> u32" where "s0 x = ROTR x 7 XOR ROTR x 18 XOR SHR x 3"
definition s1 :: "u32 \<Rightarrow> u32" where "s1 x = ROTR x 17 XOR ROTR x 19 XOR SHR x 10"

definition RNDr :: "u32 list \<Rightarrow> u32 list \<Rightarrow> nat \<Rightarrow> u32 \<Rightarrow> u32 list" where
  "RNDr S W i k =
     (let a = S ! ((64 - i) mod 8); b = S ! ((65 - i) mod 8); c = S ! ((66 - i) mod 8);
          d = S ! ((67 - i) mod 8); e = S ! ((68 - i) mod 8); f = S ! ((69 - i) mod 8);
          g = S ! ((70 - i) mod 8); h = S ! ((71 - i) mod 8);
          t0 = h + S1 e + Ch e f g + (W ! i + k);
          t1 = S0 a + Maj a b c in
      S[(67 - i) mod 8 := d + t0, (71 - i) mod 8 := t0 + t1])"

definition round_constants :: "u32 list" where
  "round_constants =
    [0x428a2f98, 0x71374491, 0xb5c0fbcf, 0xe9b5dba5, 0x3956c25b, 0x59f111f1, 0x923f82a4, 0xab1c5ed5,
     0xd807aa98, 0x12835b01, 0x243185be, 0x550c7dc3, 0x72be5d74, 0x80deb1fe, 0x9bdc06a7, 0xc19bf174,
     0xe49b69c1, 0xefbe4786, 0x0fc19dc6, 0x240ca1cc, 0x2de92c6f, 0x4a7484aa, 0x5cb0a9dc, 0x76f988da,
     0x983e5152, 0xa831c66d, 0xb00327c8, 0xbf597fc7, 0xc6e00bf3, 0xd5a79147, 0x06ca6351, 0x14292967,
     0x27b70a85, 0x2e1b2138, 0x4d2c6dfc, 0x53380d13, 0x650a7354, 0x766a0abb, 0x81c2c92e, 0x92722c85,
     0xa2bfe8a1, 0xa81a664b, 0xc24b8b70, 0xc76c51a3, 0xd192e819, 0xd6990624, 0xf40e3585, 0x106aa070,
     0x19a4c116, 0x1e376c08, 0x2748774c, 0x34b0bcb5, 0x391c0cb3, 0x4ed8aa4a, 0x5b9cca4f, 0x682e6ff3,
     0x748f82ee, 0x78a5636f, 0x84c87814, 0x8cc70208, 0x90befffa, 0xa4506ceb, 0xbef9a3f7, 0xc67178f2]"

section \<open>Context and operations\<close>

record SHA256_CTX =
  sha_state :: "u32 list"
  sha_count :: "u32 \<times> u32"
  sha_buf :: "u8 list"

definition extend_schedule :: "nat \<Rightarrow> u32 list \<Rightarrow> u32 list" where
  "extend_schedule i W = W[i := s1 (W ! (i - 2)) + W ! (i - 7) + s0 (W ! (i - 15)) + W ! (i - 16)]"

definition SHA256_Transform :: "u32 list \<Rightarrow> u8 list \<Rightarrow> u32 list" where
  "SHA256_Transform state block =
     (let W = fold extend_schedule [16..<64] (be32dec_vect block 64 @ replicate 48 0);
          S = fold (\<lambda>i S. RNDr S W i (round_constants ! i)) [0..<64] state in
      map (\<lambda>i. state ! i + S ! i) [0..<8])"

definition SHA256_Init :: "SHA256_CTX \<Rightarrow> SHA256_CTX" where
  "SHA256_Init ctx = ctx\<lparr>sha_count := (0, 0), sha_state :=
     [0x6A09E667, 0xBB67AE85, 0x3C6EF372, 0xA54FF53A, 0x510E527F, 0x9B05688C, 0x1F83D9AB, 0x5BE0CD19]\<rparr>"

fun transform_blocks :: "u32 list \<Rightarrow> u8 list \<Rightarrow> u32 list \<times> u8 list" where
  \<comment> \<open>the loop over complete blocks: the state and the bytes left over\<close>
  "transform_blocks state src =
     (if length src \<ge> 64 then transform_blocks (SHA256_Transform state src) (drop 64 src) else (state, src))"

declare transform_blocks.simps [simp del]

definition overwrite :: "u8 list \<Rightarrow> nat \<Rightarrow> u8 list \<Rightarrow> u8 list" where
  \<comment> \<open>\<^verbatim>\<open>memcpy(&dst[off], src, length src)\<close>\<close>
  "overwrite dst off src = take off dst @ src @ drop (off + length src) dst"

definition SHA256_Update :: "u8 list \<Rightarrow> SHA256_CTX \<Rightarrow> SHA256_CTX" where
  "SHA256_Update src ctx =
     (let r = unat (drop_bit 3 (snd (sha_count ctx)) AND 0x3f);
          len = length src;
          bitlen1 = push_bit 3 (of_nat len) :: u32;
          bitlen0 = of_nat (len div 2 ^ 29) :: u32;
          count1 = snd (sha_count ctx) + bitlen1;
          count0 = (if count1 < bitlen1 then fst (sha_count ctx) + 1 else fst (sha_count ctx)) + bitlen0;
          c1 = ctx\<lparr>sha_count := (count0, count1)\<rparr> in
      if len < 64 - r then c1\<lparr>sha_buf := overwrite (sha_buf ctx) r src\<rparr>
      else
        let buf = overwrite (sha_buf ctx) r (take (64 - r) src);
            (state, rest) = transform_blocks (SHA256_Transform (sha_state ctx) buf) (drop (64 - r) src) in
        c1\<lparr>sha_state := state, sha_buf := overwrite buf 0 rest\<rparr>)"

definition PAD :: "u8 list" where "PAD = 0x80 # replicate 63 0"

definition SHA256_Pad :: "SHA256_CTX \<Rightarrow> SHA256_CTX" where
  "SHA256_Pad ctx =
     (let len = be32enc_vect [fst (sha_count ctx), snd (sha_count ctx)] 8;
          r = drop_bit 3 (snd (sha_count ctx)) AND 0x3f;
          plen = (if r < 56 then 56 - r else 120 - r) in
      SHA256_Update len (SHA256_Update (take (unat plen) PAD) ctx))"

definition SHA256_Final :: "SHA256_CTX \<Rightarrow> u8 list \<times> SHA256_CTX" where
  "SHA256_Final ctx =
     (be32enc_vect (sha_state (SHA256_Pad ctx)) 32,
      \<lparr>sha_state = replicate 8 0, sha_count = (0, 0), sha_buf = replicate 64 0\<rparr>)"

definition sha256_buffer :: "SHA256_CTX \<Rightarrow> u8 list \<Rightarrow> u8 list" where
  \<comment> \<open>the context is a local of the C function, with unspecified initial contents\<close>
  "sha256_buffer ctx buf = fst (SHA256_Final (SHA256_Update buf (SHA256_Init ctx)))"

end
