(* ===== verification/Flash_Image.thy ===== *)
theory Flash_Image
  imports Flash_Fields Sha256
begin

unbundle bit_operations_syntax

text \<open>
  Image files (\<^verbatim>\<open>board/bladerf1/image.c\<close>): packing with a SHA-256 checksum over the image, unpacking
  and its checks, and the public functions that allocate, write and read images. The file itself is
  a parameter: \<open>bladerf_image_write\<close> takes the function that writes the bytes and \<open>bladerf_image_read\<close>
  the result of reading them. Failing allocations are not modelled.
\<close>

definition BLADERF_IMAGE_MAGIC_LEN :: nat where "BLADERF_IMAGE_MAGIC_LEN = 7"
definition BLADERF_IMAGE_CHECKSUM_LEN :: nat where "BLADERF_IMAGE_CHECKSUM_LEN = 32"
definition BLADERF_IMAGE_RESERVED_LEN :: nat where "BLADERF_IMAGE_RESERVED_LEN = 128"
definition SHA256_DIGEST_SIZE :: nat where "SHA256_DIGEST_SIZE = 32"
definition BLADERF_FLASH_ADDR_CAL :: u32 where "BLADERF_FLASH_ADDR_CAL = 0x30000"
definition BLADERF_FLASH_BYTE_LEN_CAL :: u32 where "BLADERF_FLASH_BYTE_LEN_CAL = 0x100"

text \<open>\<open>bladerf_image_type\<close> is serialized as a number; any number may be read from a file.\<close>

type_synonym bladerf_image_type = u32

definition BLADERF_IMAGE_TYPE_RAW :: bladerf_image_type where "BLADERF_IMAGE_TYPE_RAW = 0"
definition BLADERF_IMAGE_TYPE_CALIBRATION :: bladerf_image_type where "BLADERF_IMAGE_TYPE_CALIBRATION = 6"
definition BLADERF_IMAGE_TYPE_GAIN_CAL :: bladerf_image_type where "BLADERF_IMAGE_TYPE_GAIN_CAL = 12"

record bladerf_version =
  v_major :: u16
  v_minor :: u16
  v_patch :: u16

record bladerf_image =
  img_magic :: "u8 list"
  img_checksum :: "u8 list"
  img_version :: bladerf_version
  img_timestamp :: u64
  img_serial :: "u8 list"
  img_reserved :: "u8 list"
  img_type :: bladerf_image_type
  img_address :: u32
  img_length :: u32
  img_data :: "u8 list"

definition image_magic :: "u8 list" where "image_magic = chars ''bladeRF''"

definition CALC_IMAGE_SIZE :: "nat \<Rightarrow> nat" where
  "CALC_IMAGE_SIZE len = BLADERF_IMAGE_MAGIC_LEN + BLADERF_IMAGE_CHECKSUM_LEN + 3 * 2 + 8 +
     BLADERF_SERIAL_LENGTH + BLADERF_IMAGE_RESERVED_LEN + 3 * 4 + len"

definition image_type_is_valid :: "bladerf_image_type \<Rightarrow> bool" where
  \<comment> \<open>the switch lists all enumerators from \<^verbatim>\<open>RAW\<close> to \<^verbatim>\<open>GAIN_CAL\<close>\<close>
  "image_type_is_valid t \<longleftrightarrow> BLADERF_IMAGE_TYPE_RAW \<le> t \<and> t \<le> BLADERF_IMAGE_TYPE_GAIN_CAL"

section \<open>Byte order\<close>

definition be16 :: "u16 \<Rightarrow> u8 list" where "be16 w = [byte_of 1 w, byte_of 0 w]"
definition be32 :: "u32 \<Rightarrow> u8 list" where "be32 w = map (\<lambda>i. byte_of i w) [3, 2, 1, 0]"
definition be64 :: "u64 \<Rightarrow> u8 list" where "be64 w = map (\<lambda>i. byte_of i w) [7, 6, 5, 4, 3, 2, 1, 0]"

definition get_be16 :: "u8 list \<Rightarrow> nat \<Rightarrow> u16" where
  "get_be16 b i = ucast (b ! (i + 1)) OR push_bit 8 (ucast (b ! i))"

definition get_be32 :: "u8 list \<Rightarrow> nat \<Rightarrow> u32" where
  "get_be32 b i = ucast (b ! (i + 3)) OR push_bit 8 (ucast (b ! (i + 2))) OR push_bit 16 (ucast (b ! (i + 1))) OR
     push_bit 24 (ucast (b ! i))"

definition get_be64 :: "u8 list \<Rightarrow> nat \<Rightarrow> u64" where
  "get_be64 b i = ucast (b ! (i + 7)) OR push_bit 8 (ucast (b ! (i + 6))) OR push_bit 16 (ucast (b ! (i + 5))) OR
     push_bit 24 (ucast (b ! (i + 4))) OR push_bit 32 (ucast (b ! (i + 3))) OR push_bit 40 (ucast (b ! (i + 2))) OR
     push_bit 48 (ucast (b ! (i + 1))) OR push_bit 56 (ucast (b ! i))"

section \<open>Serialization\<close>

definition image_header :: "bladerf_image \<Rightarrow> u8 list" where
  \<comment> \<open>the fields between the checksum and the data\<close>
  "image_header img =
     be16 (v_major (img_version img)) @ be16 (v_minor (img_version img)) @ be16 (v_patch (img_version img)) @
     be64 (img_timestamp img) @ take BLADERF_SERIAL_LENGTH (img_serial img) @
     replicate BLADERF_IMAGE_RESERVED_LEN 0 @ be32 (img_type img) @ be32 (img_address img) @ be32 (img_length img)"

definition pack_image :: "SHA256_CTX \<Rightarrow> bladerf_image \<Rightarrow> u8 list outcome" where
  "pack_image ctx img =
     (if length (img_data img) < unat (img_length img) then Undef
      else
        let magic = take BLADERF_IMAGE_MAGIC_LEN (img_magic img);
            rest = image_header img @ take (unat (img_length img)) (img_data img);
            buf = magic @ replicate BLADERF_IMAGE_CHECKSUM_LEN 0 @ rest in
        Ok (magic @ sha256_buffer ctx buf @ rest))"

definition verify_checksum :: "SHA256_CTX \<Rightarrow> u8 list \<Rightarrow> unit outcome" where
  "verify_checksum ctx buf =
     (if length buf \<le> CALC_IMAGE_SIZE 0 then Err BLADERF_ERR_INVAL
      else
        let checksum_expected = take SHA256_DIGEST_SIZE (drop BLADERF_IMAGE_MAGIC_LEN buf);
            cleared = take BLADERF_IMAGE_MAGIC_LEN buf @ replicate SHA256_DIGEST_SIZE 0 @
              drop (BLADERF_IMAGE_MAGIC_LEN + SHA256_DIGEST_SIZE) buf in
        if checksum_expected \<noteq> sha256_buffer ctx cleared then Err BLADERF_ERR_CHECKSUM else Ok ())"

definition unpack_image :: "u8 list \<Rightarrow> bladerf_image outcome" where
  "unpack_image buf =
     (if length buf < CALC_IMAGE_SIZE 0 then Err BLADERF_ERR_INVAL
      else if take BLADERF_IMAGE_MAGIC_LEN buf \<noteq> image_magic then Err BLADERF_ERR_INVAL
      else if \<not> image_type_is_valid (get_be32 buf 214) then Err BLADERF_ERR_INVAL
      else
        let len = get_be32 buf 222 in
        if length buf \<noteq> CALC_IMAGE_SIZE (unat len) then Err BLADERF_ERR_INVAL
        else Ok \<lparr>img_magic = take BLADERF_IMAGE_MAGIC_LEN buf @ [0],
          img_checksum = take BLADERF_IMAGE_CHECKSUM_LEN (drop 7 buf),
          img_version = \<lparr>v_major = get_be16 buf 39, v_minor = get_be16 buf 41, v_patch = get_be16 buf 43\<rparr>,
          img_timestamp = get_be64 buf 45,
          img_serial = take BLADERF_SERIAL_LENGTH (drop 53 buf) @ [0],
          img_reserved = take BLADERF_IMAGE_RESERVED_LEN (drop 86 buf),
          img_type = get_be32 buf 214, img_address = get_be32 buf 218, img_length = len,
          img_data = take (unat len) (drop 226 buf)\<rparr>)"

section \<open>Public functions\<close>

datatype flash_status = STATUS_FLASH_UNINITIALIZED | STATUS_SUCCESS | STATUS_ASSUMED

record bladerf_flash_arch =
  arch_status :: flash_status
  manufacturer_id :: u8
  device_id :: u8
  tsize_bytes :: u32
  psize_bytes :: u32
  ebsize_bytes :: u32
  num_pages :: u32
  num_ebs :: u32

definition bladerf_image_write ::
    "bladerf_flash_arch \<Rightarrow> SHA256_CTX \<Rightarrow> (u8 list \<Rightarrow> unit outcome) \<Rightarrow> bladerf_image \<Rightarrow> unit outcome" where
  "bladerf_image_write arch ctx write_file img =
     (if take BLADERF_IMAGE_MAGIC_LEN (img_magic img) \<noteq> image_magic then Err BLADERF_ERR_INVAL
      else if \<not> image_type_is_valid (img_type img) then Err BLADERF_ERR_INVAL
      else if img_type img = BLADERF_IMAGE_TYPE_RAW \<and> img_address img \<noteq> 0xffffffff \<and>
              (img_address img mod ebsize_bytes arch \<noteq> 0 \<or> img_length img mod ebsize_bytes arch \<noteq> 0)
      then Err BLADERF_ERR_INVAL
      else (case pack_image ctx img of
              Ok buf \<Rightarrow> write_file buf
            | Err e \<Rightarrow> Err e
            | Undef \<Rightarrow> Undef))"

definition bladerf_image_read :: "SHA256_CTX \<Rightarrow> u8 list outcome \<Rightarrow> bladerf_image outcome" where
  "bladerf_image_read ctx file =
     (case file of
        Ok buf \<Rightarrow>
          (case verify_checksum ctx buf of
             Ok _ \<Rightarrow> unpack_image buf
           | Err e \<Rightarrow> Err e
           | Undef \<Rightarrow> Undef)
      | Err e \<Rightarrow> Err e
      | Undef \<Rightarrow> Undef)"

definition is_page_aligned :: "bladerf_flash_arch \<Rightarrow> u32 \<Rightarrow> bool" where
  "is_page_aligned arch val \<longleftrightarrow> val mod psize_bytes arch = 0"

definition is_valid_addr_len :: "bladerf_flash_arch \<Rightarrow> u32 \<Rightarrow> u32 \<Rightarrow> bool" where
  "is_valid_addr_len arch addr len \<longleftrightarrow>
     addr < tsize_bytes arch \<and> len \<le> tsize_bytes arch \<and> addr + len \<le> tsize_bytes arch"

definition bladerf_alloc_image :: "bladerf_flash_arch \<Rightarrow> u64 \<Rightarrow> bladerf_image_type \<Rightarrow> u32 \<Rightarrow> u32 \<Rightarrow> bladerf_image option" where
  \<comment> \<open>\<open>now\<close> is the time of day that \<^verbatim>\<open>get_timestamp\<close> returns\<close>
  "bladerf_alloc_image arch now type address len =
     (if address \<noteq> 0xffffffff \<and>
         (\<not> is_page_aligned arch address \<or> \<not> is_page_aligned arch len \<or>
          \<not> is_valid_addr_len arch address len)
      then None
      else Some \<lparr>img_magic = image_magic @ [0], img_checksum = replicate BLADERF_IMAGE_CHECKSUM_LEN 0,
        img_version = \<lparr>v_major = 0, v_minor = 1, v_patch = 0\<rparr>, img_timestamp = now,
        img_serial = replicate (BLADERF_SERIAL_LENGTH + 1) 0, img_reserved = replicate BLADERF_IMAGE_RESERVED_LEN 0,
        img_type = type, img_address = address, img_length = len,
        img_data = replicate (unat len) 0\<rparr>)"

definition bladerf_alloc_cal_image :: "bladerf_flash_arch \<Rightarrow> u64 \<Rightarrow> bladerf_fpga_size \<Rightarrow> u16 \<Rightarrow> bladerf_image option outcome" where
  "bladerf_alloc_cal_image arch now fpga_size vctcxo_trim =
     (case bladerf_alloc_image arch now BLADERF_IMAGE_TYPE_CALIBRATION BLADERF_FLASH_ADDR_CAL BLADERF_FLASH_BYTE_LEN_CAL of
        None \<Rightarrow> Ok None
      | Some im \<Rightarrow>
          (case make_cal_region fpga_size vctcxo_trim (unat (img_length im)) of
             Ok region \<Rightarrow> Ok (Some (im\<lparr>img_data := region\<rparr>))
           | Err _ \<Rightarrow> Ok None
           | Undef \<Rightarrow> Undef))"

end
