(* ===== verification/Flash_Pages.thy ===== *)
theory Flash_Pages
  imports Flash_Fields
begin

unbundle bit_operations_syntax

text \<open>
  Pages of key-value fields: an encoded page is the concatenation of its fields, decoding walks over
  the fields that do not match, numbers survive printing and parsing, and the calibration region
  gives back the FPGA size and the trim value it was made of.
\<close>

section \<open>Encoded fields\<close>

definition field_bytes :: "u8 list \<times> u8 list \<Rightarrow> u8 list" where
  "field_bytes kv = (let entry = of_nat (length (fst kv) + length (snd kv)) # fst kv @ snd kv in
     entry @ store_le16 (zcrc entry))"

definition fits_field :: "u8 list \<times> u8 list \<Rightarrow> bool" where
  "fits_field kv \<longleftrightarrow> length (fst kv) + length (snd kv) < 255"

definition told_apart :: "u8 list \<Rightarrow> u8 list \<times> u8 list \<Rightarrow> bool" where
  \<comment> \<open>the stored bytes differ from the wanted key before either ends\<close>
  "told_apart field kv \<longleftrightarrow> (\<exists>j. j < length field \<and> j < length (fst kv @ snd kv) \<and> field ! j \<noteq> (fst kv @ snd kv) ! j)"

lemma length_field_bytes: "length (field_bytes kv) = length (fst kv) + length (snd kv) + 3"
  by (simp add: field_bytes_def Let_def store_le16_def)

lemma field_bytes_nth0: "field_bytes kv ! 0 = of_nat (length (fst kv) + length (snd kv))"
  by (simp add: field_bytes_def Let_def)

lemma read_le16_store: "read_le16 (pre @ store_le16 w @ post) (length pre) = w"
  using le16_bytes [of w] by (simp add: read_le16_def store_le16_def nth_append)

lemma unat_small: "n < 255 \<Longrightarrow> unat (of_nat n :: u8) = n"
  by (simp add: unat_of_nat)

lemma decode_checks:
  fixes pre post :: "u8 list"
  assumes "fits_field kv"
  defines "p \<equiv> pre @ field_bytes kv @ post" and "c \<equiv> length (fst kv) + length (snd kv)"
  shows "unat (p ! length pre) = c" "length pre + c + 2 < length p"
    "read_le16 p (length pre + c + 1) = zcrc (take (c + 1) (drop (length pre) p))"
proof -
  let ?e = "of_nat c # fst kv @ snd kv :: u8 list"
  have p: "p = pre @ ?e @ store_le16 (zcrc ?e) @ post"
    by (simp add: p_def c_def field_bytes_def Let_def)
  have e: "length ?e = c + 1" by (simp add: c_def)
  have "unat (of_nat c :: u8) = c" using assms(1) unfolding c_def fits_field_def by (rule unat_small)
  then show "unat (p ! length pre) = c" unfolding p by (simp add: nth_append)
  show "length pre + c + 2 < length p" unfolding p by (simp add: c_def store_le16_def)
  have "take (c + 1) (drop (length pre) p) = ?e" unfolding p by (simp add: c_def)
  moreover have "read_le16 p (length pre + c + 1) = zcrc ?e"
    using read_le16_store [of "pre @ ?e" "zcrc ?e" post] unfolding p by (simp add: c_def)
  ultimately show "read_le16 p (length pre + c + 1) = zcrc (take (c + 1) (drop (length pre) p))" by simp
qed

lemma decode_skips:
  assumes "fits_field kv" "told_apart field kv" "length pre < len"
  shows "binkv_decode_at (pre @ field_bytes kv @ post) len (length pre) field maxlen =
    binkv_decode_at (pre @ field_bytes kv @ post) len (length pre + length (field_bytes kv)) field maxlen"
proof -
  let ?p = "pre @ field_bytes kv @ post" and ?c = "length (fst kv) + length (snd kv)"
  note ck = decode_checks [OF assms(1), of pre post]
  obtain j where j: "j < length field" "j < ?c" "field ! j \<noteq> (fst kv @ snd kv) ! j"
    using assms(2) by (auto simp: told_apart_def)
  have at: "drop (length pre + 1) ?p = (fst kv @ snd kv) @ store_le16 (zcrc (of_nat ?c # fst kv @ snd kv)) @ post"
    by (simp add: field_bytes_def Let_def)
  let ?s = "take (length field) (drop (length pre + 1) ?p)"
  have prefix: "take (length field) (x @ y) ! j = x ! j" "j < length (take (length field) (x @ y))"
    if "j < length x" for x y :: "u8 list"
    using that j(1) by (simp_all add: nth_append)
  have "?s ! j = (fst kv @ snd kv) ! j" "j < length ?s"
    unfolding at by (rule prefix, use j(2) in simp)+
  then have "?s \<noteq> field" "?s \<noteq> take (length ?s) field" using j by (metis nth_take)+
  then have "strncmp_eq ?p (length pre + 1) field = Ok False" by (simp add: strncmp_eq_def Let_def)
  moreover have "?c \<noteq> 255" "length pre < length ?p" using assms(1) by (simp_all add: fits_field_def length_field_bytes)
  ultimately show ?thesis
    using assms(3) ck by (subst binkv_decode_at.simps) (simp add: Let_def length_field_bytes add.assoc)
qed

lemma decode_finds:
  assumes "fits_field (field, val)" "length pre < len" "length val \<le> maxlen" "0 \<notin> set val"
  shows "binkv_decode_at (pre @ field_bytes (field, val) @ post) len (length pre) field maxlen = Ok val"
proof -
  let ?p = "pre @ field_bytes (field, val) @ post" and ?c = "length field + length val"
  note ck = decode_checks [OF assms(1), of pre post, simplified fst_conv snd_conv]
  have at: "drop (length pre + 1) ?p = field @ val @ store_le16 (zcrc (of_nat ?c # field @ val)) @ post"
    by (simp add: field_bytes_def Let_def)
  have "strncmp_eq ?p (length pre + 1) field = Ok True"
    unfolding strncmp_eq_def at Let_def by simp
  moreover have "drop (length pre + 1 + length field) ?p = val @ store_le16 (zcrc (of_nat ?c # field @ val)) @ post"
  proof -
    have "?p = (pre @ of_nat ?c # field) @ val @ store_le16 (zcrc (of_nat ?c # field @ val)) @ post"
      by (simp add: field_bytes_def Let_def)
    moreover have "length (pre @ of_nat ?c # field) = length pre + 1 + length field" by simp
    ultimately show ?thesis by (metis append_eq_conv_conj)
  qed
  then have "strncpy_at ?p (length pre + 1 + length field) (min (?c - length field) maxlen) = Ok val"
    using assms(3,4) by (auto simp: strncpy_at_def Let_def takeWhile_eq_all_conv)
  moreover have "?c \<noteq> 255" "length pre < length ?p" using assms(1) by (simp_all add: fits_field_def length_field_bytes)
  ultimately show ?thesis
    using assms(2) ck by (subst binkv_decode_at.simps) (simp add: Let_def)
qed

lemma decode_fields:
  assumes "\<forall>kv \<in> set kvs. fits_field kv \<and> told_apart field kv" "fits_field (field, val)"
    "length (pre @ concat (map field_bytes kvs)) < len" "length val \<le> maxlen" "0 \<notin> set val"
  shows "binkv_decode_at (pre @ concat (map field_bytes kvs) @ field_bytes (field, val) @ post) len (length pre) field
    maxlen = Ok val"
  using assms
proof (induction kvs arbitrary: pre)
  case Nil
  then show ?case using decode_finds by simp
next
  case (Cons kv kvs)
  have "length pre < len" using Cons.prems(3) by simp
  then show ?case
    using decode_skips [of kv field pre len "concat (map field_bytes kvs) @ field_bytes (field, val) @ post" maxlen]
      Cons.IH [of "pre @ field_bytes kv"] Cons.prems by simp
qed

lemma binkv_end_fields:
  assumes "\<forall>kv \<in> set kvs. fits_field kv" "length (pre @ concat (map field_bytes kvs)) < len"
  shows "binkv_end (pre @ concat (map field_bytes kvs) @ 0xff # post) len (length pre) =
    Ok (length (pre @ concat (map field_bytes kvs)))"
  using assms
proof (induction kvs arbitrary: pre)
  case Nil
  then show ?case by (subst binkv_end.simps) (simp add: nth_append)
next
  case (Cons kv kvs)
  let ?n = "length (fst kv) + length (snd kv)"
  have n: "?n < 255" "fits_field kv" using Cons.prems(1) by (simp_all add: fits_field_def)
  have u: "unat (field_bytes kv ! 0) = ?n" unfolding field_bytes_nth0 using n(1) by (rule unat_small)
  have ff: "field_bytes kv ! 0 \<noteq> 0xff"
  proof
    assume "field_bytes kv ! 0 = 0xff"
    then have "unat (field_bytes kv ! 0) = 255" by simp
    then show False using u n(1) by simp
  qed
  let ?q = "pre @ concat (map field_bytes (kv # kvs)) @ 0xff # post"
  have at: "?q ! length pre = field_bytes kv ! 0"
    using length_field_bytes [of kv] by (simp add: nth_append)
  have "binkv_end ?q len (length pre) = binkv_end ?q len (length pre + ?n + 3)"
    using Cons.prems(2) ff u unfolding binkv_end.simps [of ?q len "length pre"] at by simp
  also have "\<dots> = binkv_end ((pre @ field_bytes kv) @ concat (map field_bytes kvs) @ 0xff # post) len
      (length (pre @ field_bytes kv))" by (simp add: length_field_bytes add.assoc)
  also have "\<dots> = Ok (length ((pre @ field_bytes kv) @ concat (map field_bytes kvs)))"
    using Cons.prems by (intro Cons.IH) simp_all
  finally show ?case by simp
qed

lemma add_field:
  assumes "\<forall>kv \<in> set kvs. fits_field kv" "fits_field (field, val)"
    and "length (concat (map field_bytes (kvs @ [(field, val)]))) \<le> len"
  shows "binkv_add_field (concat (map field_bytes kvs) @ replicate (len - length (concat (map field_bytes kvs))) 0xff) len
      field val =
    Ok (concat (map field_bytes (kvs @ [(field, val)])) @
      replicate (len - length (concat (map field_bytes (kvs @ [(field, val)])))) 0xff)"
proof -
  let ?k = "concat (map field_bytes kvs)"
  have l: "length ?k + length field + length val + 3 \<le> len" using assms(3) by (simp add: length_field_bytes)
  then obtain m where m: "len - length ?k = Suc m" by (metis Suc_diff_Suc add_lessD1 less_add_same_cancel1 less_le_trans zero_less_numeral)
  have "binkv_end (?k @ replicate (len - length ?k) 0xff) len 0 = Ok (length ?k)"
    using binkv_end_fields [OF assms(1), of "[]" len "replicate m 0xff"] l m by simp
  then show ?thesis
    using l assms(2) by (simp add: binkv_add_field_def binkv_encode_field_def Let_def fits_field_def field_bytes_def store_le16_def)
qed

section \<open>Numbers in fields\<close>

fun dec_digits :: "nat \<Rightarrow> nat list" where
  "dec_digits n = (if n < 10 then [n] else dec_digits (n div 10) @ [n mod 10])"

declare dec_digits.simps [simp del]

lemma print_dec: "print_u n = map (\<lambda>d. of_nat (48 + d)) (dec_digits n)"
proof (induction n rule: dec_digits.induct)
  case (1 n)
  then show ?case by (simp add: print_u.simps [of n] dec_digits.simps [of n])
qed

lemma dec_digits_small: "d \<in> set (dec_digits n) \<Longrightarrow> d < 10"
proof (induction n rule: dec_digits.induct)
  case (1 n)
  then show ?case by (auto simp: dec_digits.simps [of n] split: if_splits)
qed

lemma dec_digits_value: "foldl (\<lambda>a d. a * 10 + d) 0 (dec_digits n) = n"
proof (induction n rule: dec_digits.induct)
  case (1 n)
  then show ?case by (simp add: dec_digits.simps [of n])
qed

lemma dec_digits_hd: "dec_digits n \<noteq> [] \<and> (n \<noteq> 0 \<longrightarrow> hd (dec_digits n) \<noteq> 0)"
proof (induction n rule: dec_digits.induct)
  case (1 n)
  then show ?case by (auto simp: dec_digits.simps [of n] hd_append)
qed

lemma length_dec_digits: "n < 10 ^ k \<Longrightarrow> 0 < k \<Longrightarrow> length (dec_digits n) \<le> k"
proof (induction n arbitrary: k rule: dec_digits.induct)
  case (1 n)
  show ?case
  proof (cases "n < 10")
    case False
    with 1(2) obtain j where k: "k = Suc j" "0 < j" by (cases k; cases "k - 1") auto
    then have "length (dec_digits (n div 10)) \<le> j" using 1 False by (intro 1(1)) (auto simp: less_mult_imp_div_less)
    then show ?thesis using False k by (simp add: dec_digits.simps [of n])
  qed (use 1 in \<open>simp add: dec_digits.simps [of n]\<close>)
qed

lemma digit_char:
  assumes "d < 10"
  shows "digit_value (of_nat (48 + d)) = Some d" "\<not> is_space (of_nat (48 + d))"
    "(of_nat (48 + d) :: u8) \<noteq> 0" "(of_nat (48 + d) :: u8) \<noteq> 45" "(of_nat (48 + d) :: u8) \<noteq> 43"
    "(of_nat (48 + d) :: u8) = 48 \<longleftrightarrow> d = 0"
proof -
  have "d \<in> {0, 1, 2, 3, 4, 5, 6, 7, 8, 9}" using assms by auto
  then show "digit_value (of_nat (48 + d)) = Some d" "\<not> is_space (of_nat (48 + d))"
    "(of_nat (48 + d) :: u8) \<noteq> 0" "(of_nat (48 + d) :: u8) \<noteq> 45" "(of_nat (48 + d) :: u8) \<noteq> 43"
    "(of_nat (48 + d) :: u8) = 48 \<longleftrightarrow> d = 0"
    by (auto simp: digit_value_def is_space_def)
qed

lemma digits_print: "\<forall>d \<in> set ds. d < 10 \<Longrightarrow> digits 10 (map (\<lambda>d. of_nat (48 + d)) ds) = ds"
  by (induction ds) (simp_all add: digit_char del: of_nat_add)

lemma strtoul_print: "n < 2 ^ 64 \<Longrightarrow> strtoul (print_u n) = Number (of_nat n)"
proof (cases "n = 0")
  case True
  then show ?thesis
    by (simp add: print_u.simps strtoul_def strtoul_digits_def is_space_def digit_value_def Let_def)
next
  case False
  assume n: "n < 2 ^ 64"
  obtain d ds where ds: "dec_digits n = d # ds" "d \<noteq> 0" using dec_digits_hd [of n] False by (cases "dec_digits n") auto
  have small: "\<forall>x \<in> set (d # ds). x < 10" using dec_digits_small [of _ n] ds by auto
  let ?c = "of_nat (48 + d) :: u8"
  have p: "print_u n = ?c # map (\<lambda>d. of_nat (48 + d)) ds" by (simp add: print_dec ds(1) del: of_nat_add)
  have c: "\<not> is_space ?c" "?c \<noteq> 45" "?c \<noteq> 43" "?c \<noteq> 48" using digit_char [of d] small ds(2) by simp_all
  have "digits 10 (print_u n) = d # ds" unfolding print_dec ds(1) using small by (rule digits_print)
  moreover have "foldl (\<lambda>a d. a * 10 + d) 0 (d # ds) = n" using dec_digits_value [of n] ds(1) by simp
  ultimately show ?thesis
    using c n unfolding strtoul_def strtoul_digits_def Let_def p by (simp del: of_nat_add)
qed

lemma str2uint_print: "n < 65536 \<Longrightarrow> str2uint (print_u n) 0 0xffff = Some (of_nat n)"
proof -
  assume n: "n < 65536"
  then have "strtoul (print_u n) = Number (of_nat n)" by (intro strtoul_print) simp
  moreover have "ucast (of_nat n :: u64) = (of_nat n :: u32)" using n by (simp add: unsigned_of_nat take_bit_nat_eq_self)
  moreover have "(of_nat n :: u32) \<le> 0xffff" using n by (simp add: word_le_nat_alt unat_of_nat)
  ultimately show ?thesis by (simp add: str2uint_def)
qed

text \<open>A number of \<open>2 ^ 32\<close> or more is not rejected but taken modulo \<open>2 ^ 32\<close>.\<close>

lemma str2uint_wraps:
  assumes "n < 65536" "2 ^ 32 * k + n < 2 ^ 64"
  shows "str2uint (print_u (2 ^ 32 * k + n)) 0 0xffff = Some (of_nat n)"
proof -
  have "strtoul (print_u (2 ^ 32 * k + n)) = Number (of_nat (2 ^ 32 * k + n))" using assms(2) by (rule strtoul_print)
  moreover have "ucast (of_nat (2 ^ 32 * k + n) :: u64) = (of_nat n :: u32)"
  proof -
    have z: "(4294967296 :: u32) = 0" by simp
    show ?thesis using assms(2) by (simp only: unsigned_of_nat) (simp add: take_bit_nat_eq_self z)
  qed
  moreover have "(of_nat n :: u32) \<le> 0xffff" using assms(1) by (simp add: word_le_nat_alt unat_of_nat)
  ultimately show ?thesis by (simp add: str2uint_def)
qed

section \<open>Pages of fields\<close>

text \<open>Fields that were added one after another to an erased page read back: every field whose
  key is told apart from the ones before it gives its value, for all contents that fit.\<close>

lemma binkv_roundtrip:
  assumes "\<forall>kv \<in> set (kvs @ [(field, val)]). fits_field kv" "\<forall>kv \<in> set kvs. told_apart field kv"
    and "length (concat (map field_bytes (kvs @ [(field, val)]))) \<le> len" "length val \<le> maxlen" "0 \<notin> set val"
  shows "\<exists>page. foldl (\<lambda>page (k, v). case page of Ok p \<Rightarrow> binkv_add_field p len k v | _ \<Rightarrow> page)
      (Ok (replicate len 0xff)) (kvs @ [(field, val)]) = Ok page \<and> length page = len \<and> binkv_decode_field page len field maxlen = Ok val"
proof -
  let ?bytes = "\<lambda>xs. concat (map field_bytes xs)"
  have add: "foldl (\<lambda>page (k, v). case page of Ok p \<Rightarrow> binkv_add_field p len k v | _ \<Rightarrow> page) (Ok (replicate len 0xff)) xs =
      Ok (?bytes xs @ replicate (len - length (?bytes xs)) 0xff)"
    if "\<forall>kv \<in> set xs. fits_field kv" "length (?bytes xs) \<le> len" for xs
    using that
  proof (induction xs rule: rev_induct)
    case (snoc kv xs)
    obtain k v where kv: "kv = (k, v)" by (cases kv)
    then show ?case using snoc add_field [of xs k v len] by simp
  qed simp
  let ?page = "?bytes (kvs @ [(field, val)]) @ replicate (len - length (?bytes (kvs @ [(field, val)]))) 0xff"
  have "foldl (\<lambda>page (k, v). case page of Ok p \<Rightarrow> binkv_add_field p len k v | _ \<Rightarrow> page) (Ok (replicate len 0xff))
      (kvs @ [(field, val)]) = Ok ?page" using assms(1,3) by (rule add)
  moreover have "length ?page = len" using assms(3) by (simp del: map_append concat_append)
  moreover have "binkv_decode_field ?page len field maxlen = Ok val"
    using decode_fields [of kvs field val "[]" len maxlen] assms
    by (simp add: binkv_decode_field_def length_field_bytes)
  ultimately show ?thesis by blast
qed

definition metadata_fields :: "(u8 list \<times> u8 list) list" where
  \<comment> \<open>as in the autoload metadata of a compressed bitstream\<close>
  "metadata_fields = [(chars ''FMT'', chars ''LZMA''), (chars ''ULEN'', print_u 12345)]"

lemma told_apart_first: "field \<noteq> [] \<Longrightarrow> fst kv \<noteq> [] \<Longrightarrow> hd field \<noteq> hd (fst kv) \<Longrightarrow> told_apart field kv"
  unfolding told_apart_def by (rule exI [of _ 0]) (simp add: hd_conv_nth nth_append)

lemma length_print_u: "n < 10 ^ k \<Longrightarrow> 0 < k \<Longrightarrow> length (print_u n) \<le> k"
  by (simp add: print_dec length_dec_digits)

lemma print_u_no_zero: "0 \<notin> set (print_u n)"
  using digit_char(3) dec_digits_small by (fastforce simp: print_dec simp del: of_nat_add)

lemma binkv_roundtrip_witness:
  "\<exists>page. foldl (\<lambda>page (k, v). case page of Ok p \<Rightarrow> binkv_add_field p 256 k v | _ \<Rightarrow> page) (Ok (replicate 256 0xff))
       (metadata_fields @ [(chars ''CLEN'', print_u 678)]) = Ok page \<and>
     length page = 256 \<and> binkv_decode_field page 256 (chars ''CLEN'') 10 = Ok (print_u 678)"
proof -
  have l: "length (print_u 678) \<le> 3" "length (print_u 12345) \<le> 5" by (rule length_print_u; simp)+
  have "\<forall>kv \<in> set (metadata_fields @ [(chars ''CLEN'', print_u 678)]). fits_field kv"
    using l by (simp add: metadata_fields_def fits_field_def chars_def)
  moreover have "\<forall>kv \<in> set metadata_fields. told_apart (chars ''CLEN'') kv"
    by (simp add: metadata_fields_def chars_def told_apart_first)
  moreover have "length (concat (map field_bytes (metadata_fields @ [(chars ''CLEN'', print_u 678)]))) \<le> 256"
    using l by (simp add: metadata_fields_def length_field_bytes chars_def)
  ultimately show ?thesis
    using binkv_roundtrip [OF _ _ _ _ print_u_no_zero, of metadata_fields "chars ''CLEN''" 678 256 10] l(1) by simp
qed

section \<open>Calibration region\<close>

lemma cal_region_roundtrip:
  assumes "sz \<noteq> BLADERF_FPGA_UNKNOWN"
  shows "\<exists>region. make_cal_region sz trim CAL_BUFFER_SIZE = Ok region \<and> length region = CAL_BUFFER_SIZE \<and>
    spi_flash_read_fpga_size (Ok region) = Ok sz \<and> spi_flash_read_vctcxo_trim (Ok region) = Ok trim"
proof -
  obtain name where name: "fpga_size_name sz = Ok name" "length name \<le> 3" "0 \<notin> set (chars name)"
    "\<And>cal. spi_flash_read_cal cal (chars ''B'') 6 = Ok (chars name) \<Longrightarrow> spi_flash_read_fpga_size cal = Ok sz"
    using assms by (cases sz) (simp_all add: fpga_size_name_def chars_def spi_flash_read_fpga_size_def)
  let ?b = "(chars ''B'', chars name)" and ?d = "(chars ''DAC'', print_u (unat trim))"
  have tr: "unat trim < 65536" using unsigned_less [of trim] by simp
  have pl: "length (print_u (unat trim)) \<le> 5" using tr by (intro length_print_u) simp_all
  have fit: "fits_field ?b" "fits_field ?d" using name(2) pl by (simp_all add: fits_field_def chars_def)
  have len: "length (field_bytes ?b) \<le> 7" "length (field_bytes ?d) \<le> 11"
    using name(2) pl by (simp_all add: length_field_bytes chars_def)
  let ?page = "field_bytes ?b @ field_bytes ?d @ replicate (256 - length (field_bytes ?b @ field_bytes ?d)) 0xff"
  have mk: "make_cal_region sz trim CAL_BUFFER_SIZE = Ok ?page"
    using add_field [of "[]" "fst ?b" "snd ?b" 256] add_field [of "[?b]" "fst ?d" "snd ?d" 256] fit len
    by (simp add: make_cal_region_def name(1) CAL_BUFFER_SIZE_def add.commute)
  have lp: "length ?page = CAL_BUFFER_SIZE" using len by (simp add: CAL_BUFFER_SIZE_def)
  have rd: "spi_flash_read_cal (Ok ?page) (chars ''B'') 6 = Ok (chars name)"
    using decode_fields [of "[]" "fst ?b" "snd ?b" "[]" 256 6] fit name(2,3)
    by (simp add: spi_flash_read_cal_def binkv_decode_field_def CAL_BUFFER_SIZE_def chars_def)
  have "spi_flash_read_cal (Ok ?page) (chars ''DAC'') 6 = Ok (print_u (unat trim))"
    using decode_fields [of "[?b]" "fst ?d" "snd ?d" "[]" 256 6] fit len pl print_u_no_zero
      told_apart_first [of "chars ''DAC''" ?b]
    by (simp add: spi_flash_read_cal_def binkv_decode_field_def CAL_BUFFER_SIZE_def chars_def)
  moreover have "ucast (ucast trim :: u32) = trim" by (rule bit_word_eqI) (auto simp: bit_simps dest: bit_imp_le_length)
  ultimately have "spi_flash_read_vctcxo_trim (Ok ?page) = Ok trim"
    using str2uint_print [OF tr] by (simp add: spi_flash_read_vctcxo_trim_def)
  then show ?thesis using mk lp name(4) [OF rd] by blast
qed

text \<open>The bounds check of \<open>binkv_encode_field\<close> counts the length byte and the contents but not the
  two checksum bytes: a field that ends one byte before the end of the buffer is accepted, and its
  checksum is written behind the buffer.\<close>

lemma binkv_encode_overruns:
  assumes "length field + length val = 254" "length page = 256"
  shows "binkv_encode_field page 256 0 field val = Undef"
  using assms by (simp add: binkv_encode_field_def Let_def)

end
