(* ===== verification/Sha256_Reference.thy ===== *)
theory Sha256_Reference
  imports Sha256
begin

unbundle bit_operations_syntax

text \<open>
  The hash of image files against the FIPS 180-4 definition: textbook round function and schedule,
  padding, and a fold over the blocks of the padded message. The digest of any sequence of
  \<open>SHA256_Update\<close> calls is the reference digest of the concatenated bytes.
\<close>

section \<open>Reference: FIPS 180-4\<close>

definition fips_ch :: "u32 \<Rightarrow> u32 \<Rightarrow> u32 \<Rightarrow> u32" where
  "fips_ch x y z = (x AND y) XOR (NOT x AND z)"

definition fips_maj :: "u32 \<Rightarrow> u32 \<Rightarrow> u32 \<Rightarrow> u32" where
  "fips_maj x y z = (x AND y) XOR (x AND z) XOR (y AND z)"

fun fips_round :: "u32 \<Rightarrow> u32 \<Rightarrow> u32 list \<Rightarrow> u32 list" where
  "fips_round k w [a, b, c, d, e, f, g, h] =
     (let t1 = h + S1 e + fips_ch e f g + k + w; t2 = S0 a + fips_maj a b c in
      [t1 + t2, a, b, c, d + t1, e, f, g])"
| "fips_round k w S = S"

fun fips_schedule :: "u8 list \<Rightarrow> nat \<Rightarrow> u32" where
  "fips_schedule M t =
     (if t < 16 then be32dec (drop (4 * t) M)
      else s1 (fips_schedule M (t - 2)) + fips_schedule M (t - 7) + s0 (fips_schedule M (t - 15)) +
        fips_schedule M (t - 16))"

declare fips_schedule.simps [simp del]

definition fips_compress :: "u32 list \<Rightarrow> u8 list \<Rightarrow> u32 list" where
  "fips_compress H M =
     map2 (+) H (fold (\<lambda>t. fips_round (round_constants ! t) (fips_schedule M t)) [0..<64] H)"

fun fips_blocks :: "u32 list \<Rightarrow> u8 list \<Rightarrow> u32 list" where
  "fips_blocks H m = (if length m \<ge> 64 then fips_blocks (fips_compress H (take 64 m)) (drop 64 m) else H)"

declare fips_blocks.simps [simp del]

definition fips_pad :: "u8 list \<Rightarrow> u8 list" where
  "fips_pad m = m @ [0x80] @ replicate ((119 - length m mod 64) mod 64) 0 @
     be32enc (of_nat (8 * length m div 2 ^ 32)) @ be32enc (of_nat (8 * length m))"

definition fips_initial :: "u32 list" where
  "fips_initial =
     [0x6A09E667, 0xBB67AE85, 0x3C6EF372, 0xA54FF53A, 0x510E527F, 0x9B05688C, 0x1F83D9AB, 0x5BE0CD19]"

definition sha256_reference :: "u8 list \<Rightarrow> u8 list" where
  "sha256_reference m = concat (map be32enc (fips_blocks fips_initial (fips_pad m)))"

section \<open>Compression function\<close>

lemma ch_fips: "Ch x y z = fips_ch x y z"
  by (rule bit_word_eqI) (auto simp: Ch_def fips_ch_def bit_simps)

lemma maj_fips: "Maj x y z = fips_maj x y z"
  by (rule bit_word_eqI) (auto simp: Maj_def fips_maj_def bit_simps)

definition rotated :: "nat \<Rightarrow> u32 list \<Rightarrow> u32 list" where
  \<comment> \<open>the working variables \<open>a\<close> to \<open>h\<close> before round \<open>i\<close>\<close>
  "rotated i S = map (\<lambda>j. S ! ((64 + j - i) mod 8)) [0..<8]"

lemma list8: "length S = 8 \<Longrightarrow> \<exists>a b c d e f g h. S = [a, b, c, d, e, f, g, h]"
  by (auto simp: numeral_eq_Suc length_Suc_conv)

lemma upt8: "[0..<8] = [0, 1, 2, 3, 4, 5, 6, 7 :: nat]"
  by (simp add: upt_rec)

lemma rotated_round:
  assumes "length S = 8" "i < 64"
  shows "rotated (Suc i) (RNDr S W i k) = fips_round k (W ! i) (rotated i S)"
proof -
  define m where "m = (64 - i) mod 8"
  have cur: "(64 + j - i) mod 8 = (m + j) mod 8" for j
    using assms(2) by (simp add: m_def mod_add_left_eq)
  have "64 - i = 64 + 0 - i" "65 - i = 64 + 1 - i" "66 - i = 64 + 2 - i" "67 - i = 64 + 3 - i"
    "68 - i = 64 + 4 - i" "69 - i = 64 + 5 - i" "70 - i = 64 + 6 - i" "71 - i = 64 + 7 - i" by simp_all
  then have idx: "(64 - i) mod 8 = (m + 0) mod 8" "(65 - i) mod 8 = (m + 1) mod 8" "(66 - i) mod 8 = (m + 2) mod 8"
    "(67 - i) mod 8 = (m + 3) mod 8" "(68 - i) mod 8 = (m + 4) mod 8" "(69 - i) mod 8 = (m + 5) mod 8"
    "(70 - i) mod 8 = (m + 6) mod 8" "(71 - i) mod 8 = (m + 7) mod 8"
    by (simp_all only: cur)
  have suc: "(64 + j - Suc i) mod 8 = (m + j + 7) mod 8" for j
  proof -
    have "64 + j - Suc i + 8 = (64 - i) + (j + 7)" using assms(2) by simp
    then have "(64 + j - Suc i) mod 8 = ((64 - i) + (j + 7)) mod 8" by (metis mod_add_self2)
    then show ?thesis by (simp add: m_def mod_add_left_eq add.assoc)
  qed
  obtain a b c d e f g h where S: "S = [a, b, c, d, e, f, g, h]" using list8 [OF assms(1)] by blast
  have "m < 8" by (simp add: m_def)
  then consider "m = 0" | "m = 1" | "m = 2" | "m = 3" | "m = 4" | "m = 5" | "m = 6" | "m = 7" by linarith
  then show ?thesis
    unfolding rotated_def upt8 suc RNDr_def idx cur
    by cases (simp_all add: S Let_def ch_fips maj_fips ac_simps)
qed

lemma length_RNDr [simp]: "length (RNDr S W i k) = length S"
  by (simp add: RNDr_def Let_def)

lemma rotated_rounds:
  assumes "length S = 8" "n \<le> 64"
  shows "rotated n (fold (\<lambda>i S. RNDr S W i (K ! i)) [0..<n] S) =
      fold (\<lambda>i. fips_round (K ! i) (W ! i)) [0..<n] (rotated 0 S) \<and>
    length (fold (\<lambda>i S. RNDr S W i (K ! i)) [0..<n] S) = 8"
  using assms(2)
proof (induction n)
  case (Suc n)
  then show ?case using rotated_round [of "fold (\<lambda>i S. RNDr S W i (K ! i)) [0..<n] S" n W "K ! n"] by simp
qed (simp add: assms(1))

lemma rotated_id: "length S = 8 \<Longrightarrow> rotated 0 S = S" "length S = 8 \<Longrightarrow> rotated 64 S = S"
  by (drule list8, force simp: rotated_def upt8)+

lemma schedule_prefix:
  assumes "n \<le> 48"
  shows "length (fold extend_schedule [16..<16 + n] (be32dec_vect M 64 @ replicate 48 0)) = 64 \<and>
    (\<forall>t < 16 + n. fold extend_schedule [16..<16 + n] (be32dec_vect M 64 @ replicate 48 0) ! t = fips_schedule M t)"
  using assms
proof (induction n)
  case 0
  then show ?case by (auto simp: be32dec_vect_def nth_append fips_schedule.simps [of M] mult.commute)
next
  case (Suc n)
  let ?W = "fold extend_schedule [16..<16 + n] (be32dec_vect M 64 @ replicate 48 0)"
  have len: "length ?W = 64" and W: "t < 16 + n \<Longrightarrow> ?W ! t = fips_schedule M t" for t
    using Suc by simp_all
  have "[16..<16 + Suc n] = [16..<16 + n] @ [16 + n]" unfolding add_Suc_right by (rule upt_Suc_append) simp
  then have e: "fold extend_schedule [16..<16 + Suc n] (be32dec_vect M 64 @ replicate 48 0) =
      ?W[16 + n := s1 (?W ! (16 + n - 2)) + ?W ! (16 + n - 7) + s0 (?W ! (16 + n - 15)) + ?W ! (16 + n - 16)]"
    by (simp add: extend_schedule_def)
  have "s1 (?W ! (16 + n - 2)) + ?W ! (16 + n - 7) + s0 (?W ! (16 + n - 15)) + ?W ! (16 + n - 16) =
      fips_schedule M (16 + n)"
    using W [of "16 + n - 2"] W [of "16 + n - 7"] W [of "16 + n - 15"] W [of "16 + n - 16"]
    by (simp add: fips_schedule.simps [of M "16 + n"])
  then show ?case
    unfolding e using len W Suc.prems by (auto simp: nth_list_update less_Suc_eq)
qed

lemma be32dec_take: "t < 16 \<Longrightarrow> be32dec (drop (4 * t) (take 64 M)) = be32dec (drop (4 * t) M)"
  by (cases "length M \<ge> 64") (simp_all add: be32dec_def nth_drop)

lemma transform_fips:
  assumes "length H = 8"
  shows "SHA256_Transform H M = fips_compress H M"
proof -
  define W where "W = fold extend_schedule [16..<16 + 48] (be32dec_vect M 64 @ replicate 48 0)"
  have W: "t < 64 \<Longrightarrow> W ! t = fips_schedule M t" for t
    using schedule_prefix [of 48 M] unfolding W_def [symmetric] by simp
  define S where "S = fold (\<lambda>i S. RNDr S W i (round_constants ! i)) [0..<64] H"
  have "rotated 64 S = fold (\<lambda>i. fips_round (round_constants ! i) (W ! i)) [0..<64] (rotated 0 H)"
    and len: "length S = 8"
    using rotated_rounds [OF assms, of 64 W round_constants] unfolding S_def [symmetric] by blast+
  then have "S = fold (\<lambda>i. fips_round (round_constants ! i) (W ! i)) [0..<64] H"
    using rotated_id assms by metis
  also have "\<dots> = fold (\<lambda>i. fips_round (round_constants ! i) (fips_schedule M i)) [0..<64] H"
    by (rule fold_cong) (simp_all only: W set_upt atLeastLessThan_iff)
  finally have S: "S = \<dots>" .
  have "SHA256_Transform H M = map (\<lambda>i. H ! i + S ! i) [0..<8]"
    unfolding SHA256_Transform_def Let_def S_def W_def by simp
  also have "\<dots> = map2 (+) H S" using assms len by (intro nth_equalityI) simp_all
  finally show ?thesis unfolding fips_compress_def S .
qed

section \<open>Streaming\<close>

lemma transform_prefix:
  assumes "\<forall>i < 64. M ! i = N ! i" "length M \<ge> 64" "length N \<ge> 64"
  shows "be32dec_vect M 64 = be32dec_vect N 64" "SHA256_Transform H M = SHA256_Transform H N"
proof -
  have "t < 16 \<Longrightarrow> be32dec (drop (t * 4) M) = be32dec (drop (t * 4) N)" for t
    using assms by (simp add: be32dec_def)
  then show v: "be32dec_vect M 64 = be32dec_vect N 64"
    by (simp add: be32dec_vect_def)
  show "SHA256_Transform H M = SHA256_Transform H N"
    unfolding SHA256_Transform_def v ..
qed

lemma fips_schedule_take: "length M \<ge> 64 \<Longrightarrow> fips_schedule (take 64 M) t = fips_schedule M t"
proof (induction t rule: less_induct)
  case (less t)
  have "be32dec (drop (4 * t) (take 64 M)) = be32dec (drop (4 * t) M)" if "t < 16"
    using that less.prems by (simp add: be32dec_def)
  then show ?case
    using less by (simp add: fips_schedule.simps [of _ t])
qed

lemma fips_compress_take: "length M \<ge> 64 \<Longrightarrow> fips_compress H (take 64 M) = fips_compress H M"
  by (simp add: fips_compress_def fips_schedule_take)

lemma length_fips_round: "length (fips_round k w S) = length S"
  by (cases "(k, w, S)" rule: fips_round.cases) (simp_all add: Let_def)

lemma length_fips_compress: "length H = 8 \<Longrightarrow> length (fips_compress H M) = 8"
proof -
  assume "length H = 8"
  then have "length (fold (\<lambda>t. fips_round (K ! t) (fips_schedule M t)) xs H) = 8" for K xs
    by (induction xs arbitrary: H) (simp_all add: length_fips_round)
  then show ?thesis using \<open>length H = 8\<close> by (simp only: fips_compress_def length_map length_zip min.idem)
qed

lemma transform_blocks_fips:
  "length H = 8 \<Longrightarrow> transform_blocks H m = (fips_blocks H m, drop (64 * (length m div 64)) m)"
proof (induction H m rule: transform_blocks.induct)
  case (1 H m)
  show ?case
  proof (cases "length m \<ge> 64")
    case True
    have "length m div 64 = Suc ((length m - 64) div 64)" using True by (simp add: le_div_geq)
    then show ?thesis
      using 1 True by (simp add: transform_blocks.simps [of H m] fips_blocks.simps [of H m] transform_fips
          length_fips_compress fips_compress_take ac_simps)
  next
    case False
    then show ?thesis by (simp add: transform_blocks.simps [of H m] fips_blocks.simps [of H m])
  qed
qed

lemma transform_blocks_append:
  "transform_blocks H (m @ s) = (case transform_blocks H m of (H', rest) \<Rightarrow> transform_blocks H' (rest @ s))"
proof (induction H m rule: transform_blocks.induct)
  case (1 H m)
  show ?case
  proof (cases "length m \<ge> 64")
    case True
    have "SHA256_Transform H (m @ s) = SHA256_Transform H m"
      using True by (intro transform_prefix(2)) (simp_all add: nth_append)
    then show ?thesis
      using 1 True by (simp add: transform_blocks.simps [of H m] transform_blocks.simps [of H "m @ s"])
  next
    case False
    then show ?thesis by (simp add: transform_blocks.simps [of H m])
  qed
qed
definition absorbed :: "u8 list \<Rightarrow> SHA256_CTX \<Rightarrow> bool" where
  \<comment> \<open>the context after the bytes \<open>m\<close>: complete blocks are in the state, the rest is in the buffer\<close>
  "absorbed m ctx \<longleftrightarrow> length (sha_buf ctx) = 64 \<and>
     sha_count ctx = (of_nat (8 * length m div 2 ^ 32), of_nat (8 * length m)) \<and>
     transform_blocks fips_initial m = (sha_state ctx, take (length m mod 64) (sha_buf ctx))"

lemma absorbed_init: "length (sha_buf ctx) = 64 \<Longrightarrow> absorbed [] (SHA256_Init ctx)"
  by (simp add: absorbed_def SHA256_Init_def transform_blocks.simps fips_initial_def)

lemma buffered_bytes: "unat (drop_bit 3 (of_nat (8 * n) :: u32) AND 0x3f) = n mod 64"
proof -
  have field: "unat (drop_bit 3 w AND 0x3f) = unat w div 8 mod 64" for w :: u32
  proof -
    have "drop_bit 3 w AND 0x3f = take_bit 6 (drop_bit 3 w)" by (simp add: take_bit_eq_mask mask_eq_exp_minus_1)
    moreover have "unat w < 4294967296" using unsigned_less [of w] by simp
    ultimately show ?thesis
      by (simp only: unsigned_take_bit_eq unsigned_drop_bit_eq) (simp add: take_bit_eq_mod drop_bit_eq_div)
  qed
  have "(8 * n) mod 2 ^ 32 = 8 * (n mod 2 ^ 29)" using mult_mod_right [of 8 n "2 ^ 29"] by simp
  then have "(8 * n) mod 2 ^ LENGTH(32) div 8 mod 64 = n mod 64" by (simp add: mod_mod_cancel)
  then show ?thesis unfolding field unat_of_nat .
qed

lemma add_carry:
  fixes a b M :: nat
  assumes "0 < M"
  shows "(a + b) div M = a div M + b div M + (if (a + b) mod M < b mod M then 1 else 0)"
proof -
  define x y where "x = a mod M" and "y = b mod M"
  have lt: "x < M" "y < M" using assms by (simp_all add: x_def y_def)
  have md: "(a + b) mod M = (x + y) mod M" by (simp add: x_def y_def mod_add_eq)
  show ?thesis
  proof (cases "x + y < M")
    case True
    then show ?thesis using md div_add1_eq [of a b M] by (simp flip: x_def y_def)
  next
    case False
    then have "(x + y) div M = 1" using lt by (intro div_nat_eqI) simp_all
    moreover have "(x + y) mod M < y" using False lt le_mod_geq [of M "x + y"] by simp
    ultimately show ?thesis using md div_add1_eq [of a b M] by (simp flip: x_def y_def)
  qed
qed

lemma bit_count:
  fixes n l :: nat
  defines "c \<equiv> (of_nat (8 * n) :: u32) + push_bit 3 (of_nat l)"
  shows "c = of_nat (8 * (n + l))"
    "(if c < push_bit 3 (of_nat l) then of_nat (8 * n div 2 ^ 32) + 1 else of_nat (8 * n div 2 ^ 32)) +
      of_nat (l div 2 ^ 29) = (of_nat (8 * (n + l) div 2 ^ 32) :: u32)"
proof -
  have pb: "push_bit 3 (of_nat l :: u32) = of_nat (8 * l)" by (simp add: push_bit_eq_mult)
  show c: "c = of_nat (8 * (n + l))" unfolding c_def pb by (simp add: distrib_left)
  let ?M = "2 ^ 32 :: nat"
  have less: "c < push_bit 3 (of_nat l) \<longleftrightarrow> (8 * n + 8 * l) mod ?M < 8 * l mod ?M"
    unfolding c pb word_less_nat_alt unat_of_nat by (simp add: distrib_left)
  have "8 * (n + l) div ?M = 8 * n div ?M + l div 2 ^ 29 + (if c < push_bit 3 (of_nat l) then 1 else 0)"
    using add_carry [of ?M "8 * n" "8 * l"] unfolding less by (simp add: distrib_left)
  then show "(if c < push_bit 3 (of_nat l) then of_nat (8 * n div ?M) + 1 else of_nat (8 * n div ?M)) +
      of_nat (l div 2 ^ 29) = (of_nat (8 * (n + l) div ?M) :: u32)"
    by (simp only:) simp
qed

lemma length_overwrite: "off + length s \<le> length d \<Longrightarrow> length (overwrite d off s) = length d"
  by (simp add: overwrite_def)

lemma take_overwrite: "off \<le> length d \<Longrightarrow> take (off + length s) (overwrite d off s) = take off d @ s"
  by (simp add: overwrite_def)

lemma absorbed_update:
  assumes "absorbed m ctx"
  shows "absorbed (m @ s) (SHA256_Update s ctx)"
proof -
  define r where "r = length m mod 64"
  have buf: "length (sha_buf ctx) = 64" and r: "r < 64"
    and cnt: "sha_count ctx = (of_nat (8 * length m div 2 ^ 32), of_nat (8 * length m))"
    and tb: "transform_blocks fips_initial m = (sha_state ctx, take r (sha_buf ctx))"
    using assms by (simp_all add: absorbed_def r_def)
  let ?rest = "take r (sha_buf ctx) @ s"
  have all: "transform_blocks fips_initial (m @ s) = transform_blocks (sha_state ctx) ?rest"
    using transform_blocks_append [of fips_initial m s] tb by simp
  have rd: "unat (drop_bit 3 (snd (sha_count ctx)) AND 0x3f) = r"
    unfolding cnt snd_conv buffered_bytes r_def ..
  have c1: "snd (sha_count ctx) + push_bit 3 (of_nat (length s)) = of_nat (8 * length (m @ s))"
    unfolding cnt snd_conv length_append by (rule bit_count(1))
  have c0: "(if snd (sha_count ctx) + push_bit 3 (of_nat (length s)) < push_bit 3 (of_nat (length s))
      then fst (sha_count ctx) + 1 else fst (sha_count ctx)) + of_nat (length s div 2 ^ 29) =
      of_nat (8 * length (m @ s) div 2 ^ 32)"
    unfolding cnt fst_conv snd_conv length_append by (rule bit_count(2))
  show ?thesis
  proof (cases "length s < 64 - r")
    case True
    then have "SHA256_Update s ctx = ctx\<lparr>sha_count := (of_nat (8 * length (m @ s) div 2 ^ 32), of_nat (8 * length (m @ s))),
        sha_buf := overwrite (sha_buf ctx) r s\<rparr>"
      unfolding SHA256_Update_def Let_def rd c0 unfolding c1 by (simp only: if_True)
    moreover have "length (m @ s) mod 64 = r + length s"
      using True by (simp add: r_def mod_add_left_eq [symmetric, of "length m"] del: mod_add_left_eq)
    moreover have "length ?rest < 64" using True buf r by simp
    then have "transform_blocks (sha_state ctx) ?rest = (sha_state ctx, ?rest)"
      unfolding transform_blocks.simps [of _ ?rest] by simp
    ultimately show ?thesis
      unfolding absorbed_def using all True buf r by (simp add: length_overwrite take_overwrite)
  next
    case False
    let ?buf = "overwrite (sha_buf ctx) r (take (64 - r) s)"
    have lb: "length ?buf = 64" using False buf r by (simp add: length_overwrite)
    have "?buf = take 64 ?rest" using False buf r by (simp add: overwrite_def)
    then have tr: "SHA256_Transform H ?rest = SHA256_Transform H ?buf" for H
      using False buf r lb by (intro transform_prefix(2)) (simp_all add: nth_append)
    have dr: "drop 64 ?rest = drop (64 - r) s" using buf r by simp
    obtain H' rest where b: "transform_blocks (SHA256_Transform (sha_state ctx) ?buf) (drop (64 - r) s) = (H', rest)"
      by (rule prod.exhaust)
    have "transform_blocks (sha_state ctx) ?rest = (H', rest)"
      unfolding transform_blocks.simps [of _ ?rest] tr dr b using False buf r by (simp add: not_less le_diff_conv)
    then have all': "transform_blocks fips_initial (m @ s) = (H', rest)" using all by simp
    then have rest: "rest = drop (64 * (length (m @ s) div 64)) (m @ s)"
      using transform_blocks_fips [of fips_initial "m @ s"] by (simp add: fips_initial_def)
    then have len: "length rest = length (m @ s) mod 64"
      by (simp only: length_drop minus_mult_div_eq_mod)
    have upd: "SHA256_Update s ctx = ctx\<lparr>sha_count := (of_nat (8 * length (m @ s) div 2 ^ 32), of_nat (8 * length (m @ s))),
        sha_state := H', sha_buf := overwrite ?buf 0 rest\<rparr>"
      unfolding SHA256_Update_def Let_def rd c0 b unfolding c1 using False by (simp only: if_False prod.case)
    have "length rest \<le> 64" unfolding len using mod_less_divisor [of 64 "length (m @ s)"] by linarith
    then show ?thesis
      unfolding absorbed_def upd using all' lb take_overwrite [of 0 ?buf rest] len
      by (simp add: length_overwrite)
  qed
qed

lemma absorbed_updates: "absorbed m ctx \<Longrightarrow> absorbed (m @ concat ps) (fold SHA256_Update ps ctx)"
  by (induction ps arbitrary: m ctx) (simp_all add: absorbed_update flip: append_assoc)

lemma pad_length:
  assumes "unat (r :: u32) = n mod 64"
  shows "unat (if r < 56 then 56 - r else 120 - r) = Suc ((119 - n mod 64) mod 64)"
proof -
  define x where "x = n mod 64"
  have lt: "x < 64" by (simp add: x_def)
  have r: "unat r = x" using assms by (simp add: x_def)
  show ?thesis unfolding x_def [symmetric]
  proof (cases "r < 56")
    case True
    then have x: "x < 56" using r by (simp add: word_less_nat_alt)
    then have e: "119 - x = 55 - x + 64" by simp
    have "(119 - x) mod 64 = (55 - x) mod 64" unfolding e by (rule mod_add_self2)
    moreover have "(55 - x) mod 64 = 55 - x" by (rule mod_less) simp
    moreover have "unat (56 - r) = 56 - x" using True r by (simp add: unat_sub word_less_nat_alt word_le_nat_alt)
    ultimately show "unat (if r < 56 then 56 - r else 120 - r) = Suc ((119 - x) mod 64)" using True x by simp
  next
    case False
    then have x: "56 \<le> x" using r by (simp add: word_less_nat_alt)
    then have "(119 - x) mod 64 = 119 - x" by simp
    moreover have "unat (120 - r) = 120 - x" using lt r by (simp add: unat_sub word_le_nat_alt)
    ultimately show "unat (if r < 56 then 56 - r else 120 - r) = Suc ((119 - x) mod 64)" using False lt by simp
  qed
qed

lemma length_be32enc [simp]: "length (be32enc u) = 4"
  by (simp add: be32enc_def)

lemma fips_pad_blocks: "length (fips_pad m) mod 64 = 0"
proof -
  let ?l = "length m" and ?k = "(119 - length m mod 64) mod 64"
  have "length (fips_pad m) = ?l + (9 + ?k)" by (simp add: fips_pad_def)
  moreover have "(?l mod 64 + (9 + ?k)) mod 64 = 0"
  proof -
    have "?l mod 64 \<le> 119" using mod_less_divisor [of 64 ?l] by linarith
    then have "(?l mod 64 + (9 + (119 - ?l mod 64))) mod 64 = 0" by simp
    then show ?thesis by (metis add.assoc mod_add_right_eq)
  qed
  ultimately show ?thesis by (simp add: mod_add_left_eq)
qed

lemma length_fips_blocks: "length H = 8 \<Longrightarrow> length (fips_blocks H m) = 8"
  by (induction H m rule: fips_blocks.induct) (simp add: fips_blocks.simps length_fips_compress)

lemma final_reference:
  assumes "absorbed m ctx"
  shows "fst (SHA256_Final ctx) = sha256_reference m"
proof -
  let ?k = "(119 - length m mod 64) mod 64"
  have cnt: "sha_count ctx = (of_nat (8 * length m div 2 ^ 32), of_nat (8 * length m))"
    using assms by (simp add: absorbed_def)
  have r: "unat (drop_bit 3 (snd (sha_count ctx)) AND 0x3f) = length m mod 64"
    unfolding cnt snd_conv by (rule buffered_bytes)
  have pad: "take (Suc ?k) PAD = [0x80] @ replicate ?k 0"
    using mod_less_divisor [of 64 "119 - length m mod 64"] by (simp add: PAD_def min_def)
  have len: "be32enc_vect [fst (sha_count ctx), snd (sha_count ctx)] 8 =
      be32enc (of_nat (8 * length m div 2 ^ 32)) @ be32enc (of_nat (8 * length m))"
    unfolding cnt by (simp add: be32enc_vect_def upt_rec)
  have "absorbed (fips_pad m) (SHA256_Pad ctx)"
    unfolding SHA256_Pad_def Let_def pad_length [OF r] pad len
    using absorbed_update [OF absorbed_update [OF assms, of "[0x80] @ replicate ?k 0"],
        of "be32enc (of_nat (8 * length m div 2 ^ 32)) @ be32enc (of_nat (8 * length m))"]
    unfolding fips_pad_def by (simp only: append_assoc)
  then have "sha_state (SHA256_Pad ctx) = fips_blocks fips_initial (fips_pad m)"
    using transform_blocks_fips [of fips_initial "fips_pad m"] by (simp add: absorbed_def fips_initial_def)
  moreover have "be32enc_vect S 32 = concat (map be32enc S)" if "length S = 8" for S
  proof -
    have "map be32enc S = map (\<lambda>i. be32enc (S ! i)) [0..<8]"
      using that by (intro nth_equalityI) simp_all
    then show ?thesis by (simp add: be32enc_vect_def)
  qed
  ultimately show ?thesis
    by (simp add: SHA256_Final_def sha256_reference_def length_fips_blocks fips_initial_def)
qed

text \<open>C33. Hashing a message in any number of pieces gives the digest that FIPS 180-4 defines for the
  concatenated message: the rotating working state, the buffered blocks, the 64-bit length counter
  and the padding implement the textbook definition, whatever the context held before.\<close>

theorem sha256_streaming:
  assumes "length (sha_buf ctx) = 64"
  shows "fst (SHA256_Final (fold SHA256_Update pieces (SHA256_Init ctx))) = sha256_reference (concat pieces)"
  using final_reference [OF absorbed_updates [OF absorbed_init [OF assms], of pieces]] by simp

theorem sha256_streaming_witness:
  "fst (SHA256_Final (fold SHA256_Update [[0x61, 0x62], [0x63]]
     (SHA256_Init \<lparr>sha_state = replicate 8 0, sha_count = (0, 0), sha_buf = replicate 64 0\<rparr>))) =
   sha256_reference [0x61, 0x62, 0x63]"
  using sha256_streaming [of "\<lparr>sha_state = replicate 8 0, sha_count = (0, 0), sha_buf = replicate 64 0\<rparr>"
      "[[0x61, 0x62], [0x63]]"] by simp

lemma sha256_buffer_reference: "length (sha_buf ctx) = 64 \<Longrightarrow> sha256_buffer ctx buf = sha256_reference buf"
  using final_reference [OF absorbed_update [OF absorbed_init], of ctx buf] by (simp add: sha256_buffer_def)

lemma length_sha256_reference: "length (sha256_reference m) = 32"
proof -
  have "length (concat (map be32enc xs)) = 4 * length xs" for xs by (induction xs) simp_all
  then show ?thesis
    using length_fips_blocks [of fips_initial "fips_pad m"] by (simp add: sha256_reference_def fips_initial_def)
qed

end
