(* ===== verification/Flash_Files.thy ===== *)
theory Flash_Files
  imports Flash_Image Flash_Pages Sha256_Reference
begin

unbundle bit_operations_syntax

text \<open>
  Image files end to end: the layout of a packed image is undone by unpacking, a written file reads
  back with the standard's SHA-256 digest as checksum, and a calibration image carries the values of
  the calibration region.
\<close>

section \<open>Byte order\<close>

lemma get_be:
  "length pre = n \<Longrightarrow> get_be16 (pre @ be16 w @ post) n = w"
  "length pre = n \<Longrightarrow> get_be32 (pre @ be32 x @ post) n = x"
  "length pre = n \<Longrightarrow> get_be64 (pre @ be64 y @ post) n = y"
  using le16_bytes [of w] le32_bytes [of x] le64_bytes [of y]
  by (auto simp: get_be16_def get_be32_def get_be64_def be16_def be32_def be64_def nth_append)

lemma length_be [simp]: "length (be16 w) = 2" "length (be32 x) = 4" "length (be64 y) = 8"
  by (simp_all add: be16_def be32_def be64_def)

section \<open>Layout of a packed image\<close>

definition image_ok :: "bladerf_image \<Rightarrow> bool" where
  \<comment> \<open>the sizes of the C arrays\<close>
  "image_ok img \<longleftrightarrow> length (img_magic img) = BLADERF_IMAGE_MAGIC_LEN + 1 \<and>
     length (img_serial img) = BLADERF_SERIAL_LENGTH + 1 \<and> unat (img_length img) \<le> length (img_data img)"

definition image_as_stored :: "u8 list \<Rightarrow> bladerf_image \<Rightarrow> bladerf_image" where
  \<comment> \<open>what a reader sees of an image: the reserved bytes are not stored\<close>
  "image_as_stored checksum img = img\<lparr>img_magic := image_magic @ [0], img_checksum := checksum,
     img_serial := take BLADERF_SERIAL_LENGTH (img_serial img) @ [0],
     img_reserved := replicate BLADERF_IMAGE_RESERVED_LEN 0,
     img_data := take (unat (img_length img)) (img_data img)\<rparr>"

lemmas image_sizes = CALC_IMAGE_SIZE_def BLADERF_IMAGE_MAGIC_LEN_def BLADERF_IMAGE_CHECKSUM_LEN_def
  BLADERF_SERIAL_LENGTH_def BLADERF_IMAGE_RESERVED_LEN_def SHA256_DIGEST_SIZE_def

lemma length_image_header: "image_ok img \<Longrightarrow> length (image_header img) = 187"
  by (simp add: image_header_def image_ok_def image_sizes)

lemma length_image_magic [simp]: "length image_magic = 7"
  by (simp add: image_magic_def chars_def)

lemma unpack_layout:
  assumes img: "image_ok img" and sum: "length checksum = 32" and ty: "image_type_is_valid (img_type img)"
  shows "unpack_image (image_magic @ checksum @ image_header img @ take (unat (img_length img)) (img_data img)) =
    Ok (image_as_stored checksum img)"
proof -
  let ?v = "img_version img" and ?data = "take (unat (img_length img)) (img_data img)"
  let ?serial = "take 33 (img_serial img)"
  let ?b = "image_magic @ checksum @ image_header img @ ?data"
  have ser: "length ?serial = 33" using img by (simp add: image_ok_def image_sizes)
  have h: "image_header img = be16 (v_major ?v) @ be16 (v_minor ?v) @ be16 (v_patch ?v) @ be64 (img_timestamp img) @
      ?serial @ replicate 128 0 @ be32 (img_type img) @ be32 (img_address img) @ be32 (img_length img)"
    by (simp add: image_header_def image_sizes)
  have "length ?data = unat (img_length img)" using img by (simp add: image_ok_def)
  then have len: "length ?b = 226 + unat (img_length img)" using length_image_header [OF img] sum by simp
  have fields: "get_be16 ?b 39 = v_major ?v" "get_be16 ?b 41 = v_minor ?v" "get_be16 ?b 43 = v_patch ?v"
    "get_be64 ?b 45 = img_timestamp img" "get_be32 ?b 214 = img_type img" "get_be32 ?b 218 = img_address img"
    "get_be32 ?b 222 = img_length img"
  proof -
    let ?p1 = "image_magic @ checksum" and ?z = "replicate 128 (0 :: u8)"
    let ?p2 = "?p1 @ be16 (v_major ?v)"
    let ?p3 = "?p2 @ be16 (v_minor ?v)"
    let ?p4 = "?p3 @ be16 (v_patch ?v)"
    let ?p5 = "?p4 @ be64 (img_timestamp img) @ ?serial @ ?z"
    let ?p6 = "?p5 @ be32 (img_type img)"
    let ?p7 = "?p6 @ be32 (img_address img)"
    let ?q7 = "?data" let ?q6 = "be32 (img_length img) @ ?q7" let ?q5 = "be32 (img_address img) @ ?q6"
    let ?q4 = "?serial @ ?z @ be32 (img_type img) @ ?q5" let ?q3 = "be64 (img_timestamp img) @ ?q4"
    let ?q2 = "be16 (v_patch ?v) @ ?q3" let ?q1 = "be16 (v_minor ?v) @ ?q2"
    have l: "length ?p1 = 39" "length ?p2 = 41" "length ?p3 = 43" "length ?p4 = 45" "length ?p5 = 214" "length ?p6 = 218"
      "length ?p7 = 222" using sum ser by simp_all
    have e: "?b = ?p1 @ be16 (v_major ?v) @ ?q1" "?b = ?p2 @ be16 (v_minor ?v) @ ?q2" "?b = ?p3 @ be16 (v_patch ?v) @ ?q3"
      "?b = ?p4 @ be64 (img_timestamp img) @ ?q4" "?b = ?p5 @ be32 (img_type img) @ ?q5"
      "?b = ?p6 @ be32 (img_address img) @ ?q6" "?b = ?p7 @ be32 (img_length img) @ ?q7"
      unfolding h by (simp_all only: append_assoc)
    show "get_be16 ?b 39 = v_major ?v" unfolding e(1) by (rule get_be(1) [OF l(1)])
    show "get_be16 ?b 41 = v_minor ?v" unfolding e(2) by (rule get_be(1) [OF l(2)])
    show "get_be16 ?b 43 = v_patch ?v" unfolding e(3) by (rule get_be(1) [OF l(3)])
    show "get_be64 ?b 45 = img_timestamp img" unfolding e(4) by (rule get_be(3) [OF l(4)])
    show "get_be32 ?b 214 = img_type img" unfolding e(5) by (rule get_be(2) [OF l(5)])
    show "get_be32 ?b 218 = img_address img" unfolding e(6) by (rule get_be(2) [OF l(6)])
    show "get_be32 ?b 222 = img_length img" unfolding e(7) by (rule get_be(2) [OF l(7)])
  qed
  have parts: "take 7 ?b = image_magic" "take 32 (drop 7 ?b) = checksum" "take 33 (drop 53 ?b) = ?serial"
    "take 128 (drop 86 ?b) = replicate 128 0" "take (unat (img_length img)) (drop 226 ?b) = ?data"
    unfolding h using sum ser by simp_all
  show ?thesis
    unfolding unpack_image_def Let_def fields image_sizes parts len image_as_stored_def
    using ty by simp
qed

section \<open>Written images\<close>

definition image_digest :: "bladerf_image \<Rightarrow> u8 list" where
  "image_digest img = sha256_reference (image_magic @ replicate 32 0 @ image_header img @
     take (unat (img_length img)) (img_data img))"

lemma image_write_file:
  assumes "bladerf_image_write arch ctx write_file img = Ok ()" "length (sha_buf ctx) = 64"
  shows "write_file (image_magic @ image_digest img @ image_header img @ take (unat (img_length img)) (img_data img)) = Ok ()"
    "image_type_is_valid (img_type img)" "unat (img_length img) \<le> length (img_data img)"
  using assms
  by (auto simp: bladerf_image_write_def pack_image_def Let_def image_digest_def image_sizes sha256_buffer_reference
      split: if_splits)

lemma image_read_file:
  assumes "image_ok img" "image_type_is_valid (img_type img)" "0 < img_length img" "length (sha_buf ctx) = 64"
  shows "bladerf_image_read ctx (Ok (image_magic @ image_digest img @ image_header img @
      take (unat (img_length img)) (img_data img))) = Ok (image_as_stored (image_digest img) img)"
proof -
  let ?data = "take (unat (img_length img)) (img_data img)"
  let ?b = "image_magic @ image_digest img @ image_header img @ ?data"
  have d: "length (image_digest img) = 32" by (simp add: image_digest_def length_sha256_reference)
  have "0 < unat (img_length img)" using assms(3) by (simp add: word_less_nat_alt)
  moreover have "length ?data = unat (img_length img)" using assms(1) by (simp add: image_ok_def)
  ultimately have len: "226 < length ?b" using length_image_header [OF assms(1)] d by simp
  have "take 32 (drop 7 ?b) = image_digest img" "take 7 ?b @ replicate 32 0 @ drop (7 + 32) ?b =
      image_magic @ replicate 32 0 @ image_header img @ ?data" using d by simp_all
  then have "verify_checksum ctx ?b = Ok ()"
    using len assms(4)
    by (simp add: verify_checksum_def Let_def image_sizes sha256_buffer_reference image_digest_def)
  then show ?thesis using unpack_layout [OF assms(1) d assms(2)] by (simp add: bladerf_image_read_def)
qed

definition checksum_cleared :: "u8 list \<Rightarrow> u8 list" where
  "checksum_cleared f = take 7 f @ replicate 32 0 @ drop (7 + 32) f"

lemma read_checked:
  assumes "bladerf_image_read ctx (Ok f) = Ok img" "length (sha_buf ctx) = 64"
  shows "take 7 f = image_magic" "take 32 (drop 7 f) = img_checksum img"
    "img_checksum img = sha256_reference (checksum_cleared f)"
    "f = image_magic @ img_checksum img @ drop (7 + 32) f"
proof -
  show f: "take 7 f = image_magic" "take 32 (drop 7 f) = img_checksum img"
    "img_checksum img = sha256_reference (checksum_cleared f)"
    using assms by (auto simp: bladerf_image_read_def verify_checksum_def unpack_image_def Let_def image_sizes
        checksum_cleared_def sha256_buffer_reference split: if_splits)
  show "f = image_magic @ img_checksum img @ drop (7 + 32) f"
    using f(1,2) append_take_drop_id [of 7 f] append_take_drop_id [of 32 "drop 7 f"]
    by (metis append_assoc drop_drop add.commute)
qed

text \<open>C34. An image that was written successfully reads back from its file: all fields and the data
  are those of the image, the checksum is the SHA-256 digest of the image with the checksum field
  cleared, and the reserved bytes are zero. A different file that is read successfully with the same
  checksum differs from it outside of the checksum field and has the same digest: it is a collision of
  SHA-256 with the written image.\<close>

theorem image_file_roundtrip:
  assumes "image_ok img" "0 < img_length img" "length (sha_buf ctx) = 64" "length (sha_buf ctx') = 64"
    and "bladerf_image_write arch ctx write_file img = Ok ()" "\<And>b. write_file b = Ok () \<Longrightarrow> b = file"
  shows "bladerf_image_read ctx' (Ok file) = Ok (image_as_stored (image_digest img) img) \<and>
    (\<forall>file' img'. bladerf_image_read ctx' (Ok file') = Ok img' \<longrightarrow> img_checksum img' = image_digest img \<longrightarrow>
      file' \<noteq> file \<longrightarrow> checksum_cleared file' \<noteq> checksum_cleared file \<and>
        sha256_reference (checksum_cleared file') = sha256_reference (checksum_cleared file))"
proof -
  note w = image_write_file [OF assms(5,3)]
  have fl: "file = image_magic @ image_digest img @ image_header img @ take (unat (img_length img)) (img_data img)"
    using assms(6) [OF w(1)] by simp
  have rd: "bladerf_image_read ctx' (Ok file) = Ok (image_as_stored (image_digest img) img)"
    using image_read_file [OF assms(1) w(2) assms(2,4)] fl by simp
  note f = read_checked [OF rd assms(4)]
  have "checksum_cleared file' \<noteq> checksum_cleared file \<and>
      sha256_reference (checksum_cleared file') = sha256_reference (checksum_cleared file)"
    if r: "bladerf_image_read ctx' (Ok file') = Ok img'" "img_checksum img' = image_digest img" "file' \<noteq> file" for file' img'
  proof -
    note f' = read_checked [OF r(1) assms(4)]
    have sum: "img_checksum (image_as_stored (image_digest img) img) = image_digest img" by (simp add: image_as_stored_def)
    have "drop (7 + 32) file' \<noteq> drop (7 + 32) file" using f(4) f'(4) r(2,3) sum by metis
    then have "checksum_cleared file' \<noteq> checksum_cleared file" using f(1) f'(1) by (simp add: checksum_cleared_def)
    then show ?thesis using f(3) f'(3) r(2) sum by simp
  qed
  then show ?thesis using rd by blast
qed

definition raw_image :: bladerf_image where
  "raw_image = \<lparr>img_magic = image_magic @ [0], img_checksum = replicate 32 0,
     img_version = \<lparr>v_major = 0, v_minor = 1, v_patch = 0\<rparr>, img_timestamp = 5, img_serial = replicate 34 0,
     img_reserved = replicate 128 0, img_type = BLADERF_IMAGE_TYPE_RAW, img_address = 0xffffffff, img_length = 2,
     img_data = [1, 2]\<rparr>"

definition zero_ctx :: SHA256_CTX where
  "zero_ctx = \<lparr>sha_state = replicate 8 0, sha_count = (0, 0), sha_buf = replicate 64 0\<rparr>"

definition flash_32mbit :: bladerf_flash_arch where
  "flash_32mbit = \<lparr>arch_status = STATUS_SUCCESS, manufacturer_id = 0xEF, device_id = 0x15, tsize_bytes = 0x400000, psize_bytes = 256, ebsize_bytes = 0x10000, num_pages = 16384, num_ebs = 64\<rparr>"

lemma raw_image_written:
  "bladerf_image_write flash_32mbit zero_ctx wr raw_image =
   wr (image_magic @ image_digest raw_image @ image_header raw_image @ [1, 2])"
proof -
  have "take 7 (img_magic raw_image) = image_magic" "image_type_is_valid (img_type raw_image)"
    "img_address raw_image = 0xffffffff" "length (img_data raw_image) = 2" "unat (img_length raw_image) = 2"
    "img_data raw_image = [1, 2]"
    by (simp_all add: raw_image_def image_type_is_valid_def BLADERF_IMAGE_TYPE_RAW_def BLADERF_IMAGE_TYPE_GAIN_CAL_def)
  moreover have "sha256_buffer zero_ctx m = sha256_reference m" for m
    by (rule sha256_buffer_reference) (simp add: zero_ctx_def)
  ultimately show ?thesis
    by (simp add: bladerf_image_write_def pack_image_def Let_def image_sizes image_digest_def)
qed

theorem image_file_roundtrip_witness:
  "bladerf_image_read zero_ctx (Ok (image_magic @ image_digest raw_image @ image_header raw_image @ [1, 2])) =
   Ok (image_as_stored (image_digest raw_image) raw_image)"
proof -
  let ?f = "image_magic @ image_digest raw_image @ image_header raw_image @ [1, 2]"
  let ?w = "\<lambda>b. if b = ?f then Ok () else Err BLADERF_ERR_IO"
  have img: "image_ok raw_image" "0 < img_length raw_image" by (simp_all add: raw_image_def image_ok_def image_sizes)
  have ctx: "length (sha_buf zero_ctx) = 64" by (simp add: zero_ctx_def)
  have "bladerf_image_write flash_32mbit zero_ctx ?w raw_image = Ok ()" unfolding raw_image_written by simp
  moreover have "?w b = Ok () \<Longrightarrow> b = ?f" for b by (simp split: if_splits)
  ultimately show ?thesis by (rule image_file_roundtrip [OF img ctx ctx, THEN conjunct1])
qed

text \<open>C35. A calibration image made for a board, written to a file, read back and stored in the
  calibration region gives the board's FPGA size and VCTCXO trim again.\<close>

theorem cal_image_roundtrip:
  assumes "sz \<noteq> BLADERF_FPGA_UNKNOWN" "psize_bytes arch = 256" "0x30100 \<le> tsize_bytes arch"
    and "length (sha_buf ctx) = 64" "length (sha_buf ctx') = 64"
  shows "\<exists>img file img'. bladerf_alloc_cal_image arch now sz trim = Ok (Some img) \<and>
    (\<forall>write_file. bladerf_image_write arch ctx write_file img = write_file file) \<and>
    bladerf_image_read ctx' (Ok file) = Ok img' \<and> img_address img' = BLADERF_FLASH_ADDR_CAL \<and>
    spi_flash_read_fpga_size (Ok (img_data img')) = Ok sz \<and> spi_flash_read_vctcxo_trim (Ok (img_data img')) = Ok trim"
proof -
  obtain region where region: "make_cal_region sz trim 256 = Ok region" "length region = 256"
    "spi_flash_read_fpga_size (Ok region) = Ok sz" "spi_flash_read_vctcxo_trim (Ok region) = Ok trim"
    using cal_region_roundtrip [OF assms(1), of trim] by (auto simp: CAL_BUFFER_SIZE_def)
  let ?img = "\<lparr>img_magic = image_magic @ [0], img_checksum = replicate BLADERF_IMAGE_CHECKSUM_LEN 0,
        img_version = \<lparr>v_major = 0, v_minor = 1, v_patch = 0\<rparr>, img_timestamp = now,
        img_serial = replicate (BLADERF_SERIAL_LENGTH + 1) 0, img_reserved = replicate BLADERF_IMAGE_RESERVED_LEN 0,
        img_type = BLADERF_IMAGE_TYPE_CALIBRATION, img_address = BLADERF_FLASH_ADDR_CAL,
        img_length = BLADERF_FLASH_BYTE_LEN_CAL, img_data = region\<rparr>"
  have "is_valid_addr_len arch 0x30000 0x100"
    using assms(3) by (simp add: is_valid_addr_len_def word_le_nat_alt word_less_nat_alt)
  then have alloc: "bladerf_alloc_cal_image arch now sz trim = Ok (Some ?img)"
    using assms(2) region(1)
    by (simp add: bladerf_alloc_cal_image_def bladerf_alloc_image_def is_page_aligned_def BLADERF_FLASH_ADDR_CAL_def
        BLADERF_FLASH_BYTE_LEN_CAL_def)
  have valid: "image_type_is_valid (img_type ?img)" and notraw: "img_type ?img \<noteq> BLADERF_IMAGE_TYPE_RAW"
    by (simp_all add: image_type_is_valid_def BLADERF_IMAGE_TYPE_RAW_def BLADERF_IMAGE_TYPE_GAIN_CAL_def
        BLADERF_IMAGE_TYPE_CALIBRATION_def)
  have len: "unat (img_length ?img) = 256" "img_data ?img = region" by (simp_all add: BLADERF_FLASH_BYTE_LEN_CAL_def)
  have ok: "image_ok ?img" "0 < img_length ?img"
    using region(2) len by (simp_all add: image_ok_def image_sizes BLADERF_FLASH_BYTE_LEN_CAL_def)
  let ?file = "image_magic @ image_digest ?img @ image_header ?img @ region"
  have "bladerf_image_write arch ctx write_file ?img = write_file ?file" for write_file
    unfolding bladerf_image_write_def pack_image_def Let_def len image_digest_def
    using valid notraw region(2) sha256_buffer_reference [OF assms(4)] by (simp add: image_sizes)
  moreover have "bladerf_image_read ctx' (Ok ?file) = Ok (image_as_stored (image_digest ?img) ?img)"
    using image_read_file [OF ok(1) valid ok(2) assms(5)] len region(2) by simp
  moreover have "img_data (image_as_stored s ?img) = region" "img_address (image_as_stored s ?img) = BLADERF_FLASH_ADDR_CAL" for s
    using len region(2) by (simp_all add: image_as_stored_def)
  ultimately show ?thesis using alloc region(3,4) by metis
qed

theorem cal_image_roundtrip_witness:
  "\<exists>img file img'. bladerf_alloc_cal_image flash_32mbit 7 BLADERF_FPGA_A9 0x8c3a = Ok (Some img) \<and>
    (\<forall>write_file. bladerf_image_write flash_32mbit zero_ctx write_file img = write_file file) \<and>
    bladerf_image_read zero_ctx (Ok file) = Ok img' \<and> img_address img' = BLADERF_FLASH_ADDR_CAL \<and>
    spi_flash_read_fpga_size (Ok (img_data img')) = Ok BLADERF_FPGA_A9 \<and>
    spi_flash_read_vctcxo_trim (Ok (img_data img')) = Ok 0x8c3a"
  by (rule cal_image_roundtrip) (simp_all add: flash_32mbit_def zero_ctx_def)

end
