(* ===== verification/Flash_Write.thy ===== *)
theory Flash_Write
  imports Flash_Image
begin

text \<open>
  Writing the SPI flash: access checks and verification (\<^verbatim>\<open>driver/spi_flash.c\<close>), the firmware and FPGA
  regions (\<^verbatim>\<open>board/bladerf1/flash.c\<close>), the flash architecture, and the size checks of the board
  (\<^verbatim>\<open>board/bladerf1/bladerf1.c\<close>). The backend's flash operations and the LZMA encoder are parameters.
  Failing allocations are not modelled.
\<close>

definition BLADERF_FLASH_ADDR_FIRMWARE :: u32 where "BLADERF_FLASH_ADDR_FIRMWARE = 0"
definition BLADERF_FLASH_BYTE_LEN_FIRMWARE :: u32 where "BLADERF_FLASH_BYTE_LEN_FIRMWARE = 0x30000"
definition BLADERF_FLASH_ADDR_FPGA :: u32 where "BLADERF_FLASH_ADDR_FPGA = 0x40000"

section \<open>Flash architecture\<close>

definition flash_size_of_ids :: "u8 \<Rightarrow> u8 \<Rightarrow> u32 option" where
  \<comment> \<open>the chips the driver knows; \<^verbatim>\<open>n << 17\<close> is \<open>n\<close> Mbit in bytes\<close>
  "flash_size_of_ids mid did =
     (if mid = 0xC2 then (if did = 0x36 then Some (32 * 2 ^ 17) else None)
      else if mid = 0xEF then
        (if did = 0x15 then Some (32 * 2 ^ 17)
         else if did = 0x16 then Some (64 * 2 ^ 17)
         else if did = 0x17 then Some (128 * 2 ^ 17)
         else None)
      else if mid = 0x1F then (if did = 0x47 then Some (32 * 2 ^ 17) else None)
      else None)"

definition spi_flash_decode_flash_architecture ::
    "bladerf_fpga_size option \<Rightarrow> bladerf_flash_arch \<Rightarrow> unit outcome \<times> bladerf_flash_arch" where
  "spi_flash_decode_flash_architecture fpga_size arch =
     (let decoded = flash_size_of_ids (manufacturer_id arch) (device_id arch);
          tsize =
            (case decoded of
               Some n \<Rightarrow> n
             | None \<Rightarrow> if fpga_size = Some BLADERF_FPGA_A9 then 128 * 2 ^ 17 else 32 * 2 ^ 17) in
      (if decoded = None then Err BLADERF_ERR_UNEXPECTED else Ok (),
       arch\<lparr>arch_status := (if decoded = None then STATUS_ASSUMED else STATUS_SUCCESS),
         tsize_bytes := tsize, psize_bytes := 256, ebsize_bytes := 64 * 2 ^ 10,
         num_pages := tsize div 256, num_ebs := tsize div (64 * 2 ^ 10)\<rparr>))"

section \<open>Access to the flash\<close>

record 's flash_backend =
  erase_flash_blocks :: "u32 \<Rightarrow> u32 \<Rightarrow> ('s, unit) io"
  read_flash_pages :: "u32 \<Rightarrow> u32 \<Rightarrow> ('s, u8 list) io"
  write_flash_pages :: "u8 list \<Rightarrow> u32 \<Rightarrow> u32 \<Rightarrow> ('s, unit) io"

definition check_eb_access :: "bladerf_flash_arch \<Rightarrow> u32 \<Rightarrow> u32 \<Rightarrow> bool" where
  "check_eb_access arch erase_block count \<longleftrightarrow>
     erase_block < num_ebs arch \<and> count \<le> num_ebs arch \<and> erase_block + count \<le> num_ebs arch"

definition check_page_access :: "bladerf_flash_arch \<Rightarrow> u32 \<Rightarrow> u32 \<Rightarrow> bool" where
  "check_page_access arch page count \<longleftrightarrow>
     page < num_pages arch \<and> count \<le> num_pages arch \<and> page + count \<le> num_pages arch"

definition spi_flash_erase :: "bladerf_flash_arch \<Rightarrow> 's flash_backend \<Rightarrow> u32 \<Rightarrow> u32 \<Rightarrow> ('s, unit) io" where
  "spi_flash_erase arch be erase_block count =
     (if check_eb_access arch erase_block count then erase_flash_blocks be erase_block count
      else fail BLADERF_ERR_INVAL)"

definition spi_flash_read :: "bladerf_flash_arch \<Rightarrow> 's flash_backend \<Rightarrow> u32 \<Rightarrow> u32 \<Rightarrow> ('s, u8 list) io" where
  "spi_flash_read arch be page count =
     (if check_page_access arch page count then read_flash_pages be page count else fail BLADERF_ERR_INVAL)"

definition spi_flash_write :: "bladerf_flash_arch \<Rightarrow> 's flash_backend \<Rightarrow> u8 list \<Rightarrow> u32 \<Rightarrow> u32 \<Rightarrow> ('s, unit) io" where
  "spi_flash_write arch be buf page count =
     (if check_page_access arch page count then write_flash_pages be buf page count else fail BLADERF_ERR_INVAL)"

definition spi_flash_verify :: "bladerf_flash_arch \<Rightarrow> 's flash_backend \<Rightarrow> u8 list \<Rightarrow> u32 \<Rightarrow> u32 \<Rightarrow> ('s, unit) io" where
  "spi_flash_verify arch be expected_buf page count =
     seq (spi_flash_read arch be page count) (\<lambda>readback_buf.
       let len = unat (count * psize_bytes arch) in
       if take len expected_buf \<noteq> take len readback_buf then fail BLADERF_ERR_UNEXPECTED else ret ())"

section \<open>Firmware\<close>

definition padding_of :: "nat \<Rightarrow> nat \<Rightarrow> nat" where
  "padding_of len page_size = (if len mod page_size = 0 then 0 else page_size - len mod page_size)"

definition spi_flash_write_fx3_fw :: "bladerf_flash_arch \<Rightarrow> 's flash_backend \<Rightarrow> u8 list \<Rightarrow> ('s, unit) io" where
  "spi_flash_write_fx3_fw arch be img =
     (let page_size = psize_bytes arch;
          padding_len = padding_of (length img) (unat page_size);
          flash_page_fw = BLADERF_FLASH_ADDR_FIRMWARE div page_size;
          flash_eb_fw = BLADERF_FLASH_ADDR_FIRMWARE div ebsize_bytes arch;
          flash_eb_len_fw = BLADERF_FLASH_BYTE_LEN_FIRMWARE div ebsize_bytes arch in
      if length img \<ge> 2 ^ 32 - 1 - padding_len then fail BLADERF_ERR_INVAL
      else
        let padded_image = img @ replicate padding_len 0xff;
            pages = of_nat (length img + padding_len) div page_size in
        seq (spi_flash_erase arch be flash_eb_fw flash_eb_len_fw) (\<lambda>_.
        seq (spi_flash_write arch be padded_image flash_page_fw pages) (\<lambda>_.
        spi_flash_verify arch be padded_image flash_page_fw pages)))"

section \<open>FPGA bitstream\<close>

definition METADATA_LEN :: nat where "METADATA_LEN = 256"
definition FPGA_LZMA_BLOCK_BYTES :: nat where "FPGA_LZMA_BLOCK_BYTES = 60 * 1024"
definition FPGA_LZMA_MAX_BLOCK_BYTES :: nat where "FPGA_LZMA_MAX_BLOCK_BYTES = 65504"
definition LZMA_PROPS_SIZE :: nat where "LZMA_PROPS_SIZE = 5"

definition encode_into :: "nat \<Rightarrow> u8 list \<times> nat \<Rightarrow> string \<Rightarrow> u8 list \<Rightarrow> u8 list \<times> nat" where
  \<comment> \<open>\<open>binkv_encode_field\<close> with its status ignored\<close>
  "encode_into len pg field val =
     (case binkv_encode_field (fst pg) len (snd pg) (chars field) val of Ok pg' \<Rightarrow> pg' | _ \<Rightarrow> pg)"

definition fill_fpga_metadata_page :: "bladerf_flash_arch \<Rightarrow> nat \<Rightarrow> u8 list" where
  "fill_fpga_metadata_page arch actual_bitstream_len =
     (let n = unat (psize_bytes arch) in
      fst (encode_into n (replicate n 0xff, 0) ''LEN'' (print_u actual_bitstream_len)))"

definition fill_fpga_compressed_metadata_page :: "bladerf_flash_arch \<Rightarrow> nat \<Rightarrow> nat \<Rightarrow> string \<Rightarrow> u8 list" where
  "fill_fpga_compressed_metadata_page arch uncompressed_len compressed_len format =
     (let n = unat (psize_bytes arch);
          p1 = encode_into n (replicate n 0xff, 0) ''FMT'' (chars format);
          p2 = encode_into n p1 ''ULEN'' (print_u uncompressed_len);
          p3 = encode_into n p2 ''CLEN'' (print_u compressed_len) in
      fst p3)"

definition store_le32 :: "u32 \<Rightarrow> u8 list" where
  "store_le32 value = [byte_of 0 value, byte_of 1 value, byte_of 2 value, byte_of 3 value]"

definition fpga_autoload_fits :: "nat \<Rightarrow> nat \<Rightarrow> u32 \<Rightarrow> u32 \<Rightarrow> bool" where
  "fpga_autoload_fits len padding_len page_size flash_len \<longleftrightarrow>
     flash_len > page_size \<and> len < 2 ^ 32 - 1 - padding_len \<and>
     len + padding_len \<le> unat flash_len - unat page_size"

text \<open>\<open>LzmaEncode\<close> of a block: the encoded properties and the compressed bytes, or an error.\<close>

type_synonym lzma_encoder = "u8 list \<Rightarrow> (u8 list \<times> u8 list) outcome"

function lzma_encode_blocks :: "lzma_encoder \<Rightarrow> u8 list \<Rightarrow> u8 list outcome" where
  "lzma_encode_blocks enc inp =
     (if inp = [] then Ok []
      else
        (case enc (take FPGA_LZMA_BLOCK_BYTES inp) of
           Ok (props, body) \<Rightarrow>
             if length props \<noteq> LZMA_PROPS_SIZE \<or> length props + length body > FPGA_LZMA_MAX_BLOCK_BYTES
             then Err BLADERF_ERR_UNEXPECTED
             else
               (case lzma_encode_blocks enc (drop FPGA_LZMA_BLOCK_BYTES inp) of
                  Ok rest \<Rightarrow> Ok (store_le32 (of_nat (length props + length body)) @ props @ body @ rest)
                | Err e \<Rightarrow> Err e
                | Undef \<Rightarrow> Undef)
         | Err e \<Rightarrow> Err (if e = BLADERF_ERR_MEM then BLADERF_ERR_MEM else BLADERF_ERR_UNEXPECTED)
         | Undef \<Rightarrow> Undef))"
  by pat_completeness auto
termination
  by (relation "measure (\<lambda>(enc, inp). length inp)") (auto simp: FPGA_LZMA_BLOCK_BYTES_def)

declare lzma_encode_blocks.simps [simp del]

definition version_fields_greater_or_equal :: "bladerf_version \<Rightarrow> nat \<Rightarrow> nat \<Rightarrow> nat \<Rightarrow> bool" where
  "version_fields_greater_or_equal version major minor patch \<longleftrightarrow>
     unat (v_major version) > major \<or>
     unat (v_major version) = major \<and> unat (v_minor version) > minor \<or>
     unat (v_major version) = major \<and> unat (v_minor version) = minor \<and> unat (v_patch version) \<ge> patch"

definition version_fields_less_than :: "bladerf_version \<Rightarrow> nat \<Rightarrow> nat \<Rightarrow> nat \<Rightarrow> bool" where
  "version_fields_less_than version major minor patch \<longleftrightarrow>
     \<not> version_fields_greater_or_equal version major minor patch"

definition fpga_payload :: "lzma_encoder \<Rightarrow> bladerf_version \<Rightarrow> bool \<Rightarrow> u8 list \<Rightarrow> (bool \<times> u8 list) outcome" where
  \<comment> \<open>what is stored: the bitstream itself, or its compressed blocks when the firmware can read them\<close>
  "fpga_payload enc fw_version raw_fits bitstream =
     (if version_fields_less_than fw_version 2 6 1
      then (if \<not> raw_fits then Err BLADERF_ERR_UPDATE_FW else Ok (False, bitstream))
      else if length bitstream > 2 ^ 32 - 1 then Err BLADERF_ERR_INVAL
      else (case lzma_encode_blocks enc bitstream of
              Ok c \<Rightarrow> Ok (True, c)
            | Err e \<Rightarrow> Err e
            | Undef \<Rightarrow> Undef))"

definition write_fpga_payload :: "bladerf_flash_arch \<Rightarrow> 's flash_backend \<Rightarrow> u8 list \<Rightarrow> u8 list \<Rightarrow> ('s, unit) io" where
  "write_fpga_payload arch be metadata padded =
     (let page_size = psize_bytes arch;
          flash_page_fpga = BLADERF_FLASH_ADDR_FPGA div page_size;
          flash_eb_fpga = BLADERF_FLASH_ADDR_FPGA div ebsize_bytes arch;
          padded_len = of_nat (length padded) :: u32;
          eb_len = (padded_len + page_size + ebsize_bytes arch - 1) div ebsize_bytes arch;
          pages = padded_len div page_size in
      seq (spi_flash_erase arch be flash_eb_fpga eb_len) (\<lambda>_.
      seq (spi_flash_write arch be metadata flash_page_fpga 1) (\<lambda>_.
      seq (spi_flash_write arch be padded (flash_page_fpga + 1) pages) (\<lambda>_.
      if padded = [] then undef_io \<comment> \<open>the metadata page is read back into a buffer of the length of \<open>padded\<close>\<close>
      else
      seq (spi_flash_verify arch be metadata flash_page_fpga 1) (\<lambda>_.
      spi_flash_verify arch be padded (flash_page_fpga + 1) pages)))))"

definition spi_flash_write_fpga_bitstream ::
    "bladerf_flash_arch \<Rightarrow> 's flash_backend \<Rightarrow> lzma_encoder \<Rightarrow> ('s, bladerf_version) io \<Rightarrow> u8 list \<Rightarrow> ('s, unit) io" where
  "spi_flash_write_fpga_bitstream arch be enc get_fw_version bitstream =
     (let page_size = psize_bytes arch; flash_len = tsize_bytes arch - BLADERF_FLASH_ADDR_FPGA;
          raw_fits = fpga_autoload_fits (length bitstream) (padding_of (length bitstream) (unat page_size))
            page_size flash_len in
      if \<not> METADATA_LEN \<le> unat page_size then undef_io
      else if tsize_bytes arch \<le> BLADERF_FLASH_ADDR_FPGA then fail BLADERF_ERR_INVAL
      else
        seq get_fw_version (\<lambda>fw_version.
          case fpga_payload enc fw_version raw_fits bitstream of
            Ok (compressed, stored) \<Rightarrow>
              let padding_len = padding_of (length stored) (unat page_size) in
              if \<not> fpga_autoload_fits (length stored) padding_len page_size flash_len then fail BLADERF_ERR_INVAL
              else if METADATA_LEN < unat page_size then undef_io \<comment> \<open>the page is filled in a local array\<close>
              else
                write_fpga_payload arch be
                  (if compressed
                   then fill_fpga_compressed_metadata_page arch (length bitstream) (length stored) ''LZMA''
                   else fill_fpga_metadata_page arch (length bitstream))
                  (stored @ replicate padding_len 0xff)
          | Err e \<Rightarrow> fail e
          | Undef \<Rightarrow> undef_io))"

definition get_flash_eb_len_fpga :: "bladerf_flash_arch \<Rightarrow> nat \<Rightarrow> nat" where
  "get_flash_eb_len_fpga arch fpga_bytes =
     (let eb = unat (ebsize_bytes arch);
          eb_count = fpga_bytes div eb + (if fpga_bytes mod eb > 0 then 1 else 0);
          max_eb_count = unat (num_ebs arch - BLADERF_FLASH_ADDR_FPGA div ebsize_bytes arch) in
      if eb_count > max_eb_count then max_eb_count else eb_count)"

definition spi_flash_erase_fpga :: "bladerf_flash_arch \<Rightarrow> 's flash_backend \<Rightarrow> ('s, nat) io \<Rightarrow> ('s, unit) io" where
  \<comment> \<open>the length is asked for again; a negative status becomes a huge count\<close>
  "spi_flash_erase_fpga arch be get_fpga_bytes =
     seq get_fpga_bytes (\<lambda>_.
     attempt get_fpga_bytes (\<lambda>r.
     spi_flash_erase arch be (BLADERF_FLASH_ADDR_FPGA div ebsize_bytes arch)
       (case r of Ok fpga_bytes \<Rightarrow> of_nat (get_flash_eb_len_fpga arch fpga_bytes) | _ \<Rightarrow> - 1)))"

section \<open>Board\<close>

datatype bladerf1_state = STATE_UNINITIALIZED | STATE_FIRMWARE_LOADED | STATE_FPGA_LOADED | STATE_INITIALIZED

definition firmware_loaded :: "bladerf1_state \<Rightarrow> bool" where
  \<comment> \<open>\<^verbatim>\<open>CHECK_BOARD_STATE(STATE_FIRMWARE_LOADED)\<close>\<close>
  "firmware_loaded st \<longleftrightarrow> st \<noteq> STATE_UNINITIALIZED"

definition bladerf1_get_fpga_bytes :: "bladerf1_state \<Rightarrow> bladerf_fpga_size \<Rightarrow> nat outcome" where
  "bladerf1_get_fpga_bytes st fpga_size =
     (if \<not> firmware_loaded st then Err BLADERF_ERR_NOT_INIT
      else if fpga_size = BLADERF_FPGA_40KLE then Ok 1191788
      else if fpga_size = BLADERF_FPGA_115KLE then Ok 3571462
      else Err BLADERF_ERR_INVAL)"

definition is_valid_fpga_size :: "bladerf_flash_arch \<Rightarrow> bladerf1_state \<Rightarrow> bool \<Rightarrow> bladerf_fpga_size \<Rightarrow> nat \<Rightarrow> bool" where
  \<comment> \<open>\<open>override\<close>: \<^verbatim>\<open>BLADERF_SKIP_FPGA_SIZE_CHECK\<close> is set; a negative status is returned as \<^verbatim>\<open>bool\<close>, that is
    as \<^verbatim>\<open>true\<close>\<close>
  "is_valid_fpga_size arch st override fpga len =
     (case bladerf1_get_fpga_bytes st fpga of
        Ok expected \<Rightarrow>
          override \<or>
          (if expected > 0 then len = expected
           else \<not> len < 1 * 1024 * 1024 \<and> \<not> len > unat (tsize_bytes arch - BLADERF_FLASH_ADDR_FPGA))
      | _ \<Rightarrow> True)"

definition bladerf1_flash_fpga ::
    "bladerf_flash_arch \<Rightarrow> 's flash_backend \<Rightarrow> lzma_encoder \<Rightarrow> ('s, bladerf_version) io \<Rightarrow> bladerf1_state \<Rightarrow> bool \<Rightarrow>
     bladerf_fpga_size \<Rightarrow> u8 list \<Rightarrow> ('s, unit) io" where
  "bladerf1_flash_fpga arch be enc get_fw_version st override fpga buf =
     (if \<not> firmware_loaded st then fail BLADERF_ERR_NOT_INIT
      else if \<not> is_valid_fpga_size arch st override fpga (length buf) then fail BLADERF_ERR_INVAL
      else spi_flash_write_fpga_bitstream arch be enc get_fw_version buf)"

definition bladerf1_erase_stored_fpga ::
    "bladerf_flash_arch \<Rightarrow> 's flash_backend \<Rightarrow> bladerf1_state \<Rightarrow> bladerf_fpga_size \<Rightarrow> ('s, unit) io" where
  "bladerf1_erase_stored_fpga arch be st fpga =
     (if \<not> firmware_loaded st then fail BLADERF_ERR_NOT_INIT
      else spi_flash_erase_fpga arch be (\<lambda>s. (bladerf1_get_fpga_bytes st fpga, s)))"

definition is_valid_fw_size :: "nat \<Rightarrow> bool" where
  "is_valid_fw_size len \<longleftrightarrow> \<not> len < 50 * 1024 \<and> \<not> len > unat BLADERF_FLASH_BYTE_LEN_FIRMWARE"

definition bladerf1_flash_firmware ::
    "bladerf_flash_arch \<Rightarrow> 's flash_backend \<Rightarrow> bladerf1_state \<Rightarrow> bool \<Rightarrow> u8 list \<Rightarrow> ('s, unit) io" where
  \<comment> \<open>\<open>skip_check\<close>: \<^verbatim>\<open>BLADERF_SKIP_FW_SIZE_CHECK\<close> is set in the environment\<close>
  "bladerf1_flash_firmware arch be st skip_check buf =
     (if \<not> firmware_loaded st then fail BLADERF_ERR_NOT_INIT
      else if \<not> skip_check \<and> \<not> is_valid_fw_size (length buf) then fail BLADERF_ERR_INVAL
      else spi_flash_write_fx3_fw arch be buf)"

end
