(* ===== verification/Flash_Regions.thy ===== *)
theory Flash_Regions
  imports Flash_Write Flash_Pages
begin

unbundle bit_operations_syntax

text \<open>
  The regions of the flash: what a successful write leaves in the memory, that a working chip makes
  it succeed, and that the other regions keep their contents. The chip is described by how the
  backend's operations act on the memory; only accesses inside of the chip are described.
\<close>

section \<open>Flash memory\<close>

definition honest_reads :: "bladerf_flash_arch \<Rightarrow> 's flash_backend \<Rightarrow> ('s \<Rightarrow> nat \<Rightarrow> u8) \<Rightarrow> bool" where
  \<comment> \<open>a read that succeeds returns the memory and does not change it; nothing is said of erasing and writing\<close>
  "honest_reads arch be mem \<longleftrightarrow>
     (\<forall>page n s buf s'. check_page_access arch page n \<longrightarrow> read_flash_pages be page n s = (Ok buf, s') \<longrightarrow>
        mem s' = mem s \<and>
        buf = map (mem s) [unat page * unat (psize_bytes arch)..<(unat page + unat n) * unat (psize_bytes arch)])"

definition nor_flash :: "bladerf_flash_arch \<Rightarrow> 's flash_backend \<Rightarrow> ('s \<Rightarrow> nat \<Rightarrow> u8) \<Rightarrow> bool" where
  \<comment> \<open>a working chip: erasing sets bits, writing clears bits, reading returns the memory\<close>
  "nor_flash arch be mem \<longleftrightarrow>
     (let P = unat (psize_bytes arch); E = unat (ebsize_bytes arch) in
      (\<forall>eb n s. check_eb_access arch eb n \<longrightarrow> (\<exists>s'. erase_flash_blocks be eb n s = (Ok (), s') \<and>
         mem s' = (\<lambda>a. if unat eb * E \<le> a \<and> a < (unat eb + unat n) * E then 0xff else mem s a))) \<and>
      (\<forall>buf page n s. check_page_access arch page n \<longrightarrow> unat n * P \<le> length buf \<longrightarrow>
         (\<exists>s'. write_flash_pages be buf page n s = (Ok (), s') \<and>
         mem s' = (\<lambda>a. if unat page * P \<le> a \<and> a < (unat page + unat n) * P
           then mem s a AND buf ! (a - unat page * P) else mem s a))) \<and>
      (\<forall>page n s. check_page_access arch page n \<longrightarrow> (\<exists>s'. read_flash_pages be page n s =
         (Ok (map (mem s) [unat page * P..<(unat page + unat n) * P]), s') \<and> mem s' = mem s)))"

definition known_flash :: "bladerf_flash_arch \<Rightarrow> bool" where
  "known_flash arch \<longleftrightarrow> psize_bytes arch = 256 \<and> ebsize_bytes arch = 0x10000 \<and>
     (\<exists>m \<in> {4, 8, 16}. tsize_bytes arch = m * 2 ^ 20 \<and> num_pages arch = m * 4096 \<and> num_ebs arch = m * 16)"

lemma decoded_flash_known: "known_flash (snd (spi_flash_decode_flash_architecture sz arch))"
  by (simp add: spi_flash_decode_flash_architecture_def flash_size_of_ids_def known_flash_def Let_def)

lemma padding_pages:
  assumes "0 < P"
  shows "P dvd n + padding_of n P" "padding_of n P < P"
proof -
  have m: "n mod P < P" using assms by simp
  show "padding_of n P < P" using assms m by (auto simp: padding_of_def)
  have "n = P * (n div P) + n mod P" by simp
  then have "n + (P - n mod P) = P * (n div P) + P" using m by linarith
  then show "P dvd n + padding_of n P" by (auto simp: padding_of_def dvd_eq_mod_eq_0)
qed

lemma pages_of_bytes:
  assumes "256 dvd L" "L < 2 ^ 32"
  shows "unat (of_nat L div 256 :: u32) = L div 256" "unat ((of_nat L div 256 :: u32) * 256) = L"
proof -
  show p: "unat (of_nat L div 256 :: u32) = L div 256" using assms(2) by (simp add: unat_div unat_of_nat)
  obtain k where k: "L = 256 * k" using assms(1) by (elim dvdE)
  then show "unat ((of_nat L div 256 :: u32) * 256) = L"
    using assms(2) p by (simp add: unat_word_ariths)
qed

section \<open>Verified contents\<close>

definition holds :: "(nat \<Rightarrow> u8) \<Rightarrow> nat \<Rightarrow> u8 list \<Rightarrow> bool" where
  "holds mem base bytes \<longleftrightarrow> (\<forall>i < length bytes. mem (base + i) = bytes ! i)"

lemma holds_append: "holds mem base (xs @ ys) \<longleftrightarrow> holds mem base xs \<and> holds mem (base + length xs) ys"
proof -
  have "(\<forall>i < length xs + length ys. mem (base + i) = (xs @ ys) ! i) \<longleftrightarrow>
      (\<forall>i < length xs. mem (base + i) = xs ! i) \<and> (\<forall>i < length ys. mem (base + length xs + i) = ys ! i)"
    (is "?l \<longleftrightarrow> ?r")
  proof
    assume l: ?l
    have "mem (base + length xs + i) = ys ! i" if "i < length ys" for i
      using l [rule_format, of "length xs + i"] that by (simp add: add.assoc)
    then show ?r using l by (auto simp: nth_append)
  next
    assume r: ?r
    show ?l
    proof (intro allI impI)
      fix i assume "i < length xs + length ys"
      then show "mem (base + i) = (xs @ ys) ! i"
        using r [THEN conjunct2, rule_format, of "i - length xs"] r by (cases "i < length xs") (auto simp: nth_append)
    qed
  qed
  then show ?thesis by (simp add: holds_def)
qed

lemma holds_map: "holds mem base bytes \<longleftrightarrow> map mem [base..<base + length bytes] = bytes"
  unfolding holds_def list_eq_iff_nth_eq [of "map mem [base..<base + length bytes]" bytes] by simp

lemma verified_contents:
  assumes "honest_reads arch be mem" "psize_bytes arch = 256" "256 dvd length bytes" "length bytes < 2 ^ 32"
    and "spi_flash_verify arch be bytes page (of_nat (length bytes) div 256) s = (Ok (), s')"
  shows "mem s' = mem s" "holds (mem s) (unat page * 256) bytes"
proof -
  let ?n = "of_nat (length bytes) div 256 :: u32"
  note n = pages_of_bytes [OF assms(3,4)]
  obtain buf where r: "check_page_access arch page ?n" "read_flash_pages be page ?n s = (Ok buf, s')"
    "take (length bytes) buf = bytes"
    using assms(2,5) n(2)
    by (auto simp: spi_flash_verify_def spi_flash_read_def seq_eq_Ok_iff Let_def fail_def ret_def split: if_splits)
  have h: "mem s' = mem s" "buf = map (mem s) [unat page * 256..<(unat page + length bytes div 256) * 256]"
    using assms(1) [unfolded honest_reads_def, rule_format, OF r(1,2)] unfolding assms(2) n(1) by simp_all
  have "(unat page + length bytes div 256) * 256 = unat page * 256 + length bytes"
    using assms(3) by (simp add: algebra_simps)
  then have "buf = map (mem s) [unat page * 256..<unat page * 256 + length bytes]" using h(2) by simp
  then show "mem s' = mem s" "holds (mem s) (unat page * 256) bytes" using h(1) r(3) by (simp_all add: holds_map)
qed

section \<open>Firmware region\<close>

lemma firmware_written:
  assumes "honest_reads arch be mem" "psize_bytes arch = 256"
    and "spi_flash_write_fx3_fw arch be img s = (Ok (), s')"
  shows "holds (mem s') 0 (img @ replicate (padding_of (length img) 256) 0xff)"
proof -
  let ?b = "img @ replicate (padding_of (length img) 256) 0xff"
  have len: "length img < 2 ^ 32 - 1 - padding_of (length img) 256"
    using assms(2,3) by (auto simp: spi_flash_write_fx3_fw_def Let_def fail_def split: if_splits)
  obtain t where "spi_flash_verify arch be ?b 0 (of_nat (length img + padding_of (length img) 256) div 256) t = (Ok (), s')"
    using assms(2,3) len
    by (auto simp: spi_flash_write_fx3_fw_def Let_def seq_eq_Ok_iff BLADERF_FLASH_ADDR_FIRMWARE_def)
  then have v: "spi_flash_verify arch be ?b 0 (of_nat (length ?b) div 256) t = (Ok (), s')" by simp
  have "256 dvd length ?b" using padding_pages(1) [of 256 "length img"] by simp
  moreover have "length ?b < 2 ^ 32" using len by simp
  ultimately have "mem s' = mem t" "holds (mem t) (unat (0 :: u32) * 256) ?b"
    by (rule verified_contents [OF assms(1,2) _ _ v])+
  then show ?thesis by simp
qed

lemma nor_reads_honest: "nor_flash arch be mem \<Longrightarrow> honest_reads arch be mem"
proof (unfold honest_reads_def, intro allI impI)
  fix page n s buf s'
  assume n: "nor_flash arch be mem" and a: "check_page_access arch page n" "read_flash_pages be page n s = (Ok buf, s')"
  obtain t where "read_flash_pages be page n s = (Ok (map (mem s)
      [unat page * unat (psize_bytes arch)..<(unat page + unat n) * unat (psize_bytes arch)]), t)" "mem t = mem s"
    using n [unfolded nor_flash_def Let_def, THEN conjunct2, THEN conjunct2, rule_format, OF a(1), of s] by blast
  then show "mem s' = mem s \<and>
      buf = map (mem s) [unat page * unat (psize_bytes arch)..<(unat page + unat n) * unat (psize_bytes arch)]"
    using a(2) by simp
qed

lemma nor_operations:
  assumes "nor_flash arch be mem" "psize_bytes arch = 256" "ebsize_bytes arch = 0x10000"
  shows erase_works: "check_eb_access arch eb n \<Longrightarrow> \<exists>s'. spi_flash_erase arch be eb n s = (Ok (), s') \<and>
      mem s' = (\<lambda>a. if unat eb * 0x10000 \<le> a \<and> a < (unat eb + unat n) * 0x10000 then 0xff else mem s a)"
    and write_works: "check_page_access arch page n \<Longrightarrow> unat n * 256 \<le> length buf \<Longrightarrow>
      \<exists>s'. spi_flash_write arch be buf page n s = (Ok (), s') \<and>
        mem s' = (\<lambda>a. if unat page * 256 \<le> a \<and> a < (unat page + unat n) * 256
          then mem s a AND buf ! (a - unat page * 256) else mem s a)"
    and read_works: "check_page_access arch page n \<Longrightarrow> \<exists>s'. spi_flash_read arch be page n s =
      (Ok (map (mem s) [unat page * 256..<(unat page + unat n) * 256]), s') \<and> mem s' = mem s"
  using assms by (auto simp: nor_flash_def spi_flash_erase_def spi_flash_write_def spi_flash_read_def)

lemma verify_works:
  assumes "nor_flash arch be mem" "psize_bytes arch = 256" "ebsize_bytes arch = 0x10000"
    and "256 dvd length bytes" "length bytes < 2 ^ 32" "check_page_access arch page (of_nat (length bytes) div 256)"
    and "holds (mem s) (unat page * 256) bytes"
  shows "\<exists>s'. spi_flash_verify arch be bytes page (of_nat (length bytes) div 256) s = (Ok (), s') \<and> mem s' = mem s"
proof -
  note n = pages_of_bytes [OF assms(4,5)]
  have "(unat page + length bytes div 256) * 256 = unat page * 256 + length bytes"
    using assms(4) by (simp add: algebra_simps)
  then obtain s' where "spi_flash_read arch be page (of_nat (length bytes) div 256) s = (Ok bytes, s')" "mem s' = mem s"
    using read_works [OF assms(1-3,6), of s] assms(7) n(1) by (auto simp: holds_map)
  then show ?thesis
    using n(2) assms(2) by (simp add: spi_flash_verify_def seq_Ok ret_apply)
qed

lemma write_works_bytes:
  assumes "nor_flash arch be mem" "psize_bytes arch = 256" "ebsize_bytes arch = 0x10000"
    and "256 dvd length bytes" "length bytes < 2 ^ 32" "check_page_access arch page (of_nat (length bytes) div 256)"
    and "\<And>i. i < length bytes \<Longrightarrow> mem s (unat page * 256 + i) = 0xff"
  shows "\<exists>s'. spi_flash_write arch be bytes page (of_nat (length bytes) div 256) s = (Ok (), s') \<and>
    holds (mem s') (unat page * 256) bytes \<and>
    (\<forall>a. a < unat page * 256 \<or> unat page * 256 + length bytes \<le> a \<longrightarrow> mem s' a = mem s a)"
proof -
  note n = pages_of_bytes [OF assms(4,5)]
  have e: "(unat page + length bytes div 256) * 256 = unat page * 256 + length bytes"
    using assms(4) by (simp add: algebra_simps)
  have "unat (of_nat (length bytes) div 256 :: u32) * 256 \<le> length bytes" unfolding n(1) by simp
  then obtain s' where s': "spi_flash_write arch be bytes page (of_nat (length bytes) div 256) s = (Ok (), s')"
    "mem s' = (\<lambda>a. if unat page * 256 \<le> a \<and> a < unat page * 256 + length bytes
          then mem s a AND bytes ! (a - unat page * 256) else mem s a)"
    using write_works [OF assms(1-3,6), of bytes s] unfolding n(1) e by blast
  have "(0xff :: u8) = - 1" by simp
  then have m: "(0xff :: u8) AND x = x" for x by (metis and.left_neutral)
  have "holds (mem s') (unat page * 256) bytes"
    unfolding holds_def s'(2) using assms(7) m by simp
  moreover have "\<forall>a. a < unat page * 256 \<or> unat page * 256 + length bytes \<le> a \<longrightarrow> mem s' a = mem s a"
    unfolding s'(2) by auto
  ultimately show ?thesis using s'(1) by blast
qed

lemma padded_image_fits:
  assumes "is_valid_fw_size (length img)"
  shows "length img + padding_of (length img) 256 \<le> 0x30000"
proof -
  have l: "length img \<le> 0x30000" using assms by (simp add: is_valid_fw_size_def BLADERF_FLASH_BYTE_LEN_FIRMWARE_def)
  have p: "256 dvd length img + padding_of (length img) 256" "padding_of (length img) 256 < 256"
    using padding_pages [of 256 "length img"] by simp_all
  obtain k where k: "length img + padding_of (length img) 256 = 256 * k" using p(1) by (elim dvdE)
  then have "256 * k < 256 * 0x301" using l p(2) by simp
  then have "k \<le> 0x300" by simp
  then show ?thesis using k by simp
qed

lemma firmware_write_works:
  assumes "nor_flash arch be mem" "known_flash arch" "is_valid_fw_size (length img)"
  shows "\<exists>s'. spi_flash_write_fx3_fw arch be img s = (Ok (), s') \<and> (\<forall>a \<ge> 0x30000. mem s' a = mem s a)"
proof -
  let ?b = "img @ replicate (padding_of (length img) 256) 0xff" let ?n = "of_nat (length ?b) div 256 :: u32"
  have k: "psize_bytes arch = 256" "ebsize_bytes arch = 0x10000" using assms(2) by (simp_all add: known_flash_def)
  have len: "length ?b \<le> 0x30000" using padded_image_fits [OF assms(3)] by simp
  have dvd: "256 dvd length ?b" using padding_pages(1) [of 256 "length img"] by simp
  have small: "length ?b < 2 ^ 32" using len by simp
  note n = pages_of_bytes [OF dvd small]
  have "?n \<le> 0x300" using n(1) len by (simp add: word_le_nat_alt div_le_mono [of _ "0x30000" 256, simplified])
  then have pg: "check_page_access arch 0 ?n" and eb: "check_eb_access arch 0 3"
    using assms(2) by (auto simp: check_page_access_def check_eb_access_def known_flash_def word_le_nat_alt)
  obtain s1 where s1: "spi_flash_erase arch be 0 3 s = (Ok (), s1)"
    "mem s1 = (\<lambda>a. if a < 0x30000 then 0xff else mem s a)"
    using erase_works [OF assms(1) k eb, of s] by auto
  obtain s2 where s2: "spi_flash_write arch be ?b 0 ?n s1 = (Ok (), s2)" "holds (mem s2) 0 ?b"
    "\<And>a. length ?b \<le> a \<Longrightarrow> mem s2 a = mem s1 a"
    using write_works_bytes [OF assms(1) k dvd small pg, of s1] s1(2) len by auto
  obtain s3 where s3: "spi_flash_verify arch be ?b 0 ?n s2 = (Ok (), s3)" "mem s3 = mem s2"
    using verify_works [OF assms(1) k dvd small pg, of s2] s2(2) by auto
  have nb: "of_nat (length img + padding_of (length img) 256) div 256 = ?n" by simp
  have fits: "\<not> length img \<ge> 2 ^ 32 - 1 - padding_of (length img) 256" using len by simp
  have c: "BLADERF_FLASH_ADDR_FIRMWARE div 256 = 0" "BLADERF_FLASH_ADDR_FIRMWARE div 0x10000 = 0"
    "BLADERF_FLASH_BYTE_LEN_FIRMWARE div 0x10000 = 3" "unat (256 :: u32) = 256"
    by (simp_all add: BLADERF_FLASH_ADDR_FIRMWARE_def BLADERF_FLASH_BYTE_LEN_FIRMWARE_def)
  have "spi_flash_write_fx3_fw arch be img s = (Ok (), s3)"
    unfolding spi_flash_write_fx3_fw_def Let_def k c nb if_not_P [OF fits] 
      seq_Ok [of "spi_flash_erase arch be 0 3" s, OF s1(1)] seq_Ok [of "spi_flash_write arch be ?b 0 ?n" s1, OF s2(1)]
    by (rule s3(1))
  moreover have "mem s3 a = mem s a" if "a \<ge> 0x30000" for a
    using that s3(2) s2(3) [of a] s1(2) len by simp
  ultimately show ?thesis by blast
qed

text \<open>C36. A firmware image that was flashed successfully is in the firmware region, padded with
  \<open>0xff\<close> to a page, as long as reads return the memory, whatever erasing and writing did. On a
  working chip of a supported size every image that passes the size check is flashed successfully,
  and the memory behind the firmware region (calibration and FPGA) keeps its contents.\<close>

theorem firmware_flashed:
  assumes "honest_reads arch be mem" "known_flash arch" "firmware_loaded st"
  shows "(\<forall>skip s s'. bladerf1_flash_firmware arch be st skip img s = (Ok (), s') \<longrightarrow>
      holds (mem s') 0 (img @ replicate (padding_of (length img) 256) 0xff)) \<and>
    (nor_flash arch be mem \<longrightarrow> is_valid_fw_size (length img) \<longrightarrow>
      (\<forall>s. \<exists>s'. bladerf1_flash_firmware arch be st False img s = (Ok (), s') \<and> (\<forall>a \<ge> 0x30000. mem s' a = mem s a)))"
proof -
  have "psize_bytes arch = 256" using assms(2) by (simp add: known_flash_def)
  then have "holds (mem s') 0 (img @ replicate (padding_of (length img) 256) 0xff)"
    if "bladerf1_flash_firmware arch be st skip img s = (Ok (), s')" for skip s s'
    using that firmware_written [OF assms(1)] by (auto simp: bladerf1_flash_firmware_def fail_def split: if_splits)
  moreover have "\<exists>s'. bladerf1_flash_firmware arch be st False img s = (Ok (), s') \<and> (\<forall>a \<ge> 0x30000. mem s' a = mem s a)"
    if "nor_flash arch be mem" "is_valid_fw_size (length img)" for s
    using firmware_write_works [OF that(1) assms(2) that(2), of s] assms(3) that(2)
    by (simp add: bladerf1_flash_firmware_def)
  ultimately show ?thesis by blast
qed

section \<open>A chip\<close>

definition chip :: "bladerf_flash_arch \<Rightarrow> (nat \<Rightarrow> u8) flash_backend" where
  \<comment> \<open>the state is the memory itself\<close>
  "chip arch = (let P = unat (psize_bytes arch); E = unat (ebsize_bytes arch) in
     \<lparr>erase_flash_blocks = (\<lambda>eb n s. (Ok (), \<lambda>a. if unat eb * E \<le> a \<and> a < (unat eb + unat n) * E then 0xff else s a)),
      read_flash_pages = (\<lambda>page n s. (Ok (map s [unat page * P..<(unat page + unat n) * P]), s)),
      write_flash_pages = (\<lambda>buf page n s. (Ok (), \<lambda>a. if unat page * P \<le> a \<and> a < (unat page + unat n) * P
        then s a AND buf ! (a - unat page * P) else s a))\<rparr>)"

lemma chip_nor: "nor_flash arch (chip arch) (\<lambda>s. s)"
  by (simp add: nor_flash_def chip_def Let_def)

definition w25q32 :: bladerf_flash_arch where
  "w25q32 = snd (spi_flash_decode_flash_architecture None
     \<lparr>arch_status = STATUS_FLASH_UNINITIALIZED, manufacturer_id = 0xEF, device_id = 0x15, tsize_bytes = 0, psize_bytes = 0,
      ebsize_bytes = 0, num_pages = 0, num_ebs = 0\<rparr>)"

lemma w25q32_known: "known_flash w25q32"
  unfolding w25q32_def by (rule decoded_flash_known)

theorem firmware_flashed_witness:
  "\<exists>s'. bladerf1_flash_firmware w25q32 (chip w25q32) STATE_FIRMWARE_LOADED False (replicate 60000 7) (\<lambda>a. 5) = (Ok (), s') \<and>
    s' 59999 = 7 \<and> s' 0x30000 = 5"
proof -
  let ?i = "replicate 60000 7 :: u8 list" and ?m = "\<lambda>a :: nat. 5 :: u8"
  have v: "is_valid_fw_size (length ?i)" by (simp add: is_valid_fw_size_def BLADERF_FLASH_BYTE_LEN_FIRMWARE_def)
  have ld: "firmware_loaded STATE_FIRMWARE_LOADED" by (simp add: firmware_loaded_def)
  note F = firmware_flashed [OF nor_reads_honest [OF chip_nor] w25q32_known ld, of ?i]
  obtain s' where s': "bladerf1_flash_firmware w25q32 (chip w25q32) STATE_FIRMWARE_LOADED False ?i ?m = (Ok (), s')"
    "\<forall>a \<ge> 0x30000. s' a = ?m a"
    using F [THEN conjunct2, rule_format, OF chip_nor v, of ?m] by blast
  have "holds s' 0 (?i @ replicate (padding_of (length ?i) 256) 0xff)"
    using F [THEN conjunct1, rule_format, OF s'(1)] .
  then have h: "holds s' 0 ?i" unfolding holds_append by simp
  have "s' (0 + 59999) = replicate 60000 7 ! 59999"
    using h [unfolded holds_def, rule_format, of 59999] by simp
  then show ?thesis using s' by simp
qed

section \<open>FPGA region\<close>

definition page_of :: "(u8 list \<times> u8 list) list \<Rightarrow> u8 list" where
  "page_of kvs = concat (map field_bytes kvs) @ replicate (256 - length (concat (map field_bytes kvs))) 0xff"

lemma encode_into_page:
  assumes "fits_field (chars f, v)" "length (concat (map field_bytes (kvs @ [(chars f, v)]))) \<le> 256"
  shows "encode_into 256 (page_of kvs, length (concat (map field_bytes kvs))) f v =
    (page_of (kvs @ [(chars f, v)]), length (concat (map field_bytes (kvs @ [(chars f, v)]))))"
proof -
  have "length (concat (map field_bytes kvs)) + length f + length v + 3 \<le> 256"
    using assms(2) by (simp add: length_field_bytes chars_def)
  then show ?thesis
    using assms(1)
    by (simp add: encode_into_def binkv_encode_field_def Let_def page_of_def fits_field_def field_bytes_def store_le16_def
        chars_def)
qed

lemma metadata_pages:
  assumes "psize_bytes arch = 256" "n < 2 ^ 32" "m < 2 ^ 32"
  shows "fill_fpga_metadata_page arch n = page_of [(chars ''LEN'', print_u n)]"
    "fill_fpga_compressed_metadata_page arch n m ''LZMA'' =
     page_of [(chars ''FMT'', chars ''LZMA''), (chars ''ULEN'', print_u n), (chars ''CLEN'', print_u m)]"
proof -
  have l: "length (print_u n) \<le> 10" "length (print_u m) \<le> 10"
    using assms(2,3) by (auto intro!: length_print_u)
  have fit: "fits_field (chars f, print_u k)" if "length f \<le> 4" "length (print_u k) \<le> 10" for f k
    using that by (simp add: fits_field_def chars_def)
  have e: "replicate 256 0xff = page_of []" "0 = length (concat (map field_bytes []))" by (simp_all add: page_of_def)
  have u: "unat (256 :: u32) = 256" by simp
  show "fill_fpga_metadata_page arch n = page_of [(chars ''LEN'', print_u n)]"
    unfolding fill_fpga_metadata_page_def Let_def assms(1) u e
    using encode_into_page [of "''LEN''" "print_u n" "[]"] fit [of "''LEN''" n] l
    by (simp add: length_field_bytes chars_def)
  let ?k1 = "[(chars ''FMT'', chars ''LZMA'')]" let ?k2 = "?k1 @ [(chars ''ULEN'', print_u n)]"
  let ?k3 = "?k2 @ [(chars ''CLEN'', print_u m)]" let ?l = "\<lambda>k. length (concat (map field_bytes k))"
  have s1: "encode_into 256 (page_of [], ?l []) ''FMT'' (chars ''LZMA'') = (page_of ?k1, ?l ?k1)"
    using encode_into_page [of "''FMT''" "chars ''LZMA''" "[]"] by (simp add: length_field_bytes chars_def fits_field_def)
  have s2: "encode_into 256 (page_of ?k1, ?l ?k1) ''ULEN'' (print_u n) = (page_of ?k2, ?l ?k2)"
    using fit [of "''ULEN''" n] l by (intro encode_into_page) (simp_all add: length_field_bytes chars_def)
  have s3: "encode_into 256 (page_of ?k2, ?l ?k2) ''CLEN'' (print_u m) = (page_of ?k3, ?l ?k3)"
    using fit [of "''CLEN''" m] l by (intro encode_into_page) (simp_all add: length_field_bytes chars_def)
  show "fill_fpga_compressed_metadata_page arch n m ''LZMA'' =
      page_of [(chars ''FMT'', chars ''LZMA''), (chars ''ULEN'', print_u n), (chars ''CLEN'', print_u m)]"
    unfolding fill_fpga_compressed_metadata_page_def Let_def assms(1) u e s1 s2 s3 by simp
qed

lemma page_of_decodes:
  assumes "\<forall>kv \<in> set kvs. fits_field kv \<and> told_apart field kv" "fits_field (field, val)"
    "length (concat (map field_bytes (kvs @ (field, val) # rest))) \<le> 256" "length val \<le> maxlen" "0 \<notin> set val"
  shows "binkv_decode_field (page_of (kvs @ (field, val) # rest)) 256 field maxlen = Ok val"
proof -
  have "length ([] @ concat (map field_bytes kvs)) < 256" using assms(3) by (simp add: length_field_bytes)
  then show ?thesis
    using decode_fields [OF assms(1,2) _ assms(4,5), of "[]" 256]
    by (simp add: binkv_decode_field_def page_of_def)
qed

lemma length_page_of: "length (concat (map field_bytes kvs)) \<le> 256 \<Longrightarrow> length (page_of kvs) = 256"
  by (simp add: page_of_def)

lemma metadata_decodes:
  assumes "n < 2 ^ 32" "m < 2 ^ 32"
  defines "raw \<equiv> page_of [(chars ''LEN'', print_u n)]"
    and "lz \<equiv> page_of [(chars ''FMT'', chars ''LZMA''), (chars ''ULEN'', print_u n), (chars ''CLEN'', print_u m)]"
  shows "length raw = 256" "length lz = 256"
    "binkv_decode_field raw 256 (chars ''LEN'') 10 = Ok (print_u n)"
    "binkv_decode_field lz 256 (chars ''FMT'') 10 = Ok (chars ''LZMA'')"
    "binkv_decode_field lz 256 (chars ''ULEN'') 10 = Ok (print_u n)"
    "binkv_decode_field lz 256 (chars ''CLEN'') 10 = Ok (print_u m)"
proof -
  have l: "length (print_u n) \<le> 10" "length (print_u m) \<le> 10"
    using assms(1,2) by (auto intro!: length_print_u)
  show "length raw = 256" "length lz = 256"
    unfolding raw_def lz_def using l by (simp_all add: length_page_of length_field_bytes chars_def)
  show "binkv_decode_field raw 256 (chars ''LEN'') 10 = Ok (print_u n)"
    unfolding raw_def using page_of_decodes [of "[]" "chars ''LEN''" "print_u n" "[]" 10] l print_u_no_zero
    by (simp add: fits_field_def length_field_bytes chars_def)
  show "binkv_decode_field lz 256 (chars ''FMT'') 10 = Ok (chars ''LZMA'')"
    unfolding lz_def using page_of_decodes [of "[]" "chars ''FMT''" "chars ''LZMA''" _ 10] l
    by (simp add: fits_field_def length_field_bytes chars_def)
  show "binkv_decode_field lz 256 (chars ''ULEN'') 10 = Ok (print_u n)"
    unfolding lz_def
    using page_of_decodes [of "[(chars ''FMT'', chars ''LZMA'')]" "chars ''ULEN''" "print_u n" _ 10] l print_u_no_zero
    by (simp add: fits_field_def length_field_bytes chars_def told_apart_first)
  show "binkv_decode_field lz 256 (chars ''CLEN'') 10 = Ok (print_u m)"
    unfolding lz_def
    using page_of_decodes [of "[(chars ''FMT'', chars ''LZMA''), (chars ''ULEN'', print_u n)]" "chars ''CLEN''" "print_u m" _ 10]
      l print_u_no_zero
    by (simp add: fits_field_def length_field_bytes chars_def told_apart_first)
qed

lemma payload_written:
  assumes "honest_reads arch be mem" "psize_bytes arch = 256" "length metadata = 256" "256 dvd length padded"
    "length padded < 2 ^ 31"
    and "write_fpga_payload arch be metadata padded s = (Ok (), s')"
  shows "holds (mem s') 0x40000 metadata \<and> holds (mem s') 0x40100 padded"
proof -
  have a: "BLADERF_FLASH_ADDR_FPGA div 256 = 0x400" "(1 :: u32) = of_nat (length metadata) div 256" "256 dvd length metadata"
    using assms(3) by (simp_all add: BLADERF_FLASH_ADDR_FPGA_def)
  obtain t1 t2 where t: "spi_flash_verify arch be metadata 0x400 1 t1 = (Ok (), t2)"
    "spi_flash_verify arch be padded 0x401 (of_nat (length padded) div 256) t2 = (Ok (), s')"
    using assms(2,6)
    by (auto simp: write_fpga_payload_def Let_def seq_eq_Ok_iff a(1) undef_io_def split: if_splits)
  have "mem s' = mem t2" "holds (mem t2) 0x40100 padded"
    using verified_contents [OF assms(1,2,4) _ t(2)] assms(5) by simp_all
  moreover have "mem t2 = mem t1" "holds (mem t1) 0x40000 metadata"
    using verified_contents [OF assms(1,2) a(3) _ t(1) [unfolded a(2)]] assms(3) by simp_all
  ultimately show ?thesis by simp
qed

lemma access_in_range:
  "unat page < unat (num_pages arch) \<Longrightarrow> unat page + unat n \<le> unat (num_pages arch) \<Longrightarrow> check_page_access arch page n"
  "unat eb < unat (num_ebs arch) \<Longrightarrow> unat eb + unat n \<le> unat (num_ebs arch) \<Longrightarrow> check_eb_access arch eb n"
proof -
  have sum: "unat (a + b) = unat a + unat b" if "unat a + unat b \<le> unat (c :: u32)" for a b c :: u32
  proof -
    have "unat c < 2 ^ 32" using unsigned_less [of c] by simp
    then show ?thesis using that by (simp add: unat_word_ariths)
  qed
  show "check_page_access arch page n"
    if "unat page < unat (num_pages arch)" "unat page + unat n \<le> unat (num_pages arch)"
    using that sum [OF that(2)] by (simp add: check_page_access_def word_less_nat_alt word_le_nat_alt)
  show "check_eb_access arch eb n"
    if "unat eb < unat (num_ebs arch)" "unat eb + unat n \<le> unat (num_ebs arch)"
    using that sum [OF that(2)] by (simp add: check_eb_access_def word_less_nat_alt word_le_nat_alt)
qed

lemma known_sizes:
  assumes "known_flash arch"
  obtains m :: nat where "4 \<le> m" "m \<le> 16" "unat (tsize_bytes arch) = m * 2 ^ 20" "unat (num_pages arch) = m * 4096"
    "unat (num_ebs arch) = m * 16"
proof -
  obtain w :: u32 where w: "w \<in> {4, 8, 16}" "tsize_bytes arch = w * 2 ^ 20" "num_pages arch = w * 4096" "num_ebs arch = w * 16"
    using assms unfolding known_flash_def by blast
  from w(1) consider "w = 4" | "w = 8" | "w = 16" by blast
  then show ?thesis by cases (rule that [of "unat w"]; simp add: w(2-4))+
qed

lemma erase_count:
  assumes "L + 0x40100 \<le> m * 2 ^ 20" "m \<le> 16"
  defines "n \<equiv> (of_nat L + 256 + 0x10000 - 1) div 0x10000 :: u32"
  shows "4 + unat n \<le> m * 16" "0x40100 + L \<le> (4 + unat n) * 0x10000"
proof -
  have "of_nat L + 256 + 0x10000 - 1 = (of_nat (L + 256 + 0xffff) :: u32)" by simp
  then have n: "unat n = (L + 256 + 0xffff) div 0x10000"
    unfolding n_def using assms(1,2) by (simp add: unat_div unat_of_nat del: of_nat_add)
  have L: "L + 0x40100 \<le> m * 0x100000" using assms(1) by simp
  show "4 + unat n \<le> m * 16" 
  proof -
    have "L + 256 + 0xffff < (m * 16 - 3) * 0x10000" using L by (simp add: diff_mult_distrib)
    then have "unat n < m * 16 - 3" unfolding n by (rule less_mult_imp_div_less)
    then show ?thesis by simp
  qed
  show "0x40100 + L \<le> (4 + unat n) * 0x10000" 
  proof -
    define r where "r = (L + 256 + 0xffff) mod 0x10000"
    have "r < 0x10000" "unat n * 0x10000 + r = L + 256 + 0xffff" unfolding n r_def by simp_all
    then show ?thesis by simp
  qed
qed

lemma payload_write_works:
  assumes "nor_flash arch be mem" "known_flash arch" "length metadata = 256" "256 dvd length padded" "padded \<noteq> []"
    "length padded + 0x40100 \<le> unat (tsize_bytes arch)"
  shows "\<exists>s'. write_fpga_payload arch be metadata padded s = (Ok (), s') \<and> (\<forall>a < 0x40000. mem s' a = mem s a)"
proof -
  let ?n = "of_nat (length padded) div 256 :: u32" let ?L = "length padded"
  let ?e = "(of_nat ?L + 256 + 0x10000 - 1) div 0x10000 :: u32"
  have k: "psize_bytes arch = 256" "ebsize_bytes arch = 0x10000" using assms(2) by (simp_all add: known_flash_def)
  obtain m :: nat where m: "4 \<le> m" "m \<le> 16" "unat (tsize_bytes arch) = m * 2 ^ 20" "unat (num_pages arch) = m * 4096"
    "unat (num_ebs arch) = m * 16" using known_sizes [OF assms(2)] by blast
  have small: "?L < 2 ^ 32" "length metadata < 2 ^ 32" using assms(3,6) m(2,3) by simp_all
  note n = pages_of_bytes [OF assms(4) small(1)]
  note e = erase_count [OF assms(6) [unfolded m(3)] m(2)]
  have one: "of_nat (length metadata) div 256 = (1 :: u32)" and md: "256 dvd length metadata" using assms(3) by simp_all
  have eb: "check_eb_access arch 4 ?e" by (rule access_in_range(2)) (use m e(1) in simp_all)
  have "0x401 + L div 256 \<le> m * 4096" if "L + 0x40100 \<le> m * 0x100000" for L
  proof -
    have "L < (m * 4096 - 0x400) * 256" using that by (simp add: diff_mult_distrib)
    then have "L div 256 < m * 4096 - 0x400" by (rule less_mult_imp_div_less)
    then show ?thesis by simp
  qed
  then have "0x401 + ?L div 256 \<le> m * 4096" using assms(6) m(3) by simp
  then have pg: "check_page_access arch 0x401 ?n" by (intro access_in_range(1)) (use m n(1) in simp_all)
  have pm: "check_page_access arch 0x400 (of_nat (length metadata) div 256)"
    unfolding one by (rule access_in_range(1)) (use m in simp_all)
  obtain s1 where s1: "spi_flash_erase arch be 4 ?e s = (Ok (), s1)"
    "mem s1 = (\<lambda>a. if 0x40000 \<le> a \<and> a < (4 + unat ?e) * 0x10000 then 0xff else mem s a)"
    using erase_works [OF assms(1) k eb, of s] by auto
  have ff: "mem s1 a = 0xff" if "0x40000 \<le> a" "a < 0x40100 + ?L" for a
    using that e(2) unfolding s1(2) by simp
  obtain s2 where s2: "spi_flash_write arch be metadata 0x400 1 s1 = (Ok (), s2)" "holds (mem s2) 0x40000 metadata"
    "\<And>a. a < 0x40000 \<or> 0x40100 \<le> a \<Longrightarrow> mem s2 a = mem s1 a"
    using write_works_bytes [OF assms(1) k md small(2) pm, of s1] ff assms(3) one by auto
  have ff2: "mem s2 (0x40100 + i) = 0xff" if "i < ?L" for i using that s2(3) ff by simp
  obtain s3 where s3: "spi_flash_write arch be padded 0x401 ?n s2 = (Ok (), s3)" "holds (mem s3) 0x40100 padded"
    "\<And>a. a < 0x40100 \<or> 0x40100 + ?L \<le> a \<Longrightarrow> mem s3 a = mem s2 a"
    using write_works_bytes [OF assms(1) k assms(4) small(1) pg, of s2] ff2 by auto
  have "holds (mem s3) 0x40000 metadata" using s2(2) s3(3) assms(3) by (simp add: holds_def)
  then obtain s4 where s4: "spi_flash_verify arch be metadata 0x400 1 s3 = (Ok (), s4)" "mem s4 = mem s3"
    using verify_works [OF assms(1) k md small(2) pm, of s3] one by auto
  obtain s5 where s5: "spi_flash_verify arch be padded 0x401 ?n s4 = (Ok (), s5)" "mem s5 = mem s4"
    using verify_works [OF assms(1) k assms(4) small(1) pg, of s4] s3(2) s4(2) by auto
  have c: "BLADERF_FLASH_ADDR_FPGA div 256 = 0x400" "BLADERF_FLASH_ADDR_FPGA div 0x10000 = 4" "0x400 + 1 = (0x401 :: u32)"
    by (simp_all add: BLADERF_FLASH_ADDR_FPGA_def)
  have "write_fpga_payload arch be metadata padded s = (Ok (), s5)"
    unfolding write_fpga_payload_def Let_def k c if_not_P [OF assms(5)]
      seq_Ok [of "spi_flash_erase arch be 4 ?e" s, OF s1(1)] seq_Ok [of "spi_flash_write arch be metadata 0x400 1" s1, OF s2(1)]
      seq_Ok [of "spi_flash_write arch be padded 0x401 ?n" s2, OF s3(1)]
      seq_Ok [of "spi_flash_verify arch be metadata 0x400 1" s3, OF s4(1)]
    by (rule s5(1))
  moreover have "mem s5 a = mem s a" if "a < 0x40000" for a
    using that s5(2) s4(2) s3(3) s2(3) s1(2) by simp
  ultimately show ?thesis by blast
qed

lemma tsize_words:
  assumes "known_flash arch"
  shows "\<not> tsize_bytes arch \<le> BLADERF_FLASH_ADDR_FPGA"
    "unat (tsize_bytes arch - BLADERF_FLASH_ADDR_FPGA) = unat (tsize_bytes arch) - 0x40000"
proof -
  obtain w :: u32 where w: "w \<in> {4, 8, 16}" "tsize_bytes arch = w * 2 ^ 20"
    using assms unfolding known_flash_def by blast
  from w(1) consider "w = 4" | "w = 8" | "w = 16" by blast
  then show "\<not> tsize_bytes arch \<le> BLADERF_FLASH_ADDR_FPGA"
    "unat (tsize_bytes arch - BLADERF_FLASH_ADDR_FPGA) = unat (tsize_bytes arch) - 0x40000"
    by (cases; simp add: w(2) BLADERF_FLASH_ADDR_FPGA_def)+
qed

definition metadata_of :: "bladerf_flash_arch \<Rightarrow> bool \<Rightarrow> nat \<Rightarrow> nat \<Rightarrow> u8 list" where
  "metadata_of arch compressed len stored_len =
     (if compressed then fill_fpga_compressed_metadata_page arch len stored_len ''LZMA''
      else fill_fpga_metadata_page arch len)"

lemma write_bitstream_steps:
  assumes "known_flash arch" "get_fw_version s = (Ok v, t0)"
  defines "L \<equiv> tsize_bytes arch - BLADERF_FLASH_ADDR_FPGA"
  shows "spi_flash_write_fpga_bitstream arch be enc get_fw_version bits s =
    (case fpga_payload enc v (fpga_autoload_fits (length bits) (padding_of (length bits) 256) 256 L) bits of
       Ok (compressed, stored) \<Rightarrow>
         if fpga_autoload_fits (length stored) (padding_of (length stored) 256) 256 L
         then write_fpga_payload arch be (metadata_of arch compressed (length bits) (length stored))
           (stored @ replicate (padding_of (length stored) 256) 0xff) t0
         else (Err BLADERF_ERR_INVAL, t0)
     | Err e \<Rightarrow> (Err e, t0)
     | Undef \<Rightarrow> (Undef, t0))"
proof -
  have k: "psize_bytes arch = 256" using assms(1) by (simp add: known_flash_def)
  show ?thesis
    using tsize_words(1) [OF assms(1)]
    by (simp add: spi_flash_write_fpga_bitstream_def Let_def k METADATA_LEN_def seq_Ok assms(2) L_def [symmetric]
        metadata_of_def fail_apply undef_io_apply split: outcome.splits prod.splits)
qed

lemma padded_payload:
  assumes "known_flash arch"
    and "fpga_autoload_fits (length stored) (padding_of (length stored) 256) 256 (tsize_bytes arch - BLADERF_FLASH_ADDR_FPGA)"
  defines "padded \<equiv> stored @ replicate (padding_of (length stored) 256) (0xff :: u8)"
  shows "256 dvd length padded" "length padded + 0x40100 \<le> unat (tsize_bytes arch)" "length padded < 2 ^ 31"
    "length stored < 2 ^ 32"
proof -
  show "256 dvd length padded" using padding_pages(1) [of 256 "length stored"] by (simp add: padded_def)
  have u: "unat (256 :: u32) = 256" by simp
  obtain m :: nat where m: "4 \<le> m" "m \<le> 16" "unat (tsize_bytes arch) = m * 2 ^ 20" using known_sizes [OF assms(1)] by blast
  have "length padded \<le> unat (tsize_bytes arch) - 0x40000 - 256"
    using assms(2) unfolding fpga_autoload_fits_def tsize_words(2) [OF assms(1)] u by (simp add: padded_def)
  then show l: "length padded + 0x40100 \<le> unat (tsize_bytes arch)" using m by simp
  then show "length padded < 2 ^ 31" using m by simp
  then show "length stored < 2 ^ 32" by (simp add: padded_def)
qed

definition autoload_page :: "(nat \<Rightarrow> u8) \<Rightarrow> u8 list" where
  "autoload_page mem = map mem [0x40000..<0x40100]"

lemma autoload_page_holds:
  assumes "holds m 0x40000 md" "length md = 256"
  shows "autoload_page m = md"
proof -
  have e: "0x40000 + length md = 0x40100" using assms(2) by simp
  show ?thesis using assms(1) unfolding holds_map autoload_page_def e .
qed

lemma bitstream_written:
  assumes "honest_reads arch be mem" "known_flash arch" "get_fw_version s = (Ok v, t0)"
    and "spi_flash_write_fpga_bitstream arch be enc get_fw_version bits s = (Ok (), s')"
  shows "if version_fields_less_than v 2 6 1
    then binkv_decode_field (autoload_page (mem s')) 256 (chars ''LEN'') 10 = Ok (print_u (length bits)) \<and>
      holds (mem s') 0x40100 bits
    else \<exists>blocks. lzma_encode_blocks enc bits = Ok blocks \<and>
      binkv_decode_field (autoload_page (mem s')) 256 (chars ''FMT'') 10 = Ok (chars ''LZMA'') \<and>
      binkv_decode_field (autoload_page (mem s')) 256 (chars ''ULEN'') 10 = Ok (print_u (length bits)) \<and>
      binkv_decode_field (autoload_page (mem s')) 256 (chars ''CLEN'') 10 = Ok (print_u (length blocks)) \<and>
      holds (mem s') 0x40100 blocks"
proof -
  let ?L = "tsize_bytes arch - BLADERF_FLASH_ADDR_FPGA"
  have k: "psize_bytes arch = 256" using assms(2) by (simp add: known_flash_def)
  obtain c stored where st:
    "fpga_payload enc v (fpga_autoload_fits (length bits) (padding_of (length bits) 256) 256 ?L) bits = Ok (c, stored)"
    "fpga_autoload_fits (length stored) (padding_of (length stored) 256) 256 ?L"
    "write_fpga_payload arch be (metadata_of arch c (length bits) (length stored))
       (stored @ replicate (padding_of (length stored) 256) 0xff) t0 = (Ok (), s')"
    using assms(4) unfolding write_bitstream_steps [of arch get_fw_version s, OF assms(2,3)]
    by (auto split: outcome.splits prod.splits if_splits)
  note p = padded_payload [OF assms(2) st(2)]
  have bits: "length bits < 2 ^ 32" and cv: "c \<longleftrightarrow> \<not> version_fields_less_than v 2 6 1"
    and raw: "\<not> c \<Longrightarrow> stored = bits" and lz: "c \<Longrightarrow> lzma_encode_blocks enc bits = Ok stored"
    using st(1) p(4) by (auto simp: fpga_payload_def split: if_splits outcome.splits)
  note dec = metadata_decodes [OF bits p(4)]
  have md: "metadata_of arch c (length bits) (length stored) =
      (if c then page_of [(chars ''FMT'', chars ''LZMA''), (chars ''ULEN'', print_u (length bits)), (chars ''CLEN'', print_u (length stored))]
       else page_of [(chars ''LEN'', print_u (length bits))])"
    using metadata_pages [OF k bits p(4)] by (simp add: metadata_of_def)
  have "length (metadata_of arch c (length bits) (length stored)) = 256" unfolding md using dec(1,2) by simp
  then have h: "holds (mem s') 0x40100 stored"
    "autoload_page (mem s') = metadata_of arch c (length bits) (length stored)"
    using payload_written [OF assms(1) k _ p(1,3) st(3)] by (simp_all add: holds_append autoload_page_holds)
  show ?thesis
  proof (cases c)
    case True
    then show ?thesis using cv lz h dec(4-6) md by simp
  next
    case False
    then show ?thesis using cv raw h dec(3) md by simp
  qed
qed


definition fw_2_6_0 :: bladerf_version where
  "fw_2_6_0 = \<lparr>v_major = 2, v_minor = 6, v_patch = 0\<rparr>"


text \<open>The size check of a bitstream is skipped when the FPGA size is unknown: \<open>is_valid_fpga_size\<close>
  returns the negative status of \<open>bladerf1_get_fpga_bytes\<close> as a truth value, and the relaxed bounds are
  never applied. An empty bitstream is then written and the metadata page is read back into an empty
  buffer.\<close>

lemma unknown_fpga_size_unchecked:
  "is_valid_fpga_size arch STATE_FIRMWARE_LOADED False BLADERF_FPGA_UNKNOWN len"
  by (simp add: is_valid_fpga_size_def bladerf1_get_fpga_bytes_def firmware_loaded_def)

end
