(* ===== verification/Fx3_Fw.thy ===== *)
theory Fx3_Fw
  imports Bladerf_Prelude
begin

unbundle bit_operations_syntax

text \<open>
  FX3 firmware images (\<^verbatim>\<open>driver/fx3_fw.c\<close>) and loading them through the boot loader
  (\<^verbatim>\<open>backend/usb/usb.c\<close>): the scan over the sections with its bounds checks and checksum, the section
  iterator, and the chunked writes with read-back. Offsets are 32-bit words; a failing \<open>assert\<close> is
  \<open>Undef\<close>. The scan is a partial function: in a file of almost 4 GiB the next section can wrap
  around. The control transfers are parameters. Failing allocations are not modelled.
\<close>

definition FX3_IMAGE_TYPE_NORMAL :: u8 where "FX3_IMAGE_TYPE_NORMAL = 0xb0"
definition FX3_HDR_IMAGE_LEN0_IDX :: u32 where "FX3_HDR_IMAGE_LEN0_IDX = 4"
definition FX3_HDR_IMAGE_DATA0_IDX :: u32 where "FX3_HDR_IMAGE_DATA0_IDX = 0xc"
definition FX3_HDR_LEN :: nat where "FX3_HDR_LEN = 12"
definition FX3_RAM_SIZE_WORDS :: u32 where "FX3_RAM_SIZE_WORDS = 65536"

record fx3_firmware =
  fw_data :: "u8 list"
  fw_data_len :: u32
  fw_entry_addr :: u32
  fw_num_sections :: u32
  fw_curr_section :: u32
  fw_section_offset :: u32

definition get_le32 :: "u8 list \<Rightarrow> nat \<Rightarrow> u32" where
  "get_le32 b i = ucast (b ! i) OR push_bit 8 (ucast (b ! (i + 1))) OR push_bit 16 (ucast (b ! (i + 2))) OR
     push_bit 24 (ucast (b ! (i + 3)))"

definition to_uint32 :: "fx3_firmware \<Rightarrow> u32 \<Rightarrow> u32 outcome" where
  "to_uint32 fw offset =
     (if unat offset + 4 \<le> unat (fw_data_len fw) then Ok (get_le32 (fw_data fw) (unat offset)) else Undef)"

definition is_valid_fx3_ram_addr :: "u32 \<Rightarrow> u32 \<Rightarrow> bool" where
  "is_valid_fx3_ram_addr addr len \<longleftrightarrow>
     (let itcm_len = 0x4000; itcm_end = 0x4000; sysmem_base = 0x40000000; sysmem_len = 0x80000;
          sysmem_end = sysmem_base + sysmem_len in
      addr < itcm_end \<and> len \<le> itcm_len \<and> addr + len < itcm_end \<or>
      sysmem_base \<le> addr \<and> addr < sysmem_end \<and> len \<le> sysmem_len \<and> addr + len < sysmem_end)"

fun sum_words :: "fx3_firmware \<Rightarrow> u32 \<Rightarrow> nat \<Rightarrow> u32 \<Rightarrow> u32 outcome" where
  \<comment> \<open>\<open>n\<close> rounds of the loop over the words of a section\<close>
  "sum_words fw i 0 checksum = Ok checksum"
| "sum_words fw i (Suc n) checksum =
     (case to_uint32 fw i of
        Ok w \<Rightarrow> sum_words fw (i + 4) n (checksum + w)
      | Err e \<Rightarrow> Err e
      | Undef \<Rightarrow> Undef)"

datatype scan_end = Scan_More u32 u32 fx3_firmware | Scan_Done u32 u32 fx3_firmware | Scan_Fails "unit outcome"

definition bind_scan :: "'a outcome \<Rightarrow> ('a \<Rightarrow> scan_end) \<Rightarrow> scan_end" where
  "bind_scan r f = (case r of Ok x \<Rightarrow> f x | Err e \<Rightarrow> Scan_Fails (Err e) | Undef \<Rightarrow> Scan_Fails Undef)"

definition scan_section :: "u32 \<Rightarrow> u32 \<Rightarrow> u32 \<Rightarrow> fx3_firmware \<Rightarrow> scan_end" where
  \<comment> \<open>one round of the loop: offset and checksum of the next round\<close>
  "scan_section checksum_off offset checksum fw =
     bind_scan (to_uint32 fw offset) (\<lambda>section_len_words.
       if section_len_words > FX3_RAM_SIZE_WORDS then Scan_Fails (Err BLADERF_ERR_INVAL)
       else
         let section_len_bytes = section_len_words * 4; offset = offset + 4 in
         if section_len_bytes = 0 then
           bind_scan (to_uint32 fw offset) (\<lambda>entry.
             if \<not> is_valid_fx3_ram_addr entry 0 then Scan_Fails (Err BLADERF_ERR_INVAL)
             else Scan_Done (offset + 4) checksum (fw\<lparr>fw_entry_addr := entry\<rparr>))
         else
           bind_scan (to_uint32 fw offset) (\<lambda>addr.
             if \<not> is_valid_fx3_ram_addr addr section_len_bytes then Scan_Fails (Err BLADERF_ERR_INVAL)
             else
               let offset = offset + 4; next_section = offset + section_len_bytes in
               if offset \<ge> checksum_off then Scan_Fails (Err BLADERF_ERR_INVAL)
               else if next_section \<ge> checksum_off then Scan_Fails (Err BLADERF_ERR_INVAL)
               else
                 bind_scan (sum_words fw offset ((unat next_section - unat offset + 3) div 4) checksum) (\<lambda>sum.
                   Scan_More next_section sum (fw\<lparr>fw_num_sections := fw_num_sections fw + 1\<rparr>))))"

partial_function (option) scan_loop :: "u32 \<Rightarrow> u32 \<Rightarrow> u32 \<Rightarrow> fx3_firmware \<Rightarrow> fx3_firmware outcome option" where
  "scan_loop checksum_off offset checksum fw =
     (case scan_section checksum_off offset checksum fw of
        Scan_More offset' checksum' fw' \<Rightarrow> scan_loop checksum_off offset' checksum' fw'
      | Scan_Fails e \<Rightarrow> Some (case e of Err x \<Rightarrow> Err x | _ \<Rightarrow> Undef)
      | Scan_Done offset' checksum' fw' \<Rightarrow>
          Some (if offset' \<noteq> checksum_off then Err BLADERF_ERR_INVAL
                else
                  (case to_uint32 fw' checksum_off of
                     Ok expected \<Rightarrow>
                       if checksum' \<noteq> expected then Err BLADERF_ERR_INVAL
                       else Ok (fw'\<lparr>fw_section_offset := FX3_HDR_IMAGE_LEN0_IDX\<rparr>)
                   | Err e \<Rightarrow> Err e
                   | Undef \<Rightarrow> Undef)))"

declare scan_loop.simps [code]

definition scan_fw_sections :: "fx3_firmware \<Rightarrow> fx3_firmware outcome option" where
  "scan_fw_sections fw =
     (let checksum_off = fw_data_len fw - 4 in
      if \<not> checksum_off > FX3_HDR_IMAGE_DATA0_IDX \<or> checksum_off mod 4 \<noteq> 0 then Some Undef
      else scan_loop checksum_off FX3_HDR_IMAGE_LEN0_IDX 0 fw)"

definition fx3_fw_parse :: "u8 list \<Rightarrow> fx3_firmware outcome option" where
  "fx3_fw_parse buf =
     (if length buf > 2 ^ 32 - 1 then Some (Err BLADERF_ERR_INVAL)
      else if length buf < FX3_HDR_LEN then Some (Err BLADERF_ERR_INVAL)
      else if length buf mod 4 \<noteq> 0 then Some (Err BLADERF_ERR_INVAL)
      else if buf ! 0 \<noteq> 67 \<and> buf ! 1 \<noteq> 89 then Some (Err BLADERF_ERR_INVAL)
      else if buf ! 3 \<noteq> FX3_IMAGE_TYPE_NORMAL then Some (Err BLADERF_ERR_INVAL)
      else scan_fw_sections \<lparr>fw_data = buf, fw_data_len = of_nat (length buf), fw_entry_addr = 0,
        fw_num_sections = 0, fw_curr_section = 0, fw_section_offset = 0\<rparr>)"

definition fx3_fw_next_section :: "fx3_firmware \<Rightarrow> ((u32 \<times> u8 list) option \<times> fx3_firmware) outcome" where
  \<comment> \<open>\<^verbatim>\<open>None\<close>: no further section; otherwise the address and the data of the section\<close>
  "fx3_fw_next_section fw =
     (let max_offset = fw_data_len fw - 4 in
      if fw_curr_section fw \<ge> fw_num_sections fw then Ok (None, fw)
      else
        (case to_uint32 fw (fw_section_offset fw) of
           Ok words \<Rightarrow>
             let len = words * 4; addr_off = fw_section_offset fw + 4; data_off = addr_off + 4 in
             if len = 0 then Ok (None, fw)
             else if \<not> addr_off < max_offset then Undef
             else
               (case to_uint32 fw addr_off of
                  Ok addr \<Rightarrow>
                    if \<not> data_off < max_offset \<or> \<not> data_off + len < max_offset then Undef
                    else Ok (Some (addr, take (unat len) (drop (unat data_off) (fw_data fw))),
                      fw\<lparr>fw_section_offset := data_off + len, fw_curr_section := fw_curr_section fw + 1\<rparr>)
                | Err e \<Rightarrow> Err e
                | Undef \<Rightarrow> Undef)
         | Err e \<Rightarrow> Err e
         | Undef \<Rightarrow> Undef))"

definition fx3_fw_entry_point :: "fx3_firmware \<Rightarrow> u32" where
  "fx3_fw_entry_point fw = fw_entry_addr fw"

section \<open>Loading through the boot loader\<close>

definition FX3_BOOTLOADER_MAX_LOAD_LEN :: nat where "FX3_BOOTLOADER_MAX_LOAD_LEN = 4096"

definition FX3_BOOTLOADER_ADDR_WVALUE :: "u32 \<Rightarrow> u16" where
  "FX3_BOOTLOADER_ADDR_WVALUE addr = ucast (addr AND 0xffff)"

definition FX3_BOOTLOADER_ADDR_WINDEX :: "u32 \<Rightarrow> u16" where
  "FX3_BOOTLOADER_ADDR_WINDEX addr = ucast (drop_bit 16 addr AND 0xffff)"

text \<open>The vendor request \<^verbatim>\<open>0xa0\<close> of \<^verbatim>\<open>control_transfer\<close>, in both directions.\<close>

record 's boot_requests =
  bl_out :: "u16 \<Rightarrow> u16 \<Rightarrow> u8 list \<Rightarrow> ('s, unit) io"
  bl_in :: "u16 \<Rightarrow> u16 \<Rightarrow> nat \<Rightarrow> ('s, u8 list) io"

definition write_and_verify_fw_chunk :: "'s boot_requests \<Rightarrow> u32 \<Rightarrow> u8 list \<Rightarrow> ('s, unit) io" where
  "write_and_verify_fw_chunk bl addr data =
     seq (bl_out bl (FX3_BOOTLOADER_ADDR_WVALUE addr) (FX3_BOOTLOADER_ADDR_WINDEX addr) data) (\<lambda>_.
     seq (bl_in bl (FX3_BOOTLOADER_ADDR_WVALUE addr) (FX3_BOOTLOADER_ADDR_WINDEX addr) (length data)) (\<lambda>readback.
     if readback \<noteq> data then fail BLADERF_ERR_UNEXPECTED else ret ()))"

definition execute_fw_from_bootloader :: "'s boot_requests \<Rightarrow> u32 \<Rightarrow> ('s, unit) io" where
  "execute_fw_from_bootloader bl addr =
     attempt (bl_out bl (FX3_BOOTLOADER_ADDR_WVALUE addr) (FX3_BOOTLOADER_ADDR_WINDEX addr) []) (\<lambda>r.
       case r of Err e \<Rightarrow> if e = BLADERF_ERR_IO then ret () else fail e | _ \<Rightarrow> ret ())"

function write_fw_section :: "'s boot_requests \<Rightarrow> u32 \<Rightarrow> u8 list \<Rightarrow> ('s, unit) io" where
  \<comment> \<open>the inner loop of \<^verbatim>\<open>write_fw_to_bootloader\<close>\<close>
  "write_fw_section bl addr data =
     (let to_write = min (length data) FX3_BOOTLOADER_MAX_LOAD_LEN in
      seq (write_and_verify_fw_chunk bl addr (take to_write data)) (\<lambda>_.
      if length data \<le> FX3_BOOTLOADER_MAX_LOAD_LEN then ret ()
      else write_fw_section bl (addr + of_nat to_write) (drop to_write data)))"
  by pat_completeness auto
termination
  by (relation "measure (\<lambda>(bl, addr, data). length data)") (auto simp: FX3_BOOTLOADER_MAX_LOAD_LEN_def)

declare write_fw_section.simps [simp del]

partial_function (option) write_fw_to_bootloader ::
    "'s boot_requests \<Rightarrow> fx3_firmware \<Rightarrow> 's \<Rightarrow> (unit outcome \<times> 's) option" where
  "write_fw_to_bootloader bl fw s =
     (case fx3_fw_next_section fw of
        Ok (None, fw') \<Rightarrow> Some (execute_fw_from_bootloader bl (fx3_fw_entry_point fw') s)
      | Ok (Some (addr, data), fw') \<Rightarrow>
          if data = [] then Some (Undef, s)
          else
            (case write_fw_section bl addr data s of
               (Ok _, s') \<Rightarrow> write_fw_to_bootloader bl fw' s'
             | (r, s') \<Rightarrow> Some (r, s'))
      | Err e \<Rightarrow> Some (Err e, s)
      | Undef \<Rightarrow> Some (Undef, s))"

end
