(* ===== verification/Fx3_Load.thy ===== *)
theory Fx3_Load
  imports Fx3_Fw
begin

unbundle bit_operations_syntax

text \<open>
  Firmware images: the parser is total on files of any content, a well-formed image is accepted, its
  sections are delivered in order, and loading it through the boot loader fills the memory and starts
  the firmware.
\<close>

section \<open>The scan is total\<close>

lemma to_uint32_ok: "unat i + 4 \<le> unat (fw_data_len fw) \<Longrightarrow> to_uint32 fw i = Ok (get_le32 (fw_data fw) (unat i))"
  by (simp add: to_uint32_def)

lemma unat_add_small: "unat (a :: u32) + n < 2 ^ 32 \<Longrightarrow> unat (a + of_nat n) = unat a + n"
  by (simp add: unat_word_ariths unat_of_nat)

lemma unat_plus4: "unat (a :: u32) + 4 < 2 ^ 32 \<Longrightarrow> unat (a + 4) = unat a + 4"
  using unat_add_small [of a 4] by simp

definition words_at :: "u8 list \<Rightarrow> nat \<Rightarrow> nat \<Rightarrow> u32 list" where
  "words_at b i n = map (\<lambda>k. get_le32 b (i + 4 * k)) [0..<n]"

lemma words_at_Suc: "words_at b i (Suc n) = get_le32 b i # words_at b (i + 4) n"
  by (simp add: words_at_def upt_conv_Cons map_Suc_upt [symmetric] add.assoc del: upt_Suc)

lemma sum_words_ok:
  assumes "unat i + 4 * n \<le> unat (fw_data_len fw)" "unat (fw_data_len fw) < 2 ^ 31"
  shows "sum_words fw i n c = Ok (c + sum_list (words_at (fw_data fw) (unat i) n))"
  using assms(1)
proof (induction n arbitrary: i c)
  case 0
  then show ?case by (simp add: words_at_def)
next
  case (Suc n)
  have i: "unat (i + 4) = unat i + 4" using Suc.prems assms(2) by (intro unat_plus4) simp
  have "to_uint32 fw i = Ok (get_le32 (fw_data fw) (unat i))" using Suc.prems by (intro to_uint32_ok) simp
  then show ?case using Suc.IH [of "i + 4"] Suc.prems i by (simp add: words_at_Suc add.assoc)
qed

definition scan_position :: "fx3_firmware \<Rightarrow> u32 \<Rightarrow> bool" where
  \<comment> \<open>a section header, or the end of the list, can be read at this offset\<close>
  "scan_position fw offset \<longleftrightarrow> unat (fw_data_len fw) < 2 ^ 31 \<and> 4 dvd unat (fw_data_len fw) \<and> 4 dvd unat offset \<and>
     unat offset + 8 \<le> unat (fw_data_len fw)"

lemma scan_section_cases:
  assumes "scan_position fw offset" "checksum_off = fw_data_len fw - 4" "4 \<le> unat (fw_data_len fw)"
  defines "w \<equiv> get_le32 (fw_data fw) (unat offset)" and "x \<equiv> get_le32 (fw_data fw) (unat offset + 4)"
  shows "scan_section checksum_off offset c fw =
    (if w > FX3_RAM_SIZE_WORDS then Scan_Fails (Err BLADERF_ERR_INVAL)
     else if w = 0 then
       if is_valid_fx3_ram_addr x 0 then Scan_Done (offset + 8) c (fw\<lparr>fw_entry_addr := x\<rparr>)
       else Scan_Fails (Err BLADERF_ERR_INVAL)
     else if \<not> is_valid_fx3_ram_addr x (w * 4) then Scan_Fails (Err BLADERF_ERR_INVAL)
     else if unat offset + 16 + 4 * unat w \<le> unat (fw_data_len fw)
     then Scan_More (offset + 8 + w * 4) (c + sum_list (words_at (fw_data fw) (unat offset + 8) (unat w)))
       (fw\<lparr>fw_num_sections := fw_num_sections fw + 1\<rparr>)
     else Scan_Fails (Err BLADERF_ERR_INVAL))"
proof -
  let ?n = "unat (fw_data_len fw)"
  have n: "?n < 2 ^ 31" "4 dvd ?n" "4 dvd unat offset" "unat offset + 8 \<le> ?n" using assms(1) by (auto simp: scan_position_def)
  have co: "unat checksum_off = ?n - 4" unfolding assms(2) using assms(3) by (simp add: unat_sub word_le_nat_alt)
  have o4: "unat (offset + 4) = unat offset + 4" using n by (intro unat_plus4) simp
  have e8: "offset + 4 + 4 = offset + 8" by simp
  have o8: "unat (offset + 8) = unat offset + 8" using n unat_add_small [of offset 8] by simp
  have r: "to_uint32 fw offset = Ok w" "to_uint32 fw (offset + 4) = Ok x"
    using n o4 to_uint32_ok [of offset fw] to_uint32_ok [of "offset + 4" fw] by (simp_all add: w_def x_def)
  show ?thesis
  proof (cases "w > FX3_RAM_SIZE_WORDS")
    case True
    then show ?thesis by (simp add: scan_section_def r bind_scan_def)
  next
    case False
    then have uw: "unat w \<le> 65536" by (simp add: FX3_RAM_SIZE_WORDS_def word_less_nat_alt)
    have w4: "unat (w * 4) = 4 * unat w" using uw by (simp add: unat_word_ariths)
    then have z: "w * 4 = 0 \<longleftrightarrow> w = 0" by (simp add: unat_eq_0 [symmetric])
    have nx: "unat (offset + 8 + w * 4) = unat offset + 8 + 4 * unat w"
      using n uw w4 o8 unat_add_small [of "offset + 8" "4 * unat w"] by (simp add: mult.commute)
    have ge: "checksum_off \<le> offset + 8 + w * 4 \<longleftrightarrow> \<not> unat offset + 16 + 4 * unat w \<le> ?n"
      "checksum_off \<le> offset + 8 \<longleftrightarrow> \<not> unat offset + 16 \<le> ?n"
    proof -
      obtain a b where "?n = 4 * a" "unat offset = 4 * b" using n(2,3) by (auto elim!: dvdE)
      then show "checksum_off \<le> offset + 8 + w * 4 \<longleftrightarrow> \<not> unat offset + 16 + 4 * unat w \<le> ?n"
        "checksum_off \<le> offset + 8 \<longleftrightarrow> \<not> unat offset + 16 \<le> ?n"
        using assms(3) unfolding word_le_nat_alt nx o8 co by arith+
    qed
    have sum: "sum_words fw (offset + 8) (unat w) c = Ok (c + sum_list (words_at (fw_data fw) (unat offset + 8) (unat w)))"
      if "unat offset + 16 + 4 * unat w \<le> ?n"
      using sum_words_ok [of "offset + 8" "unat w" fw c] that n(1) o8 by simp
    have cnt: "(unat (offset + 8 + w * 4) - unat (offset + 8) + 3) div 4 = unat w" unfolding nx o8 by simp
    show ?thesis
      unfolding scan_section_def r bind_scan_def Let_def outcome.case e8 unfolding z cnt ge
      using False sum by auto
  qed
qed

lemma scan_loop_total:
  assumes "scan_position fw offset" "checksum_off = fw_data_len fw - 4"
  shows "\<exists>r. scan_loop checksum_off offset c fw = Some r \<and> (r = Err BLADERF_ERR_INVAL \<or> (\<exists>fw'. r = Ok fw'))"
  using assms
proof (induction "unat (fw_data_len fw) - unat offset" arbitrary: offset c fw rule: less_induct)
  case less
  let ?n = "unat (fw_data_len fw)"
  have n4: "4 \<le> ?n" and pos: "4 dvd ?n" "4 dvd unat offset" "?n < 2 ^ 31" using less.prems(1) by (auto simp: scan_position_def)
  note step = scan_section_cases [OF less.prems n4, of c]
  show ?case
  proof (cases "scan_section checksum_off offset c fw")
    case (Scan_More offset' c' fw')
    define w where "w = get_le32 (fw_data fw) (unat offset)"
    have w: "w \<noteq> 0" "unat w \<le> 65536" "unat offset + 16 + 4 * unat w \<le> ?n" "offset' = offset + 8 + w * 4" "fw_data_len fw' = fw_data_len fw"
      using step unfolding Scan_More w_def by (auto simp: FX3_RAM_SIZE_WORDS_def word_less_nat_alt split: if_splits)
    have "unat (w * 4) = 4 * unat w" using w(2) by (simp add: unat_word_ariths)
    then have o: "unat offset' = unat offset + 8 + 4 * unat w"
      unfolding w(4) using w(3) pos(3) unat_add_small [of offset 8] unat_add_small [of "offset + 8" "4 * unat w"]
      by (simp add: mult.commute)
    moreover have "0 < unat w" using w(1) by (simp add: unat_gt_0)
    ultimately have "scan_position fw' offset'" "unat (fw_data_len fw') - unat offset' < ?n - unat offset"
      using w(3,5) pos less.prems(1) by (auto simp: scan_position_def)
    then show ?thesis
      using less.hyps [of fw' offset' c'] less.prems(2) w(5) Scan_More by (subst scan_loop.simps) simp
  next
    case (Scan_Done offset' c' fw')
    have "fw_data_len fw' = fw_data_len fw" using step unfolding Scan_Done by (auto split: if_splits)
    moreover have "unat checksum_off + 4 \<le> ?n" unfolding less.prems(2) using n4 by (simp add: unat_sub word_le_nat_alt)
    ultimately show ?thesis
      using Scan_Done to_uint32_ok [of checksum_off fw'] by (subst scan_loop.simps) simp
  next
    case (Scan_Fails e)
    have "e = Err BLADERF_ERR_INVAL" using step unfolding Scan_Fails by (auto split: if_splits)
    then show ?thesis using Scan_Fails by (subst scan_loop.simps) simp
  qed
qed



text \<open>A file of 12 or 16 bytes passes the length check and fails the assertion of the scan; and one
  right signature byte is enough.\<close>

lemma fx3_short_file_aborts:
  assumes "length buf = 12 \<or> length buf = 16" "buf ! 0 = 67" "buf ! 3 = FX3_IMAGE_TYPE_NORMAL"
  shows "fx3_fw_parse buf = Some Undef"
  using assms by (auto simp: fx3_fw_parse_def FX3_HDR_LEN_def scan_fw_sections_def FX3_HDR_IMAGE_DATA0_IDX_def)

section \<open>Images\<close>

type_synonym fx3_section = "u32 \<times> u32 list"

definition le32 :: "u32 \<Rightarrow> u8 list" where
  "le32 w = map (\<lambda>i. byte_of i w) [0, 1, 2, 3]"

definition section_data :: "fx3_section \<Rightarrow> u8 list" where
  "section_data sec = concat (map le32 (snd sec))"

definition section_bytes :: "fx3_section \<Rightarrow> u8 list" where
  "section_bytes sec = le32 (of_nat (length (snd sec))) @ le32 (fst sec) @ section_data sec"

definition section_ok :: "fx3_section \<Rightarrow> bool" where
  "section_ok sec \<longleftrightarrow> snd sec \<noteq> [] \<and> length (snd sec) \<le> 65536 \<and>
     is_valid_fx3_ram_addr (fst sec) (of_nat (length (snd sec)) * 4)"

definition sections_sum :: "fx3_section list \<Rightarrow> u32" where
  "sections_sum secs = sum_list (concat (map snd secs))"

definition fx3_image :: "u8 list \<Rightarrow> fx3_section list \<Rightarrow> u32 \<Rightarrow> u8 list" where
  "fx3_image hdr secs entry =
     hdr @ concat (map section_bytes secs) @ le32 0 @ le32 entry @ le32 (sections_sum secs)"

definition image_header_ok :: "u8 list \<Rightarrow> bool" where
  "image_header_ok hdr \<longleftrightarrow> length hdr = 4 \<and> hdr ! 0 = 67 \<and> hdr ! 1 = 89 \<and> hdr ! 3 = FX3_IMAGE_TYPE_NORMAL"

lemma length_le32 [simp]: "length (le32 w) = 4"
  by (simp add: le32_def)

lemma get_le32_at: "length pre = n \<Longrightarrow> get_le32 (pre @ le32 w @ post) n = w"
  using le32_bytes [of w] by (auto simp: get_le32_def le32_def nth_append)

lemma length_section_data [simp]: "length (section_data sec) = 4 * length (snd sec)"
proof -
  have "length (concat (map le32 ws)) = 4 * length ws" for ws by (induction ws) simp_all
  then show ?thesis by (simp add: section_data_def)
qed

lemma length_section_bytes [simp]: "length (section_bytes sec) = 8 + 4 * length (snd sec)"
  by (simp add: section_bytes_def)

lemma words_at_section: "length pre = n \<Longrightarrow> words_at (pre @ concat (map le32 ws) @ post) n (length ws) = ws"
proof (induction ws arbitrary: pre n)
  case (Cons w ws)
  then show ?case
    using Cons.IH [of "pre @ le32 w" "n + 4"] get_le32_at [OF Cons.prems, of w "concat (map le32 ws) @ post"]
    by (simp add: words_at_Suc)
qed (simp add: words_at_def)

lemma section_fields:
  assumes "length pre = n"
  shows "get_le32 (pre @ section_bytes sec @ post) n = of_nat (length (snd sec))"
    "get_le32 (pre @ section_bytes sec @ post) (n + 4) = fst sec"
    "words_at (pre @ section_bytes sec @ post) (n + 8) (length (snd sec)) = snd sec"
    "take (4 * length (snd sec)) (drop (n + 8) (pre @ section_bytes sec @ post)) = section_data sec"
proof -
  let ?l = "le32 (of_nat (length (snd sec)))" and ?a = "le32 (fst sec)"
  show "get_le32 (pre @ section_bytes sec @ post) n = of_nat (length (snd sec))"
    using get_le32_at [OF assms, of _ "?a @ section_data sec @ post"] by (simp add: section_bytes_def)
  show "get_le32 (pre @ section_bytes sec @ post) (n + 4) = fst sec"
    using get_le32_at [of "pre @ ?l" "n + 4" "fst sec" "section_data sec @ post"] assms by (simp add: section_bytes_def)
  show "words_at (pre @ section_bytes sec @ post) (n + 8) (length (snd sec)) = snd sec"
    using words_at_section [of "pre @ ?l @ ?a" "n + 8" "snd sec" post] assms by (simp add: section_bytes_def section_data_def)
  have "pre @ section_bytes sec @ post = (pre @ ?l @ ?a) @ section_data sec @ post" by (simp add: section_bytes_def)
  moreover have "length (pre @ ?l @ ?a) = n + 8" using assms by simp
  ultimately have "drop (n + 8) (pre @ section_bytes sec @ post) = section_data sec @ post" by (metis append_eq_conv_conj)
  then show "take (4 * length (snd sec)) (drop (n + 8) (pre @ section_bytes sec @ post)) = section_data sec" by simp
qed

definition holds_data :: "u8 list \<Rightarrow> fx3_firmware \<Rightarrow> bool" where
  "holds_data data fw \<longleftrightarrow> fw_data fw = data \<and> fw_data_len fw = of_nat (length data) \<and> length data < 2 ^ 31 \<and> 4 dvd length data"

lemma holds_data_len: "holds_data data fw \<Longrightarrow> unat (fw_data_len fw) = length data"
  by (simp add: holds_data_def unat_of_nat)

lemma scan_image:
  assumes "holds_data (pre @ concat (map section_bytes secs) @ le32 0 @ le32 entry @ le32 (c + sections_sum secs)) fw"
    and "\<forall>sec \<in> set secs. section_ok sec" "is_valid_fx3_ram_addr entry 0" "4 dvd length pre"
  shows "scan_loop (fw_data_len fw - 4) (of_nat (length pre)) c fw =
    Some (Ok (fw\<lparr>fw_num_sections := fw_num_sections fw + of_nat (length secs), fw_entry_addr := entry,
      fw_section_offset := 4\<rparr>))"
  using assms
proof (induction secs arbitrary: pre c fw)
  case Nil
  let ?d = "pre @ le32 0 @ le32 entry @ le32 c"
  have h: "holds_data ?d fw" using Nil.prems(1) by (simp add: sections_sum_def)
  note len = holds_data_len [OF h]
  have lt: "length pre < 2 ^ 31" using h by (simp add: holds_data_def)
  have off: "unat (of_nat (length pre) :: u32) = length pre" using lt by (simp add: unat_of_nat)
  have g: "get_le32 ?d (length pre) = 0" "get_le32 ?d (length pre + 4) = entry" "get_le32 ?d (length pre + 8) = c"
    using get_le32_at [of pre _ 0] get_le32_at [of "pre @ le32 0" "length pre + 4" entry]
      get_le32_at [of "pre @ le32 0 @ le32 entry" "length pre + 8" c "[]"] by simp_all
  have pos: "scan_position fw (of_nat (length pre))" using h Nil.prems(4) len off by (simp add: scan_position_def holds_data_def)
  have fd: "fw_data fw = ?d" "length ?d = length pre + 12" using h by (simp_all add: holds_data_def)
  have end_off: "of_nat (length pre) + 8 = fw_data_len fw - 4" using h by (simp add: holds_data_def)
  have "unat (fw_data_len fw - 4) = length pre + 8" using len fd(2) by (simp add: unat_sub word_le_nat_alt)
  then have rd: "to_uint32 (fw\<lparr>fw_entry_addr := entry\<rparr>) (fw_data_len fw - 4) = Ok c"
    using len fd g(3) by (simp add: to_uint32_def)
  have "scan_section (fw_data_len fw - 4) (of_nat (length pre)) c fw =
      Scan_Done (fw_data_len fw - 4) c (fw\<lparr>fw_entry_addr := entry\<rparr>)"
    using scan_section_cases [OF pos refl, of c] len fd off g Nil.prems(3) end_off by simp
  then show ?case using rd by (subst scan_loop.simps) (simp add: FX3_HDR_IMAGE_LEN0_IDX_def)
next
  case (Cons sec secs)
  let ?w = "of_nat (length (snd sec)) :: u32"
  let ?post = "concat (map section_bytes secs) @ le32 0 @ le32 entry @ le32 (c + sections_sum (sec # secs))"
  let ?d = "pre @ section_bytes sec @ ?post"
  have h: "holds_data ?d fw" using Cons.prems(1) by simp
  have sec: "snd sec \<noteq> []" "length (snd sec) \<le> 65536" "is_valid_fx3_ram_addr (fst sec) (?w * 4)"
    using Cons.prems(2) by (simp_all add: section_ok_def)
  note len = holds_data_len [OF h]
  have lt: "length pre < 2 ^ 31" using h by (simp add: holds_data_def)
  have off: "unat (of_nat (length pre) :: u32) = length pre" using lt by (simp add: unat_of_nat)
  have uw: "unat ?w = length (snd sec)" using sec(2) by (simp add: unat_of_nat)
  have pos: "scan_position fw (of_nat (length pre))" using h Cons.prems(4) len off by (simp add: scan_position_def holds_data_def)
  have fd: "fw_data fw = ?d" using h by (simp add: holds_data_def)
  have room: "length pre + 16 + 4 * length (snd sec) \<le> length ?d" by simp
  have w0: "?w \<noteq> 0" using sec(1) uw by auto
  have wr: "\<not> FX3_RAM_SIZE_WORDS < ?w" using sec(2) uw by (simp add: FX3_RAM_SIZE_WORDS_def word_less_nat_alt)
  let ?fw' = "fw\<lparr>fw_num_sections := fw_num_sections fw + 1\<rparr>"
  let ?pre' = "pre @ section_bytes sec"
  have "scan_section (fw_data_len fw - 4) (of_nat (length pre)) c fw =
      Scan_More (of_nat (length pre) + 8 + ?w * 4) (c + sum_list (snd sec)) ?fw'"
    using scan_section_cases [OF pos refl, of c] len room wr w0 sec(3)
    unfolding fd off section_fields [OF refl] uw by simp
  moreover have "(of_nat (length pre) + 8 + ?w * 4 :: u32) = of_nat (length ?pre')" by (simp add: mult.commute)
  moreover have "holds_data (?pre' @ concat (map section_bytes secs) @ le32 0 @ le32 entry @
      le32 ((c + sum_list (snd sec)) + sections_sum secs)) ?fw'"
    using h by (simp add: holds_data_def sections_sum_def add.assoc)
  then have "scan_loop (fw_data_len ?fw' - 4) (of_nat (length ?pre')) (c + sum_list (snd sec)) ?fw' =
    Some (Ok (?fw'\<lparr>fw_num_sections := fw_num_sections ?fw' + of_nat (length secs), fw_entry_addr := entry,
      fw_section_offset := 4\<rparr>))"
    using Cons.prems(2-4) by (intro Cons.IH) (simp_all add: dvd_add)
  ultimately show ?case by (subst scan_loop.simps) (simp add: add.assoc mult.commute)
qed

section \<open>Loading an image\<close>

fun store_bytes :: "u32 \<Rightarrow> u8 list \<Rightarrow> (u32 \<Rightarrow> u8) \<Rightarrow> u32 \<Rightarrow> u8" where
  "store_bytes a [] ram = ram"
| "store_bytes a (b # bs) ram = store_bytes (a + 1) bs (ram(a := b))"

definition boot_rom :: "'s boot_requests \<Rightarrow> ('s \<Rightarrow> u32 \<Rightarrow> u8) \<Rightarrow> ('s \<Rightarrow> u32 option) \<Rightarrow> bool" where
  \<comment> \<open>the vendor request of the FX3 boot loader: data is stored at the address of \<^verbatim>\<open>wIndex:wValue\<close>
    and can be read back, an empty request starts the firmware, and the device may then vanish\<close>
  "boot_rom bl ram booted \<longleftrightarrow>
     (\<forall>lo hi data s. data \<noteq> [] \<longrightarrow> length data \<le> FX3_BOOTLOADER_MAX_LOAD_LEN \<longrightarrow>
        (\<exists>s'. bl_out bl lo hi data s = (Ok (), s') \<and> booted s' = booted s \<and>
          ram s' = store_bytes (push_bit 16 (ucast hi) OR ucast lo) data (ram s))) \<and>
     (\<forall>lo hi n s. \<exists>s'. bl_in bl lo hi n s =
          (Ok (map (\<lambda>i. ram s ((push_bit 16 (ucast hi) OR ucast lo) + of_nat i)) [0..<n]), s') \<and>
        booted s' = booted s \<and> ram s' = ram s) \<and>
     (\<forall>lo hi s. \<exists>r s'. bl_out bl lo hi [] s = (r, s') \<and> (r = Ok () \<or> r = Err BLADERF_ERR_IO) \<and>
        booted s' = Some (push_bit 16 (ucast hi) OR ucast lo) \<and> ram s' = ram s)"

lemma boot_address:
  "push_bit 16 (ucast (FX3_BOOTLOADER_ADDR_WINDEX a)) OR ucast (FX3_BOOTLOADER_ADDR_WVALUE a) = a"
  unfolding FX3_BOOTLOADER_ADDR_WINDEX_def FX3_BOOTLOADER_ADDR_WVALUE_def
proof -
  have m: "(65535 :: u32) = mask 16" by (simp add: mask_eq_exp_minus_1)
  show "push_bit 16 (ucast (ucast (drop_bit 16 a AND 0xffff) :: u16)) OR ucast (ucast (a AND 0xffff) :: u16) = a"
    unfolding m by (rule bit_word_eqI) (auto simp: bit_simps dest: bit_imp_le_length)
qed

lemma store_bytes_append: "store_bytes a (xs @ ys) ram = store_bytes (a + of_nat (length xs)) ys (store_bytes a xs ram)"
  by (induction xs arbitrary: a ram) (simp_all add: ac_simps)

lemma store_bytes_before: "k + length bs < 2 ^ 32 \<Longrightarrow> 0 < k \<Longrightarrow> store_bytes (a + of_nat k) bs ram a = ram a"
proof (induction bs arbitrary: k ram)
  case (Cons b bs)
  have "of_nat k \<noteq> (0 :: u32)" using Cons.prems by (auto simp: word_of_nat_eq_0_iff dest: dvd_imp_le)
  then have "(ram(a + of_nat k := b)) a = ram a" by simp
  moreover have "a + of_nat k + 1 = a + of_nat (Suc k)" by simp
  ultimately show ?case
    using Cons.IH [of "Suc k" "ram(a + of_nat k := b)"] Cons.prems by (simp only: store_bytes.simps list.size)
qed simp

lemma load_stored:
  "length bs < 2 ^ 32 \<Longrightarrow> map (\<lambda>i. store_bytes a bs ram (a + of_nat i)) [0..<length bs] = bs"
proof (induction bs arbitrary: a ram)
  case (Cons b bs)
  have first: "store_bytes a (b # bs) ram a = b" using store_bytes_before [of 1 bs a "ram(a := b)"] Cons.prems by simp
  have rest: "map (\<lambda>i. store_bytes a (b # bs) ram (a + of_nat i)) [Suc 0..<Suc (length bs)] =
      map (\<lambda>i. store_bytes (a + 1) bs (ram(a := b)) (a + 1 + of_nat i)) [0..<length bs]"
    by (simp add: map_Suc_upt [symmetric] add.assoc del: upt_Suc)
  have "map (\<lambda>i. store_bytes a (b # bs) ram (a + of_nat i)) [0..<length (b # bs)] =
      store_bytes a (b # bs) ram a # map (\<lambda>i. store_bytes a (b # bs) ram (a + of_nat i)) [Suc 0..<Suc (length bs)]"
    by (simp add: upt_conv_Cons del: upt_Suc store_bytes.simps)
  also have "\<dots> = b # bs" unfolding first rest using Cons.prems by (subst Cons.IH) simp_all
  finally show ?case .
qed simp

lemma write_chunk_rom:
  assumes "boot_rom bl ram booted" "data \<noteq> []" "length data \<le> FX3_BOOTLOADER_MAX_LOAD_LEN"
  shows "\<exists>s'. write_and_verify_fw_chunk bl addr data s = (Ok (), s') \<and> booted s' = booted s \<and>
    ram s' = store_bytes addr data (ram s)"
proof -
  let ?lo = "FX3_BOOTLOADER_ADDR_WVALUE addr" and ?hi = "FX3_BOOTLOADER_ADDR_WINDEX addr"
  obtain s1 where s1: "bl_out bl ?lo ?hi data s = (Ok (), s1)" "booted s1 = booted s" "ram s1 = store_bytes addr data (ram s)"
    using assms boot_address [of addr] unfolding boot_rom_def by metis
  obtain s2 where s2: "bl_in bl ?lo ?hi (length data) s1 =
      (Ok (map (\<lambda>i. ram s1 (addr + of_nat i)) [0..<length data]), s2)" "booted s2 = booted s1" "ram s2 = ram s1"
    using assms(1) boot_address [of addr] unfolding boot_rom_def by metis
  have "map (\<lambda>i. ram s1 (addr + of_nat i)) [0..<length data] = data"
    unfolding s1(3) using assms(3) by (intro load_stored) (simp add: FX3_BOOTLOADER_MAX_LOAD_LEN_def)
  then have "write_and_verify_fw_chunk bl addr data s = (Ok (), s2)"
    using s1(1) s2(1) by (simp add: write_and_verify_fw_chunk_def iosimps)
  then show ?thesis using s1 s2 by auto
qed

lemma write_section_rom:
  assumes "boot_rom bl ram booted"
  shows "data \<noteq> [] \<Longrightarrow> \<exists>s'. write_fw_section bl addr data s = (Ok (), s') \<and> booted s' = booted s \<and>
    ram s' = store_bytes addr data (ram s)"
proof (induction data arbitrary: addr s rule: length_induct)
  case (1 data)
  let ?m = "FX3_BOOTLOADER_MAX_LOAD_LEN"
  let ?n = "min (length data) ?m"
  have m: "0 < ?m" by (simp add: FX3_BOOTLOADER_MAX_LOAD_LEN_def)
  obtain s1 where s1: "write_and_verify_fw_chunk bl addr (take ?n data) s = (Ok (), s1)" "booted s1 = booted s"
    "ram s1 = store_bytes addr (take ?n data) (ram s)"
    using write_chunk_rom [OF assms, of "take ?n data" addr s] 1(2) m by auto
  show ?case
  proof (cases "length data \<le> ?m")
    case True
    then show ?thesis using s1 by (subst write_fw_section.simps) (simp add: Let_def iosimps)
  next
    case False
    let ?rest = "drop ?n data"
    have "length ?rest < length data" "?rest \<noteq> []" using False m by simp_all
    then obtain s2 where s2: "write_fw_section bl (addr + of_nat ?n) ?rest s1 = (Ok (), s2)" "booted s2 = booted s1"
      "ram s2 = store_bytes (addr + of_nat ?n) ?rest (ram s1)" using 1(1) by blast
    have "ram s2 = store_bytes addr (take ?n data @ ?rest) (ram s)"
      unfolding s2(3) s1(3) store_bytes_append using False by simp
    moreover have "write_fw_section bl addr data s = (Ok (), s2)"
      using False s1(1) s2(1) by (subst write_fw_section.simps) (simp add: Let_def iosimps)
    ultimately show ?thesis using s1(2) s2(2) by simp
  qed
qed

lemma next_section_image:
  assumes "holds_data (pre @ section_bytes sec @ post) fw" "section_ok sec" "12 \<le> length post"
    and "fw_section_offset fw = of_nat (length pre)" "fw_curr_section fw < fw_num_sections fw"
  shows "fx3_fw_next_section fw = Ok (Some (fst sec, section_data sec),
    fw\<lparr>fw_section_offset := of_nat (length (pre @ section_bytes sec)), fw_curr_section := fw_curr_section fw + 1\<rparr>)"
proof -
  let ?d = "pre @ section_bytes sec @ post" and ?w = "of_nat (length (snd sec)) :: u32"
  let ?o = "of_nat (length pre) :: u32"
  note len = holds_data_len [OF assms(1)]
  have lt: "length ?d < 2 ^ 31" and fd: "fw_data fw = ?d" using assms(1) by (simp_all add: holds_data_def)
  have sec: "snd sec \<noteq> []" "length (snd sec) \<le> 65536" using assms(2) by (simp_all add: section_ok_def)
  have off: "unat ?o = length pre" using lt by (simp add: unat_of_nat)
  have o4: "unat (?o + 4) = length pre + 4" using lt off unat_add_small [of ?o 4] by simp
  have o8: "unat (?o + 4 + 4) = length pre + 8" using lt off unat_add_small [of ?o 8] by (simp add: add.commute)
  have uw: "unat ?w = length (snd sec)" using sec(2) by (simp add: unat_of_nat)
  have w4: "unat (?w * 4) = 4 * length (snd sec)" using uw sec(2) by (simp add: unat_word_ariths)
  have nz: "?w * 4 \<noteq> 0" using w4 sec(1) by (auto simp: unat_eq_0 [symmetric])
  have nx: "unat (?o + 4 + 4 + ?w * 4) = length (pre @ section_bytes sec)"
    using lt o8 w4 unat_add_small [of "?o + 4 + 4" "4 * length (snd sec)"] by (simp add: mult.commute)
  have mo: "unat (fw_data_len fw - 4) = length ?d - 4" using len assms(3) by (simp add: unat_sub word_le_nat_alt)
  have rd: "to_uint32 fw ?o = Ok ?w" "to_uint32 fw (?o + 4) = Ok (fst sec)"
    using len fd off o4 section_fields(1,2) [OF refl, of pre sec post] by (simp_all add: to_uint32_def)
  have lts: "?o + 4 < fw_data_len fw - 4" "?o + 4 + 4 < fw_data_len fw - 4" "?o + 4 + 4 + ?w * 4 < fw_data_len fw - 4"
    unfolding word_less_nat_alt mo o4 o8 nx using assms(3) sec(1) by auto
  have "take (unat (?w * 4)) (drop (unat (?o + 4 + 4)) (fw_data fw)) = section_data sec"
    unfolding w4 o8 fd by (rule section_fields(4)) simp
  moreover have "?o + 4 + 4 + ?w * 4 = of_nat (length (pre @ section_bytes sec))" by (simp add: mult.commute)
  moreover have "\<not> fw_num_sections fw \<le> fw_curr_section fw" using assms(5) by (simp add: not_le)
  ultimately show ?thesis
    using nz lts unfolding fx3_fw_next_section_def Let_def assms(4) rd outcome.case by simp
qed

lemma load_image:
  assumes "boot_rom bl ram booted"
    and "holds_data (pre @ concat (map section_bytes secs) @ post) fw" "\<forall>sec \<in> set secs. section_ok sec" "12 \<le> length post"
    and "fw_section_offset fw = of_nat (length pre)" "unat (fw_num_sections fw) = unat (fw_curr_section fw) + length secs"
  shows "\<exists>s'. write_fw_to_bootloader bl fw s = Some (Ok (), s') \<and> booted s' = Some (fw_entry_addr fw) \<and>
    ram s' = fold (\<lambda>sec. store_bytes (fst sec) (section_data sec)) secs (ram s)"
  using assms(2-6)
proof (induction secs arbitrary: pre fw s)
  case Nil
  then have "fx3_fw_next_section fw = Ok (None, fw)" by (simp add: fx3_fw_next_section_def Let_def word_le_nat_alt)
  moreover obtain r s' where "bl_out bl (FX3_BOOTLOADER_ADDR_WVALUE (fw_entry_addr fw))
      (FX3_BOOTLOADER_ADDR_WINDEX (fw_entry_addr fw)) [] s = (r, s')" "r = Ok () \<or> r = Err BLADERF_ERR_IO"
    "booted s' = Some (fw_entry_addr fw)" "ram s' = ram s"
    using assms(1) boot_address [of "fw_entry_addr fw"] unfolding boot_rom_def by metis
  ultimately show ?case
    by (subst write_fw_to_bootloader.simps)
      (auto simp: execute_fw_from_bootloader_def fx3_fw_entry_point_def attempt_def iosimps)
next
  case (Cons sec secs)
  let ?fw' = "fw\<lparr>fw_section_offset := of_nat (length (pre @ section_bytes sec)), fw_curr_section := fw_curr_section fw + 1\<rparr>"
  have h: "holds_data (pre @ section_bytes sec @ concat (map section_bytes secs) @ post) fw" using Cons.prems(1) by simp
  have lt: "fw_curr_section fw < fw_num_sections fw" using Cons.prems(5) by (simp add: word_less_nat_alt)
  have nx: "fx3_fw_next_section fw = Ok (Some (fst sec, section_data sec), ?fw')"
    using Cons.prems lt by (intro next_section_image [OF h]) simp_all
  have "snd sec \<noteq> []" using Cons.prems(2) by (simp add: section_ok_def)
  then have ne: "section_data sec \<noteq> []" using length_section_data [of sec] by (metis length_0_conv mult_is_0 zero_neq_numeral)
  then obtain s1 where s1: "write_fw_section bl (fst sec) (section_data sec) s = (Ok (), s1)" "booted s1 = booted s"
    "ram s1 = store_bytes (fst sec) (section_data sec) (ram s)" using write_section_rom [OF assms(1)] by blast
  have "unat (fw_curr_section fw + 1) = unat (fw_curr_section fw) + 1"
  proof -
    have "unat (fw_num_sections fw) < 4294967296" using unsigned_less [of "fw_num_sections fw"] by simp
    then show ?thesis using lt unat_add_small [of "fw_curr_section fw" 1] by (simp add: word_less_nat_alt)
  qed
  then have "\<exists>s'. write_fw_to_bootloader bl ?fw' s1 = Some (Ok (), s') \<and> booted s' = Some (fw_entry_addr ?fw') \<and>
      ram s' = fold (\<lambda>sec. store_bytes (fst sec) (section_data sec)) secs (ram s1)"
    using Cons.prems h by (intro Cons.IH [of "pre @ section_bytes sec"]) (simp_all add: holds_data_def)
  then show ?case
    using nx ne s1 by (subst write_fw_to_bootloader.simps) simp
qed


definition ram_rom :: "((u32 \<Rightarrow> u8) \<times> u32 option) boot_requests" where
  "ram_rom = \<lparr>bl_out = (\<lambda>lo hi data (ram, booted).
       let a = push_bit 16 (ucast hi) OR ucast lo in
       if data = [] then (Err BLADERF_ERR_IO, (ram, Some a)) else (Ok (), (store_bytes a data ram, booted))),
     bl_in = (\<lambda>lo hi n (ram, booted).
       (Ok (map (\<lambda>i. ram ((push_bit 16 (ucast hi) OR ucast lo) + of_nat i)) [0..<n]), (ram, booted)))\<rparr>"

lemma ram_rom_ok: "boot_rom ram_rom fst snd"
  unfolding boot_rom_def ram_rom_def by (auto simp: Let_def split: prod.splits)


end
