(* ===== verification/Spec2Isabelle.thy ===== *)
theory Spec2Isabelle
  imports Nios_Link Lms_Calibration Retune_Packet Si5338_Link Stream_Buffers Sync_Submit Sync_Samples
    Flash_Files Flash_Regions Fx3_Load
begin

text \<open>
  Verification of the bladeRF control path: the host library's register access over USB, the
  firmware of the FPGA's NIOS II processor, the LMS6002D transceiver driver, the Si5338 clock
  driver and the scheduled retunes, for the bladeRF1 build; and of the host library's streams, flash
  and firmware images.

  \<^bold>\<open>The program.\<close> An API call of libbladeRF becomes register accesses. A host driver (here
  \<^verbatim>\<open>fpga_common/src/lms.c\<close>) calls the backend's accessors (\<^verbatim>\<open>backend/usb/nios_access.c\<close>), which
  pack a 16-byte request (\<^verbatim>\<open>fpga_common/include/nios_pkt_*.h\<close>) and run a USB transaction
  (\<^verbatim>\<open>backend/usb/nios_transaction.c\<close>). The firmware (\<^verbatim>\<open>bladeRF_nios/src\<close>) receives the request
  byte by byte, dispatches it on its magic byte to a packet handler (\<^verbatim>\<open>pkt_8x8.c\<close> and its
  siblings), which reads or writes a device register (\<^verbatim>\<open>devices.c\<close>) and answers with a 16-byte
  response. The transaction layer accepts a response only when it echoes the request; otherwise it
  closes the channel. Retunes can be scheduled for a timestamp: the firmware queues them and a
  worker and an interrupt handler share the queue (\<^verbatim>\<open>pkt_retune.c\<close>).

  \<^bold>\<open>Effects.\<close> A C function that talks to a device is a function from a state to an outcome and a
  state (\<open>('s, 'a) io\<close>): \<open>Ok\<close> a result, \<open>Err\<close> a status code, or \<open>Undef\<close> where the C code has a failed
  assertion or undefined behaviour. \<open>seq\<close> is the early return on a nonzero status, \<open>attempt\<close> a call
  whose status is inspected. Registers and counters are words of the width the source has.

  \<^bold>\<open>Theories.\<close>
  \<^item> \<open>Bladerf_Prelude\<close>: words, byte order, status codes, the effect combinators and their lemmas.
  \<^item> \<open>Nios_Pkt\<close>, \<open>Nios_Pkt_Ext\<close>: the packet formats (\<^verbatim>\<open>nios_pkt_8x8.h\<close>, \<dots>, \<^verbatim>\<open>nios_pkt_32x32.h\<close>) with
    the pack/unpack laws.
  \<^item> \<open>Nios_Match\<close>: which responses match which request (\<^verbatim>\<open>nios_transaction.c\<close>).
  \<^item> \<open>Nios_Transaction\<close>: the transaction with its pending requests, deadlines and response loop;
    safety, accounting of errors, invariant and termination.
  \<^item> \<open>Nios_Devices\<close>, \<open>Nios_Firmware\<close>: device registers over an abstract bus, the SPI arbiter, the
    packet handlers and the dispatch.
  \<^item> \<open>Nios_Access\<close>, \<open>Nios_Access_Ops\<close>: the host's accessors (\<^verbatim>\<open>nios_access.c\<close>).
  \<^item> \<open>Nios_Link\<close>: host and firmware composed over the UART link; register accesses refine accesses
    to the chip.
  \<^item> \<open>Lms_Base\<close>: the contract of a register file as a locale, interpreted on the whole stack, so
    that driver properties proved against the contract hold end to end. \<open>Lms_Analog\<close>, \<open>Lms_Tune\<close>,
    \<open>Lms_Tune_Params\<close>, \<open>Lms_Vco\<close>, \<open>Lms_Path\<close>, \<open>Lms_DcCal\<close>, \<open>Lms_Calibration\<close>: \<^verbatim>\<open>lms.c\<close> function by
    function with gain, filter, tuning, VCO, loopback and calibration properties.
  \<^item> \<open>Nios_Retune\<close>: retune packets, queues, tamer registers, interrupt handler, worker, clear
    protocol and packet handler (\<^verbatim>\<open>pkt_retune.c\<close>, \<^verbatim>\<open>nios_pkt_retune.h\<close>, \<^verbatim>\<open>band_select.c\<close>).
    \<open>Retune_Queue\<close>: the ring implements a FIFO; an inductive relation of executions interleaves
    requests, worker rounds, interrupts and clears; order, absence of early retunes and of missed
    events. \<open>Retune_Packet\<close>: round trips of the packets, and what a scheduled request drops.
  \<^item> \<open>Si5338\<close>: the clock generator driver and the SMB port (\<^verbatim>\<open>driver/si5338.c\<close>,
    \<^verbatim>\<open>driver/smb_clock.c\<close>). \<open>Si5338_Rates\<close>: its rational arithmetic and divider settings are exact.
    \<open>Si5338_Link\<close>: an I2C controller and chip behind the firmware, the stack as an instance of the
    register file contract, and the rate properties end to end.
  \<^item> \<open>Stream_Format\<close>: sample formats, packed samples, interleaving and message headers
    (\<^verbatim>\<open>streaming/format.h\<close>, \<^verbatim>\<open>streaming/metadata.h\<close>, \<^verbatim>\<open>helpers/interleave.c\<close>).
    \<open>Stream_Buffers\<close>: round trips of packing and interleaving, and the exact condition under which
    a received transfer counts as contiguous.
  \<^item> \<open>Sync_Worker\<close>, \<open>Sync_Ring\<close>: the buffer ring of the synchronous interface
    (\<^verbatim>\<open>streaming/sync_worker.c\<close>, \<^verbatim>\<open>streaming/sync.c\<close>), the callbacks of the worker and the ring
    operations of reader and writer. \<open>Sync_Order\<close>: an inductive relation of runs, the ownership
    invariant of the slots, delivery in submission order, and a run that loses a completion.
    \<open>Sync_Submit\<close>: an interleaving in which transmit buffers overtake each other.
  \<^item> \<open>Sync_Meta\<close>: the metadata parser of \<^verbatim>\<open>sync_rx\<close>, one iteration of its loop per step.
    \<open>Sync_Samples\<close>: runs of the parser over any received buffers; the samples of a read are contiguous.
  \<^item> \<open>Sha256\<close>: \<^verbatim>\<open>host/common/src/sha256.c\<close> as written. \<open>Sha256_Reference\<close>: the standard's definition, and
    that hashing in pieces computes it.
  \<^item> \<open>Flash_Fields\<close>: checksums, numbers and key-value fields of flash pages, calibration and OTP
    (\<^verbatim>\<open>board/bladerf1/flash.c\<close>). \<open>Flash_Pages\<close>: fields read back. \<open>Flash_Image\<close>: image files
    (\<^verbatim>\<open>board/bladerf1/image.c\<close>). \<open>Flash_Files\<close>: written files read back, and a calibration image gives
    back the board's values. \<open>Flash_Write\<close>: access checks, verification and the firmware and FPGA
    regions (\<^verbatim>\<open>driver/spi_flash.c\<close>, \<^verbatim>\<open>flash.c\<close>, the flash functions of \<^verbatim>\<open>bladerf1.c\<close>). \<open>Flash_Regions\<close>: what
    is in the flash after a successful write, and that the other regions keep their contents.
  \<^item> \<open>Fx3_Fw\<close>: firmware images and the boot loader (\<^verbatim>\<open>driver/fx3_fw.c\<close>, \<^verbatim>\<open>backend/usb/usb.c\<close>).
    \<open>Fx3_Load\<close>: parsing ends on every file, and a well-formed image boots.

  \<^bold>\<open>Parameters.\<close> The USB driver's transfer function, the clock, the memory-mapped bus of the FPGA
  and the analog behaviour of the transceiver (the VCO's comparator, the calibration state
  machine), the boot loader's control transfers, the backend's flash operations, the contents of
  files and the LZMA encoder are arguments of the definitions. What a property needs of them is a hypothesis of the
  property or a law of a locale, with an instance in its witness.

  \<^bold>\<open>Bounds and fuel.\<close> The response loop of a transaction takes twice the frame length as fuel, since
  every two rounds either consume a byte or leave the loop; the property on termination shows that
  it is enough. The SPI arbiter is polled at most as often as its policy header says. The VCO
  comparator is polled at most 20 times and the VCOCAP walk covers the 64 codes; both bounds are the
  source's. A DC calibration polls at most 25 times, and the retry loop, whose C form has no
  counter, is given 37 rounds, which its property shows to be enough. The section scan of a firmware
  image and the loop over its sections are partial functions, with theorems that they return. The one single precision
  computation of \<^verbatim>\<open>lms.c\<close>, the VCOCAP estimate, rounds every operation to 24 significant bits.

  \<^bold>\<open>Concurrency.\<close> The retune interrupt preempts the worker at numbered points between its accesses to
  shared state; the worker takes a function that tells at which points an interrupt is served, and
  the properties hold for all such functions.

  \<^bold>\<open>Not modelled.\<close> Logging and the debug counters; the libusb and Cypress backends (calls into
  third party libraries); the legacy packet format; the bladeRF2 build, which rests on the AD9361
  driver, a submodule that is not part of the tree; the FX3 firmware (vendor SDK); command line
  tools, bindings and tests; failing memory allocations. Of the host library, the expansion boards, the
  sample-only path and the deadlines of the streams, and the board code that composes the drivers
  are left.
\<close>

end
